(* ===== verification/Prelude.thy ===== *)
theory Prelude
  imports Main "HOL-Library.Word" "HOL-Library.AList" "HOL-Library.Sublist"
begin

text \<open>
  Shared ground of the development: the collections of proof hints, the C types the
  components share (\<open>errno\<close>, wait statuses, \<open>size_t\<close>), the GLib character classes
  and string tests the source calls, and generic lemmas on lists and options.
\<close>

unbundle bit_operations_syntax

section \<open>Hint collections\<close>

named_theorems env_simps \<open>equations of the operations that consume answers of the environment\<close>
named_theorems inv_intros \<open>preservation of the components' invariants\<close>
named_theorems frame_simps \<open>fields an operation leaves alone\<close>

section \<open>C types\<close>

type_synonym u8 = "8 word"
type_synonym u16 = "16 word"
type_synonym u32 = "32 word"
type_synonym u64 = "64 word"

text \<open>The error numbers the source distinguishes; all others are \<open>EOTHER\<close>.\<close>

datatype errno = EINTR | ECHILD | ESRCH | ENODATA | ENXIO | ENODEV | ENOENT | EOTHER nat

text \<open>The encoding of a child's status that \<open>waitpid\<close> fills in, as \<open>WIFEXITED\<close>,
  \<open>WEXITSTATUS\<close>, \<open>WIFSIGNALED\<close> and \<open>WTERMSIG\<close> read it.\<close>

definition wifexited :: "u32 \<Rightarrow> bool" where
  "wifexited st \<longleftrightarrow> st AND 127 = 0"

definition wexitstatus :: "u32 \<Rightarrow> u32" where
  "wexitstatus st = drop_bit 8 (st AND 65280)"

definition wtermsig :: "u32 \<Rightarrow> u32" where
  "wtermsig st = st AND 127"

definition wifsignaled :: "u32 \<Rightarrow> bool" where
  "wifsignaled st \<longleftrightarrow> \<not> wifexited st \<and> wtermsig st \<noteq> 127"

section \<open>Characters and strings\<close>

definition ascii_isdigit :: "char \<Rightarrow> bool" where
  "ascii_isdigit c \<longleftrightarrow> 48 \<le> (of_char c :: nat) \<and> (of_char c :: nat) \<le> 57"

definition ascii_isalpha :: "char \<Rightarrow> bool" where
  "ascii_isalpha c \<longleftrightarrow>
     (65 \<le> (of_char c :: nat) \<and> (of_char c :: nat) \<le> 90) \<or>
     (97 \<le> (of_char c :: nat) \<and> (of_char c :: nat) \<le> 122)"

text \<open>Blank, form feed, newline, carriage return and tab.\<close>

definition ascii_isspace :: "char \<Rightarrow> bool" where
  "ascii_isspace c \<longleftrightarrow> (of_char c :: nat) \<in> {9, 10, 12, 13, 32}"

section \<open>Lists\<close>

lemma last_filter_in:
  "filter P xs \<noteq> [] \<Longrightarrow> last (filter P xs) \<in> set xs \<and> P (last (filter P xs))"
  using last_in_set [of "filter P xs"] by auto

lemma find_in: "List.find P xs = Some x \<Longrightarrow> x \<in> set xs \<and> P x"
  by (induction xs) (auto split: if_splits)

lemma find_append:
  "List.find P (xs @ ys) = (case List.find P xs of None \<Rightarrow> List.find P ys | Some x \<Rightarrow> Some x)"
  by (induction xs) auto

section \<open>Words\<close>

lemma unat_of_nat_u64: "n < 2 ^ 64 \<Longrightarrow> unat (of_nat n :: u64) = n"
  by (simp add: unat_of_nat)

lemma unat_u64_less: "unat (x :: u64) < 2 ^ 64"
proof -
  have "unat x < 2 ^ LENGTH(64)" by (rule unsigned_less)
  then show ?thesis by simp
qed

lemma of_nat_u64_neq_0: "0 < n \<Longrightarrow> n < 2 ^ 64 \<Longrightarrow> (of_nat n :: u64) \<noteq> 0"
  by (metis unat_of_nat_u64 unat_0 neq0_conv)

lemma of_nat_u64_le_iff:
  "a < 2 ^ 64 \<Longrightarrow> b < 2 ^ 64 \<Longrightarrow> (of_nat a :: u64) \<le> of_nat b \<longleftrightarrow> a \<le> b"
  by (simp add: word_le_nat_alt unat_of_nat_u64)

section \<open>Decimal numbers\<close>

text \<open>The conversions \<open>%u\<close> and \<open>%d\<close> of the \<open>printf\<close> family.\<close>

fun show_nat :: "nat \<Rightarrow> string" where
  "show_nat n = (if n < 10 then [char_of (48 + n)] else show_nat (n div 10) @ [char_of (48 + n mod 10)])"

declare show_nat.simps [simp del]

definition show_int :: "int \<Rightarrow> string" where
  "show_int i = (if i < 0 then CHR ''-'' # show_nat (nat (- i)) else show_nat (nat i))"

lemma show_nat_nonempty [simp]: "show_nat n \<noteq> []"
  by (subst show_nat.simps) simp

text \<open>Reading the digits back gives the number.\<close>

definition read_nat :: "string \<Rightarrow> nat" where
  "read_nat s = foldl (\<lambda>a c. 10 * a + (of_char c - 48)) 0 s"

lemma read_show_nat: "read_nat (show_nat n) = n"
proof (induction n rule: show_nat.induct)
  case (1 n)
  show ?case
  proof (cases "n < 10")
    case True
    then show ?thesis by (subst show_nat.simps) (simp add: read_nat_def)
  next
    case False
    then show ?thesis using 1 by (subst show_nat.simps) (simp add: read_nat_def)
  qed
qed

lemma show_nat_inj: "show_nat m = show_nat n \<Longrightarrow> m = n"
  by (metis read_show_nat)

lemma digit_neq_minus: "(n::nat) < 10 \<Longrightarrow> char_of (48 + n) \<noteq> CHR ''-''"
proof
  assume "n < 10" and "char_of (48 + n) = CHR ''-''"
  then have "(of_char (char_of (48 + n) :: char) :: nat) = 45" by simp
  with \<open>n < 10\<close> show False by simp
qed

lemma show_nat_hd: "hd (show_nat n) \<noteq> CHR ''-''"
proof (induction n rule: show_nat.induct)
  case (1 n)
  show ?case
    using 1 digit_neq_minus [of n] by (cases "n < 10") (subst show_nat.simps, simp)+
qed

lemma show_int_inj: "show_int i = show_int j \<Longrightarrow> i = j"
proof -
  assume eq: "show_int i = show_int j"
  have "i < 0 \<longleftrightarrow> j < 0"
    using eq show_nat_hd [of "nat i"] show_nat_hd [of "nat j"]
    by (auto simp: show_int_def split: if_splits) (metis list.sel(1))+
  then show "i = j"
    using eq by (auto simp: show_int_def dest!: show_nat_inj split: if_splits)
qed

end
