(* ===== verification/Common_Process.thy ===== *)
theory Common_Process
  imports Prelude
begin

text \<open>
  The process and descriptor helpers of \<open>src/common/scdm-common.c\<close>: clearing the
  close-on-exec flag, the \<open>EINTR\<close> retry loops around the user database, waiting for a
  child with a bounded number of tries, and reading random bytes. A loop around a system
  call consumes the list of answers the kernel gives, one per call; an exhausted list
  (\<open>None\<close>) is a call that has not returned.
\<close>

section \<open>Close-on-exec\<close>

definition FD_CLOEXEC :: u32 where "FD_CLOEXEC = 1"

text \<open>The second component lists the \<open>F_SETFD\<close> calls made.\<close>

definition scdm_clear_close_on_exec_flag ::
  "(int \<Rightarrow> u32) \<Rightarrow> (int \<Rightarrow> u32 \<Rightarrow> u32) \<Rightarrow> int \<Rightarrow> bool \<times> (int \<times> u32) list" where
  "scdm_clear_close_on_exec_flag getfd setfd fd =
     (if fd < 0 then (False, [])
      else let flags = getfd fd in
        if sint flags < 0 then (False, [])
        else if flags AND FD_CLOEXEC \<noteq> 0 then
          (let flags' = flags AND NOT FD_CLOEXEC; status = setfd fd flags'
           in (status \<noteq> -1, [(fd, flags')]))
        else (True, []))"

section \<open>Retry on EINTR\<close>

text \<open>An answer is the entry found, if any, and \<open>errno\<close> (\<open>None\<close> for 0).\<close>

fun retry_eintr :: "('p option \<times> errno option) list \<Rightarrow> ('p option \<times> ('p option \<times> errno option) list) option"
where
  "retry_eintr [] = None"
| "retry_eintr ((p, e) # as) = (if p = None \<and> e = Some EINTR then retry_eintr as else Some (p, as))"

definition scdm_get_pwent_for_name :: "('p option \<times> errno option) list \<Rightarrow> (bool \<times> 'p option) option" where
  "scdm_get_pwent_for_name as = map_option (\<lambda>(p, _). (p \<noteq> None, p)) (retry_eintr as)"

definition scdm_get_grent_for_gid :: "('g option \<times> errno option) list \<Rightarrow> (bool \<times> 'g option) option" where
  "scdm_get_grent_for_gid as = map_option (\<lambda>(g, _). (g \<noteq> None, g)) (retry_eintr as)"

lemma retry_eintr_skip [env_simps]:
  "retry_eintr (replicate n (None, Some EINTR) @ as) = retry_eintr as"
  by (induction n) auto

lemma retry_eintr_returns:
  "a \<in> set as \<Longrightarrow> a \<noteq> (None, Some EINTR) \<Longrightarrow> \<exists>r. retry_eintr as = Some r"
  by (induction as rule: retry_eintr.induct) auto

section \<open>Waiting for a child\<close>

datatype wait_answer = WaitError errno | WaitNoChange | WaitReaped u32

text \<open>
  The loop of \<open>scdm_wait_on_and_disown_pid\<close> from \<open>wait_again\<close>: the tries left, the
  sleeps of a tenth of a second so far, the answers of \<open>waitpid\<close>. The result is the
  returned status and the number of sleeps. A returned \<open>None\<close> is the local
  \<open>status\<close>, never assigned: \<open>waitpid\<close> stores it only when it reaps the child.
\<close>

fun wait_loop :: "int \<Rightarrow> nat \<Rightarrow> wait_answer list \<Rightarrow> (u32 option \<times> nat) option" where
  "wait_loop num_tries slept [] = None"
| "wait_loop num_tries slept (WaitError e # as) =
     (if e = EINTR then wait_loop num_tries slept as else Some (None, slept))"
| "wait_loop num_tries slept (WaitNoChange # as) =
     (if num_tries - 1 > 0 then wait_loop (num_tries - 1) (Suc slept) as
      else Some (Some 0, slept))"
| "wait_loop num_tries slept (WaitReaped st # as) = Some (Some st, slept)"

text \<open>\<open>waitpid_answers nohang\<close> are the answers with or without \<open>WNOHANG\<close>.\<close>

definition scdm_wait_on_and_disown_pid ::
  "(bool \<Rightarrow> wait_answer list) \<Rightarrow> int \<Rightarrow> (u32 option \<times> nat) option" where
  "scdm_wait_on_and_disown_pid waitpid_answers timeout =
     (let nohang = (timeout > 0); num_tries = (if timeout > 0 then 10 * timeout else 0)
      in wait_loop num_tries 0 (waitpid_answers nohang))"

definition scdm_wait_on_pid :: "(bool \<Rightarrow> wait_answer list) \<Rightarrow> (u32 option \<times> nat) option" where
  "scdm_wait_on_pid waitpid_answers = scdm_wait_on_and_disown_pid waitpid_answers 0"

datatype signal_warning = AlreadyDead | CouldNotKill errno

definition scdm_signal_pid :: "(int \<Rightarrow> int \<Rightarrow> errno option) \<Rightarrow> int \<Rightarrow> int \<Rightarrow> int \<times> signal_warning list" where
  "scdm_signal_pid kill pid sig =
     (case kill pid sig of
        None \<Rightarrow> (0, [])
      | Some e \<Rightarrow> (-1, [if e = ESRCH then AlreadyDead else CouldNotKill e]))"

lemma wait_loop_gives_up:
  assumes "\<forall>a \<in> set as. a = WaitNoChange \<or> a = WaitError EINTR"
    and "int (count_list as WaitNoChange) \<ge> max 1 n"
  shows "wait_loop n s as = Some (Some 0, s + nat (n - 1))"
  using assms
proof (induction n s as rule: wait_loop.induct)
  case (3 n s as)
  then show ?case by (cases "n - 1 > 0") auto
qed auto

lemma wait_loop_reaps:
  assumes "\<forall>a \<in> set pre. a = WaitNoChange \<or> a = WaitError EINTR"
    and "int (count_list pre WaitNoChange) < max 1 n"
  shows "wait_loop n s (pre @ WaitReaped st # as) = Some (Some st, s + count_list pre WaitNoChange)"
  using assms
proof (induction n s pre rule: wait_loop.induct)
  case (3 n s pre)
  then show ?case by (cases "n - 1 > 0") auto
qed auto

lemma wait_loop_bound:
  "wait_loop n s as = Some (r, s') \<Longrightarrow> int s' \<le> int s + max 0 (n - 1)"
  by (induction n s as rule: wait_loop.induct) (auto split: if_splits)

section \<open>Random bytes\<close>

datatype read_answer = ReadData "u8 list" | ReadError errno

datatype read_error = NoDataAvailable | ReadErrno errno

text \<open>
  Memory relative to the start of the caller's buffer: offsets wrap as pointers do, so the
  offset \<open>-1\<close> is the byte before the buffer.
\<close>

type_synonym buffer = "u64 \<Rightarrow> u8 option"

fun write_at :: "u64 \<Rightarrow> u8 list \<Rightarrow> buffer \<Rightarrow> buffer" where
  "write_at off [] m = m"
| "write_at off (b # bs) m = write_at (off + 1) bs (m(off \<mapsto> b))"

text \<open>\<open>size_t bytes_read = read (...)\<close>: the failure value \<open>-1\<close> is the largest
  \<open>size_t\<close>.\<close>

fun read_size :: "read_answer \<Rightarrow> u64" where
  "read_size (ReadData bs) = of_nat (length bs)"
| "read_size (ReadError e) = - 1"

fun read_store :: "u64 \<Rightarrow> read_answer \<Rightarrow> buffer \<Rightarrow> buffer" where
  "read_store total_read (ReadData bs) m = write_at total_read bs m"
| "read_store total_read (ReadError e) m = m"

fun read_errno :: "read_answer \<Rightarrow> errno option" where
  "read_errno (ReadData bs) = None"
| "read_errno (ReadError e) = Some e"

text \<open>The \<open>do\<close>--\<open>while\<close> loop of \<open>_read_bytes\<close> and the tests after it, branch for
  branch.\<close>

fun read_loop ::
  "u64 \<Rightarrow> u64 \<Rightarrow> buffer \<Rightarrow> read_answer list \<Rightarrow> ((read_error + unit) \<times> buffer) option" where
  "read_loop total_read left m [] = None"
| "read_loop total_read left m (a # as) =
     (let bytes_read = read_size a in
      if bytes_read > 0 then
        (let total_read' = total_read + bytes_read; left' = left - bytes_read; m' = read_store total_read a m
         in if left' > 0 then read_loop total_read' left' m' as else Some (Inr (), m'))
      else if bytes_read = 0 then Some (Inl NoDataAvailable, m)
      else if read_errno a \<noteq> Some EINTR then
        Some (if left > 0 then Inl (ReadErrno (the (read_errno a))) else Inr (), m)
      else if left > 0 then read_loop total_read left m as else Some (Inr (), m))"

definition read_bytes :: "u64 \<Rightarrow> read_answer list \<Rightarrow> ((read_error + unit) \<times> buffer) option" where
  "read_bytes number_of_bytes as = read_loop 0 number_of_bytes Map.empty as"

datatype random_error = OpenFailed errno | NotCharacterDevice | RandomRead read_error

text \<open>The result of \<open>scdm_generate_random_bytes\<close> and the arguments of its calls of
  \<open>close\<close>. The \<open>open\<close> answer is a descriptor or an error number; \<open>fstat\<close> says
  whether the descriptor could be examined and is a character device.\<close>

definition fd_is_character_device :: "(int \<Rightarrow> bool option) \<Rightarrow> int \<Rightarrow> bool" where
  "fd_is_character_device fstat fd = (case fstat fd of None \<Rightarrow> False | Some is_chr \<Rightarrow> is_chr)"

definition scdm_generate_random_bytes ::
  "errno + nat \<Rightarrow> (int \<Rightarrow> bool option) \<Rightarrow> read_answer list \<Rightarrow> u64 \<Rightarrow>
     ((random_error + buffer) \<times> int list) option" where
  "scdm_generate_random_bytes open_answer fstat reads count =
     (case open_answer of
        Inl e \<Rightarrow> Some (Inl (OpenFailed e), [-1])
      | Inr fd \<Rightarrow>
          if \<not> fd_is_character_device fstat (int fd) then Some (Inl NotCharacterDevice, [int fd])
          else (case read_bytes count reads of
                  None \<Rightarrow> None
                | Some (Inl e, m) \<Rightarrow> Some (Inl (RandomRead e), [int fd])
                | Some (Inr _, m) \<Rightarrow> Some (Inr m, [int fd])))"

lemma write_at_append:
  "write_at off (xs @ ys) m = write_at (off + of_nat (length xs)) ys (write_at off xs m)"
  by (induction xs arbitrary: off m) (auto simp: algebra_simps)

lemma write_at_other:
  assumes "\<And>j. j < length bs \<Longrightarrow> x \<noteq> off + of_nat j"
  shows "write_at off bs m x = m x"
  using assms
proof (induction bs arbitrary: off m)
  case (Cons b bs)
  have "x \<noteq> off + 1 + of_nat j" if "j < length bs" for j
    using Cons.prems [of "Suc j"] that by (simp add: algebra_simps)
  moreover have "x \<noteq> off" using Cons.prems [of 0] by simp
  ultimately show ?case using Cons.IH by simp
qed simp

lemma write_at_nth:
  assumes "i < length bs" and "length bs \<le> 2 ^ 64"
  shows "write_at off bs m (off + of_nat i) = Some (bs ! i)"
  using assms
proof (induction bs arbitrary: i off m)
  case (Cons b bs)
  show ?case
  proof (cases i)
    case 0
    have "off \<noteq> off + 1 + of_nat j" if "j < length bs" for j
    proof
      assume "off = off + 1 + of_nat j"
      then have "of_nat (Suc j) = (0::u64)" by (simp add: algebra_simps)
      then show False using of_nat_u64_neq_0 [of "Suc j"] that Cons.prems(2) by simp
    qed
    then show ?thesis using 0 by (simp add: write_at_other)
  next
    case (Suc k)
    then have "write_at (off + 1) bs (m(off \<mapsto> b)) (off + 1 + of_nat k) = Some (bs ! k)"
      using Cons by simp
    then show ?thesis using Suc by (simp add: algebra_simps)
  qed
qed simp

text \<open>A run of non-empty reads that add up to the request stores them one after another.\<close>

lemma read_loop_chunks:
  assumes "cs \<noteq> []" and "\<forall>c \<in> set cs. c \<noteq> []"
    and "unat left = length (concat cs)"
  shows "read_loop off left m (map ReadData cs @ as) = Some (Inr (), write_at off (concat cs) m)"
  using assms
proof (induction cs arbitrary: off left m)
  case (Cons c cs)
  let ?n = "of_nat (length c) :: u64"
  have len: "length c \<le> unat left" "length c < 2 ^ 64"
    using Cons.prems(3) unat_u64_less [of left] by auto
  have n: "unat ?n = length c" using len by (simp add: unat_of_nat_u64)
  have pos: "?n > 0" using of_nat_u64_neq_0 [of "length c"] Cons.prems(2) len
    by (simp add: word_greater_zero_iff)
  have left: "unat (left - ?n) = length (concat cs)"
    using n len Cons.prems(3) by (simp add: unat_sub word_le_nat_alt)
  show ?case
  proof (cases "cs = []")
    case True
    then have "left - ?n = 0" using left by (simp add: unat_eq_zero)
    then show ?thesis using pos True by (simp add: Let_def)
  next
    case False
    then have "0 < length (concat cs)" using Cons.prems(2) by (cases cs) auto
    then have "left - ?n > 0" using left by (metis unat_gt_0 word_greater_zero_iff neq0_conv)
    then show ?thesis
      using pos Cons.IH [OF False _ left] Cons.prems(2) by (simp add: Let_def write_at_append)
  qed
qed simp

text \<open>The loop never takes its error branches: the test for a positive count comes first
  and holds for the failure value.\<close>

lemma read_loop_error_step:
  "read_loop off left m (ReadError e # as) =
     (if left + 1 > 0 then read_loop (off - 1) (left + 1) m as else Some (Inr (), m))"
  by (simp add: Let_def word_greater_zero_iff)

lemma read_loop_no_errno:
  "read_loop off left m as = Some (r, m') \<Longrightarrow> r \<noteq> Inl (ReadErrno e)"
proof (induction as arbitrary: off left m)
  case (Cons a as)
  then show ?case
    by (cases a) (auto simp: Let_def word_greater_zero_iff split: if_splits)
qed simp

section \<open>Properties\<close>

text \<open>When every \<open>read\<close> returns some data and the pieces add up to the request,
  \<open>_read_bytes\<close> succeeds; the buffer then holds exactly the bytes read, in order, and
  no byte outside the requested range has been written.\<close>

theorem read_bytes_complete:
  assumes "cs \<noteq> []" and "\<forall>c \<in> set cs. c \<noteq> []" and "length (concat cs) = unat n"
  shows "\<exists>m. read_bytes n (map ReadData cs @ as) = Some (Inr (), m) \<and>
    (\<forall>i < unat n. m (of_nat i) = Some (concat cs ! i)) \<and> (\<forall>x \<ge> n. m x = None)"
proof -
  let ?m = "write_at 0 (concat cs) Map.empty"
  have len: "length (concat cs) < 2 ^ 64" using assms(3) unat_u64_less [of n] by simp
  have "read_bytes n (map ReadData cs @ as) = Some (Inr (), ?m)"
    using read_loop_chunks [OF assms(1,2) assms(3) [symmetric]] by (simp add: read_bytes_def)
  moreover have "?m (of_nat i) = Some (concat cs ! i)" if "i < unat n" for i
    using write_at_nth [of i "concat cs" 0] that len assms(3) by simp
  moreover have "?m x = None" if "x \<ge> n" for x
  proof -
    have "x \<noteq> 0 + of_nat j" if j: "j < length (concat cs)" for j
      using \<open>x \<ge> n\<close> j assms(3) len by (auto simp: word_le_nat_alt unat_of_nat_u64)
    then show ?thesis by (subst write_at_other) auto
  qed
  ultimately show ?thesis by blast
qed

theorem read_bytes_complete_witness:
  "\<exists>m. read_bytes 3 (map ReadData [[7], [8, 9]] @ []) = Some (Inr (), m) \<and>
    (\<forall>i < unat (3 :: u64). m (of_nat i) = Some (concat [[7], [8, 9]] ! i)) \<and> (\<forall>x \<ge> 3. m x = None)"
  by (rule read_bytes_complete) simp_all

text \<open>A failed \<open>read\<close> (interrupted or not) is never reported: \<open>bytes_read\<close> has
  type \<open>size_t\<close>, so \<open>-1\<close> passes the test for a positive count. The loop goes on one
  byte before the buffer and asks for one byte more, and the next data is written from
  offset \<open>-1\<close>, outside the allocation, while the function reports success.\<close>

theorem read_bytes_error_underflow:
  assumes "0 < n" and "n < - 1" and "length bs = unat n"
  shows "\<exists>m. read_bytes n (ReadError e # ReadData (b # bs) # as) = Some (Inr (), m) \<and> m (- 1) = Some b"
proof -
  have "unat n < unat (- 1 :: u64)" using assms(2) by (simp only: word_less_nat_alt)
  then have "unat n + 1 < 2 ^ 64" by (simp add: unsigned_minus_1_eq_mask mask_eq_exp_minus_1)
  then have suc: "unat (n + 1) = Suc (unat n)" by (simp add: unat_word_ariths)
  then have sz: "unat (n + 1) = length (b # bs)" using assms(3) by simp
  have pos: "n + 1 > 0" using suc by (metis nat.simps(3) unat_0 word_greater_zero_iff)
  have "read_bytes n (ReadError e # ReadData (b # bs) # as)
      = read_loop (- 1) (n + 1) Map.empty (map ReadData [b # bs] @ as)"
    unfolding read_bytes_def read_loop_error_step using pos by simp
  also have "\<dots> = Some (Inr (), write_at (- 1) (b # bs) Map.empty)"
    by (subst read_loop_chunks) (use sz in auto)
  finally show ?thesis
    using write_at_nth [of 0 "b # bs" "- 1" Map.empty] assms(3) unat_u64_less [of n] by simp
qed

theorem read_bytes_error_underflow_witness:
  "\<exists>m. read_bytes 2 (ReadError EINTR # ReadData (5 # [6, 7]) # []) = Some (Inr (), m) \<and> m (- 1) = Some 5"
  by (rule read_bytes_error_underflow) simp_all

text \<open>Waiting for a child with a timeout polls at most ten times per second of it: while
  the child neither changes state nor \<open>waitpid\<close> fails other than by interruption, the
  function gives up with status 0 after exactly \<open>10 * timeout - 1\<close> sleeps of a tenth of
  a second, and interruptions cost no try.\<close>

theorem wait_on_and_disown_pid_timeout:
  assumes "timeout > 0"
    and "\<forall>a \<in> set (waitpid_answers True). a = WaitNoChange \<or> a = WaitError EINTR"
    and "int (count_list (waitpid_answers True) WaitNoChange) \<ge> 10 * timeout"
  shows "scdm_wait_on_and_disown_pid waitpid_answers timeout = Some (Some 0, nat (10 * timeout - 1))"
  using assms wait_loop_gives_up [of "waitpid_answers True" "10 * timeout" 0]
  by (simp add: scdm_wait_on_and_disown_pid_def)

theorem wait_on_and_disown_pid_timeout_witness:
  "scdm_wait_on_and_disown_pid (\<lambda>nohang. WaitError EINTR # replicate 10 WaitNoChange) 1
     = Some (Some 0, nat (10 * 1 - 1))"
  by (rule wait_on_and_disown_pid_timeout) (simp_all add: eval_nat_numeral)

text \<open>If the child has already been reaped elsewhere, or \<open>waitpid\<close> fails for another
  reason than interruption, the function returns at once the value of a local that nothing
  has assigned (\<open>None\<close>); in all other cases the returned status is the one
  \<open>waitpid\<close> stored, or 0 on giving up.\<close>

theorem wait_on_and_disown_pid_failed:
  assumes "e \<noteq> EINTR"
    and "waitpid_answers (timeout > 0) = replicate n (WaitError EINTR) @ WaitError e # as"
  shows "scdm_wait_on_and_disown_pid waitpid_answers timeout = Some (None, 0)"
proof -
  have "wait_loop k 0 (replicate n (WaitError EINTR) @ WaitError e # as) = Some (None, 0)" for k
    using assms(1) by (induction n) auto
  then show ?thesis using assms(2) by (simp add: scdm_wait_on_and_disown_pid_def)
qed

theorem wait_on_and_disown_pid_failed_witness:
  "scdm_wait_on_and_disown_pid (\<lambda>nohang. [WaitError EINTR, WaitError ECHILD]) 5 = Some (None, 0)"
  by (rule wait_on_and_disown_pid_failed [where e = ECHILD and n = 1 and as = "[]"]) simp_all

end
