(* ===== verification/Common_Shell.thy ===== *)
theory Common_Shell
  imports Common_Process
begin

text \<open>
  The script helpers of \<open>src/common/scdm-common.c\<close>: the shell-like expansion of
  strings, the environment given to scripts, and the choice and outcome of the script that
  is run. A C string is a list of characters without \<open>NUL\<close>; reading the terminator is
  reading past the end of the list.
\<close>

section \<open>Expansion\<close>

definition scdm_shell_var_is_valid_char :: "char \<Rightarrow> bool \<Rightarrow> bool" where
  "scdm_shell_var_is_valid_char c first \<longleftrightarrow>
     (\<not> first \<and> ascii_isdigit c) \<or> c = CHR ''_'' \<or> ascii_isalpha c"

text \<open>The inner loop: the longest variable name at the front, and the rest.\<close>

fun var_span :: "bool \<Rightarrow> string \<Rightarrow> string \<times> string" where
  "var_span first [] = ([], [])"
| "var_span first (c # p) =
     (if scdm_shell_var_is_valid_char c first
      then (case var_span False p of (v, r) \<Rightarrow> (c # v, r)) else ([], c # p))"

lemma var_span_append: "var_span first p = (v, r) \<Longrightarrow> v @ r = p"
  by (induction first p arbitrary: v r rule: var_span.induct) (auto split: if_splits prod.splits)

lemma var_span_split: "fst (var_span first p) @ snd (var_span first p) = p"
  using var_span_append by (metis prod.collapse)

lemma var_span_length [termination_simp]: "length (snd (var_span first p)) \<le> length p"
  using var_span_split [of first p] by (metis length_append le_add2)

fun escape_char :: "char \<Rightarrow> string" where
  "escape_char c =
     (if c = CHR 0x5C then [CHR 0x5C]
      else if c = CHR ''$'' then ''$''
      else if c = CHR ''#'' then ''#''
      else [CHR 0x5C, c])"

text \<open>
  The loop of \<open>scdm_shell_expand\<close>, returning what it appends. The second argument is
  \<open>at_new_word\<close>.
\<close>

function shell_expand_loop :: "(string \<Rightarrow> string option) \<Rightarrow> bool \<Rightarrow> string \<Rightarrow> string" where
  "shell_expand_loop expand_var at_new_word [] = []"
| "shell_expand_loop expand_var at_new_word (c # p) =
     (if c = CHR 0x5C then
        (case p of
           [] \<Rightarrow> []
         | d # p' \<Rightarrow> escape_char d @ shell_expand_loop expand_var at_new_word p')
      else if c = CHR ''#'' \<and> at_new_word then []
      else if c = CHR ''$'' then
        (let brackets = (p \<noteq> [] \<and> hd p = CHR ''{'');
             start = (if brackets then tl p else p);
             var = fst (var_span True start); rest = snd (var_span True start)
         in if var = [] \<or> (brackets \<and> \<not> (rest \<noteq> [] \<and> hd rest = CHR ''}''))
            then ''$'' @ (if brackets then ''{'' else []) @ var @
                 shell_expand_loop expand_var at_new_word rest
            else (case expand_var var of None \<Rightarrow> [] | Some expanded \<Rightarrow> expanded) @
                 shell_expand_loop expand_var at_new_word (if brackets then tl rest else rest))
      else c # shell_expand_loop expand_var (ascii_isspace c) p)"
  by pat_completeness auto
termination
proof (relation "measure (\<lambda>(f, w, s). length s)", goal_cases)
  case (3 f w c p brackets start var rest)
  then show ?case using var_span_length [of True start] by (auto split: if_splits)
next
  case (4 f w c p brackets start var rest)
  then show ?case using var_span_length [of True start] by (auto split: if_splits)
qed auto

declare shell_expand_loop.simps [simp del]

definition scdm_shell_expand :: "(string \<Rightarrow> string option) \<Rightarrow> string \<Rightarrow> string" where
  "scdm_shell_expand expand_var str = shell_expand_loop expand_var True str"

text \<open>One equation per branch of the loop.\<close>

lemma expand_nil: "shell_expand_loop f w [] = []"
  by (simp add: shell_expand_loop.simps)

lemma expand_backslash:
  "shell_expand_loop f w (CHR 0x5C # d # p) = escape_char d @ shell_expand_loop f w p"
  by (simp add: shell_expand_loop.simps)

lemma expand_comment: "shell_expand_loop f True (CHR ''#'' # p) = []"
  by (simp add: shell_expand_loop.simps)

lemma expand_hash: "shell_expand_loop f False (CHR ''#'' # p) = CHR ''#'' # shell_expand_loop f False p"
  by (subst shell_expand_loop.simps) (simp add: ascii_isspace_def)

lemma expand_plain:
  assumes "c \<notin> {CHR 0x5C, CHR ''$'', CHR ''#''}"
  shows "shell_expand_loop f w (c # p) = c # shell_expand_loop f (ascii_isspace c) p"
  using assms by (subst shell_expand_loop.simps) simp

lemmas expand_simps = expand_nil expand_backslash expand_comment expand_hash expand_plain

text \<open>A name is what the inner loop accepts as a whole.\<close>

fun shell_name :: "bool \<Rightarrow> string \<Rightarrow> bool" where
  "shell_name first [] = True"
| "shell_name first (c # p) = (scdm_shell_var_is_valid_char c first \<and> shell_name False p)"

lemma var_span_name:
  assumes "shell_name first v" and "r = [] \<or> \<not> scdm_shell_var_is_valid_char (hd r) False"
    and "v \<noteq> [] \<or> first = False"
  shows "var_span first (v @ r) = (v, r)"
  using assms
proof (induction first v rule: shell_name.induct)
  case (1 first)
  then show ?case by (cases r) auto
qed auto

lemma shell_name_hd: "shell_name True v \<Longrightarrow> v \<noteq> [] \<Longrightarrow> hd v \<noteq> CHR ''{''"
  by (cases v) (auto simp: scdm_shell_var_is_valid_char_def ascii_isalpha_def)

lemma expand_variable:
  assumes "shell_name True v" and "v \<noteq> []"
    and "r = [] \<or> \<not> scdm_shell_var_is_valid_char (hd r) False"
  shows "shell_expand_loop f w (CHR ''$'' # v @ r)
    = (case f v of None \<Rightarrow> [] | Some x \<Rightarrow> x) @ shell_expand_loop f w r"
  using assms shell_name_hd [OF assms(1,2)] var_span_name [OF assms(1,3)]
  by (subst shell_expand_loop.simps) (simp add: Let_def)

lemma expand_braces:
  assumes "shell_name True v" and "v \<noteq> []"
  shows "shell_expand_loop f w (''${'' @ v @ ''}'' @ r)
    = (case f v of None \<Rightarrow> [] | Some x \<Rightarrow> x) @ shell_expand_loop f w r"
proof -
  have "var_span True (v @ ''}'' @ r) = (v, ''}'' @ r)"
    by (rule var_span_name) (use assms in \<open>auto simp: scdm_shell_var_is_valid_char_def ascii_isdigit_def ascii_isalpha_def\<close>)
  then show ?thesis using assms by (simp add: shell_expand_loop.simps(2) [of f w "CHR ''$''"] Let_def)
qed

text \<open>Quoting, the inverse of expansion: a backslash before each special character.\<close>

fun shell_quote :: "string \<Rightarrow> string" where
  "shell_quote [] = []"
| "shell_quote (c # s) =
     (if c \<in> {CHR 0x5C, CHR ''$'', CHR ''#''} then CHR 0x5C # c # shell_quote s
      else c # shell_quote s)"

lemma expand_loop_quote: "shell_expand_loop f w (shell_quote s) = s"
  by (induction s arbitrary: w) (auto simp: expand_simps)

text \<open>The variables of the unit test \<open>expand_fn\<close> in \<open>src/tests/s-common.c\<close>.\<close>

definition expand_fn :: "string \<Rightarrow> string option" where
  "expand_fn var =
     (if var = ''FOO'' then Some ''BAR'' else if var = ''FOO9'' then Some ''XXX''
      else if var = ''_FOO'' then Some ''YYY'' else if var = ''FOO_FOO'' then Some ''ZZZ''
      else None)"

definition expands_to :: "string \<Rightarrow> string \<Rightarrow> bool" where
  "expands_to to_expand expanded \<longleftrightarrow> scdm_shell_expand expand_fn to_expand = expanded"

section \<open>Properties of expansion\<close>

text \<open>Expansion undoes quoting: a string in which every backslash, dollar sign and hash
  has been escaped by a backslash expands to the original, whatever the variables are.\<close>

theorem shell_expand_quote: "scdm_shell_expand f (shell_quote s) = s"
  by (simp add: scdm_shell_expand_def expand_loop_quote)

text \<open>A hash directly after a variable (or a bracketed one) at the start of a word ends
  the string, though it is not at the beginning of a word: \<open>at_new_word\<close> is not reset by
  the branches for variables and escapes, so what follows is dropped as a comment.\<close>

theorem shell_expand_hash_after_variable:
  assumes "shell_name True v" and "v \<noteq> []" and "f v = Some x"
  shows "scdm_shell_expand f (CHR ''$'' # v @ CHR ''#'' # s) = x
    \<and> scdm_shell_expand f (''${'' @ v @ ''}'' @ CHR ''#'' # s) = x"
proof -
  have "\<not> scdm_shell_var_is_valid_char (CHR ''#'') False"
    by (simp add: scdm_shell_var_is_valid_char_def ascii_isdigit_def ascii_isalpha_def)
  then have "shell_expand_loop f True (CHR ''$'' # v @ CHR ''#'' # s) = x"
    using expand_variable [of v "CHR ''#'' # s"] assms by (simp add: expand_comment)
  then show ?thesis
    using expand_braces [OF assms(1,2), of f True "CHR ''#'' # s"] assms(3)
    by (simp add: scdm_shell_expand_def expand_comment)
qed

theorem shell_expand_hash_after_variable_witness:
  "scdm_shell_expand expand_fn (CHR ''$'' # ''FOO'' @ CHR ''#'' # ''bar'') = ''BAR''
    \<and> scdm_shell_expand expand_fn (''${'' @ ''FOO'' @ ''}'' @ CHR ''#'' # ''bar'') = ''BAR''"
  by (rule shell_expand_hash_after_variable)
    (simp_all add: expand_fn_def scdm_shell_var_is_valid_char_def ascii_isalpha_def)

text \<open>The model agrees with the repository's own unit tests: the cases of
  \<open>test_scdm_shell_expand\<close> in \<open>src/tests/s-common.c\<close> all hold.\<close>

theorem shell_expand_tests:
  "list_all (\<lambda>(i, o'). expands_to i o')
    [(''foo'', ''foo''), (''foo '', ''foo ''), (''foo#bar'', ''foo#bar''),
     (''foo #bar'', ''foo ''), (''#bar'', []), (''foo #bar gazonk'', ''foo ''),
     (''$FOO'', ''BAR''), (''$9FOO'', ''$9FOO''), (''$FOO9'', ''XXX''), (''${FOO}9'', ''BAR9''),
     (''$_FOO'', ''YYY''), (''$FOO_FOO'', ''ZZZ''), (''${FOO}'', ''BAR''),
     (''$FOO$FOO'', ''BARBAR''), (''${FOO}${FOO}'', ''BARBAR''), (''$FOO${FOO}'', ''BARBAR''),
     (''$foo'', []), (''$FOOBAR'', []), (''$FOO/BAR'', ''BAR/BAR''), (''${FOO}BAR'', ''BARBAR''),
     (''$/BAR'', ''$/BAR''), (''${FOO BAR}BAR'', ''${FOO BAR}BAR''), (''${}BAR'', ''${}BAR''),
     (''${$FOO}BAR'', ''${BAR}BAR''), (CHR 0x5C # ''$foo'', ''$foo''),
     (''a'' @ [CHR 0x5C, CHR 0x5C] @ ''b'', ''a'' @ [CHR 0x5C] @ ''b''),
     (''a'' @ [CHR 0x5C] @ ''b'', ''a'' @ [CHR 0x5C] @ ''b''),
     (''a'' @ [CHR 0x5C] @ ''#b'', ''a#b'')]"
  by code_simp

end
