(* ===== verification/Common_Script.thy ===== *)
theory Common_Script
  imports Common_Shell "HOL-Library.Monad_Syntax"
begin

text \<open>
  \<open>scdm_get_script_environment\<close> and \<open>scdm_run_script\<close> of
  \<open>src/common/scdm-common.c\<close>. The hash table of the environment is an association list
  with distinct keys; the order in which GLib walks it is not modelled, so properties are
  about keys and values. File tests, path building, command parsing and the spawned process
  belong to GLib and the system and are arguments.
\<close>

section \<open>The script environment\<close>

record passwd =
  pw_name :: string
  pw_uid :: u32
  pw_gid :: u32
  pw_dir :: "string option"
  pw_shell :: "string option"

type_synonym env_hash = "(string \<times> string option) list"

text \<open>\<open>"%s"\<close> prints a null pointer as \<open>(null)\<close>.\<close>

fun listify_hash :: "string \<times> string option \<Rightarrow> string" where
  "listify_hash (key, val) = key @ ''='' @ (case val of None \<Rightarrow> ''(null)'' | Some v \<Rightarrow> v)"

definition insert_opt :: "string \<Rightarrow> string option \<Rightarrow> env_hash \<Rightarrow> env_hash" where
  "insert_opt k v h = (case v of None \<Rightarrow> h | Some x \<Rightarrow> AList.update k (Some x) h)"

text \<open>The defaults, the login variables of a user name, the part for a user of the user
  database (with the group's name), and what is set last for everyone.\<close>

definition base_hash :: env_hash where
  "base_hash = AList.update ''SHELL'' (Some ''/bin/sh'')
     (AList.update ''PWD'' (Some ''/'') (AList.update ''HOME'' (Some ''/'') []))"

definition login_hash :: "string \<Rightarrow> env_hash \<Rightarrow> env_hash" where
  "login_hash u h = AList.update ''USERNAME'' (Some u)
     (AList.update ''USER'' (Some u) (AList.update ''LOGNAME'' (Some u) h))"

definition script_user_hash :: "passwd \<Rightarrow> string option \<Rightarrow> env_hash \<Rightarrow> env_hash" where
  "script_user_hash pw grp h =
     (let h = (case pw_dir pw of
                 None \<Rightarrow> h
               | Some d \<Rightarrow> if d \<noteq> [] then AList.update ''PWD'' (Some d) (AList.update ''HOME'' (Some d) h)
                           else h);
          h = AList.update ''SHELL'' (pw_shell pw) h
      in insert_opt ''GROUP'' grp h)"

definition final_hash ::
  "string \<Rightarrow> string option \<Rightarrow> string option \<Rightarrow> string option \<Rightarrow> env_hash \<Rightarrow> env_hash" where
  "final_hash default_path display_name display_hostname xauthority h =
     (let h = insert_opt ''REMOTE_HOST'' display_hostname h;
          h = insert_opt ''XAUTHORITY'' xauthority h;
          h = insert_opt ''DISPLAY'' display_name h;
          h = AList.update ''PATH'' (Some default_path) h;
          h = AList.update ''RUNNING_UNDER_SCDM'' (Some ''true'') h
      in AList.delete ''MAIL'' h)"

text \<open>The table at the end of the function. \<open>None\<close>: a database lookup has not returned.\<close>

definition script_hash ::
  "string \<Rightarrow> (string \<Rightarrow> (passwd option \<times> errno option) list) \<Rightarrow>
   (u32 \<Rightarrow> (string option \<times> errno option) list) \<Rightarrow>
   string option \<Rightarrow> string option \<Rightarrow> string option \<Rightarrow> string option \<Rightarrow> env_hash option" where
  "script_hash default_path getpwnam getgrgid username display_name display_hostname xauthority =
     map_option (final_hash default_path display_name display_hostname xauthority)
       (case username of
          None \<Rightarrow> Some base_hash
        | Some u \<Rightarrow> do {
            (_, pwent) \<leftarrow> scdm_get_pwent_for_name (getpwnam u);
            (case pwent of
               None \<Rightarrow> Some (login_hash u base_hash)
             | Some pw \<Rightarrow> do {
                 (_, grp) \<leftarrow> scdm_get_grent_for_gid (getgrgid (pw_gid pw));
                 Some (script_user_hash pw grp (login_hash u base_hash))
               })
          })"

definition scdm_get_script_environment ::
  "string \<Rightarrow> (string \<Rightarrow> (passwd option \<times> errno option) list) \<Rightarrow>
   (u32 \<Rightarrow> (string option \<times> errno option) list) \<Rightarrow>
   string option \<Rightarrow> string option \<Rightarrow> string option \<Rightarrow> string option \<Rightarrow> string list option" where
  "scdm_get_script_environment default_path getpwnam getgrgid username display_name display_hostname xauthority =
     map_option (List.map listify_hash)
       (script_hash default_path getpwnam getgrgid username display_name display_hostname xauthority)"

text \<open>Keys stay distinct, and each lookup is decided by the last writer of its key.\<close>

lemma distinct_insert_opt [simp]: "distinct (map fst h) \<Longrightarrow> distinct (map fst (insert_opt k v h))"
  by (simp add: insert_opt_def distinct_update split: option.split)

lemma map_of_update: "map_of (AList.update k v h) k' = (if k' = k then Some v else map_of h k')"
  by (simp add: update_conv')

lemma map_of_delete: "map_of (AList.delete k h) k' = (if k' = k then None else map_of h k')"
  by (simp add: delete_conv')

lemma map_of_insert_opt:
  "map_of (insert_opt k v h) k' = (if k' = k \<and> v \<noteq> None then Some v else map_of h k')"
  by (auto simp: insert_opt_def map_of_update split: option.split)

lemmas lookup_simps = map_of_update map_of_delete map_of_insert_opt

lemma distinct_base_login: "distinct (map fst (login_hash u base_hash))"
  by (simp add: login_hash_def base_hash_def distinct_update)

lemma distinct_script_user_hash:
  "distinct (map fst h) \<Longrightarrow> distinct (map fst (script_user_hash pw grp h))"
  by (simp add: script_user_hash_def Let_def distinct_update split: option.split)

lemma distinct_final_hash: "distinct (map fst h) \<Longrightarrow> distinct (map fst (final_hash p dn dh xa h))"
  by (simp add: final_hash_def Let_def distinct_update distinct_delete)

lemma final_hash_keys:
  "map_of (final_hash p dn dh xa h) k =
     (if k = ''MAIL'' then None else if k = ''RUNNING_UNDER_SCDM'' then Some (Some ''true'')
      else if k = ''PATH'' then Some (Some p)
      else if k = ''DISPLAY'' \<and> dn \<noteq> None then Some dn
      else if k = ''XAUTHORITY'' \<and> xa \<noteq> None then Some xa
      else if k = ''REMOTE_HOST'' \<and> dh \<noteq> None then Some dh else map_of h k)"
  by (auto simp: final_hash_def Let_def lookup_simps)

lemma script_user_hash_keys:
  "map_of (script_user_hash pw grp h) k =
     (if k = ''GROUP'' \<and> grp \<noteq> None then Some grp
      else if k = ''SHELL'' then Some (pw_shell pw)
      else if k \<in> {''HOME'', ''PWD''} \<and> pw_dir pw \<noteq> None \<and> pw_dir pw \<noteq> Some [] then Some (pw_dir pw)
      else map_of h k)"
  by (cases "pw_dir pw"; cases grp) (auto simp: script_user_hash_def Let_def lookup_simps)

lemma login_hash_keys:
  "map_of (login_hash u base_hash) k =
     (if k \<in> {''USERNAME'', ''USER'', ''LOGNAME''} then Some (Some u)
      else if k = ''SHELL'' then Some (Some ''/bin/sh'')
      else if k \<in> {''HOME'', ''PWD''} then Some (Some ''/'') else None)"
  by (simp add: login_hash_def base_hash_def lookup_simps)

lemmas hash_keys = final_hash_keys script_user_hash_keys login_hash_keys

text \<open>The table of a named user, by what the user database answers.\<close>

lemma script_hash_user:
  assumes "retry_eintr (getpwnam u) = Some (pwent, rest)"
    and "script_hash p getpwnam getgrgid (Some u) dn dh xa = Some h"
  shows "\<exists>grp. h = final_hash p dn dh xa
    (case pwent of None \<Rightarrow> login_hash u base_hash
     | Some pw \<Rightarrow> script_user_hash pw grp (login_hash u base_hash))"
  using assms
  by (auto simp: script_hash_def scdm_get_pwent_for_name_def bind_eq_Some_conv split: option.splits)

section \<open>Running a script\<close>

definition find_script ::
  "(string \<Rightarrow> bool) \<Rightarrow> (string list \<Rightarrow> string) \<Rightarrow> string \<Rightarrow> string option \<Rightarrow> string option \<Rightarrow> string option" where
  "find_script runnable build_filename dir display_name display_hostname =
     (let s1 = build_filename (case display_name of None \<Rightarrow> [dir] | Some d \<Rightarrow> [dir, d]);
          script = (if runnable s1 then Some s1 else None);
          script = (case (script, display_hostname) of
              (None, Some h) \<Rightarrow>
                if h \<noteq> [] \<and> runnable (build_filename [dir, h]) then Some (build_filename [dir, h]) else None
            | _ \<Rightarrow> script);
          script = (if script = None \<and> runnable (build_filename [dir, ''Default''])
                    then Some (build_filename [dir, ''Default'']) else script)
      in script)"

text \<open>\<open>spawn\<close> is \<open>g_spawn_sync\<close>: \<open>None\<close> if the process could not be run, and then the
  local \<open>status\<close> keeps the \<open>garbage\<close> it had. The \<open>runnable\<close> test is that of a
  regular and executable file.\<close>

definition scdm_run_script ::
  "(string \<Rightarrow> bool) \<Rightarrow> (string list \<Rightarrow> string) \<Rightarrow> (string \<Rightarrow> string list option) \<Rightarrow>
   (string list \<Rightarrow> string list \<Rightarrow> u32 option) \<Rightarrow> u32 \<Rightarrow>
   (string option \<Rightarrow> string option \<Rightarrow> string option \<Rightarrow> string option \<Rightarrow> string list option) \<Rightarrow>
   string \<Rightarrow> string \<Rightarrow> string option \<Rightarrow> string option \<Rightarrow> string option \<Rightarrow> bool option" where
  "scdm_run_script runnable build_filename parse_argv spawn garbage script_environment
     dir username display_name display_hostname xauthority =
     (case find_script runnable build_filename dir display_name display_hostname of
        None \<Rightarrow> Some True
      | Some script \<Rightarrow>
          (case parse_argv script of
             None \<Rightarrow> Some False
           | Some argv \<Rightarrow> do {
               env \<leftarrow> script_environment (Some username) display_name display_hostname xauthority;
               let status = (case spawn argv env of None \<Rightarrow> garbage | Some st \<Rightarrow> st);
               Some (wifexited status \<and> wexitstatus status = 0)
             }))"

section \<open>Properties\<close>

text \<open>The environment of a script: no variable occurs twice, \<open>PATH\<close> is always the
  configured default and \<open>MAIL\<close> is never passed on; with a user name the login variables
  carry it, and \<open>HOME\<close>, \<open>PWD\<close> and \<open>SHELL\<close> are those of the user database when it
  knows the user, and safe defaults when it does not.\<close>

theorem script_environment_contents:
  assumes "retry_eintr (getpwnam u) = Some (pwent, rest)"
    and "script_hash path getpwnam getgrgid (Some u) dn dh xa = Some h"
  shows "distinct (map fst h) \<and>
    map_of h ''PATH'' = Some (Some path) \<and> map_of h ''MAIL'' = None \<and>
    map_of h ''LOGNAME'' = Some (Some u) \<and> map_of h ''USER'' = Some (Some u) \<and>
    map_of h ''HOME'' = Some (Some (case pwent of None \<Rightarrow> ''/'' | Some pw \<Rightarrow>
      (case pw_dir pw of None \<Rightarrow> ''/'' | Some d \<Rightarrow> if d = [] then ''/'' else d))) \<and>
    map_of h ''PWD'' = map_of h ''HOME'' \<and>
    map_of h ''SHELL'' = Some (case pwent of None \<Rightarrow> Some ''/bin/sh'' | Some pw \<Rightarrow> pw_shell pw) \<and>
    map_of h ''DISPLAY'' = map_option Some dn"
proof -
  obtain grp where h: "h = final_hash path dn dh xa
      (case pwent of None \<Rightarrow> login_hash u base_hash
       | Some pw \<Rightarrow> script_user_hash pw grp (login_hash u base_hash))"
    using script_hash_user [OF assms] by blast
  show ?thesis
  proof (cases pwent)
    case None
    then show ?thesis unfolding h
      by (cases dn) (simp_all add: hash_keys distinct_final_hash distinct_base_login split: option.split)
  next
    case (Some pw)
    have "distinct (map fst h)"
      using Some by (simp add: h distinct_final_hash distinct_script_user_hash distinct_base_login)
    then show ?thesis using Some unfolding h
      by (cases dn) (simp_all add: hash_keys split: option.split)
  qed
qed

theorem script_environment_contents_witness:
  "\<exists>h. script_hash ''/bin'' (\<lambda>_. [(None, Some EINTR), (None, None)]) (\<lambda>_. []) (Some ''joe'') (Some '':0'') None None
      = Some h \<and> map_of h ''HOME'' = Some (Some ''/'') \<and> map_of h ''USER'' = Some (Some ''joe'')"
proof -
  let ?db = "\<lambda>_ :: string. [(None :: passwd option, Some EINTR), (None, None)]"
  have db: "retry_eintr (?db ''joe'') = Some (None, [])" by simp
  obtain h where h: "script_hash ''/bin'' ?db (\<lambda>_. []) (Some ''joe'') (Some '':0'') None None = Some h"
    by (simp add: script_hash_def scdm_get_pwent_for_name_def)
  show ?thesis using script_environment_contents [OF db h] h by auto
qed

text \<open>A script found and run decides the result by its exit status: the result is true
  exactly when no script exists for the display, the remote host or \<open>Default\<close>, or the
  first of the three that exists exits normally with code 0.\<close>

theorem run_script_result:
  assumes "\<And>argv env. spawn argv env \<noteq> None"
    and "\<And>s. runnable s \<Longrightarrow> parse s \<noteq> None"
    and "senv (Some u) (Some d) dh xa = Some env"
  shows "scdm_run_script runnable build parse spawn garbage senv dir u (Some d) dh xa = Some
    (let cands = [build [dir, d]] @ (case dh of None \<Rightarrow> [] | Some h \<Rightarrow> if h = [] then [] else [build [dir, h]])
                 @ [build [dir, ''Default'']]
     in case List.find runnable cands of
          None \<Rightarrow> True
        | Some s \<Rightarrow> wifexited (the (spawn (the (parse s)) env)) \<and> wexitstatus (the (spawn (the (parse s)) env)) = 0)"
proof -
  have find: "find_script runnable build dir (Some d) dh = List.find runnable
     ([build [dir, d]] @ (case dh of None \<Rightarrow> [] | Some h \<Rightarrow> if h = [] then [] else [build [dir, h]])
       @ [build [dir, ''Default'']])"
    by (cases dh) (auto simp: find_script_def Let_def)
  show ?thesis
  proof (cases "find_script runnable build dir (Some d) dh")
    case None
    then show ?thesis using find by (simp add: scdm_run_script_def Let_def)
  next
    case (Some s)
    have "runnable s" using find_in [OF trans [OF find [symmetric] Some]] by simp
    then obtain argv where "parse s = Some argv" using assms(2) by blast
    moreover obtain st where "spawn argv env = Some st" using assms(1) by blast
    ultimately show ?thesis
      using Some find assms(3) by (simp add: scdm_run_script_def Let_def)
  qed
qed

theorem run_script_result_witness:
  "scdm_run_script (\<lambda>s. s = ''d/Default'') (\<lambda>ps. concat (map (\<lambda>p. p @ ''/'') (butlast ps)) @ last ps)
     (\<lambda>s. Some [s]) (\<lambda>_ _. Some 256) 0 (\<lambda>_ _ _ _. Some []) ''d'' ''joe'' (Some '':0'') None None = Some False"
  using run_script_result [where spawn = "\<lambda>_ _. Some 256" and runnable = "\<lambda>s. s = ''d/Default''"
      and parse = "\<lambda>s. Some [s]" and senv = "\<lambda>_ _ _ _. Some []" and u = "''joe''" and d = "'':0''"
      and dh = None and xa = None and env = "[]" and garbage = 0 and dir = "''d''"
      and build = "\<lambda>ps. concat (map (\<lambda>p. p @ ''/'') (butlast ps)) @ last ps"]
  by (simp add: wifexited_def wexitstatus_def)

text \<open>If the process cannot be run at all, \<open>status\<close> is never assigned and the result
  is whatever that local held: with a zero in it the failed script counts as a success.\<close>

theorem run_script_spawn_failure:
  assumes "find_script runnable build dir dn dh = Some s" and "parse s = Some argv"
    and "senv (Some u) dn dh xa = Some env" and "spawn argv env = None"
  shows "scdm_run_script runnable build parse spawn 0 senv dir u dn dh xa = Some True
    \<and> scdm_run_script runnable build parse spawn 256 senv dir u dn dh xa = Some False"
  using assms by (simp add: scdm_run_script_def wifexited_def wexitstatus_def)

theorem run_script_spawn_failure_witness:
  "scdm_run_script (\<lambda>_. True) concat (\<lambda>s. Some [s]) (\<lambda>_ _. None) 0 (\<lambda>_ _ _ _. Some []) ''d'' ''joe'' None None None = Some True
    \<and> scdm_run_script (\<lambda>_. True) concat (\<lambda>s. Some [s]) (\<lambda>_ _. None) 256 (\<lambda>_ _ _ _. Some []) ''d'' ''joe'' None None None = Some False"
  by (rule run_script_spawn_failure [where s = "''d''" and argv = "[''d'']" and env = "[]"])
    (simp_all add: find_script_def)

end
