(* ===== verification/Common_Login.thy ===== *)
theory Common_Login
  imports Prelude
begin

text \<open>
  The login session helpers of \<open>src/common/scdm-common.c\<close>: finding the graphical
  session of a process or user, finding the login window of a seat, and switching to it.
  The answers of libsystemd are a record of functions (\<open>Inl\<close> for a negative return, with
  the error number), the two D-Bus calls made are recorded in order.
\<close>

section \<open>Queries\<close>

record sd_login =
  sd_pid_get_session :: "int \<Rightarrow> errno + string"
  sd_uid_get_sessions :: "u32 \<Rightarrow> errno + string list"
  sd_session_get_type :: "string \<Rightarrow> errno + string"
  sd_session_get_state :: "string \<Rightarrow> errno + string"
  sd_session_get_class :: "string \<Rightarrow> errno + string"
  sd_session_get_service :: "string \<Rightarrow> errno + string"
  sd_session_get_seat :: "string \<Rightarrow> errno + string"
  sd_seat_can_multi_session :: "string \<Rightarrow> errno + bool"
  sd_seat_get_sessions :: "string \<Rightarrow> errno + string list"

definition systemd_session_is_graphical :: "sd_login \<Rightarrow> string \<Rightarrow> bool" where
  "systemd_session_is_graphical sd session_id =
     (case sd_session_get_type sd session_id of
        Inl _ \<Rightarrow> False
      | Inr typ \<Rightarrow> typ \<in> {''wayland'', ''x11'', ''mir''})"

definition systemd_session_is_active :: "sd_login \<Rightarrow> string \<Rightarrow> bool" where
  "systemd_session_is_active sd session_id =
     (case sd_session_get_state sd session_id of
        Inl _ \<Rightarrow> False
      | Inr state \<Rightarrow> state \<in> {''active'', ''online''})"

datatype common_error =
    FailedToGetSessions u32 | NoGraphicalSession u32
  | CouldNotIdentifySession common_error | CouldNotIdentifySeat
  | UnableToDetermineMultiSession | UnableToStartLoginScreen | TransientDisplayFailed

text \<open>The \<open>for\<close> loop over the user's sessions; its last argument is \<open>local_session_id\<close>.\<close>

fun display_session_loop :: "sd_login \<Rightarrow> string list \<Rightarrow> string option \<Rightarrow> string option" where
  "display_session_loop sd [] local_session_id = local_session_id"
| "display_session_loop sd (s # ss) local_session_id =
     (if \<not> systemd_session_is_graphical sd s then display_session_loop sd ss local_session_id
      else if \<not> systemd_session_is_active sd s then display_session_loop sd ss local_session_id
      else display_session_loop sd ss (Some s))"

definition scdm_find_display_session :: "sd_login \<Rightarrow> int \<Rightarrow> u32 \<Rightarrow> common_error + string" where
  "scdm_find_display_session sd pid uid =
     (case sd_pid_get_session sd pid of
        Inr s \<Rightarrow> Inr s
      | Inl _ \<Rightarrow>
          (case sd_uid_get_sessions sd uid of
             Inl _ \<Rightarrow> Inl (FailedToGetSessions uid)
           | Inr sessions \<Rightarrow>
               (case display_session_loop sd sessions None of
                  None \<Rightarrow> Inl (NoGraphicalSession uid)
                | Some s \<Rightarrow> Inr s)))"

lemma display_session_loop_last:
  "display_session_loop sd ss acc =
     (let good = filter (\<lambda>s. systemd_session_is_graphical sd s \<and> systemd_session_is_active sd s) ss
      in if good = [] then acc else Some (last good))"
  by (induction sd ss acc rule: display_session_loop.induct) (auto simp: Let_def)

section \<open>The login window of a seat\<close>

text \<open>
  The loop of \<open>scdm_get_login_window_session_id\<close>: the return value and what
  \<open>*session_id\<close> holds afterwards, \<open>out\<close> being what it held before. After a failed
  state query the code compares \<open>res\<close>, the result of the class query before it, with
  \<open>-ENXIO\<close>; that query succeeded, so the comparison is false and the loop ends.
\<close>

fun login_window_loop :: "sd_login \<Rightarrow> string option \<Rightarrow> string list \<Rightarrow> bool \<times> string option" where
  "login_window_loop sd out [] = (False, None)"
| "login_window_loop sd out (s # ss) =
     (case sd_session_get_class sd s of
        Inl e \<Rightarrow> if e = ENXIO then login_window_loop sd out ss else (False, out)
      | Inr service_class \<Rightarrow>
          if service_class \<noteq> ''greeter'' then login_window_loop sd out ss
          else (case sd_session_get_state sd s of
                  Inl e \<Rightarrow> (False, out)
                | Inr state \<Rightarrow>
                    if state = ''closing'' then login_window_loop sd out ss
                    else (case sd_session_get_service sd s of
                            Inl e \<Rightarrow> if e = ENXIO then login_window_loop sd out ss else (False, out)
                          | Inr service_id \<Rightarrow>
                              if service_id = ''scdm-launch-environment'' then (True, Some s)
                              else login_window_loop sd out ss)))"

definition scdm_get_login_window_session_id ::
  "sd_login \<Rightarrow> string \<Rightarrow> string option \<Rightarrow> bool \<times> string option" where
  "scdm_get_login_window_session_id sd seat_id out =
     (case sd_seat_get_sessions sd seat_id of
        Inl _ \<Rightarrow> (False, out)
      | Inr sessions \<Rightarrow>
          if sessions = [] then (False, None) else login_window_loop sd out sessions)"

text \<open>What makes a session the login window.\<close>

definition is_login_window :: "sd_login \<Rightarrow> string \<Rightarrow> bool" where
  "is_login_window sd s \<longleftrightarrow>
     sd_session_get_class sd s = Inr ''greeter'' \<and>
     (\<exists>st. sd_session_get_state sd s = Inr st \<and> st \<noteq> ''closing'') \<and>
     sd_session_get_service sd s = Inr ''scdm-launch-environment''"

lemma login_window_loop_sound:
  "login_window_loop sd out ss = (True, r) \<Longrightarrow> \<exists>s \<in> set ss. r = Some s \<and> is_login_window sd s"
  by (induction sd out ss rule: login_window_loop.induct)
    (auto simp: is_login_window_def split: sum.splits if_splits)

text \<open>No query fails, but for sessions that are gone when their class or service is asked.\<close>

definition queries_settled :: "sd_login \<Rightarrow> string \<Rightarrow> bool" where
  "queries_settled sd s \<longleftrightarrow>
     (case sd_session_get_class sd s of Inl e \<Rightarrow> e = ENXIO | Inr _ \<Rightarrow> True) \<and>
     (case sd_session_get_state sd s of Inl e \<Rightarrow> False | Inr _ \<Rightarrow> True) \<and>
     (case sd_session_get_service sd s of Inl e \<Rightarrow> e = ENXIO | Inr _ \<Rightarrow> True)"

lemma login_window_loop_find:
  "\<forall>s \<in> set ss. queries_settled sd s \<Longrightarrow>
   login_window_loop sd out ss =
     (case List.find (is_login_window sd) ss of None \<Rightarrow> (False, None) | Some s \<Rightarrow> (True, Some s))"
  by (induction sd out ss rule: login_window_loop.induct)
    (auto simp: is_login_window_def queries_settled_def split: sum.splits)

section \<open>Switching\<close>

datatype bus_call = ActivateSessionOnSeat string string | CreateTransientDisplay

definition scdm_activate_session_by_id :: "(bus_call \<Rightarrow> bool) \<Rightarrow> string \<Rightarrow> string \<Rightarrow> bool \<times> bus_call list" where
  "scdm_activate_session_by_id bus seat_id session_id =
     (let c = ActivateSessionOnSeat session_id seat_id in (bus c, [c]))"

definition create_transient_display :: "(bus_call \<Rightarrow> bool) \<Rightarrow> (common_error + unit) \<times> bus_call list" where
  "create_transient_display bus =
     (if bus CreateTransientDisplay then (Inr (), [CreateTransientDisplay])
      else (Inl TransientDisplayFailed, [CreateTransientDisplay]))"

text \<open>The return value, the error left in \<open>*error\<close>, and the calls made.\<close>

definition goto_login_session ::
  "sd_login \<Rightarrow> (bus_call \<Rightarrow> bool) \<Rightarrow> u32 \<Rightarrow> bool \<times> common_error option \<times> bus_call list" where
  "goto_login_session sd bus uid =
     (case scdm_find_display_session sd 0 uid of
        Inl e \<Rightarrow> (False, Some (CouldNotIdentifySession e), [])
      | Inr our_session \<Rightarrow>
        (case sd_session_get_seat sd our_session of
           Inl _ \<Rightarrow> (False, Some CouldNotIdentifySeat, [])
         | Inr seat_id \<Rightarrow>
           (case sd_seat_can_multi_session sd seat_id of
              Inl _ \<Rightarrow> (False, Some UnableToDetermineMultiSession, [])
            | Inr multi \<Rightarrow>
              if \<not> multi then (False, Some UnableToStartLoginScreen, [])
              else
                let (res, session_id) = scdm_get_login_window_session_id sd seat_id None;
                    (ret, calls) = (case (res, session_id) of
                        (True, Some s) \<Rightarrow> scdm_activate_session_by_id bus seat_id s
                      | _ \<Rightarrow> (False, []))
                in if \<not> ret \<and> seat_id = ''seat0''
                   then (case create_transient_display bus of
                           (Inl e, calls') \<Rightarrow> (False, Some e, calls @ calls')
                         | (Inr _, calls') \<Rightarrow> (True, None, calls @ calls'))
                   else (ret, None, calls))))"

definition scdm_goto_login_session ::
  "('e + unit) \<Rightarrow> sd_login \<Rightarrow> (bus_call \<Rightarrow> bool) \<Rightarrow> u32 \<Rightarrow> bool \<times> ('e + common_error) option \<times> bus_call list" where
  "scdm_goto_login_session bus_get sd bus uid =
     (case bus_get of
        Inl e \<Rightarrow> (False, Some (Inl e), [])
      | Inr _ \<Rightarrow> (case goto_login_session sd bus uid of
          (ret, err, calls) \<Rightarrow> (ret, map_option Inr err, calls)))"

section \<open>Properties\<close>

text \<open>The session of a process wins; failing that, the result is the last, that is the
  oldest, of the user's sessions that is graphical and active or online, and the lookup fails
  exactly when there is none.\<close>

theorem find_display_session_result:
  assumes "sd_pid_get_session sd pid = Inl e" and "sd_uid_get_sessions sd uid = Inr ss"
  shows "scdm_find_display_session sd pid uid =
    (let good = filter (\<lambda>s. systemd_session_is_graphical sd s \<and> systemd_session_is_active sd s) ss
     in if good = [] then Inl (NoGraphicalSession uid) else Inr (last good))"
  using assms by (simp add: scdm_find_display_session_def display_session_loop_last Let_def)

definition example_sd :: sd_login where
  "example_sd = \<lparr>
     sd_pid_get_session = (\<lambda>_. Inl ENODATA),
     sd_uid_get_sessions = (\<lambda>_. Inr [''c2'', ''4'', ''2'']),
     sd_session_get_type = (\<lambda>s. Inr (if s = ''2'' then ''tty'' else ''x11'')),
     sd_session_get_state = (\<lambda>s. if s = ''c1'' then Inl ENXIO else Inr ''active''),
     sd_session_get_class = (\<lambda>s. Inr (if s = ''4'' then ''user'' else ''greeter'')),
     sd_session_get_service = (\<lambda>_. Inr ''scdm-launch-environment''),
     sd_session_get_seat = (\<lambda>_. Inr ''seat1''),
     sd_seat_can_multi_session = (\<lambda>_. Inr True),
     sd_seat_get_sessions = (\<lambda>_. Inr [''4'', ''c2''])\<rparr>"

theorem find_display_session_result_witness:
  "scdm_find_display_session example_sd 0 1000 = Inr ''4''"
  using find_display_session_result [of example_sd 0 ENODATA 1000 "[''c2'', ''4'', ''2'']"]
  by (simp add: example_sd_def systemd_session_is_graphical_def systemd_session_is_active_def)

text \<open>The login window found on a seat is the first of its sessions of class
  \<open>greeter\<close>, not closing, run by the launch environment, as long as no query but that
  of a vanished session's class or service fails; \<open>*session_id\<close> is then null exactly when
  the function returns false.\<close>

theorem login_window_session_first:
  assumes "sd_seat_get_sessions sd seat = Inr ss" and "\<forall>s \<in> set ss. queries_settled sd s"
  shows "scdm_get_login_window_session_id sd seat out =
    (List.find (is_login_window sd) ss \<noteq> None, List.find (is_login_window sd) ss)"
  using assms
  by (auto simp: scdm_get_login_window_session_id_def login_window_loop_find split: option.split)

theorem login_window_session_first_witness:
  "scdm_get_login_window_session_id example_sd ''seat1'' None = (True, Some ''c2'')"
  using login_window_session_first [of example_sd "''seat1''" "[''4'', ''c2'']" None]
  by (simp add: example_sd_def queries_settled_def is_login_window_def)

text \<open>A greeter session that goes away between the query of its class and that of its
  state ends the search, though the code means to skip it: the search returns false even when
  the next session is the login window.\<close>

theorem login_window_vanishing_session:
  assumes "sd_seat_get_sessions sd seat = Inr (s # ss)"
    and "sd_session_get_class sd s = Inr ''greeter''" and "sd_session_get_state sd s = Inl ENXIO"
  shows "scdm_get_login_window_session_id sd seat out = (False, out)"
  using assms by (simp add: scdm_get_login_window_session_id_def)

theorem login_window_vanishing_session_witness:
  "scdm_get_login_window_session_id
     (example_sd\<lparr>sd_seat_get_sessions := \<lambda>_. Inr [''c1'', ''c2'']\<rparr>) ''seat1'' None = (False, None)
   \<and> is_login_window example_sd ''c2''"
  using login_window_vanishing_session
    [of "example_sd\<lparr>sd_seat_get_sessions := \<lambda>_. Inr [''c1'', ''c2'']\<rparr>" "''seat1''" "''c1''" "[''c2'']" None]
  by (simp add: example_sd_def is_login_window_def)

text \<open>Switching to the login screen: a transient display is asked for only on
  \<open>seat0\<close> and only after no login window could be activated; the function succeeds
  exactly when the last call it made succeeded.\<close>

theorem goto_login_session_calls:
  "case goto_login_session sd bus uid of (ret, err, calls) \<Rightarrow>
     ret = (calls \<noteq> [] \<and> bus (last calls)) \<and>
     (CreateTransientDisplay \<in> set calls \<longrightarrow>
        (\<exists>our. scdm_find_display_session sd 0 uid = Inr our \<and> sd_session_get_seat sd our = Inr ''seat0'') \<and>
        last calls = CreateTransientDisplay \<and> (\<forall>c \<in> set (butlast calls). \<not> bus c)) \<and>
     (ret \<longrightarrow> err = None)"
  by (auto simp: goto_login_session_def scdm_activate_session_by_id_def create_transient_display_def
      Let_def split: sum.splits prod.splits bool.splits option.splits if_splits)

theorem goto_login_session_calls_witness:
  "goto_login_session example_sd (\<lambda>_. True) 1000 = (True, None, [ActivateSessionOnSeat ''c2'' ''seat1''])"
  using goto_login_session_calls [where sd = example_sd and bus = "\<lambda>_. True" and uid = 1000]
  by (simp add: goto_login_session_def scdm_find_display_session_def example_sd_def
      scdm_get_login_window_session_id_def scdm_activate_session_by_id_def
      systemd_session_is_graphical_def systemd_session_is_active_def)

text \<open>On another seat than \<open>seat0\<close> the function can fail without leaving an error: the
  caller that prints \<open>error->message\<close> then reads through a null pointer.\<close>

theorem goto_login_session_no_error:
  assumes "scdm_find_display_session sd 0 uid = Inr our" and "sd_session_get_seat sd our = Inr seat"
    and "seat \<noteq> ''seat0''" and "sd_seat_can_multi_session sd seat = Inr True"
    and "scdm_get_login_window_session_id sd seat None = (False, r)"
  shows "goto_login_session sd bus uid = (False, None, [])"
  using assms by (simp add: goto_login_session_def)

theorem goto_login_session_no_error_witness:
  "goto_login_session (example_sd\<lparr>sd_seat_get_sessions := \<lambda>_. Inr []\<rparr>) (\<lambda>_. True) 1000 = (False, None, [])"
  by (rule goto_login_session_no_error [where our = "''4''" and seat = "''seat1''" and r = None])
    (simp_all add: scdm_find_display_session_def example_sd_def scdm_get_login_window_session_id_def
      systemd_session_is_graphical_def systemd_session_is_active_def)

end
