(* ===== verification/Display_Store.thy ===== *)
theory Display_Store
  imports Prelude
begin

text \<open>
  The display store, \<open>src/daemon/scdm-display-store.c\<close>: a hash table from display ids to
  displays that holds a reference on each and announces additions and removals. The table is
  an association list with distinct keys; its order stands for the unspecified order of the
  hash table, and no law below depends on it. The signals emitted and the references taken
  and dropped are recorded in \<open>store_log\<close>, oldest first.
\<close>

section \<open>Contract\<close>

text \<open>What the display factories and the manager rely on.\<close>

locale display_registry =
  fixes empty :: 's
    and add :: "'s \<Rightarrow> string \<Rightarrow> 'd \<Rightarrow> 's"
    and lookup :: "'s \<Rightarrow> string \<Rightarrow> 'd option"
    and find :: "'s \<Rightarrow> (string \<Rightarrow> 'd \<Rightarrow> bool) \<Rightarrow> 'd option"
    and foreach_remove :: "'s \<Rightarrow> (string \<Rightarrow> 'd \<Rightarrow> bool) \<Rightarrow> 's"
    and invar :: "'s \<Rightarrow> bool"
  assumes lookup_empty: "lookup empty i = None"
    and invar_empty: "invar empty"
    and invar_add: "invar s \<Longrightarrow> invar (add s i d)"
    and invar_foreach_remove: "invar s \<Longrightarrow> invar (foreach_remove s P)"
    and lookup_add: "invar s \<Longrightarrow> lookup (add s i d) j = (if j = i then Some d else lookup s j)"
    and lookup_foreach_remove: "invar s \<Longrightarrow> lookup (foreach_remove s P) i =
      (case lookup s i of None \<Rightarrow> None | Some d \<Rightarrow> if P i d then None else Some d)"
    and find_Some: "invar s \<Longrightarrow> find s P = Some d \<Longrightarrow> \<exists>i. lookup s i = Some d \<and> P i d"
    and find_None: "invar s \<Longrightarrow> find s P = None \<Longrightarrow> lookup s i = Some d \<Longrightarrow> \<not> P i d"
begin

lemma find_iff: "invar s \<Longrightarrow> find s P \<noteq> None \<longleftrightarrow> (\<exists>i d. lookup s i = Some d \<and> P i d)"
  using find_Some find_None by (metis option.exhaust)

lemma find_empty: "find empty P = None"
  using find_iff [OF invar_empty] lookup_empty by (metis option.distinct(1))

lemma find_after_add: "invar s \<Longrightarrow> P i d \<Longrightarrow> find (add s i d) P \<noteq> None"
  using find_iff [OF invar_add] lookup_add by metis

lemma find_after_remove: "invar s \<Longrightarrow> find (foreach_remove s P) P = None"
proof (rule ccontr)
  assume s: "invar s" and "find (foreach_remove s P) P \<noteq> None"
  then obtain i d where "lookup (foreach_remove s P) i = Some d" "P i d"
    using find_iff [OF invar_foreach_remove [OF s]] by blast
  then show False
    using lookup_foreach_remove [OF s, of P i] by (auto split: option.splits if_splits)
qed

text \<open>Adding under a fresh id and removing the object again restores every lookup.\<close>

lemma remove_after_add:
  assumes "invar s" and "lookup s i = None" and "\<And>j. lookup s j \<noteq> Some d"
  shows "lookup (foreach_remove (add s i d) (\<lambda>_ d'. d' = d)) j = lookup s j"
  using assms by (auto simp: lookup_foreach_remove invar_add lookup_add split: option.split)

end

section \<open>The store\<close>

datatype 'd store_event =
  RefDisplay 'd | UnrefDisplay 'd | SignalAdded string | SignalRemoved 'd

record 'd store =
  displays :: "(string \<times> 'd) list"
  store_log :: "'d store_event list"

definition scdm_display_store_new :: "'d store" where
  "scdm_display_store_new = \<lparr>displays = [], store_log = []\<rparr>"

text \<open>\<open>stored_display_new\<close> takes a reference; \<open>stored_display_free\<close> announces the
  removal and drops it.\<close>

definition stored_display_new :: "'d \<Rightarrow> 'd store_event list" where
  "stored_display_new d = [RefDisplay d]"

definition stored_display_free :: "'d \<Rightarrow> 'd store_event list" where
  "stored_display_free d = [SignalRemoved d, UnrefDisplay d]"

definition scdm_display_store_add :: "'d store \<Rightarrow> string \<Rightarrow> 'd \<Rightarrow> 'd store" where
  "scdm_display_store_add s i d =
     s\<lparr>displays := AList.update i d (displays s),
       store_log := store_log s @ stored_display_new d @
         (case map_of (displays s) i of None \<Rightarrow> [] | Some old \<Rightarrow> stored_display_free old) @
         [SignalAdded i]\<rparr>"

definition scdm_display_store_lookup :: "'d store \<Rightarrow> string \<Rightarrow> 'd option" where
  "scdm_display_store_lookup s i = map_of (displays s) i"

definition scdm_display_store_find :: "'d store \<Rightarrow> (string \<Rightarrow> 'd \<Rightarrow> bool) \<Rightarrow> 'd option" where
  "scdm_display_store_find s predicate =
     map_option snd (List.find (\<lambda>(i, d). predicate i d) (displays s))"

text \<open>\<open>scdm_display_store_foreach\<close> calls the function on every entry, ignoring its result;
  a function with effects folds over a state.\<close>

definition scdm_display_store_foreach :: "'d store \<Rightarrow> (string \<Rightarrow> 'd \<Rightarrow> 'a \<Rightarrow> 'a) \<Rightarrow> 'a \<Rightarrow> 'a" where
  "scdm_display_store_foreach s func a = fold (\<lambda>(i, d). func i d) (displays s) a"

definition scdm_display_store_foreach_remove ::
  "'d store \<Rightarrow> (string \<Rightarrow> 'd \<Rightarrow> bool) \<Rightarrow> 'd store \<times> nat" where
  "scdm_display_store_foreach_remove s func =
     (let gone = filter (\<lambda>(i, d). func i d) (displays s)
      in (s\<lparr>displays := filter (\<lambda>(i, d). \<not> func i d) (displays s),
            store_log := store_log s @ concat (map (\<lambda>(i, d). stored_display_free d) gone)\<rparr>,
          length gone))"

definition remove_display :: "'d \<Rightarrow> string \<Rightarrow> 'd \<Rightarrow> bool" where
  "remove_display display_to_remove i display \<longleftrightarrow> display = display_to_remove"

text \<open>The result is always false, whether or not something was removed.\<close>

definition scdm_display_store_remove :: "'d store \<Rightarrow> 'd \<Rightarrow> 'd store \<times> bool" where
  "scdm_display_store_remove s display =
     (fst (scdm_display_store_foreach_remove s (remove_display display)), False)"

definition scdm_display_store_clear :: "'d store \<Rightarrow> 'd store" where
  "scdm_display_store_clear s =
     s\<lparr>displays := [],
       store_log := store_log s @ concat (map (\<lambda>(i, d). stored_display_free d) (displays s))\<rparr>"

section \<open>Invariants\<close>

definition store_invar :: "'d store \<Rightarrow> bool" where
  "store_invar s \<longleftrightarrow> distinct (map fst (displays s))"

text \<open>References held according to the log.\<close>

definition log_refs :: "'d store_event list \<Rightarrow> 'd \<Rightarrow> int" where
  "log_refs l d = int (count_list l (RefDisplay d)) - int (count_list l (UnrefDisplay d))"

definition refs_balanced :: "'d store \<Rightarrow> bool" where
  "refs_balanced s \<longleftrightarrow>
     (\<forall>d. log_refs (store_log s) d = int (count_list (map snd (displays s)) d))"

lemma log_refs_append [simp]: "log_refs (l @ l') d = log_refs l d + log_refs l' d"
  by (simp add: log_refs_def)

lemma log_refs_simps [simp]:
  "log_refs [] d = 0"
  "log_refs (e # l) d = (case e of RefDisplay d' \<Rightarrow> if d' = d then 1 else 0
     | UnrefDisplay d' \<Rightarrow> if d' = d then -1 else 0 | _ \<Rightarrow> 0) + log_refs l d"
  by (auto simp: log_refs_def split: store_event.split)

lemma log_refs_free [simp]: "log_refs (stored_display_free d') d = (if d' = d then -1 else 0)"
  by (simp add: stored_display_free_def)

lemma log_refs_frees:
  "log_refs (concat (map (\<lambda>(i, d). stored_display_free d) xs)) d = - int (count_list (map snd xs) d)"
  by (induction xs) auto

lemma count_list_filter_split:
  "count_list (map f xs) y = count_list (map f (filter P xs)) y + count_list (map f (filter (\<lambda>x. \<not> P x) xs)) y"
  by (induction xs) auto

lemma count_update:
  "int (count_list (map snd (AList.update i d xs)) d') =
     int (count_list (map snd xs) d') + (if d = d' then 1 else 0)
       - (case map_of xs i of None \<Rightarrow> 0 | Some old \<Rightarrow> if old = d' then 1 else 0)"
  by (induction xs) auto

lemma find_alist:
  "List.find (\<lambda>(i, d). P i d) xs = Some (i, d) \<Longrightarrow> distinct (map fst xs) \<Longrightarrow> map_of xs i = Some d \<and> P i d"
  by (induction xs) (auto split: if_splits simp: rev_image_eqI)

lemma map_of_filter:
  "distinct (map fst xs) \<Longrightarrow> map_of (filter (\<lambda>(i, d). P i d) xs) i =
     (case map_of xs i of None \<Rightarrow> None | Some d \<Rightarrow> if P i d then Some d else None)"
  by (induction xs) (auto split: option.split simp: map_of_eq_None_iff)

interpretation store: display_registry
  scdm_display_store_new scdm_display_store_add scdm_display_store_lookup scdm_display_store_find
  "\<lambda>s P. fst (scdm_display_store_foreach_remove s P)" store_invar
proof (unfold_locales, goal_cases)
  case (7 s P d)
  then obtain i where "List.find (\<lambda>(i, d). P i d) (displays s) = Some (i, d)"
    by (auto simp: scdm_display_store_find_def)
  then show ?case
    using find_alist 7(1) unfolding store_invar_def scdm_display_store_lookup_def by fastforce
next
  case (8 s P i d)
  then show ?case
    by (auto simp: scdm_display_store_find_def scdm_display_store_lookup_def find_None_iff dest: map_of_SomeD)
qed (auto simp: store_invar_def scdm_display_store_new_def scdm_display_store_lookup_def
    scdm_display_store_add_def scdm_display_store_foreach_remove_def Let_def update_conv'
    distinct_update map_of_filter distinct_map_filter split: option.split)

lemma refs_balanced_new: "refs_balanced scdm_display_store_new"
  by (simp add: refs_balanced_def scdm_display_store_new_def)

lemma refs_balanced_add [inv_intros]: "refs_balanced s \<Longrightarrow> refs_balanced (scdm_display_store_add s i d)"
  by (auto simp: refs_balanced_def scdm_display_store_add_def stored_display_new_def count_update
      split: option.split)

lemma refs_balanced_foreach_remove [inv_intros]:
  "refs_balanced s \<Longrightarrow> refs_balanced (fst (scdm_display_store_foreach_remove s P))"
  using count_list_filter_split [of snd "displays s" _ "\<lambda>(i, d). P i d"]
  by (auto simp: refs_balanced_def scdm_display_store_foreach_remove_def Let_def
      log_refs_frees [unfolded case_prod_unfold] case_prod_unfold)

lemma refs_balanced_clear [inv_intros]: "refs_balanced s \<Longrightarrow> refs_balanced (scdm_display_store_clear s)"
  by (simp add: refs_balanced_def scdm_display_store_clear_def log_refs_frees)

section \<open>Histories\<close>

datatype 'd store_op = Add string 'd | Remove 'd | ForeachRemove "string \<Rightarrow> 'd \<Rightarrow> bool" | Clear

fun store_step :: "'d store \<Rightarrow> 'd store_op \<Rightarrow> 'd store" where
  "store_step s (Add i d) = scdm_display_store_add s i d"
| "store_step s (Remove d) = fst (scdm_display_store_remove s d)"
| "store_step s (ForeachRemove P) = fst (scdm_display_store_foreach_remove s P)"
| "store_step s Clear = scdm_display_store_clear s"

lemma store_step_inv: "store_invar s \<Longrightarrow> store_invar (store_step s x)"
  by (cases x) (auto simp: store.invar_add store.invar_foreach_remove scdm_display_store_remove_def
      scdm_display_store_clear_def store_invar_def [of "_\<lparr>displays := [], store_log := _\<rparr>"])

lemma store_step_refs: "refs_balanced s \<Longrightarrow> refs_balanced (store_step s x)"
  by (cases x) (auto simp: scdm_display_store_remove_def intro: inv_intros)

text \<open>C29. The store never leaks or over-drops a reference: after any history of additions,
  removals and clearings from the empty store, ids are distinct and the references the store
  has taken less those it has dropped on a display are exactly the number of entries that
  hold it; in particular clearing drops them all.\<close>

theorem store_references:
  fixes h :: "'d store_op list"
  defines "s \<equiv> foldl store_step scdm_display_store_new h"
  shows "store_invar s \<and>
    log_refs (store_log s) d = int (count_list (map snd (displays s)) d) \<and>
    log_refs (store_log (scdm_display_store_clear s)) d = 0"
proof -
  have "store_invar s \<and> refs_balanced s"
    unfolding s_def
    by (induction h rule: rev_induct)
      (auto simp: store.invar_empty refs_balanced_new store_step_inv store_step_refs)
  moreover from this have "refs_balanced (scdm_display_store_clear s)" by (blast intro: inv_intros)
  ultimately show ?thesis by (simp add: refs_balanced_def scdm_display_store_clear_def)
qed

text \<open>After a display has been removed, no entry holds it and every other entry is
  untouched; lookups and searches see exactly the remaining ones.\<close>

theorem store_remove_lookup:
  assumes "store_invar s"
  shows "scdm_display_store_lookup (fst (scdm_display_store_remove s d)) i =
      (if scdm_display_store_lookup s i = Some d then None else scdm_display_store_lookup s i)
    \<and> scdm_display_store_find (fst (scdm_display_store_remove s d)) (\<lambda>_ d'. d' = d) = None"
proof -
  have "remove_display d = (\<lambda>_ d'. d' = d)" by (simp add: fun_eq_iff remove_display_def)
  then show ?thesis
    using store.lookup_foreach_remove [OF assms] store.find_after_remove [OF assms]
    by (auto simp: scdm_display_store_remove_def split: option.split)
qed

theorem store_remove_lookup_witness:
  "scdm_display_store_lookup
     (fst (scdm_display_store_remove (scdm_display_store_add scdm_display_store_new ''1'' (7::nat)) 7)) ''1'' = None"
  using store_remove_lookup [of "scdm_display_store_add scdm_display_store_new ''1'' (7::nat)" 7 "''1''"]
  by (simp add: store.invar_add store.invar_empty store.lookup_add)

end
