(* ===== verification/Access_File.thy ===== *)
theory Access_File
  imports Prelude
begin

text \<open>
  X authority files, \<open>src/daemon/scdm-display-access-file.c\<close>: creating a private
  directory and database for a user, writing the entries of a display into it, and removing
  it. The answers of the system calls are a record, the calls made are a list of effects in
  order; the user database, the host name and \<open>XauWriteAuth\<close> are arguments.
\<close>

section \<open>State and effects\<close>

record access_file =
  af_username :: string
  af_fp :: "nat option" \<comment> \<open>the open stream, by its descriptor\<close>
  af_path :: "string option"

datatype fs_effect =
    Remove string | Mkdir string nat | Chmod string nat | Chown string u32 u32
  | Rmdir string | Mkdtemp string | OpenExcl string nat | Fchown nat u32 u32
  | CloseFd nat | Unlink string | Fclose nat

datatype access_error = FileError errno | UserNotFound string

record fs_answers =
  xauth_dir_entries :: "string list option" \<comment> \<open>\<open>None\<close>: not a directory\<close>
  mkdir_result :: "errno option"
  user_ids :: "string \<Rightarrow> (u32 \<times> u32) option"
  mkdtemp_result :: "errno + string"
  chown_result :: "errno option"
  open_result :: "errno + nat"
  fchown_result :: "errno option"
  fdopen_result :: "errno option"

text \<open>\<open>01700\<close> in the comment of the source is \<open>0700\<close>, the mode of
  \<open>mkdtemp\<close>. Modes are written in decimal: 457 is \<open>0711\<close>, 384 is \<open>0600\<close>.\<close>

definition mode_0711 :: nat where "mode_0711 = 457"
definition mode_0600 :: nat where "mode_0600 = 384"

section \<open>Creating\<close>

definition get_uid_and_gid_for_user :: "fs_answers \<Rightarrow> string \<Rightarrow> (u32 \<times> u32) option" where
  "get_uid_and_gid_for_user env username = user_ids env username"

definition clean_up_stale_auth_subdirs :: "string \<Rightarrow> string list \<Rightarrow> fs_effect list" where
  "clean_up_stale_auth_subdirs xauth_dir entries = map (\<lambda>f. Rmdir (xauth_dir @ ''/'' @ f)) entries"

text \<open>The part up to the lookup of the user: the directory of all authority files. The group
  id used for it is that of \<open>scdm_user\<close>; the lookup's failure is not tested, and
  \<open>garbage_gid\<close> is then what the local holds.\<close>

definition prepare_xauth_dir ::
  "fs_answers \<Rightarrow> string \<Rightarrow> string \<Rightarrow> u32 \<Rightarrow> (access_error + unit) \<times> fs_effect list" where
  "prepare_xauth_dir env xauth_dir scdm_user garbage_gid =
     (case xauth_dir_entries env of
        None \<Rightarrow>
          (case mkdir_result env of
             Some e \<Rightarrow> (Inl (FileError e), [Remove xauth_dir, Mkdir xauth_dir mode_0711])
           | None \<Rightarrow>
               let gid = (case get_uid_and_gid_for_user env scdm_user of
                            None \<Rightarrow> garbage_gid | Some (_, g) \<Rightarrow> g)
               in (Inr (), [Remove xauth_dir, Mkdir xauth_dir mode_0711, Chmod xauth_dir mode_0711,
                            Chown xauth_dir 0 gid]))
      | Some entries \<Rightarrow>
          (Inr (), Chmod xauth_dir mode_0711 # clean_up_stale_auth_subdirs xauth_dir entries))"

definition create_xauth_file_for_user ::
  "fs_answers \<Rightarrow> string \<Rightarrow> string \<Rightarrow> u32 \<Rightarrow> string \<Rightarrow> (access_error + nat \<times> string) \<times> fs_effect list" where
  "create_xauth_file_for_user env xauth_dir scdm_user garbage_gid username =
     (case prepare_xauth_dir env xauth_dir scdm_user garbage_gid of
        (Inl e, fx) \<Rightarrow> (Inl e, fx)
      | (Inr _, fx) \<Rightarrow>
        (case get_uid_and_gid_for_user env username of
           None \<Rightarrow> (Inl (UserNotFound username), fx)
         | Some (uid, gid) \<Rightarrow>
           let template = xauth_dir @ ''/auth-for-'' @ username @ ''-XXXXXX'' in
           (case mkdtemp_result env of
              Inl e \<Rightarrow> (Inl (FileError e), fx @ [Mkdtemp template])
            | Inr dir_name \<Rightarrow>
              let fx = fx @ [Mkdtemp template, Chown dir_name uid gid] in
              (case chown_result env of
                 Some e \<Rightarrow> (Inl (FileError e), fx)
               | None \<Rightarrow>
                 let auth_filename = dir_name @ ''/database'';
                     fx = fx @ [OpenExcl auth_filename mode_0600] in
                 (case open_result env of
                    Inl e \<Rightarrow> (Inl (FileError e), fx)
                  | Inr fd \<Rightarrow>
                    let fx = fx @ [Fchown fd uid gid] in
                    (case fchown_result env of
                       Some e \<Rightarrow> (Inl (FileError e), fx @ [CloseFd fd])
                     | None \<Rightarrow>
                       let fx = fx @ [Chmod dir_name mode_0711] in
                       (case fdopen_result env of
                          Some e \<Rightarrow> (Inl (FileError e), fx @ [CloseFd fd])
                        | None \<Rightarrow> (Inr (fd, auth_filename), fx))))))))"

definition scdm_display_access_file_new :: "string \<Rightarrow> access_file" where
  "scdm_display_access_file_new username = \<lparr>af_username = username, af_fp = None, af_path = None\<rparr>"

text \<open>\<open>None\<close> as the error of a false result: a precondition of the function failed
  (\<open>g_return_val_if_fail\<close>) and nothing was done.\<close>

definition scdm_display_access_file_open ::
  "fs_answers \<Rightarrow> string \<Rightarrow> string \<Rightarrow> u32 \<Rightarrow> access_file \<Rightarrow>
     (access_error option + unit) \<times> access_file \<times> fs_effect list" where
  "scdm_display_access_file_open env xauth_dir scdm_user garbage_gid file =
     (if af_fp file \<noteq> None \<or> af_path file \<noteq> None then (Inl None, file, [])
      else (case create_xauth_file_for_user env xauth_dir scdm_user garbage_gid (af_username file) of
              (Inl e, fx) \<Rightarrow> (Inl (Some e), file\<lparr>af_fp := None, af_path := None\<rparr>, fx)
            | (Inr (fd, filename), fx) \<Rightarrow>
                (Inr (), file\<lparr>af_fp := Some fd, af_path := Some filename\<rparr>, fx)))"

section \<open>Entries\<close>

datatype family = FamilyLocal | FamilyWild

record xauth =
  xa_family :: family
  xa_address :: string
  xa_address_length :: u16
  xa_number :: string
  xa_number_length :: u16
  xa_name :: string
  xa_name_length :: u16
  xa_data :: "u8 list"
  xa_data_length :: u16

text \<open>What the file needs to know of a display. The remote host name of a display that is
  not local is read through; \<open>None\<close> is a null pointer, and the result \<open>None\<close> the
  crash in \<open>strlen\<close>.\<close>

definition get_auth_info_for_display ::
  "string option \<Rightarrow> bool \<Rightarrow> string option \<Rightarrow> int \<Rightarrow> u8 list \<Rightarrow> xauth option" where
  "get_auth_info_for_display gethostname is_local remote_hostname display_number cookie =
     (let family = (if is_local then FamilyLocal else FamilyWild);
          address = (if is_local
                     then Some (case gethostname of None \<Rightarrow> ''localhost'' | Some h \<Rightarrow> h)
                     else remote_hostname);
          number = show_int display_number;
          name = ''MIT-MAGIC-COOKIE-1''
      in map_option (\<lambda>address.
           \<lparr>xa_family = family, xa_address = address, xa_address_length = of_nat (length address),
            xa_number = number, xa_number_length = of_nat (length number),
            xa_name = name, xa_name_length = of_nat (length name),
            xa_data = cookie, xa_data_length = of_nat (length cookie)\<rparr>) address)"

text \<open>\<open>wrote\<close> answers, for each entry written, whether \<open>XauWriteAuth\<close> and
  \<open>fflush\<close> succeeded. The result: whether the display was added, and the entries that
  reached the file. \<open>None\<close>: the crash above.\<close>

definition scdm_display_access_file_add_display_with_cookie ::
  "(xauth \<Rightarrow> bool) \<Rightarrow> string option \<Rightarrow> access_file \<Rightarrow> bool \<Rightarrow> string option \<Rightarrow> int \<Rightarrow> u8 list \<Rightarrow>
     (bool \<times> xauth list) option" where
  "scdm_display_access_file_add_display_with_cookie wrote gethostname file is_local remote_hostname
     display_number cookie =
     (if af_path file = None then Some (False, [])
      else (case get_auth_info_for_display gethostname is_local remote_hostname display_number cookie of
              None \<Rightarrow> None
            | Some auth_entry \<Rightarrow>
                let display_added = wrote auth_entry;
                    entries = (if display_added then [auth_entry] else []);
                    wild = auth_entry\<lparr>xa_family := FamilyWild\<rparr>
                in Some (if xa_family auth_entry = FamilyLocal \<and> wrote wild
                         then (True, entries @ [wild]) else (display_added, entries))))"

text \<open>\<open>random\<close> is the result of \<open>scdm_generate_random_bytes\<close>. The second component
  is the cookie left in \<open>*cookie\<close>.\<close>

definition scdm_display_access_file_add_display ::
  "('e + u8 list) \<Rightarrow> (xauth \<Rightarrow> bool) \<Rightarrow> string option \<Rightarrow> access_file \<Rightarrow> bool \<Rightarrow> string option \<Rightarrow> int \<Rightarrow>
     (bool \<times> u8 list option \<times> xauth list) option" where
  "scdm_display_access_file_add_display random wrote gethostname file is_local remote_hostname
     display_number =
     (if af_path file = None then Some (False, None, [])
      else (case random of
              Inl _ \<Rightarrow> Some (False, None, [])
            | Inr cookie \<Rightarrow>
                map_option (\<lambda>(added, entries). (added, if added then Some cookie else None, entries))
                  (scdm_display_access_file_add_display_with_cookie wrote gethostname file is_local
                     remote_hostname display_number cookie)))"

section \<open>Closing\<close>

definition scdm_display_access_file_close ::
  "(string \<Rightarrow> string) \<Rightarrow> access_file \<Rightarrow> access_file \<times> fs_effect list" where
  "scdm_display_access_file_close dirname file =
     (case (af_fp file, af_path file) of
        (Some fp, Some path) \<Rightarrow>
          (file\<lparr>af_fp := None, af_path := None\<rparr>, [Unlink path, Rmdir (dirname path), Fclose fp])
      | _ \<Rightarrow> (file, []))"

definition scdm_display_access_file_finalize ::
  "(string \<Rightarrow> string) \<Rightarrow> access_file \<Rightarrow> fs_effect list" where
  "scdm_display_access_file_finalize dirname file =
     (if af_fp file \<noteq> None then snd (scdm_display_access_file_close dirname file) else [])"

definition scdm_display_access_file_get_path :: "access_file \<Rightarrow> string option" where
  "scdm_display_access_file_get_path file = af_path file"

section \<open>Invariant\<close>

text \<open>The stream is open exactly while a path is recorded.\<close>

definition af_wf :: "access_file \<Rightarrow> bool" where
  "af_wf file \<longleftrightarrow> (af_fp file = None \<longleftrightarrow> af_path file = None)"

lemma af_wf_new [inv_intros]: "af_wf (scdm_display_access_file_new u)"
  by (simp add: af_wf_def scdm_display_access_file_new_def)

lemma af_wf_open [inv_intros]:
  "af_wf f \<Longrightarrow> af_wf (fst (snd (scdm_display_access_file_open env xd su gg f)))"
  by (auto simp: af_wf_def scdm_display_access_file_open_def split: prod.split sum.split)

lemma af_wf_close [inv_intros]: "af_wf f \<Longrightarrow> af_wf (fst (scdm_display_access_file_close dn f))"
  by (auto simp: af_wf_def scdm_display_access_file_close_def split: option.split)

lemma close_closes:
  "af_wf f \<Longrightarrow> af_fp (fst (scdm_display_access_file_close dn f)) = None \<and>
     af_path (fst (scdm_display_access_file_close dn f)) = None"
  by (auto simp: af_wf_def scdm_display_access_file_close_def split: option.split)

lemma close_twice:
  "af_wf f \<Longrightarrow> scdm_display_access_file_close dn (fst (scdm_display_access_file_close dn f))
     = (fst (scdm_display_access_file_close dn f), [])"
  by (auto simp: af_wf_def scdm_display_access_file_close_def split: option.split)

lemma open_Inr:
  assumes "scdm_display_access_file_open env xd su gg f = (Inr (), f', fx)"
  obtains uid gid d fd pre where "user_ids env (af_username f) = Some (uid, gid)"
    and "mkdtemp_result env = Inr d" and "open_result env = Inr fd"
    and "prepare_xauth_dir env xd su gg = (Inr (), pre)"
    and "f' = f\<lparr>af_fp := Some fd, af_path := Some (d @ ''/database'')\<rparr>"
    and "fx = pre @ [Mkdtemp (xd @ ''/auth-for-'' @ af_username f @ ''-XXXXXX''), Chown d uid gid,
               OpenExcl (d @ ''/database'') mode_0600, Fchown fd uid gid, Chmod d mode_0711]"
  using assms
  by (auto simp: scdm_display_access_file_open_def create_xauth_file_for_user_def
      get_uid_and_gid_for_user_def Let_def
      split: if_splits prod.splits sum.splits option.splits)

section \<open>Properties\<close>

text \<open>An authority file is never readable by others while it is set up: when opening
  succeeds, the new directory is handed to the user first, the database is created in it
  exclusively with mode 0600 and handed over, and only then is the directory opened up; the
  file records the stream and the path of that database.\<close>

theorem access_file_open_private:
  assumes "scdm_display_access_file_open env xauth_dir scdm_user gg f = (Inr (), f', fx)"
  shows "\<exists>uid gid d fd pre. user_ids env (af_username f) = Some (uid, gid) \<and>
    fx = pre @ [Mkdtemp (xauth_dir @ ''/auth-for-'' @ af_username f @ ''-XXXXXX''), Chown d uid gid,
      OpenExcl (d @ ''/database'') mode_0600, Fchown fd uid gid, Chmod d mode_0711] \<and>
    af_fp f' = Some fd \<and> af_path f' = Some (d @ ''/database'') \<and> af_username f' = af_username f"
  using assms by (rule open_Inr) auto

definition example_fs :: fs_answers where
  "example_fs = \<lparr>xauth_dir_entries = Some [''old''], mkdir_result = None,
     user_ids = (\<lambda>u. if u = ''joe'' then Some (1000, 100) else None),
     mkdtemp_result = Inr ''/x/auth-for-joe-1'', chown_result = None, open_result = Inr 7,
     fchown_result = None, fdopen_result = None\<rparr>"

theorem access_file_open_private_witness:
  "\<exists>f' fx. scdm_display_access_file_open example_fs ''/x'' ''scdm'' 0 (scdm_display_access_file_new ''joe'')
     = (Inr (), f', fx) \<and> last fx = Chmod ''/x/auth-for-joe-1'' mode_0711 \<and> af_fp f' = Some 7"
proof -
  obtain f' fx where o: "scdm_display_access_file_open example_fs ''/x'' ''scdm'' 0
      (scdm_display_access_file_new ''joe'') = (Inr (), f', fx)"
    by (simp add: example_fs_def scdm_display_access_file_open_def scdm_display_access_file_new_def
        create_xauth_file_for_user_def prepare_xauth_dir_def get_uid_and_gid_for_user_def Let_def)
  then have "last fx = Chmod ''/x/auth-for-joe-1'' mode_0711 \<and> af_fp f' = Some 7"
    using access_file_open_private [OF o]
    by (auto simp: example_fs_def scdm_display_access_file_open_def scdm_display_access_file_new_def
        create_xauth_file_for_user_def prepare_xauth_dir_def get_uid_and_gid_for_user_def Let_def)
  then show ?thesis using o by blast
qed

text \<open>When opening fails the directory made for the user, if any, is not opened up to
  others unless only the stream could not be made, no descriptor stays open, and the file
  records neither stream nor path.\<close>

theorem access_file_open_failed:
  assumes "scdm_display_access_file_open env xauth_dir scdm_user gg f = (Inl (Some e), f', fx)"
    and "mkdtemp_result env = Inr d" and "d \<noteq> xauth_dir"
  shows "af_fp f' = None \<and> af_path f' = None \<and>
    (Chmod d mode_0711 \<in> set fx \<longrightarrow> (\<exists>e'. fdopen_result env = Some e' \<and> e = FileError e')) \<and>
    (\<forall>fd p m. open_result env = Inr fd \<longrightarrow> OpenExcl p m \<in> set fx \<longrightarrow> last fx = CloseFd fd)"
  using assms
  by (auto simp: scdm_display_access_file_open_def create_xauth_file_for_user_def
      prepare_xauth_dir_def clean_up_stale_auth_subdirs_def get_uid_and_gid_for_user_def Let_def
      split: if_splits prod.splits sum.splits option.splits)

theorem access_file_open_failed_witness:
  "\<exists>f' fx. scdm_display_access_file_open (example_fs\<lparr>fchown_result := Some ENOENT\<rparr>) ''/x'' ''scdm'' 0
      (scdm_display_access_file_new ''joe'') = (Inl (Some (FileError ENOENT)), f', fx) \<and> last fx = CloseFd 7"
proof -
  let ?env = "example_fs\<lparr>fchown_result := Some ENOENT\<rparr>"
  note defs = example_fs_def scdm_display_access_file_open_def scdm_display_access_file_new_def
    create_xauth_file_for_user_def prepare_xauth_dir_def get_uid_and_gid_for_user_def Let_def
  obtain f' fx where o: "scdm_display_access_file_open ?env ''/x'' ''scdm'' 0
      (scdm_display_access_file_new ''joe'') = (Inl (Some (FileError ENOENT)), f', fx)"
    by (simp add: defs)
  then have "OpenExcl (''/x/auth-for-joe-1'' @ ''/database'') mode_0600 \<in> set fx"
    by (auto simp: defs)
  then show ?thesis
    using access_file_open_failed [OF o, of "''/x/auth-for-joe-1''"] o by (fastforce simp: example_fs_def)
qed

text \<open>The cookie of a display is written for its own host name and, so that a changed
  host name does not lock anyone out, as a wildcard entry; adding succeeds exactly when one
  of the two entries was written, and a display that is not local gets a wildcard entry for
  its remote host name only.\<close>

theorem access_file_entries:
  assumes "af_path file \<noteq> None" and "is_local \<or> remote = Some host"
  shows "\<exists>entry added entries.
    get_auth_info_for_display gethostname is_local remote n cookie = Some entry \<and>
    scdm_display_access_file_add_display_with_cookie wrote gethostname file is_local remote n cookie
      = Some (added, entries) \<and>
    entries = filter wrote (entry # (if is_local then [entry\<lparr>xa_family := FamilyWild\<rparr>] else [])) \<and>
    added = (entries \<noteq> []) \<and> (\<forall>x \<in> set entries. xa_data x = cookie \<and> xa_number x = show_int n)"
  using assms
  by (auto simp: get_auth_info_for_display_def scdm_display_access_file_add_display_with_cookie_def Let_def)

theorem access_file_entries_witness:
  "\<exists>entry added entries.
    get_auth_info_for_display None True None 3 [1] = Some entry \<and>
    scdm_display_access_file_add_display_with_cookie (\<lambda>x. xa_family x = FamilyWild) None
      \<lparr>af_username = ''joe'', af_fp = Some 7, af_path = Some ''/x/d''\<rparr> True None 3 [1] = Some (added, entries) \<and>
    entries = filter (\<lambda>x. xa_family x = FamilyWild)
      (entry # (if True then [entry\<lparr>xa_family := FamilyWild\<rparr>] else [])) \<and>
    added = (entries \<noteq> []) \<and> (\<forall>x \<in> set entries. xa_data x = [1] \<and> xa_number x = show_int 3)"
  by (rule access_file_entries) simp_all

end
