(* ===== verification/Display.thy ===== *)
theory Display
  imports Access_File
begin

text \<open>
  Displays, \<open>src/daemon/scdm-display.c\<close> and its subclasses \<open>scdm-local-display.c\<close>,
  \<open>scdm-legacy-display.c\<close>, \<open>scdm-xdmcp-display.c\<close> and
  \<open>scdm-xdmcp-chooser-display.c\<close>: the status of a display, its X authority files, its
  connection to the X server and its greeter. A display is a record; what an operation does
  to the outside is appended to \<open>d_log\<close>, and the answers of X, of the accounts service
  and of the file system are arguments. \<open>None\<close> as the result of an operation that
  returns an option means that the process ends there (an \<open>exit\<close>, or a null pointer that
  is read through).
\<close>

section \<open>State\<close>

datatype display_status =
    GDM_DISPLAY_UNMANAGED | GDM_DISPLAY_PREPARED | GDM_DISPLAY_MANAGED
  | GDM_DISPLAY_WAITING_TO_FINISH | GDM_DISPLAY_FINISHED | GDM_DISPLAY_FAILED

datatype display_kind = LocalDisplay | LegacyDisplay | XdmcpDisplay | XdmcpChooserDisplay

datatype launch_kind = GreeterEnvironment | InitialSetupEnvironment | ChooserEnvironment

datatype display_effect =
    NotifyStatus display_status | NotifyConnected
  | KillClient u64 | XcbDisconnect | ChangeHosts bool nat | SetWindowpath string
  | FileEffects "fs_effect list" | UnrefAccessFile
  | IdleAdd | SourceRemove | TimeoutAdd
  | LaunchCreate launch_kind | LaunchConnect | LaunchDisconnect | LaunchStart | LaunchStop
  | LaunchSetAuthority string | LaunchSetDevice | LaunchUnref
  | ServerNew | ServerDisableTcp bool | ServerStart | ServerStop

record display =
  d_kind :: display_kind
  d_id :: string
  d_seat_id :: "string option"
  d_session_id :: "string option"
  d_session_class :: "string option"
  d_session_type :: "string option"
  d_remote_hostname :: "string option"
  d_x11_display_number :: int
  d_x11_display_name :: "string option"
  d_status :: display_status
  d_x11_cookie :: "u8 list option"
  d_access_file :: "access_file option"
  d_user_access_file :: "access_file option"
  d_finish_idle :: bool \<comment> \<open>\<open>finish_idle_id\<close> is not 0\<close>
  d_xcb :: "(u32 \<times> u32) option" \<comment> \<open>the connection: \<open>resource_id_mask\<close> and \<open>resource_id_base\<close>\<close>
  d_launch :: "launch_kind option"
  d_server :: bool \<comment> \<open>legacy displays: the server object exists\<close>
  d_connection_attempts :: nat \<comment> \<open>XDMCP displays\<close>
  d_is_local :: bool
  d_is_initial :: bool
  d_allow_timed_login :: bool
  d_have_existing_user_accounts :: bool
  d_doing_initial_setup :: bool
  d_session_registered :: bool
  d_log :: "display_effect list"

definition emit :: "display_effect list \<Rightarrow> display \<Rightarrow> display" where
  "emit fx d = d\<lparr>d_log := d_log d @ fx\<rparr>"

text \<open>What the system answers to the operations on authority files.\<close>

record auth_env =
  ae_fs :: fs_answers
  ae_xauth_dir :: string
  ae_scdm_user :: string
  ae_garbage_gid :: u32
  ae_random :: "unit + u8 list"
  ae_wrote :: "xauth \<Rightarrow> bool"
  ae_hostname :: "string option"
  ae_dirname :: "string \<Rightarrow> string"

section \<open>Status, and finishing from the idle loop\<close>

definition scdm_display_set_status :: "display_status \<Rightarrow> display \<Rightarrow> display" where
  "scdm_display_set_status status d =
     (if status \<noteq> d_status d then emit [NotifyStatus status] (d\<lparr>d_status := status\<rparr>) else d)"

definition scdm_display_real_prepare :: "display \<Rightarrow> bool \<times> display" where
  "scdm_display_real_prepare d = (True, scdm_display_set_status GDM_DISPLAY_PREPARED d)"

definition scdm_display_finish :: "display \<Rightarrow> display" where
  "scdm_display_finish d =
     scdm_display_set_status GDM_DISPLAY_FINISHED
       (if d_finish_idle d then emit [SourceRemove] (d\<lparr>d_finish_idle := False\<rparr>) else d)"

definition finish_idle :: "display \<Rightarrow> display" where
  "finish_idle d = scdm_display_finish (d\<lparr>d_finish_idle := False\<rparr>)"

definition queue_finish :: "display \<Rightarrow> display" where
  "queue_finish d = (if \<not> d_finish_idle d then emit [IdleAdd] (d\<lparr>d_finish_idle := True\<rparr>) else d)"

section \<open>Disconnecting\<close>

text \<open>The loop over resource ids: \<open>XID\<close> is an unsigned long. If \<open>client_increment\<close>
  is 0 it does not end.\<close>

partial_function (option) kill_loop :: "u64 \<Rightarrow> u64 \<Rightarrow> u64 \<Rightarrow> u64 \<Rightarrow> u64 list \<Rightarrow> u64 list option" where
  "kill_loop base highest_client client_increment client killed =
     (if client \<le> highest_client
      then kill_loop base highest_client client_increment (client + client_increment)
             (if client \<noteq> base then killed @ [client] else killed)
      else Some killed)"

definition unused_bits :: u32 where "unused_bits = 0xE0000000"

definition kill_clients :: "u32 \<Rightarrow> u32 \<Rightarrow> u64 list option" where
  "kill_clients resource_id_mask resource_id_base =
     (let highest_client = (ucast (NOT unused_bits) :: u64) AND ucast (NOT resource_id_mask);
          client_increment = ucast (resource_id_mask + 1) :: u64
      in kill_loop (ucast resource_id_base) highest_client client_increment 0 [])"

definition scdm_display_disconnect :: "display \<Rightarrow> display option" where
  "scdm_display_disconnect d =
     (case d_xcb d of
        None \<Rightarrow> Some d
      | Some (rmask, base) \<Rightarrow>
          map_option (\<lambda>ks. emit (map KillClient ks @ [XcbDisconnect]) (d\<lparr>d_xcb := None\<rparr>))
            (kill_clients rmask base))"

section \<open>Authority files\<close>

definition close_and_unref :: "auth_env \<Rightarrow> access_file option \<Rightarrow> display_effect list" where
  "close_and_unref env f =
     (case f of None \<Rightarrow> []
      | Some f \<Rightarrow> [FileEffects (snd (scdm_display_access_file_close (ae_dirname env) f)), UnrefAccessFile])"

definition scdm_display_unmanage :: "auth_env \<Rightarrow> display \<Rightarrow> display option" where
  "scdm_display_unmanage env d =
     (case scdm_display_disconnect d of
        None \<Rightarrow> None
      | Some d \<Rightarrow>
          let d = emit (close_and_unref env (d_user_access_file d)) (d\<lparr>d_user_access_file := None\<rparr>);
              d = emit (close_and_unref env (d_access_file d)) (d\<lparr>d_access_file := None\<rparr>)
          in Some (if \<not> d_session_registered d then scdm_display_set_status GDM_DISPLAY_FAILED d
                   else scdm_display_set_status GDM_DISPLAY_UNMANAGED d))"

definition create_access_file_for_user ::
  "auth_env \<Rightarrow> string \<Rightarrow> (access_error option + access_file) \<times> fs_effect list" where
  "create_access_file_for_user env username =
     (case scdm_display_access_file_open (ae_fs env) (ae_xauth_dir env) (ae_scdm_user env)
             (ae_garbage_gid env) (scdm_display_access_file_new username) of
        (Inl e, f, fx) \<Rightarrow> (Inl e, fx)
      | (Inr _, f, fx) \<Rightarrow> (Inr f, fx))"

definition scdm_display_create_authority :: "auth_env \<Rightarrow> display \<Rightarrow> (bool \<times> display) option" where
  "scdm_display_create_authority env d =
     (if d_access_file d \<noteq> None then Some (False, d)
      else (case create_access_file_for_user env (ae_scdm_user env) of
              (Inl e, fx) \<Rightarrow> Some (False, emit [FileEffects fx] d)
            | (Inr f, fx) \<Rightarrow>
                (case scdm_display_access_file_add_display (ae_random env) (ae_wrote env)
                        (ae_hostname env) f (d_is_local d) (d_remote_hostname d) (d_x11_display_number d) of
                   None \<Rightarrow> None
                 | Some (added, cookie, _) \<Rightarrow>
                     let d = emit [FileEffects fx] (d\<lparr>d_x11_cookie := cookie\<rparr>)
                     in Some (if added then (True, d\<lparr>d_access_file := Some f\<rparr>)
                              else (False, emit (close_and_unref env (Some f)) d)))))"

datatype authorization_error = AccessDenied | AccessFileError "access_error option" | WriteError

text \<open>Without a cookie the call of \<open>add_display_with_cookie\<close> fails its precondition and
  leaves no error, and the message of that error is then read: the process ends. The same
  holds for the null remote host name of a display that is not local.\<close>

definition scdm_display_add_user_authorization ::
  "auth_env \<Rightarrow> string \<Rightarrow> display \<Rightarrow> ((authorization_error + string option) \<times> display) option" where
  "scdm_display_add_user_authorization env username d =
     (if d_user_access_file d \<noteq> None then Some (Inl AccessDenied, d)
      else (case create_access_file_for_user env username of
              (Inl e, fx) \<Rightarrow> Some (Inl (AccessFileError e), emit [FileEffects fx] d)
            | (Inr f, fx) \<Rightarrow>
                (case d_x11_cookie d of
                   None \<Rightarrow> None
                 | Some cookie \<Rightarrow>
                     (case scdm_display_access_file_add_display_with_cookie (ae_wrote env) (ae_hostname env) f
                             (d_is_local d) (d_remote_hostname d) (d_x11_display_number d) cookie of
                        None \<Rightarrow> None
                      | Some (added, _) \<Rightarrow>
                          let d = emit [FileEffects fx] d in
                          Some (if added
                                then (Inr (scdm_display_access_file_get_path f),
                                      emit (map (ChangeHosts False) [0, 1, 2]) (d\<lparr>d_user_access_file := Some f\<rparr>))
                                else (Inl WriteError, emit (close_and_unref env (Some f)) d))))))"

text \<open>The file is closed but stays recorded, so that a later authorization is refused.\<close>

definition scdm_display_remove_user_authorization :: "auth_env \<Rightarrow> display \<Rightarrow> bool \<times> display" where
  "scdm_display_remove_user_authorization env d =
     (case d_user_access_file d of
        None \<Rightarrow> (True, d)
      | Some f \<Rightarrow>
          (case scdm_display_access_file_close (ae_dirname env) f of
             (f', fx) \<Rightarrow> (True, emit [FileEffects fx] (d\<lparr>d_user_access_file := Some f'\<rparr>))))"

definition scdm_display_get_x11_authority_file :: "display \<Rightarrow> string option" where
  "scdm_display_get_x11_authority_file d =
     (case d_access_file d of None \<Rightarrow> None | Some f \<Rightarrow> scdm_display_access_file_get_path f)"

section \<open>Preparing\<close>

text \<open>The D-Bus proxy of the accounts service and the number of cached users.\<close>

definition look_for_existing_users_sync :: "(unit + (unit + nat)) \<Rightarrow> display \<Rightarrow> bool \<times> display" where
  "look_for_existing_users_sync accounts d =
     (case accounts of
        Inr (Inr n) \<Rightarrow> (True, d\<lparr>d_have_existing_user_accounts := (n > 0)\<rparr>)
      | _ \<Rightarrow> (False, d))"

record setup_env =
  se_ran_already :: bool
  se_cmdline :: "string option" \<comment> \<open>\<open>/proc/cmdline\<close>, if readable\<close>
  se_setup_argument :: "string \<Rightarrow> string option" \<comment> \<open>the match of the regular expression\<close>
  se_session_file_exists :: "string \<Rightarrow> bool"
  se_initial_setup_enable :: "bool option" \<comment> \<open>\<open>None\<close>: the setting cannot be read\<close>

definition already_done_initial_setup_on_this_boot :: "setup_env \<Rightarrow> bool" where
  "already_done_initial_setup_on_this_boot env = se_ran_already env"

definition kernel_cmdline_initial_setup_argument :: "setup_env \<Rightarrow> string \<Rightarrow> string option" where
  "kernel_cmdline_initial_setup_argument env contents = se_setup_argument env contents"

definition kernel_cmdline_initial_setup_force_state :: "setup_env \<Rightarrow> bool option" where
  "kernel_cmdline_initial_setup_force_state env =
     (case se_cmdline env of
        None \<Rightarrow> None
      | Some contents \<Rightarrow>
          (case kernel_cmdline_initial_setup_argument env contents of
             None \<Rightarrow> None
           | Some setup_argument \<Rightarrow> Some (setup_argument \<noteq> [] \<and> hd setup_argument = CHR ''1'')))"

definition can_create_environment :: "setup_env \<Rightarrow> string \<Rightarrow> bool" where
  "can_create_environment env session_id = se_session_file_exists env session_id"

definition wants_initial_setup :: "setup_env \<Rightarrow> display \<Rightarrow> bool" where
  "wants_initial_setup env d =
     (if already_done_initial_setup_on_this_boot env then False
      else (case kernel_cmdline_initial_setup_force_state env of
              Some forced \<Rightarrow> forced
            | None \<Rightarrow>
                if \<not> d_is_local d then False
                else if d_have_existing_user_accounts d then False
                else if \<not> can_create_environment env ''gnome-initial-setup'' then False
                else (case se_initial_setup_enable env of None \<Rightarrow> False | Some enabled \<Rightarrow> enabled)))"

definition set_launch :: "launch_kind \<Rightarrow> display \<Rightarrow> display" where
  "set_launch k d =
     emit (LaunchCreate k # (if d_launch d \<noteq> None then [LaunchUnref] else [])) (d\<lparr>d_launch := Some k\<rparr>)"

definition scdm_local_display_prepare :: "display \<Rightarrow> bool \<times> display" where
  "scdm_local_display_prepare d =
     (if d_session_class d \<noteq> Some ''greeter'' then scdm_display_real_prepare d
      else scdm_display_real_prepare
             (set_launch (if \<not> d_doing_initial_setup d then GreeterEnvironment else InitialSetupEnvironment) d))"

definition authority_then_prepare :: "auth_env \<Rightarrow> display \<Rightarrow> (bool \<times> display) option" where
  "authority_then_prepare env d =
     (case scdm_display_create_authority env d of
        None \<Rightarrow> None
      | Some (ok, d) \<Rightarrow> if \<not> ok then Some (False, d) else Some (scdm_display_real_prepare d))"

definition scdm_legacy_display_prepare :: "auth_env \<Rightarrow> display \<Rightarrow> (bool \<times> display) option" where
  "scdm_legacy_display_prepare env d =
     authority_then_prepare env
       (set_launch (if \<not> d_doing_initial_setup d then GreeterEnvironment else InitialSetupEnvironment) d)"

definition scdm_xdmcp_display_prepare :: "auth_env \<Rightarrow> display \<Rightarrow> (bool \<times> display) option" where
  "scdm_xdmcp_display_prepare env d =
     authority_then_prepare env (if d_launch d = None then set_launch GreeterEnvironment d else d)"

definition scdm_xdmcp_chooser_display_prepare :: "auth_env \<Rightarrow> display \<Rightarrow> (bool \<times> display) option" where
  "scdm_xdmcp_chooser_display_prepare env d =
     scdm_xdmcp_display_prepare env (set_launch ChooserEnvironment d)"

definition class_prepare :: "auth_env \<Rightarrow> display \<Rightarrow> (bool \<times> display) option" where
  "class_prepare env d =
     (case d_kind d of
        LocalDisplay \<Rightarrow> Some (scdm_local_display_prepare d)
      | LegacyDisplay \<Rightarrow> scdm_legacy_display_prepare env d
      | XdmcpDisplay \<Rightarrow> scdm_xdmcp_display_prepare env d
      | XdmcpChooserDisplay \<Rightarrow> scdm_xdmcp_chooser_display_prepare env d)"

text \<open>If the accounts service cannot be asked the process exits.\<close>

definition scdm_display_prepare ::
  "auth_env \<Rightarrow> (unit + (unit + nat)) \<Rightarrow> setup_env \<Rightarrow> display \<Rightarrow> (bool \<times> display) option" where
  "scdm_display_prepare env accounts senv d =
     (case look_for_existing_users_sync accounts d of
        (False, _) \<Rightarrow> None
      | (True, d) \<Rightarrow> class_prepare env (d\<lparr>d_doing_initial_setup := wants_initial_setup senv d\<rparr>))"

section \<open>Managing\<close>

record server_env =
  sv_disallow_tcp :: "bool option"
  sv_start :: bool

definition scdm_legacy_display_manage :: "auth_env \<Rightarrow> server_env \<Rightarrow> display \<Rightarrow> display option" where
  "scdm_legacy_display_manage env sv d =
     (let d = emit (ServerNew # (case sv_disallow_tcp sv of None \<Rightarrow> [] | Some b \<Rightarrow> [ServerDisableTcp b])
                    @ [ServerStart]) (d\<lparr>d_server := True\<rparr>)
      in if \<not> sv_start sv then scdm_display_unmanage env d else Some d)"

definition scdm_xdmcp_display_manage :: "display \<Rightarrow> display" where
  "scdm_xdmcp_display_manage d = emit [TimeoutAdd] d"

definition class_manage :: "auth_env \<Rightarrow> server_env \<Rightarrow> display \<Rightarrow> display option" where
  "class_manage env sv d =
     (case d_kind d of
        LocalDisplay \<Rightarrow> Some d
      | LegacyDisplay \<Rightarrow> scdm_legacy_display_manage env sv d
      | _ \<Rightarrow> Some (scdm_xdmcp_display_manage d))"

definition scdm_display_manage ::
  "auth_env \<Rightarrow> (unit + (unit + nat)) \<Rightarrow> setup_env \<Rightarrow> server_env \<Rightarrow> display \<Rightarrow> (bool \<times> display) option" where
  "scdm_display_manage env accounts senv sv d =
     (case (if d_status d = GDM_DISPLAY_UNMANAGED then scdm_display_prepare env accounts senv d
            else Some (True, d)) of
        None \<Rightarrow> None
      | Some (res, d) \<Rightarrow>
          if \<not> res then Some (False, d)
          else if d_session_class d = Some ''greeter''
          then map_option (\<lambda>d. (True, d)) (class_manage env sv d)
          else Some (True, d))"

section \<open>Connecting\<close>

text \<open>The screens of the set-up are counted down to 0; the last assignment wins, and a
  negative number never reaches 0.\<close>

fun get_root_window :: "u32 list \<Rightarrow> int \<Rightarrow> u32 option \<Rightarrow> u32" where
  "get_root_window [] screen_number screen = (case screen of None \<Rightarrow> 0 | Some root \<Rightarrow> root)"
| "get_root_window (root # roots) screen_number screen =
     get_root_window roots (screen_number - 1) (if screen_number = 0 then Some root else screen)"

record x_env =
  x_connect :: "(u32 \<times> u32) option" \<comment> \<open>the set-up of the connection, if it has no error\<close>
  x_screen :: int
  x_vt_atom :: bool
  x_roots :: "u32 list"
  x_vt_property :: "u32 option"
  x_windowpath :: "string option"

text \<open>The new value of \<open>WINDOWPATH\<close>, if it is set. The buffer for the number takes nine
  digits.\<close>

definition scdm_display_set_windowpath :: "x_env \<Rightarrow> string option" where
  "scdm_display_set_windowpath x =
     (if \<not> x_vt_atom x then None
      else if get_root_window (x_roots x) (x_screen x) None = 0 then None
      else (case x_vt_property x of
              None \<Rightarrow> None
            | Some num \<Rightarrow>
                let nums = take 9 (show_nat (unat num))
                in Some (case x_windowpath x of None \<Rightarrow> nums | Some wp \<Rightarrow> wp @ '':'' @ nums)))"

definition scdm_display_connect :: "x_env \<Rightarrow> display \<Rightarrow> bool \<times> display" where
  "scdm_display_connect x d =
     (case x_connect x of
        None \<Rightarrow> (False, d\<lparr>d_xcb := None\<rparr>)
      | Some setup \<Rightarrow>
          let d = d\<lparr>d_xcb := Some setup\<rparr>;
              d = (if d_is_local d
                   then emit (map (ChangeHosts True) [0, 1, 2] @
                              (case scdm_display_set_windowpath x of None \<Rightarrow> [] | Some w \<Rightarrow> [SetWindowpath w])) d
                   else d)
          in (True, emit [NotifyConnected] d))"

text \<open>Callbacks of the X server of a legacy display.\<close>

definition on_server_ready :: "auth_env \<Rightarrow> x_env \<Rightarrow> display \<Rightarrow> display option" where
  "on_server_ready env x d =
     (case scdm_display_connect x d of
        (False, d) \<Rightarrow> scdm_display_unmanage env d
      | (True, d) \<Rightarrow> Some (scdm_display_set_status GDM_DISPLAY_MANAGED (emit [LaunchSetDevice] d)))"

definition on_server_exited :: "auth_env \<Rightarrow> display \<Rightarrow> display option" where
  "on_server_exited env d = scdm_display_unmanage env d"

definition on_server_died :: "auth_env \<Rightarrow> display \<Rightarrow> display option" where
  "on_server_died env d = scdm_display_unmanage env d"

text \<open>The handler of \<open>notify::status\<close> of legacy displays.\<close>

definition on_legacy_display_status_changed :: "display \<Rightarrow> display" where
  "on_legacy_display_status_changed d =
     (if d_status d = GDM_DISPLAY_UNMANAGED \<and> d_server d then emit [ServerStop] d else d)"

definition MAX_CONNECT_ATTEMPTS :: nat where "MAX_CONNECT_ATTEMPTS = 10"

text \<open>The timeout of an XDMCP display, every half second until it returns false.\<close>

definition idle_connect_to_display :: "auth_env \<Rightarrow> x_env \<Rightarrow> display \<Rightarrow> (bool \<times> display) option" where
  "idle_connect_to_display env x d =
     (case scdm_display_connect x (d\<lparr>d_connection_attempts := Suc (d_connection_attempts d)\<rparr>) of
        (True, d) \<Rightarrow> Some (False, scdm_display_set_status GDM_DISPLAY_MANAGED d)
      | (False, d) \<Rightarrow>
          if d_connection_attempts d \<ge> MAX_CONNECT_ATTEMPTS
          then map_option (\<lambda>d. (False, d)) (scdm_display_unmanage env d)
          else Some (True, d))"

section \<open>The greeter\<close>

definition scdm_display_start_greeter_session :: "display \<Rightarrow> display" where
  "scdm_display_start_greeter_session d =
     (if d_session_class d \<noteq> Some ''greeter'' then d
      else emit (LaunchConnect #
             (case scdm_display_get_x11_authority_file d of None \<Rightarrow> [] | Some f \<Rightarrow> [LaunchSetAuthority f]) @
             [LaunchStart]) d)"

definition scdm_display_stop_greeter_session :: "display \<Rightarrow> display" where
  "scdm_display_stop_greeter_session d =
     (if d_launch d \<noteq> None
      then emit [LaunchDisconnect, LaunchStop, LaunchUnref] (d\<lparr>d_launch := None\<rparr>) else d)"

definition on_launch_environment_session_opened :: "string option \<Rightarrow> display \<Rightarrow> display" where
  "on_launch_environment_session_opened session_id d = d\<lparr>d_session_id := session_id\<rparr>"

definition self_destruct :: "auth_env \<Rightarrow> display \<Rightarrow> display option" where
  "self_destruct env d =
     (case (if d_status d = GDM_DISPLAY_MANAGED then scdm_display_unmanage env d else Some d) of
        None \<Rightarrow> None
      | Some d \<Rightarrow> Some (if d_status d \<noteq> GDM_DISPLAY_FINISHED then queue_finish d else d))"

definition on_launch_environment_session_stopped :: "auth_env \<Rightarrow> display \<Rightarrow> display option" where
  "on_launch_environment_session_stopped env d = self_destruct env d"

definition on_launch_environment_session_exited :: "auth_env \<Rightarrow> int \<Rightarrow> display \<Rightarrow> display option" where
  "on_launch_environment_session_exited env code d = self_destruct env d"

definition on_launch_environment_session_died :: "auth_env \<Rightarrow> int \<Rightarrow> display \<Rightarrow> display option" where
  "on_launch_environment_session_died env signal d = self_destruct env d"

section \<open>Notifications\<close>

text \<open>The statuses that observers of \<open>notify::status\<close> were told, in order.\<close>

fun notified :: "display_effect list \<Rightarrow> display_status list" where
  "notified [] = []"
| "notified (NotifyStatus s # fx) = s # notified fx"
| "notified (_ # fx) = notified fx"

definition status_seen :: "display \<Rightarrow> bool" where
  "status_seen d \<longleftrightarrow>
     distinct_adj (GDM_DISPLAY_UNMANAGED # notified (d_log d)) \<and>
     last (GDM_DISPLAY_UNMANAGED # notified (d_log d)) = d_status d"

lemma notes_append [simp]: "notified (fx @ fx') = notified fx @ notified fx'"
  by (induction fx rule: notified.induct) auto

lemma notes_map_kill [simp]: "notified (map KillClient ks) = []"
  by (induction ks) auto

lemma notes_close [simp]: "notified (close_and_unref env f) = []"
  by (simp add: close_and_unref_def split: option.split)

lemma emit_frame [simp]:
  "d_status (emit fx d) = d_status d" "d_finish_idle (emit fx d) = d_finish_idle d"
  "d_xcb (emit fx d) = d_xcb d" "d_access_file (emit fx d) = d_access_file d"
  "d_user_access_file (emit fx d) = d_user_access_file d" "d_kind (emit fx d) = d_kind d"
  "d_session_registered (emit fx d) = d_session_registered d"
  "d_connection_attempts (emit fx d) = d_connection_attempts d"
  "d_session_class (emit fx d) = d_session_class d"
  "d_x11_cookie (emit fx d) = d_x11_cookie d"
  by (simp_all add: emit_def)

lemma set_status_frame [simp]:
  "d_status (scdm_display_set_status s d) = s"
  "d_finish_idle (scdm_display_set_status s d) = d_finish_idle d"
  "d_xcb (scdm_display_set_status s d) = d_xcb d"
  "d_access_file (scdm_display_set_status s d) = d_access_file d"
  "d_user_access_file (scdm_display_set_status s d) = d_user_access_file d"
  "d_session_registered (scdm_display_set_status s d) = d_session_registered d"
  by (simp_all add: scdm_display_set_status_def)

lemma status_seen_emit: "notified fx = [] \<Longrightarrow> status_seen (emit fx d) = status_seen d"
  by (simp add: status_seen_def emit_def)

lemma status_seen_update [simp]:
  "status_seen (d\<lparr>d_finish_idle := b\<rparr>) = status_seen d"
  "status_seen (d\<lparr>d_xcb := x\<rparr>) = status_seen d"
  "status_seen (d\<lparr>d_access_file := f\<rparr>) = status_seen d"
  "status_seen (d\<lparr>d_user_access_file := f\<rparr>) = status_seen d"
  "status_seen (d\<lparr>d_x11_cookie := c\<rparr>) = status_seen d"
  "status_seen (d\<lparr>d_launch := l\<rparr>) = status_seen d"
  "status_seen (d\<lparr>d_server := b\<rparr>) = status_seen d"
  "status_seen (d\<lparr>d_connection_attempts := n\<rparr>) = status_seen d"
  "status_seen (d\<lparr>d_have_existing_user_accounts := b\<rparr>) = status_seen d"
  "status_seen (d\<lparr>d_doing_initial_setup := b\<rparr>) = status_seen d"
  "status_seen (d\<lparr>d_session_id := i\<rparr>) = status_seen d"
  "status_seen (d\<lparr>d_session_registered := b\<rparr>) = status_seen d"
  by (simp_all add: status_seen_def)

lemma status_seen_set_status [inv_intros]:
  "status_seen d \<Longrightarrow> status_seen (scdm_display_set_status s d)"
  by (auto simp: status_seen_def scdm_display_set_status_def emit_def distinct_adj_append_iff
      distinct_adj_Cons split: if_splits)

lemma seen_finish [inv_intros]: "status_seen d \<Longrightarrow> status_seen (scdm_display_finish d)"
  by (simp add: scdm_display_finish_def status_seen_set_status status_seen_emit)

lemma seen_finish_idle [inv_intros]: "status_seen d \<Longrightarrow> status_seen (finish_idle d)"
  by (simp add: finish_idle_def seen_finish)

lemma seen_queue_finish [inv_intros]: "status_seen d \<Longrightarrow> status_seen (queue_finish d)"
  by (simp add: queue_finish_def status_seen_emit)

lemma seen_disconnect: "scdm_display_disconnect d = Some d' \<Longrightarrow> status_seen d \<Longrightarrow> status_seen d'"
  by (auto simp: scdm_display_disconnect_def status_seen_emit split: option.splits)

lemma seen_unmanage: "scdm_display_unmanage env d = Some d' \<Longrightarrow> status_seen d \<Longrightarrow> status_seen d'"
  by (auto simp: scdm_display_unmanage_def Let_def status_seen_emit
      intro!: status_seen_set_status dest: seen_disconnect split: option.splits if_splits)

lemma seen_set_launch [inv_intros]: "status_seen d \<Longrightarrow> status_seen (set_launch k d)"
  by (simp add: set_launch_def status_seen_emit)

lemma seen_create_authority:
  "scdm_display_create_authority env d = Some (r, d') \<Longrightarrow> status_seen d \<Longrightarrow> status_seen d'"
  by (auto simp: scdm_display_create_authority_def Let_def status_seen_emit
      split: if_splits prod.splits sum.splits option.splits)

lemma seen_authority_then_prepare:
  "authority_then_prepare env d = Some (r, d') \<Longrightarrow> status_seen d \<Longrightarrow> status_seen d'"
  by (auto simp: authority_then_prepare_def scdm_display_real_prepare_def
      intro!: status_seen_set_status dest: seen_create_authority split: if_splits prod.splits option.splits)

lemma seen_class_prepare: "class_prepare env d = Some (r, d') \<Longrightarrow> status_seen d \<Longrightarrow> status_seen d'"
  by (auto simp: class_prepare_def scdm_local_display_prepare_def scdm_legacy_display_prepare_def
      scdm_xdmcp_display_prepare_def scdm_xdmcp_chooser_display_prepare_def scdm_display_real_prepare_def
      intro: inv_intros seen_authority_then_prepare split: display_kind.splits if_splits)

lemma seen_prepare:
  "scdm_display_prepare env acc senv d = Some (r, d') \<Longrightarrow> status_seen d \<Longrightarrow> status_seen d'"
  by (auto simp: scdm_display_prepare_def look_for_existing_users_sync_def
      elim!: seen_class_prepare split: prod.splits bool.splits sum.splits)

lemma seen_class_manage: "class_manage env sv d = Some d' \<Longrightarrow> status_seen d \<Longrightarrow> status_seen d'"
  by (auto simp: class_manage_def scdm_legacy_display_manage_def scdm_xdmcp_display_manage_def Let_def
      status_seen_emit elim!: seen_unmanage split: display_kind.splits if_splits option.splits)

lemma seen_manage:
  "scdm_display_manage env acc senv sv d = Some (r, d') \<Longrightarrow> status_seen d \<Longrightarrow> status_seen d'"
  by (auto simp: scdm_display_manage_def intro: seen_class_manage seen_prepare
      split: if_splits option.splits prod.splits)

lemma seen_connect: "status_seen d \<Longrightarrow> status_seen (snd (scdm_display_connect x d))"
  by (auto simp: scdm_display_connect_def Let_def status_seen_emit split: option.splits)

lemma seen_server_ready: "on_server_ready env x d = Some d' \<Longrightarrow> status_seen d \<Longrightarrow> status_seen d'"
  using seen_connect [of d x]
  by (auto simp: on_server_ready_def status_seen_emit intro!: status_seen_set_status
      elim!: seen_unmanage split: prod.splits bool.splits)

lemma seen_idle_connect:
  "idle_connect_to_display env x d = Some (r, d') \<Longrightarrow> status_seen d \<Longrightarrow> status_seen d'"
  using seen_connect [of "d\<lparr>d_connection_attempts := Suc (d_connection_attempts d)\<rparr>" x]
  by (auto simp: idle_connect_to_display_def intro!: status_seen_set_status
      elim!: seen_unmanage split: prod.splits bool.splits if_splits)

lemma seen_add_authorization:
  "scdm_display_add_user_authorization env u d = Some (r, d') \<Longrightarrow> status_seen d \<Longrightarrow> status_seen d'"
  by (auto simp: scdm_display_add_user_authorization_def Let_def status_seen_emit
      split: if_splits prod.splits sum.splits option.splits)

lemma seen_remove_authorization:
  "status_seen d \<Longrightarrow> status_seen (snd (scdm_display_remove_user_authorization env d))"
  by (auto simp: scdm_display_remove_user_authorization_def status_seen_emit split: option.splits prod.splits)

lemma seen_self_destruct: "self_destruct env d = Some d' \<Longrightarrow> status_seen d \<Longrightarrow> status_seen d'"
  by (auto simp: self_destruct_def intro!: inv_intros dest: seen_unmanage split: if_splits option.splits)

text \<open>The life of a display: any operation or callback, with any answer of the system.
  The status is also set from outside, to managed or waiting to finish, by the manager and the
  display factory.\<close>

inductive display_step :: "display \<Rightarrow> display \<Rightarrow> bool" where
  manage: "scdm_display_manage env acc senv sv d = Some (r, d') \<Longrightarrow> display_step d d'"
| unmanage: "scdm_display_unmanage env d = Some d' \<Longrightarrow> display_step d d'"
| finish: "display_step d (scdm_display_finish d)"
| idle: "d_finish_idle d \<Longrightarrow> display_step d (finish_idle d)"
| set_status: "s \<in> {GDM_DISPLAY_MANAGED, GDM_DISPLAY_WAITING_TO_FINISH} \<Longrightarrow>
    display_step d (scdm_display_set_status s d)"
| registered: "display_step d (d\<lparr>d_session_registered := b\<rparr>)"
| add_authorization: "scdm_display_add_user_authorization env u d = Some (r, d') \<Longrightarrow> display_step d d'"
| remove_authorization: "display_step d (snd (scdm_display_remove_user_authorization env d))"
| server_ready: "on_server_ready env x d = Some d' \<Longrightarrow> display_step d d'"
| server_gone: "on_server_exited env d = Some d' \<Longrightarrow> display_step d d'"
| connect_timeout: "idle_connect_to_display env x d = Some (r, d') \<Longrightarrow> display_step d d'"
| legacy_status: "display_step d (on_legacy_display_status_changed d)"
| start_greeter: "display_step d (scdm_display_start_greeter_session d)"
| stop_greeter: "display_step d (scdm_display_stop_greeter_session d)"
| opened: "display_step d (on_launch_environment_session_opened i d)"
| greeter_gone: "self_destruct env d = Some d' \<Longrightarrow> display_step d d'"

lemma seen_step: "display_step d d' \<Longrightarrow> status_seen d \<Longrightarrow> status_seen d'"
proof (induction rule: display_step.induct)
  case (start_greeter d)
  then show ?case
    by (auto simp: scdm_display_start_greeter_session_def status_seen_emit split: option.split)
next
  case (stop_greeter d)
  then show ?case by (auto simp: scdm_display_stop_greeter_session_def status_seen_emit)
next
  case (legacy_status d)
  then show ?case by (auto simp: on_legacy_display_status_changed_def status_seen_emit)
qed (auto simp: on_launch_environment_session_opened_def on_server_exited_def
    intro: inv_intros seen_manage seen_unmanage seen_add_authorization seen_remove_authorization
      seen_server_ready seen_idle_connect seen_self_destruct)

section \<open>Disconnecting kills every other client\<close>

text \<open>The loop from the \<open>j\<close>-th of \<open>n\<close> ids with increment \<open>s\<close>.\<close>

lemma kill_loop_steps:
  assumes "n * s < 2 ^ 64" and "0 < s" and "j \<le> n" and "0 < n"
  shows "kill_loop base (of_nat ((n - 1) * s)) (of_nat s) (of_nat (j * s)) killed
    = Some (killed @ filter (\<lambda>c. c \<noteq> base) (map (\<lambda>i. of_nat (i * s)) [j..<n]))"
  using assms(3)
proof (induction "n - j" arbitrary: j killed)
  case 0
  then have j: "j = n" by simp
  have lt: "(n - 1) * s < n * s" using assms(2,4) by simp
  then have "(n - 1) * s < 2 ^ 64" using assms(1) by (rule less_trans)
  with lt have "\<not> (of_nat (j * s) :: u64) \<le> of_nat ((n - 1) * s)"
    using assms(1) j of_nat_u64_le_iff [of "j * s" "(n - 1) * s"]
    by (simp del: of_nat_mult of_nat_diff mult_less_cancel2)
  then show ?case using j by (subst kill_loop.simps) (simp del: of_nat_mult of_nat_diff)
next
  case (Suc m)
  then have j: "j < n" by simp
  have "j * s \<le> (n - 1) * s" using j by (intro mult_le_mono1) arith
  moreover have hb: "(n - 1) * s < 2 ^ 64"
    using assms(1,2,4) by (meson diff_le_self le_less_trans mult_le_mono1)
  ultimately have le: "(of_nat (j * s) :: u64) \<le> of_nat ((n - 1) * s)"
    using of_nat_u64_le_iff [OF le_less_trans hb, of "j * s"] by blast
  have nxt: "of_nat (j * s) + of_nat s = (of_nat (Suc j * s) :: u64)" by (simp add: algebra_simps)
  have m: "m = n - Suc j" "Suc j \<le> n" using Suc.hyps(2) by simp_all
  have "kill_loop base (of_nat ((n - 1) * s)) (of_nat s) (of_nat (j * s)) killed
      = kill_loop base (of_nat ((n - 1) * s)) (of_nat s) (of_nat (Suc j * s))
          (if of_nat (j * s) \<noteq> base then killed @ [of_nat (j * s)] else killed)"
    using le by (subst kill_loop.simps) (simp only: nxt if_True)
  then show ?case
    using Suc.hyps(1) [OF m] j by (simp add: upt_conv_Cons del: of_nat_mult of_nat_diff)
qed

text \<open>The X protocol gives a client at least 18 contiguous id bits below the three unused
  ones, so the mask is \<open>2 ^ k - 1\<close> for some \<open>k\<close> from 18 to 29.\<close>

lemma highest_client:
  assumes "k \<in> {18..29}"
  shows "(ucast (NOT unused_bits) :: u64) AND ucast (NOT (2 ^ k - 1 :: u32)) = of_nat ((2 ^ (29 - k) - 1) * 2 ^ k)
    \<and> (ucast ((2 ^ k - 1 :: u32) + 1) :: u64) = of_nat (2 ^ k)"
proof -
  have "k = 18 \<or> k = 19 \<or> k = 20 \<or> k = 21 \<or> k = 22 \<or> k = 23 \<or> k = 24 \<or> k = 25
      \<or> k = 26 \<or> k = 27 \<or> k = 28 \<or> k = 29"
    using assms by (simp only: atLeastAtMost_iff) presburger
  then show ?thesis by (auto simp: unused_bits_def)
qed

lemma kill_clients_eq:
  assumes "k \<in> {18..29}"
  shows "kill_clients (2 ^ k - 1) base
    = Some (filter (\<lambda>c. c \<noteq> ucast base) (map (\<lambda>i. of_nat (i * 2 ^ k)) [0..<2 ^ (29 - k)]))"
proof -
  have "(2::nat) ^ (29 - k) * 2 ^ k = 2 ^ 29" using assms by (simp flip: power_add)
  then have "(2::nat) ^ (29 - k) * 2 ^ k < 2 ^ 64" by simp
  from kill_loop_steps [OF this, of 0 "ucast base" "[]"]
  show ?thesis using highest_client [OF assms] by (simp add: kill_clients_def Let_def)
qed

text \<open>Disconnecting from an X server ends, kills every client of the server but the
  display manager itself, exactly once each, and then closes the connection: the ids killed
  are the multiples of the id increment below \<open>2 ^ 29\<close>, without the own base.\<close>

theorem disconnect_kills_all_clients:
  assumes "k \<in> {18..29}" and "d_xcb d = Some (2 ^ k - 1, base)"
  shows "\<exists>ks. scdm_display_disconnect d = Some (emit (map KillClient ks @ [XcbDisconnect]) (d\<lparr>d_xcb := None\<rparr>))
    \<and> set ks = {of_nat (i * 2 ^ k) | i. i < 2 ^ (29 - k)} - {ucast base} \<and> distinct ks"
proof -
  let ?ids = "map (\<lambda>i. of_nat (i * 2 ^ k) :: u64) [0..<2 ^ (29 - k)]"
  have bound: "i * 2 ^ k < 2 ^ 64" if "i < 2 ^ (29 - k)" for i :: nat
  proof -
    have "i * 2 ^ k < 2 ^ (29 - k) * 2 ^ k" using that by simp
    also have "\<dots> = 2 ^ 29" using assms(1) by (simp flip: power_add)
    finally show ?thesis by (rule less_trans) simp
  qed
  have "inj_on (\<lambda>i. of_nat (i * 2 ^ k) :: u64) (set [0..<2 ^ (29 - k)])"
  proof (rule inj_onI)
    fix i j assume "i \<in> set [0..<2 ^ (29 - k)]" "j \<in> set [0..<2 ^ (29 - k)]"
      and eq: "(of_nat (i * 2 ^ k) :: u64) = of_nat (j * 2 ^ k)"
    then have "i * 2 ^ k < 2 ^ 64" "j * 2 ^ k < 2 ^ 64" using bound by auto
    then have "i * 2 ^ k = j * 2 ^ k" using eq by (metis unat_of_nat_u64)
    then show "i = j" by simp
  qed
  then have "distinct ?ids" by (simp add: distinct_map)
  moreover have "set (filter (\<lambda>c. c \<noteq> ucast base) ?ids) = {of_nat (i * 2 ^ k) | i. i < 2 ^ (29 - k)} - {ucast base}"
    by auto
  ultimately show ?thesis
    using assms(2) kill_clients_eq [OF assms(1), of base]
    by (intro exI [of _ "filter (\<lambda>c. c \<noteq> ucast base) ?ids"]) (simp add: scdm_display_disconnect_def)
qed

definition fresh_display :: "display_kind \<Rightarrow> string \<Rightarrow> display" where
  "fresh_display kind i =
     \<lparr>d_kind = kind, d_id = i, d_seat_id = None, d_session_id = None, d_session_class = Some ''greeter'',
      d_session_type = None, d_remote_hostname = None, d_x11_display_number = -1, d_x11_display_name = None,
      d_status = GDM_DISPLAY_UNMANAGED, d_x11_cookie = None, d_access_file = None, d_user_access_file = None,
      d_finish_idle = False, d_xcb = None, d_launch = None, d_server = False, d_connection_attempts = 0,
      d_is_local = True, d_is_initial = False, d_allow_timed_login = True,
      d_have_existing_user_accounts = False, d_doing_initial_setup = False, d_session_registered = False,
      d_log = []\<rparr>"

text \<open>Ids are made from the object's address.\<close>

definition oid_to_id :: "nat \<Rightarrow> string" where
  "oid_to_id oid = ''/io/github/scarecrow_de/DisplayManager/Displays/'' @ show_nat oid"

text \<open>The statuses an operation on a display announced.\<close>

definition announced :: "display \<Rightarrow> display \<Rightarrow> display_status list" where
  "announced d d' = drop (length (notified (d_log d))) (notified (d_log d'))"

theorem disconnect_kills_all_clients_witness:
  "\<exists>ks. scdm_display_disconnect (fresh_display LegacyDisplay ''1''\<lparr>d_xcb := Some (2 ^ 21 - 1, 2 ^ 21)\<rparr>)
      = Some (emit (map KillClient ks @ [XcbDisconnect])
          (fresh_display LegacyDisplay ''1''\<lparr>d_xcb := Some (2 ^ 21 - 1, 2 ^ 21), d_xcb := None\<rparr>))
    \<and> set ks = {of_nat (i * 2 ^ 21) | i. i < 2 ^ (29 - 21)} - {ucast (2 ^ 21 :: u32)} \<and> distinct ks"
  by (rule disconnect_kills_all_clients) simp_all

section \<open>Properties of the life of a display\<close>

lemma disconnect_frame:
  "scdm_display_disconnect d = Some d' \<Longrightarrow> d_xcb d' = None \<and> d_status d' = d_status d \<and>
     d_finish_idle d' = d_finish_idle d \<and> d_session_registered d' = d_session_registered d"
  by (auto simp: scdm_display_disconnect_def split: option.splits)

text \<open>Observers of a display's status see exactly its history: from creation on, through
  any sequence of operations and callbacks, each notification differs from the one before, and
  the last one is the present status.\<close>

theorem status_notifications:
  assumes "display_step\<^sup>*\<^sup>* (fresh_display kind i) d"
  shows "distinct_adj (GDM_DISPLAY_UNMANAGED # notified (d_log d)) \<and>
    last (GDM_DISPLAY_UNMANAGED # notified (d_log d)) = d_status d"
proof -
  have "status_seen d" using assms
  proof (induction rule: rtranclp_induct)
    case base
    show ?case by (simp add: status_seen_def fresh_display_def)
  next
    case (step d d')
    then show ?case by (blast intro: seen_step)
  qed
  then show ?thesis by (simp add: status_seen_def)
qed

theorem status_notifications_witness:
  "\<exists>d. display_step\<^sup>*\<^sup>* (fresh_display LocalDisplay ''1'') d \<and> d_status d = GDM_DISPLAY_FINISHED \<and>
    last (GDM_DISPLAY_UNMANAGED # notified (d_log d)) = d_status d"
proof -
  have "display_step\<^sup>*\<^sup>* (fresh_display LocalDisplay ''1'') (scdm_display_finish (fresh_display LocalDisplay ''1''))"
    by (rule r_into_rtranclp) (rule display_step.finish)
  then show ?thesis
    using status_notifications [of LocalDisplay "''1''"] by (fastforce simp: scdm_display_finish_def)
qed

lemma unmanage_facts:
  "scdm_display_unmanage env d = Some d' \<Longrightarrow>
    d_xcb d' = None \<and> d_access_file d' = None \<and> d_user_access_file d' = None \<and>
    d_status d' = (if d_session_registered d then GDM_DISPLAY_UNMANAGED else GDM_DISPLAY_FAILED)"
  by (auto simp: scdm_display_unmanage_def Let_def dest: disconnect_frame split: option.splits if_splits)

text \<open>Unmanaging a display closes and forgets both authority files and its X connection,
  and ends in the status failed exactly when no session was ever registered on it.\<close>

theorem unmanage_result:
  assumes "scdm_display_unmanage env d = Some d'"
  shows "d_xcb d' = None \<and> d_access_file d' = None \<and> d_user_access_file d' = None \<and>
    d_status d' = (if d_session_registered d then GDM_DISPLAY_UNMANAGED else GDM_DISPLAY_FAILED)"
  using assms by (rule unmanage_facts)

definition example_auth_env :: auth_env where
  "example_auth_env = \<lparr>ae_fs = example_fs, ae_xauth_dir = ''/x'', ae_scdm_user = ''joe'', ae_garbage_gid = 0,
     ae_random = Inr [1, 2, 3], ae_wrote = (\<lambda>_. True), ae_hostname = Some ''host'', ae_dirname = id\<rparr>"

theorem unmanage_result_witness:
  "\<exists>d'. scdm_display_unmanage example_auth_env (fresh_display LocalDisplay ''1'') = Some d' \<and> d_status d' = GDM_DISPLAY_FAILED"
proof -
  obtain d' where d': "scdm_display_unmanage example_auth_env (fresh_display LocalDisplay ''1'') = Some d'"
    by (simp add: scdm_display_unmanage_def scdm_display_disconnect_def fresh_display_def Let_def)
  then show ?thesis using unmanage_result [OF d'] by (simp add: fresh_display_def)
qed

text \<open>A greeter that goes away takes its display down: afterwards the display is
  finished or its finishing is queued exactly once, and running the idle loop finishes it; if
  it was managed, its connection and files are gone first.\<close>

theorem self_destruct_finishes:
  assumes "self_destruct env d = Some d'"
  shows "(d_status d' = GDM_DISPLAY_FINISHED \<or> d_finish_idle d') \<and>
    d_status (finish_idle d') = GDM_DISPLAY_FINISHED \<and> \<not> d_finish_idle (finish_idle d') \<and>
    (d_status d = GDM_DISPLAY_MANAGED \<longrightarrow> d_xcb d' = None \<and> d_access_file d' = None \<and> d_user_access_file d' = None) \<and>
    queue_finish (queue_finish d') = queue_finish d'"
proof -
  have "d_status (finish_idle d') = GDM_DISPLAY_FINISHED \<and> \<not> d_finish_idle (finish_idle d')"
    by (simp add: finish_idle_def scdm_display_finish_def)
  moreover have "queue_finish (queue_finish d') = queue_finish d'"
    by (simp add: queue_finish_def)
  moreover have "d_status d' = GDM_DISPLAY_FINISHED \<or> d_finish_idle d'"
    using assms by (auto simp: self_destruct_def queue_finish_def split: option.splits if_splits)
  moreover have "d_xcb d' = None \<and> d_access_file d' = None \<and> d_user_access_file d' = None"
    if "d_status d = GDM_DISPLAY_MANAGED"
    using assms that
    by (auto simp: self_destruct_def queue_finish_def dest!: unmanage_facts split: option.splits if_splits)
  ultimately show ?thesis by blast
qed

theorem self_destruct_finishes_witness:
  "\<exists>d'. self_destruct example_auth_env (fresh_display LocalDisplay ''1''\<lparr>d_status := GDM_DISPLAY_MANAGED\<rparr>) = Some d'
    \<and> d_status (finish_idle d') = GDM_DISPLAY_FINISHED \<and> d_xcb d' = None"
proof -
  let ?d = "fresh_display LocalDisplay ''1''\<lparr>d_status := GDM_DISPLAY_MANAGED\<rparr>"
  obtain d' where d': "self_destruct example_auth_env ?d = Some d'"
    by (simp add: self_destruct_def scdm_display_unmanage_def scdm_display_disconnect_def
        fresh_display_def Let_def)
  then show ?thesis using self_destruct_finishes [OF d'] by simp
qed

text \<open>The timeout of an XDMCP display, fired until it returns false: the X answers of the
  attempts, and the number of attempts made.\<close>

fun run_connect_timeout :: "auth_env \<Rightarrow> x_env list \<Rightarrow> display \<Rightarrow> (nat \<times> display) option" where
  "run_connect_timeout env [] d = None"
| "run_connect_timeout env (x # xs) d =
     (case idle_connect_to_display env x d of
        None \<Rightarrow> None
      | Some (again, d) \<Rightarrow>
          if again then map_option (\<lambda>(n, d). (Suc n, d)) (run_connect_timeout env xs d) else Some (1, d))"

lemma connect_fails: "x_connect x = None \<Longrightarrow> scdm_display_connect x d = (False, d\<lparr>d_xcb := None\<rparr>)"
  by (simp add: scdm_display_connect_def)

lemma unmanage_unconnected: "d_xcb d = None \<Longrightarrow> \<exists>d'. scdm_display_unmanage env d = Some d'"
  by (simp add: scdm_display_unmanage_def scdm_display_disconnect_def Let_def)

lemma run_connect_timeout_fails:
  assumes "\<forall>x \<in> set xs. x_connect x = None" and "d_connection_attempts d < MAX_CONNECT_ATTEMPTS"
    and "MAX_CONNECT_ATTEMPTS \<le> d_connection_attempts d + length xs"
  shows "\<exists>d'. run_connect_timeout env xs d = Some (MAX_CONNECT_ATTEMPTS - d_connection_attempts d, d') \<and>
    d_status d' = (if d_session_registered d then GDM_DISPLAY_UNMANAGED else GDM_DISPLAY_FAILED)"
  using assms
proof (induction xs arbitrary: d)
  case (Cons x xs)
  let ?d = "d\<lparr>d_connection_attempts := Suc (d_connection_attempts d), d_xcb := None\<rparr>"
  have c: "scdm_display_connect x (d\<lparr>d_connection_attempts := Suc (d_connection_attempts d)\<rparr>) = (False, ?d)"
    using Cons.prems(1) by (simp add: connect_fails)
  show ?case
  proof (cases "Suc (d_connection_attempts d) \<ge> MAX_CONNECT_ATTEMPTS")
    case True
    obtain d' where d': "scdm_display_unmanage env ?d = Some d'"
      using unmanage_unconnected [of ?d] by auto
    then show ?thesis
      using True Cons.prems(2) unmanage_facts [OF d'] by (simp add: idle_connect_to_display_def c)
  next
    case False
    then show ?thesis
      using Cons.IH [of ?d] Cons.prems
      by (auto simp: idle_connect_to_display_def c Suc_diff_Suc)
  qed
qed simp

text \<open>An XDMCP display whose server cannot be reached is given up: the timeout makes
  exactly ten attempts, then unmanages the display and stops.\<close>

theorem xdmcp_connect_gives_up:
  assumes "\<forall>x \<in> set xs. x_connect x = None" and "d_connection_attempts d = 0" and "length xs \<ge> 10"
  shows "\<exists>d'. run_connect_timeout env xs d = Some (10, d') \<and>
    d_status d' = (if d_session_registered d then GDM_DISPLAY_UNMANAGED else GDM_DISPLAY_FAILED)"
  using run_connect_timeout_fails [of xs d env] assms by (simp add: MAX_CONNECT_ATTEMPTS_def)

theorem xdmcp_connect_gives_up_witness:
  "\<exists>d'. run_connect_timeout example_auth_env (replicate 12 \<lparr>x_connect = None, x_screen = 0, x_vt_atom = False, x_roots = [],
      x_vt_property = None, x_windowpath = None\<rparr>) (fresh_display XdmcpDisplay ''1'') = Some (10, d') \<and>
    d_status d' = (if d_session_registered (fresh_display XdmcpDisplay ''1'') then GDM_DISPLAY_UNMANAGED else GDM_DISPLAY_FAILED)"
  by (rule xdmcp_connect_gives_up) (simp_all add: fresh_display_def)

text \<open>After a user's authorization has been removed no other can be added: the closed
  file stays recorded, so that adding is refused until the display is unmanaged.\<close>

theorem authorization_not_renewable:
  assumes "d_user_access_file d = Some f" and "af_wf f"
  shows "\<exists>d'. scdm_display_remove_user_authorization env d = (True, d') \<and>
    (\<exists>f'. d_user_access_file d' = Some f' \<and> af_fp f' = None \<and> af_path f' = None) \<and>
    scdm_display_add_user_authorization env' u d' = Some (Inl AccessDenied, d')"
  using assms close_closes [OF assms(2), of "ae_dirname env"]
  by (auto simp: scdm_display_remove_user_authorization_def scdm_display_add_user_authorization_def
      split: prod.splits)

theorem authorization_not_renewable_witness:
  "\<exists>d'. scdm_display_remove_user_authorization example_auth_env
      (fresh_display LegacyDisplay ''1''\<lparr>d_user_access_file := Some (scdm_display_access_file_new ''joe'')\<rparr>) = (True, d') \<and>
    (\<exists>f'. d_user_access_file d' = Some f' \<and> af_fp f' = None \<and> af_path f' = None) \<and>
    scdm_display_add_user_authorization example_auth_env ''joe'' d' = Some (Inl AccessDenied, d')"
  by (rule authorization_not_renewable [where f = "scdm_display_access_file_new ''joe''"])
    (simp_all add: af_wf_new)

end
