(* ===== verification/Display_Facts.thy ===== *)
theory Display_Facts
  imports Display
begin

text \<open>
  What the operations on a display announce, and what they leave alone: facts the factories share.
\<close>

section \<open>What a new display announces\<close>

text \<open>What no operation on a display changes: how it was configured.\<close>

definition same_config :: "display \<Rightarrow> display \<Rightarrow> bool" where
  "same_config d d' \<longleftrightarrow>
     d_kind d' = d_kind d \<and> d_seat_id d' = d_seat_id d \<and> d_is_initial d' = d_is_initial d \<and>
     d_session_class d' = d_session_class d \<and> d_session_type d' = d_session_type d \<and>
     d_is_local d' = d_is_local d \<and> d_x11_display_number d' = d_x11_display_number d \<and>
     d_session_registered d' = d_session_registered d \<and> d_id d' = d_id d"

definition silent :: "display \<Rightarrow> display \<Rightarrow> bool" where
  "silent d d' \<longleftrightarrow> same_config d d' \<and> d_status d' = d_status d \<and> notified (d_log d') = notified (d_log d)"

definition announces :: "display_status \<Rightarrow> display \<Rightarrow> display \<Rightarrow> bool" where
  "announces s d d' \<longleftrightarrow> same_config d d' \<and> d_status d' = s \<and>
     notified (d_log d') = notified (d_log d) @ (if d_status d = s then [] else [s])"

lemma silent_refl [simp]: "silent d d"
  by (simp add: silent_def same_config_def)

lemma silent_trans [trans]: "silent a b \<Longrightarrow> silent b c \<Longrightarrow> silent a c"
  by (simp add: silent_def same_config_def)

lemma silent_announces [trans]: "silent a b \<Longrightarrow> announces s b c \<Longrightarrow> announces s a c"
  by (simp add: silent_def announces_def same_config_def)

lemma silent_emit [simp]: "notified fx = [] \<Longrightarrow> silent d (emit fx d)"
  by (simp add: silent_def same_config_def emit_def)

lemma silent_emit_update:
  "notified fx = [] \<Longrightarrow> silent d (emit fx (d\<lparr>d_xcb := x\<rparr>))"
  "notified fx = [] \<Longrightarrow> silent d (emit fx (d\<lparr>d_launch := l\<rparr>))"
  "notified fx = [] \<Longrightarrow> silent d (emit fx (d\<lparr>d_server := b\<rparr>))"
  "notified fx = [] \<Longrightarrow> silent d (emit fx (d\<lparr>d_access_file := f\<rparr>))"
  "notified fx = [] \<Longrightarrow> silent d (emit fx (d\<lparr>d_user_access_file := f\<rparr>))"
  "silent d (d\<lparr>d_access_file := f\<rparr>)" "silent d (d\<lparr>d_x11_cookie := c\<rparr>)"
  by (simp_all add: silent_def same_config_def emit_def)

lemma announces_set_status [simp]: "announces s d (scdm_display_set_status s d)"
  by (simp add: announces_def same_config_def scdm_display_set_status_def emit_def)

lemma silent_set_status: "silent d b \<Longrightarrow> announces s d (scdm_display_set_status s b)"
  by (rule silent_announces [OF _ announces_set_status])

lemma silent_disconnect: "scdm_display_disconnect d = Some d' \<Longrightarrow> silent d d'"
  by (auto simp: scdm_display_disconnect_def silent_emit_update split: option.splits)

lemma announces_unmanage:
  assumes "scdm_display_unmanage env d = Some d'"
  shows "announces (if d_session_registered d then GDM_DISPLAY_UNMANAGED else GDM_DISPLAY_FAILED) d d'"
proof -
  obtain d1 where d1: "scdm_display_disconnect d = Some d1"
    using assms by (auto simp: scdm_display_unmanage_def split: option.splits)
  let ?d2 = "emit (close_and_unref env (d_user_access_file d1)) (d1\<lparr>d_user_access_file := None\<rparr>)"
  let ?d3 = "emit (close_and_unref env (d_access_file ?d2)) (?d2\<lparr>d_access_file := None\<rparr>)"
  have "silent d d1" by (rule silent_disconnect [OF d1])
  also have "silent d1 ?d2" by (simp add: silent_emit_update)
  also have "silent ?d2 ?d3" by (simp add: silent_emit_update del: emit_frame)
  finally have s: "silent d ?d3" .
  have "d' = scdm_display_set_status
      (if d_session_registered d then GDM_DISPLAY_UNMANAGED else GDM_DISPLAY_FAILED) ?d3"
    using assms s by (auto simp: scdm_display_unmanage_def Let_def d1 silent_def same_config_def)
  then show ?thesis using silent_announces [OF s announces_set_status] by simp
qed

lemma silent_create_authority:
  "scdm_display_create_authority env d = Some (r, d') \<Longrightarrow> silent d d'"
  by (auto simp: scdm_display_create_authority_def Let_def silent_def same_config_def emit_def
      split: if_splits prod.splits sum.splits option.splits)

lemma silent_set_launch [simp]: "silent d (set_launch k d)"
  by (simp add: set_launch_def silent_emit_update)

text \<open>Preparing either fails silently or announces that the display is prepared.\<close>

definition prepared :: "bool \<Rightarrow> display \<Rightarrow> display \<Rightarrow> bool" where
  "prepared r d d' = (if r then announces GDM_DISPLAY_PREPARED d d' else silent d d')"

lemma prepared_silent: "silent a b \<Longrightarrow> prepared r b c \<Longrightarrow> prepared r a c"
  by (auto simp: prepared_def intro: silent_trans silent_announces split: if_splits)

lemma prepared_authority:
  "authority_then_prepare env d = Some (r, d') \<Longrightarrow> prepared r d d'"
  by (auto simp: authority_then_prepare_def scdm_display_real_prepare_def prepared_def
      intro!: silent_set_status dest: silent_create_authority split: option.splits if_splits)

lemma prepared_class:
  assumes "class_prepare env d = Some (r, d')"
  shows "prepared r d d'"
proof (cases "d_kind d")
  case LocalDisplay
  then show ?thesis
    using assms by (auto simp: class_prepare_def scdm_local_display_prepare_def
        scdm_display_real_prepare_def prepared_def intro!: silent_set_status
        split: if_splits)
next
  case LegacyDisplay
  then show ?thesis
    using assms by (auto simp: class_prepare_def scdm_legacy_display_prepare_def
        intro: prepared_silent [OF silent_set_launch] dest!: prepared_authority)
next
  case XdmcpDisplay
  then show ?thesis
    using assms by (auto simp: class_prepare_def scdm_xdmcp_display_prepare_def
        intro: prepared_silent [OF silent_set_launch] dest!: prepared_authority split: if_splits)
next
  case XdmcpChooserDisplay
  then show ?thesis
    using assms by (auto simp: class_prepare_def scdm_xdmcp_chooser_display_prepare_def
        scdm_xdmcp_display_prepare_def intro: prepared_silent [OF silent_set_launch]
        dest!: prepared_authority split: if_splits)
qed

lemma prepared_prepare:
  assumes "scdm_display_prepare env acc senv d = Some (r, d')"
  shows "prepared r d d'"
proof -
  obtain d1 where d1: "look_for_existing_users_sync acc d = (True, d1)"
    and c: "class_prepare env (d1\<lparr>d_doing_initial_setup := wants_initial_setup senv d1\<rparr>) = Some (r, d')"
    using assms by (auto simp: scdm_display_prepare_def split: prod.splits bool.splits)
  have "prepared r (d1\<lparr>d_doing_initial_setup := wants_initial_setup senv d1\<rparr>) d'"
    by (rule prepared_class [OF c])
  moreover have "silent d (d1\<lparr>d_doing_initial_setup := wants_initial_setup senv d1\<rparr>)"
    using d1 by (auto simp: look_for_existing_users_sync_def silent_def same_config_def split: sum.splits)
  ultimately show ?thesis by (rule prepared_silent [rotated])
qed

lemma class_manage_outcome:
  assumes "class_manage env sv d = Some d'"
  shows "silent d d' \<or> (\<exists>d2. silent d d2 \<and> scdm_display_unmanage env d2 = Some d')"
proof (cases "d_kind d = LegacyDisplay")
  case True
  let ?d2 = "emit (ServerNew # (case sv_disallow_tcp sv of None \<Rightarrow> [] | Some b \<Rightarrow> [ServerDisableTcp b])
                    @ [ServerStart]) (d\<lparr>d_server := True\<rparr>)"
  have "silent d ?d2" by (rule silent_emit_update(3)) (simp split: option.splits)
  then show ?thesis
    using assms True by (auto simp: class_manage_def scdm_legacy_display_manage_def Let_def split: if_splits)
next
  case False
  then show ?thesis
    using assms by (auto simp: class_manage_def scdm_xdmcp_display_manage_def split: display_kind.splits)
qed

text \<open>The announcements of a display that is created, managed and, if that fails,
  unmanaged.\<close>

lemma announced_manage:
  assumes "scdm_display_manage env acc senv sv d = Some (r, d')"
    and "d_status d = GDM_DISPLAY_UNMANAGED" and "\<not> d_session_registered d" and "d_log d = []"
  shows "same_config d d' \<and>
    (if r then notified (d_log d') = [GDM_DISPLAY_PREPARED] \<or>
       notified (d_log d') = [GDM_DISPLAY_PREPARED, GDM_DISPLAY_FAILED] \<and> d_status d' = GDM_DISPLAY_FAILED
     else notified (d_log d') = [] \<and> d_status d' = GDM_DISPLAY_UNMANAGED)"
proof -
  obtain r1 d1 where p: "scdm_display_prepare env acc senv d = Some (r1, d1)"
    using assms by (auto simp: scdm_display_manage_def split: option.splits)
  note prep = prepared_prepare [OF p]
  show ?thesis
  proof (cases r1)
    case False
    then show ?thesis
      using assms p prep by (auto simp: scdm_display_manage_def prepared_def silent_def)
  next
    case True
    then have d1: "same_config d d1" "d_status d1 = GDM_DISPLAY_PREPARED"
      "notified (d_log d1) = [GDM_DISPLAY_PREPARED]"
      using prep assms(2,4) by (simp_all add: prepared_def announces_def)
    consider "r" "d' = d1" | "r" "class_manage env sv d1 = Some d'"
      using assms(1,2) p True by (auto simp: scdm_display_manage_def split: if_splits)
    then show ?thesis
    proof cases
      case 1
      then show ?thesis using d1 by simp
    next
      case 2
      have "same_config d1 d' \<and> (notified (d_log d') = notified (d_log d1) \<or>
          notified (d_log d') = notified (d_log d1) @ [GDM_DISPLAY_FAILED] \<and> d_status d' = GDM_DISPLAY_FAILED)"
        using class_manage_outcome [OF 2(2)]
      proof
        assume "silent d1 d'"
        then show ?thesis by (simp add: silent_def)
      next
        assume "\<exists>d2. silent d1 d2 \<and> scdm_display_unmanage env d2 = Some d'"
        then obtain d2 where fails: "silent d1 d2" "scdm_display_unmanage env d2 = Some d'" by blast
        then have "\<not> d_session_registered d2"
          using d1(1) assms(3) by (simp add: silent_def same_config_def)
        then have "announces GDM_DISPLAY_FAILED d1 d'"
          using silent_announces [OF fails(1)] announces_unmanage [OF fails(2)] by simp
        then show ?thesis using d1(2) by (simp add: announces_def)
      qed
      then show ?thesis using 2(1) d1 by (auto simp: same_config_def)
    qed
  qed
qed

lemma fresh_display_simps [simp]:
  "d_status (fresh_display k i) = GDM_DISPLAY_UNMANAGED" "\<not> d_session_registered (fresh_display k i)"
  "d_log (fresh_display k i) = []" "d_id (fresh_display k i) = i" "d_kind (fresh_display k i) = k"
  by (simp_all add: fresh_display_def)

lemma d_status_set_status [simp]: "d_status (scdm_display_set_status s d) = s"
  using announces_set_status [of s d] by (simp add: announces_def)


end
