(* ===== verification/Local_Factory.thy ===== *)
theory Local_Factory
  imports Display Display_Store Common_Login
begin

text \<open>
  The factory of local displays, \<open>src/daemon/scdm-local-display-factory.c\<close>, with its base
  class \<open>scdm-display-factory.c\<close>: X display numbers, one login display per seat, the
  reaction to display statuses, seats that come and go, and virtual terminal switches.
  Displays are objects in a heap, the store holds their names. A status notification runs its
  handlers at once, and the handler of a failed display creates the next one, which may fail
  in turn: the operations that can notify take fuel, \<open>OutOfFuel\<close> being distinct from the
  end of the process (\<open>Exits\<close>), and the fuel is shown to be enough.
\<close>

section \<open>State\<close>

datatype 'a run = OutOfFuel | Exits | Runs 'a

definition of_opt :: "'a option \<Rightarrow> 'a run" where
  "of_opt r = (case r of None \<Rightarrow> Exits | Some x \<Rightarrow> Runs x)"

fun run_bind :: "'a run \<Rightarrow> ('a \<Rightarrow> 'b run) \<Rightarrow> 'b run" where
  "run_bind OutOfFuel f = OutOfFuel"
| "run_bind Exits f = Exits"
| "run_bind (Runs x) f = f x"

datatype factory_effect =
    ActivateSession string string | WatchSessionRegistered nat
  | AddWaitTimeout | RemoveSource | MaximumFailuresWarning

record lfactory =
  heap :: "nat \<Rightarrow> display option"
  next_oid :: nat
  fstore :: "nat store"
  used_display_numbers :: "u32 list"
  num_failures :: u32
  active_vt :: u32
  wait_to_finish_timeout :: bool
  purge_pending :: bool
  flog :: "factory_effect list"

text \<open>The answers of the environment. What concerns a display is a function of the object, so
  that nested creations get their own answers.\<close>

record local_env =
  le_sd :: sd_login
  le_user_display_server :: bool \<comment> \<open>built with \<open>ENABLE_USER_DISPLAY_SERVER\<close>\<close>
  le_wayland_support :: bool \<comment> \<open>built with \<open>ENABLE_WAYLAND_SUPPORT\<close>\<close>
  le_wayland_setting :: "bool option"
  le_xwayland :: bool
  le_auth :: "nat \<Rightarrow> auth_env"
  le_accounts :: "nat \<Rightarrow> unit + (unit + nat)"
  le_setup :: "nat \<Rightarrow> setup_env"
  le_server :: "nat \<Rightarrow> server_env"
  le_seats :: "string list option" \<comment> \<open>the reply of \<open>ListSeats\<close>\<close>
  le_session_tty :: "string \<Rightarrow> string option"
  le_session_vt :: "string \<Rightarrow> u32 option"
  le_initial_vt :: u32 \<comment> \<open>\<open>SCDM_INITIAL_VT\<close>, a build option\<close>

section \<open>Display numbers\<close>

text \<open>The loop over the sorted list; the first argument says that there is no previous
  element.\<close>

fun first_hole :: "bool \<Rightarrow> u32 list \<Rightarrow> u32" where
  "first_hole first [] = 0"
| "first_hole first (num # rest) =
     (if first \<and> num \<noteq> 0 then 0
      else if rest = [] \<or> hd rest \<noteq> num + 1 then num + 1
      else first_hole False rest)"

definition take_next_display_number :: "lfactory \<Rightarrow> u32 \<times> lfactory" where
  "take_next_display_number F =
     (let list = used_display_numbers F;
          ret = (if list = [] then 0 else first_hole True (sort list))
      in (ret, F\<lparr>used_display_numbers := List.insert ret list\<rparr>))"

lemma first_hole_spec:
  assumes "sorted (k # ks)" and "distinct (k # ks)" and "- 1 \<notin> set (k # ks)"
  shows "first_hole False (k # ks) \<notin> set (k # ks) \<and> k < first_hole False (k # ks) \<and>
    (\<forall>m. k \<le> m \<and> m < first_hole False (k # ks) \<longrightarrow> m \<in> set (k # ks))"
  using assms
proof (induction ks arbitrary: k)
  case Nil
  then have "k \<noteq> - 1" by auto
  then have "k < k + 1" using inc_less_eq_iff [of k k] by (simp add: not_le)
  then show ?case by (auto dest: less_inc_imp_less_eq)
next
  case (Cons j ks)
  have kj: "k < j" and k: "k \<noteq> - 1" using Cons.prems by auto
  have kk: "k < k + 1" using k inc_less_eq_iff [of k k] by (simp add: not_le)
  show ?case
  proof (cases "j = k + 1")
    case True
    have IH: "first_hole False (j # ks) \<notin> set (j # ks) \<and> j < first_hole False (j # ks) \<and>
      (\<forall>m. j \<le> m \<and> m < first_hole False (j # ks) \<longrightarrow> m \<in> set (j # ks))"
      using Cons.prems by (intro Cons.IH) auto
    have "j \<le> m" if "k \<le> m" "m \<noteq> k" for m
      using that True by (metis inc_le order_le_less)
    then show ?thesis using IH True kj by (auto simp del: first_hole.simps(2) simp: first_hole.simps(2) [of False k])
  next
    case False
    then have "k + 1 < j" using kj by (metis inc_le order_le_less)
    then show ?thesis using False kk Cons.prems(1)
      by (auto dest: less_inc_imp_less_eq intro: order_trans)
  qed
qed

lemma first_hole_sorted:
  assumes "sorted l" and "distinct l" and "- 1 \<notin> set l" and "l \<noteq> []"
  shows "first_hole True l \<notin> set l \<and> (\<forall>m < first_hole True l. m \<in> set l)"
proof (cases l)
  case (Cons k ks)
  show ?thesis
  proof (cases "k = 0")
    case True
    have "first_hole True (k # ks) = first_hole False (k # ks)" using True by simp
    then show ?thesis
      using first_hole_spec [of k ks] assms Cons True by simp
  next
    case False
    then have "0 \<notin> set (k # ks)" using assms(1) Cons by (auto simp: word_le_0_iff)
    then show ?thesis using False Cons by simp
  qed
qed (use assms in simp)

lemma take_next_display_number_least:
  assumes "distinct (used_display_numbers F)" and "- 1 \<notin> set (used_display_numbers F)"
    and "take_next_display_number F = (n, F')"
  shows "n \<notin> set (used_display_numbers F) \<and> (\<forall>m < n. m \<in> set (used_display_numbers F)) \<and>
    set (used_display_numbers F') = insert n (set (used_display_numbers F)) \<and> distinct (used_display_numbers F')"
proof (cases "used_display_numbers F = []")
  case True
  then show ?thesis using assms(3) by (auto simp: take_next_display_number_def Let_def)
next
  case False
  then have "sort (used_display_numbers F) \<noteq> []" by (metis set_sort set_empty)
  then show ?thesis
    using first_hole_sorted [of "sort (used_display_numbers F)"] assms False
    by (auto simp: take_next_display_number_def Let_def)
qed

section \<open>Looking displays up\<close>

definition display_of :: "lfactory \<Rightarrow> nat \<Rightarrow> display option" where
  "display_of F oid = heap F oid"

definition lookup_by_seat_id :: "lfactory \<Rightarrow> string option \<Rightarrow> string \<Rightarrow> nat \<Rightarrow> bool" where
  "lookup_by_seat_id F looking_for i oid =
     (case display_of F oid of None \<Rightarrow> False | Some d \<Rightarrow> d_seat_id d = looking_for)"

definition lookup_prepared_display_by_seat_id :: "lfactory \<Rightarrow> string option \<Rightarrow> string \<Rightarrow> nat \<Rightarrow> bool" where
  "lookup_prepared_display_by_seat_id F looking_for i oid =
     (case display_of F oid of
        None \<Rightarrow> False
      | Some d \<Rightarrow> if d_status d \<noteq> GDM_DISPLAY_PREPARED then False else lookup_by_seat_id F looking_for i oid)"

definition lookup_by_session_id :: "lfactory \<Rightarrow> string option \<Rightarrow> string \<Rightarrow> nat \<Rightarrow> bool" where
  "lookup_by_session_id F looking_for i oid =
     (case display_of F oid of None \<Rightarrow> False | Some d \<Rightarrow> d_session_id d = looking_for)"

definition lookup_by_tty :: "local_env \<Rightarrow> lfactory \<Rightarrow> string \<Rightarrow> string \<Rightarrow> nat \<Rightarrow> bool" where
  "lookup_by_tty env F tty_to_find i oid =
     (case display_of F oid of
        None \<Rightarrow> False
      | Some d \<Rightarrow>
          (case d_session_id d of
             None \<Rightarrow> False
           | Some session_id \<Rightarrow> le_session_tty env session_id = Some tty_to_find))"

section \<open>Purging\<close>

definition purge_display :: "lfactory \<Rightarrow> string \<Rightarrow> nat \<Rightarrow> bool" where
  "purge_display F i oid =
     (case display_of F oid of
        None \<Rightarrow> False
      | Some d \<Rightarrow> d_status d \<in> {GDM_DISPLAY_FINISHED, GDM_DISPLAY_FAILED})"

definition scdm_display_factory_queue_purge_displays :: "lfactory \<Rightarrow> lfactory" where
  "scdm_display_factory_queue_purge_displays F =
     (if \<not> purge_pending F then F\<lparr>purge_pending := True\<rparr> else F)"

definition purge_displays :: "lfactory \<Rightarrow> lfactory" where
  "purge_displays F =
     F\<lparr>purge_pending := False,
       fstore := fst (scdm_display_store_foreach_remove (fstore F) (purge_display F))\<rparr>"

section \<open>Creating displays\<close>

definition scdm_local_display_factory_use_wayland :: "local_env \<Rightarrow> bool" where
  "scdm_local_display_factory_use_wayland env \<longleftrightarrow>
     le_wayland_support env \<and> le_wayland_setting env = Some True \<and> le_xwayland env"

text \<open>\<open>sd_seat_can_multi_session\<close> used as a truth value: a negative error number is true.
  A null seat is an error.\<close>

definition can_multi_session :: "local_env \<Rightarrow> string option \<Rightarrow> bool" where
  "can_multi_session env seat_id =
     (case seat_id of
        None \<Rightarrow> True
      | Some s \<Rightarrow> (case sd_seat_can_multi_session (le_sd env) s of Inl _ \<Rightarrow> True | Inr b \<Rightarrow> b))"

definition login_window_of_seat :: "local_env \<Rightarrow> string option \<Rightarrow> string option" where
  "login_window_of_seat env seat_id =
     (case seat_id of
        None \<Rightarrow> None
      | Some s \<Rightarrow>
          (case scdm_get_login_window_session_id (le_sd env) s None of
             (True, session) \<Rightarrow> session
           | _ \<Rightarrow> None))"

definition scdm_local_display_new :: "nat \<Rightarrow> display" where
  "scdm_local_display_new oid = fresh_display LocalDisplay (oid_to_id oid)"

definition scdm_legacy_display_new :: "nat \<Rightarrow> u32 \<Rightarrow> display" where
  "scdm_legacy_display_new oid num =
     (fresh_display LegacyDisplay (oid_to_id oid))\<lparr>d_x11_display_number := sint num,
        d_x11_display_name := Some (CHR '':'' # show_int (sint num))\<rparr>"

definition store_display :: "lfactory \<Rightarrow> nat \<Rightarrow> display \<Rightarrow> lfactory" where
  "store_display F oid d =
     F\<lparr>heap := (heap F)(oid \<mapsto> d), next_oid := Suc oid,
       fstore := scdm_display_store_add (fstore F) (d_id d) oid\<rparr>"

text \<open>The display already there, if any, and the one of a running login window.\<close>

definition existing_display :: "local_env \<Rightarrow> lfactory \<Rightarrow> string option \<Rightarrow> nat option" where
  "existing_display env F seat_id =
     scdm_display_store_find (fstore F)
       (if can_multi_session env seat_id then lookup_prepared_display_by_seat_id F seat_id
        else lookup_by_seat_id F seat_id)"

definition login_window_display :: "local_env \<Rightarrow> lfactory \<Rightarrow> string option \<Rightarrow> (string \<times> nat) option" where
  "login_window_display env F seat_id =
     (case login_window_of_seat env seat_id of
        None \<Rightarrow> None
      | Some session \<Rightarrow>
          (case scdm_display_store_find (fstore F) (lookup_by_session_id F (Some session)) of
             None \<Rightarrow> None
           | Some oid \<Rightarrow>
               (case display_of F oid of
                  None \<Rightarrow> None
                | Some d \<Rightarrow>
                    if d_status d \<in> {GDM_DISPLAY_MANAGED, GDM_DISPLAY_WAITING_TO_FINISH}
                    then Some (session, oid) else None)))"

text \<open>The new display, with its number taken if it is a legacy one.\<close>

definition new_display :: "local_env \<Rightarrow> lfactory \<Rightarrow> string option \<Rightarrow> string option \<Rightarrow> display \<times> lfactory" where
  "new_display env F seat_id session_type =
     (if le_user_display_server env \<and> seat_id = Some ''seat0''
      then (let d = scdm_local_display_new (next_oid F)
            in (case session_type of None \<Rightarrow> d | Some t \<Rightarrow> d\<lparr>d_session_type := Some t\<rparr>, F))
      else (case take_next_display_number F of
              (num, F) \<Rightarrow> (scdm_legacy_display_new (next_oid F) num, F)))"

text \<open>The X server of a legacy display is told to stop by its own handler, which runs before
  the factory's.\<close>

definition legacy_handler :: "display_status list \<Rightarrow> display \<Rightarrow> display" where
  "legacy_handler ns d =
     (if d_kind d = LegacyDisplay \<and> GDM_DISPLAY_UNMANAGED \<in> set ns then on_legacy_display_status_changed d else d)"

definition MAX_DISPLAY_FAILURES :: u32 where "MAX_DISPLAY_FAILURES = 5"

text \<open>
  What \<open>create_display\<close> does up to the notifications: nothing when the seat has its
  display, else the switch to a running login window, or a new display, stored and managed.
  \<open>Notifying\<close> holds the object that announced statuses, the announcements, the result
  and what is recorded after the handlers have run.
\<close>

datatype creation =
    NothingToDo
  | Notifying nat "display_status list" "nat option" "factory_effect list" lfactory

definition make_display ::
  "local_env \<Rightarrow> lfactory \<Rightarrow> string option \<Rightarrow> string option \<Rightarrow> bool \<Rightarrow> creation run" where
  "make_display env F seat_id session_type initial =
     (let oid = next_oid F;
          (d, F) = new_display env F seat_id session_type;
          d = d\<lparr>d_seat_id := seat_id, d_is_initial := initial\<rparr>;
          F = store_display F oid d
      in case scdm_display_manage (le_auth env oid) (le_accounts env oid) (le_setup env oid)
                (le_server env oid) d of
           None \<Rightarrow> Exits
         | Some (managed, d1) \<Rightarrow>
             (case (if managed then Some d1 else scdm_display_unmanage (le_auth env oid) d1) of
                None \<Rightarrow> Exits
              | Some d2 \<Rightarrow>
                  let ns = announced d d2; d2 = legacy_handler ns d2
                  in Runs (Notifying oid ns (Some oid) [] (F\<lparr>heap := (heap F)(oid \<mapsto> d2)\<rparr>))))"

definition create_begin ::
  "local_env \<Rightarrow> lfactory \<Rightarrow> string option \<Rightarrow> string option \<Rightarrow> bool \<Rightarrow> creation run" where
  "create_begin env F seat_id session_type initial =
     (case existing_display env F seat_id of
        Some _ \<Rightarrow> Runs NothingToDo
      | None \<Rightarrow>
        (case login_window_display env F seat_id of
           Some (session, oid) \<Rightarrow>
             (case display_of F oid of
                None \<Rightarrow> Runs NothingToDo
              | Some d \<Rightarrow>
                  let d' = scdm_display_set_status GDM_DISPLAY_MANAGED d
                  in Runs (Notifying oid (announced d d') None
                       (case seat_id of None \<Rightarrow> [] | Some seat \<Rightarrow> [ActivateSession seat session])
                       (F\<lparr>heap := (heap F)(oid \<mapsto> d')\<rparr>)))
         | None \<Rightarrow> make_display env F seat_id session_type initial))"

text \<open>What the status handler does itself, and the creations it goes on to.\<close>

datatype follow_up = Done | CreateEquivalent "string option" "string option" bool | SyncSeats

definition status_changed_begin ::
  "local_env \<Rightarrow> nat \<Rightarrow> display \<Rightarrow> display_status \<Rightarrow> lfactory \<Rightarrow> lfactory \<times> follow_up" where
  "status_changed_begin env oid d status F =
     (case status of
        GDM_DISPLAY_FINISHED \<Rightarrow>
          let F = (if d_x11_display_number d \<noteq> -1
                   then F\<lparr>used_display_numbers :=
                            removeAll (word_of_int (d_x11_display_number d)) (used_display_numbers F)\<rparr>
                   else F);
              F = scdm_display_factory_queue_purge_displays F
          in if d_is_local d \<and> d_session_class d \<noteq> Some ''greeter''
             then (F\<lparr>num_failures := 0\<rparr>, SyncSeats) else (F, Done)
      | GDM_DISPLAY_FAILED \<Rightarrow>
          let F = scdm_display_factory_queue_purge_displays F
          in if d_is_local d
             then let F = F\<lparr>num_failures := num_failures F + 1\<rparr>
                  in if num_failures F > MAX_DISPLAY_FAILURES
                     then (F\<lparr>flog := flog F @ [MaximumFailuresWarning]\<rparr>, Done)
                     else (F, CreateEquivalent (d_seat_id d)
                            (if le_wayland_support env \<and> d_session_type d = Some ''wayland'' then None
                             else d_session_type d)
                            (d_is_initial d))
             else (F, Done)
      | GDM_DISPLAY_MANAGED \<Rightarrow>
          (if le_user_display_server env then F\<lparr>flog := flog F @ [WatchSessionRegistered oid]\<rparr> else F, Done)
      | _ \<Rightarrow> (F, Done))"

definition seat_defaults :: "local_env \<Rightarrow> string \<Rightarrow> string option \<times> bool" where
  "seat_defaults env seat =
     (if seat = ''seat0''
      then (if scdm_local_display_factory_use_wayland env then Some ''wayland'' else None, True)
      else (None, False))"

text \<open>
  \<open>create_display\<close>, the status handler with the loop over the announcements of one
  operation, and \<open>scdm_local_display_factory_sync_seats\<close>, mutually recursive. The result
  of \<open>create_display\<close> is the object created, if any.
\<close>

fun create_display ::
    "nat \<Rightarrow> local_env \<Rightarrow> string option \<Rightarrow> string option \<Rightarrow> bool \<Rightarrow> lfactory \<Rightarrow> (nat option \<times> lfactory) run"
  and on_display_status_changed :: "nat \<Rightarrow> local_env \<Rightarrow> nat \<Rightarrow> display_status list \<Rightarrow> lfactory \<Rightarrow> lfactory run"
  and sync_seats_loop :: "nat \<Rightarrow> local_env \<Rightarrow> string list \<Rightarrow> lfactory \<Rightarrow> lfactory run" where
  "create_display 0 env seat_id session_type initial F = OutOfFuel"
| "create_display (Suc fuel) env seat_id session_type initial F =
     run_bind (create_begin env F seat_id session_type initial) (\<lambda>c. case c of
        NothingToDo \<Rightarrow> Runs (None, F)
      | Notifying oid ns result fx F' \<Rightarrow>
          run_bind (on_display_status_changed fuel env oid ns F') (\<lambda>F.
            Runs (result, F\<lparr>flog := flog F @ fx\<rparr>)))"
| "on_display_status_changed 0 env oid ns F = (if ns = [] then Runs F else OutOfFuel)"
| "on_display_status_changed (Suc fuel) env oid ns F =
     (case ns of
        [] \<Rightarrow> Runs F
      | status # ss \<Rightarrow>
          (case display_of F oid of
             None \<Rightarrow> Runs F
           | Some d \<Rightarrow>
               (case status_changed_begin env oid d status F of
                  (F, next) \<Rightarrow>
                    run_bind (case next of
                        Done \<Rightarrow> Runs F
                      | CreateEquivalent seat typ init \<Rightarrow>
                          run_bind (create_display fuel env seat typ init F) (\<lambda>(_, F). Runs F)
                      | SyncSeats \<Rightarrow>
                          (case le_seats env of None \<Rightarrow> Runs F | Some seats \<Rightarrow> sync_seats_loop fuel env seats F))
                    (\<lambda>F. on_display_status_changed fuel env oid ss F))))"
| "sync_seats_loop 0 env seats F = (if seats = [] then Runs F else OutOfFuel)"
| "sync_seats_loop (Suc fuel) env seats F =
     (case seats of
        [] \<Rightarrow> Runs F
      | seat # seats \<Rightarrow>
          run_bind (create_display fuel env (Some seat) (fst (seat_defaults env seat))
                      (snd (seat_defaults env seat)) F) (\<lambda>(_, F).
            sync_seats_loop fuel env seats F))"

declare create_display.simps [simp del] on_display_status_changed.simps [simp del]
  sync_seats_loop.simps [simp del]

section \<open>Operations on stored displays\<close>

definition in_store :: "lfactory \<Rightarrow> nat \<Rightarrow> bool" where
  "in_store F oid \<longleftrightarrow> oid \<in> snd ` set (displays (fstore F))"

text \<open>An operation on a display, then the handlers of what it announced. The factory listens
  to the displays in the store only (\<open>on_display_added\<close> and \<open>on_display_removed\<close>).\<close>

definition display_op ::
  "nat \<Rightarrow> local_env \<Rightarrow> nat \<Rightarrow> (display \<Rightarrow> display option) \<Rightarrow> lfactory \<Rightarrow> lfactory run" where
  "display_op fuel env oid f F =
     (case display_of F oid of
        None \<Rightarrow> Runs F
      | Some d \<Rightarrow>
          (case f d of
             None \<Rightarrow> Exits
           | Some d' \<Rightarrow>
               let ns = announced d d'; F' = F\<lparr>heap := (heap F)(oid \<mapsto> legacy_handler ns d')\<rparr>
               in if in_store F oid then on_display_status_changed fuel env oid ns F' else Runs F'))"

definition scdm_local_display_factory_sync_seats :: "nat \<Rightarrow> local_env \<Rightarrow> lfactory \<Rightarrow> (bool \<times> lfactory) run" where
  "scdm_local_display_factory_sync_seats fuel env F =
     (case le_seats env of
        None \<Rightarrow> Runs (False, F)
      | Some seats \<Rightarrow> run_bind (sync_seats_loop fuel env seats F) (\<lambda>F. Runs (True, F)))"

text \<open>The result: the id handed out, if a display was created. When the display cannot be
  managed it stays in the store.\<close>

definition scdm_local_display_factory_create_transient_display ::
  "nat \<Rightarrow> local_env \<Rightarrow> lfactory \<Rightarrow> (string option \<times> lfactory) run" where
  "scdm_local_display_factory_create_transient_display fuel env F =
     (let oid = next_oid F;
          (d, F) = (if le_user_display_server env
                    then (let d = scdm_local_display_new oid
                          in (if scdm_local_display_factory_use_wayland env
                              then d\<lparr>d_session_type := Some ''wayland''\<rparr> else d, F))
                    else (case take_next_display_number F of
                            (num, F) \<Rightarrow> (scdm_legacy_display_new oid num, F)));
          d = d\<lparr>d_seat_id := Some ''seat0'', d_allow_timed_login := False,
                d_is_initial := le_user_display_server env\<rparr>;
          F = store_display F oid d
      in case scdm_display_manage (le_auth env oid) (le_accounts env oid) (le_setup env oid)
                (le_server env oid) d of
           None \<Rightarrow> Exits
         | Some (managed, d1) \<Rightarrow>
             let ns = announced d d1; d1 = legacy_handler ns d1
             in run_bind (on_display_status_changed fuel env oid ns (F\<lparr>heap := (heap F)(oid \<mapsto> d1)\<rparr>)) (\<lambda>F.
                Runs (if managed then Some (d_id d1) else None, F)))"

text \<open>The seat is passed along but never looked at.\<close>

definition finish_display_on_seat_if_waiting ::
  "nat \<Rightarrow> local_env \<Rightarrow> string \<Rightarrow> nat \<Rightarrow> lfactory \<Rightarrow> lfactory run" where
  "finish_display_on_seat_if_waiting fuel env seat_id oid F =
     (if map_option d_status (display_of F oid) \<noteq> Some GDM_DISPLAY_WAITING_TO_FINISH then Runs F
      else run_bind (display_op fuel env oid (\<lambda>d. Some (scdm_display_stop_greeter_session d)) F) (\<lambda>F.
           run_bind (display_op fuel env oid (scdm_display_unmanage (le_auth env oid)) F) (\<lambda>F.
           display_op fuel env oid (\<lambda>d. Some (scdm_display_finish d)) F)))"

fun finish_waiting_loop :: "nat \<Rightarrow> local_env \<Rightarrow> string \<Rightarrow> nat list \<Rightarrow> lfactory \<Rightarrow> lfactory run" where
  "finish_waiting_loop fuel env seat_id [] F = Runs F"
| "finish_waiting_loop fuel env seat_id (oid # oids) F =
     run_bind (finish_display_on_seat_if_waiting fuel env seat_id oid F)
       (finish_waiting_loop fuel env seat_id oids)"

definition finish_waiting_displays_on_seat :: "nat \<Rightarrow> local_env \<Rightarrow> string \<Rightarrow> lfactory \<Rightarrow> lfactory run" where
  "finish_waiting_displays_on_seat fuel env seat_id F =
     finish_waiting_loop fuel env seat_id (map snd (displays (fstore F))) F"

definition on_finish_waiting_for_seat0_displays_timeout :: "nat \<Rightarrow> local_env \<Rightarrow> lfactory \<Rightarrow> lfactory run" where
  "on_finish_waiting_for_seat0_displays_timeout fuel env F =
     finish_waiting_displays_on_seat fuel env ''seat0'' F"

definition on_session_registered_cb :: "nat \<Rightarrow> local_env \<Rightarrow> nat \<Rightarrow> lfactory \<Rightarrow> lfactory run" where
  "on_session_registered_cb fuel env oid F =
     (case display_of F oid of
        None \<Rightarrow> Runs F
      | Some d \<Rightarrow> if \<not> d_session_registered d then Runs F
                  else finish_waiting_displays_on_seat fuel env ''seat0'' F)"

definition delete_display :: "string \<Rightarrow> lfactory \<Rightarrow> lfactory" where
  "delete_display seat_id F =
     F\<lparr>fstore := fst (scdm_display_store_foreach_remove (fstore F) (lookup_by_seat_id F (Some seat_id)))\<rparr>"

definition on_seat_new :: "nat \<Rightarrow> local_env \<Rightarrow> string \<Rightarrow> lfactory \<Rightarrow> lfactory run" where
  "on_seat_new fuel env seat F =
     run_bind (create_display fuel env (Some seat) None False F) (\<lambda>(_, F). Runs F)"

definition on_seat_removed :: "string \<Rightarrow> lfactory \<Rightarrow> lfactory" where
  "on_seat_removed seat F = delete_display seat F"

section \<open>Virtual terminals\<close>

definition maybe_stop_greeter_in_background :: "nat \<Rightarrow> local_env \<Rightarrow> nat \<Rightarrow> lfactory \<Rightarrow> lfactory run" where
  "maybe_stop_greeter_in_background fuel env oid F =
     (case display_of F oid of
        None \<Rightarrow> Runs F
      | Some d \<Rightarrow>
          if d_status d \<noteq> GDM_DISPLAY_MANAGED then Runs F
          else if d_doing_initial_setup d then Runs F
          else display_op fuel env oid (\<lambda>d. Some (scdm_display_set_status GDM_DISPLAY_WAITING_TO_FINISH d)) F)"

definition strchomp :: "string \<Rightarrow> string" where
  "strchomp s = rev (dropWhile ascii_isspace (rev s))"

text \<open>\<open>sscanf\<close> with \<open>tty%u\<close>: blanks and a sign are accepted before the digits, a value
  that does not fit sets \<open>errno\<close>.\<close>

definition scan_tty :: "string \<Rightarrow> u32 option" where
  "scan_tty s =
     (if \<not> prefix ''tty'' s then None
      else let r = dropWhile ascii_isspace (drop 3 s);
               neg = (r \<noteq> [] \<and> hd r = CHR ''-'');
               r = (if r \<noteq> [] \<and> hd r \<in> {CHR ''-'', CHR ''+''} then tl r else r);
               ds = takeWhile ascii_isdigit r
           in if ds = [] \<or> read_nat ds \<ge> 2 ^ 32 then None
              else Some (if neg then - of_nat (read_nat ds) else of_nat (read_nat ds)))"

datatype vt_read = VtError | VtEof | VtAgain | VtLine "string option"

text \<open>The condition of the watch: data to read, and error or hang-up. The result says whether
  the watch stays.\<close>

definition read_active_vt :: "bool \<Rightarrow> bool \<Rightarrow> vt_read \<Rightarrow> bool + string" where
  "read_active_vt pri err_or_hup r =
     (case (if pri then r else VtLine None) of
        VtError \<Rightarrow> Inl False
      | VtEof \<Rightarrow> Inl False
      | VtAgain \<Rightarrow> Inl True
      | VtLine line \<Rightarrow>
          if err_or_hup then Inl False
          else (case line of None \<Rightarrow> Inl True | Some l \<Rightarrow> Inr (strchomp l)))"

text \<open>The part that handles a running login screen on the terminal left behind, returning
  \<open>login_window_vt\<close>.\<close>

definition vt_stop_greeter :: "nat \<Rightarrow> local_env \<Rightarrow> u32 \<Rightarrow> lfactory \<Rightarrow> (u32 \<times> lfactory) run" where
  "vt_stop_greeter fuel env previous_vt F =
     (case login_window_of_seat env (Some ''seat0'') of
        None \<Rightarrow> Runs (0, F)
      | Some session \<Rightarrow>
          (case le_session_vt env session of
             None \<Rightarrow> Runs (0, F)
           | Some login_window_vt \<Rightarrow>
               if login_window_vt \<noteq> 0 \<and> login_window_vt = previous_vt
               then (case scdm_display_store_find (fstore F) (lookup_by_session_id F (Some session)) of
                       None \<Rightarrow> Runs (login_window_vt, F)
                     | Some oid \<Rightarrow> run_bind (maybe_stop_greeter_in_background fuel env oid F)
                                     (\<lambda>F. Runs (login_window_vt, F)))
               else Runs (login_window_vt, F)))"

definition vt_schedule_finish :: "local_env \<Rightarrow> u32 \<Rightarrow> string \<Rightarrow> lfactory \<Rightarrow> lfactory" where
  "vt_schedule_finish env login_window_vt tty F =
     (if active_vt F = login_window_vt then F
      else (case scdm_display_store_find (fstore F) (lookup_by_tty env F tty) of
              None \<Rightarrow> F
            | Some oid \<Rightarrow>
                (case display_of F oid of
                   None \<Rightarrow> F
                 | Some d \<Rightarrow>
                     if d_session_registered d
                     then F\<lparr>wait_to_finish_timeout := True,
                            flog := flog F @ (if wait_to_finish_timeout F then [RemoveSource] else []) @ [AddWaitTimeout]\<rparr>
                     else F)))"

definition on_vt_changed ::
  "nat \<Rightarrow> local_env \<Rightarrow> bool \<Rightarrow> bool \<Rightarrow> vt_read \<Rightarrow> lfactory \<Rightarrow> (bool \<times> lfactory) run" where
  "on_vt_changed fuel env pri err_or_hup r F =
     (case read_active_vt pri err_or_hup r of
        Inl continue \<Rightarrow> Runs (continue, F)
      | Inr tty \<Rightarrow>
        (case scan_tty tty of
           None \<Rightarrow> Runs (True, F)
         | Some new_vt \<Rightarrow>
             if new_vt = active_vt F then Runs (True, F)
             else let previous_vt = active_vt F; F = F\<lparr>active_vt := new_vt\<rparr>
             in if previous_vt = 0 then Runs (True, F)
             else run_bind (vt_stop_greeter fuel env previous_vt F) (\<lambda>(login_window_vt, F).
               let F = vt_schedule_finish env login_window_vt tty F
               in if active_vt F \<noteq> le_initial_vt env then Runs (True, F)
               else run_bind (create_display fuel env (Some ''seat0'')
                      (if scdm_local_display_factory_use_wayland env then Some ''wayland'' else None) True F)
                      (\<lambda>(_, F). Runs (True, F)))))"

end
