(* ===== verification/Factory_Facts.thy ===== *)
theory Factory_Facts
  imports Local_Factory Display_Facts
begin

text \<open>
  Facts about the factory of local displays: that the mutual recursion of creation and status
  handling ends, what it keeps, and the properties of the factory.
\<close>

lemma run_bind_Runs:
  assumes "run_bind m f = Runs y"
  obtains x where "m = Runs x" and "f x = Runs y"
  using assms by (cases m) auto

section \<open>Creation ends\<close>

text \<open>What creating a display announces: it fails at most once, and is finished never.\<close>

definition creation_announcements :: "display_status list set" where
  "creation_announcements =
     {[], [GDM_DISPLAY_MANAGED], [GDM_DISPLAY_PREPARED], [GDM_DISPLAY_PREPARED, GDM_DISPLAY_FAILED],
      [GDM_DISPLAY_FAILED]}"

lemma new_display_facts:
  assumes "new_display env F seat t = (d, F1)"
  shows "d_status d = GDM_DISPLAY_UNMANAGED \<and> \<not> d_session_registered d \<and> d_log d = [] \<and>
    F1 = F\<lparr>used_display_numbers := used_display_numbers F1\<rparr>"
  using assms
  by (auto simp: new_display_def Let_def scdm_local_display_new_def scdm_legacy_display_new_def
      take_next_display_number_def split: if_splits option.splits prod.splits)

lemma same_config_legacy_handler [simp]:
  "same_config d (legacy_handler ns d') = same_config d d'"
  by (simp add: legacy_handler_def on_legacy_display_status_changed_def same_config_def emit_def)

lemma d_status_legacy_handler [simp]: "d_status (legacy_handler ns d) = d_status d"
  by (simp add: legacy_handler_def on_legacy_display_status_changed_def emit_def)

lemma make_display_facts:
  assumes "make_display env F seat t init = Runs c"
  shows "\<exists>ns F1 d. c = Notifying (next_oid F) ns (Some (next_oid F)) [] F1 \<and> ns \<in> creation_announcements \<and>
    num_failures F1 = num_failures F \<and> next_oid F1 = Suc (next_oid F) \<and> heap F1 = (heap F)(next_oid F \<mapsto> d) \<and>
    d_seat_id d = seat \<and> d_is_initial d = init \<and> (GDM_DISPLAY_FAILED \<in> set ns \<longrightarrow> d_status d = GDM_DISPLAY_FAILED) \<and>
    (\<exists>i. fstore F1 = scdm_display_store_add (fstore F) i (next_oid F))"
proof -
  obtain d0 F0 where n: "new_display env F seat t = (d0, F0)" by fastforce
  obtain u where F0: "F0 = F\<lparr>used_display_numbers := u\<rparr>" using new_display_facts [OF n] by (rule conjE) blast
  let ?d = "d0\<lparr>d_seat_id := seat, d_is_initial := init\<rparr>"
  have d: "d_status ?d = GDM_DISPLAY_UNMANAGED" "\<not> d_session_registered ?d" "d_log ?d = []"
    using new_display_facts [OF n] by simp_all
  obtain managed d1 d2 where m: "scdm_display_manage (le_auth env (next_oid F)) (le_accounts env (next_oid F))
      (le_setup env (next_oid F)) (le_server env (next_oid F)) ?d = Some (managed, d1)"
    and d2: "(if managed then Some d1 else scdm_display_unmanage (le_auth env (next_oid F)) d1) = Some d2"
    and c: "c = Notifying (next_oid F) (announced ?d d2) (Some (next_oid F)) []
      ((store_display F0 (next_oid F) ?d)\<lparr>heap := (heap (store_display F0 (next_oid F) ?d))
         (next_oid F \<mapsto> legacy_handler (announced ?d d2) d2)\<rparr>)"
    using assms unfolding make_display_def Let_def n
    by (auto simp: Let_def split: option.splits prod.splits)
  note M = announced_manage [OF m d]
  have A: "same_config ?d d2 \<and> announced ?d d2 \<in> creation_announcements \<and>
      (GDM_DISPLAY_FAILED \<in> set (announced ?d d2) \<longrightarrow> d_status d2 = GDM_DISPLAY_FAILED)"
  proof (cases managed)
    case True
    then show ?thesis using M d2 d(3) by (auto simp: announced_def creation_announcements_def)
  next
    case False
    then have "announces GDM_DISPLAY_FAILED d1 d2"
      using announces_unmanage [of "le_auth env (next_oid F)" d1 d2] d2 M d(2) by (simp add: same_config_def)
    then show ?thesis using False M d(3)
      by (auto simp: announced_def creation_announcements_def announces_def same_config_def)
  qed
  then have "same_config ?d (legacy_handler (announced ?d d2) d2)" "announced ?d d2 \<in> creation_announcements"
    "GDM_DISPLAY_FAILED \<in> set (announced ?d d2) \<longrightarrow> d_status (legacy_handler (announced ?d d2) d2) = GDM_DISPLAY_FAILED"
    by (simp_all add: same_config_legacy_handler)
  then show ?thesis
    unfolding c creation.inject same_config_def
    by (intro exI [where x = "announced ?d d2"] exI [where x = "(store_display F0 (next_oid F) ?d)\<lparr>heap :=
          (heap (store_display F0 (next_oid F) ?d))(next_oid F \<mapsto> legacy_handler (announced ?d d2) d2)\<rparr>"]
          exI [where x = "legacy_handler (announced ?d d2) d2"] conjI refl exI [where x = "d_id ?d"])
      (simp_all add: F0 store_display_def)
qed

lemma create_begin_facts:
  assumes "create_begin env F seat t init = Runs (Notifying oid ns result fx F1)"
  shows "ns \<in> creation_announcements \<and> num_failures F1 = num_failures F \<and> next_oid F1 \<le> Suc (next_oid F)"
proof (cases "existing_display env F seat")
  case None
  show ?thesis
  proof (cases "login_window_display env F seat")
    case None2: None
    then have "make_display env F seat t init = Runs (Notifying oid ns result fx F1)"
      using assms None by (simp add: create_begin_def)
    from make_display_facts [OF this] show ?thesis by auto
  next
    case (Some p)
    obtain session o2 where p: "p = (session, o2)" by fastforce
    then obtain d where d: "display_of F o2 = Some d"
      using Some by (auto simp: login_window_display_def split: option.splits if_splits)
    have "announced d (scdm_display_set_status GDM_DISPLAY_MANAGED d) \<in> creation_announcements"
      using announces_set_status [of GDM_DISPLAY_MANAGED d]
      by (auto simp: announces_def announced_def creation_announcements_def)
    then show ?thesis
      using assms None Some p d by (auto simp: create_begin_def Let_def)
  qed
qed (use assms in \<open>simp add: create_begin_def\<close>)

text \<open>Every failure that leads to another creation raises the number of failures.\<close>

definition attempts_left :: "u32 \<Rightarrow> nat" where
  "attempts_left nf = 6 - unat (nf + 1)"

lemma attempts_left_decreases:
  assumes "\<not> nf + 1 > MAX_DISPLAY_FAILURES"
  shows "attempts_left (nf + 1) < attempts_left nf"
proof -
  have le: "unat (nf + 1) \<le> 5" using assms by (simp add: MAX_DISPLAY_FAILURES_def word_le_nat_alt not_less)
  have "unat (x + 1) = unat x + 1" if "unat x \<le> 5" for x :: u32
    using that by (simp add: unat_word_ariths)
  from this [OF le] have "unat (nf + 1 + 1) = unat (nf + 1) + 1" .
  then show ?thesis using le by (simp add: attempts_left_def)
qed

lemma attempts_left_le: "attempts_left nf \<le> 6"
  by (simp add: attempts_left_def)

lemma status_changed_begin_simps:
  "status_changed_begin env oid d GDM_DISPLAY_UNMANAGED F = (F, Done)"
  "status_changed_begin env oid d GDM_DISPLAY_PREPARED F = (F, Done)"
  "status_changed_begin env oid d GDM_DISPLAY_WAITING_TO_FINISH F = (F, Done)"
  by (simp_all add: status_changed_begin_def)

lemma status_changed_begin_frame:
  "status_changed_begin env oid d s F = (F', f) \<Longrightarrow> heap F' = heap F \<and> next_oid F' = next_oid F \<and> fstore F' = fstore F"
  by (cases s) (auto simp: status_changed_begin_def scdm_display_factory_queue_purge_displays_def Let_def
      split: if_splits)

lemma status_changed_begin_managed:
  "status_changed_begin env oid d GDM_DISPLAY_MANAGED F = (F', f) \<Longrightarrow> f = Done \<and> num_failures F' = num_failures F"
  by (auto simp: status_changed_begin_def split: if_splits)

lemma status_changed_begin_failed:
  assumes "status_changed_begin env oid d GDM_DISPLAY_FAILED F = (F', f)"
  shows "f = Done \<or> (\<exists>t. f = CreateEquivalent (d_seat_id d) t (d_is_initial d)) \<and> num_failures F' = num_failures F + 1 \<and>
    \<not> num_failures F + 1 > MAX_DISPLAY_FAILURES"
  using assms
  by (auto simp: status_changed_begin_def scdm_display_factory_queue_purge_displays_def Let_def
      split: if_splits)

text \<open>With enough fuel, a creation ends and creates a bounded number of objects.\<close>

definition ends_within :: "nat \<Rightarrow> lfactory \<Rightarrow> lfactory run \<Rightarrow> bool" where
  "ends_within k F r \<longleftrightarrow> r \<noteq> OutOfFuel \<and> (\<forall>F'. r = Runs F' \<longrightarrow> next_oid F' \<le> next_oid F + k)"

lemma handler_of_nothing [simp]: "on_display_status_changed fuel env oid [] F = Runs F"
  by (cases fuel) (simp_all add: on_display_status_changed.simps)

lemma handler_quiet:
  assumes "s = GDM_DISPLAY_PREPARED \<or> s = GDM_DISPLAY_MANAGED"
  shows "\<exists>F'. num_failures F' = num_failures F \<and> next_oid F' = next_oid F \<and>
    (on_display_status_changed (Suc fuel) env oid (s # ss) F = Runs F \<or>
     on_display_status_changed (Suc fuel) env oid (s # ss) F = on_display_status_changed fuel env oid ss F')"
proof (cases "display_of F oid")
  case None
  then show ?thesis by (auto simp: on_display_status_changed.simps)
next
  case (Some d)
  obtain F' f where F': "status_changed_begin env oid d s F = (F', f)" by fastforce
  have "f = Done \<and> num_failures F' = num_failures F"
    using assms F' status_changed_begin_managed by (auto simp: status_changed_begin_simps)
  then show ?thesis using status_changed_begin_frame [OF F'] Some F'
    by (auto simp: on_display_status_changed.simps intro!: exI [of _ F'])
qed

definition created :: "(nat option \<times> lfactory) run \<Rightarrow> lfactory run" where
  "created r = run_bind r (\<lambda>(_, F). Runs F)"

lemma created_simps [simp]:
  "created OutOfFuel = OutOfFuel" "created Exits = Exits" "created (Runs (r, F)) = Runs F"
  by (simp_all add: created_def)

lemma ends_within_mono:
  "ends_within k F1 r \<Longrightarrow> next_oid F1 + k \<le> next_oid F + m \<Longrightarrow> ends_within m F r"
  by (auto simp: ends_within_def)

lemma handler_failed:
  assumes "\<And>F1 seat t i. num_failures F1 = num_failures F + 1 \<Longrightarrow> next_oid F1 = next_oid F \<Longrightarrow>
      \<not> num_failures F + 1 > MAX_DISPLAY_FAILURES \<Longrightarrow>
      ends_within k F1 (created (create_display fuel env seat t i F1))"
  shows "ends_within k F (on_display_status_changed (Suc fuel) env oid [GDM_DISPLAY_FAILED] F)"
proof (cases "display_of F oid")
  case None
  then show ?thesis by (simp add: on_display_status_changed.simps ends_within_def)
next
  case (Some d)
  obtain F' f where F': "status_changed_begin env oid d GDM_DISPLAY_FAILED F = (F', f)" by fastforce
  note fr = status_changed_begin_frame [OF F']
  show ?thesis
  proof (cases "f = Done")
    case True
    then show ?thesis using Some F' fr by (simp add: on_display_status_changed.simps ends_within_def)
  next
    case False
    then obtain t where f: "f = CreateEquivalent (d_seat_id d) t (d_is_initial d)"
      "num_failures F' = num_failures F + 1" "\<not> num_failures F + 1 > MAX_DISPLAY_FAILURES"
      using status_changed_begin_failed [OF F'] by blast
    then have "ends_within k F' (created (create_display fuel env (d_seat_id d) t (d_is_initial d) F'))"
      using assms fr by simp
    then show ?thesis using Some F' f(1) fr
      by (cases "create_display fuel env (d_seat_id d) t (d_is_initial d) F'")
        (auto simp: on_display_status_changed.simps ends_within_def)
  qed
qed

lemma created_create_display:
  assumes "create_begin env F seat t init = Runs (Notifying oid ns result fx F1)"
    and "ends_within k F1 (on_display_status_changed fuel env oid ns F1)"
  shows "ends_within k F1 (created (create_display (Suc fuel) env seat t init F))"
  using assms
  by (cases "on_display_status_changed fuel env oid ns F1") (auto simp: create_display.simps ends_within_def)

lemma create_display_ends:
  "3 * (attempts_left (num_failures F) + 1) \<le> fuel \<Longrightarrow>
   ends_within (attempts_left (num_failures F) + 1) F (created (create_display fuel env seat t init F))"
proof (induction fuel arbitrary: F seat t init rule: less_induct)
  case (less fuel)
  let ?k = "attempts_left (num_failures F)"
  obtain f where fuel: "fuel = Suc (Suc (Suc f))" "3 * ?k \<le> f"
    using less.prems by (intro that [of "fuel - 3"]) arith+
  consider "create_begin env F seat t init = OutOfFuel \<or> create_begin env F seat t init = Exits \<or>
      create_begin env F seat t init = Runs NothingToDo"
    | oid ns result fx F1 where "create_begin env F seat t init = Runs (Notifying oid ns result fx F1)"
    by (metis creation.exhaust run.exhaust)
  then show ?case
  proof cases
    case 1
    have "create_begin env F seat t init \<noteq> OutOfFuel"
      by (auto simp: create_begin_def make_display_def Let_def split: option.splits prod.splits)
    then show ?thesis using 1 by (auto simp: fuel create_display.simps ends_within_def)
  next
    case 2
    note F1 = create_begin_facts [OF 2]
    have IH: "ends_within ?k G (on_display_status_changed (Suc g) env oid [GDM_DISPLAY_FAILED] G)"
      if G: "num_failures G = num_failures F" "f \<le> g" "g < fuel" for G :: lfactory and g
    proof (rule handler_failed)
      fix G1 :: lfactory and seat t i
      assume G1: "num_failures G1 = num_failures G + 1" and *: "\<not> num_failures G + 1 > MAX_DISPLAY_FAILURES"
      let ?m = "attempts_left (num_failures G1)"
      have m: "?m < ?k" using attempts_left_decreases [OF *] G1 G by simp
      have "ends_within (?m + 1) G1 (created (create_display g env seat t i G1))"
        using m G fuel by (intro less.IH) auto
      then show "ends_within ?k G1 (created (create_display g env seat t i G1))"
        using m by (auto simp: ends_within_def)
    qed
    have Q: "ends_within ?k F1 (on_display_status_changed (Suc (Suc f)) env oid ns F1)"
    proof -
      from F1 consider "ns = []" | s ss where "ns = s # ss" "s = GDM_DISPLAY_PREPARED \<or> s = GDM_DISPLAY_MANAGED"
          "ss = [] \<or> ss = [GDM_DISPLAY_FAILED]" | "ns = [GDM_DISPLAY_FAILED]"
        by (auto simp: creation_announcements_def)
      then show ?thesis
      proof cases
        case (2 s ss)
        obtain F' where "num_failures F' = num_failures F1" "next_oid F' = next_oid F1"
          "on_display_status_changed (Suc (Suc f)) env oid (s # ss) F1 = Runs F1 \<or>
           on_display_status_changed (Suc (Suc f)) env oid (s # ss) F1 = on_display_status_changed (Suc f) env oid ss F'"
          using handler_quiet [OF 2(2)] by blast
        then show ?thesis using 2 IH [of F' f] F1 fuel by (auto simp: ends_within_def)
      qed (use IH [of F1 "Suc f"] F1 fuel in \<open>auto simp: ends_within_def\<close>)
    qed
    have "ends_within ?k F1 (created (create_display fuel env seat t init F))"
      unfolding fuel by (rule created_create_display [OF 2 Q])
    then show ?thesis using F1 by (auto intro: ends_within_mono)
  qed
qed

lemma sync_seats_ends:
  "21 + length seats \<le> fuel \<Longrightarrow> ends_within (7 * length seats) F (sync_seats_loop fuel env seats F)"
proof (induction seats arbitrary: fuel F)
  case Nil
  then show ?case by (cases fuel) (simp_all add: sync_seats_loop.simps ends_within_def)
next
  case (Cons seat seats)
  then obtain f where f: "fuel = Suc f" "21 + length seats \<le> f" by (cases fuel) auto
  let ?r = "create_display f env (Some seat) (fst (seat_defaults env seat)) (snd (seat_defaults env seat)) F"
  have 1: "ends_within (attempts_left (num_failures F) + 1) F (created ?r)"
    using attempts_left_le [of "num_failures F"] f(2) by (intro create_display_ends) arith
  show ?case
  proof (cases ?r)
    case (Runs p)
    obtain r F' where p: "p = (r, F')" by fastforce
    have "next_oid F' \<le> next_oid F + 7"
      using 1 Runs p attempts_left_le [of "num_failures F"] by (auto simp: ends_within_def)
    then show ?thesis using Cons.IH [of f F'] f Runs p
      by (auto simp: sync_seats_loop.simps intro: ends_within_mono)
  qed (use 1 f in \<open>simp_all add: sync_seats_loop.simps ends_within_def\<close>)
qed

text \<open>C22. Creating a login display always ends: the failure of a display makes its handler
  create the next one, which may fail in turn, yet whatever the environment answers the
  recursion stops, after at most six further attempts. At most one display per attempt is
  created; starting from no failures that is six displays, the number of failures being
  counted over all seats.\<close>

theorem create_display_bounded:
  "case create_display (21 + extra) env seat session_type initial F of
     OutOfFuel \<Rightarrow> False
   | Exits \<Rightarrow> True
   | Runs (result, F') \<Rightarrow> next_oid F' \<le> next_oid F + attempts_left (num_failures F) + 1"
  using create_display_ends [of F "21 + extra" env seat session_type initial] attempts_left_le [of "num_failures F"]
  by (cases "create_display (21 + extra) env seat session_type initial F") (auto simp: ends_within_def)

text \<open>Every reaction of the factory to the status changes of a display ends, the
  resynchronisation of all seats after a finished session included: fuel for 21 nested calls
  per seat loop, the seats of the system and the announcements is always enough.\<close>

theorem on_display_status_changed_terminates:
  "on_display_status_changed
     (21 + (case le_seats env of None \<Rightarrow> 0 | Some seats \<Rightarrow> length seats) + length ns) env oid ns F \<noteq> OutOfFuel"
proof (induction ns arbitrary: F)
  case (Cons s ss)
  define f where "f = 21 + (case le_seats env of None \<Rightarrow> 0 | Some seats \<Rightarrow> length seats) + length ss"
  have c: "created (create_display f env seat t i F) \<noteq> OutOfFuel" for seat t i F
    using create_display_ends [of F f env seat t i] attempts_left_le [of "num_failures F"]
    by (simp add: ends_within_def f_def)
  have y: "le_seats env = Some seats \<Longrightarrow> sync_seats_loop f env seats F \<noteq> OutOfFuel" for seats F
    using sync_seats_ends [of seats f F env] by (simp add: ends_within_def f_def)
  have b: "run_bind r (on_display_status_changed f env oid ss) \<noteq> OutOfFuel" if "r \<noteq> OutOfFuel" for r
    using Cons.IH that by (cases r) (simp_all add: f_def)
  have "on_display_status_changed (Suc f) env oid (s # ss) F \<noteq> OutOfFuel"
    using c y b by (simp add: on_display_status_changed.simps created_def split: option.splits prod.splits follow_up.splits)
  then show ?case by (simp add: f_def)
qed simp

text \<open>
  What a creation has to keep so that everything nested in it keeps it: the contract between
  the first part of \<open>create_display\<close> and what holds across the mutual recursion.
\<close>

locale creation_invariant =
  fixes env :: local_env and P :: "lfactory \<Rightarrow> bool"
  assumes handler_keeps: "P F \<Longrightarrow> heap F' = heap F \<Longrightarrow> next_oid F' = next_oid F \<Longrightarrow> fstore F' = fstore F \<Longrightarrow> P F'"
    and create_keeps: "create_begin env F seat t init = Runs (Notifying oid ns result fx F1) \<Longrightarrow> P F \<Longrightarrow> P F1"
begin

lemma run_keeps:
  "(P F \<longrightarrow> create_display fuel env seat t init F = Runs (r, F') \<longrightarrow> P F') \<and>
   (P F \<longrightarrow> on_display_status_changed fuel env oid ns F = Runs F' \<longrightarrow> P F') \<and>
   (P F \<longrightarrow> sync_seats_loop fuel env seats F = Runs F' \<longrightarrow> P F')"
proof (induction fuel arbitrary: F seat t init r F' oid ns seats)
  case 0
  then show ?case
    by (auto simp: create_display.simps on_display_status_changed.simps sync_seats_loop.simps split: if_splits)
next
  case (Suc fuel)
  have C: "P F'" if "P F" "create_display fuel env seat t init F = Runs (r, F')"
    for F seat t init r F' using Suc that by blast
  have H: "P F'" if "P F" "on_display_status_changed fuel env oid ns F = Runs F'"
    for F oid ns F' using Suc that by blast
  have S: "P F'" if "P F" "sync_seats_loop fuel env seats F = Runs F'"
    for F seats F' using Suc that by blast
  have b: "\<exists>x. m = Runs x \<and> f x = Runs y" if "run_bind m f = Runs y" for m :: "'b run" and f :: "'b \<Rightarrow> 'c run" and y
    using that by (cases m) auto
  have 1: "P F'"
    if inv: "P F" and r: "create_display (Suc fuel) env seat t init F = Runs (r, F')"
  proof (cases "create_begin env F seat t init")
    case (Runs c)
    show ?thesis
    proof (cases c)
      case (Notifying oid ns result fx F1)
      have "P F1" using create_keeps inv Runs Notifying by blast
      then show ?thesis
        using r Runs Notifying
        by (cases "on_display_status_changed fuel env oid ns F1")
          (auto simp: create_display.simps dest: H intro: handler_keeps)
    qed (use r inv Runs in \<open>simp add: create_display.simps\<close>)
  qed (use r in \<open>simp_all add: create_display.simps\<close>)
  have 2: "P F'"
    if inv: "P F" and r: "on_display_status_changed (Suc fuel) env oid ns F = Runs F'"
  proof (cases "ns = [] \<or> display_of F oid = None")
    case True
    then show ?thesis using r inv by (cases ns) (auto simp: on_display_status_changed.simps)
  next
    case False
    then obtain s ss d where ns: "ns = s # ss" "display_of F oid = Some d" by (cases ns) auto
    obtain F2 f where F2: "status_changed_begin env oid d s F = (F2, f)" by fastforce
    have inv2: "P F2" using handler_keeps [OF inv] status_changed_begin_frame [OF F2] by blast
    have *: "run_bind (case f of Done \<Rightarrow> Runs F2
        | CreateEquivalent seat typ init \<Rightarrow> run_bind (create_display fuel env seat typ init F2) (\<lambda>(_, F). Runs F)
        | SyncSeats \<Rightarrow> (case le_seats env of None \<Rightarrow> Runs F2 | Some seats \<Rightarrow> sync_seats_loop fuel env seats F2))
        (\<lambda>F. on_display_status_changed fuel env oid ss F) = Runs F'"
      using r ns F2 by (simp add: on_display_status_changed.simps)
    then obtain F3 where F3: "on_display_status_changed fuel env oid ss F3 = Runs F'"
      and f: "(case f of Done \<Rightarrow> Runs F2
        | CreateEquivalent seat typ init \<Rightarrow> run_bind (create_display fuel env seat typ init F2) (\<lambda>(_, F). Runs F)
        | SyncSeats \<Rightarrow> (case le_seats env of None \<Rightarrow> Runs F2 | Some seats \<Rightarrow> sync_seats_loop fuel env seats F2)) = Runs F3"
      by (auto dest!: b)
    have "P F3"
      using f inv2 by (auto split: follow_up.splits option.splits dest!: b intro: C S)
    then show ?thesis using F3 H by blast
  qed
  have 3: "P F'"
    if inv: "P F" and r: "sync_seats_loop (Suc fuel) env seats F = Runs F'"
  proof (cases seats)
    case (Cons seat rest)
    then obtain x F2 where "create_display fuel env (Some seat) (fst (seat_defaults env seat))
        (snd (seat_defaults env seat)) F = Runs (x, F2)" "sync_seats_loop fuel env rest F2 = Runs F'"
      using r by (auto simp: sync_seats_loop.simps dest!: b)
    then show ?thesis using inv C S by blast
  qed (use r inv in \<open>simp add: sync_seats_loop.simps\<close>)
  show ?case using 1 2 3 by blast
qed

lemmas create_display_keeps = run_keeps [THEN conjunct1, rule_format]
lemmas handlers_keep = run_keeps [THEN conjunct2, THEN conjunct1, rule_format]
lemmas sync_seats_keeps = run_keeps [THEN conjunct2, THEN conjunct2, rule_format]

lemma display_op_keeps:
  assumes "display_op fuel env oid f F = Runs F'" and "P F"
    and "\<And>d d'. heap F oid = Some d \<Longrightarrow> f d = Some d' \<Longrightarrow> P (F\<lparr>heap := (heap F)(oid \<mapsto> legacy_handler (announced d d') d')\<rparr>)"
  shows "P F'"
  using assms by (auto simp: display_op_def display_of_def Let_def dest: handlers_keep split: option.splits if_splits)

end

section \<open>One display per seat\<close>

lemma find_store_None:
  "scdm_display_store_find s P = None \<longleftrightarrow> (\<forall>(i, oid) \<in> set (displays s). \<not> P i oid)"
  by (auto simp: scdm_display_store_find_def find_None_iff)

lemma existing_display_single:
  assumes "\<not> can_multi_session env seat"
  shows "existing_display env F seat = None \<longleftrightarrow>
    (\<forall>(i, oid) \<in> set (displays (fstore F)). map_option d_seat_id (heap F oid) \<noteq> Some seat)"
  using assms
  by (fastforce simp: existing_display_def find_store_None lookup_by_seat_id_def display_of_def split: option.splits)

lemma in_store_after_add: "oid \<in> snd ` set (displays (scdm_display_store_add s i oid))"
proof -
  have "map_of (AList.update i oid (displays s)) i = Some oid" by (simp add: update_conv')
  from map_of_SomeD [OF this] show ?thesis by (auto simp: scdm_display_store_add_def intro!: image_eqI [of _ snd "(i, oid)"])
qed

lemma store_add_subset:
  "x \<in> set (displays (scdm_display_store_add s i oid)) \<Longrightarrow> x = (i, oid) \<or> x \<in> set (displays s)"
proof -
  have "x \<in> set (AList.update i oid xs) \<Longrightarrow> x = (i, oid) \<or> x \<in> set xs" for xs
    by (induction xs) (auto split: if_splits)
  then show "x \<in> set (displays (scdm_display_store_add s i oid)) \<Longrightarrow> x = (i, oid) \<or> x \<in> set (displays s)"
    by (simp add: scdm_display_store_add_def)
qed

text \<open>The displays in the store exist, and a seat that can hold one session has one of them at
  most.\<close>

definition one_per_seat :: "local_env \<Rightarrow> lfactory \<Rightarrow> bool" where
  "one_per_seat env F \<longleftrightarrow>
     (\<forall>(i, oid) \<in> set (displays (fstore F)). oid < next_oid F) \<and>
     (\<forall>(i, a) \<in> set (displays (fstore F)). \<forall>(j, b) \<in> set (displays (fstore F)).
        case (heap F a, heap F b) of
          (Some d, Some e) \<Rightarrow> d_seat_id d = d_seat_id e \<and> \<not> can_multi_session env (d_seat_id d) \<longrightarrow> a = b
        | _ \<Rightarrow> True)"

lemma one_per_seat_frame:
  assumes "one_per_seat env F" and "heap F' = heap F" and "next_oid F' = next_oid F" and "fstore F' = fstore F"
  shows "one_per_seat env F'"
  using assms by (simp add: one_per_seat_def)

lemma one_per_seat_update:
  assumes "one_per_seat env F" and "heap F oid = Some d" and "d_seat_id d' = d_seat_id d"
    and "heap F' = (heap F)(oid \<mapsto> d')" and "next_oid F' = next_oid F" and "fstore F' = fstore F"
  shows "one_per_seat env F'"
  using assms unfolding one_per_seat_def by (fastforce split: option.splits)

lemma one_per_seat_make:
  assumes inv: "one_per_seat env F" and none: "existing_display env F seat = None"
    and F1: "next_oid F1 = Suc (next_oid F)" "heap F1 = (heap F)(next_oid F \<mapsto> d)" "d_seat_id d = seat"
      "fstore F1 = scdm_display_store_add (fstore F) i (next_oid F)"
  shows "one_per_seat env F1"
proof -
  have old: "a < next_oid F \<and> (\<not> can_multi_session env seat \<longrightarrow> map_option d_seat_id (heap F a) \<noteq> Some seat)"
    if "(j, a) \<in> set (displays (fstore F))" for j a
    using that inv none existing_display_single [of env seat F] by (auto simp: one_per_seat_def)
  have sub: "(j, a) = (i, next_oid F) \<or> (j, a) \<in> set (displays (fstore F))"
    if "(j, a) \<in> set (displays (fstore F1))" for j a
    using store_add_subset [of "(j, a)"] that F1(4) by metis
  have pair: "a = b"
    if m: "(j, a) \<in> set (displays (fstore F1))" "(k, b) \<in> set (displays (fstore F1))"
      "heap F1 a = Some d1" "heap F1 b = Some d2" "d_seat_id d1 = d_seat_id d2" "\<not> can_multi_session env (d_seat_id d1)"
    for j a k b d1 d2
  proof (rule ccontr)
    assume "a \<noteq> b"
    then consider "a = next_oid F" "(k, b) \<in> set (displays (fstore F))"
      | "b = next_oid F" "(j, a) \<in> set (displays (fstore F))"
      | "(j, a) \<in> set (displays (fstore F))" "(k, b) \<in> set (displays (fstore F))"
      using sub [OF m(1)] sub [OF m(2)] by blast
    then show False
    proof cases
      case 1 then show False using old [OF 1(2)] m F1 \<open>a \<noteq> b\<close> by auto
    next
      case 2 then show False using old [OF 2(2)] m F1 \<open>a \<noteq> b\<close> by auto
    next
      case 3
      then have "heap F a = Some d1" "heap F b = Some d2" using old m(3,4) F1(2) by fastforce+
      then show False using inv 3 m(5,6) \<open>a \<noteq> b\<close> unfolding one_per_seat_def by fastforce
    qed
  qed
  moreover have "\<forall>(j, a) \<in> set (displays (fstore F1)). a < next_oid F1"
    using sub old F1(1) by fastforce
  ultimately show ?thesis unfolding one_per_seat_def by (fastforce split: option.split)
qed

lemma one_per_seat_begin:
  assumes "create_begin env F seat t init = Runs (Notifying oid ns result fx F1)" and "one_per_seat env F"
  shows "one_per_seat env F1"
proof -
  have none: "existing_display env F seat = None" using assms(1) by (auto simp: create_begin_def split: option.splits)
  show ?thesis
  proof (cases "login_window_display env F seat")
    case None
    then have "make_display env F seat t init = Runs (Notifying oid ns result fx F1)"
      using assms none by (simp add: create_begin_def)
    from make_display_facts [OF this] show ?thesis
      by (auto intro: one_per_seat_make [OF assms(2) none])
  next
    case (Some p)
    then obtain d where "heap F oid = Some d" "next_oid F1 = next_oid F" "fstore F1 = fstore F"
      "heap F1 = (heap F)(oid \<mapsto> scdm_display_set_status GDM_DISPLAY_MANAGED d)"
      using assms(1) none by (auto simp: create_begin_def display_of_def Let_def split: option.splits prod.splits)
    then show ?thesis
      using announces_set_status [of GDM_DISPLAY_MANAGED d]
      by (intro one_per_seat_update [OF assms(2)]) (auto simp: announces_def same_config_def)
  qed
qed

interpretation seat_inv: creation_invariant env "one_per_seat env" for env
  by unfold_locales (auto intro: one_per_seat_frame one_per_seat_begin)

text \<open>C24. A seat that cannot hold several sessions never gets a second display: when the
  store has at most one display of every such seat, it still has after a login display was
  requested for any seat, whatever the failures and re-creations on the way.\<close>

theorem create_display_one_per_seat:
  assumes "one_per_seat env F"
    and "create_display fuel env seat session_type initial F = Runs (result, F')"
  shows "one_per_seat env F'"
  using seat_inv.create_display_keeps assms by blast

section \<open>A display that fails on a seat with a single session\<close>

lemma existing_display_frame:
  assumes "heap F' = heap F" and "fstore F' = fstore F"
  shows "existing_display env F' seat = existing_display env F seat"
proof -
  have "lookup_by_seat_id F' = lookup_by_seat_id F"
    "lookup_prepared_display_by_seat_id F' = lookup_prepared_display_by_seat_id F"
    by (auto simp: fun_eq_iff lookup_by_seat_id_def lookup_prepared_display_by_seat_id_def display_of_def assms
        split: option.splits)
  then show ?thesis by (simp add: existing_display_def assms)
qed

lemma handler_failed_existing:
  assumes "display_of F oid = Some d" and "existing_display env F (d_seat_id d) \<noteq> None"
  shows "\<exists>F'. on_display_status_changed (Suc (Suc k)) env oid [GDM_DISPLAY_FAILED] F = Runs F' \<and>
    heap F' = heap F \<and> fstore F' = fstore F \<and> next_oid F' = next_oid F \<and> purge_pending F'"
proof -
  obtain F2 f where F2: "status_changed_begin env oid d GDM_DISPLAY_FAILED F = (F2, f)" by fastforce
  note fr = status_changed_begin_frame [OF F2]
  have "purge_pending F2"
    using F2 by (auto simp: status_changed_begin_def scdm_display_factory_queue_purge_displays_def Let_def split: if_splits)
  moreover have "existing_display env F2 (d_seat_id d) \<noteq> None"
    using assms(2) fr existing_display_frame [of F2 F] by simp
  then have "create_display (Suc k) env (d_seat_id d) t i F2 = Runs (None, F2)" for t i
    by (auto simp: create_display.simps create_begin_def)
  ultimately show ?thesis
    using assms(1) F2 fr status_changed_begin_failed [OF F2]
    by (auto simp: on_display_status_changed.simps)
qed

lemma single_session_failure:
  assumes m: "make_display env F seat t init = Runs (Notifying oid ns r fx F1)"
    and "GDM_DISPLAY_FAILED \<in> set ns" and single: "\<not> can_multi_session env seat"
  shows "\<exists>F'. on_display_status_changed (Suc (Suc (Suc k))) env oid ns F1 = Runs F' \<and>
    heap F' = heap F1 \<and> fstore F' = fstore F1 \<and> next_oid F' = next_oid F1 \<and> purge_pending F'"
proof -
  obtain d i where d: "oid = next_oid F" "heap F1 = (heap F)(oid \<mapsto> d)" "d_seat_id d = seat"
    "ns \<in> creation_announcements" "fstore F1 = scdm_display_store_add (fstore F) i oid"
    using make_display_facts [OF m] by auto
  have "existing_display env F1 (d_seat_id d) \<noteq> None"
    using d in_store_after_add [of oid "fstore F" i] existing_display_single [OF single, of F1]
    by (force simp: image_iff)
  note H = handler_failed_existing [of _ oid d env, unfolded display_of_def]
  consider "ns = [GDM_DISPLAY_FAILED]" | "ns = [GDM_DISPLAY_PREPARED, GDM_DISPLAY_FAILED]"
    using d(4) assms(2) by (auto simp: creation_announcements_def)
  then show ?thesis
  proof cases
    case 1
    then show ?thesis using H [of F1 "Suc k"] d \<open>existing_display env F1 (d_seat_id d) \<noteq> None\<close> by simp
  next
    case 2
    then have "on_display_status_changed (Suc (Suc (Suc k))) env oid ns F1 =
        on_display_status_changed (Suc (Suc k)) env oid [GDM_DISPLAY_FAILED] F1"
      using d(2) by (simp add: on_display_status_changed.simps(2) [of "Suc (Suc k)"] display_of_def status_changed_begin_simps)
    then show ?thesis using H [of F1 k] d \<open>existing_display env F1 (d_seat_id d) \<noteq> None\<close> by simp
  qed
qed

text \<open>On a seat that cannot hold several sessions a login display that fails is not
  replaced: its failure handler asks for an equivalent display, but the failed display is still
  in the store, the purge being queued only, and is taken for the display of the seat. Once the
  queued purge has run the seat has no display at all.\<close>

theorem single_session_seat_not_retried:
  assumes "make_display env F seat session_type initial = Runs (Notifying oid ns r fx F1)"
    and "GDM_DISPLAY_FAILED \<in> set ns"
    and "\<not> can_multi_session env seat"
    and "existing_display env F seat = None" and "login_window_display env F seat = None"
  shows "\<exists>F'. create_display (4 + extra) env seat session_type initial F = Runs (r, F') \<and>
    next_oid F' = Suc (next_oid F) \<and> existing_display env F' seat \<noteq> None \<and> purge_pending F' \<and>
    (one_per_seat env F \<longrightarrow> existing_display env (purge_displays F') seat = None)"
proof -
  obtain d i where d: "oid = next_oid F" "heap F1 = (heap F)(oid \<mapsto> d)" "d_seat_id d = seat" "next_oid F1 = Suc (next_oid F)"
    "d_status d = GDM_DISPLAY_FAILED" "fstore F1 = scdm_display_store_add (fstore F) i oid" "fx = []"
    using make_display_facts [OF assms(1)] assms(2) by auto
  obtain F' where F': "on_display_status_changed (3 + extra) env oid ns F1 = Runs F'"
    "heap F' = heap F1" "fstore F' = fstore F1" "next_oid F' = next_oid F1" "purge_pending F'"
    using single_session_failure [OF assms(1,2,3), of extra] by (auto simp: numeral_3_eq_3)
  have cb: "create_begin env F seat session_type initial = Runs (Notifying oid ns r fx F1)"
    using assms by (simp add: create_begin_def)
  have "create_display (Suc (3 + extra)) env seat session_type initial F = Runs (r, F')"
    unfolding create_display.simps(2) cb by (simp add: F'(1) d(7))
  then have "create_display (4 + extra) env seat session_type initial F = Runs (r, F')" by simp
  moreover have "existing_display env F' seat \<noteq> None"
    using d F' in_store_after_add [of oid "fstore F" i] existing_display_single [OF assms(3), of F']
    by (force simp: image_iff)
  moreover have "existing_display env (purge_displays F') seat = None" if inv: "one_per_seat env F"
  proof -
    have "map_option d_seat_id (heap F' a) \<noteq> Some seat"
      if "(j, a) \<in> set (displays (fstore F'))" "\<not> purge_display F' j a" for j a
    proof (cases "a = oid")
      case True
      then show ?thesis using that(2) d F' by (simp add: purge_display_def display_of_def)
    next
      case False
      then have "(j, a) \<in> set (displays (fstore F))" using store_add_subset [of "(j, a)"] that(1) d F'(3) by auto
      then show ?thesis using existing_display_single [OF assms(3), of F] assms(4) False d F'(2) by auto
    qed
    then show ?thesis
      unfolding existing_display_single [OF assms(3)]
      by (auto simp: purge_displays_def scdm_display_store_foreach_remove_def Let_def)
  qed
  ultimately show ?thesis using F' d by simp
qed

section \<open>Finishing the displays that wait\<close>

text \<open>What the first part of a creation does to an object that exists already: at most, it is
  managed again.\<close>

lemma create_begin_old:
  assumes "create_begin env F seat t init = Runs (Notifying oid ns result fx F1)" and "a < next_oid F"
  shows "next_oid F \<le> next_oid F1 \<and> (heap F1 a = heap F a \<or>
    (\<exists>d. heap F a = Some d \<and> heap F1 a = Some (scdm_display_set_status GDM_DISPLAY_MANAGED d)))"
proof -
  have none: "existing_display env F seat = None" using assms(1) by (auto simp: create_begin_def split: option.splits)
  show ?thesis
  proof (cases "login_window_display env F seat")
    case None
    then have "make_display env F seat t init = Runs (Notifying oid ns result fx F1)"
      using assms none by (simp add: create_begin_def)
    from make_display_facts [OF this] show ?thesis using assms(2) by auto
  next
    case (Some p)
    then show ?thesis
      using assms(1) none by (auto simp: create_begin_def display_of_def Let_def split: option.splits prod.splits)
  qed
qed

definition settled :: "nat \<Rightarrow> lfactory \<Rightarrow> bool" where
  "settled oid F \<longleftrightarrow> oid < next_oid F \<and> map_option d_status (heap F oid) \<noteq> Some GDM_DISPLAY_WAITING_TO_FINISH"

interpretation settled: creation_invariant env "settled oid" for env oid
proof unfold_locales
  fix F seat t init oid' ns result fx F1
  assume "create_begin env F seat t init = Runs (Notifying oid' ns result fx F1)" "settled oid F"
  then show "settled oid F1" using create_begin_old [of env F seat t init oid' ns result fx F1 oid]
    by (auto simp: settled_def)
qed (auto simp: settled_def)

interpretation fresh_inv: creation_invariant env "\<lambda>F. oid < next_oid F" for env oid
proof unfold_locales
  fix F seat t init oid' ns result fx F1
  assume "create_begin env F seat t init = Runs (Notifying oid' ns result fx F1)" "oid < next_oid F"
  then show "oid < next_oid F1" using create_begin_old [of env F seat t init oid' ns result fx F1 oid] by linarith
qed simp

lemma finish_one_settles:
  assumes "finish_display_on_seat_if_waiting fuel env seat oid F = Runs F'" and "oid < next_oid F"
  shows "settled oid F'"
proof (cases "map_option d_status (display_of F oid) = Some GDM_DISPLAY_WAITING_TO_FINISH")
  case True
  let ?f = "\<lambda>d. Some (scdm_display_finish d)"
  obtain F1 F2 where 1: "display_op fuel env oid (\<lambda>d. Some (scdm_display_stop_greeter_session d)) F = Runs F1"
    and 2: "display_op fuel env oid (scdm_display_unmanage (le_auth env oid)) F1 = Runs F2"
    and 3: "display_op fuel env oid ?f F2 = Runs F'"
    using assms(1) True by (auto simp: finish_display_on_seat_if_waiting_def elim!: run_bind_Runs)
  have "oid < next_oid F1" by (rule fresh_inv.display_op_keeps [OF 1 assms(2)]) (use assms(2) in simp)
  from fresh_inv.display_op_keeps [OF 2 this] this have F2: "oid < next_oid F2" by simp
  show ?thesis
  proof (cases "heap F2 oid")
    case None
    then show ?thesis using 3 F2 by (simp add: display_op_def display_of_def settled_def)
  next
    case (Some d)
    let ?d = "scdm_display_finish d"
    let ?F = "F2\<lparr>heap := (heap F2)(oid \<mapsto> legacy_handler (announced d ?d) ?d)\<rparr>"
    have "settled oid ?F" using F2 by (simp add: settled_def scdm_display_finish_def)
    then show ?thesis using 3 Some settled.handlers_keep
      by (auto simp: display_op_def display_of_def Let_def split: if_splits)
  qed
qed (use assms in \<open>auto simp: finish_display_on_seat_if_waiting_def settled_def display_of_def\<close>)

lemma finish_one_fresh:
  assumes "finish_display_on_seat_if_waiting fuel env seat oid F = Runs F'" and "b < next_oid F"
  shows "b < next_oid F'"
proof -
  have op: "b < next_oid G'" if "display_op fuel env oid f G = Runs G'" "b < next_oid G" for f G G'
    by (rule fresh_inv.display_op_keeps [OF that]) (use that(2) in simp)
  show ?thesis
    using assms by (auto simp: finish_display_on_seat_if_waiting_def elim!: run_bind_Runs dest!: op split: if_splits)
qed

lemma finish_one_keeps:
  assumes "finish_display_on_seat_if_waiting fuel env seat oid F = Runs F'" and "settled a F" and "a \<noteq> oid"
  shows "settled a F'"
proof -
  have op: "settled a G'" if "display_op fuel env oid f G = Runs G'" "settled a G" for f G G'
    by (rule settled.display_op_keeps [OF that]) (use that(2) assms(3) in \<open>simp add: settled_def\<close>)
  show ?thesis
    using assms(1,2) by (auto simp: finish_display_on_seat_if_waiting_def elim!: run_bind_Runs dest!: op split: if_splits)
qed

lemma finish_waiting_loop_settles:
  assumes "finish_waiting_loop fuel env seat oids F = Runs F'" and "\<forall>a \<in> set oids. a < next_oid F"
    and "a \<in> set oids \<or> settled a F"
  shows "settled a F'"
  using assms
proof (induction oids arbitrary: F)
  case (Cons oid oids)
  obtain F1 where 1: "finish_display_on_seat_if_waiting fuel env seat oid F = Runs F1"
    and 2: "finish_waiting_loop fuel env seat oids F1 = Runs F'"
    using Cons.prems(1) by (auto elim!: run_bind_Runs)
  have "b < next_oid F1" if "b < next_oid F" for b
    using finish_one_fresh [OF 1 that] .
  moreover have "a \<in> set oids \<or> settled a F1"
    using Cons.prems 1 finish_one_settles [OF 1] finish_one_keeps [OF 1] by (cases "a = oid") auto
  ultimately show ?case using Cons.IH [OF 2] Cons.prems(2) by auto
qed simp

text \<open>When the time for waiting displays is over, or a session registers, no display of
  the store is left waiting to be finished: each is finished, or was made the active one again
  by a creation on the way. The seat makes no difference: displays that wait on any other seat
  are finished with it.\<close>

theorem finish_waiting_displays_all_seats:
  assumes "finish_waiting_displays_on_seat fuel env seat F = Runs F'"
    and "\<forall>(i, oid) \<in> set (displays (fstore F)). oid < next_oid F"
  shows "\<forall>(i, oid) \<in> set (displays (fstore F)).
    map_option d_status (heap F' oid) \<noteq> Some GDM_DISPLAY_WAITING_TO_FINISH"
proof -
  have "settled oid F'" if "(i, oid) \<in> set (displays (fstore F))" for i oid
    using finish_waiting_loop_settles [OF assms(1) [unfolded finish_waiting_displays_on_seat_def], of oid] assms(2) that
    by force
  then show ?thesis by (auto simp: settled_def)
qed

text \<open>The number given to a new X display is the least that no display uses, and it is
  then in use.\<close>

theorem take_next_display_number_correct:
  assumes "distinct (used_display_numbers F)" and "- 1 \<notin> set (used_display_numbers F)"
    and "take_next_display_number F = (n, F')"
  shows "n \<notin> set (used_display_numbers F) \<and> (\<forall>m < n. m \<in> set (used_display_numbers F)) \<and>
    set (used_display_numbers F') = insert n (set (used_display_numbers F)) \<and> distinct (used_display_numbers F')"
  using take_next_display_number_least [OF assms] .

section \<open>Examples\<close>

definition example_auth :: auth_env where
  "example_auth = \<lparr>ae_fs = example_fs\<lparr>mkdtemp_result := Inl ENOENT\<rparr>, ae_xauth_dir = ''/x'', ae_scdm_user = ''scdm'',
     ae_garbage_gid = 0, ae_random = Inr [], ae_wrote = (\<lambda>_. True), ae_hostname = None, ae_dirname = id\<rparr>"

text \<open>An authority file cannot be created, and \<open>seat1\<close> holds one session only.\<close>

definition example_env :: local_env where
  "example_env = \<lparr>
     le_sd = example_sd\<lparr>sd_seat_can_multi_session := (\<lambda>s. Inr (s = ''seat0'')),
                        sd_seat_get_sessions := (\<lambda>_. Inr [])\<rparr>,
     le_user_display_server = True, le_wayland_support = True, le_wayland_setting = Some False,
     le_xwayland = False, le_auth = (\<lambda>_. example_auth), le_accounts = (\<lambda>_. Inr (Inr 1)),
     le_setup = (\<lambda>_. \<lparr>se_ran_already = True, se_cmdline = None, se_setup_argument = (\<lambda>_. None),
                  se_session_file_exists = (\<lambda>_. False), se_initial_setup_enable = None\<rparr>),
     le_server = (\<lambda>_. \<lparr>sv_disallow_tcp = None, sv_start = True\<rparr>), le_seats = Some [''seat0'', ''seat1''],
     le_session_tty = (\<lambda>_. None), le_session_vt = (\<lambda>_. None), le_initial_vt = 1\<rparr>"

definition empty_factory :: lfactory where
  "empty_factory = \<lparr>heap = (\<lambda>_. None), next_oid = 0, fstore = scdm_display_store_new, used_display_numbers = [],
     num_failures = 0, active_vt = 0, wait_to_finish_timeout = False, purge_pending = False, flog = []\<rparr>"

lemmas example_simps = example_env_def example_auth_def example_fs_def example_sd_def empty_factory_def
  scdm_display_store_new_def

lemmas creation_simps = make_display_def new_display_def take_next_display_number_def store_display_def
  scdm_legacy_display_new_def scdm_local_display_new_def fresh_display_def scdm_display_manage_def
  scdm_display_prepare_def look_for_existing_users_sync_def wants_initial_setup_def
  already_done_initial_setup_on_this_boot_def class_prepare_def scdm_legacy_display_prepare_def
  scdm_local_display_prepare_def scdm_display_real_prepare_def
  set_launch_def authority_then_prepare_def scdm_display_create_authority_def create_access_file_for_user_def
  scdm_display_access_file_open_def scdm_display_access_file_new_def create_xauth_file_for_user_def
  prepare_xauth_dir_def get_uid_and_gid_for_user_def scdm_display_unmanage_def scdm_display_disconnect_def
  close_and_unref_def emit_def scdm_display_set_status_def announced_def legacy_handler_def
  on_legacy_display_status_changed_def class_manage_def

lemma one_per_seat_empty: "one_per_seat env empty_factory"
  by (simp add: one_per_seat_def empty_factory_def scdm_display_store_new_def)

lemma example_single: "\<not> can_multi_session example_env (Some ''seat1'')"
  by (simp add: can_multi_session_def example_simps)

lemma example_nothing: "existing_display example_env empty_factory seat = None"
  "login_window_display example_env empty_factory seat = None"
  by (auto simp: existing_display_def login_window_display_def login_window_of_seat_def scdm_display_store_find_def
      example_simps split: option.splits prod.splits bool.splits)

lemma example_make:
  "\<exists>F1. make_display example_env empty_factory (Some ''seat1'') None False =
     Runs (Notifying 0 [GDM_DISPLAY_FAILED] (Some 0) [] F1)"
  by (simp add: creation_simps example_simps Let_def)

theorem single_session_seat_not_retried_witness:
  "\<exists>F'. create_display 4 example_env (Some ''seat1'') None False empty_factory = Runs (Some 0, F') \<and>
    next_oid F' = 1 \<and> existing_display example_env (purge_displays F') (Some ''seat1'') = None"
proof -
  obtain F1 where "make_display example_env empty_factory (Some ''seat1'') None False =
      Runs (Notifying 0 [GDM_DISPLAY_FAILED] (Some 0) [] F1)"
    using example_make by blast
  from single_session_seat_not_retried [OF this _ example_single example_nothing, of 0]
  show ?thesis by (auto simp: one_per_seat_empty) (simp add: empty_factory_def)
qed

theorem create_display_one_per_seat_witness:
  "\<exists>F'. create_display 4 example_env (Some ''seat1'') None False empty_factory = Runs (Some 0, F') \<and>
    one_per_seat example_env F'"
proof -
  obtain F1 where m: "make_display example_env empty_factory (Some ''seat1'') None False =
      Runs (Notifying 0 [GDM_DISPLAY_FAILED] (Some 0) [] F1)"
    using example_make by blast
  then obtain F2 where F2: "on_display_status_changed (Suc (Suc (Suc 0))) example_env 0 [GDM_DISPLAY_FAILED] F1 = Runs F2"
    using single_session_failure [OF m _ example_single, of 0] by auto
  have "create_display (Suc (Suc (Suc (Suc 0)))) example_env (Some ''seat1'') None False empty_factory
      = Runs (Some 0, F2\<lparr>flog := flog F2 @ []\<rparr>)"
    unfolding create_display.simps(2) create_begin_def example_nothing option.case m run_bind.simps creation.case F2 by simp
  then obtain F' where "create_display 4 example_env (Some ''seat1'') None False empty_factory = Runs (Some 0, F')"
    by (simp add: numeral_eq_Suc)
  with create_display_one_per_seat [OF one_per_seat_empty this] show ?thesis by blast
qed

theorem take_next_display_number_correct_witness:
  "fst (take_next_display_number (empty_factory\<lparr>used_display_numbers := [3, 0, 1]\<rparr>)) = 2"
proof -
  let ?F = "empty_factory\<lparr>used_display_numbers := [3, 0, 1]\<rparr>"
  obtain n F' where n: "take_next_display_number ?F = (n, F')" by fastforce
  have "n \<notin> {3, 0, 1} \<and> (\<forall>m < n. m \<in> {3, 0, 1})"
    using take_next_display_number_correct [OF _ _ n] by simp
  then have "\<not> 2 < n" "n \<noteq> 0" "n \<noteq> 1" by auto
  then have "n = 2" unfolding word_less_nat_alt by (auto simp: word_unat_eq_iff) 
  then show ?thesis by (simp add: n)
qed

definition waiting_factory :: lfactory where
  "waiting_factory = empty_factory\<lparr>
     heap := [0 \<mapsto> (fresh_display LocalDisplay ''d0'')\<lparr>d_seat_id := Some ''seat1'', d_session_registered := True,
                d_status := GDM_DISPLAY_WAITING_TO_FINISH\<rparr>],
     next_oid := 1, fstore := \<lparr>displays = [(''d0'', 0)], store_log = []\<rparr>\<rparr>"

theorem finish_waiting_displays_all_seats_witness:
  "\<exists>F'. finish_waiting_displays_on_seat 1 example_env ''seat0'' waiting_factory = Runs F' \<and>
    map_option d_status (heap F' 0) \<noteq> Some GDM_DISPLAY_WAITING_TO_FINISH"
proof -
  obtain F' where F': "finish_waiting_displays_on_seat 1 example_env ''seat0'' waiting_factory = Runs F'"
    by (simp add: finish_waiting_displays_on_seat_def finish_display_on_seat_if_waiting_def display_op_def
        display_of_def waiting_factory_def empty_factory_def scdm_display_stop_greeter_session_def
        scdm_display_unmanage_def scdm_display_disconnect_def scdm_display_finish_def scdm_display_set_status_def
        announced_def emit_def fresh_display_def legacy_handler_def in_store_def close_and_unref_def
        on_display_status_changed.simps status_changed_begin_def
        scdm_display_factory_queue_purge_displays_def Let_def)
  show ?thesis
    using finish_waiting_displays_all_seats [OF F'] F' by (simp add: waiting_factory_def)
qed

end
