(* ===== verification/Address.thy ===== *)
theory Address
  imports Prelude
begin

text \<open>
  Network addresses, \<open>src/common/scdm-address.c\<close>: socket addresses, their comparison, their
  numeric form, and the list of the machine's own addresses, which is cached for five seconds.
  The resolver, the interfaces and the clock are arguments.
\<close>

section \<open>Socket addresses\<close>

text \<open>
  The fields of \<open>struct sockaddr_storage\<close> the program looks at, through \<open>SIN\<close> and
  \<open>SIN6\<close>: the port is at the same place in both views, the IPv4 address lies where an IPv6
  address has its flow information. \<open>sin_addr\<close> and \<open>sin_port\<close> are the values in
  network byte order read as numbers.
\<close>

type_synonym u128 = "128 word"

record address =
  ss_family :: u16
  sin_port :: u16
  sin_addr :: u32
  sin6_addr :: u128

definition AF_UNSPEC :: u16 where "AF_UNSPEC = 0"
definition AF_INET :: u16 where "AF_INET = 2"
definition AF_INET6 :: u16 where "AF_INET6 = 10"

definition INADDR_LOOPBACK :: u32 where "INADDR_LOOPBACK = 0x7f000001"

lemmas families = AF_UNSPEC_def AF_INET_def AF_INET6_def

definition inet :: "u16 \<Rightarrow> u32 \<Rightarrow> address" where
  "inet port a = \<lparr>ss_family = AF_INET, sin_port = port, sin_addr = a, sin6_addr = 0\<rparr>"

definition inet6 :: "u16 \<Rightarrow> u128 \<Rightarrow> address" where
  "inet6 port a = \<lparr>ss_family = AF_INET6, sin_port = port, sin_addr = 0, sin6_addr = a\<rparr>"

lemma inet_simps [simp]:
  "ss_family (inet p a) = AF_INET" "sin_port (inet p a) = p" "sin_addr (inet p a) = a"
  "ss_family (inet6 p b) = AF_INET6" "sin_port (inet6 p b) = p" "sin6_addr (inet6 p b) = b"
  by (simp_all add: inet_def inet6_def)

text \<open>The address an IPv4 peer has on a socket of the IPv6 family.\<close>

definition v4_mapped :: "u32 \<Rightarrow> u128" where
  "v4_mapped a = push_bit 32 0xffff OR ucast a"

text \<open>The size checks of the constructor: 16 and 128 bytes.\<close>

definition scdm_address_new_from_sockaddr :: "address \<Rightarrow> nat \<Rightarrow> address option" where
  "scdm_address_new_from_sockaddr sa sz = (if 16 \<le> sz \<and> sz \<le> 128 then Some sa else None)"

definition scdm_address_get_family_type :: "address \<Rightarrow> u16" where
  "scdm_address_get_family_type a = ss_family a"

definition scdm_sockaddr_len :: "address \<Rightarrow> nat" where
  "scdm_sockaddr_len a = (if ss_family a = AF_INET6 then 28 else 16)"

definition v4_v4_equal :: "address \<Rightarrow> address \<Rightarrow> bool" where
  "v4_v4_equal a b \<longleftrightarrow> sin_addr a = sin_addr b"

definition v6_v6_equal :: "address \<Rightarrow> address \<Rightarrow> bool" where
  "v6_v6_equal a b \<longleftrightarrow> sin6_addr a = sin6_addr b"

text \<open>The families are cut to eight bits; the first argument is \<open>ENABLE_IPV6\<close>.\<close>

definition scdm_address_equal :: "bool \<Rightarrow> address \<Rightarrow> address \<Rightarrow> bool" where
  "scdm_address_equal ipv6 a b =
     (let fam_a = (ucast (ss_family a) :: u8); fam_b = (ucast (ss_family b) :: u8)
      in if fam_a = ucast AF_INET \<and> fam_b = ucast AF_INET then v4_v4_equal a b
         else if ipv6 \<and> fam_a = ucast AF_INET6 \<and> fam_b = ucast AF_INET6 then v6_v6_equal a b
         else False)"

definition scdm_address_is_loopback :: "address \<Rightarrow> bool" where
  "scdm_address_is_loopback a =
     (if ss_family a = AF_INET6 then sin6_addr a = 1
      else if ss_family a = AF_INET then INADDR_LOOPBACK = sin_addr a
      else False)"

section \<open>Names\<close>

text \<open>\<open>getnameinfo\<close> with the numeric flags: the host and the service, if it succeeds. The
  buffers are empty strings otherwise.\<close>

definition strip_mapped :: "string \<Rightarrow> string" where
  "strip_mapped s = (if prefix ''::ffff:'' s then drop 7 s else s)"

definition scdm_address_get_numeric_info ::
  "(address \<Rightarrow> (string \<times> string) option) \<Rightarrow> address \<Rightarrow> bool \<times> string \<times> string" where
  "scdm_address_get_numeric_info getnameinfo a =
     (case getnameinfo a of
        None \<Rightarrow> (False, [], [])
      | Some (host, serv) \<Rightarrow> (True, strip_mapped host, strip_mapped serv))"

definition scdm_address_get_hostname :: "(address \<Rightarrow> string option) \<Rightarrow> address \<Rightarrow> bool \<times> string" where
  "scdm_address_get_hostname getnameinfo a =
     (case getnameinfo a of None \<Rightarrow> (False, []) | Some host \<Rightarrow> (True, host))"

section \<open>The machine's own addresses\<close>

text \<open>One entry of \<open>SIOCGIFCONF\<close>: its family, the answer to \<open>SIOCGIFFLAGS\<close> (whether
  the interface is up) and the one to \<open>SIOCGIFADDR\<close>.\<close>

record ifreq =
  ifr_family :: u16
  ifr_up :: "bool option"
  ifr_addr :: "address option"

record net_env =
  ne_ipv6 :: bool
  ne_now :: int
  ne_ifconf :: "ifreq list option" \<comment> \<open>\<open>None\<close>: no socket, or the request fails\<close>
  ne_addrinfo :: "(address \<times> nat) list option" \<comment> \<open>the addresses of the host name, with sizes\<close>
  ne_nameinfo :: "address \<Rightarrow> (string \<times> string) option"

definition siocgif_address :: "ifreq \<Rightarrow> address list" where
  "siocgif_address ifr =
     (if ifr_family ifr \<noteq> AF_INET then []
      else (case ifr_up ifr of
              None \<Rightarrow> []
            | Some up \<Rightarrow>
                if up then (case ifr_addr ifr of None \<Rightarrow> [] | Some a \<Rightarrow> [a]) else []))"

definition add_local_siocgifconf :: "net_env \<Rightarrow> address option list \<Rightarrow> address option list" where
  "add_local_siocgifconf env l =
     (case ne_ifconf env of
        None \<Rightarrow> l
      | Some ifs \<Rightarrow> l @ map Some (concat (map siocgif_address ifs)))"

text \<open>A null address is put on the list when the constructor refuses the size.\<close>

definition add_local_addrinfo :: "net_env \<Rightarrow> address option list \<Rightarrow> address option list" where
  "add_local_addrinfo env l =
     (case ne_addrinfo env of
        None \<Rightarrow> l
      | Some ais \<Rightarrow> l @ map (\<lambda>(a, sz). scdm_address_new_from_sockaddr a sz) ais)"

text \<open>The static variables: the list and the time of the last check.\<close>

record local_cache =
  lc_list :: "address option list"
  lc_last_time :: int

definition scdm_address_peek_local_list :: "net_env \<Rightarrow> local_cache \<Rightarrow> address option list \<times> local_cache" where
  "scdm_address_peek_local_list env c =
     (if lc_last_time c + 5 > ne_now env then (lc_list c, c)
      else let l = add_local_addrinfo env (add_local_siocgifconf env [])
           in (l, \<lparr>lc_list = l, lc_last_time = ne_now env\<rparr>))"

text \<open>Comparing with a null address is false.\<close>

definition equal_opt :: "bool \<Rightarrow> address \<Rightarrow> address option \<Rightarrow> bool" where
  "equal_opt ipv6 a b = (case b of None \<Rightarrow> False | Some b \<Rightarrow> scdm_address_equal ipv6 a b)"

definition scdm_address_is_local :: "net_env \<Rightarrow> address \<Rightarrow> local_cache \<Rightarrow> bool \<times> local_cache" where
  "scdm_address_is_local env a c =
     (if scdm_address_is_loopback a then (True, c)
      else (case scdm_address_peek_local_list env c of
              (l, c) \<Rightarrow> (list_ex (equal_opt (ne_ipv6 env) a) l, c)))"

section \<open>Facts\<close>

lemma ucast_families [simp]:
  "(ucast AF_INET :: u8) = 2" "(ucast AF_INET6 :: u8) = 10"
  by (simp_all add: families)

lemma address_equal_sym: "scdm_address_equal v a b = scdm_address_equal v b a"
  by (auto simp: scdm_address_equal_def Let_def v4_v4_equal_def v6_v6_equal_def)

lemma address_equal_trans:
  "scdm_address_equal v a b \<Longrightarrow> scdm_address_equal v b c \<Longrightarrow> scdm_address_equal v a c"
  by (auto simp: scdm_address_equal_def Let_def v4_v4_equal_def v6_v6_equal_def split: if_splits)

lemma address_equal_inet [simp]:
  "scdm_address_equal v (inet p a) (inet q b) \<longleftrightarrow> a = b"
  "scdm_address_equal v (inet6 p x) (inet6 q y) \<longleftrightarrow> v \<and> x = y"
  "\<not> scdm_address_equal v (inet p a) (inet6 q x)" "\<not> scdm_address_equal v (inet6 q x) (inet p a)"
  by (auto simp: scdm_address_equal_def Let_def v4_v4_equal_def v6_v6_equal_def)

text \<open>Asking again within five seconds gives the same list and does not look at the
  interfaces.\<close>

lemma peek_local_list_again:
  assumes "scdm_address_peek_local_list env c = (l, c')" and "ne_now env' < lc_last_time c' + 5"
  shows "scdm_address_peek_local_list env' c' = (l, c')"
  using assms by (auto simp: scdm_address_peek_local_list_def Let_def split: if_splits)

lemma peek_local_list_twice:
  "scdm_address_peek_local_list env (snd (scdm_address_peek_local_list env c)) =
     (fst (scdm_address_peek_local_list env c), snd (scdm_address_peek_local_list env c))"
  by (simp add: scdm_address_peek_local_list_def Let_def)

definition local_address :: "net_env \<Rightarrow> local_cache \<Rightarrow> address \<Rightarrow> bool" where
  "local_address env c a = fst (scdm_address_is_local env a c)"

lemma is_local_idem:
  "local_address env (snd (scdm_address_is_local env b c)) a = local_address env c a"
  by (auto simp: local_address_def scdm_address_is_local_def scdm_address_peek_local_list_def Let_def)

text \<open>Two addresses are equal exactly when they are of the same of the two families and
  name the same host: ports play no part, and addresses of different families differ, even when
  one is the IPv4-mapped form of the other. The relation is symmetric and transitive, but an
  address of any other family, or of IPv6 when that is not built in, is not equal to itself.\<close>

theorem address_equal_characterisation:
  "scdm_address_equal ipv6 a b = scdm_address_equal ipv6 b a \<and>
   (scdm_address_equal ipv6 a a \<longleftrightarrow>
      (ucast (ss_family a) :: u8) = 2 \<or> ipv6 \<and> (ucast (ss_family a) :: u8) = 10) \<and>
   scdm_address_equal ipv6 (a\<lparr>sin_port := p\<rparr>) b = scdm_address_equal ipv6 a b \<and>
   \<not> scdm_address_equal ipv6 (inet q v4) (inet6 r (v4_mapped v4))"
proof (intro conjI)
  show "scdm_address_equal ipv6 a b = scdm_address_equal ipv6 b a" by (rule address_equal_sym)
  show "scdm_address_equal ipv6 a a \<longleftrightarrow>
      (ucast (ss_family a) :: u8) = 2 \<or> ipv6 \<and> (ucast (ss_family a) :: u8) = 10"
    unfolding scdm_address_equal_def Let_def ucast_families v4_v4_equal_def v6_v6_equal_def by presburger
  show "scdm_address_equal ipv6 (a\<lparr>sin_port := p\<rparr>) b = scdm_address_equal ipv6 a b"
    by (simp add: scdm_address_equal_def v4_v4_equal_def v6_v6_equal_def)
  show "\<not> scdm_address_equal ipv6 (inet q v4) (inet6 r (v4_mapped v4))" by simp
qed

lemma siocgif_address_in: "a \<in> set (siocgif_address ifr) \<Longrightarrow> ifr_addr ifr = Some a"
  unfolding siocgif_address_def
  apply (split if_split_asm)
  apply simp
  apply (split option.split_asm)
  apply simp
  apply (split if_split_asm)
  apply (split option.split_asm)
  apply simp
  apply simp
  apply simp
  done

text \<open>On a socket of the IPv6 family no IPv4 peer counts as local, not even the machine
  itself: its mapped address is neither the loopback address nor equal to an interface address,
  unless the resolver lists that mapped address for the host name.\<close>

theorem mapped_peer_not_local:
  assumes "lc_last_time c + 5 \<le> ne_now env" and "ne_addrinfo env = None"
    and "ne_ifconf env = Some ifs"
    and "\<forall>ifr \<in> set ifs. \<forall>a. ifr_addr ifr = Some a \<longrightarrow> ss_family a = AF_INET"
  shows "fst (scdm_address_is_local env (inet6 p (v4_mapped v4)) c) = False"
proof -
  have "v4_mapped v4 \<noteq> 1"
  proof
    assume "v4_mapped v4 = 1"
    then have "bit (v4_mapped v4) 32 = bit (1 :: u128) 32" by simp
    then show False by (simp add: v4_mapped_def bit_simps)
  qed
  then have "\<not> scdm_address_is_loopback (inet6 p (v4_mapped v4))"
    by (simp add: scdm_address_is_loopback_def families)
  moreover have "\<not> equal_opt (ne_ipv6 env) (inet6 p (v4_mapped v4)) (Some a)"
    if "ifr \<in> set ifs" "a \<in> set (siocgif_address ifr)" for ifr a
  proof -
    have "ifr_addr ifr = Some a" using that(2) by (rule siocgif_address_in)
    then have "ss_family a = AF_INET" using assms(4) that(1) by blast
    then show ?thesis by (simp add: equal_opt_def scdm_address_equal_def)
  qed
  ultimately show ?thesis
    using assms(1-3)
    by (auto simp: scdm_address_is_local_def scdm_address_peek_local_list_def add_local_siocgifconf_def
        add_local_addrinfo_def list_ex_iff Let_def)
qed

definition example_net :: net_env where
  "example_net = \<lparr>ne_ipv6 = True, ne_now = 100,
     ne_ifconf = Some [\<lparr>ifr_family = AF_INET, ifr_up = Some True, ifr_addr = Some (inet 0 0x0a000001)\<rparr>],
     ne_addrinfo = None, ne_nameinfo = (\<lambda>a. Some (''10.0.0.9'', ''177''))\<rparr>"

definition empty_cache :: local_cache where
  "empty_cache = \<lparr>lc_list = [], lc_last_time = 0\<rparr>"

theorem mapped_peer_not_local_witness:
  "fst (scdm_address_is_local example_net (inet6 9 (v4_mapped 0x0a000001)) empty_cache) = False \<and>
   fst (scdm_address_is_local example_net (inet 9 0x0a000001) empty_cache) = True"
  using mapped_peer_not_local [of empty_cache example_net _ 9 "0x0a000001"]
  by (auto simp: example_net_def empty_cache_def scdm_address_is_local_def scdm_address_peek_local_list_def
      add_local_siocgifconf_def add_local_addrinfo_def siocgif_address_def equal_opt_def Let_def)

end
