(* ===== verification/Xdmcp.thy ===== *)
theory Xdmcp
  imports Address Display Display_Store
begin

text \<open>
  The XDMCP display factory, \<open>src/daemon/scdm-xdmcp-display-factory.c\<close>: its state, the
  packets it sends, the lists of forward queries, indirect clients and managed forwards, and the
  displays in the store. The handlers of the packets are in \<open>Xdmcp_Handlers\<close>. libXdmcp,
  tcp_wrappers, the resolver and the clock are arguments. List elements are told apart by a
  number that stands for their address in memory.
\<close>

section \<open>The wire\<close>

datatype field = CARD8 u8 | CARD16 u16 | CARD32 u32 | ARRAY8 "u8 list" | ARRAYofARRAY8 "u8 list list"

text \<open>The size of a field on the wire, as the protocol defines it.\<close>

fun field_size :: "field \<Rightarrow> nat" where
  "field_size (CARD8 x) = 1"
| "field_size (CARD16 x) = 2"
| "field_size (CARD32 x) = 4"
| "field_size (ARRAY8 a) = 2 + length a"
| "field_size (ARRAYofARRAY8 l) = 1 + sum_list (map (\<lambda>a. 2 + length a) l)"

definition BROADCAST_QUERY :: u16 where "BROADCAST_QUERY = 1"
definition QUERY :: u16 where "QUERY = 2"
definition INDIRECT_QUERY :: u16 where "INDIRECT_QUERY = 3"
definition FORWARD_QUERY :: u16 where "FORWARD_QUERY = 4"
definition WILLING :: u16 where "WILLING = 5"
definition UNWILLING :: u16 where "UNWILLING = 6"
definition REQUEST :: u16 where "REQUEST = 7"
definition ACCEPT :: u16 where "ACCEPT = 8"
definition DECLINE :: u16 where "DECLINE = 9"
definition MANAGE :: u16 where "MANAGE = 10"
definition REFUSE :: u16 where "REFUSE = 11"
definition FAILED :: u16 where "FAILED = 12"
definition KEEPALIVE :: u16 where "KEEPALIVE = 13"
definition ALIVE :: u16 where "ALIVE = 14"
definition GDM_XDMCP_MANAGED_FORWARD :: u16 where "GDM_XDMCP_MANAGED_FORWARD = 1000"
definition GDM_XDMCP_GOT_MANAGED_FORWARD :: u16 where "GDM_XDMCP_GOT_MANAGED_FORWARD = 1001"

lemmas opcodes = BROADCAST_QUERY_def QUERY_def INDIRECT_QUERY_def FORWARD_QUERY_def WILLING_def
  UNWILLING_def REQUEST_def ACCEPT_def DECLINE_def MANAGE_def REFUSE_def FAILED_def KEEPALIVE_def
  ALIVE_def GDM_XDMCP_MANAGED_FORWARD_def GDM_XDMCP_GOT_MANAGED_FORWARD_def

definition XDM_PROTOCOL_VERSION :: u16 where "XDM_PROTOCOL_VERSION = 1"
definition GDM_XDMCP_PROTOCOL_VERSION :: u16 where "GDM_XDMCP_PROTOCOL_VERSION = 1001"

record packet =
  pk_to :: address
  pk_opcode :: u16
  pk_version :: u16
  pk_length :: u16
  pk_fields :: "field list"

text \<open>The length field of an \<open>ARRAY8\<close> has 16 bits: longer data is cut.\<close>

definition array8 :: "string \<Rightarrow> u8 list" where
  "array8 s = take (unat (of_nat (length s) :: u16)) (map of_char s)"

definition len8 :: "u8 list \<Rightarrow> u16" where
  "len8 a = of_nat (length a)"

section \<open>State\<close>

record forward_query =
  fq_ptr :: nat
  fq_acctime :: int
  fq_dsp_address :: address
  fq_from_address :: address

record indirect_client =
  ic_ptr :: nat
  ic_dsp_address :: address
  ic_chosen_address :: "address option"
  ic_acctime :: int

record managed_forward =
  mf_ptr :: nat
  mf_times :: int
  mf_manager :: address
  mf_origin :: address

text \<open>A display with what the subclasses \<open>ScdmXdmcpDisplay\<close> and
  \<open>ScdmXdmcpChooserDisplay\<close> add, and its creation time.\<close>

record xdisplay =
  xd_display :: display
  xd_remote_address :: address
  xd_session_number :: u32
  xd_creation_time :: int

datatype xdmcp_effect =
    Send packet | RunWilling string | AddForwardTimeout nat | RemoveForwardTimeout nat
  | ConnectClientDisconnected nat | DisconnectClientDisconnected nat
  | DisposeUninitialised \<comment> \<open>an \<open>ARRAY8\<close> that was never filled in is freed\<close>
  | CloseSocket int | RemoveWatch | JoinMulticast

record xfactory =
  forward_queries :: "forward_query list"
  managed_forwards :: "managed_forward list"
  indirect_clients :: "indirect_client list"
  socket_fd :: int
  socket_watch :: bool
  session_serial :: u32
  num_sessions :: u32
  num_pending_sessions :: u32
  sysid :: string
  servhost :: string
  use_multicast :: bool
  honor_indirect :: bool
  willing_script :: "string option"
  max_displays_per_host :: u32
  max_displays :: u32
  max_pending_displays :: u32
  max_wait :: u32
  max_wait_indirect :: u32
  last_status :: "string option" \<comment> \<open>static in \<open>send_willing\<close>\<close>
  last_willing :: int \<comment> \<open>static in \<open>send_willing\<close>\<close>
  last_unwilling :: int \<comment> \<open>static in \<open>send_unwilling\<close>\<close>
  xheap :: "nat \<Rightarrow> xdisplay option"
  xnext :: nat
  xstore :: "nat store"
  xpurge_pending :: bool
  xcache :: local_cache
  xlog :: "xdmcp_effect list"

record xdmcp_env =
  xe_net :: net_env
  xe_hosts_ctl :: "(address \<Rightarrow> bool) option" \<comment> \<open>tcp_wrappers, when built in\<close>
  xe_parse_argv :: "string \<Rightarrow> string list option"
  xe_executable :: "string \<Rightarrow> bool"
  xe_popen :: "string \<Rightarrow> string option option" \<comment> \<open>the first line, if it starts and if it prints\<close>
  xe_inet_ntop :: "u8 list \<Rightarrow> string option"
  xe_getaddrinfo :: "string \<Rightarrow> int \<Rightarrow> u16 \<Rightarrow> (address \<times> nat) list option"
  xe_random :: "u32 list"
  xe_session :: "nat \<Rightarrow> bool" \<comment> \<open>the launch environment of the display has a session\<close>
  xe_allow_remote_autologin :: bool
  xe_auth :: "nat \<Rightarrow> auth_env"
  xe_accounts :: "nat \<Rightarrow> unit + (unit + nat)"
  xe_setup :: "nat \<Rightarrow> setup_env"
  xe_server :: "nat \<Rightarrow> server_env"

definition xemit :: "xdmcp_effect list \<Rightarrow> xfactory \<Rightarrow> xfactory" where
  "xemit fx F = F\<lparr>xlog := xlog F @ fx\<rparr>"

definition numeric_host :: "xdmcp_env \<Rightarrow> address \<Rightarrow> string" where
  "numeric_host env a = fst (snd (scdm_address_get_numeric_info (ne_nameinfo (xe_net env)) a))"

definition is_local :: "xdmcp_env \<Rightarrow> address \<Rightarrow> xfactory \<Rightarrow> bool \<times> xfactory" where
  "is_local env a F =
     (case scdm_address_is_local (xe_net env) a (xcache F) of (b, c) \<Rightarrow> (b, F\<lparr>xcache := c\<rparr>))"

abbreviation address_eq :: "xdmcp_env \<Rightarrow> address \<Rightarrow> address \<Rightarrow> bool" where
  "address_eq env \<equiv> scdm_address_equal (ne_ipv6 (xe_net env))"

definition G_MAXINT32 :: u32 where "G_MAXINT32 = 0x7fffffff"

text \<open>The loop drawing random numbers until one is not 0; \<open>None\<close> when the supply ends.\<close>

fun random_serial :: "u32 list \<Rightarrow> u32 option" where
  "random_serial [] = None"
| "random_serial (r # rs) = (if r = 0 then random_serial rs else Some r)"

text \<open>A serial 0 is skipped by a second round, which finds 1.\<close>

definition get_next_session_serial :: "xdmcp_env \<Rightarrow> xfactory \<Rightarrow> (u32 \<times> xfactory) option" where
  "get_next_session_serial env F =
     (if session_serial F \<noteq> G_MAXINT32
      then (if session_serial F = 0 then Some (1, F\<lparr>session_serial := 2\<rparr>)
            else Some (session_serial F, F\<lparr>session_serial := session_serial F + 1\<rparr>))
      else map_option (\<lambda>r. (r, F)) (random_serial (xe_random env)))"

definition scdm_xdmcp_host_allow :: "xdmcp_env \<Rightarrow> address \<Rightarrow> bool" where
  "scdm_xdmcp_host_allow env a = (case xe_hosts_ctl env of None \<Rightarrow> True | Some ctl \<Rightarrow> ctl a)"

section \<open>Displays in the store\<close>

definition xdmcp_object :: "xfactory \<Rightarrow> nat \<Rightarrow> xdisplay option" where
  "xdmcp_object F oid =
     (case xheap F oid of
        None \<Rightarrow> None
      | Some x \<Rightarrow> if d_kind (xd_display x) \<in> {XdmcpDisplay, XdmcpChooserDisplay} then Some x else None)"

definition count_displays_from_host :: "xdmcp_env \<Rightarrow> xfactory \<Rightarrow> address \<Rightarrow> string \<Rightarrow> nat \<Rightarrow> nat \<Rightarrow> nat" where
  "count_displays_from_host env F address i oid count =
     (case xdmcp_object F oid of
        None \<Rightarrow> count
      | Some x \<Rightarrow> if address_eq env (xd_remote_address x) address then count + 1 else count)"

definition scdm_xdmcp_num_displays_from_host :: "xdmcp_env \<Rightarrow> xfactory \<Rightarrow> address \<Rightarrow> nat" where
  "scdm_xdmcp_num_displays_from_host env F address =
     scdm_display_store_foreach (xstore F) (count_displays_from_host env F address) 0"

definition lookup_by_host :: "xdmcp_env \<Rightarrow> xfactory \<Rightarrow> address \<Rightarrow> int \<Rightarrow> string \<Rightarrow> nat \<Rightarrow> bool" where
  "lookup_by_host env F address display_num i oid =
     (case xdmcp_object F oid of
        None \<Rightarrow> False
      | Some x \<Rightarrow> address_eq env (xd_remote_address x) address \<and>
                  d_x11_display_number (xd_display x) = display_num)"

definition scdm_xdmcp_display_lookup_by_host :: "xdmcp_env \<Rightarrow> xfactory \<Rightarrow> address \<Rightarrow> int \<Rightarrow> nat option" where
  "scdm_xdmcp_display_lookup_by_host env F address display_num =
     scdm_display_store_find (xstore F) (lookup_by_host env F address display_num)"

definition lookup_by_session_id_xdmcp :: "xfactory \<Rightarrow> u32 \<Rightarrow> string \<Rightarrow> nat \<Rightarrow> bool" where
  "lookup_by_session_id_xdmcp F sessid i oid =
     (case xdmcp_object F oid of None \<Rightarrow> False | Some x \<Rightarrow> xd_session_number x = sessid)"

definition scdm_xdmcp_display_lookup :: "xfactory \<Rightarrow> u32 \<Rightarrow> nat option" where
  "scdm_xdmcp_display_lookup F sessid =
     (if sessid = 0 then None else scdm_display_store_find (xstore F) (lookup_by_session_id_xdmcp F sessid))"

definition count_sessions :: "xfactory \<Rightarrow> string \<Rightarrow> nat \<Rightarrow> u32 \<times> u32 \<Rightarrow> u32 \<times> u32" where
  "count_sessions F i oid = (\<lambda>(sessions, pending).
     (case xdmcp_object F oid of
        None \<Rightarrow> (sessions, pending)
      | Some x \<Rightarrow>
          if d_status (xd_display x) = GDM_DISPLAY_MANAGED then (sessions + 1, pending)
          else if d_status (xd_display x) = GDM_DISPLAY_UNMANAGED then (sessions, pending + 1)
          else (sessions, pending)))"

definition scdm_xdmcp_recount_sessions :: "xfactory \<Rightarrow> xfactory" where
  "scdm_xdmcp_recount_sessions F =
     (case scdm_display_store_foreach (xstore F) (count_sessions F) (0, 0) of
        (sessions, pending) \<Rightarrow> F\<lparr>num_sessions := sessions, num_pending_sessions := pending\<rparr>)"

definition purge_displays_xdmcp :: "xdmcp_env \<Rightarrow> xfactory \<Rightarrow> string \<Rightarrow> nat \<Rightarrow> bool" where
  "purge_displays_xdmcp env F i oid =
     (case xdmcp_object F oid of
        None \<Rightarrow> False
      | Some x \<Rightarrow> d_status (xd_display x) = GDM_DISPLAY_UNMANAGED \<and>
                  ne_now (xe_net env) > xd_creation_time x + uint (max_wait F))"

definition scdm_xdmcp_displays_purge :: "xdmcp_env \<Rightarrow> xfactory \<Rightarrow> xfactory" where
  "scdm_xdmcp_displays_purge env F =
     scdm_xdmcp_recount_sessions
       (F\<lparr>xstore := fst (scdm_display_store_foreach_remove (xstore F) (purge_displays_xdmcp env F))\<rparr>)"

definition remove_host :: "xfactory \<Rightarrow> string \<Rightarrow> int \<Rightarrow> string \<Rightarrow> nat \<Rightarrow> bool" where
  "remove_host F hostname display_num i oid =
     (case xdmcp_object F oid of
        None \<Rightarrow> False
      | Some x \<Rightarrow> d_x11_display_number (xd_display x) = display_num \<and>
                  d_remote_hostname (xd_display x) = Some hostname)"

definition display_dispose_check :: "string option \<Rightarrow> int \<Rightarrow> xfactory \<Rightarrow> xfactory" where
  "display_dispose_check hostname display_num F =
     (case hostname of
        None \<Rightarrow> F
      | Some hostname \<Rightarrow>
          scdm_xdmcp_recount_sessions
            (F\<lparr>xstore := fst (scdm_display_store_foreach_remove (xstore F) (remove_host F hostname display_num))\<rparr>))"

section \<open>Sending\<close>

definition send_packet ::
  "address \<Rightarrow> u16 \<Rightarrow> u16 \<Rightarrow> u16 \<Rightarrow> field list \<Rightarrow> xfactory \<Rightarrow> xfactory" where
  "send_packet to opcode version len body F =
     xemit [Send \<lparr>pk_to = to, pk_opcode = opcode, pk_version = version, pk_length = len, pk_fields = body\<rparr>] F"

text \<open>The line printed by the script, and whether it was run.\<close>

definition get_willing_output :: "xdmcp_env \<Rightarrow> xfactory \<Rightarrow> string option \<times> xdmcp_effect list" where
  "get_willing_output env F =
     (case willing_script F of
        None \<Rightarrow> (None, [])
      | Some script \<Rightarrow>
          (case xe_parse_argv env script of
             None \<Rightarrow> (None, [])
           | Some argv \<Rightarrow>
               if argv = [] \<or> \<not> xe_executable env (hd argv) then (None, [])
               else (case xe_popen env script of
                       None \<Rightarrow> (None, [])
                     | Some line \<Rightarrow> (line, [RunWilling script]))))"

text \<open>\<open>last_willing\<close> is never written.\<close>

definition refresh_status :: "xdmcp_env \<Rightarrow> xfactory \<Rightarrow> xfactory" where
  "refresh_status env F =
     (if last_willing F = 0 \<or> ne_now (xe_net env) - 3 > last_willing F
      then (case get_willing_output env F of
              (s, fx) \<Rightarrow> xemit fx (F\<lparr>last_status := Some (case s of Some s \<Rightarrow> s | None \<Rightarrow> sysid F)\<rparr>))
      else F)"

definition scdm_xdmcp_send_willing :: "xdmcp_env \<Rightarrow> address \<Rightarrow> xfactory \<Rightarrow> xfactory" where
  "scdm_xdmcp_send_willing env address F =
     (let F = refresh_status env F;
          status = (case last_status F of None \<Rightarrow> ''(null)'' | Some s \<Rightarrow> s);
          (l, F) = is_local env address F;
          status = array8 (if \<not> l \<and> of_nat (scdm_xdmcp_num_displays_from_host env F address) \<ge> max_displays_per_host F
                           then status @ '' (Server is busy)'' else status);
          host = array8 (servhost F)
      in send_packet address WILLING XDM_PROTOCOL_VERSION (6 + len8 [] + (len8 host + len8 status))
           [ARRAY8 [], ARRAY8 host, ARRAY8 status] F)"

definition scdm_xdmcp_send_unwilling :: "xdmcp_env \<Rightarrow> address \<Rightarrow> xfactory \<Rightarrow> xfactory" where
  "scdm_xdmcp_send_unwilling env address F =
     (if last_unwilling F + 1 \<ge> ne_now (xe_net env) then F
      else let status = array8 ''Display not authorized to connect''; host = array8 (servhost F)
           in (send_packet address UNWILLING XDM_PROTOCOL_VERSION (4 + len8 host + len8 status)
                [ARRAY8 host, ARRAY8 status] F)\<lparr>last_unwilling := ne_now (xe_net env)\<rparr>)"

text \<open>Bytes of a number in network order.\<close>

fun net_bytes :: "nat \<Rightarrow> nat \<Rightarrow> u8 list" where
  "net_bytes 0 x = []"
| "net_bytes (Suc n) x = net_bytes n (x div 256) @ [of_nat (x mod 256)]"

lemma length_net_bytes [simp]: "length (net_bytes n x) = n"
  by (induction n arbitrary: x) simp_all

text \<open>The port of any other family is a null pointer with length 2, which is written out all
  the same: \<open>None\<close> is the crash.\<close>

definition set_port_for_request :: "address \<Rightarrow> u8 list option" where
  "set_port_for_request a =
     (if ss_family a = AF_INET \<or> ss_family a = AF_INET6 then Some (net_bytes 2 (unat (sin_port a))) else None)"

definition set_address_for_request :: "address \<Rightarrow> u8 list" where
  "set_address_for_request a =
     (if ss_family a = AF_INET then net_bytes 4 (unat (sin_addr a))
      else if ss_family a = AF_INET6 then net_bytes 16 (unat (sin6_addr a))
      else [])"

definition scdm_xdmcp_send_forward_query ::
  "indirect_client \<Rightarrow> address \<Rightarrow> address \<Rightarrow> u8 list list \<Rightarrow> xfactory \<Rightarrow> xfactory option" where
  "scdm_xdmcp_send_forward_query ic address display_address authlist F =
     (case ic_chosen_address ic of
        None \<Rightarrow> None
      | Some chosen \<Rightarrow>
          (case set_port_for_request address of
             None \<Rightarrow> None
           | Some port \<Rightarrow>
               let addr = set_address_for_request display_address
               in Some (send_packet chosen FORWARD_QUERY XDM_PROTOCOL_VERSION
                    ((2 + len8 addr) + (2 + len8 port) + 1 + sum_list (map (\<lambda>a. 2 + len8 a) authlist))
                    [ARRAY8 addr, ARRAY8 port, ARRAYofARRAY8 authlist] F)))"

definition scdm_xdmcp_really_send_managed_forward :: "address \<Rightarrow> address \<Rightarrow> xfactory \<Rightarrow> xfactory" where
  "scdm_xdmcp_really_send_managed_forward address origin F =
     (let addr = set_address_for_request origin
      in send_packet address GDM_XDMCP_MANAGED_FORWARD GDM_XDMCP_PROTOCOL_VERSION (4 + len8 addr) [ARRAY8 addr] F)"

definition scdm_xdmcp_send_got_managed_forward :: "address \<Rightarrow> address \<Rightarrow> xfactory \<Rightarrow> xfactory" where
  "scdm_xdmcp_send_got_managed_forward address origin F =
     (let addr = set_address_for_request origin
      in send_packet address GDM_XDMCP_GOT_MANAGED_FORWARD GDM_XDMCP_PROTOCOL_VERSION (4 + len8 addr) [ARRAY8 addr] F)"

definition scdm_xdmcp_send_managed_forward :: "address \<Rightarrow> address \<Rightarrow> xfactory \<Rightarrow> xfactory" where
  "scdm_xdmcp_send_managed_forward address origin F =
     (let F = scdm_xdmcp_really_send_managed_forward address origin F;
          mf = \<lparr>mf_ptr = xnext F, mf_times = 0, mf_manager = address, mf_origin = origin\<rparr>
      in xemit [AddForwardTimeout (xnext F)]
           (F\<lparr>xnext := Suc (xnext F), managed_forwards := mf # managed_forwards F\<rparr>))"

text \<open>The timeout of a managed forward; the result says whether it stays. The element of the
  list is the object the timeout was made for.\<close>

definition managed_forward_handler :: "nat \<Rightarrow> xfactory \<Rightarrow> bool \<times> xfactory" where
  "managed_forward_handler p F =
     (case List.find (\<lambda>mf. mf_ptr mf = p) (managed_forwards F) of
        None \<Rightarrow> (False, F)
      | Some mf \<Rightarrow>
          let F = (if socket_fd F > 0
                   then scdm_xdmcp_really_send_managed_forward (mf_manager mf) (mf_origin mf) F else F);
              times = mf_times mf + 1
          in if socket_fd F \<le> 0 \<or> times \<ge> 2
             then (False, F\<lparr>managed_forwards := filter (\<lambda>m. mf_ptr m \<noteq> p) (managed_forwards F)\<rparr>)
             else (True, F\<lparr>managed_forwards := map (\<lambda>m. if mf_ptr m = p then m\<lparr>mf_times := times\<rparr> else m)
                                               (managed_forwards F)\<rparr>))"

definition scdm_xdmcp_whack_queued_managed_forwards :: "xdmcp_env \<Rightarrow> address \<Rightarrow> address \<Rightarrow> xfactory \<Rightarrow> xfactory" where
  "scdm_xdmcp_whack_queued_managed_forwards env address origin F =
     (case List.find (\<lambda>mf. address_eq env (mf_manager mf) address \<and> address_eq env (mf_origin mf) origin)
             (managed_forwards F) of
        None \<Rightarrow> F
      | Some mf \<Rightarrow> xemit [RemoveForwardTimeout (mf_ptr mf)]
                    (F\<lparr>managed_forwards := filter (\<lambda>m. mf_ptr m \<noteq> mf_ptr mf) (managed_forwards F)\<rparr>))"

section \<open>Indirect clients\<close>

definition indirect_client_create :: "address \<Rightarrow> xfactory \<Rightarrow> xfactory" where
  "indirect_client_create dsp_address F =
     F\<lparr>indirect_clients := \<lparr>ic_ptr = xnext F, ic_dsp_address = dsp_address, ic_chosen_address = None, ic_acctime = 0\<rparr>
                           # indirect_clients F,
       xnext := Suc (xnext F)\<rparr>"

definition indirect_client_destroy :: "indirect_client \<Rightarrow> xfactory \<Rightarrow> xfactory" where
  "indirect_client_destroy ic F =
     F\<lparr>indirect_clients := filter (\<lambda>c. ic_ptr c \<noteq> ic_ptr ic) (indirect_clients F)\<rparr>"

fun lookup_by_chosen_loop ::
  "xdmcp_env \<Rightarrow> address \<Rightarrow> address \<Rightarrow> indirect_client list \<Rightarrow> xfactory \<Rightarrow> indirect_client option \<times> xfactory" where
  "lookup_by_chosen_loop env chosen origin [] F = (None, F)"
| "lookup_by_chosen_loop env chosen origin (ic # ics) F =
     (case ic_chosen_address ic of
        None \<Rightarrow> lookup_by_chosen_loop env chosen origin ics F
      | Some c \<Rightarrow>
          if address_eq env c chosen
          then (if address_eq env (ic_dsp_address ic) origin then (Some ic, F)
                else if scdm_address_is_loopback (ic_dsp_address ic)
                then (case is_local env origin F of
                        (l, F) \<Rightarrow> if l then (Some ic, F) else lookup_by_chosen_loop env chosen origin ics F)
                else lookup_by_chosen_loop env chosen origin ics F)
          else lookup_by_chosen_loop env chosen origin ics F)"

definition indirect_client_lookup_by_chosen ::
  "xdmcp_env \<Rightarrow> address \<Rightarrow> address \<Rightarrow> xfactory \<Rightarrow> indirect_client option \<times> xfactory" where
  "indirect_client_lookup_by_chosen env chosen origin F =
     lookup_by_chosen_loop env chosen origin (indirect_clients F) F"

text \<open>The loop runs over a copy of the list and destroys the stale clients it passes. The
  acceptance time is never set, so none is stale.\<close>

fun indirect_client_scan ::
  "xdmcp_env \<Rightarrow> address \<Rightarrow> indirect_client list \<Rightarrow> xfactory \<Rightarrow> indirect_client option \<times> xfactory" where
  "indirect_client_scan env address [] F = (None, F)"
| "indirect_client_scan env address (ic # ics) F =
     (if address_eq env (ic_dsp_address ic) address then (Some ic, F)
      else indirect_client_scan env address ics
             (if ic_acctime ic > 0 \<and> ne_now (xe_net env) > ic_acctime ic + uint (max_wait_indirect F)
              then indirect_client_destroy ic F else F))"

definition indirect_client_lookup :: "xdmcp_env \<Rightarrow> address \<Rightarrow> xfactory \<Rightarrow> indirect_client option \<times> xfactory" where
  "indirect_client_lookup env address F = indirect_client_scan env address (indirect_clients F) F"

section \<open>Forward queries\<close>

definition SCDM_MAX_FORWARD_QUERIES :: nat where "SCDM_MAX_FORWARD_QUERIES = 10"
definition SCDM_FORWARD_QUERY_TIMEOUT :: int where "SCDM_FORWARD_QUERY_TIMEOUT = 30"

definition forward_query_destroy :: "forward_query \<Rightarrow> xfactory \<Rightarrow> xfactory" where
  "forward_query_destroy q F =
     F\<lparr>forward_queries := filter (\<lambda>c. fq_ptr c \<noteq> fq_ptr q) (forward_queries F)\<rparr>"

fun oldest_forward :: "forward_query option \<Rightarrow> forward_query list \<Rightarrow> forward_query option" where
  "oldest_forward best [] = best"
| "oldest_forward best (q # qs) =
     oldest_forward (case best of None \<Rightarrow> Some q
                     | Some b \<Rightarrow> if fq_acctime q < fq_acctime b then Some q else Some b) qs"

definition remove_oldest_forward :: "xfactory \<Rightarrow> bool \<times> xfactory" where
  "remove_oldest_forward F =
     (case oldest_forward None (forward_queries F) of
        None \<Rightarrow> (False, F)
      | Some q \<Rightarrow> (True, forward_query_destroy q F))"

text \<open>The loop \<open>while (count > SCDM_MAX_FORWARD_QUERIES && remove_oldest_forward ())\<close>.\<close>

fun trim_forwards :: "nat \<Rightarrow> xfactory \<Rightarrow> xfactory" where
  "trim_forwards 0 F = F"
| "trim_forwards (Suc count) F =
     (if Suc count > SCDM_MAX_FORWARD_QUERIES
      then (case remove_oldest_forward F of (removed, F) \<Rightarrow> if removed then trim_forwards count F else F)
      else F)"

definition forward_query_create :: "address \<Rightarrow> address \<Rightarrow> xfactory \<Rightarrow> xfactory" where
  "forward_query_create mgr_address dsp_address F =
     (let F = trim_forwards (length (forward_queries F)) F
      in F\<lparr>forward_queries := \<lparr>fq_ptr = xnext F, fq_acctime = 0, fq_dsp_address = dsp_address,
                               fq_from_address = mgr_address\<rparr> # forward_queries F,
           xnext := Suc (xnext F)\<rparr>)"

fun forward_query_scan ::
  "xdmcp_env \<Rightarrow> address \<Rightarrow> forward_query list \<Rightarrow> xfactory \<Rightarrow> forward_query option \<times> xfactory" where
  "forward_query_scan env address [] F = (None, F)"
| "forward_query_scan env address (q # qs) F =
     (if address_eq env (fq_dsp_address q) address then (Some q, F)
      else forward_query_scan env address qs
             (if fq_acctime q > 0 \<and> ne_now (xe_net env) > fq_acctime q + SCDM_FORWARD_QUERY_TIMEOUT
              then forward_query_destroy q F else F))"

definition forward_query_lookup :: "xdmcp_env \<Rightarrow> address \<Rightarrow> xfactory \<Rightarrow> forward_query option \<times> xfactory" where
  "forward_query_lookup env address F = forward_query_scan env address (forward_queries F) F"

text \<open>A forwarded display reached some resolution: the manager that forwarded it is told.\<close>

definition resolve_forward :: "xdmcp_env \<Rightarrow> address \<Rightarrow> xfactory \<Rightarrow> xfactory" where
  "resolve_forward env address F =
     (case forward_query_lookup env address F of
        (None, F) \<Rightarrow> F
      | (Some fq, F) \<Rightarrow>
          forward_query_destroy fq (scdm_xdmcp_send_managed_forward (fq_from_address fq) address F))"

definition scdm_xdmcp_send_decline :: "xdmcp_env \<Rightarrow> address \<Rightarrow> string \<Rightarrow> xfactory \<Rightarrow> xfactory" where
  "scdm_xdmcp_send_decline env address reason F =
     (let status = array8 reason
      in resolve_forward env address
           (send_packet address DECLINE XDM_PROTOCOL_VERSION
              ((2 + len8 status) + (2 + len8 []) + (2 + len8 []))
              [ARRAY8 status, ARRAY8 [], ARRAY8 []] F))"

definition scdm_xdmcp_send_accept ::
  "address \<Rightarrow> u32 \<Rightarrow> u8 list \<Rightarrow> u8 list \<Rightarrow> u8 list \<Rightarrow> u8 list \<Rightarrow> xfactory \<Rightarrow> xfactory" where
  "scdm_xdmcp_send_accept address session_id authentication_name authentication_data
     authorization_name authorization_data F =
     send_packet address ACCEPT XDM_PROTOCOL_VERSION
       (4 + (2 + len8 authentication_name) + (2 + len8 authentication_data)
          + (2 + len8 authorization_name) + (2 + len8 authorization_data))
       [CARD32 session_id, ARRAY8 authentication_name, ARRAY8 authentication_data,
        ARRAY8 authorization_name, ARRAY8 authorization_data] F"

definition scdm_xdmcp_send_failed :: "address \<Rightarrow> u32 \<Rightarrow> xfactory \<Rightarrow> xfactory" where
  "scdm_xdmcp_send_failed address sessid F =
     (let status = array8 ''Failed to start session''
      in send_packet address FAILED XDM_PROTOCOL_VERSION (6 + len8 status) [CARD32 sessid, ARRAY8 status] F)"

definition scdm_xdmcp_send_refuse :: "xdmcp_env \<Rightarrow> address \<Rightarrow> u32 \<Rightarrow> xfactory \<Rightarrow> xfactory" where
  "scdm_xdmcp_send_refuse env address sessid F =
     resolve_forward env address (send_packet address REFUSE XDM_PROTOCOL_VERSION 4 [CARD32 sessid] F)"

definition scdm_xdmcp_send_alive :: "xdmcp_env \<Rightarrow> address \<Rightarrow> u16 \<Rightarrow> u32 \<Rightarrow> xfactory \<Rightarrow> xfactory" where
  "scdm_xdmcp_send_alive env address dspnum sessid F =
     (let found = (case scdm_xdmcp_display_lookup F sessid of
                     None \<Rightarrow> scdm_xdmcp_display_lookup_by_host env F address (uint dspnum)
                   | Some oid \<Rightarrow> Some oid);
          (send_running, send_sessid) =
            (case found of
               None \<Rightarrow> (0, 0)
             | Some oid \<Rightarrow>
                 (case xdmcp_object F oid of
                    None \<Rightarrow> (0, 0)
                  | Some x \<Rightarrow> (if d_status (xd_display x) = GDM_DISPLAY_MANAGED then 1 else 0, xd_session_number x)))
      in send_packet address ALIVE XDM_PROTOCOL_VERSION 5 [CARD8 send_running, CARD32 send_sessid] F)"

end
