(* ===== verification/Xdmcp_Handlers.thy ===== *)
theory Xdmcp_Handlers
  imports Xdmcp
begin

text \<open>
  The packets the XDMCP display factory receives, and the life of the displays it makes. What
  libXdmcp reads from a packet is an argument of its handler, \<open>None\<close> being a read that
  fails. A result \<open>None\<close> is the end of the process: a failed assertion, a null pointer
  read, or an operation on a display that ends it.
\<close>

section \<open>Statuses of displays\<close>

definition scdm_display_factory_queue_purge_displays_xdmcp :: "xfactory \<Rightarrow> xfactory" where
  "scdm_display_factory_queue_purge_displays_xdmcp F = (if \<not> xpurge_pending F then F\<lparr>xpurge_pending := True\<rparr> else F)"

definition on_display_status_changed_xdmcp :: "xdmcp_env \<Rightarrow> nat \<Rightarrow> display_status \<Rightarrow> xfactory \<Rightarrow> xfactory option" where
  "on_display_status_changed_xdmcp env oid status F =
     (case xheap F oid of
        None \<Rightarrow> Some F
      | Some x \<Rightarrow>
          let session = (d_launch (xd_display x) \<noteq> None \<and> xe_session env oid)
          in case status of
               GDM_DISPLAY_FINISHED \<Rightarrow>
                 Some (scdm_display_factory_queue_purge_displays_xdmcp
                   (scdm_xdmcp_send_alive env (xd_remote_address x)
                     (word_of_int (d_x11_display_number (xd_display x))) (xd_session_number x) F))
             | GDM_DISPLAY_FAILED \<Rightarrow> Some (scdm_display_factory_queue_purge_displays_xdmcp F)
             | GDM_DISPLAY_UNMANAGED \<Rightarrow>
                 Some (if session then xemit [DisconnectClientDisconnected oid] F else F)
             | GDM_DISPLAY_PREPARED \<Rightarrow> Some F
             | GDM_DISPLAY_MANAGED \<Rightarrow> Some (if session then xemit [ConnectClientDisconnected oid] F else F)
             | GDM_DISPLAY_WAITING_TO_FINISH \<Rightarrow> None)"

fun handle_statuses :: "xdmcp_env \<Rightarrow> nat \<Rightarrow> display_status list \<Rightarrow> xfactory \<Rightarrow> xfactory option" where
  "handle_statuses env oid [] F = Some F"
| "handle_statuses env oid (s # ss) F =
     Option.bind (on_display_status_changed_xdmcp env oid s F) (handle_statuses env oid ss)"

definition set_object :: "nat \<Rightarrow> display \<Rightarrow> xfactory \<Rightarrow> xfactory" where
  "set_object oid d F =
     (case xheap F oid of None \<Rightarrow> F | Some x \<Rightarrow> F\<lparr>xheap := (xheap F)(oid \<mapsto> x\<lparr>xd_display := d\<rparr>)\<rparr>)"

text \<open>An operation on a display, with the handlers of the statuses it announces.\<close>

definition xdisplay_op ::
  "xdmcp_env \<Rightarrow> nat \<Rightarrow> (display \<Rightarrow> ('a \<times> display) option) \<Rightarrow> xfactory \<Rightarrow> ('a option \<times> xfactory) option" where
  "xdisplay_op env oid f F =
     (case xheap F oid of
        None \<Rightarrow> Some (None, F)
      | Some x \<Rightarrow>
          (case f (xd_display x) of
             None \<Rightarrow> None
           | Some (r, d) \<Rightarrow>
               map_option (\<lambda>F. (Some r, F)) (handle_statuses env oid (announced (xd_display x) d) (set_object oid d F))))"

definition on_client_disconnected :: "xdmcp_env \<Rightarrow> nat \<Rightarrow> xfactory \<Rightarrow> xfactory option" where
  "on_client_disconnected env oid F =
     (case xheap F oid of
        None \<Rightarrow> Some F
      | Some x \<Rightarrow>
          if d_status (xd_display x) \<noteq> GDM_DISPLAY_MANAGED then Some F
          else Option.bind (xdisplay_op env oid (\<lambda>d. Some ((), scdm_display_stop_greeter_session d)) F) (\<lambda>(_, F).
               Option.bind (xdisplay_op env oid (\<lambda>d. map_option (Pair ()) (scdm_display_unmanage (xe_auth env oid) d)) F) (\<lambda>(_, F).
               map_option snd (xdisplay_op env oid (\<lambda>d. Some ((), scdm_display_finish d)) F))))"

text \<open>The factory's purge from the idle loop, in \<open>scdm-display-factory.c\<close>.\<close>

definition purge_finished :: "xfactory \<Rightarrow> string \<Rightarrow> nat \<Rightarrow> bool" where
  "purge_finished F i oid =
     (case xheap F oid of
        None \<Rightarrow> False
      | Some x \<Rightarrow> d_status (xd_display x) \<in> {GDM_DISPLAY_FINISHED, GDM_DISPLAY_FAILED})"

definition purge_idle :: "xfactory \<Rightarrow> xfactory" where
  "purge_idle F =
     F\<lparr>xpurge_pending := False, xstore := fst (scdm_display_store_foreach_remove (xstore F) (purge_finished F))\<rparr>"

section \<open>Queries\<close>

text \<open>The length the handlers expect for the list of names.\<close>

definition authlist_len :: "u8 list list \<Rightarrow> int" where
  "authlist_len l = 1 + sum_list (map (\<lambda>a. 2 + int (length a)) l)"

definition handle_direct_query :: "xdmcp_env \<Rightarrow> address \<Rightarrow> u16 \<Rightarrow> u8 list list option \<Rightarrow> xfactory \<Rightarrow> xfactory" where
  "handle_direct_query env address len clnt_authlist F =
     (case clnt_authlist of
        None \<Rightarrow> F
      | Some authlist \<Rightarrow>
          if uint len = authlist_len authlist then scdm_xdmcp_send_willing env address F else F)"

definition scdm_xdmcp_handle_broadcast_query ::
  "xdmcp_env \<Rightarrow> address \<Rightarrow> u16 \<Rightarrow> u8 list list option \<Rightarrow> xfactory \<Rightarrow> xfactory" where
  "scdm_xdmcp_handle_broadcast_query env address len authlist F =
     (if scdm_xdmcp_host_allow env address then handle_direct_query env address len authlist F else F)"

definition scdm_xdmcp_handle_query ::
  "xdmcp_env \<Rightarrow> address \<Rightarrow> u16 \<Rightarrow> u8 list list option \<Rightarrow> xfactory \<Rightarrow> xfactory" where
  "scdm_xdmcp_handle_query env address len authlist F =
     (if scdm_xdmcp_host_allow env address then handle_direct_query env address len authlist F
      else scdm_xdmcp_send_unwilling env address F)"

fun forward_all :: "indirect_client \<Rightarrow> address \<Rightarrow> address option list \<Rightarrow> u8 list list \<Rightarrow> xfactory \<Rightarrow> xfactory option" where
  "forward_all ic address [] authlist F = Some F"
| "forward_all ic address (s # ss) authlist F =
     (case s of
        None \<Rightarrow> None
      | Some saddr \<Rightarrow>
          Option.bind (if \<not> scdm_address_is_loopback saddr
                       then scdm_xdmcp_send_forward_query ic address saddr authlist F else Some F)
            (forward_all ic address ss authlist))"

definition indirect_forward ::
  "xdmcp_env \<Rightarrow> address \<Rightarrow> u8 list list \<Rightarrow> indirect_client \<Rightarrow> address \<Rightarrow> xfactory \<Rightarrow> xfactory option" where
  "indirect_forward env address authlist ic chosen F =
     (case is_local env chosen F of
        (True, F) \<Rightarrow> Some (scdm_xdmcp_send_willing env address (indirect_client_destroy ic F))
      | (False, F) \<Rightarrow>
          if scdm_address_is_loopback address
          then (case scdm_address_peek_local_list (xe_net env) (xcache F) of
                  (l, c) \<Rightarrow> forward_all ic address l authlist (F\<lparr>xcache := c\<rparr>))
          else scdm_xdmcp_send_forward_query ic address address authlist F)"

definition too_many_displays :: "xdmcp_env \<Rightarrow> address \<Rightarrow> xfactory \<Rightarrow> bool \<times> xfactory" where
  "too_many_displays env address F =
     (if num_sessions F > max_displays F then (True, F)
      else (case is_local env address F of
              (l, F) \<Rightarrow> (\<not> l \<and> of_nat (scdm_xdmcp_num_displays_from_host env F address) > max_displays_per_host F, F)))"

definition scdm_xdmcp_handle_indirect_query ::
  "xdmcp_env \<Rightarrow> address \<Rightarrow> u16 \<Rightarrow> u8 list list option \<Rightarrow> xfactory \<Rightarrow> xfactory option" where
  "scdm_xdmcp_handle_indirect_query env address len clnt_authlist F =
     (if \<not> scdm_xdmcp_host_allow env address then Some F
      else if \<not> honor_indirect F then Some F
      else (case too_many_displays env address F of
              (True, F) \<Rightarrow> Some F
            | (False, F) \<Rightarrow>
                (case clnt_authlist of
                   None \<Rightarrow> Some F
                 | Some authlist \<Rightarrow>
                     if uint len \<noteq> authlist_len authlist then Some F
                     else (case indirect_client_lookup env address F of
                             (None, F) \<Rightarrow> Some (scdm_xdmcp_send_willing env address (indirect_client_create address F))
                           | (Some ic, F) \<Rightarrow>
                               (case ic_chosen_address ic of
                                  None \<Rightarrow> Some (scdm_xdmcp_send_willing env address F)
                                | Some chosen \<Rightarrow> indirect_forward env address authlist ic chosen F)))))"

definition XDM_UDP_PORT :: int where "XDM_UDP_PORT = 177"

text \<open>The port as read from the packet; \<open>None\<close> is the null pointer.\<close>

definition create_address_from_request ::
  "xdmcp_env \<Rightarrow> u8 list \<Rightarrow> u8 list option \<Rightarrow> u16 \<Rightarrow> (bool \<times> address option)" where
  "create_address_from_request env req_addr req_port family =
     (case (case req_port of
              None \<Rightarrow> Some XDM_UDP_PORT
            | Some port \<Rightarrow>
                (case port of [a, b] \<Rightarrow> Some (uint a * 256 + uint b) | _ \<Rightarrow> None)) of
        None \<Rightarrow> (False, None)
      | Some serv \<Rightarrow>
          (case (if length req_addr = 4 \<or> length req_addr = 16 then xe_inet_ntop env req_addr else None) of
             None \<Rightarrow> (False, None)
           | Some host \<Rightarrow>
               (case xe_getaddrinfo env host serv family of
                  None \<Rightarrow> (False, None)
                | Some [] \<Rightarrow> (False, None)
                | Some ((a, sz) # _) \<Rightarrow> (True, scdm_address_new_from_sockaddr a sz))))"

text \<open>What follows when the display's address is known; a null address is refused by the
  functions it is given to, down to the last, which reads it.\<close>

definition accept_forward :: "xdmcp_env \<Rightarrow> address \<Rightarrow> address \<Rightarrow> xfactory \<Rightarrow> xfactory" where
  "accept_forward env address disp_address F =
     (let F = scdm_xdmcp_whack_queued_managed_forwards env address disp_address F
      in if \<not> scdm_xdmcp_host_allow env disp_address then F
         else let F = (case forward_query_lookup env disp_address F of
                         (None, F) \<Rightarrow> F
                       | (Some q, F) \<Rightarrow> forward_query_destroy q F)
              in scdm_xdmcp_send_willing env disp_address (forward_query_create address disp_address F))"

definition scdm_xdmcp_handle_forward_query ::
  "xdmcp_env \<Rightarrow> address \<Rightarrow> u16 \<Rightarrow> u8 list option \<Rightarrow> u8 list option \<Rightarrow> u8 list list option \<Rightarrow> xfactory \<Rightarrow> xfactory option" where
  "scdm_xdmcp_handle_forward_query env address len clnt_addr clnt_port clnt_authlist F =
     (if \<not> scdm_xdmcp_host_allow env address then Some F
      else (case (clnt_addr, clnt_port, clnt_authlist) of
              (Some addr, Some port, Some authlist) \<Rightarrow>
                let explen = authlist_len authlist + (2 + int (length addr)) + (2 + int (length port))
                in if uint len \<noteq> explen then Some F
                   else (case create_address_from_request env addr (Some port) (scdm_address_get_family_type address) of
                           (False, _) \<Rightarrow> Some F
                         | (True, None) \<Rightarrow> None
                         | (True, Some disp) \<Rightarrow> Some (accept_forward env address disp F))
            | _ \<Rightarrow> Some F))"

section \<open>Requests\<close>

definition scdm_xdmcp_display_new ::
  "xdmcp_env \<Rightarrow> display_kind \<Rightarrow> nat \<Rightarrow> string \<Rightarrow> int \<Rightarrow> address \<Rightarrow> u32 \<Rightarrow> xdisplay" where
  "scdm_xdmcp_display_new env kind oid hostname number address session_number =
     \<lparr>xd_display = (fresh_display kind (oid_to_id oid))\<lparr>d_remote_hostname := Some hostname,
        d_x11_display_number := number, d_x11_display_name := Some (hostname @ '':'' @ show_int number),
        d_is_local := False, d_allow_timed_login := xe_allow_remote_autologin env\<rparr>,
      xd_remote_address = address, xd_session_number = session_number,
      xd_creation_time = ne_now (xe_net env)\<rparr>"

definition wants_chooser :: "xdmcp_env \<Rightarrow> address \<Rightarrow> xfactory \<Rightarrow> bool \<times> xfactory" where
  "wants_chooser env address F =
     (if honor_indirect F
      then (case indirect_client_lookup env address F of
              (None, F) \<Rightarrow> (False, F)
            | (Some ic, F) \<Rightarrow> (ic_chosen_address ic = None, F))
      else (False, F))"

text \<open>The result: the object, if the display could be prepared. An object that could not is
  released again; its name is used up.\<close>

definition scdm_xdmcp_display_create ::
  "xdmcp_env \<Rightarrow> string \<Rightarrow> address \<Rightarrow> int \<Rightarrow> xfactory \<Rightarrow> (nat option \<times> xfactory) option" where
  "scdm_xdmcp_display_create env hostname address displaynum F =
     (let (use_chooser, F) = wants_chooser env address F; oid = xnext F
      in case get_next_session_serial env F of
           None \<Rightarrow> None
         | Some (serial, F) \<Rightarrow>
             let x = scdm_xdmcp_display_new env (if use_chooser then XdmcpChooserDisplay else XdmcpDisplay)
                       oid hostname displaynum address serial;
                 F = F\<lparr>xnext := Suc oid\<rparr>
             in (case scdm_display_prepare (xe_auth env oid) (xe_accounts env oid) (xe_setup env oid) (xd_display x) of
                   None \<Rightarrow> None
                 | Some (False, d) \<Rightarrow>
                     (case scdm_display_unmanage (xe_auth env oid) d of None \<Rightarrow> None | Some _ \<Rightarrow> Some (None, F))
                 | Some (True, d) \<Rightarrow>
                     Some (Some oid,
                       F\<lparr>xheap := (xheap F)(oid \<mapsto> x\<lparr>xd_display := d\<rparr>),
                         xstore := scdm_display_store_add (xstore F) (d_id d) oid,
                         num_pending_sessions := num_pending_sessions F + 1\<rparr>)))"

definition MIT_MAGIC_COOKIE_1 :: string where "MIT_MAGIC_COOKIE_1 = ''MIT-MAGIC-COOKIE-1''"

text \<open>What is read from a request, in order.\<close>

record request_reads =
  rq_dspnum :: "u16 option"
  rq_conntyp :: "u16 list option"
  rq_addr :: "u8 list list option"
  rq_authname :: "u8 list option"
  rq_authdata :: "u8 list option"
  rq_authorization_names :: "u8 list list option"
  rq_manufacturer :: "u8 list option"

text \<open>The display number, whether a cookie will do, and the expected length, when everything
  can be read.\<close>

definition read_request :: "request_reads \<Rightarrow> (u16 \<times> bool \<times> int) option" where
  "read_request q =
     (case (rq_dspnum q, rq_conntyp q, rq_addr q, rq_authname q, rq_authdata q, rq_authorization_names q,
            rq_manufacturer q) of
        (Some dspnum, Some conntyp, Some addr, Some authname, Some authdata, Some names, Some manufacturer) \<Rightarrow>
          Some (dspnum, map of_char MIT_MAGIC_COOKIE_1 \<in> set names,
            2 + (1 + 2 * int (length conntyp)) + authlist_len addr
              + (2 + int (length authname)) + (2 + int (length authdata)) + authlist_len names
              + (2 + int (length manufacturer)))
      | _ \<Rightarrow> None)"

definition accept_display :: "xdmcp_env \<Rightarrow> address \<Rightarrow> string \<Rightarrow> u16 \<Rightarrow> xfactory \<Rightarrow> xfactory option" where
  "accept_display env address hostname dspnum F =
     (case scdm_xdmcp_display_create env hostname address (uint dspnum) F of
        None \<Rightarrow> None
      | Some (None, F) \<Rightarrow> Some F
      | Some (Some oid, F) \<Rightarrow>
          (case xheap F oid of
             None \<Rightarrow> None
           | Some x \<Rightarrow>
               (case d_x11_cookie (xd_display x) of
                  None \<Rightarrow> None
                | Some cookie \<Rightarrow>
                    Some (scdm_xdmcp_send_accept address (xd_session_number x) [] []
                            (array8 MIT_MAGIC_COOKIE_1) (take (unat (len8 cookie)) cookie) F))))"

definition enter_display :: "xdmcp_env \<Rightarrow> address \<Rightarrow> string \<Rightarrow> u16 \<Rightarrow> xfactory \<Rightarrow> xfactory option" where
  "enter_display env address hostname dspnum F =
     (let F = display_dispose_check (Some hostname) (uint dspnum) F
      in if num_pending_sessions F \<ge> max_pending_displays F
         then Some (scdm_xdmcp_send_decline env address ''Maximum pending servers'' F)
         else accept_display env address hostname dspnum F)"

definition request_allowed :: "xdmcp_env \<Rightarrow> address \<Rightarrow> bool \<Rightarrow> xfactory \<Rightarrow> bool \<times> xfactory" where
  "request_allowed env address mitauth F =
     (if \<not> mitauth \<or> \<not> num_sessions F < max_displays F then (False, F)
      else (case is_local env address F of
              (l, F) \<Rightarrow> (l \<or> of_nat (scdm_xdmcp_num_displays_from_host env F address) < max_displays_per_host F, F)))"

definition scdm_xdmcp_handle_request ::
  "xdmcp_env \<Rightarrow> address \<Rightarrow> u16 \<Rightarrow> request_reads \<Rightarrow> xfactory \<Rightarrow> xfactory option" where
  "scdm_xdmcp_handle_request env address len q F =
     (let hostname = numeric_host env address
      in if \<not> scdm_xdmcp_host_allow env address then Some F
         else let F = scdm_xdmcp_displays_purge env F
         in case read_request q of
              None \<Rightarrow> Some F
            | Some (dspnum, mitauth, explen) \<Rightarrow>
                if explen \<noteq> uint len then Some F
                else (case request_allowed env address mitauth F of
                        (True, F) \<Rightarrow> enter_display env address hostname dspnum F
                      | (False, F) \<Rightarrow>
                          Some (scdm_xdmcp_send_decline env address
                            (if \<not> mitauth then ''Only MIT-MAGIC-COOKIE-1 supported''
                             else if num_sessions F \<ge> max_displays F then ''Maximum number of open sessions reached''
                             else ''Maximum number of open sessions from your host reached'') F)))"

section \<open>Managing\<close>

definition drop_chosen_client :: "xdmcp_env \<Rightarrow> address \<Rightarrow> xfactory \<Rightarrow> xfactory" where
  "drop_chosen_client env address F =
     (if honor_indirect F
      then (case indirect_client_lookup env address F of
              (None, F) \<Rightarrow> F
            | (Some ic, F) \<Rightarrow> if ic_chosen_address ic = None then F else indirect_client_destroy ic F)
      else F)"

definition manage_prepared :: "xdmcp_env \<Rightarrow> address \<Rightarrow> u32 \<Rightarrow> nat \<Rightarrow> xfactory \<Rightarrow> xfactory option" where
  "manage_prepared env address sessid oid F =
     (let F = drop_chosen_client env address F;
          F = resolve_forward env address F;
          F = F\<lparr>num_sessions := num_sessions F + 1, num_pending_sessions := num_pending_sessions F - 1\<rparr>
      in case xdisplay_op env oid (\<lambda>d. scdm_display_manage (xe_auth env oid) (xe_accounts env oid)
                (xe_setup env oid) (xe_server env oid) d) F of
           None \<Rightarrow> None
         | Some (r, F) \<Rightarrow> Some (if r = Some False then scdm_xdmcp_send_failed address sessid F else F))"

text \<open>When one of the first two reads fails, the display class, not yet read, is disposed of.\<close>

definition scdm_xdmcp_handle_manage ::
  "xdmcp_env \<Rightarrow> address \<Rightarrow> u32 option \<Rightarrow> u16 option \<Rightarrow> u8 list option \<Rightarrow> xfactory \<Rightarrow> xfactory option" where
  "scdm_xdmcp_handle_manage env address clnt_sessid clnt_dspnum clnt_dspclass F =
     (if \<not> scdm_xdmcp_host_allow env address then Some F
      else (case clnt_sessid of
              None \<Rightarrow> Some (xemit [DisposeUninitialised] F)
            | Some sessid \<Rightarrow>
                (case clnt_dspnum of
                   None \<Rightarrow> Some (xemit [DisposeUninitialised] F)
                 | Some dspnum \<Rightarrow>
                     (case clnt_dspclass of
                        None \<Rightarrow> Some F
                      | Some dspclass \<Rightarrow>
                          (case scdm_xdmcp_display_lookup F sessid of
                             None \<Rightarrow> Some (scdm_xdmcp_send_refuse env address sessid F)
                           | Some oid \<Rightarrow>
                               (case map_option (\<lambda>x. d_status (xd_display x)) (xheap F oid) of
                                  Some GDM_DISPLAY_PREPARED \<Rightarrow> manage_prepared env address sessid oid F
                                | Some GDM_DISPLAY_MANAGED \<Rightarrow> Some F
                                | _ \<Rightarrow> Some (scdm_xdmcp_send_refuse env address sessid F)))))))"

section \<open>Forwarding, and staying alive\<close>

definition scdm_xdmcp_handle_managed_forward ::
  "xdmcp_env \<Rightarrow> address \<Rightarrow> u8 list option \<Rightarrow> xfactory \<Rightarrow> xfactory option" where
  "scdm_xdmcp_handle_managed_forward env address clnt_address F =
     (if \<not> scdm_xdmcp_host_allow env address then Some F
      else (case clnt_address of
              None \<Rightarrow> Some F
            | Some a \<Rightarrow>
                (case create_address_from_request env a None (scdm_address_get_family_type address) of
                   (False, _) \<Rightarrow> Some F
                 | (True, None) \<Rightarrow> None
                 | (True, Some disp) \<Rightarrow>
                     Some (scdm_xdmcp_send_got_managed_forward address disp
                       (case indirect_client_lookup_by_chosen env address disp F of
                          (None, F) \<Rightarrow> F
                        | (Some ic, F) \<Rightarrow> indirect_client_destroy ic F)))))"

definition scdm_xdmcp_handle_got_managed_forward ::
  "xdmcp_env \<Rightarrow> address \<Rightarrow> u8 list option \<Rightarrow> xfactory \<Rightarrow> xfactory option" where
  "scdm_xdmcp_handle_got_managed_forward env address clnt_address F =
     (if \<not> scdm_xdmcp_host_allow env address then Some F
      else (case clnt_address of
              None \<Rightarrow> Some F
            | Some a \<Rightarrow>
                (case create_address_from_request env a None (scdm_address_get_family_type address) of
                   (False, _) \<Rightarrow> Some F
                 | (True, None) \<Rightarrow> Some F
                 | (True, Some disp) \<Rightarrow> Some (scdm_xdmcp_whack_queued_managed_forwards env address disp F))))"

definition scdm_xdmcp_handle_keepalive ::
  "xdmcp_env \<Rightarrow> address \<Rightarrow> u16 option \<Rightarrow> u32 option \<Rightarrow> xfactory \<Rightarrow> xfactory" where
  "scdm_xdmcp_handle_keepalive env address clnt_dspnum clnt_sessid F =
     (if \<not> scdm_xdmcp_host_allow env address then F
      else (case (clnt_dspnum, clnt_sessid) of
              (Some dspnum, Some sessid) \<Rightarrow> scdm_xdmcp_send_alive env address dspnum sessid F
            | _ \<Rightarrow> F))"

text \<open>A host name is chosen in the chooser of a display. The client found is read without a
  check.\<close>

definition on_hostname_selected :: "xdmcp_env \<Rightarrow> nat \<Rightarrow> string \<Rightarrow> xfactory \<Rightarrow> xfactory option" where
  "on_hostname_selected env oid hostname F =
     (case xheap F oid of
        None \<Rightarrow> None
      | Some x \<Rightarrow>
          let address = xd_remote_address x
          in case indirect_client_lookup env address F of
               (None, F) \<Rightarrow> None
             | (Some ic, F) \<Rightarrow>
                 let chosen = (case xe_getaddrinfo env hostname XDM_UDP_PORT (scdm_address_get_family_type address) of
                                 None \<Rightarrow> None
                               | Some [] \<Rightarrow> None
                               | Some ((a, sz) # _) \<Rightarrow> scdm_address_new_from_sockaddr a sz)
                 in Some (F\<lparr>indirect_clients :=
                      map (\<lambda>c. if ic_ptr c = ic_ptr ic then c\<lparr>ic_chosen_address := chosen\<rparr> else c)
                        (indirect_clients F)\<rparr>))"

section \<open>Packets\<close>

text \<open>A packet received: the sender with the size of its address, the header, and what its
  handler will read.\<close>

record incoming =
  in_from :: address
  in_size :: nat
  in_version :: u16
  in_opcode :: u16
  in_length :: u16

text \<open>The reads each handler does, as functions of the packet's contents.\<close>

record reads =
  rd_authlist :: "u8 list list option"
  rd_forward :: "u8 list option \<times> u8 list option \<times> u8 list list option"
  rd_request :: request_reads
  rd_manage :: "u32 option \<times> u16 option \<times> u8 list option"
  rd_address :: "u8 list option"
  rd_keepalive :: "u16 option \<times> u32 option"

definition dispatch :: "xdmcp_env \<Rightarrow> address \<Rightarrow> u16 \<Rightarrow> u16 \<Rightarrow> reads \<Rightarrow> xfactory \<Rightarrow> xfactory option" where
  "dispatch env address opcode len r F =
     (if opcode = BROADCAST_QUERY then Some (scdm_xdmcp_handle_broadcast_query env address len (rd_authlist r) F)
      else if opcode = QUERY then Some (scdm_xdmcp_handle_query env address len (rd_authlist r) F)
      else if opcode = INDIRECT_QUERY then scdm_xdmcp_handle_indirect_query env address len (rd_authlist r) F
      else if opcode = FORWARD_QUERY
      then (case rd_forward r of (a, p, l) \<Rightarrow> scdm_xdmcp_handle_forward_query env address len a p l F)
      else if opcode = REQUEST then scdm_xdmcp_handle_request env address len (rd_request r) F
      else if opcode = MANAGE then (case rd_manage r of (s, d, c) \<Rightarrow> scdm_xdmcp_handle_manage env address s d c F)
      else if opcode = KEEPALIVE
      then (case rd_keepalive r of (d, s) \<Rightarrow> Some (scdm_xdmcp_handle_keepalive env address d s F))
      else if opcode = GDM_XDMCP_MANAGED_FORWARD then scdm_xdmcp_handle_managed_forward env address (rd_address r) F
      else if opcode = GDM_XDMCP_GOT_MANAGED_FORWARD
      then scdm_xdmcp_handle_got_managed_forward env address (rd_address r) F
      else Some F)"

text \<open>The watch on the socket; it always stays. \<open>None\<close> is a packet without a buffer or
  header. The debug output asks whether the sender is local.\<close>

definition decode_packet :: "xdmcp_env \<Rightarrow> bool \<Rightarrow> (incoming \<times> reads) option \<Rightarrow> xfactory \<Rightarrow> xfactory option" where
  "decode_packet env readable p F =
     (if \<not> readable then Some F
      else (case p of
              None \<Rightarrow> Some F
            | Some (i, r) \<Rightarrow>
                if in_version i \<noteq> XDM_PROTOCOL_VERSION \<and> in_version i \<noteq> GDM_XDMCP_PROTOCOL_VERSION then Some F
                else (case scdm_address_new_from_sockaddr (in_from i) (in_size i) of
                        None \<Rightarrow> Some F
                      | Some address \<Rightarrow>
                          dispatch env address (in_opcode i) (in_length i) r (snd (is_local env address F)))))"

section \<open>Starting and stopping\<close>

text \<open>One address of the resolver for binding: its family, the socket (negative if there is
  none) and whether binding succeeds.\<close>

definition create_socket :: "int \<Rightarrow> bool \<Rightarrow> int" where
  "create_socket sock bound = (if sock < 0 then sock else if \<not> bound then -1 else sock)"

fun bind_loop :: "(u16 \<times> int \<times> bool) list \<Rightarrow> int \<Rightarrow> int" where
  "bind_loop [] sock = sock"
| "bind_loop ((family, s, bound) # ais) sock =
     bind_loop ais (if family \<noteq> AF_INET \<and> family \<noteq> AF_INET6 then sock
                    else if sock < 0 then create_socket s bound else sock)"

text \<open>If the resolver fails the process ends.\<close>

definition do_bind :: "(u16 \<times> int \<times> bool) list option \<Rightarrow> int option" where
  "do_bind ais = map_option (\<lambda>l. bind_loop l (-1)) ais"

definition open_port ::
  "bool \<Rightarrow> (u16 \<Rightarrow> (u16 \<times> int \<times> bool) list option) \<Rightarrow> xfactory \<Rightarrow> (bool \<times> xfactory) option" where
  "open_port ipv6 resolve F =
     (case (if ipv6 then do_bind (resolve AF_INET6) else Some (-1)) of
        None \<Rightarrow> None
      | Some fd6 \<Rightarrow>
          (case (if fd6 < 0 then do_bind (resolve AF_INET) else Some fd6) of
             None \<Rightarrow> None
           | Some fd \<Rightarrow>
               let F = F\<lparr>socket_fd := fd\<rparr>
               in Some (if fd < 0 then (False, F)
                        else (True, if use_multicast F then xemit [JoinMulticast] F else F))))"

text \<open>The settings, if all of them can be read.\<close>

record xdmcp_settings =
  st_multicast :: bool
  st_indirect :: bool
  st_displays_per_host :: u32
  st_max_sessions :: u32
  st_max_pending :: u32
  st_max_wait :: u32
  st_max_wait_indirect :: u32
  st_willing :: "string option"

definition scdm_xdmcp_display_factory_start ::
  "bool \<Rightarrow> (u16 \<Rightarrow> (u16 \<times> int \<times> bool) list option) \<Rightarrow> xdmcp_settings option \<Rightarrow> xfactory \<Rightarrow> (bool \<times> xfactory) option" where
  "scdm_xdmcp_display_factory_start ipv6 resolve settings F =
     (if socket_fd F \<noteq> -1 then Some (False, F)
      else (case settings of
              None \<Rightarrow> Some (False, F)
            | Some s \<Rightarrow>
                (case open_port ipv6 resolve
                        (F\<lparr>use_multicast := st_multicast s, honor_indirect := st_indirect s,
                          max_displays_per_host := st_displays_per_host s, max_displays := st_max_sessions s,
                          max_pending_displays := st_max_pending s, max_wait := st_max_wait s,
                          max_wait_indirect := st_max_wait_indirect s, willing_script := st_willing s\<rparr>) of
                   None \<Rightarrow> None
                 | Some (False, F) \<Rightarrow> Some (False, F)
                 | Some (True, F) \<Rightarrow> Some (True, F\<lparr>socket_watch := True\<rparr>))))"

definition scdm_xdmcp_display_factory_stop :: "xfactory \<Rightarrow> bool \<times> xfactory" where
  "scdm_xdmcp_display_factory_stop F =
     (if socket_fd F = -1 then (False, F)
      else let F = (if socket_watch F then xemit [RemoveWatch] (F\<lparr>socket_watch := False\<rparr>) else F);
               F = (if socket_fd F > 0 then xemit [CloseSocket (socket_fd F)] (F\<lparr>socket_fd := -1\<rparr>) else F)
           in (True, F))"

end
