(* ===== verification/Xdmcp_Facts.thy ===== *)
theory Xdmcp_Facts
  imports Xdmcp_Handlers Display_Facts
begin

text \<open>
  Facts about the XDMCP display factory: the reachable states, the lengths and the recipients of
  the packets it sends, its limits, and what becomes of forwarded queries and abandoned requests.
\<close>

section \<open>Everything that can happen\<close>

text \<open>
  A step is a packet, a selection in a chooser, a lost client, the timeout of a managed forward,
  the purge, or any operation on a display: its connection attempts, the start and the end of its
  sessions. The environment of a step is its own: time passes between steps.
\<close>

inductive xdmcp_step :: "xfactory \<Rightarrow> xfactory \<Rightarrow> bool" where
  packet: "decode_packet env readable p F = Some F' \<Longrightarrow> xdmcp_step F F'"
| selected: "on_hostname_selected env oid hostname F = Some F' \<Longrightarrow> xdmcp_step F F'"
| disconnected: "on_client_disconnected env oid F = Some F' \<Longrightarrow> xdmcp_step F F'"
| forward_timeout: "managed_forward_handler p F = (b, F') \<Longrightarrow> xdmcp_step F F'"
| purge: "xdmcp_step F (purge_idle F)"
| display_event: "xdisplay_op env oid f F = Some ((r :: bool option), F') \<Longrightarrow> xdmcp_step F F'"

section \<open>What the operations leave alone\<close>

text \<open>\<open>only_sends ps F F'\<close>: the factory sent the packets \<open>ps\<close>, and changed nothing
  but the lists of the protocol, the counters and the caches.\<close>

definition sent :: "xdmcp_effect list \<Rightarrow> packet list" where
  "sent fx = List.map_filter (\<lambda>e. case e of Send p \<Rightarrow> Some p | _ \<Rightarrow> None) fx"

lemma sent_simps [simp]:
  "sent [] = []" "sent (Send p # fx) = p # sent fx" "sent (RunWilling s # fx) = sent fx"
  "sent (AddForwardTimeout n # fx) = sent fx" "sent (RemoveForwardTimeout n # fx) = sent fx"
  "sent (ConnectClientDisconnected n # fx) = sent fx" "sent (DisconnectClientDisconnected n # fx) = sent fx"
  "sent (DisposeUninitialised # fx) = sent fx" "sent (CloseSocket i # fx) = sent fx"
  "sent (RemoveWatch # fx) = sent fx" "sent (JoinMulticast # fx) = sent fx"
  "sent (a @ b) = sent a @ sent b"
  by (simp_all add: sent_def map_filter_def)

text \<open>The parts of the state that concern displays.\<close>

definition same_displays :: "xfactory \<Rightarrow> xfactory \<Rightarrow> bool" where
  "same_displays F F' \<longleftrightarrow> xheap F' = xheap F \<and> xstore F' = xstore F \<and> xnext F \<le> xnext F' \<and>
     session_serial F' = session_serial F \<and> max_displays F' = max_displays F \<and>
     max_displays_per_host F' = max_displays_per_host F \<and> max_pending_displays F' = max_pending_displays F \<and>
     max_wait F' = max_wait F \<and> servhost F' = servhost F"

lemma same_displays_refl [simp]: "same_displays F F"
  by (simp add: same_displays_def)

lemma same_displays_trans [trans]: "same_displays F G \<Longrightarrow> same_displays G H \<Longrightarrow> same_displays F H"
  by (simp add: same_displays_def)

text \<open>A packet whose header gives the length of its body; \<open>extra\<close> is what it gives beyond.\<close>

definition body_size :: "packet \<Rightarrow> nat" where
  "body_size p = sum_list (map field_size (pk_fields p))"

definition forward_opcode :: "u16 \<Rightarrow> bool" where
  "forward_opcode op \<longleftrightarrow> op = GDM_XDMCP_MANAGED_FORWARD \<or> op = GDM_XDMCP_GOT_MANAGED_FORWARD"

definition well_sized :: "packet \<Rightarrow> bool" where
  "well_sized p \<longleftrightarrow> pk_length p = of_nat (body_size p) + (if forward_opcode (pk_opcode p) then 2 else 0)"

definition extends :: "(packet \<Rightarrow> bool) \<Rightarrow> xfactory \<Rightarrow> xfactory \<Rightarrow> bool" where
  "extends P F F' \<longleftrightarrow> (\<exists>fx. xlog F' = xlog F @ fx \<and> (\<forall>p \<in> set (sent fx). P p) \<and> DisposeUninitialised \<notin> set fx)"

lemma extends_refl [simp]: "extends P F F"
  by (auto simp: extends_def intro: exI [of _ "[]"])

lemma extends_same_log: "xlog F' = xlog F \<Longrightarrow> extends P F F'"
  by (auto simp: extends_def intro: exI [of _ "[]"])

lemma extends_trans [trans]: "extends P F G \<Longrightarrow> extends P G H \<Longrightarrow> extends P F H"
  by (fastforce simp: extends_def)

lemma extends_mono: "extends P F G \<Longrightarrow> (\<And>p. P p \<Longrightarrow> Q p) \<Longrightarrow> extends Q F G"
  unfolding extends_def by blast

lemma extends_emit:
  "xlog G = xlog F \<Longrightarrow> \<forall>p \<in> set (sent fx). P p \<Longrightarrow> DisposeUninitialised \<notin> set fx \<Longrightarrow> extends P F (xemit fx G)"
  by (auto simp: extends_def xemit_def)

lemma xemit_simps [simp]:
  "xheap (xemit fx F) = xheap F" "xstore (xemit fx F) = xstore F" "xnext (xemit fx F) = xnext F"
  "xlog (xemit fx F) = xlog F @ fx" "forward_queries (xemit fx F) = forward_queries F"
  "managed_forwards (xemit fx F) = managed_forwards F" "indirect_clients (xemit fx F) = indirect_clients F"
  "socket_fd (xemit fx F) = socket_fd F" "session_serial (xemit fx F) = session_serial F"
  "num_sessions (xemit fx F) = num_sessions F" "num_pending_sessions (xemit fx F) = num_pending_sessions F"
  "max_displays (xemit fx F) = max_displays F" "max_displays_per_host (xemit fx F) = max_displays_per_host F"
  "max_pending_displays (xemit fx F) = max_pending_displays F" "max_wait (xemit fx F) = max_wait F"
  "servhost (xemit fx F) = servhost F" "honor_indirect (xemit fx F) = honor_indirect F"
  "xcache (xemit fx F) = xcache F" "last_willing (xemit fx F) = last_willing F" "xpurge_pending (xemit fx F) = xpurge_pending F"
  by (simp_all add: xemit_def)

section \<open>Protocol operations\<close>

text \<open>The lists of the protocol: acceptance times are never set, queries are distinct objects,
  and at most eleven are kept.\<close>

definition lists_ok :: "xfactory \<Rightarrow> bool" where
  "lists_ok F \<longleftrightarrow>
     (\<forall>q \<in> set (forward_queries F). fq_acctime q = 0 \<and> fq_ptr q < xnext F) \<and>
     distinct (map fq_ptr (forward_queries F)) \<and>
     length (forward_queries F) \<le> Suc SCDM_MAX_FORWARD_QUERIES \<and>
     (\<forall>ic \<in> set (indirect_clients F). ic_acctime ic = 0) \<and> last_willing F = 0"

definition proto :: "xfactory \<Rightarrow> xfactory \<Rightarrow> bool" where
  "proto F F' \<longleftrightarrow> same_displays F F' \<and> extends well_sized F F' \<and> (lists_ok F \<longrightarrow> lists_ok F')"

lemma proto_refl [simp]: "proto F F"
  by (simp add: proto_def)

lemma proto_trans [trans]: "proto F G \<Longrightarrow> proto G H \<Longrightarrow> proto F H"
  by (auto simp: proto_def intro: same_displays_trans extends_trans)

lemma proto_is_local: "is_local env a F = (l, F') \<Longrightarrow> proto F F'"
  by (auto simp: is_local_def proto_def same_displays_def lists_ok_def intro: extends_same_log split: prod.splits)

lemma proto_cache: "proto F (F\<lparr>xcache := c\<rparr>)"
  by (auto simp: proto_def same_displays_def lists_ok_def intro: extends_same_log)

lemma proto_counters:
  "proto F (F\<lparr>num_sessions := a, num_pending_sessions := b\<rparr>)" "proto F (F\<lparr>num_pending_sessions := b\<rparr>)"
  "proto F (F\<lparr>last_unwilling := t\<rparr>)" "proto F (F\<lparr>xpurge_pending := p\<rparr>)"
  by (auto simp: proto_def same_displays_def lists_ok_def intro: extends_same_log)

lemma proto_emit: "sent fx = [] \<Longrightarrow> DisposeUninitialised \<notin> set fx \<Longrightarrow> proto F (xemit fx F)"
  by (auto simp: proto_def same_displays_def lists_ok_def intro: extends_emit)

lemma proto_send:
  assumes "len = of_nat (sum_list (map field_size body)) + (if forward_opcode op then 2 else 0)"
  shows "proto F (send_packet to op version len body F)"
  using assms by (auto simp: proto_def same_displays_def lists_ok_def send_packet_def well_sized_def body_size_def
      intro: extends_emit)

lemma get_willing_output_effects:
  "get_willing_output env F = (s, fx) \<Longrightarrow> sent fx = [] \<and> DisposeUninitialised \<notin> set fx"
  by (auto simp: get_willing_output_def split: option.splits if_splits)

lemma proto_refresh_status: "proto F (refresh_status env F)"
proof -
  obtain s fx where w: "get_willing_output env F = (s, fx)" by fastforce
  have "proto (F\<lparr>last_status := x\<rparr>) (xemit fx (F\<lparr>last_status := x\<rparr>))" for x
    using get_willing_output_effects [OF w] by (auto intro: proto_emit)
  moreover have "proto F (F\<lparr>last_status := x\<rparr>)" for x
    by (auto simp: proto_def same_displays_def lists_ok_def intro: extends_same_log)
  ultimately show ?thesis unfolding refresh_status_def w by (auto intro: proto_trans)
qed

lemma forward_opcode_simps [simp]:
  "\<not> forward_opcode WILLING" "\<not> forward_opcode UNWILLING" "\<not> forward_opcode FORWARD_QUERY"
  "\<not> forward_opcode ACCEPT" "\<not> forward_opcode DECLINE" "\<not> forward_opcode REFUSE" "\<not> forward_opcode FAILED"
  "\<not> forward_opcode ALIVE" "forward_opcode GDM_XDMCP_MANAGED_FORWARD"
  "forward_opcode GDM_XDMCP_GOT_MANAGED_FORWARD"
  by (simp_all add: forward_opcode_def opcodes)

lemma proto_send_willing: "proto F (scdm_xdmcp_send_willing env a F)"
proof -
  obtain l F1 where l: "is_local env a (refresh_status env F) = (l, F1)" by fastforce
  have "proto F F1" by (rule proto_trans [OF proto_refresh_status proto_is_local [OF l]])
  then show ?thesis
    unfolding scdm_xdmcp_send_willing_def Let_def l prod.case
    by (rule proto_trans) (rule proto_send, simp add: len8_def)
qed

lemma proto_send_unwilling: "proto F (scdm_xdmcp_send_unwilling env a F)"
  unfolding scdm_xdmcp_send_unwilling_def Let_def
  by (auto intro!: proto_trans [OF proto_send proto_counters(3)] simp: len8_def)

lemma sum_authlist:
  "(of_nat (sum_list (map (\<lambda>a. Suc (Suc (length a))) l)) :: u16) = sum_list (map (\<lambda>a. 2 + len8 a) l)"
  by (induction l) (simp_all add: len8_def)

lemma proto_send_forward_query:
  "scdm_xdmcp_send_forward_query ic a d l F = Some F' \<Longrightarrow> proto F F'"
  unfolding scdm_xdmcp_send_forward_query_def Let_def
  by (auto intro!: proto_send simp: len8_def [symmetric] sum_authlist [symmetric] split: option.splits)

lemma proto_send_others:
  "proto F (scdm_xdmcp_really_send_managed_forward a d F)" "proto F (scdm_xdmcp_send_got_managed_forward a d F)"
  "proto F (scdm_xdmcp_send_accept a sid n1 d1 n2 d2 F)" "proto F (scdm_xdmcp_send_failed a sid F)"
  unfolding scdm_xdmcp_really_send_managed_forward_def scdm_xdmcp_send_got_managed_forward_def
    scdm_xdmcp_send_accept_def scdm_xdmcp_send_failed_def Let_def
  by (auto intro!: proto_send simp: len8_def)

lemma proto_send_alive: "proto F (scdm_xdmcp_send_alive env a n s F)"
  unfolding scdm_xdmcp_send_alive_def Let_def
  by (auto intro!: proto_send split: prod.split)

lemma proto_send_managed_forward: "proto F (scdm_xdmcp_send_managed_forward a d F)"
proof -
  let ?F = "scdm_xdmcp_really_send_managed_forward a d F"
  have "proto ?F (?F\<lparr>xnext := Suc (xnext ?F), managed_forwards := m # managed_forwards ?F\<rparr>)" for m
    by (auto simp: proto_def same_displays_def lists_ok_def intro: extends_same_log)
  then show ?thesis unfolding scdm_xdmcp_send_managed_forward_def Let_def
    by (rule proto_trans [OF proto_trans [OF proto_send_others(1)] proto_emit]) simp_all
qed

lemma proto_managed_forward_handler: "managed_forward_handler p F = (b, F') \<Longrightarrow> proto F F'"
proof -
  assume h: "managed_forward_handler p F = (b, F')"
  have m: "proto G (G\<lparr>managed_forwards := ms\<rparr>)" for G ms
    by (auto simp: proto_def same_displays_def lists_ok_def intro: extends_same_log)
  show ?thesis
    using h by (auto simp: managed_forward_handler_def Let_def split: option.splits if_splits
        intro: m proto_trans [OF proto_send_others(1) m])
qed

lemma proto_whack: "proto F (scdm_xdmcp_whack_queued_managed_forwards env a d F)"
proof -
  have m: "proto G (xemit [RemoveForwardTimeout n] (G\<lparr>managed_forwards := ms\<rparr>))" for G n ms
    by (rule proto_trans [OF _ proto_emit]) (auto simp: proto_def same_displays_def lists_ok_def intro: extends_same_log)
  then show ?thesis by (auto simp: scdm_xdmcp_whack_queued_managed_forwards_def split: option.splits)
qed

lemma proto_indirect:
  "proto F (indirect_client_create d F)" "proto F (indirect_client_destroy ic F)"
  by (auto simp: indirect_client_create_def indirect_client_destroy_def proto_def same_displays_def lists_ok_def
      intro: extends_same_log)

lemma proto_lookup_by_chosen_loop:
  "lookup_by_chosen_loop env c d ics F = (r, F') \<Longrightarrow> proto F F'"
  by (induction env c d ics F rule: lookup_by_chosen_loop.induct)
    (auto split: option.splits if_splits prod.splits dest: proto_is_local intro: proto_trans)

lemma proto_lookup_by_chosen: "indirect_client_lookup_by_chosen env c d F = (r, F') \<Longrightarrow> proto F F'"
  unfolding indirect_client_lookup_by_chosen_def by (rule proto_lookup_by_chosen_loop)

lemma proto_indirect_scan: "indirect_client_scan env a ics F = (r, F') \<Longrightarrow> proto F F'"
proof (induction env a ics F rule: indirect_client_scan.induct)
  case (2 env a ic ics F)
  then show ?case by (auto split: if_splits intro: proto_trans [OF proto_indirect(2)])
qed simp

lemma proto_indirect_lookup: "indirect_client_lookup env a F = (r, F') \<Longrightarrow> proto F F'"
  unfolding indirect_client_lookup_def by (rule proto_indirect_scan)

text \<open>Nothing is ever stale: looking up changes nothing.\<close>

lemma indirect_lookup_same:
  assumes "lists_ok F"
  shows "indirect_client_lookup env a F = (List.find (\<lambda>ic. address_eq env (ic_dsp_address ic) a) (indirect_clients F), F)"
proof -
  have "\<forall>ic \<in> set ics. ic_acctime ic = 0 \<Longrightarrow>
      indirect_client_scan env a ics F = (List.find (\<lambda>ic. address_eq env (ic_dsp_address ic) a) ics, F)" for ics
    by (induction ics) auto
  then show ?thesis using assms by (simp add: indirect_client_lookup_def lists_ok_def)
qed

lemma forward_lookup_same:
  assumes "lists_ok F"
  shows "forward_query_lookup env a F = (List.find (\<lambda>q. address_eq env (fq_dsp_address q) a) (forward_queries F), F)"
proof -
  have "\<forall>q \<in> set qs. fq_acctime q = 0 \<Longrightarrow>
      forward_query_scan env a qs F = (List.find (\<lambda>q. address_eq env (fq_dsp_address q) a) qs, F)" for qs
    by (induction qs) auto
  then show ?thesis using assms by (simp add: forward_query_lookup_def lists_ok_def)
qed

lemma proto_forward_destroy: "proto F (forward_query_destroy q F)"
  by (auto simp: forward_query_destroy_def proto_def same_displays_def lists_ok_def distinct_map_filter
      intro: extends_same_log order_trans [OF length_filter_le])

lemma proto_forward_scan: "forward_query_scan env a qs F = (r, F') \<Longrightarrow> proto F F'"
proof (induction env a qs F rule: forward_query_scan.induct)
  case (2 env a q qs F)
  then show ?case by (auto split: if_splits intro: proto_trans [OF proto_forward_destroy])
qed simp

lemma proto_forward_lookup: "forward_query_lookup env a F = (r, F') \<Longrightarrow> proto F F'"
  unfolding forward_query_lookup_def by (rule proto_forward_scan)

text \<open>Among queries of the same acceptance time the first of the list counts as the oldest.\<close>

lemma oldest_forward_first:
  assumes "\<forall>q \<in> set qs. fq_acctime q = fq_acctime b"
  shows "oldest_forward (Some b) qs = Some b"
  using assms by (induction qs) auto

lemma remove_oldest_is_newest:
  assumes "lists_ok F" and "forward_queries F = q # qs"
  shows "remove_oldest_forward F = (True, F\<lparr>forward_queries := qs\<rparr>)"
proof -
  have "oldest_forward None (q # qs) = Some q"
    using assms oldest_forward_first [of qs q] by (auto simp: lists_ok_def)
  moreover have "fq_ptr q \<notin> fq_ptr ` set qs" using assms by (simp add: lists_ok_def)
  then have "\<forall>c \<in> set qs. fq_ptr c \<noteq> fq_ptr q" by (metis image_eqI)
  then have "filter (\<lambda>c. fq_ptr c \<noteq> fq_ptr q) (q # qs) = qs" by simp
  ultimately show ?thesis using assms(2) by (simp add: remove_oldest_forward_def forward_query_destroy_def)
qed

lemma trim_forwards_lists_ok:
  assumes "lists_ok F"
  shows "trim_forwards (length (forward_queries F)) F =
    F\<lparr>forward_queries := drop (length (forward_queries F) - SCDM_MAX_FORWARD_QUERIES) (forward_queries F)\<rparr>"
proof (cases "length (forward_queries F) = Suc SCDM_MAX_FORWARD_QUERIES")
  case True
  then obtain q qs where q: "forward_queries F = q # qs" "length qs = SCDM_MAX_FORWARD_QUERIES"
    by (cases "forward_queries F") auto
  have "trim_forwards SCDM_MAX_FORWARD_QUERIES G = G" for G :: xfactory
    by (simp add: SCDM_MAX_FORWARD_QUERIES_def numeral_eq_Suc)
  then show ?thesis using q remove_oldest_is_newest [OF assms q(1)] by simp
next
  case False
  then have "length (forward_queries F) \<le> SCDM_MAX_FORWARD_QUERIES" using assms by (simp add: lists_ok_def)
  then show ?thesis by (cases "length (forward_queries F)") simp_all
qed

lemma forward_query_create_lists_ok:
  assumes "lists_ok F"
  shows "lists_ok (forward_query_create m d F)"
proof -
  let ?qs = "drop (length (forward_queries F) - SCDM_MAX_FORWARD_QUERIES) (forward_queries F)"
  have "\<forall>q \<in> set ?qs. fq_acctime q = 0 \<and> fq_ptr q < xnext F"
    using assms by (auto simp: lists_ok_def dest: in_set_dropD)
  moreover have "distinct (map fq_ptr ?qs)"
    using assms by (simp add: lists_ok_def drop_map [symmetric] distinct_drop)
  moreover have "length ?qs \<le> SCDM_MAX_FORWARD_QUERIES" by simp
  ultimately show ?thesis
    using assms by (auto simp: forward_query_create_def Let_def trim_forwards_lists_ok [OF assms] lists_ok_def less_Suc_eq)
qed

lemma trim_forwards_frame: "proto F (trim_forwards n F)"
proof (induction n arbitrary: F)
  case (Suc n)
  have "remove_oldest_forward F = (b, F') \<Longrightarrow> proto F F'" for b F'
    by (auto simp: remove_oldest_forward_def split: option.splits intro: proto_forward_destroy)
  then show ?case by (auto split: prod.splits intro: proto_trans [OF _ Suc.IH])
qed simp

lemma proto_forward_create: "proto F (forward_query_create m d F)"
proof -
  have "same_displays F (forward_query_create m d F) \<and> extends well_sized F (forward_query_create m d F)"
    using trim_forwards_frame [of F "length (forward_queries F)"]
    by (auto simp: forward_query_create_def Let_def proto_def same_displays_def extends_def)
  then show ?thesis using forward_query_create_lists_ok by (simp add: proto_def)
qed

lemma proto_resolve: "proto F (resolve_forward env a F)"
proof -
  obtain r F1 where l: "forward_query_lookup env a F = (r, F1)" by fastforce
  note proto_forward_lookup [OF l]
  then show ?thesis unfolding resolve_forward_def l
    by (cases r) (auto intro: proto_trans [OF proto_trans [OF _ proto_send_managed_forward] proto_forward_destroy])
qed

lemma proto_decline: "proto F (scdm_xdmcp_send_decline env a s F)"
  unfolding scdm_xdmcp_send_decline_def Let_def
  by (rule proto_trans [OF proto_send proto_resolve]) (simp add: len8_def)

lemma proto_refuse: "proto F (scdm_xdmcp_send_refuse env a s F)"
  unfolding scdm_xdmcp_send_refuse_def
  by (rule proto_trans [OF proto_send proto_resolve]) simp

section \<open>Handlers\<close>

text \<open>What every step keeps: the lists, and session numbers that are not 0.\<close>

definition sessions_ok :: "xfactory \<Rightarrow> bool" where
  "sessions_ok F \<longleftrightarrow> (\<forall>oid x. xheap F oid = Some x \<longrightarrow> xd_session_number x \<noteq> 0)"

definition advances :: "xfactory \<Rightarrow> xfactory \<Rightarrow> bool" where
  "advances F F' \<longleftrightarrow> extends well_sized F F' \<and> (lists_ok F \<longrightarrow> lists_ok F') \<and> (sessions_ok F \<longrightarrow> sessions_ok F')"

lemma advances_refl [simp]: "advances F F"
  by (simp add: advances_def)

lemma advances_trans [trans]: "advances F G \<Longrightarrow> advances G H \<Longrightarrow> advances F H"
  by (auto simp: advances_def intro: extends_trans)

lemma proto_advances: "proto F G \<Longrightarrow> advances F G"
  by (auto simp: proto_def advances_def same_displays_def sessions_ok_def)

lemma advances_fields:
  "xlog F' = xlog F \<Longrightarrow> forward_queries F' = forward_queries F \<Longrightarrow> indirect_clients F' = indirect_clients F \<Longrightarrow>
   last_willing F' = last_willing F \<Longrightarrow> xnext F \<le> xnext F' \<Longrightarrow>
   (sessions_ok F \<Longrightarrow> sessions_ok F') \<Longrightarrow> advances F F'"
  by (auto simp: advances_def lists_ok_def intro: extends_same_log)

lemma proto_handle_statuses: "handle_statuses env oid ss F = Some F' \<Longrightarrow> proto F F'"
proof (induction ss arbitrary: F)
  case (Cons s ss)
  obtain G where G: "on_display_status_changed_xdmcp env oid s F = Some G" "handle_statuses env oid ss G = Some F'"
    using Cons.prems by (auto simp: bind_eq_Some_conv)
  have q: "proto H (scdm_display_factory_queue_purge_displays_xdmcp H)" for H
    by (simp add: scdm_display_factory_queue_purge_displays_xdmcp_def proto_counters)
  have "proto F G"
    using G(1) by (auto simp: on_display_status_changed_xdmcp_def Let_def intro: q proto_emit proto_trans [OF proto_send_alive q]
        split: option.splits display_status.splits if_splits)
  then show ?case using Cons.IH [OF G(2)] by (rule proto_trans)
qed simp

lemma advances_set_object: "advances F (set_object oid d F)"
  by (rule advances_fields) (auto simp: set_object_def sessions_ok_def split: option.splits)

lemma advances_xdisplay_op: "xdisplay_op env oid f F = Some (r, F') \<Longrightarrow> advances F F'"
  by (auto simp: xdisplay_op_def split: option.splits prod.splits
      intro: advances_trans [OF advances_set_object] dest!: proto_handle_statuses proto_advances)

lemma advances_disconnected: "on_client_disconnected env oid F = Some F' \<Longrightarrow> advances F F'"
  by (auto simp: on_client_disconnected_def bind_eq_Some_conv split: option.splits if_splits
      dest!: advances_xdisplay_op intro: advances_trans)

lemma proto_direct: "proto F (handle_direct_query env a len l F)"
  by (auto simp: handle_direct_query_def intro: proto_send_willing split: option.splits)

lemma proto_queries:
  "proto F (scdm_xdmcp_handle_broadcast_query env a len l F)" "proto F (scdm_xdmcp_handle_query env a len l F)"
  by (auto simp: scdm_xdmcp_handle_broadcast_query_def scdm_xdmcp_handle_query_def
      intro: proto_direct proto_send_unwilling)

lemma proto_forward_all: "forward_all ic a ss l F = Some F' \<Longrightarrow> proto F F'"
proof (induction ic a ss l F rule: forward_all.induct)
  case (2 ic a s ss l F)
  obtain saddr G where s: "s = Some saddr" and G: "(if \<not> scdm_address_is_loopback saddr
      then scdm_xdmcp_send_forward_query ic a saddr l F else Some F) = Some G" "forward_all ic a ss l G = Some F'"
    using 2(2) by (auto simp: bind_eq_Some_conv split: option.splits)
  have "proto F G" using G(1) by (auto split: if_splits dest: proto_send_forward_query)
  then show ?case using 2(1) [OF s G] by (rule proto_trans)
qed simp

lemma proto_indirect_forward: "indirect_forward env a l ic c F = Some F' \<Longrightarrow> proto F F'"
proof -
  assume h: "indirect_forward env a l ic c F = Some F'"
  obtain b F1 where l: "is_local env c F = (b, F1)" by fastforce
  have "proto F1 F'"
    using h l
    by (auto simp: indirect_forward_def split: bool.splits if_splits prod.splits
        intro: proto_trans [OF proto_indirect(2) proto_send_willing] proto_send_forward_query
          proto_trans [OF proto_cache proto_forward_all])
  then show ?thesis using proto_is_local [OF l] proto_trans by blast
qed

lemma proto_too_many: "too_many_displays env a F = (b, F') \<Longrightarrow> proto F F'"
  by (auto simp: too_many_displays_def split: if_splits prod.splits dest: proto_is_local)

lemma proto_indirect_query:
  assumes "scdm_xdmcp_handle_indirect_query env a len l F = Some F'"
  shows "proto F F'"
proof (cases "scdm_xdmcp_host_allow env a \<and> honor_indirect F")
  case True
  obtain b F1 where t: "too_many_displays env a F = (b, F1)" by fastforce
  have 1: "proto F F1" by (rule proto_too_many [OF t])
  show ?thesis
  proof (cases "b \<or> l = None \<or> (\<exists>al. l = Some al \<and> uint len \<noteq> authlist_len al)")
    case True2: True
    then have "F' = F1" using assms True t
      by (auto simp: scdm_xdmcp_handle_indirect_query_def split: option.splits bool.splits if_splits)
    then show ?thesis using 1 by simp
  next
    case False
    then obtain al where al: "l = Some al" "uint len = authlist_len al" "\<not> b" by auto
    obtain r F2 where r: "indirect_client_lookup env a F1 = (r, F2)" by fastforce
    have 2: "proto F1 F2" by (rule proto_indirect_lookup [OF r])
    have "(case r of None \<Rightarrow> Some (scdm_xdmcp_send_willing env a (indirect_client_create a F2))
        | Some ic \<Rightarrow> (case ic_chosen_address ic of None \<Rightarrow> Some (scdm_xdmcp_send_willing env a F2)
            | Some c \<Rightarrow> indirect_forward env a al ic c F2)) = Some F'"
      using assms True t al r by (auto simp: scdm_xdmcp_handle_indirect_query_def split: option.splits)
    then have "proto F2 F'"
      by (auto split: option.splits intro: proto_trans [OF proto_indirect(1) proto_send_willing] proto_send_willing
          proto_indirect_forward)
    with 1 2 show ?thesis by (blast intro: proto_trans)
  qed
qed (use assms in \<open>auto simp: scdm_xdmcp_handle_indirect_query_def split: if_splits\<close>)

lemma proto_accept_forward: "proto F (accept_forward env a d F)"
proof -
  let ?F = "scdm_xdmcp_whack_queued_managed_forwards env a d F"
  obtain r F1 where r: "forward_query_lookup env d ?F = (r, F1)" by fastforce
  let ?G = "case r of None \<Rightarrow> F1 | Some q \<Rightarrow> forward_query_destroy q F1"
  have "proto ?F ?G" using proto_forward_lookup [OF r] by (auto split: option.splits intro: proto_trans proto_forward_destroy)
  then have "proto ?F (scdm_xdmcp_send_willing env d (forward_query_create a d ?G))"
    by (blast intro: proto_trans proto_forward_create proto_send_willing)
  then show ?thesis
    using proto_whack [of F env a d] r
    by (auto simp: accept_forward_def Let_def intro: proto_trans split: option.splits)
qed

lemma proto_forward_query:
  "scdm_xdmcp_handle_forward_query env a len ca cp cl F = Some F' \<Longrightarrow> proto F F'"
  by (auto simp: scdm_xdmcp_handle_forward_query_def Let_def intro: proto_accept_forward
      split: if_splits option.splits prod.splits bool.splits)

lemma advances_recount: "advances F (scdm_xdmcp_recount_sessions F)"
  by (rule advances_fields) (auto simp: scdm_xdmcp_recount_sessions_def sessions_ok_def split: prod.splits)

lemma advances_purge: "advances F (scdm_xdmcp_displays_purge env F)"
  unfolding scdm_xdmcp_displays_purge_def
  by (rule advances_trans [OF _ advances_recount]) (rule advances_fields, auto simp: sessions_ok_def)

lemma advances_dispose_check: "advances F (display_dispose_check h n F)"
  unfolding display_dispose_check_def
  by (cases h) (auto intro!: advances_trans [OF _ advances_recount] advances_fields simp: sessions_ok_def)

lemma random_serial_nonzero: "random_serial rs = Some r \<Longrightarrow> r \<noteq> 0"
  by (induction rs) (auto split: if_splits)

lemma next_session_serial_facts:
  assumes "get_next_session_serial env F = Some (n, F')"
  shows "n \<noteq> 0 \<and> F' = F\<lparr>session_serial := session_serial F'\<rparr>"
  using assms by (auto simp: get_next_session_serial_def split: if_splits dest: random_serial_nonzero)

lemma proto_wants_chooser: "wants_chooser env a F = (b, F') \<Longrightarrow> proto F F'"
  by (auto simp: wants_chooser_def split: if_splits prod.splits option.splits dest: proto_indirect_lookup)

text \<open>What a creation does that succeeds.\<close>

lemma display_create_facts:
  assumes "scdm_xdmcp_display_create env hostname a n F = Some (r, F')"
  obtains F1 F2 kind serial where "proto F F1" and "get_next_session_serial env F1 = Some (serial, F2)"
    and "kind \<in> {XdmcpDisplay, XdmcpChooserDisplay}"
    and "r = None \<and> F' = F2\<lparr>xnext := Suc (xnext F1)\<rparr> \<or>
      (\<exists>d. r = Some (xnext F1) \<and>
        same_config (xd_display (scdm_xdmcp_display_new env kind (xnext F1) hostname n a serial)) d \<and>
        d_status d = GDM_DISPLAY_PREPARED \<and>
        F' = F2\<lparr>xnext := Suc (xnext F1),
          xheap := (xheap F2)(xnext F1 \<mapsto> (scdm_xdmcp_display_new env kind (xnext F1) hostname n a serial)\<lparr>xd_display := d\<rparr>),
          xstore := scdm_display_store_add (xstore F2) (d_id d) (xnext F1),
          num_pending_sessions := num_pending_sessions F2 + 1\<rparr>)"
proof -
  obtain ch F1 where ch: "wants_chooser env a F = (ch, F1)" by fastforce
  let ?kind = "if ch then XdmcpChooserDisplay else XdmcpDisplay"
  obtain serial F2 where s: "get_next_session_serial env F1 = Some (serial, F2)"
    using assms ch by (auto simp: scdm_xdmcp_display_create_def Let_def split: option.splits)
  let ?x = "scdm_xdmcp_display_new env ?kind (xnext F1) hostname n a serial"
  obtain ok d where d: "scdm_display_prepare (xe_auth env (xnext F1)) (xe_accounts env (xnext F1))
      (xe_setup env (xnext F1)) (xd_display ?x) = Some (ok, d)"
    using assms ch s by (auto simp: scdm_xdmcp_display_create_def Let_def split: option.splits)
  have p: "prepared ok (xd_display ?x) d" by (rule prepared_prepare [OF d])
  show ?thesis
  proof (rule that [OF proto_wants_chooser [OF ch] s])
    show "?kind \<in> {XdmcpDisplay, XdmcpChooserDisplay}" by simp
    show "r = None \<and> F' = F2\<lparr>xnext := Suc (xnext F1)\<rparr> \<or>
      (\<exists>d. r = Some (xnext F1) \<and> same_config (xd_display ?x) d \<and> d_status d = GDM_DISPLAY_PREPARED \<and>
        F' = F2\<lparr>xnext := Suc (xnext F1), xheap := (xheap F2)(xnext F1 \<mapsto> ?x\<lparr>xd_display := d\<rparr>),
          xstore := scdm_display_store_add (xstore F2) (d_id d) (xnext F1),
          num_pending_sessions := num_pending_sessions F2 + 1\<rparr>)"
    proof (cases ok)
      case True
      then have "same_config (xd_display ?x) d \<and> d_status d = GDM_DISPLAY_PREPARED"
        using p by (simp add: prepared_def announces_def)
      then show ?thesis using assms ch s d True
        by (intro disjI2 exI [of _ d]) (simp add: scdm_xdmcp_display_create_def Let_def)
    next
      case False
      then show ?thesis using assms ch s d
        by (auto simp: scdm_xdmcp_display_create_def Let_def split: option.splits)
    qed
  qed
qed

lemma advances_display_create:
  assumes "scdm_xdmcp_display_create env hostname a n F = Some (r, F')"
  shows "advances F F'"
proof -
  obtain F1 F2 kind serial where 1: "proto F F1" and s: "get_next_session_serial env F1 = Some (serial, F2)"
    and F': "r = None \<and> F' = F2\<lparr>xnext := Suc (xnext F1)\<rparr> \<or>
      (\<exists>d. r = Some (xnext F1) \<and>
        same_config (xd_display (scdm_xdmcp_display_new env kind (xnext F1) hostname n a serial)) d \<and>
        d_status d = GDM_DISPLAY_PREPARED \<and>
        F' = F2\<lparr>xnext := Suc (xnext F1),
          xheap := (xheap F2)(xnext F1 \<mapsto> (scdm_xdmcp_display_new env kind (xnext F1) hostname n a serial)\<lparr>xd_display := d\<rparr>),
          xstore := scdm_display_store_add (xstore F2) (d_id d) (xnext F1),
          num_pending_sessions := num_pending_sessions F2 + 1\<rparr>)"
    using display_create_facts [OF assms] by metis
  obtain t where F2: "F2 = F1\<lparr>session_serial := t\<rparr>" "serial \<noteq> 0" using next_session_serial_facts [OF s] by metis
  have "advances F1 F'"
    using F' F2 by (intro advances_fields) (auto simp: sessions_ok_def scdm_xdmcp_display_new_def split: if_splits)
  then show ?thesis using proto_advances [OF 1] advances_trans by blast
qed

lemma advances_accept_display:
  assumes "accept_display env a h n F = Some F'"
  shows "advances F F'"
proof -
  obtain r F1 where r: "scdm_xdmcp_display_create env h a (uint n) F = Some (r, F1)"
    using assms by (auto simp: accept_display_def split: option.splits)
  then have "proto F1 F'"
    using assms by (auto simp: accept_display_def proto_send_others split: option.splits)
  then show ?thesis using advances_display_create [OF r] proto_advances advances_trans by blast
qed

lemma advances_enter_display: "enter_display env a h n F = Some F' \<Longrightarrow> advances F F'"
  by (auto simp: enter_display_def Let_def split: if_splits
      intro: advances_trans [OF advances_dispose_check] proto_advances [OF proto_decline] advances_accept_display)

lemma proto_request_allowed: "request_allowed env a m F = (b, F') \<Longrightarrow> proto F F'"
  by (auto simp: request_allowed_def split: if_splits prod.splits dest: proto_is_local)

lemma advances_request:
  assumes "scdm_xdmcp_handle_request env a len q F = Some F'"
  shows "advances F F'"
proof (cases "scdm_xdmcp_host_allow env a")
  case True
  let ?F = "scdm_xdmcp_displays_purge env F"
  have "advances ?F F'"
  proof (cases "read_request q")
    case (Some p)
    obtain n m e where p: "p = (n, m, e)" by (cases p)
    obtain b F1 where b: "request_allowed env a m ?F = (b, F1)" by fastforce
    have "advances F1 F'" if "e = uint len"
      using assms True Some p b that
      by (cases b) (auto simp: scdm_xdmcp_handle_request_def Let_def
          dest: advances_enter_display intro: proto_advances [OF proto_decline])
    then show ?thesis using assms True Some p proto_advances [OF proto_request_allowed [OF b]]
      by (cases "e = uint len") (auto simp: scdm_xdmcp_handle_request_def Let_def intro: advances_trans)
  qed (use assms True in \<open>simp add: scdm_xdmcp_handle_request_def\<close>)
  then show ?thesis using advances_purge advances_trans by blast
qed (use assms in \<open>simp add: scdm_xdmcp_handle_request_def\<close>)

lemma proto_drop_chosen: "proto F (drop_chosen_client env a F)"
proof -
  obtain r F1 where r: "indirect_client_lookup env a F = (r, F1)" by fastforce
  show ?thesis using proto_indirect_lookup [OF r] r
    by (auto simp: drop_chosen_client_def intro: proto_trans proto_indirect split: option.splits)
qed

lemma advances_manage_prepared:
  assumes "manage_prepared env a s oid F = Some F'"
  shows "advances F F'"
proof -
  let ?F = "resolve_forward env a (drop_chosen_client env a F)"
  let ?G = "?F\<lparr>num_sessions := num_sessions ?F + 1, num_pending_sessions := num_pending_sessions ?F - 1\<rparr>"
  obtain r F1 where op: "xdisplay_op env oid (\<lambda>d. scdm_display_manage (xe_auth env oid) (xe_accounts env oid)
        (xe_setup env oid) (xe_server env oid) d) ?G = Some (r, F1)"
    and F': "F' = (if r = Some False then scdm_xdmcp_send_failed a s F1 else F1)"
    using assms by (auto simp: manage_prepared_def Let_def split: option.splits)
  have "advances F ?G" by (intro proto_advances proto_trans [OF proto_trans [OF proto_drop_chosen proto_resolve] proto_counters(1)])
  also have "advances ?G F1" by (rule advances_xdisplay_op [OF op])
  also have "advances F1 F'" unfolding F' by (auto intro: proto_advances proto_send_others)
  finally show ?thesis .
qed

lemma advances_manage:
  assumes "scdm_xdmcp_handle_manage env a s n c F = Some F'"
    and "\<not> (scdm_xdmcp_host_allow env a \<and> (s = None \<or> n = None))"
  shows "advances F F'"
  using assms
  by (auto simp: scdm_xdmcp_handle_manage_def split: if_splits option.splits display_status.splits
      intro: advances_manage_prepared proto_advances [OF proto_refuse])

lemma proto_managed_forward:
  "scdm_xdmcp_handle_managed_forward env a x F = Some F' \<Longrightarrow> proto F F'"
  by (auto simp: scdm_xdmcp_handle_managed_forward_def split: if_splits option.splits prod.splits bool.splits
      dest!: proto_lookup_by_chosen
      intro: proto_send_others proto_trans proto_trans [OF proto_indirect(2) proto_send_others(2)])

lemma proto_got_managed_forward:
  "scdm_xdmcp_handle_got_managed_forward env a x F = Some F' \<Longrightarrow> proto F F'"
  by (auto simp: scdm_xdmcp_handle_got_managed_forward_def split: if_splits option.splits prod.splits bool.splits
      intro: proto_whack)

lemma proto_keepalive: "proto F (scdm_xdmcp_handle_keepalive env a n s F)"
  by (auto simp: scdm_xdmcp_handle_keepalive_def intro: proto_send_alive split: option.splits)

lemma advances_selected:
  assumes "on_hostname_selected env oid h F = Some F'"
  shows "advances F F'"
proof -
  obtain x ic F1 where "xheap F oid = Some x" and l: "indirect_client_lookup env (xd_remote_address x) F = (Some ic, F1)"
    and F': "\<exists>chosen. F' = F1\<lparr>indirect_clients := map (\<lambda>c. if ic_ptr c = ic_ptr ic then c\<lparr>ic_chosen_address := chosen\<rparr> else c)
                        (indirect_clients F1)\<rparr>"
    using assms by (auto simp: on_hostname_selected_def Let_def split: option.splits prod.splits)
  have "advances F1 F'"
    using F' by (auto simp: advances_def lists_ok_def sessions_ok_def intro: extends_same_log)
  then show ?thesis using proto_advances [OF proto_indirect_lookup [OF l]] advances_trans by blast
qed

section \<open>Packets received\<close>

text \<open>A packet whose handler frees memory it never filled in.\<close>

definition truncated_manage :: "xdmcp_env \<Rightarrow> bool \<Rightarrow> (incoming \<times> reads) option \<Rightarrow> bool" where
  "truncated_manage env readable p \<longleftrightarrow>
     readable \<and> (case p of None \<Rightarrow> False
       | Some (i, r) \<Rightarrow> in_version i \<in> {XDM_PROTOCOL_VERSION, GDM_XDMCP_PROTOCOL_VERSION} \<and>
           16 \<le> in_size i \<and> in_size i \<le> 128 \<and> in_opcode i = MANAGE \<and> scdm_xdmcp_host_allow env (in_from i) \<and>
           (case rd_manage r of (s, n, c) \<Rightarrow> s = None \<or> n = None))"

lemma advances_dispatch:
  assumes "dispatch env a op len r F = Some F'"
    and "\<not> (op = MANAGE \<and> scdm_xdmcp_host_allow env a \<and> (case rd_manage r of (s, n, c) \<Rightarrow> s = None \<or> n = None))"
  shows "advances F F'"
  using assms
  by (auto simp: dispatch_def split: if_splits prod.splits
      intro: proto_advances proto_queries proto_indirect_query proto_forward_query advances_request advances_manage
        proto_keepalive proto_managed_forward proto_got_managed_forward)

lemma decode_packet_cases:
  assumes "decode_packet env readable p F = Some F'"
  obtains (nothing) "F' = F" "\<not> truncated_manage env readable p"
  | (handled) i r F1 where "readable" "p = Some (i, r)" "proto F F1" "F1 = snd (is_local env (in_from i) F)"
      "16 \<le> in_size i" "in_size i \<le> 128" "in_version i \<in> {XDM_PROTOCOL_VERSION, GDM_XDMCP_PROTOCOL_VERSION}"
      "dispatch env (in_from i) (in_opcode i) (in_length i) r F1 = Some F'"
proof (cases "readable \<and> (\<exists>i r. p = Some (i, r) \<and> 16 \<le> in_size i \<and> in_size i \<le> 128 \<and>
    in_version i \<in> {XDM_PROTOCOL_VERSION, GDM_XDMCP_PROTOCOL_VERSION})")
  case True
  then obtain i r where p: "readable" "p = Some (i, r)" "16 \<le> in_size i" "in_size i \<le> 128"
    "in_version i \<in> {XDM_PROTOCOL_VERSION, GDM_XDMCP_PROTOCOL_VERSION}" by blast
  obtain l F1 where l: "is_local env (in_from i) F = (l, F1)" by fastforce
  show ?thesis
    using assms p l proto_is_local [OF l]
    by (intro handled [of i r F1]) (auto simp: decode_packet_def scdm_address_new_from_sockaddr_def)
next
  case False
  have "F' = F"
    using assms False by (auto simp: decode_packet_def scdm_address_new_from_sockaddr_def
        split: option.splits if_splits prod.splits)
  moreover have "\<not> truncated_manage env readable p"
    using False by (auto simp: truncated_manage_def split: option.splits prod.splits)
  ultimately show ?thesis by (rule nothing)
qed

lemma advances_decode:
  assumes "decode_packet env readable p F = Some F'" and "\<not> truncated_manage env readable p"
  shows "advances F F'"
  using assms(1)
proof (cases rule: decode_packet_cases)
  case (handled i r F1)
  have "advances F1 F'"
    using handled assms(2) by (intro advances_dispatch [OF handled(8)]) (auto simp: truncated_manage_def)
  then show ?thesis using proto_advances [OF handled(3)] advances_trans by blast
qed simp

lemma truncated_manage_decode:
  assumes "truncated_manage env readable p"
  shows "\<exists>F1. proto F F1 \<and> decode_packet env readable p F = Some (xemit [DisposeUninitialised] F1)"
proof -
  obtain i r s n c where p: "readable" "p = Some (i, r)" "in_opcode i = MANAGE" "scdm_xdmcp_host_allow env (in_from i)"
    "rd_manage r = (s, n, c)" "s = None \<or> n = None" "16 \<le> in_size i" "in_size i \<le> 128"
    "in_version i \<in> {XDM_PROTOCOL_VERSION, GDM_XDMCP_PROTOCOL_VERSION}"
    using assms by (auto simp: truncated_manage_def split: option.splits prod.splits)
  obtain l F1 where l: "is_local env (in_from i) F = (l, F1)" by fastforce
  show ?thesis
    using p l proto_is_local [OF l]
    by (intro exI [of _ F1]) (auto simp: decode_packet_def scdm_address_new_from_sockaddr_def dispatch_def opcodes
        scdm_xdmcp_handle_manage_def split: option.splits)
qed

definition no_garbage :: "xfactory \<Rightarrow> bool" where
  "no_garbage F \<longleftrightarrow> DisposeUninitialised \<notin> set (xlog F)"

lemma advances_no_garbage: "advances F F' \<Longrightarrow> no_garbage F \<Longrightarrow> no_garbage F'"
  by (auto simp: advances_def extends_def no_garbage_def)

text \<open>Handling a packet frees memory that was never filled in exactly when the packet is a
  \<open>MANAGE\<close> from a host that is let in, of an accepted version, too short for a session
  number and a display number. No other packet does, whatever its contents.\<close>

theorem decode_packet_garbage:
  assumes "decode_packet env readable p F = Some F'" and "no_garbage F"
  shows "no_garbage F' \<longleftrightarrow> \<not> truncated_manage env readable p"
proof (cases "truncated_manage env readable p")
  case True
  then show ?thesis using truncated_manage_decode [OF True, of F] assms(1) by (auto simp: no_garbage_def)
next
  case False
  then show ?thesis using advances_no_garbage [OF advances_decode [OF assms(1) False] assms(2)] by simp
qed

section \<open>Reachable states\<close>

definition factory_init :: "u32 \<Rightarrow> string \<Rightarrow> string \<Rightarrow> xdmcp_settings \<Rightarrow> xfactory" where
  "factory_init serial sys host s =
     \<lparr>forward_queries = [], managed_forwards = [], indirect_clients = [], socket_fd = -1, socket_watch = False,
      session_serial = serial, num_sessions = 0, num_pending_sessions = 0, sysid = sys, servhost = host,
      use_multicast = st_multicast s, honor_indirect = st_indirect s, willing_script = st_willing s,
      max_displays_per_host = st_displays_per_host s, max_displays = st_max_sessions s,
      max_pending_displays = st_max_pending s, max_wait = st_max_wait s, max_wait_indirect = st_max_wait_indirect s,
      last_status = None, last_willing = 0, last_unwilling = 0, xheap = (\<lambda>_. None), xnext = 0,
      xstore = scdm_display_store_new, xpurge_pending = False, xcache = empty_cache, xlog = []\<rparr>"

definition wire_ok :: "xfactory \<Rightarrow> bool" where
  "wire_ok F \<longleftrightarrow> lists_ok F \<and> sessions_ok F \<and> (\<forall>p \<in> set (sent (xlog F)). well_sized p)"

lemma wire_ok_init: "wire_ok (factory_init n a b s)"
  by (simp add: wire_ok_def lists_ok_def sessions_ok_def factory_init_def)

lemma wire_ok_advances: "advances F F' \<Longrightarrow> wire_ok F \<Longrightarrow> wire_ok F'"
  by (auto simp: advances_def extends_def wire_ok_def)

lemma wire_ok_step: "xdmcp_step F F' \<Longrightarrow> wire_ok F \<Longrightarrow> wire_ok F'"
proof (induction rule: xdmcp_step.induct)
  case (packet env readable p F F')
  show ?case
  proof (cases "truncated_manage env readable p")
    case True
    obtain F1 where F1: "proto F F1" "F' = xemit [DisposeUninitialised] F1"
      using truncated_manage_decode [OF True, of F] packet(1) by auto
    have "wire_ok F1" using wire_ok_advances [OF proto_advances [OF F1(1)] packet(2)] .
    then show ?thesis by (simp add: F1(2) wire_ok_def lists_ok_def sessions_ok_def)
  next
    case False
    then show ?thesis using wire_ok_advances [OF advances_decode [OF packet(1) False]] packet(2) by simp
  qed
next
  case (purge F)
  then show ?case by (simp add: purge_idle_def wire_ok_def lists_ok_def sessions_ok_def)
qed (auto intro: wire_ok_advances advances_selected advances_disconnected advances_xdisplay_op
    proto_advances [OF proto_managed_forward_handler])

lemma wire_ok_reachable: "xdmcp_step\<^sup>*\<^sup>* (factory_init n a b s) F \<Longrightarrow> wire_ok F"
  by (induction rule: rtranclp_induct) (auto intro: wire_ok_init wire_ok_step)

text \<open>C23. In every state the factory can reach, whatever is received, each packet it has sent has
  a header that gives the size of its body, but for \<open>MANAGED_FORWARD\<close> and
  \<open>GOT_MANAGED_FORWARD\<close>, whose headers give two bytes more than there are.\<close>

theorem packets_well_sized:
  assumes "xdmcp_step\<^sup>*\<^sup>* (factory_init serial sys host settings) F" and "Send p \<in> set (xlog F)"
  shows "pk_length p = of_nat (sum_list (map field_size (pk_fields p)))
    + (if pk_opcode p = GDM_XDMCP_MANAGED_FORWARD \<or> pk_opcode p = GDM_XDMCP_GOT_MANAGED_FORWARD then 2 else 0)"
proof -
  have "p \<in> set (sent (xlog F))" using assms(2) by (force simp: sent_def map_filter_def)
  then show ?thesis using wire_ok_reachable [OF assms(1)] by (simp add: wire_ok_def well_sized_def body_size_def forward_opcode_def)
qed

text \<open>C28. The factory never has more than eleven forwarded queries, every display it makes has a
  session number other than 0, and nothing is ever stale: however old, no forwarded query and no
  indirect client is dropped by a lookup, since the time of their acceptance is never recorded.\<close>

theorem xdmcp_lists_bounded:
  assumes "xdmcp_step\<^sup>*\<^sup>* (factory_init serial sys host settings) F"
  shows "length (forward_queries F) \<le> 11 \<and> (\<forall>oid x. xheap F oid = Some x \<longrightarrow> xd_session_number x \<noteq> 0) \<and>
    snd (forward_query_lookup env a F) = F \<and> snd (indirect_client_lookup env a F) = F"
  using wire_ok_reachable [OF assms]
  by (auto simp: wire_ok_def sessions_ok_def forward_lookup_same indirect_lookup_same)
    (simp add: lists_ok_def SCDM_MAX_FORWARD_QUERIES_def)

text \<open>A full list of forwarded queries makes room by dropping the newest, though the function
  is called \<open>remove_oldest_forward\<close>: the query that arrived last before is lost, those before
  it stay. \<open>lists_ok\<close> holds in every reachable state.\<close>

theorem full_forward_list_drops_newest:
  assumes "lists_ok F" and "forward_queries F = q # qs" and "length qs = SCDM_MAX_FORWARD_QUERIES"
  shows "\<exists>new. forward_queries (forward_query_create m d F) = new # qs \<and>
    fq_dsp_address new = d \<and> fq_from_address new = m"
  using assms(2,3) trim_forwards_lists_ok [OF assms(1)]
  by (simp add: forward_query_create_def Let_def del: trim_forwards.simps)

section \<open>Limits\<close>

text \<open>No display of the store is in the status the purge and the count of pending sessions look
  for. Displays that wait for a \<open>MANAGE\<close> are prepared.\<close>

definition none_unmanaged :: "xfactory \<Rightarrow> bool" where
  "none_unmanaged F \<longleftrightarrow>
     (\<forall>(i, oid) \<in> set (displays (xstore F)). case xdmcp_object F oid of
        None \<Rightarrow> True | Some x \<Rightarrow> d_status (xd_display x) \<noteq> GDM_DISPLAY_UNMANAGED)"

lemma foreach_remove_nothing:
  "\<forall>(i, d) \<in> set (displays s). \<not> P i d \<Longrightarrow> fst (scdm_display_store_foreach_remove s P) = s"
proof -
  assume none: "\<forall>(i, d) \<in> set (displays s). \<not> P i d"
  then have "filter (\<lambda>(i, d). P i d) (displays s) = []" by (auto simp: filter_empty_conv)
  moreover have "filter (\<lambda>(i, d). \<not> P i d) (displays s) = displays s" using none by (auto simp: filter_id_conv)
  ultimately show ?thesis by (simp add: scdm_display_store_foreach_remove_def Let_def)
qed

lemma count_sessions_pending:
  assumes "none_unmanaged F"
  shows "snd (scdm_display_store_foreach (xstore F) (count_sessions F) (a, b)) = b"
proof -
  have "\<forall>(i, oid) \<in> set xs. case xdmcp_object F oid of
      None \<Rightarrow> True | Some x \<Rightarrow> d_status (xd_display x) \<noteq> GDM_DISPLAY_UNMANAGED \<Longrightarrow>
    snd (fold (\<lambda>(i, oid). count_sessions F i oid) xs (a, b)) = b" for xs a
    by (induction xs arbitrary: a) (auto simp: count_sessions_def split: option.splits)
  then show ?thesis using assms by (simp add: none_unmanaged_def scdm_display_store_foreach_def)
qed

lemma recount_pending:
  "none_unmanaged F \<Longrightarrow> num_pending_sessions (scdm_xdmcp_recount_sessions F) = 0"
  using count_sessions_pending [of F 0 0] by (auto simp: scdm_xdmcp_recount_sessions_def split: prod.splits)

lemma xdmcp_object_cong [simp]:
  "xdmcp_object (F\<lparr>xstore := s\<rparr>) = xdmcp_object F" "xdmcp_object (F\<lparr>xcache := c\<rparr>) = xdmcp_object F"
  "xdmcp_object (scdm_xdmcp_recount_sessions F) = xdmcp_object F"
  by (auto simp: fun_eq_iff xdmcp_object_def scdm_xdmcp_recount_sessions_def split: prod.splits)

lemma recount_frame [simp]:
  "xstore (scdm_xdmcp_recount_sessions F) = xstore F" "xheap (scdm_xdmcp_recount_sessions F) = xheap F"
  "max_displays_per_host (scdm_xdmcp_recount_sessions F) = max_displays_per_host F"
  "max_pending_displays (scdm_xdmcp_recount_sessions F) = max_pending_displays F"
  "xcache (scdm_xdmcp_recount_sessions F) = xcache F" "xlog (scdm_xdmcp_recount_sessions F) = xlog F"
  by (auto simp: scdm_xdmcp_recount_sessions_def split: prod.splits)

lemma none_unmanaged_remove:
  "none_unmanaged F \<Longrightarrow> none_unmanaged (F\<lparr>xstore := fst (scdm_display_store_foreach_remove (xstore F) P)\<rparr>)"
  by (auto simp: none_unmanaged_def scdm_display_store_foreach_remove_def Let_def)

text \<open>The limit on pending displays is never reached: a display that was accepted and waits
  for its \<open>MANAGE\<close> is prepared, but only unmanaged displays are counted as pending. However
  many are waiting, the next request that gets past the other limits is accepted.\<close>

theorem pending_limit_not_enforced:
  assumes "none_unmanaged F" and "0 < max_pending_displays F"
  shows "enter_display env address hostname dspnum F =
    accept_display env address hostname dspnum (display_dispose_check (Some hostname) (uint dspnum) F)"
proof -
  let ?F = "F\<lparr>xstore := fst (scdm_display_store_foreach_remove (xstore F) (remove_host F hostname (uint dspnum)))\<rparr>"
  have "num_pending_sessions (scdm_xdmcp_recount_sessions ?F) = 0"
    by (rule recount_pending [OF none_unmanaged_remove [OF assms(1)]])
  then show ?thesis using assms(2)
    by (auto simp add: enter_display_def display_dispose_check_def Let_def)
qed

lemma purge_nothing:
  assumes "none_unmanaged F"
  shows "scdm_xdmcp_displays_purge env F = scdm_xdmcp_recount_sessions F"
proof -
  have "fst (scdm_display_store_foreach_remove (xstore F) (purge_displays_xdmcp env F)) = xstore F"
    by (rule foreach_remove_nothing)
      (use assms in \<open>auto simp: none_unmanaged_def purge_displays_xdmcp_def split: option.splits\<close>)
  then show ?thesis by (simp add: scdm_xdmcp_displays_purge_def)
qed

lemma num_from_host_cong:
  assumes "xstore G = xstore F" and "xdmcp_object G = xdmcp_object F"
  shows "scdm_xdmcp_num_displays_from_host env G a = scdm_xdmcp_num_displays_from_host env F a"
proof -
  have "count_displays_from_host env G a = count_displays_from_host env F a"
    by (simp add: fun_eq_iff count_displays_from_host_def assms)
  then show ?thesis by (simp add: scdm_xdmcp_num_displays_from_host_def assms)
qed

lemma decline_sends:
  "\<exists>p fx. xlog (scdm_xdmcp_send_decline env a s F) = xlog F @ Send p # fx \<and> pk_opcode p = DECLINE \<and> pk_to p = a"
proof -
  define p where "p = \<lparr>pk_to = a, pk_opcode = DECLINE, pk_version = XDM_PROTOCOL_VERSION,
    pk_length = (2 + len8 (array8 s)) + (2 + len8 []) + (2 + len8 []),
    pk_fields = [ARRAY8 (array8 s), ARRAY8 [], ARRAY8 []]\<rparr>"
  then have "pk_opcode p = DECLINE" "pk_to p = a"
    "scdm_xdmcp_send_decline env a s F = resolve_forward env a (xemit [Send p] F)"
    by (simp_all add: scdm_xdmcp_send_decline_def send_packet_def Let_def)
  then show ?thesis using proto_resolve [of "xemit [Send p] F" env a]
    by (auto simp: proto_def extends_def intro!: exI [of _ p])
qed

text \<open>C25. A host that abandons a request is shut out for good: while the display it was
  accepted for is in the store, which no purge ever changes, and the host has as many displays as
  it may, every later request is declined and changes no display, at whatever time it comes.
  Repeating the request for the same display is no way out: the old display would be removed, but
  only after the limit was checked.\<close>

theorem abandoned_request_blocks_host:
  assumes "none_unmanaged F" and "scdm_xdmcp_host_allow env a"
    and "read_request q = Some (dspnum, mitauth, uint len)"
    and "\<not> local_address (xe_net env) (xcache F) a"
    and "max_displays_per_host F \<le> of_nat (scdm_xdmcp_num_displays_from_host env F a)"
  shows "\<exists>F' p fx. scdm_xdmcp_handle_request env a len q F = Some F' \<and>
    xheap F' = xheap F \<and> xstore F' = xstore F \<and>
    xlog F' = xlog F @ Send p # fx \<and> pk_opcode p = DECLINE \<and> pk_to p = a"
proof -
  let ?F = "scdm_xdmcp_recount_sessions F"
  obtain b F1 where b: "request_allowed env a mitauth ?F = (b, F1)" by fastforce
  have F1: "proto ?F F1" by (rule proto_request_allowed [OF b])
  have "F1 = ?F \<or> (\<exists>c. F1 = ?F\<lparr>xcache := c\<rparr>)"
    using b by (auto simp: request_allowed_def is_local_def split: if_splits prod.splits)
  then have log: "xlog F1 = xlog F" by auto
  have "\<not> b"
  proof -
    have n: "scdm_xdmcp_num_displays_from_host env (?F\<lparr>xcache := c\<rparr>) a = scdm_xdmcp_num_displays_from_host env F a" for c
      by (rule num_from_host_cong) simp_all
    show ?thesis using b assms(4,5) n
      by (auto simp: request_allowed_def is_local_def local_address_def not_less split: if_splits prod.splits)
  qed
  obtain s where r: "scdm_xdmcp_handle_request env a len q F = Some (scdm_xdmcp_send_decline env a s F1)"
    using assms(2,3) b \<open>\<not> b\<close> by (simp add: scdm_xdmcp_handle_request_def purge_nothing [OF assms(1)] Let_def)
  have "same_displays ?F (scdm_xdmcp_send_decline env a s F1)"
    using proto_trans [OF F1 proto_decline] by (simp add: proto_def)
  then show ?thesis using r decline_sends [of env a s F1] log by (auto simp: same_displays_def)
qed

section \<open>From acceptance to management\<close>

lemma update_in: "x \<in> set (AList.update i d xs) \<Longrightarrow> x = (i, d) \<or> x \<in> set xs"
  by (induction xs) (auto split: if_splits)

lemma find_unique:
  assumes "(i, d) \<in> set xs" and "P i d" and u: "\<And>j e. (j, e) \<in> set xs \<Longrightarrow> P j e \<Longrightarrow> e = d"
  shows "map_option snd (List.find (\<lambda>(i, d). P i d) xs) = Some d"
proof (cases "List.find (\<lambda>(i, d). P i d) xs")
  case None
  then show ?thesis using assms(1,2) by (auto simp: find_None_iff)
next
  case (Some p)
  then have "p \<in> set xs \<and> P (fst p) (snd p)" using find_in [OF Some] by (simp add: case_prod_unfold)
  then have "snd p = d" using u [of "fst p" "snd p"] by simp
  then show ?thesis using Some by simp
qed

lemma lookup_unique:
  assumes "(i, oid) \<in> set (displays (xstore F))" and "lookup_by_session_id_xdmcp F s i oid" and "s \<noteq> 0"
    and "\<And>j o'. (j, o') \<in> set (displays (xstore F)) \<Longrightarrow> lookup_by_session_id_xdmcp F s j o' \<Longrightarrow> o' = oid"
  shows "scdm_xdmcp_display_lookup F s = Some oid"
proof -
  have "map_option snd (List.find (\<lambda>(i, d). lookup_by_session_id_xdmcp F s i d) (displays (xstore F))) = Some oid"
    by (rule find_unique [of i]) (use assms in blast)+
  then show ?thesis using assms(3) by (simp add: scdm_xdmcp_display_lookup_def scdm_display_store_find_def)
qed

text \<open>C26. What is accepted can be managed: the session number sent with the acceptance is not 0,
  finds the display that was made for it, and a \<open>MANAGE\<close> with that number, from a host
  that is let in, starts the display instead of being refused, as long as no other display of
  the store has the number.\<close>

theorem accepted_session_can_be_managed:
  assumes "scdm_xdmcp_display_create env hostname a n F = Some (Some oid, F')"
    and "\<forall>(i, o') \<in> set (displays (xstore F)). o' \<noteq> oid \<and>
      map_option xd_session_number (xheap F o') \<noteq> map_option xd_session_number (xheap F' oid)"
    and "scdm_xdmcp_host_allow env' b"
  shows "\<exists>s. map_option xd_session_number (xheap F' oid) = Some s \<and> s \<noteq> 0 \<and>
    scdm_xdmcp_display_lookup F' s = Some oid \<and>
    scdm_xdmcp_handle_manage env' b (Some s) (Some m) (Some c) F' = manage_prepared env' b s oid F'"
proof -
  obtain F1 F2 kind serial where 1: "proto F F1" and s: "get_next_session_serial env F1 = Some (serial, F2)"
    and kind: "kind \<in> {XdmcpDisplay, XdmcpChooserDisplay}"
    and F': "Some oid = None \<and> F' = F2\<lparr>xnext := Suc (xnext F1)\<rparr> \<or>
      (\<exists>d. Some oid = Some (xnext F1) \<and>
        same_config (xd_display (scdm_xdmcp_display_new env kind (xnext F1) hostname n a serial)) d \<and>
        d_status d = GDM_DISPLAY_PREPARED \<and>
        F' = F2\<lparr>xnext := Suc (xnext F1),
          xheap := (xheap F2)(xnext F1 \<mapsto> (scdm_xdmcp_display_new env kind (xnext F1) hostname n a serial)\<lparr>xd_display := d\<rparr>),
          xstore := scdm_display_store_add (xstore F2) (d_id d) (xnext F1),
          num_pending_sessions := num_pending_sessions F2 + 1\<rparr>)"
    using display_create_facts [OF assms(1)] by metis
  obtain t where F2: "F2 = F1\<lparr>session_serial := t\<rparr>" "serial \<noteq> 0" using next_session_serial_facts [OF s] by metis
  obtain d where d: "oid = xnext F1" "d_kind d = kind" "d_status d = GDM_DISPLAY_PREPARED"
    "xheap F' = (xheap F)(oid \<mapsto> (scdm_xdmcp_display_new env kind (xnext F1) hostname n a serial)\<lparr>xd_display := d\<rparr>)"
    "xstore F' = scdm_display_store_add (xstore F) (d_id d) oid"
    using F' F2 1 by (auto simp: same_config_def proto_def same_displays_def scdm_xdmcp_display_new_def)
  have obj: "xheap F' oid = Some ((scdm_xdmcp_display_new env kind (xnext F1) hostname n a serial)\<lparr>xd_display := d\<rparr>)"
    "xd_session_number ((scdm_xdmcp_display_new env kind (xnext F1) hostname n a serial)\<lparr>xd_display := d\<rparr>) = serial"
    using d(4) by (simp_all add: scdm_xdmcp_display_new_def)
  have mine: "lookup_by_session_id_xdmcp F' serial i oid" for i
    using obj d(2) kind by (auto simp: lookup_by_session_id_xdmcp_def xdmcp_object_def)
  have u: "o' = oid" if "(i, o') \<in> set (displays (xstore F'))" "lookup_by_session_id_xdmcp F' serial i o'" for i o'
  proof (rule ccontr)
    assume "o' \<noteq> oid"
    then have "(i, o') \<in> set (displays (xstore F))"
      using that(1) d(5) by (auto simp: scdm_display_store_add_def dest: update_in)
    moreover have "map_option xd_session_number (xheap F o') = Some serial"
      using that(2) \<open>o' \<noteq> oid\<close> d(4)
      by (auto simp: lookup_by_session_id_xdmcp_def xdmcp_object_def split: option.splits if_splits)
    ultimately show False using assms(2) obj by auto
  qed
  have m: "(d_id d, oid) \<in> set (displays (xstore F'))"
    using map_of_SomeD [of "AList.update (d_id d) oid (displays (xstore F))" "d_id d" oid] d(5)
    by (simp add: scdm_display_store_add_def update_conv')
  have l: "scdm_xdmcp_display_lookup F' serial = Some oid"
    by (rule lookup_unique [OF m mine F2(2) u])
  have "scdm_xdmcp_handle_manage env' b (Some serial) (Some m) (Some c) F' = manage_prepared env' b serial oid F'"
    using assms(3) l obj(1) d(3) by (simp add: scdm_xdmcp_handle_manage_def)
  then show ?thesis using l obj F2(2) by auto
qed

section \<open>Forwarding\<close>

text \<open>A manager that resolves a forwarded query tells so at most three times: once at once,
  and twice more when the timeout runs out unanswered; then nothing of it is left.\<close>

theorem managed_forward_three_times:
  assumes "socket_fd F > 0" and "\<forall>mf \<in> set (managed_forwards F). mf_ptr mf \<noteq> xnext F"
    and "managed_forward_handler (xnext F) (scdm_xdmcp_send_managed_forward a d F) = (b1, F1)"
    and "managed_forward_handler (xnext F) F1 = (b2, F2)"
  shows "b1 \<and> \<not> b2 \<and> managed_forwards F2 = managed_forwards F \<and>
    (\<exists>p. sent (xlog F2) = sent (xlog F) @ [p, p, p] \<and> pk_to p = a \<and> pk_opcode p = GDM_XDMCP_MANAGED_FORWARD)"
proof -
  define p where "p = \<lparr>pk_to = a, pk_opcode = GDM_XDMCP_MANAGED_FORWARD, pk_version = GDM_XDMCP_PROTOCOL_VERSION,
    pk_length = 4 + len8 (set_address_for_request d), pk_fields = [ARRAY8 (set_address_for_request d)]\<rparr>"
  have send: "scdm_xdmcp_really_send_managed_forward a d G = xemit [Send p] G" for G
    by (simp add: scdm_xdmcp_really_send_managed_forward_def send_packet_def p_def Let_def)
  let ?m = "\<lambda>t. \<lparr>mf_ptr = xnext F, mf_times = t, mf_manager = a, mf_origin = d\<rparr>"
  have keep: "map (\<lambda>m. if mf_ptr m = xnext F then m\<lparr>mf_times := t\<rparr> else m) (managed_forwards F) = managed_forwards F" for t
    using assms(2) by (intro map_idI) auto
  have drop: "filter (\<lambda>m. mf_ptr m \<noteq> xnext F) (managed_forwards F) = managed_forwards F"
    using assms(2) by (auto simp: filter_id_conv)
  have 1: "b1" "managed_forwards F1 = ?m 1 # managed_forwards F" "socket_fd F1 > 0"
    "sent (xlog F1) = sent (xlog F) @ [p, p]"
    using assms(1,3) keep
    by (auto simp: scdm_xdmcp_send_managed_forward_def managed_forward_handler_def send Let_def)
  then have "\<not> b2 \<and> managed_forwards F2 = managed_forwards F \<and> sent (xlog F2) = sent (xlog F) @ [p, p, p]"
    using assms(4) drop by (auto simp: managed_forward_handler_def send Let_def)
  then show ?thesis using 1(1) by (auto simp: p_def)
qed

lemma uint_of_nat_u16: "n < 2 ^ 16 \<Longrightarrow> uint (of_nat n :: u16) = int n"
  by (simp add: unsigned_of_nat take_bit_nat_eq_self)

text \<open>A forwarded query is understood by the manager it is sent to: its three fields add up
  to the length in the header as the receiver checks it, so that the receiver goes on to the
  display's address, unless the names of the authorizations make the packet too long for its
  length field.\<close>

theorem forward_query_passes_checksum:
  assumes "scdm_xdmcp_send_forward_query ic from display authlist F = Some F'"
    and "23 + sum_list (map (\<lambda>a. 2 + length a) authlist) < 2 ^ 16"
    and "scdm_xdmcp_host_allow env peer"
  shows "\<exists>p addr port. xlog F' = xlog F @ [Send p] \<and> Some (pk_to p) = ic_chosen_address ic \<and>
    pk_fields p = [ARRAY8 addr, ARRAY8 port, ARRAYofARRAY8 authlist] \<and>
    scdm_xdmcp_handle_forward_query env peer (pk_length p) (Some addr) (Some port) (Some authlist) G =
      (case create_address_from_request env addr (Some port) (ss_family peer) of
         (False, _) \<Rightarrow> Some G
       | (True, None) \<Rightarrow> None
       | (True, Some disp) \<Rightarrow> Some (accept_forward env peer disp G))"
proof -
  obtain chosen port where c: "ic_chosen_address ic = Some chosen" "set_port_for_request from = Some port"
    using assms(1) by (auto simp: scdm_xdmcp_send_forward_query_def split: option.splits)
  let ?addr = "set_address_for_request display"
  let ?n = "5 + length ?addr + length port + sum_list (map (\<lambda>a. 2 + length a) authlist)"
  let ?len = "(2 + len8 ?addr) + (2 + len8 port) + 1 + sum_list (map (\<lambda>a. 2 + len8 a) authlist)"
  have small: "length ?addr \<le> 16" "length port = 2"
    using c(2) by (auto simp: set_address_for_request_def set_port_for_request_def split: if_splits)
  then have n: "?n < 2 ^ 16" using assms(2) by simp
  have "?len = of_nat ?n" using sum_authlist [of authlist] by (simp add: len8_def)
  then have "uint ?len = int ?n" using uint_of_nat_u16 [OF n] by (simp only:)
  moreover have "authlist_len authlist = int (1 + sum_list (map (\<lambda>a. 2 + length a) authlist))"
    unfolding authlist_len_def by (induction authlist) auto
  ultimately have "uint ?len = authlist_len authlist + (2 + int (length ?addr)) + (2 + int (length port))" by simp
  then show ?thesis
    using assms(1,3) c
    by (intro exI [of _ "\<lparr>pk_to = chosen, pk_opcode = FORWARD_QUERY, pk_version = XDM_PROTOCOL_VERSION,
          pk_length = ?len, pk_fields = [ARRAY8 ?addr, ARRAY8 port, ARRAYofARRAY8 authlist]\<rparr>"]
        exI [of _ ?addr] exI [of _ port])
      (auto simp: scdm_xdmcp_send_forward_query_def send_packet_def Let_def scdm_xdmcp_handle_forward_query_def
        scdm_address_get_family_type_def)
qed

text \<open>A host name selected in a chooser ends the process exactly when the client whose
  chooser it was is not, or no longer, among the indirect clients, as after a
  \<open>MANAGED_FORWARD\<close> for it: the client is used without a check.\<close>

theorem hostname_selected_unknown_client:
  assumes "lists_ok F" and "xheap F oid = Some x"
  shows "on_hostname_selected env oid hostname F = None \<longleftrightarrow>
    (\<forall>ic \<in> set (indirect_clients F). \<not> address_eq env (ic_dsp_address ic) (xd_remote_address x))"
  using assms(2)
  by (auto simp: on_hostname_selected_def indirect_lookup_same [OF assms(1)] Let_def find_None_iff split: option.splits
      dest: find_in)

section \<open>Hosts that are not let in\<close>

text \<open>C27. A host that tcp_wrappers does not let in changes nothing: whatever it sends, no display,
  no query, no client and no forward is added, removed or altered. The only answer it can get
  is one \<open>UNWILLING\<close> to a \<open>QUERY\<close>, and none within a second of the last one sent.\<close>

theorem banned_host_changes_nothing:
  assumes "decode_packet env readable (Some (i, r)) F = Some F'"
    and "\<not> scdm_xdmcp_host_allow env (in_from i)"
  shows "same_displays F F' \<and> forward_queries F' = forward_queries F \<and> indirect_clients F' = indirect_clients F \<and>
    managed_forwards F' = managed_forwards F \<and>
    (xlog F' = xlog F \<or>
     in_opcode i = QUERY \<and> last_unwilling F + 1 < ne_now (xe_net env) \<and>
     (\<exists>p. xlog F' = xlog F @ [Send p] \<and> pk_opcode p = UNWILLING \<and> pk_to p = in_from i))"
  using assms(1)
proof (cases rule: decode_packet_cases)
  case (handled i' r' F1)
  then have i: "i' = i" "r' = r" by simp_all
  have F1: "same_displays F F1 \<and> forward_queries F1 = forward_queries F \<and> indirect_clients F1 = indirect_clients F \<and>
    managed_forwards F1 = managed_forwards F \<and> xlog F1 = xlog F \<and> last_unwilling F1 = last_unwilling F"
    using handled(4) i by (auto simp: is_local_def same_displays_def split: prod.splits)
  have "F' = F1 \<or> in_opcode i = QUERY \<and> F' = scdm_xdmcp_send_unwilling env (in_from i) F1"
    using handled(8) assms(2) i
    by (auto simp: dispatch_def scdm_xdmcp_handle_broadcast_query_def scdm_xdmcp_handle_query_def
        scdm_xdmcp_handle_indirect_query_def scdm_xdmcp_handle_forward_query_def scdm_xdmcp_handle_request_def
        scdm_xdmcp_handle_manage_def scdm_xdmcp_handle_keepalive_def scdm_xdmcp_handle_managed_forward_def
        scdm_xdmcp_handle_got_managed_forward_def split: if_splits prod.splits)
  then show ?thesis
  proof
    assume q: "in_opcode i = QUERY \<and> F' = scdm_xdmcp_send_unwilling env (in_from i) F1"
    then show ?thesis using F1
      by (auto simp: scdm_xdmcp_send_unwilling_def send_packet_def same_displays_def xemit_def Let_def)
  qed (use F1 in simp)
qed simp

section \<open>Examples\<close>

definition example_settings :: xdmcp_settings where
  "example_settings = \<lparr>st_multicast = False, st_indirect = True, st_displays_per_host = 1, st_max_sessions = 16,
     st_max_pending = 4, st_max_wait = 30, st_max_wait_indirect = 30, st_willing = None\<rparr>"

definition example_xauth :: auth_env where
  "example_xauth = \<lparr>ae_fs = example_fs, ae_xauth_dir = ''/x'', ae_scdm_user = ''joe'',
     ae_garbage_gid = 0, ae_random = Inr [7], ae_wrote = (\<lambda>_. True), ae_hostname = None, ae_dirname = id\<rparr>"

text \<open>Hosts with an address below 256 are not let in.\<close>

definition example_xenv :: xdmcp_env where
  "example_xenv = \<lparr>xe_net = example_net, xe_hosts_ctl = Some (\<lambda>a. 256 \<le> sin_addr a), xe_parse_argv = (\<lambda>_. None),
     xe_executable = (\<lambda>_. False), xe_popen = (\<lambda>_. None), xe_inet_ntop = (\<lambda>_. Some ''10.0.0.9''),
     xe_getaddrinfo = (\<lambda>_ _ _. None), xe_random = [5], xe_session = (\<lambda>_. True),
     xe_allow_remote_autologin = False, xe_auth = (\<lambda>_. example_xauth), xe_accounts = (\<lambda>_. Inr (Inr 1)),
     xe_setup = (\<lambda>_. \<lparr>se_ran_already = True, se_cmdline = None, se_setup_argument = (\<lambda>_. None),
                  se_session_file_exists = (\<lambda>_. False), se_initial_setup_enable = None\<rparr>),
     xe_server = (\<lambda>_. \<lparr>sv_disallow_tcp = None, sv_start = True\<rparr>)\<rparr>"

definition example_factory :: xfactory where
  "example_factory = factory_init 7 ''Linux'' ''host'' example_settings"

definition example_host :: address where "example_host = inet 6000 0x0a000009"

definition no_reads :: reads where
  "no_reads = \<lparr>rd_authlist = Some [], rd_forward = (None, None, None),
     rd_request = \<lparr>rq_dspnum = Some 0, rq_conntyp = Some [0], rq_addr = Some [[10, 0, 0, 9]], rq_authname = Some [],
       rq_authdata = Some [], rq_authorization_names = Some [map of_char MIT_MAGIC_COOKIE_1], rq_manufacturer = Some []\<rparr>,
     rd_manage = (None, None, None), rd_address = None, rd_keepalive = (None, None)\<rparr>"

definition example_packet :: "address \<Rightarrow> u16 \<Rightarrow> u16 \<Rightarrow> incoming" where
  "example_packet a op len = \<lparr>in_from = a, in_size = 16, in_version = 1, in_opcode = op, in_length = len\<rparr>"

text \<open>The store holds one prepared display of the host.\<close>

definition waiting_xfactory :: xfactory where
  "waiting_xfactory = example_factory\<lparr>
     xheap := [0 \<mapsto> \<lparr>xd_display = (fresh_display XdmcpDisplay ''d0'')\<lparr>d_status := GDM_DISPLAY_PREPARED\<rparr>,
                     xd_remote_address = example_host, xd_session_number = 7, xd_creation_time = 0\<rparr>],
     xnext := 1, xstore := \<lparr>displays = [(''d0'', 0)], store_log = []\<rparr>\<rparr>"

lemmas xexample_simps = example_settings_def example_xauth_def example_fs_def example_xenv_def example_net_def
  example_host_def example_packet_def no_reads_def factory_init_def empty_cache_def example_factory_def

lemma waiting_xfactory_simps [simp]:
  "max_displays_per_host waiting_xfactory = 1" "xcache waiting_xfactory = empty_cache"
  "displays (xstore waiting_xfactory) = [(''d0'', 0)]" "max_pending_displays waiting_xfactory = 4"
  by (simp_all add: waiting_xfactory_def xexample_simps)

lemma waiting_none_unmanaged: "none_unmanaged waiting_xfactory"
  by (simp add: none_unmanaged_def xdmcp_object_def waiting_xfactory_def)

lemma example_query:
  "\<exists>F p. decode_packet example_xenv True (Some (example_packet example_host QUERY 1, no_reads)) example_factory = Some F \<and>
     Send p \<in> set (xlog F)"
  by (auto simp: decode_packet_def xexample_simps scdm_address_new_from_sockaddr_def XDM_PROTOCOL_VERSION_def
      dispatch_def opcodes scdm_xdmcp_handle_query_def scdm_xdmcp_host_allow_def handle_direct_query_def
      authlist_len_def scdm_xdmcp_send_willing_def send_packet_def Let_def inet_def split: prod.splits)

theorem decode_packet_garbage_witness:
  "\<exists>F. decode_packet example_xenv True (Some (example_packet example_host MANAGE 2, no_reads)) example_factory = Some F \<and>
    \<not> no_garbage F"
proof -
  let ?p = "Some (example_packet example_host MANAGE 2, no_reads)"
  have t: "truncated_manage example_xenv True ?p"
    by (simp add: truncated_manage_def xexample_simps scdm_xdmcp_host_allow_def inet_def XDM_PROTOCOL_VERSION_def)
  obtain F where F: "decode_packet example_xenv True ?p example_factory = Some F"
    using truncated_manage_decode [OF t, of example_factory] by blast
  have "no_garbage example_factory" by (simp add: no_garbage_def xexample_simps)
  then show ?thesis using decode_packet_garbage [OF F] F t by blast
qed

theorem packets_well_sized_witness:
  "\<exists>F p. xdmcp_step\<^sup>*\<^sup>* example_factory F \<and> Send p \<in> set (xlog F) \<and>
    pk_length p = of_nat (sum_list (map field_size (pk_fields p)))
      + (if pk_opcode p = GDM_XDMCP_MANAGED_FORWARD \<or> pk_opcode p = GDM_XDMCP_GOT_MANAGED_FORWARD then 2 else 0)"
proof -
  obtain F p where F: "decode_packet example_xenv True (Some (example_packet example_host QUERY 1, no_reads))
      example_factory = Some F" "Send p \<in> set (xlog F)"
    using example_query by blast
  have "xdmcp_step\<^sup>*\<^sup>* example_factory F" by (rule r_into_rtranclp) (rule xdmcp_step.packet [OF F(1)])
  then have "xdmcp_step\<^sup>*\<^sup>* (factory_init 7 ''Linux'' ''host'' example_settings) F" by (simp add: example_factory_def)
  from packets_well_sized [OF this F(2)] \<open>xdmcp_step\<^sup>*\<^sup>* example_factory F\<close> F(2) show ?thesis by blast
qed

theorem xdmcp_lists_bounded_witness:
  "length (forward_queries (purge_idle example_factory)) \<le> 11 \<and>
    snd (forward_query_lookup example_xenv (inet 1 9) (purge_idle example_factory)) = purge_idle example_factory"
proof -
  have "xdmcp_step\<^sup>*\<^sup>* (factory_init 7 ''Linux'' ''host'' example_settings) (purge_idle example_factory)"
    unfolding example_factory_def by (rule r_into_rtranclp) (rule xdmcp_step.purge)
  then show ?thesis using xdmcp_lists_bounded by blast
qed

definition example_query_of :: "nat \<Rightarrow> forward_query" where
  "example_query_of n = \<lparr>fq_ptr = n, fq_acctime = 0, fq_dsp_address = inet 1 (of_nat n), fq_from_address = inet 2 0\<rparr>"

theorem full_forward_list_drops_newest_witness:
  "map fq_ptr (forward_queries (forward_query_create (inet 2 9) (inet 1 9)
     (example_factory\<lparr>forward_queries := map example_query_of [10,9,8,7,6,5,4,3,2,1,0], xnext := 11\<rparr>))) = [11,9,8,7,6,5,4,3,2,1,0]"
proof -
  let ?F = "example_factory\<lparr>forward_queries := map example_query_of [10,9,8,7,6,5,4,3,2,1,0], xnext := 11\<rparr>"
  have l: "lists_ok ?F"
    by (simp add: lists_ok_def xexample_simps example_query_of_def SCDM_MAX_FORWARD_QUERIES_def)
  have "\<exists>new. forward_queries (forward_query_create (inet 2 9) (inet 1 9) ?F) =
      new # map example_query_of [9,8,7,6,5,4,3,2,1,0] \<and> fq_dsp_address new = inet 1 9 \<and> fq_from_address new = inet 2 9"
    by (rule full_forward_list_drops_newest [OF l]) (simp_all add: SCDM_MAX_FORWARD_QUERIES_def)
  then obtain new where n: "forward_queries (forward_query_create (inet 2 9) (inet 1 9) ?F) =
      new # map example_query_of [9,8,7,6,5,4,3,2,1,0]" by blast
  have "fq_ptr (hd (forward_queries (forward_query_create (inet 2 9) (inet 1 9) ?F))) = 11"
    using trim_forwards_lists_ok [OF l] by (simp add: forward_query_create_def Let_def del: trim_forwards.simps)
  then show ?thesis using n by (simp add: example_query_of_def)
qed

theorem pending_limit_not_enforced_witness:
  "enter_display example_xenv example_host ''h'' 3 waiting_xfactory =
     accept_display example_xenv example_host ''h'' 3 (display_dispose_check (Some ''h'') 3 waiting_xfactory)"
  using pending_limit_not_enforced [OF waiting_none_unmanaged, of example_xenv example_host "''h''" 3] by simp

theorem abandoned_request_blocks_host_witness:
  "\<exists>F' p fx. scdm_xdmcp_handle_request example_xenv example_host 39 (rd_request no_reads) waiting_xfactory = Some F' \<and>
    xlog F' = Send p # fx \<and> pk_opcode p = DECLINE \<and> pk_to p = example_host"
proof -
  have r: "read_request (rd_request no_reads) = Some (0, True, uint (39 :: u16))"
    by (simp add: read_request_def no_reads_def authlist_len_def MIT_MAGIC_COOKIE_1_def)
  have l: "\<not> local_address (xe_net example_xenv) (xcache waiting_xfactory) example_host"
    by (simp add: local_address_def scdm_address_is_local_def scdm_address_peek_local_list_def xexample_simps
        add_local_siocgifconf_def add_local_addrinfo_def siocgif_address_def equal_opt_def
        scdm_address_is_loopback_def INADDR_LOOPBACK_def families Let_def)
  have n: "max_displays_per_host waiting_xfactory
      \<le> of_nat (scdm_xdmcp_num_displays_from_host example_xenv waiting_xfactory example_host)"
    by (simp add: scdm_xdmcp_num_displays_from_host_def scdm_display_store_foreach_def count_displays_from_host_def
        xdmcp_object_def waiting_xfactory_def xexample_simps)
  have a: "scdm_xdmcp_host_allow example_xenv example_host"
    by (simp add: scdm_xdmcp_host_allow_def xexample_simps inet_def)
  show ?thesis
    using abandoned_request_blocks_host [OF waiting_none_unmanaged a r l n]
    by (auto simp: waiting_xfactory_def xexample_simps)
qed

theorem managed_forward_three_times_witness:
  "\<exists>b1 F1 b2 F2. managed_forward_handler (xnext waiting_xfactory)
      (scdm_xdmcp_send_managed_forward example_host example_host (waiting_xfactory\<lparr>socket_fd := 3\<rparr>)) = (b1, F1) \<and>
    managed_forward_handler (xnext waiting_xfactory) F1 = (b2, F2) \<and> b1 \<and> \<not> b2 \<and> length (sent (xlog F2)) = 3"
proof -
  let ?F = "waiting_xfactory\<lparr>socket_fd := 3\<rparr>"
  obtain b1 F1 where 1: "managed_forward_handler (xnext ?F)
      (scdm_xdmcp_send_managed_forward example_host example_host ?F) = (b1, F1)" by fastforce
  obtain b2 F2 where 2: "managed_forward_handler (xnext ?F) F1 = (b2, F2)" by fastforce
  have "b1 \<and> \<not> b2 \<and> managed_forwards F2 = managed_forwards ?F \<and>
    (\<exists>p. sent (xlog F2) = sent (xlog ?F) @ [p, p, p] \<and> pk_to p = example_host \<and> pk_opcode p = GDM_XDMCP_MANAGED_FORWARD)"
    by (rule managed_forward_three_times [OF _ _ 1 2]) (simp_all add: waiting_xfactory_def xexample_simps)
  then have "b1 \<and> \<not> b2 \<and> length (sent (xlog F2)) = 3" by (auto simp: waiting_xfactory_def xexample_simps)
  then show ?thesis using 1 2 by auto
qed

theorem forward_query_passes_checksum_witness:
  "\<exists>F' p addr port. scdm_xdmcp_send_forward_query
      \<lparr>ic_ptr = 0, ic_dsp_address = example_host, ic_chosen_address = Some (inet 177 0x0a000002), ic_acctime = 0\<rparr>
      example_host example_host [[1, 2]] example_factory = Some F' \<and> xlog F' = [Send p] \<and>
    scdm_xdmcp_handle_forward_query (example_xenv\<lparr>xe_getaddrinfo := (\<lambda>_ _ _. Some [(example_host, 16)])\<rparr>) example_host
      (pk_length p) (Some addr) (Some port) (Some [[1, 2]]) example_factory =
    Some (accept_forward (example_xenv\<lparr>xe_getaddrinfo := (\<lambda>_ _ _. Some [(example_host, 16)])\<rparr>) example_host example_host
      example_factory)"
proof -
  let ?ic = "\<lparr>ic_ptr = 0, ic_dsp_address = example_host, ic_chosen_address = Some (inet 177 0x0a000002), ic_acctime = 0\<rparr>"
  let ?env = "example_xenv\<lparr>xe_getaddrinfo := (\<lambda>_ _ _. Some [(example_host, 16)])\<rparr>"
  obtain F' where F': "scdm_xdmcp_send_forward_query ?ic example_host example_host [[1, 2]] example_factory = Some F'"
    by (simp add: scdm_xdmcp_send_forward_query_def set_port_for_request_def example_host_def Let_def)
  have a: "scdm_xdmcp_host_allow ?env example_host"
    by (simp add: scdm_xdmcp_host_allow_def xexample_simps inet_def)
  obtain p addr port where p: "xlog F' = xlog example_factory @ [Send p]"
    "pk_fields p = [ARRAY8 addr, ARRAY8 port, ARRAYofARRAY8 [[1, 2]]]"
    "scdm_xdmcp_handle_forward_query ?env example_host (pk_length p) (Some addr) (Some port) (Some [[1, 2]]) example_factory =
      (case create_address_from_request ?env addr (Some port) (ss_family example_host) of
         (False, _) \<Rightarrow> Some example_factory | (True, None) \<Rightarrow> None
       | (True, Some disp) \<Rightarrow> Some (accept_forward ?env example_host disp example_factory))"
    using forward_query_passes_checksum [OF F' _ a, of example_factory] by auto
  have "addr = set_address_for_request example_host \<and> Some port = set_port_for_request example_host"
    using F' p(1,2) by (auto simp: scdm_xdmcp_send_forward_query_def send_packet_def Let_def xexample_simps split: option.splits)
  then have "create_address_from_request ?env addr (Some port) (ss_family example_host) = (True, Some example_host)"
    by (auto simp: create_address_from_request_def set_address_for_request_def set_port_for_request_def xexample_simps
        scdm_address_new_from_sockaddr_def numeral_2_eq_2 split: list.splits)
  then show ?thesis using F' p by (auto simp: xexample_simps)
qed

theorem hostname_selected_unknown_client_witness:
  "on_hostname_selected example_xenv 0 ''h'' waiting_xfactory = None"
proof -
  have l: "lists_ok waiting_xfactory" by (simp add: lists_ok_def waiting_xfactory_def xexample_simps)
  have "indirect_clients waiting_xfactory = []" "xheap waiting_xfactory 0 \<noteq> None"
    by (simp_all add: waiting_xfactory_def xexample_simps)
  then show ?thesis using hostname_selected_unknown_client [OF l, of 0] by auto
qed

theorem banned_host_changes_nothing_witness:
  "\<exists>F'. decode_packet example_xenv True (Some (example_packet (inet 6000 9) REQUEST 38, no_reads)) waiting_xfactory = Some F' \<and>
    same_displays waiting_xfactory F' \<and> xlog F' = []"
proof -
  let ?p = "(example_packet (inet 6000 9) REQUEST 38, no_reads)"
  have b: "\<not> scdm_xdmcp_host_allow example_xenv (in_from (fst ?p))"
    by (simp add: scdm_xdmcp_host_allow_def xexample_simps inet_def)
  obtain F' where F': "decode_packet example_xenv True (Some ?p) waiting_xfactory = Some F'"
    using b by (auto simp: decode_packet_def example_packet_def scdm_address_new_from_sockaddr_def XDM_PROTOCOL_VERSION_def
        dispatch_def opcodes scdm_xdmcp_handle_request_def)
  show ?thesis
    using banned_host_changes_nothing [OF F'] b F' by (auto simp: xexample_simps waiting_xfactory_def opcodes)
qed

lemmas xcreation_simps = scdm_xdmcp_display_new_def fresh_display_def
  scdm_display_prepare_def look_for_existing_users_sync_def wants_initial_setup_def
  already_done_initial_setup_on_this_boot_def class_prepare_def scdm_xdmcp_display_prepare_def
  scdm_display_real_prepare_def set_launch_def authority_then_prepare_def scdm_display_create_authority_def
  create_access_file_for_user_def scdm_display_access_file_open_def scdm_display_access_file_new_def
  create_xauth_file_for_user_def prepare_xauth_dir_def get_uid_and_gid_for_user_def emit_def
  scdm_display_set_status_def

lemma example_create:
  "\<exists>F. scdm_xdmcp_display_create example_xenv ''10.0.0.9'' example_host 0 example_factory = Some (Some 0, F)"
  by (simp add: scdm_xdmcp_display_create_def wants_chooser_def indirect_client_lookup_def get_next_session_serial_def
      G_MAXINT32_def xexample_simps xcreation_simps scdm_display_access_file_add_display_def
      scdm_display_access_file_add_display_with_cookie_def get_auth_info_for_display_def Let_def
      split: prod.splits)

theorem accepted_session_can_be_managed_witness:
  "\<exists>F s. scdm_xdmcp_display_create example_xenv ''10.0.0.9'' example_host 0 example_factory = Some (Some 0, F) \<and>
    scdm_xdmcp_handle_manage example_xenv example_host (Some s) (Some 0) (Some []) F =
      manage_prepared example_xenv example_host s 0 F"
proof -
  obtain F where F: "scdm_xdmcp_display_create example_xenv ''10.0.0.9'' example_host 0 example_factory = Some (Some 0, F)"
    using example_create by blast
  have "scdm_xdmcp_host_allow example_xenv example_host"
    by (simp add: scdm_xdmcp_host_allow_def xexample_simps inet_def)
  from accepted_session_can_be_managed [OF F _ this, of 0 "[]"] F show ?thesis
    by (auto simp: xexample_simps scdm_display_store_new_def)
qed

end
