(* ===== verification/Session_Settings.thy ===== *)
theory Session_Settings
  imports Prelude
begin

text \<open>
  The saved session and language of a user, \<open>src/daemon/scdm-session-settings.c\<close>.
  AccountsService is an argument: whether a user is loaded, and what it has stored. Property
  notifications are the list of signals an operation returns, in order. A user object is named by
  the user's name: the user manager has one object for each name.
\<close>

section \<open>State\<close>

record session_settings =
  ss_user :: "string option"
  ss_session_name :: "string option"
  ss_language_name :: "string option"
  ss_watch :: bool \<comment> \<open>\<open>on_user_is_loaded_changed\<close> is connected to the user\<close>

record act_users =
  act_is_loaded :: "string \<Rightarrow> bool"
  act_x_session :: "string \<Rightarrow> string option"
  act_language :: "string \<Rightarrow> string option"

datatype settings_signal = NotifySessionName | NotifyLanguageName | NotifyIsLoaded

datatype act_change = SetXSession string string | SetLanguage string string

definition scdm_session_settings_new :: session_settings where
  "scdm_session_settings_new =
     \<lparr>ss_user = None, ss_session_name = None, ss_language_name = None, ss_watch = False\<rparr>"

section \<open>Operations\<close>

definition scdm_session_settings_set_language_name ::
  "string \<Rightarrow> session_settings \<Rightarrow> session_settings \<times> settings_signal list" where
  "scdm_session_settings_set_language_name name s =
     (if ss_language_name s \<noteq> Some name then (s\<lparr>ss_language_name := Some name\<rparr>, [NotifyLanguageName]) else (s, []))"

definition scdm_session_settings_set_session_name ::
  "string \<Rightarrow> session_settings \<Rightarrow> session_settings \<times> settings_signal list" where
  "scdm_session_settings_set_session_name name s =
     (if ss_session_name s \<noteq> Some name then (s\<lparr>ss_session_name := Some name\<rparr>, [NotifySessionName]) else (s, []))"

definition scdm_session_settings_is_loaded :: "act_users \<Rightarrow> session_settings \<Rightarrow> bool" where
  "scdm_session_settings_is_loaded act s = (case ss_user s of None \<Rightarrow> False | Some u \<Rightarrow> act_is_loaded act u)"

definition load_settings_from_user ::
  "act_users \<Rightarrow> string \<Rightarrow> session_settings \<Rightarrow> session_settings \<times> settings_signal list" where
  "load_settings_from_user act user s =
     (if \<not> act_is_loaded act user then (s, [])
      else let (s, n1) = (case act_x_session act user of
                 None \<Rightarrow> (s, []) | Some name \<Rightarrow> scdm_session_settings_set_session_name name s);
               (s, n2) = (case act_language act user of
                 None \<Rightarrow> (s, []) | Some name \<Rightarrow> scdm_session_settings_set_language_name name s)
           in (s, n1 @ n2 @ [NotifyIsLoaded]))"

definition on_user_is_loaded_changed ::
  "act_users \<Rightarrow> session_settings \<Rightarrow> session_settings \<times> settings_signal list" where
  "on_user_is_loaded_changed act s =
     (case ss_user s of
        None \<Rightarrow> (s, [])
      | Some user \<Rightarrow>
          if ss_watch s \<and> act_is_loaded act user
          then (case load_settings_from_user act user s of (s, ns) \<Rightarrow> (s\<lparr>ss_watch := False\<rparr>, ns))
          else (s, []))"

text \<open>Without a name, or when already loaded, a precondition fails and nothing is done.\<close>

definition scdm_session_settings_load ::
  "act_users \<Rightarrow> string option \<Rightarrow> session_settings \<Rightarrow> bool \<times> session_settings \<times> settings_signal list" where
  "scdm_session_settings_load act username s =
     (case username of
        None \<Rightarrow> (False, s, [])
      | Some user \<Rightarrow>
          if scdm_session_settings_is_loaded act s then (False, s, [])
          else let s = s\<lparr>ss_user := Some user, ss_watch := False\<rparr>
               in if \<not> act_is_loaded act user then (False, s\<lparr>ss_watch := True\<rparr>, [])
                  else case load_settings_from_user act user s of (s, ns) \<Rightarrow> (True, s, ns))"

definition scdm_session_settings_save ::
  "act_users \<Rightarrow> string option \<Rightarrow> session_settings \<Rightarrow> bool \<times> act_change list" where
  "scdm_session_settings_save act username s =
     (case username of
        None \<Rightarrow> (False, [])
      | Some user \<Rightarrow>
          if \<not> scdm_session_settings_is_loaded act s then (False, [])
          else if \<not> act_is_loaded act user then (False, [])
          else (True,
                (case ss_session_name s of None \<Rightarrow> [] | Some name \<Rightarrow> [SetXSession user name]) @
                (case ss_language_name s of None \<Rightarrow> [] | Some name \<Rightarrow> [SetLanguage user name])))"

lemmas settings_defs = scdm_session_settings_set_language_name_def scdm_session_settings_set_session_name_def
  scdm_session_settings_is_loaded_def load_settings_from_user_def on_user_is_loaded_changed_def
  scdm_session_settings_load_def scdm_session_settings_save_def

section \<open>Facts\<close>

text \<open>Loading a loaded user ends with the notification, and names the user.\<close>

lemma settings_load_True:
  "scdm_session_settings_load act u s = (True, s', ns) \<Longrightarrow>
     scdm_session_settings_is_loaded act s' \<and> ss_user s' = u \<and> \<not> ss_watch s' \<and> ns \<noteq> [] \<and> last ns = NotifyIsLoaded"
  by (auto simp: settings_defs Let_def split: option.splits if_splits prod.splits)

lemma settings_load_waits:
  "scdm_session_settings_load act (Some u) s = (False, s', ns) \<Longrightarrow> \<not> scdm_session_settings_is_loaded act s \<Longrightarrow>
     s' = s\<lparr>ss_user := Some u, ss_watch := True\<rparr> \<and> ns = []"
  by (auto simp: settings_defs Let_def split: option.splits if_splits prod.splits)

text \<open>What is saved is what a later load finds: the names survive the round trip.\<close>

definition apply_change :: "act_change \<Rightarrow> act_users \<Rightarrow> act_users" where
  "apply_change c act = (case c of
     SetXSession u n \<Rightarrow> act\<lparr>act_x_session := (act_x_session act)(u \<mapsto> n)\<rparr>
   | SetLanguage u n \<Rightarrow> act\<lparr>act_language := (act_language act)(u \<mapsto> n)\<rparr>)"

text \<open>The session and language of a user survive saving: after what a save stores in
  AccountsService, new settings loaded for the same user have the names that were saved.\<close>

theorem settings_round_trip:
  assumes "scdm_session_settings_save act (Some u) s = (True, cs)"
    and "scdm_session_settings_load (fold apply_change cs act) (Some u) scdm_session_settings_new = (True, s', ns)"
  shows "(ss_session_name s \<noteq> None \<longrightarrow> ss_session_name s' = ss_session_name s) \<and>
    (ss_language_name s \<noteq> None \<longrightarrow> ss_language_name s' = ss_language_name s)"
  using assms
  by (auto simp: settings_defs apply_change_def scdm_session_settings_new_def Let_def
      split: option.splits if_splits prod.splits)

definition example_users :: act_users where
  "example_users = \<lparr>act_is_loaded = (\<lambda>u. u = ''joe''), act_x_session = (\<lambda>u. Some ''twm''), act_language = (\<lambda>u. None)\<rparr>"

definition example_settings :: session_settings where
  "example_settings = \<lparr>ss_user = Some ''joe'', ss_session_name = Some ''gnome'', ss_language_name = None, ss_watch = False\<rparr>"

theorem settings_round_trip_witness:
  "\<exists>cs s' ns. scdm_session_settings_save example_users (Some ''joe'') example_settings = (True, cs) \<and>
     scdm_session_settings_load (fold apply_change cs example_users) (Some ''joe'') scdm_session_settings_new = (True, s', ns) \<and>
     ss_session_name s' = Some ''gnome''"
proof -
  obtain cs where c: "scdm_session_settings_save example_users (Some ''joe'') example_settings = (True, cs)"
    "cs = [SetXSession ''joe'' ''gnome'']"
    by (simp add: settings_defs example_users_def example_settings_def)
  obtain s' ns where l: "scdm_session_settings_load (fold apply_change cs example_users) (Some ''joe'') scdm_session_settings_new = (True, s', ns)"
    by (cases "scdm_session_settings_load (fold apply_change cs example_users) (Some ''joe'') scdm_session_settings_new")
      (auto simp: c(2) settings_defs example_users_def scdm_session_settings_new_def apply_change_def Let_def split: prod.splits)
  from settings_round_trip [OF c(1) l] show ?thesis using c l by (auto simp: example_settings_def)
qed

end
