(* ===== verification/Pam_Extensions.thy ===== *)
theory Pam_Extensions
  imports Prelude
begin

text \<open>
  The PAM extension messages, the macros of \<open>src/pam-extensions/scdm-pam-extensions.h\<close>:
  a program advertises the extensions it supports in an environment variable, a module looks up the
  number of an extension there, and a binary message carries that number. The environment is the
  value of the variable; lists that end with a null pointer are lists. The length of a message is
  kept in host order.
\<close>

section \<open>Messages\<close>

record ext_message =
  em_length :: u32
  em_type :: u8
  em_prompt_message :: string
  em_items :: "(string option \<times> string) list"

text \<open>The length field, the type, and padding up to the alignment of the length.\<close>

definition ext_header_size :: u32 where "ext_header_size = 8"

definition message_truncated :: "ext_message \<Rightarrow> bool" where
  "message_truncated m \<longleftrightarrow> em_length m < ext_header_size"

definition span_word :: "string \<Rightarrow> string \<times> string" where
  "span_word p = (takeWhile (\<lambda>c. c \<noteq> CHR '' '') p,
     dropWhile (\<lambda>c. c = CHR '' '') (dropWhile (\<lambda>c. c \<noteq> CHR '' '') p))"

lemma span_word_length [termination_simp]: "length (snd (span_word (c # p))) \<le> length p"
proof -
  have "length (dropWhile P xs) \<le> length xs" for P and xs :: string
    by (rule length_dropWhile_le)
  then show ?thesis
    by (cases "c = CHR '' ''") (auto simp: span_word_def intro: order_trans)
qed

text \<open>The loop that counts the advertised words, from \<open>-1\<close>, up to the largest number of a
  \<open>char\<close>.\<close>

function count_words :: "string \<Rightarrow> int \<Rightarrow> int" where
  "count_words [] n = n"
| "count_words (c # p) n =
     (if n < 255
      then count_words (snd (span_word (c # p))) (if fst (span_word (c # p)) \<noteq> [] then n + 1 else n)
      else n)"
  by pat_completeness auto
termination
  by (relation "measure (length \<circ> fst)") (auto intro: le_imp_less_Suc span_word_length)

definition message_invalid_type :: "string option \<Rightarrow> ext_message \<Rightarrow> bool" where
  "message_invalid_type supported m =
     (case supported of None \<Rightarrow> True | Some p \<Rightarrow> \<not> count_words p (-1) \<ge> int (unat (em_type m)))"

text \<open>\<open>None\<close>: a null pointer, or the one behind the last extension, is read.\<close>

definition message_match :: "ext_message \<Rightarrow> string list option \<Rightarrow> string \<Rightarrow> bool option" where
  "message_match m supported_extensions name =
     (case supported_extensions of
        None \<Rightarrow> None
      | Some es \<Rightarrow> if unat (em_type m) < length es then Some (es ! unat (em_type m) = name) else None)"

section \<open>Advertising\<close>

definition POSIX_ARG_MAX :: nat where "POSIX_ARG_MAX = 4096"

definition extensions_variable :: string where "extensions_variable = ''SCDM_SUPPORTED_PAM_EXTENSIONS''"

text \<open>The first loop: how many extensions are taken. \<open>size\<close> starts with the length of
  what follows the copied name, which is 0.\<close>

fun count_chunks :: "nat \<Rightarrow> string list \<Rightarrow> nat \<Rightarrow> nat" where
  "count_chunks sz [] t = t"
| "count_chunks sz (e # es) t =
     (if t < 255 \<and> \<not> sz + (length e + 1) \<ge> POSIX_ARG_MAX
      then count_chunks (sz + (length e + 1)) es (t + 1) else t)"

fun join_words :: "string list \<Rightarrow> string" where
  "join_words [] = []"
| "join_words [e] = e"
| "join_words (e # es) = e @ CHR '' '' # join_words es"

text \<open>What is written into the block of \<open>_POSIX_ARG_MAX\<close> bytes, without the final zero
  byte, and the new value of the variable.\<close>

definition advertise_block :: "string list \<Rightarrow> string" where
  "advertise_block es =
     (let n = count_chunks 0 es 0
      in extensions_variable @ (if n \<noteq> 0 then ''='' @ join_words (take n es) else []))"

definition advertise_supported_extensions :: "string list \<Rightarrow> string option \<Rightarrow> string option" where
  "advertise_supported_extensions es supported =
     (let n = count_chunks 0 es 0 in if n \<noteq> 0 then Some (join_words (take n es)) else supported)"

section \<open>Looking up\<close>

text \<open>The comparison is of as many characters as the advertised word has.\<close>

function look_up_loop :: "string \<Rightarrow> string \<Rightarrow> nat \<Rightarrow> nat option" where
  "look_up_loop name [] t = None"
| "look_up_loop name (c # p) t =
     (let w = fst (span_word (c # p))
      in if take (length w) name = w then Some t
         else if t \<ge> 255 then None
         else look_up_loop name (snd (span_word (c # p))) (t + 1))"
  by pat_completeness auto
termination
  by (relation "measure (\<lambda>(name, p, t). length p)") (auto intro: le_imp_less_Suc span_word_length)

definition look_up_type :: "string \<Rightarrow> string option \<Rightarrow> nat option" where
  "look_up_type name supported = (case supported of None \<Rightarrow> None | Some p \<Rightarrow> look_up_loop name p 0)"

definition SCDM_PAM_EXTENSION_CHOICE_LIST :: string where
  "SCDM_PAM_EXTENSION_CHOICE_LIST = ''io.github.scarecrow_de.DisplayManager.UserVerifier.ChoiceList''"

section \<open>Facts\<close>

definition ext_word :: "string \<Rightarrow> bool" where
  "ext_word w \<longleftrightarrow> w \<noteq> [] \<and> CHR '' '' \<notin> set w"

lemma span_word_last: "ext_word w \<Longrightarrow> span_word w = (w, [])"
proof -
  assume "ext_word w"
  then have "\<forall>c \<in> set w. c \<noteq> CHR '' ''" by (auto simp: ext_word_def)
  then have "takeWhile (\<lambda>c. c \<noteq> CHR '' '') w = w" "dropWhile (\<lambda>c. c \<noteq> CHR '' '') w = []"
    by (auto simp: takeWhile_eq_all_conv)
  then show ?thesis by (simp only: span_word_def dropWhile.simps)
qed

lemma span_word_space:
  assumes "ext_word w" and "rest = [] \<or> hd rest \<noteq> CHR '' ''"
  shows "span_word (w @ CHR '' '' # rest) = (w, rest)"
proof -
  have "\<forall>c \<in> set w. c \<noteq> CHR '' ''" using assms(1) by (auto simp: ext_word_def)
  then show ?thesis using assms(2) by (cases rest) (simp_all add: span_word_def)
qed

lemma join_words_hd: "\<forall>w \<in> set ws. ext_word w \<Longrightarrow> ws \<noteq> [] \<Longrightarrow> join_words ws \<noteq> [] \<and> hd (join_words ws) \<noteq> CHR '' ''"
  by (cases ws rule: join_words.cases) (auto simp: ext_word_def, (metis hd_append2 hd_in_set)+)

lemma span_join:
  assumes "\<forall>w \<in> set (v # ws). ext_word w"
  shows "span_word (join_words (v # ws)) = (v, join_words ws)"
  using assms span_word_last [of v] span_word_space [of v "join_words ws"] join_words_hd [of ws]
  by (cases ws) auto

lemma join_words_Cons_neq: "\<forall>w \<in> set (v # ws). ext_word w \<Longrightarrow> join_words (v # ws) \<noteq> []"
  using join_words_hd [of "v # ws"] by simp

lemma look_up_join:
  assumes "\<forall>w \<in> set ws. ext_word w" and "i < length ws" and "ws ! i = name"
    and "\<forall>j < i. take (length (ws ! j)) name \<noteq> ws ! j" and "t + i \<le> 255"
  shows "look_up_loop name (join_words ws) t = Some (t + i)"
  using assms
proof (induction ws arbitrary: i t)
  case (Cons v ws)
  obtain c p where cp: "join_words (v # ws) = c # p"
    using join_words_Cons_neq [OF Cons.prems(1)] by (cases "join_words (v # ws)") auto
  have span: "span_word (c # p) = (v, join_words ws)"
    using span_join [OF Cons.prems(1)] unfolding cp by simp
  show ?case
  proof (cases i)
    case 0
    then show ?thesis using Cons.prems(3) by (simp only: cp) (simp add: span)
  next
    case (Suc k)
    have "take (length v) name \<noteq> v" using Cons.prems(4) Suc by (metis nth_Cons_0 zero_less_Suc)
    moreover have "\<forall>j < k. take (length (ws ! j)) name \<noteq> ws ! j"
      using Cons.prems(4) Suc by (metis Suc_less_eq nth_Cons_Suc)
    ultimately show ?thesis
      using Cons.IH [of k "t + 1"] Cons.prems Suc by (simp only: cp) (simp add: span)
  qed
qed simp

lemma count_words_join:
  assumes "\<forall>w \<in> set ws. ext_word w" and "n + int (length ws) \<le> 255"
  shows "count_words (join_words ws) n = n + int (length ws)"
  using assms
proof (induction ws arbitrary: n)
  case (Cons v ws)
  obtain c p where cp: "join_words (v # ws) = c # p"
    using join_words_Cons_neq [OF Cons.prems(1)] by (cases "join_words (v # ws)") auto
  have span: "span_word (c # p) = (v, join_words ws)"
    using span_join [OF Cons.prems(1)] unfolding cp by simp
  have "v \<noteq> []" using Cons.prems(1) by (simp add: ext_word_def)
  then show ?case using Cons.IH [of "n + 1"] Cons.prems by (simp only: cp) (simp add: span)
qed simp

lemma count_chunks_all:
  "t + length es \<le> 255 \<Longrightarrow> sz + sum_list (map (\<lambda>e. length e + 1) es) < POSIX_ARG_MAX \<Longrightarrow>
     count_chunks sz es t = t + length es"
  by (induction sz es t rule: count_chunks.induct) auto

text \<open>The round trip of the extension numbers: what was advertised is looked up under its
  position, provided the words fit into the block and no earlier word is a prefix of the
  one looked up; a message with this number is valid, and one with a number past the last is not.\<close>

theorem extensions_round_trip:
  assumes "\<forall>e \<in> set es. ext_word e" and "length es \<le> 255"
    and "sum_list (map (\<lambda>e. length e + 1) es) < POSIX_ARG_MAX"
    and "i < length es" and "\<forall>j < i. take (length (es ! j)) (es ! i) \<noteq> es ! j"
  shows "look_up_type (es ! i) (advertise_supported_extensions es env) = Some i \<and>
    (\<forall>m. message_invalid_type (advertise_supported_extensions es env) m \<longleftrightarrow> unat (em_type m) \<ge> length es) \<and>
    (\<forall>m. em_type m = of_nat i \<longrightarrow> message_match m (Some es) (es ! i) = Some True)"
proof -
  have n: "count_chunks 0 es 0 = length es" using count_chunks_all [of 0 es 0] assms by simp
  then have a: "advertise_supported_extensions es env = Some (join_words es)"
    using assms(4) by (auto simp: advertise_supported_extensions_def)
  have "unat (of_nat i :: u8) = i" using assms(2,4) by (simp add: unat_of_nat)
  moreover have "uint (x :: u8) < int (length es) \<longleftrightarrow> unat x < length es" for x
    by (metis nat_less_iff uint_ge_0 unat_eq_nat_uint)
  ultimately show ?thesis
    using look_up_join [OF assms(1,4) refl assms(5), of 0] count_words_join [OF assms(1), of "-1"] assms(2,4)
    by (auto simp: a look_up_type_def message_invalid_type_def message_match_def)
qed

theorem extensions_round_trip_witness:
  "look_up_type ''abc'' (advertise_supported_extensions [''ab.d'', ''abc''] None) = Some 1"
  using extensions_round_trip [of "[''ab.d'', ''abc'']" 1 None]
  by (simp add: ext_word_def POSIX_ARG_MAX_def)

text \<open>A word that is a prefix of a name hides it: the lookup finds the wrong number.\<close>

lemma look_up_prefix: "look_up_type ''abc'' (advertise_supported_extensions [''ab'', ''abc''] None) = Some 0"
  by (simp add: advertise_supported_extensions_def look_up_type_def POSIX_ARG_MAX_def span_word_def)

text \<open>The bound on the size forgets the name of the variable: the block is overrun.\<close>

lemma length_join_words:
  "es \<noteq> [] \<Longrightarrow> length (join_words es) = sum_list (map (\<lambda>e. length e + 1) es) - 1"
  by (induction es rule: join_words.induct) auto

lemma advertise_overruns:
  "length (advertise_block (replicate 66 SCDM_PAM_EXTENSION_CHOICE_LIST)) \<ge> POSIX_ARG_MAX"
proof -
  have n: "count_chunks 0 (replicate 66 SCDM_PAM_EXTENSION_CHOICE_LIST) 0 = 66"
    using count_chunks_all [of 0 "replicate 66 SCDM_PAM_EXTENSION_CHOICE_LIST" 0]
    by (simp add: SCDM_PAM_EXTENSION_CHOICE_LIST_def POSIX_ARG_MAX_def sum_list_replicate)
  show ?thesis
    unfolding advertise_block_def n
    by (simp add: length_join_words sum_list_replicate SCDM_PAM_EXTENSION_CHOICE_LIST_def POSIX_ARG_MAX_def
        extensions_variable_def)
qed

end
