(* ===== verification/Worker.thy ===== *)
theory Worker
  imports Session_Settings Pam_Extensions Common_Script "HOL-Library.Monad_Syntax"
begin

text \<open>
  The session worker, \<open>src/daemon/scdm-session-worker.c\<close>, first part: its state, PAM and
  the conversation that PAM modules hold with the user through the daemon, the virtual terminals,
  and the steps from the set-up of PAM to the credentials. The program runs as one process that
  obeys the requests of the daemon, in \<open>Worker_Requests\<close>; sessions are opened and started in
  \<open>Worker_Session\<close>.

  PAM is the parameter \<open>'h pam_lib\<close>, the functions of libpam over handles of any type. A
  function that may hold a conversation is a tree: it returns, or it sends messages and goes on with
  the replies. The answers of the daemon depend on all that was done before. \<open>None\<close> is the
  end of the process, by a failed assertion or a null pointer that is read.
\<close>

section \<open>PAM\<close>

datatype pam_code =
    PAM_SUCCESS | PAM_SYSTEM_ERR | PAM_ABORT | PAM_IGNORE | PAM_CONV_ERR | PAM_AUTH_ERR | PAM_USER_UNKNOWN
  | PAM_AUTHINFO_UNAVAIL | PAM_NEW_AUTHTOK_REQD | PAM_ACCT_EXPIRED | PAM_AUTHTOK_EXPIRED | pam_code nat

datatype pam_item = PAM_USER_PROMPT | PAM_RHOST | PAM_TTY | PAM_XDISPLAY | PAM_XAUTHDATA

definition PAM_SILENT :: u32 where "PAM_SILENT = 0x8000"
definition PAM_DISALLOW_NULL_AUTHTOK :: u32 where "PAM_DISALLOW_NULL_AUTHTOK = 1"
definition PAM_ESTABLISH_CRED :: u32 where "PAM_ESTABLISH_CRED = 2"
definition PAM_DELETE_CRED :: u32 where "PAM_DELETE_CRED = 4"
definition PAM_REINITIALIZE_CRED :: u32 where "PAM_REINITIALIZE_CRED = 8"
definition PAM_CHANGE_EXPIRED_AUTHTOK :: u32 where "PAM_CHANGE_EXPIRED_AUTHTOK = 0x20"

lemmas pam_flags = PAM_SILENT_def PAM_DISALLOW_NULL_AUTHTOK_def PAM_ESTABLISH_CRED_def PAM_DELETE_CRED_def
  PAM_REINITIALIZE_CRED_def PAM_CHANGE_EXPIRED_AUTHTOK_def

datatype msg_style =
    PAM_PROMPT_ECHO_OFF | PAM_PROMPT_ECHO_ON | PAM_ERROR_MSG | PAM_TEXT_INFO | PAM_RADIO_TYPE
  | PAM_BINARY_PROMPT | msg_style int

text \<open>The payload of a binary prompt is an extended message.\<close>

record pam_message =
  pm_style :: msg_style
  pm_msg :: string
  pm_ext :: ext_message

datatype pam_reply = TextReply string | ChoiceListResponse "nat option" "string option"

text \<open>The replies: one for each message, a null pointer for a message without an answer.\<close>

type_synonym conv_result = "pam_code \<times> pam_reply option list option"

datatype 'h pam_run = PamReturn pam_code 'h | PamConv 'h "pam_message list" "conv_result \<Rightarrow> 'h pam_run"

record 'h pam_lib =
  pam_start :: "string option \<Rightarrow> string option \<Rightarrow> pam_code \<times> 'h option"
  pam_set_item :: "'h \<Rightarrow> pam_item \<Rightarrow> string \<Rightarrow> pam_code \<times> 'h"
  pam_get_user :: "'h \<Rightarrow> string option option" \<comment> \<open>\<open>pam_get_item\<close> with \<open>PAM_USER\<close>\<close>
  pam_putenv :: "'h \<Rightarrow> string \<Rightarrow> pam_code \<times> 'h"
  pam_getenv :: "'h \<Rightarrow> string \<Rightarrow> string option"
  pam_getenvlist :: "'h \<Rightarrow> string list"
  pam_authenticate :: "'h \<Rightarrow> u32 \<Rightarrow> 'h pam_run"
  pam_acct_mgmt :: "'h \<Rightarrow> u32 \<Rightarrow> 'h pam_run"
  pam_chauthtok :: "'h \<Rightarrow> u32 \<Rightarrow> 'h pam_run"
  pam_setcred :: "'h \<Rightarrow> u32 \<Rightarrow> 'h pam_run"
  pam_open_session :: "'h \<Rightarrow> u32 \<Rightarrow> 'h pam_run"
  pam_close_session :: "'h \<Rightarrow> u32 \<Rightarrow> 'h pam_run"

section \<open>State\<close>

datatype worker_state =
    GDM_SESSION_WORKER_STATE_NONE | GDM_SESSION_WORKER_STATE_SETUP_COMPLETE
  | GDM_SESSION_WORKER_STATE_AUTHENTICATED | GDM_SESSION_WORKER_STATE_AUTHORIZED
  | GDM_SESSION_WORKER_STATE_ACCREDITED | GDM_SESSION_WORKER_STATE_ACCOUNT_DETAILS_SAVED
  | GDM_SESSION_WORKER_STATE_SESSION_OPENED | GDM_SESSION_WORKER_STATE_SESSION_STARTED

text \<open>The numbers of the enumeration, which the code compares and adds to.\<close>

fun state_number :: "worker_state \<Rightarrow> nat" where
  "state_number GDM_SESSION_WORKER_STATE_NONE = 0"
| "state_number GDM_SESSION_WORKER_STATE_SETUP_COMPLETE = 1"
| "state_number GDM_SESSION_WORKER_STATE_AUTHENTICATED = 2"
| "state_number GDM_SESSION_WORKER_STATE_AUTHORIZED = 3"
| "state_number GDM_SESSION_WORKER_STATE_ACCREDITED = 4"
| "state_number GDM_SESSION_WORKER_STATE_ACCOUNT_DETAILS_SAVED = 5"
| "state_number GDM_SESSION_WORKER_STATE_SESSION_OPENED = 6"
| "state_number GDM_SESSION_WORKER_STATE_SESSION_STARTED = 7"

lemma state_number_inj: "state_number a = state_number b \<longleftrightarrow> a = b"
  by (cases a; cases b) simp_all

instantiation worker_state :: linorder
begin

definition less_eq_worker_state :: "worker_state \<Rightarrow> worker_state \<Rightarrow> bool" where
  "less_eq_worker_state a b = (state_number a \<le> state_number b)"

definition less_worker_state :: "worker_state \<Rightarrow> worker_state \<Rightarrow> bool" where
  "less_worker_state a b = (state_number a < state_number b)"

instance
  by standard (auto simp: less_eq_worker_state_def less_worker_state_def state_number_inj)

end

lemmas state_order = less_eq_worker_state_def less_worker_state_def

fun next_state :: "worker_state \<Rightarrow> worker_state option" where
  "next_state GDM_SESSION_WORKER_STATE_NONE = Some GDM_SESSION_WORKER_STATE_SETUP_COMPLETE"
| "next_state GDM_SESSION_WORKER_STATE_SETUP_COMPLETE = Some GDM_SESSION_WORKER_STATE_AUTHENTICATED"
| "next_state GDM_SESSION_WORKER_STATE_AUTHENTICATED = Some GDM_SESSION_WORKER_STATE_AUTHORIZED"
| "next_state GDM_SESSION_WORKER_STATE_AUTHORIZED = Some GDM_SESSION_WORKER_STATE_ACCREDITED"
| "next_state GDM_SESSION_WORKER_STATE_ACCREDITED = Some GDM_SESSION_WORKER_STATE_ACCOUNT_DETAILS_SAVED"
| "next_state GDM_SESSION_WORKER_STATE_ACCOUNT_DETAILS_SAVED = Some GDM_SESSION_WORKER_STATE_SESSION_OPENED"
| "next_state GDM_SESSION_WORKER_STATE_SESSION_OPENED = Some GDM_SESSION_WORKER_STATE_SESSION_STARTED"
| "next_state GDM_SESSION_WORKER_STATE_SESSION_STARTED = None"

lemma next_state_number: "next_state s = Some t \<longleftrightarrow> state_number t = Suc (state_number s)"
  by (cases s; cases t) simp_all

datatype display_mode = REUSE_VT | NEW_VT | LOGIND_MANAGED | UnknownMode

datatype worker_error =
    SERVICE_UNAVAILABLE | AUTHENTICATING | AUTHORIZING | GIVING_CREDENTIALS | OPENING_SESSION
  | OUTSTANDING_REQUEST | WRONG_STATE | IN_REAUTH_SESSION | SHELL_PARSE

datatype error_text =
    NoText | TimeLimitPassed | PleaseTryAgain | NoUserAccount | UnableToChangeUser | UnableToOpenVT
  | FailedScript string | PamError pam_code | ErrnoText | OtherText

datatype worker_reply = Done | SessionId string | ChildPid int | Failed worker_error error_text

datatype pam_event =
    Started | Authenticated u32 | AccountChecked u32 | PasswordChanged u32 | CredentialsSet u32
  | SessionOpened u32 | SessionClosed

datatype audit_event =
    PasswordChangedReport | PasswordChangeFailureReport | UserAccreditedReport | LoginReport
  | LoginFailureReport pam_code | LogoutReport

datatype manager_call =
    InfoQuery string | SecretInfoQuery string | Info string | Problem string
  | ChoiceListQuery string "(string \<times> string) list"

datatype vt_request =
    VT_SETMODE | VT_GETMODE | KDGETMODE | KDSETMODE_GRAPHICS | VT_GETSTATE | VT_ACTIVATE int | VT_WAITACTIVE int
  | VT_OPENQRY

datatype worker_effect =
    Pam pam_event pam_code | PamEnd pam_code
  | Audit audit_event "string option"
  | NotifyState worker_state
  | UsernameChanged "string option" | SavedLanguageNameRead "string option" | SavedSessionNameRead "string option"
  | CallManager manager_call | CancelPendingQuery
  | Reply nat worker_reply
  | OpenTty string | CloseTty int | ClearScreen int | Ioctl int vt_request
  | RanScript string | ForkedSession int | SignalChild int | WaitedChild int | HangupGroup int
  | SavedSettings "act_change list"
  | SessionExited "string option" u32
  | NewReauthSession int | ResetReauthSession int | Reauthenticated string

text \<open>The auditor: one of the platform reports; the dummy one does not.\<close>

record auditor =
  au_reports :: bool
  au_username :: "string option"

record 'h worker =
  w_state :: worker_state
  w_pam_handle :: "'h option"
  w_child_pid :: int
  w_child_watch :: bool
  w_service :: "string option"
  w_x11_display_name :: "string option"
  w_x11_authority_file :: "string option"
  w_display_device :: "string option"
  w_display_seat_id :: "string option"
  w_hostname :: "string option"
  w_username :: "string option"
  w_log_file :: "string option"
  w_session_id :: "string option"
  w_uid :: u32
  w_gid :: u32
  w_password_is_required :: bool
  w_extensions :: "string list option"
  w_cred_flags :: u32
  w_session_vt :: int
  w_session_tty_fd :: int
  w_arguments :: "string list" \<comment> \<open>\<open>[]\<close> when there are none yet\<close>
  w_cancelled :: bool
  w_timed_out :: bool
  w_is_program_session :: bool
  w_is_reauth_session :: bool
  w_display_is_local :: bool
  w_display_is_initial :: bool
  w_state_change_idle :: bool
  w_display_mode :: display_mode
  w_reauthentication_requests :: "(int \<times> int) list"
  w_auditor :: "auditor option"
  w_user_settings :: session_settings
  w_saved_handlers :: nat \<comment> \<open>connections of the two \<open>on_saved_*_name_read\<close>\<close>
  w_loaded_handler :: bool \<comment> \<open>\<open>on_settings_is_loaded_changed\<close> is connected\<close>
  w_pending_invocation :: "nat option"
  w_supported :: "string option" \<comment> \<open>\<open>SCDM_SUPPORTED_PAM_EXTENSIONS\<close> in the environment\<close>
  w_log :: "worker_effect list"

text \<open>The world: PAM, the daemon, AccountsService, the terminals, the user database and what else
  one request meets. \<open>we_manager\<close> gets all that was done before the call.\<close>

record 'h worker_env =
  we_lib :: "'h pam_lib"
  we_manager :: "worker_effect list \<Rightarrow> manager_call \<Rightarrow> bool \<times> string option"
  we_locale_to_utf8 :: "string \<Rightarrow> string option"
  we_utf8_bad :: "string \<Rightarrow> nat option" \<comment> \<open>the offset of the first invalid byte\<close>
  we_act :: act_users
  we_platform_auditor :: bool
  we_user_display_server :: bool \<comment> \<open>built with \<open>ENABLE_USER_DISPLAY_SERVER\<close>\<close>
  we_initial_vt :: nat \<comment> \<open>\<open>SCDM_INITIAL_VT\<close>\<close>
  we_open_tty :: "string \<Rightarrow> int"
  we_ioctl :: "int \<Rightarrow> vt_request \<Rightarrow> int option"
  we_getpwnam :: "string \<Rightarrow> (passwd option \<times> errno option) list"
  we_setgid :: bool
  we_initgroups :: bool
  we_bindir :: string
  we_default_path :: string

definition wemit :: "worker_effect list \<Rightarrow> 'h worker \<Rightarrow> 'h worker" where
  "wemit fx w = w\<lparr>w_log := w_log w @ fx\<rparr>"

text \<open>The finished process: a reply to the request that is pending.\<close>

definition answer :: "worker_reply \<Rightarrow> 'h worker \<Rightarrow> 'h worker" where
  "answer r w =
     (case w_pending_invocation w of None \<Rightarrow> w | Some i \<Rightarrow> wemit [Reply i r] w)\<lparr>w_pending_invocation := None\<rparr>"

section \<open>User name and settings\<close>

definition auditor_set_username :: "string option \<Rightarrow> 'h worker \<Rightarrow> 'h worker" where
  "auditor_set_username u w =
     (case w_auditor w of None \<Rightarrow> w | Some a \<Rightarrow> w\<lparr>w_auditor := Some (a\<lparr>au_username := u\<rparr>)\<rparr>)"

definition audit :: "audit_event \<Rightarrow> 'h worker \<Rightarrow> 'h worker option" where
  "audit e w =
     (case w_auditor w of
        None \<Rightarrow> None
      | Some a \<Rightarrow> Some (if au_reports a then wemit [Audit e (au_username a)] w else w))"

text \<open>The result is \<open>None\<close> inside if PAM does not know the item.\<close>

definition scdm_session_worker_get_username ::
  "'h worker_env \<Rightarrow> 'h worker \<Rightarrow> (string option option \<times> 'h worker) option" where
  "scdm_session_worker_get_username env w =
     (case w_pam_handle w of
        None \<Rightarrow> None
      | Some h \<Rightarrow>
          (case pam_get_user (we_lib env) h of
             None \<Rightarrow> Some (None, w)
           | Some item \<Rightarrow> Some (Some item, auditor_set_username item w)))"

definition on_saved_language_name_read :: "'h worker \<Rightarrow> 'h worker" where
  "on_saved_language_name_read w = wemit [SavedLanguageNameRead (ss_language_name (w_user_settings w))] w"

definition on_saved_session_name_read :: "'h worker \<Rightarrow> 'h worker" where
  "on_saved_session_name_read w = wemit [SavedSessionNameRead (ss_session_name (w_user_settings w))] w"

definition queue_state_change :: "'h worker \<Rightarrow> 'h worker" where
  "queue_state_change w = (if w_state_change_idle w then w else w\<lparr>w_state_change_idle := True\<rparr>)"

definition scdm_session_worker_set_state :: "worker_state \<Rightarrow> 'h worker \<Rightarrow> 'h worker" where
  "scdm_session_worker_set_state s w = (if w_state w = s then w else wemit [NotifyState s] (w\<lparr>w_state := s\<rparr>))"

definition save_account_details_now :: "'h worker_env \<Rightarrow> 'h worker \<Rightarrow> 'h worker option" where
  "save_account_details_now env w =
     (if w_state w \<noteq> GDM_SESSION_WORKER_STATE_ACCREDITED then None
      else let w = scdm_session_worker_set_state GDM_SESSION_WORKER_STATE_ACCOUNT_DETAILS_SAVED w;
               (res, changes) = scdm_session_settings_save (we_act env) (w_username w) (w_user_settings w)
           in Some (queue_state_change (if changes = [] then w else wemit [SavedSettings changes] w)))"

definition on_settings_is_loaded_changed :: "'h worker_env \<Rightarrow> 'h worker \<Rightarrow> 'h worker option" where
  "on_settings_is_loaded_changed env w =
     (if \<not> scdm_session_settings_is_loaded (we_act env) (w_user_settings w) then Some w
      else let w = w\<lparr>w_saved_handlers := 0\<rparr>
           in if w_state w = GDM_SESSION_WORKER_STATE_NONE
              then Some ((queue_state_change w)\<lparr>w_loaded_handler := False\<rparr>)
              else if w_state w = GDM_SESSION_WORKER_STATE_ACCREDITED
              then map_option (\<lambda>w. w\<lparr>w_loaded_handler := False\<rparr>) (save_account_details_now env w)
              else Some w)"

text \<open>The handlers of the notifications of the settings, which run at once. Handlers that are
  connected several times run as often; that of \<open>is-loaded\<close> disconnects itself or does nothing
  more, so that it counts once.\<close>

fun settings_signals :: "'h worker_env \<Rightarrow> settings_signal list \<Rightarrow> 'h worker \<Rightarrow> 'h worker option" where
  "settings_signals env [] w = Some w"
| "settings_signals env (NotifySessionName # ns) w =
     settings_signals env ns ((on_saved_session_name_read ^^ w_saved_handlers w) w)"
| "settings_signals env (NotifyLanguageName # ns) w =
     settings_signals env ns ((on_saved_language_name_read ^^ w_saved_handlers w) w)"
| "settings_signals env (NotifyIsLoaded # ns) w =
     Option.bind (if w_loaded_handler w then on_settings_is_loaded_changed env w else Some w) (settings_signals env ns)"

definition load_settings :: "'h worker_env \<Rightarrow> string option \<Rightarrow> 'h worker \<Rightarrow> (bool \<times> 'h worker) option" where
  "load_settings env username w =
     (case scdm_session_settings_load (we_act env) username (w_user_settings w) of
        (res, s, ns) \<Rightarrow> map_option (Pair res) (settings_signals env ns (w\<lparr>w_user_settings := s\<rparr>)))"

definition attempt_to_load_user_settings :: "'h worker_env \<Rightarrow> string option \<Rightarrow> 'h worker \<Rightarrow> 'h worker option" where
  "attempt_to_load_user_settings env username w = map_option snd (load_settings env username w)"

definition scdm_session_worker_update_username :: "'h worker_env \<Rightarrow> 'h worker \<Rightarrow> 'h worker option" where
  "scdm_session_worker_update_username env w = do {
     (res, w) \<leftarrow> scdm_session_worker_get_username env w;
     (case res of
        None \<Rightarrow> Some w
      | Some username \<Rightarrow>
          let w = auditor_set_username (w_username w) w
          in if w_username w = username then Some w
             else let w = wemit [UsernameChanged username] (w\<lparr>w_username := username\<rparr>)
                  in if username \<noteq> None \<and> username \<noteq> Some [] \<and>
                        \<not> scdm_session_settings_is_loaded (we_act env) (w_user_settings w)
                     then attempt_to_load_user_settings env username w
                     else Some w)
   }"

section \<open>The conversation\<close>

definition call_manager :: "'h worker_env \<Rightarrow> manager_call \<Rightarrow> 'h worker \<Rightarrow> (bool \<times> string option) \<times> 'h worker" where
  "call_manager env c w = (we_manager env (w_log w) c, wemit [CallManager c] w)"

definition scdm_session_worker_ask_question ::
  "'h worker_env \<Rightarrow> string \<Rightarrow> 'h worker \<Rightarrow> (bool \<times> string option) \<times> 'h worker" where
  "scdm_session_worker_ask_question env question w = call_manager env (InfoQuery question) w"

definition scdm_session_worker_ask_for_secret ::
  "'h worker_env \<Rightarrow> string \<Rightarrow> 'h worker \<Rightarrow> (bool \<times> string option) \<times> 'h worker" where
  "scdm_session_worker_ask_for_secret env question w = call_manager env (SecretInfoQuery question) w"

definition scdm_session_worker_report_info :: "'h worker_env \<Rightarrow> string \<Rightarrow> 'h worker \<Rightarrow> bool \<times> 'h worker" where
  "scdm_session_worker_report_info env info w = (case call_manager env (Info info) w of ((res, _), w) \<Rightarrow> (res, w))"

definition scdm_session_worker_report_problem :: "'h worker_env \<Rightarrow> string \<Rightarrow> 'h worker \<Rightarrow> bool \<times> 'h worker" where
  "scdm_session_worker_report_problem env problem w =
     (case call_manager env (Problem problem) w of ((res, _), w) \<Rightarrow> (res, w))"

definition scdm_session_worker_ask_list_of_choices ::
  "'h worker_env \<Rightarrow> string \<Rightarrow> (string option \<times> string) list \<Rightarrow> 'h worker \<Rightarrow> (bool \<times> string option) \<times> 'h worker" where
  "scdm_session_worker_ask_list_of_choices env prompt_message items w =
     (if \<exists>(key, _) \<in> set items. key = None then ((False, None), w)
      else call_manager env (ChoiceListQuery prompt_message (map (\<lambda>(key, t). (the key, t)) items)) w)"

definition scdm_session_worker_process_choice_list_request ::
  "'h worker_env \<Rightarrow> ext_message \<Rightarrow> 'h worker \<Rightarrow> (bool \<times> string option) \<times> 'h worker" where
  "scdm_session_worker_process_choice_list_request env request w =
     scdm_session_worker_ask_list_of_choices env (em_prompt_message request) (em_items request) w"

definition scdm_session_worker_process_extended_pam_message ::
  "'h worker_env \<Rightarrow> ext_message \<Rightarrow> 'h worker \<Rightarrow> (bool \<times> pam_reply option \<times> 'h worker) option" where
  "scdm_session_worker_process_extended_pam_message env m w =
     (if message_truncated m then Some (False, None, w)
      else if message_invalid_type (w_supported w) m then Some (False, None, w)
      else (case message_match m (w_extensions w) SCDM_PAM_EXTENSION_CHOICE_LIST of
              None \<Rightarrow> None
            | Some False \<Rightarrow> Some (False, None, w)
            | Some True \<Rightarrow>
                (case scdm_session_worker_process_choice_list_request env m w of
                   ((res, key), w) \<Rightarrow>
                     Some (if \<not> res then (False, None, w)
                           else (True, Some (ChoiceListResponse
                                  (look_up_type SCDM_PAM_EXTENSION_CHOICE_LIST (w_supported w)) key), w)))))"

text \<open>Invalid bytes become question marks, one after the other. \<open>bad\<close> is
  \<open>g_utf8_validate\<close>.\<close>

function replace_invalid :: "(string \<Rightarrow> nat option) \<Rightarrow> string \<Rightarrow> string" where
  "replace_invalid bad p =
     (if p = [] then []
      else (case bad p of
              None \<Rightarrow> p
            | Some q \<Rightarrow> take q p @ ''?'' @ replace_invalid bad (drop (Suc q) p)))"
  by pat_completeness auto
termination
  by (relation "measure (length \<circ> snd)") auto

declare replace_invalid.simps [simp del]

definition convert_to_utf8 :: "'h worker_env \<Rightarrow> string \<Rightarrow> string" where
  "convert_to_utf8 env str =
     (case we_locale_to_utf8 env str of None \<Rightarrow> replace_invalid (we_utf8_bad env) str | Some utf8 \<Rightarrow> utf8)"

definition PAM_MAX_RESP_SIZE :: nat where "PAM_MAX_RESP_SIZE = 512"

text \<open>The switch over the style of the message: success, and the answer of the user.\<close>

definition ask_user :: "'h worker_env \<Rightarrow> msg_style \<Rightarrow> string \<Rightarrow> 'h worker \<Rightarrow> (bool \<times> string option) \<times> 'h worker" where
  "ask_user env style utf8_msg w =
     (case style of
        PAM_PROMPT_ECHO_ON \<Rightarrow> scdm_session_worker_ask_question env utf8_msg w
      | PAM_PROMPT_ECHO_OFF \<Rightarrow> scdm_session_worker_ask_for_secret env utf8_msg w
      | PAM_TEXT_INFO \<Rightarrow> (case scdm_session_worker_report_info env utf8_msg w of (res, w) \<Rightarrow> ((res, None), w))
      | PAM_ERROR_MSG \<Rightarrow> (case scdm_session_worker_report_problem env utf8_msg w of (res, w) \<Rightarrow> ((res, None), w))
      | PAM_RADIO_TYPE \<Rightarrow> scdm_session_worker_ask_question env (utf8_msg @ '' (yes/no)'') w
      | _ \<Rightarrow> ((False, None), w))"

definition scdm_session_worker_process_pam_message ::
  "'h worker_env \<Rightarrow> pam_message \<Rightarrow> 'h worker \<Rightarrow> (bool \<times> pam_reply option \<times> 'h worker) option" where
  "scdm_session_worker_process_pam_message env query w = do {
     w \<leftarrow> scdm_session_worker_update_username env w;
     if pm_style query = PAM_BINARY_PROMPT
     then scdm_session_worker_process_extended_pam_message env (pm_ext query) w
     else
       let w = w\<lparr>w_cancelled := False, w_timed_out := False\<rparr>;
           ((res, user_answer), w) = ask_user env (pm_style query) (convert_to_utf8 env (pm_msg query)) w;
           w = (if w_timed_out w then wemit [CancelPendingQuery] (w\<lparr>w_timed_out := False\<rparr>) else w)
       in Some (case user_answer of
            None \<Rightarrow> (res, None, w)
          | Some a \<Rightarrow> (True, if res then Some (TextReply (take (PAM_MAX_RESP_SIZE - 1) a)) else None, w))
   }"

definition get_friendly_error_message :: "pam_code \<Rightarrow> error_text" where
  "get_friendly_error_message c =
     (if c \<in> {PAM_SUCCESS, PAM_IGNORE} then NoText
      else if c \<in> {PAM_ACCT_EXPIRED, PAM_AUTHTOK_EXPIRED} then TimeLimitPassed else PleaseTryAgain)"

text \<open>The loop over the messages: the replies so far, \<open>None\<close> when one is not answered, after
  which no other message is shown.\<close>

fun process_messages ::
  "'h worker_env \<Rightarrow> pam_message list \<Rightarrow> pam_reply option list \<Rightarrow> 'h worker \<Rightarrow>
   (pam_reply option list option \<times> 'h worker) option" where
  "process_messages env [] replies w = Some (Some replies, w)"
| "process_messages env (m # ms) replies w =
     (case scdm_session_worker_process_pam_message env m w of
        None \<Rightarrow> None
      | Some (False, _, w) \<Rightarrow> Some (None, w)
      | Some (True, response, w) \<Rightarrow> process_messages env ms (replies @ [response]) w)"

definition scdm_session_worker_pam_new_messages_handler ::
  "'h worker_env \<Rightarrow> pam_message list \<Rightarrow> 'h worker \<Rightarrow> (conv_result \<times> 'h worker) option" where
  "scdm_session_worker_pam_new_messages_handler env messages w =
     (if messages = [] then Some ((PAM_SUCCESS, None), w)
      else (case process_messages env messages [] w of
              None \<Rightarrow> None
            | Some (None, w) \<Rightarrow> Some ((PAM_CONV_ERR, None), w)
            | Some (Some replies, w) \<Rightarrow> Some ((PAM_SUCCESS, Some replies), w)))"

text \<open>A call of PAM that may converse. The handle of the worker is the state of PAM at each moment.\<close>

primrec run_pam :: "'h worker_env \<Rightarrow> 'h pam_run \<Rightarrow> 'h worker \<Rightarrow> (pam_code \<times> 'h worker) option" where
  "run_pam env (PamReturn c h) w = Some (c, w\<lparr>w_pam_handle := Some h\<rparr>)"
| "run_pam env (PamConv h ms k) w =
     (case scdm_session_worker_pam_new_messages_handler env ms (w\<lparr>w_pam_handle := Some h\<rparr>) of
        None \<Rightarrow> None
      | Some (r, w) \<Rightarrow> run_pam env (k r) w)"

definition call_pam ::
  "'h worker_env \<Rightarrow> pam_event \<Rightarrow> ('h pam_lib \<Rightarrow> 'h \<Rightarrow> u32 \<Rightarrow> 'h pam_run) \<Rightarrow> u32 \<Rightarrow> 'h worker \<Rightarrow>
   (pam_code \<times> 'h worker) option" where
  "call_pam env e f flags w =
     (case w_pam_handle w of
        None \<Rightarrow> None
      | Some h \<Rightarrow> map_option (\<lambda>(c, w). (c, wemit [Pam e c] w)) (run_pam env (f (we_lib env) h flags) w))"

section \<open>Terminals\<close>

definition ioctl :: "'h worker_env \<Rightarrow> int \<Rightarrow> vt_request \<Rightarrow> 'h worker \<Rightarrow> int option \<times> 'h worker" where
  "ioctl env fd r w = (we_ioctl env fd r, wemit [Ioctl fd r] w)"

definition open_tty :: "'h worker_env \<Rightarrow> string \<Rightarrow> 'h worker \<Rightarrow> int \<times> 'h worker" where
  "open_tty env path w = (we_open_tty env path, wemit [OpenTty path] w)"

definition VT_AUTO :: int where "VT_AUTO = 0"
definition KD_TEXT :: int where "KD_TEXT = 0"

definition handle_terminal_vt_switches :: "'h worker_env \<Rightarrow> int \<Rightarrow> 'h worker \<Rightarrow> bool \<times> 'h worker" where
  "handle_terminal_vt_switches env tty_fd w =
     (case ioctl env tty_fd VT_SETMODE w of (r, w) \<Rightarrow> (r \<noteq> None, w))"

text \<open>A request that fails leaves its structure zero, which reads as \<open>VT_AUTO\<close> and
  \<open>KD_TEXT\<close>. \<open>g_error\<close> ends the process.\<close>

definition fix_terminal_vt_mode :: "'h worker_env \<Rightarrow> int \<Rightarrow> 'h worker \<Rightarrow> 'h worker option" where
  "fix_terminal_vt_mode env tty_fd w =
     (let (mode, w) = ioctl env tty_fd VT_GETMODE w;
          succeeded = (mode \<noteq> None)
      in if (case mode of None \<Rightarrow> 0 | Some m \<Rightarrow> m) \<noteq> VT_AUTO then (if succeeded then Some w else None)
         else let (kernel_display_mode, w) = ioctl env tty_fd KDGETMODE w;
                  succeeded = (succeeded \<and> kernel_display_mode \<noteq> None)
              in if (case kernel_display_mode of None \<Rightarrow> 0 | Some m \<Rightarrow> m) = KD_TEXT
                 then (if succeeded then Some w else None)
                 else (case handle_terminal_vt_switches env tty_fd w of
                         (succeeded, w) \<Rightarrow> if succeeded then Some w else None))"

text \<open>The second half of \<open>jump_to_vt\<close>: the switch itself, through the chosen descriptor.\<close>

definition activate_vt :: "'h worker_env \<Rightarrow> int \<Rightarrow> int \<Rightarrow> 'h worker \<Rightarrow> 'h worker" where
  "activate_vt env fd vt_number w =
     (let (_, w) = handle_terminal_vt_switches env fd w;
          (vt_state, w) = ioctl env fd VT_GETSTATE w;
          active_vt = (case vt_state of None \<Rightarrow> -1 | Some v \<Rightarrow> v)
      in if active_vt \<noteq> vt_number
         then (case ioctl env fd (VT_ACTIVATE vt_number) w of
                 (None, w) \<Rightarrow> w | (Some _, w) \<Rightarrow> snd (ioctl env fd (VT_WAITACTIVE vt_number) w))
         else w)"

definition jump_to_vt :: "'h worker_env \<Rightarrow> int \<Rightarrow> 'h worker \<Rightarrow> 'h worker option" where
  "jump_to_vt env vt_number w =
     (let (active_vt_tty_fd, w) = open_tty env ''/dev/tty0'' w
      in if w_session_tty_fd w \<noteq> -1
         then let w = wemit [ClearScreen (w_session_tty_fd w)] w;
                  (_, w) = ioctl env (w_session_tty_fd w) KDSETMODE_GRAPHICS w
              in (case fix_terminal_vt_mode env active_vt_tty_fd w of
                    None \<Rightarrow> None
                  | Some w \<Rightarrow> Some (wemit [CloseTty active_vt_tty_fd] (activate_vt env (w_session_tty_fd w) vt_number w)))
         else Some (wemit [CloseTty active_vt_tty_fd] (activate_vt env active_vt_tty_fd vt_number w)))"

section \<open>Set-up and end of PAM\<close>

definition scdm_session_worker_start_auditor :: "'h worker_env \<Rightarrow> 'h worker \<Rightarrow> 'h worker" where
  "scdm_session_worker_start_auditor env w =
     w\<lparr>w_auditor := Some \<lparr>au_reports = (\<not> w_is_program_session w \<and> we_platform_auditor env), au_username = None\<rparr>\<rparr>"

definition scdm_session_worker_stop_auditor :: "'h worker \<Rightarrow> 'h worker" where
  "scdm_session_worker_stop_auditor w = w\<lparr>w_auditor := None\<rparr>"

definition scdm_session_worker_uninitialize_pam ::
  "'h worker_env \<Rightarrow> pam_code \<Rightarrow> 'h worker \<Rightarrow> 'h worker option" where
  "scdm_session_worker_uninitialize_pam env status w =
     (if w_pam_handle w = None then Some w
      else do {
        (_, w) \<leftarrow> scdm_session_worker_get_username env w;
        w \<leftarrow> (if w_state w \<ge> GDM_SESSION_WORKER_STATE_SESSION_OPENED
             then do { (_, w) \<leftarrow> call_pam env SessionClosed pam_close_session 0 w; audit LogoutReport w }
             else audit (LoginFailureReport status) w);
        w \<leftarrow> (if w_state w \<ge> GDM_SESSION_WORKER_STATE_ACCREDITED
             then map_option snd (call_pam env (CredentialsSet PAM_DELETE_CRED) pam_setcred PAM_DELETE_CRED w)
             else Some w);
        let w = wemit [PamEnd status] (w\<lparr>w_pam_handle := None\<rparr>);
        let w = scdm_session_worker_stop_auditor w;
        w \<leftarrow> (if we_user_display_server env \<and> w_display_seat_id w = Some ''seat0'' \<and>
                w_session_vt w \<noteq> int (we_initial_vt env)
             then jump_to_vt env (int (we_initial_vt env)) w else Some w);
        let w = w\<lparr>w_session_vt := 0\<rparr>;
        Some (scdm_session_worker_set_state GDM_SESSION_WORKER_STATE_NONE w)
      })"

text \<open>\<open>key=value\<close>, or \<open>key\<close> alone to remove the variable; a failure is only logged.
  Without a handle PAM refuses.\<close>

definition scdm_session_worker_set_environment_variable ::
  "'h worker_env \<Rightarrow> string \<Rightarrow> string option \<Rightarrow> 'h worker \<Rightarrow> 'h worker" where
  "scdm_session_worker_set_environment_variable env key value w =
     (let entry = (case value of None \<Rightarrow> key | Some v \<Rightarrow> key @ ''='' @ v)
      in case w_pam_handle w of
           None \<Rightarrow> w
         | Some h \<Rightarrow> w\<lparr>w_pam_handle := Some (snd (pam_putenv (we_lib env) h entry))\<rparr>)"

definition scdm_session_worker_get_environment_variable :: "'h worker_env \<Rightarrow> string \<Rightarrow> 'h worker \<Rightarrow> string option" where
  "scdm_session_worker_get_environment_variable env key w =
     (case w_pam_handle w of None \<Rightarrow> None | Some h \<Rightarrow> pam_getenv (we_lib env) h key)"

definition scdm_session_worker_environment_variable_is_set :: "'h worker_env \<Rightarrow> string \<Rightarrow> 'h worker \<Rightarrow> bool" where
  "scdm_session_worker_environment_variable_is_set env key w \<longleftrightarrow>
     (case w_pam_handle w of None \<Rightarrow> False | Some h \<Rightarrow> pam_getenv (we_lib env) h key \<noteq> None)"

definition set_item :: "'h worker_env \<Rightarrow> pam_item \<Rightarrow> string \<Rightarrow> 'h worker \<Rightarrow> pam_code \<times> 'h worker" where
  "set_item env i v w =
     (case w_pam_handle w of
        None \<Rightarrow> (PAM_SYSTEM_ERR, w)
      | Some h \<Rightarrow> (case pam_set_item (we_lib env) h i v of (c, h) \<Rightarrow> (c, w\<lparr>w_pam_handle := Some h\<rparr>)))"

definition tty_name :: "int \<Rightarrow> string" where
  "tty_name n = ''/dev/tty'' @ show_int n"

definition nonempty :: "string option \<Rightarrow> bool" where
  "nonempty s \<longleftrightarrow> s \<noteq> None \<and> s \<noteq> Some []"

text \<open>The end of each step: after an error PAM is shut down.\<close>

definition finish_step ::
  "'h worker_env \<Rightarrow> pam_code \<Rightarrow> (worker_error \<times> error_text) \<Rightarrow> 'h worker \<Rightarrow>
   ((worker_error \<times> error_text) option \<times> 'h worker) option" where
  "finish_step env c e w =
     (if c \<noteq> PAM_SUCCESS then map_option (Pair (Some e)) (scdm_session_worker_uninitialize_pam env c w)
      else Some (None, w))"

text \<open>The items before the state changes: the code at which it stops, and the error.\<close>

definition pam_items ::
  "'h worker_env \<Rightarrow> string option \<Rightarrow> string option \<Rightarrow> 'h worker \<Rightarrow> pam_code \<times> 'h worker" where
  "pam_items env username hostname w =
     (case (if username = None then set_item env PAM_USER_PROMPT ''Username:'' w else (PAM_SUCCESS, w)) of
        (c, w) \<Rightarrow>
          if c \<noteq> PAM_SUCCESS then (c, w)
          else (case hostname of
                  None \<Rightarrow> (c, w)
                | Some h \<Rightarrow> if h \<noteq> [] then set_item env PAM_RHOST h w else (c, w)))"

definition scdm_session_worker_initialize_pam ::
  "'h worker_env \<Rightarrow> string option \<Rightarrow> string list option \<Rightarrow> string option \<Rightarrow> string option \<Rightarrow> bool \<Rightarrow>
   string option \<Rightarrow> 'h worker \<Rightarrow> ((worker_error \<times> error_text) option \<times> 'h worker) option" where
  "scdm_session_worker_initialize_pam env service extensions username hostname display_is_local seat_id w =
     (if w_pam_handle w \<noteq> None then None
      else
        let w = (case extensions of None \<Rightarrow> w
                 | Some es \<Rightarrow> w\<lparr>w_supported := advertise_supported_extensions es (w_supported w)\<rparr>);
            w = scdm_session_worker_start_auditor env w;
            (c, h) = pam_start (we_lib env) service username;
            w = wemit [Pam Started c] (w\<lparr>w_pam_handle := h\<rparr>)
        in if c \<noteq> PAM_SUCCESS then finish_step env c (SERVICE_UNAVAILABLE, NoText) w
           else (case pam_items env username hostname w of
                   (c, w) \<Rightarrow>
                     if c \<noteq> PAM_SUCCESS then finish_step env c (AUTHENTICATING, NoText) w
                     else
                       let w = (if nonempty seat_id
                                then scdm_session_worker_set_environment_variable env ''XDG_SEAT'' seat_id w else w)
                       in case service of
                            None \<Rightarrow> None
                          | Some s \<Rightarrow>
                              let w = (if s = ''scdm-launch-environment''
                                       then scdm_session_worker_set_environment_variable env ''XDG_SESSION_CLASS''
                                              (Some ''greeter'') w else w);
                                  w = scdm_session_worker_set_state GDM_SESSION_WORKER_STATE_SETUP_COMPLETE w;
                                  w = snd (set_item env PAM_TTY (tty_name (int (we_initial_vt env))) w);
                                  w = (if \<not> display_is_local then w\<lparr>w_password_is_required := True\<rparr> else w)
                              in Some (None, w)))"

section \<open>Authentication, authorization, credentials\<close>

definition auth_flags :: "bool \<Rightarrow> u32" where
  "auth_flags password_is_required = (if password_is_required then PAM_DISALLOW_NULL_AUTHTOK else 0)"

definition scdm_session_worker_authenticate_user ::
  "'h worker_env \<Rightarrow> bool \<Rightarrow> 'h worker \<Rightarrow> ((worker_error \<times> error_text) option \<times> 'h worker) option" where
  "scdm_session_worker_authenticate_user env password_is_required w = do {
     let flags = auth_flags password_is_required;
     (c, w) \<leftarrow> call_pam env (Authenticated flags) pam_authenticate flags w;
     if c = PAM_AUTHINFO_UNAVAIL then finish_step env c (SERVICE_UNAVAILABLE, NoText) w
     else if c \<noteq> PAM_SUCCESS
     then let c = (if c = PAM_USER_UNKNOWN then PAM_AUTH_ERR else c)
          in finish_step env c (AUTHENTICATING, get_friendly_error_message c) w
     else Some (None, scdm_session_worker_set_state GDM_SESSION_WORKER_STATE_AUTHENTICATED w)
   }"

definition scdm_session_worker_authorize_user ::
  "'h worker_env \<Rightarrow> bool \<Rightarrow> 'h worker \<Rightarrow> ((worker_error \<times> error_text) option \<times> 'h worker) option" where
  "scdm_session_worker_authorize_user env password_is_required w = do {
     let flags = auth_flags password_is_required;
     (c, w) \<leftarrow> call_pam env (AccountChecked flags) pam_acct_mgmt flags w;
     (c, w) \<leftarrow>
       (if c = PAM_NEW_AUTHTOK_REQD \<and> \<not> w_is_program_session w
        then do {
          (c, w) \<leftarrow> call_pam env (PasswordChanged PAM_CHANGE_EXPIRED_AUTHTOK) pam_chauthtok PAM_CHANGE_EXPIRED_AUTHTOK w;
          (_, w) \<leftarrow> scdm_session_worker_get_username env w;
          w \<leftarrow> audit (if c \<noteq> PAM_SUCCESS then PasswordChangeFailureReport else PasswordChangedReport) w;
          Some (c, w)
        }
        else Some (c, w));
     let c = (if w_is_reauth_session w then PAM_SUCCESS else c);
     if c \<noteq> PAM_SUCCESS then finish_step env c (AUTHORIZING, get_friendly_error_message c) w
     else Some (None, scdm_session_worker_set_state GDM_SESSION_WORKER_STATE_AUTHORIZED w)
   }"

definition scdm_session_worker_update_environment_from_passwd_info ::
  "'h worker_env \<Rightarrow> string \<Rightarrow> string \<Rightarrow> 'h worker \<Rightarrow> 'h worker" where
  "scdm_session_worker_update_environment_from_passwd_info env home shell w =
     (let set = scdm_session_worker_set_environment_variable env;
          w = set ''LOGNAME'' (w_username w) w;
          w = set ''USER'' (w_username w) w;
          w = set ''USERNAME'' (w_username w) w;
          w = set ''HOME'' (Some home) w;
          w = set ''PWD'' (Some home) w
      in set ''SHELL'' (Some shell) w)"

text \<open>The loop around \<open>getpwnam_r\<close>; \<open>None\<close>: the answers of the database are used up.\<close>

fun getpwnam_again :: "(passwd option \<times> errno option) list \<Rightarrow> (passwd option \<times> errno option) option" where
  "getpwnam_again [] = None"
| "getpwnam_again ((pw, e) # as) = (if e = Some EINTR then getpwnam_again as else Some (pw, e))"

definition lookup_passwd_info :: "'h worker_env \<Rightarrow> string \<Rightarrow> (u32 \<times> u32 \<times> string \<times> string) option option" where
  "lookup_passwd_info env username =
     (case getpwnam_again (we_getpwnam env username) of
        None \<Rightarrow> None
      | Some (pw, e) \<Rightarrow>
          Some (if e \<noteq> None then None
                else (case pw of
                        None \<Rightarrow> None
                      | Some pw \<Rightarrow>
                          Some (pw_uid pw, pw_gid pw,
                            case pw_dir pw of None \<Rightarrow> ''/'' | Some d \<Rightarrow> if d = [] then ''/'' else d,
                            case pw_shell pw of None \<Rightarrow> ''/bin/bash'' | Some s \<Rightarrow> if s = [] then ''/bin/bash'' else s))))"

definition change_user :: "'h worker_env \<Rightarrow> u32 \<Rightarrow> u32 \<Rightarrow> 'h worker \<Rightarrow> bool \<times> 'h worker" where
  "change_user env uid gid w = (we_setgid env \<and> we_initgroups env, w\<lparr>w_uid := uid, w_gid := gid\<rparr>)"

definition default_path :: "'h worker_env \<Rightarrow> string" where
  "default_path env =
     (if we_bindir env = ''/usr/bin'' then we_default_path env else we_bindir env @ '':'' @ we_default_path env)"

definition scdm_session_worker_accredit_user ::
  "'h worker_env \<Rightarrow> 'h worker \<Rightarrow> ((worker_error \<times> error_text) option \<times> 'h worker) option" where
  "scdm_session_worker_accredit_user env w =
     (case w_username w of
        None \<Rightarrow> finish_step env PAM_USER_UNKNOWN (GIVING_CREDENTIALS, NoUserAccount) w
      | Some username \<Rightarrow>
          (case lookup_passwd_info env username of
             None \<Rightarrow> None
           | Some None \<Rightarrow> finish_step env PAM_AUTHINFO_UNAVAIL (GIVING_CREDENTIALS, NoUserAccount) w
           | Some (Some (uid, gid, home, shell)) \<Rightarrow>
               let w = scdm_session_worker_update_environment_from_passwd_info env home shell w;
                   w = (if \<not> scdm_session_worker_environment_variable_is_set env ''PATH'' w
                        then scdm_session_worker_set_environment_variable env ''PATH'' (Some (default_path env)) w else w);
                   (changed, w) = change_user env uid gid w
               in if \<not> changed then finish_step env PAM_SYSTEM_ERR (GIVING_CREDENTIALS, UnableToChangeUser) w
                  else do {
                    (c, w) \<leftarrow> call_pam env (CredentialsSet (w_cred_flags w)) pam_setcred (w_cred_flags w) w;
                    let c = (if w_is_reauth_session w then PAM_SUCCESS else c);
                    if c \<noteq> PAM_SUCCESS then finish_step env c (GIVING_CREDENTIALS, PamError c) w
                    else do {
                      (_, w) \<leftarrow> scdm_session_worker_get_username env w;
                      w \<leftarrow> audit UserAccreditedReport w;
                      Some (None, scdm_session_worker_set_state GDM_SESSION_WORKER_STATE_ACCREDITED w)
                    }
                  }))"

end
