(* ===== verification/Worker_Session.thy ===== *)
theory Worker_Session
  imports Worker "HOL-Library.List_Lexorder" "HOL-Library.Char_ord"
begin

text \<open>
  The session worker, second part: the files that set environment variables, the logs, the
  virtual terminal of a session, opening it and starting its program, and its end. The file system
  and the system calls are arguments; what is done with them is a list.
\<close>

section \<open>Environment files\<close>

definition split_on :: "char \<Rightarrow> string \<Rightarrow> string list" where
  "split_on d s =
     (case foldr (\<lambda>c (cur, done). if c = d then ([], cur # done) else (c # cur, done)) s ([], [])
      of (cur, done) \<Rightarrow> cur # done)"

lemma split_on_Nil [simp]: "split_on d [] = [[]]"
  by (simp add: split_on_def)

lemma split_on_Cons [simp]:
  "split_on d (c # s) =
     (if c = d then [] # split_on d s else (c # hd (split_on d s)) # tl (split_on d s))"
  by (auto simp: split_on_def split: prod.splits)

lemma split_on_plain: "d \<notin> set s \<Longrightarrow> split_on d s = [s]"
  by (induction s) auto

lemma split_on_append: "d \<notin> set s \<Longrightarrow> split_on d (s @ d # r) = s # split_on d r"
  by (induction s) auto

definition g_strchomp :: "string \<Rightarrow> string" where
  "g_strchomp s = rev (dropWhile ascii_isspace (rev s))"

definition get_var_cb :: "'h worker_env \<Rightarrow> 'h worker \<Rightarrow> string \<Rightarrow> string option" where
  "get_var_cb env w key = scdm_session_worker_get_environment_variable env key w"

text \<open>One line: the variable and the text behind the equals sign, or nothing for blank lines,
  comments and invalid lines.\<close>

definition env_line :: "string \<Rightarrow> (string \<times> string) option" where
  "env_line line =
     (let p = dropWhile ascii_isspace line
      in if p = [] \<or> hd p = CHR ''#'' then None
         else (case var_span True p of
                 (var, rest) \<Rightarrow>
                   let p = dropWhile ascii_isspace rest
                   in if var = [] \<or> p = [] \<or> hd p \<noteq> CHR ''='' then None
                      else Some (var, dropWhile ascii_isspace (tl p))))"

definition load_env_line :: "'h worker_env \<Rightarrow> string \<Rightarrow> 'h worker \<Rightarrow> 'h worker" where
  "load_env_line env line w =
     (case env_line line of
        None \<Rightarrow> w
      | Some (var, p) \<Rightarrow>
          scdm_session_worker_set_environment_variable env var
            (Some (g_strchomp (scdm_shell_expand (get_var_cb env w) p))) w)"

definition load_env_file :: "'h worker_env \<Rightarrow> string option \<Rightarrow> 'h worker \<Rightarrow> 'h worker" where
  "load_env_file env contents w =
     (case contents of None \<Rightarrow> w | Some c \<Rightarrow> fold (load_env_line env) (split_on (CHR 0x0A) c) w)"

text \<open>A directory: the name, whether it is a regular file, and whether it is hidden. Names are
  compared as bytes.\<close>

definition env_names :: "(string \<times> bool \<times> bool) list \<Rightarrow> string list" where
  "env_names entries =
     sort (map fst (filter (\<lambda>(name, regular, hidden). regular \<and> \<not> hidden \<and> suffix ''.env'' name) entries))"

record session_env =
  se_datadir :: string
  se_confdir :: string
  se_list_dir :: "string \<Rightarrow> (string \<times> bool \<times> bool) list option"
  se_contents :: "string \<Rightarrow> string option"
  se_runnable :: "string \<Rightarrow> bool"
  se_build_filename :: "string list \<Rightarrow> string"
  se_parse_argv :: "string \<Rightarrow> string list option"
  se_spawn :: "string list \<Rightarrow> string list \<Rightarrow> u32 option"
  se_garbage :: u32
  se_getgrgid :: "u32 \<Rightarrow> (string option \<times> errno option) list"
  se_xauth :: "string option \<Rightarrow> string option"
  se_fork :: int
  se_journald :: bool
  se_setsid :: bool
  se_setuid :: bool
  se_chdir :: "string \<Rightarrow> bool"
  se_mkdir :: "string \<Rightarrow> bool"
  se_access_dir :: "string \<Rightarrow> bool"
  se_loggable :: "string \<Rightarrow> bool"
  se_open :: "string \<Rightarrow> int"
  se_mkstemp :: int
  se_ftruncate :: bool
  se_fchmod :: bool
  se_PATH :: "string option"

definition scdm_session_worker_load_env_dir ::
  "'h worker_env \<Rightarrow> session_env \<Rightarrow> string \<Rightarrow> 'h worker \<Rightarrow> 'h worker" where
  "scdm_session_worker_load_env_dir env se dir w =
     (case se_list_dir se dir of
        None \<Rightarrow> w
      | Some entries \<Rightarrow>
          fold (\<lambda>name. load_env_file env (se_contents se (dir @ ''/'' @ name))) (env_names entries) w)"

definition scdm_session_worker_load_env_d :: "'h worker_env \<Rightarrow> session_env \<Rightarrow> 'h worker \<Rightarrow> 'h worker" where
  "scdm_session_worker_load_env_d env se w =
     scdm_session_worker_load_env_dir env se (se_confdir se @ ''/env.d'')
       (scdm_session_worker_load_env_dir env se (se_datadir se @ ''/scdm/env.d'') w)"

section \<open>Running the program\<close>

datatype exec_errno = E_NOEXEC | E_ACCES | E_NOENT | E_STALE | E_NOTDIR | E_other nat

datatype exec_call = Execve string "string list"

text \<open>\<open>exec\<close> is the system call: it does not return, or returns an error number. The result
  says which call replaced the program, or the error.\<close>

definition script_execute :: "string \<Rightarrow> string list \<Rightarrow> exec_call" where
  "script_execute file argv = Execve ''/bin/sh'' ([''/bin/sh'', file] @ tl argv)"

definition try_execute ::
  "(exec_call \<Rightarrow> exec_errno option) \<Rightarrow> string \<Rightarrow> string list \<Rightarrow> exec_errno + exec_call" where
  "try_execute exec file argv =
     (case exec (Execve file argv) of
        None \<Rightarrow> Inr (Execve file argv)
      | Some e \<Rightarrow>
          if e = E_NOEXEC
          then (case exec (script_execute file argv) of
                  None \<Rightarrow> Inr (script_execute file argv) | Some e \<Rightarrow> Inl e)
          else Inl e)"

definition path_candidate :: "string \<Rightarrow> string \<Rightarrow> string" where
  "path_candidate file dir = (if dir = [] then file else dir @ ''/'' @ file)"

fun search_loop ::
  "(exec_call \<Rightarrow> exec_errno option) \<Rightarrow> string \<Rightarrow> string list \<Rightarrow> string list \<Rightarrow> bool \<Rightarrow> exec_errno \<Rightarrow>
   exec_errno + exec_call" where
  "search_loop exec file argv [] got_eacces e = Inl (if got_eacces then E_ACCES else e)"
| "search_loop exec file argv (dir # dirs) got_eacces e =
     (case try_execute exec (path_candidate file dir) argv of
        Inr c \<Rightarrow> Inr c
      | Inl e \<Rightarrow>
          if e = E_ACCES then search_loop exec file argv dirs True e
          else if e \<in> {E_NOENT, E_STALE, E_NOTDIR} then search_loop exec file argv dirs got_eacces e
          else Inl e)"

definition scdm_session_execute ::
  "(exec_call \<Rightarrow> exec_errno option) \<Rightarrow> string option \<Rightarrow> string \<Rightarrow> string list \<Rightarrow> bool \<Rightarrow> exec_errno + exec_call" where
  "scdm_session_execute exec path_variable file argv search_path =
     (if file = [] then Inl E_NOENT
      else if \<not> search_path \<or> CHR ''/'' \<in> set file then try_execute exec file argv
      else search_loop exec file argv
             (split_on (CHR '':'') (case path_variable of None \<Rightarrow> ''/bin:/usr/bin:.'' | Some p \<Rightarrow> p)) False E_NOENT)"

section \<open>Logs\<close>

datatype file_op =
    Unlink string | Rename string string | OpenLog string | MakeTemp string | Truncate int | FchmodLog int u32
  | CloseLog int | OpenNull

definition log_copy :: "string \<Rightarrow> nat \<Rightarrow> string" where
  "log_copy path i = (if i = 0 then path else path @ ''.'' @ show_nat i)"

fun rotate_loop :: "string \<Rightarrow> nat \<Rightarrow> file_op list" where
  "rotate_loop path 0 = [Unlink path]"
| "rotate_loop path (Suc i) =
     [Unlink (log_copy path (Suc i)), Rename (log_copy path i) (log_copy path (Suc i))] @ rotate_loop path i"

text \<open>\<open>n_copies - 1\<close> is unsigned and becomes an \<open>int\<close>: no copies give \<open>-1\<close>.\<close>

definition rotate_logs :: "string \<Rightarrow> u32 \<Rightarrow> file_op list" where
  "rotate_logs path n_copies = rotate_loop path (nat (sint (n_copies - 1)))"

definition MAX_LOGS :: u32 where "MAX_LOGS = 5"

text \<open>From the open file on: truncation, permissions, and the null device as the last resort.\<close>

definition finish_log :: "session_env \<Rightarrow> int \<Rightarrow> bool \<Rightarrow> u32 \<Rightarrow> int \<times> file_op list" where
  "finish_log se fd trunc mode =
     (let (fd, ops) = (if fd \<ge> 0 \<and> trunc
                       then if se_ftruncate se then (fd, [Truncate fd]) else (-1, [Truncate fd, CloseLog fd])
                       else (fd, []));
          (fd, ops) = (if fd \<ge> 0
                       then if se_fchmod se then (fd, ops @ [FchmodLog fd mode])
                            else (-1, ops @ [FchmodLog fd mode, CloseLog fd])
                       else (fd, ops))
      in if fd < 0 then (se_open se ''/dev/null'', ops @ [OpenNull]) else (fd, ops))"

definition open_log :: "session_env \<Rightarrow> string \<Rightarrow> u32 \<Rightarrow> int \<times> file_op list" where
  "open_log se filename mode =
     (let fd = se_open se filename
      in if fd < 0
         then (case finish_log se (se_mkstemp se) False mode of
                 (fd, ops) \<Rightarrow> (fd, [OpenLog filename, MakeTemp (filename @ ''.XXXXXXXX'')] @ ops))
         else (case finish_log se fd True mode of (fd, ops) \<Rightarrow> (fd, OpenLog filename # ops)))"

definition open_program_session_log :: "session_env \<Rightarrow> string \<Rightarrow> int \<times> file_op list" where
  "open_program_session_log se filename =
     (case open_log se filename 0x1A4 of (fd, ops) \<Rightarrow> (fd, rotate_logs filename MAX_LOGS @ ops))"

definition open_user_session_log :: "session_env \<Rightarrow> string \<Rightarrow> int \<times> file_op list" where
  "open_user_session_log se dir =
     (let filename = se_build_filename se [dir, ''session.log'']
      in case open_log se filename 0x180 of
           (fd, ops) \<Rightarrow>
             (fd, (if se_access_dir se dir \<and> se_loggable se filename
                   then [Rename filename (filename @ ''.old'')] else []) @ ops))"

section \<open>The terminal of a session\<close>

definition set_up_for_new_vt :: "'h worker_env \<Rightarrow> 'h worker \<Rightarrow> (bool \<times> 'h worker) option" where
  "set_up_for_new_vt env w =
     (let initial = int (we_initial_vt env); (initial_vt_fd, w) = open_tty env (tty_name initial) w
      in if initial_vt_fd < 0 then Some (False, w)
         else
           let (session_vt, w) = (if w_display_is_initial w then (Some initial, w) else ioctl env initial_vt_fd VT_OPENQRY w)
           in case session_vt of
                None \<Rightarrow> Some (False, wemit [CloseTty initial_vt_fd] w)
              | Some vt \<Rightarrow>
                  let w = w\<lparr>w_session_vt := vt\<rparr>
                  in if \<not> vt > 0 then None
                     else
                       let w = scdm_session_worker_set_environment_variable env ''XDG_VTNR'' (Some (show_int vt)) w;
                           w = (if w_display_is_initial w then w\<lparr>w_session_tty_fd := initial_vt_fd\<rparr>
                                else case open_tty env (tty_name vt) w of
                                       (fd, w) \<Rightarrow> wemit [CloseTty initial_vt_fd] (w\<lparr>w_session_tty_fd := fd\<rparr>));
                           w = snd (set_item env PAM_TTY (tty_name vt) w)
                       in Some (True, w))"

definition set_xdg_vtnr_to_current_vt :: "'h worker_env \<Rightarrow> 'h worker \<Rightarrow> bool \<times> 'h worker" where
  "set_xdg_vtnr_to_current_vt env w =
     (let (fd, w) = open_tty env ''/dev/tty0'' w
      in if fd < 0 then (False, w)
         else (case ioctl env fd VT_GETSTATE w of
                 (None, w) \<Rightarrow> (False, wemit [CloseTty fd] w)
               | (Some v, w) \<Rightarrow>
                   (True, scdm_session_worker_set_environment_variable env ''XDG_VTNR'' (Some (show_int v))
                      (wemit [CloseTty fd] w))))"

definition get_tty_for_pam :: "string option \<Rightarrow> string option \<Rightarrow> string option" where
  "get_tty_for_pam x11_display_name display_device = x11_display_name"

text \<open>An item that is set unless its value is missing or empty.\<close>

definition set_nonempty_item :: "'h worker_env \<Rightarrow> pam_item \<Rightarrow> string option \<Rightarrow> 'h worker \<Rightarrow> pam_code \<times> 'h worker" where
  "set_nonempty_item env i v w =
     (case v of None \<Rightarrow> (PAM_SUCCESS, w) | Some s \<Rightarrow> if s = [] then (PAM_SUCCESS, w) else set_item env i s w)"

definition set_up_for_current_vt ::
  "'h worker_env \<Rightarrow> session_env \<Rightarrow> 'h worker \<Rightarrow> (worker_error \<times> error_text) option \<times> 'h worker" where
  "set_up_for_current_vt env se w =
     (case set_nonempty_item env PAM_TTY (get_tty_for_pam (w_x11_display_name w) (w_display_device w)) w of
        (c, w) \<Rightarrow>
          if c \<noteq> PAM_SUCCESS then (Some (AUTHENTICATING, NoText), w)
          else (case set_nonempty_item env PAM_XDISPLAY (w_x11_display_name w) w of
            (c, w) \<Rightarrow>
              if c \<noteq> PAM_SUCCESS then (Some (AUTHENTICATING, NoText), w)
              else (case (case se_xauth se (w_x11_authority_file w) of
                            None \<Rightarrow> (PAM_SUCCESS, w) | Some x \<Rightarrow> set_item env PAM_XAUTHDATA x w) of
                (c, w) \<Rightarrow>
                  if c \<noteq> PAM_SUCCESS then (Some (AUTHENTICATING, NoText), w)
                  else (None, if w_display_seat_id w = Some ''seat0'' then snd (set_xdg_vtnr_to_current_vt env w) else w))))"

section \<open>Opening a session\<close>

definition set_up_vt ::
  "'h worker_env \<Rightarrow> session_env \<Rightarrow> 'h worker \<Rightarrow> ((worker_error \<times> error_text) option \<times> 'h worker) option" where
  "set_up_vt env se w =
     (case w_display_mode w of
        REUSE_VT \<Rightarrow> Some (set_up_for_current_vt env se w)
      | UnknownMode \<Rightarrow> Some (None, w)
      | _ \<Rightarrow> map_option (\<lambda>(ok, w). (if ok then None else Some (OPENING_SESSION, UnableToOpenVT), w))
               (set_up_for_new_vt env w))"

text \<open>A failed set-up of the terminal leaves PAM as it is.\<close>

definition scdm_session_worker_open_session ::
  "'h worker_env \<Rightarrow> session_env \<Rightarrow> 'h worker \<Rightarrow> ((worker_error \<times> error_text) option \<times> 'h worker) option" where
  "scdm_session_worker_open_session env se w =
     (if w_state w \<noteq> GDM_SESSION_WORKER_STATE_ACCOUNT_DETAILS_SAVED then None
      else (case set_up_vt env se w of
              None \<Rightarrow> None
            | Some (Some e, w) \<Rightarrow> Some (Some e, w)
            | Some (None, w) \<Rightarrow> do {
                let flags = (if w_is_program_session w then PAM_SILENT else 0);
                (c, w) \<leftarrow> call_pam env (SessionOpened flags) pam_open_session flags w;
                if c \<noteq> PAM_SUCCESS then finish_step env c (OPENING_SESSION, PamError c) w
                else do {
                  let w = scdm_session_worker_set_state GDM_SESSION_WORKER_STATE_SESSION_OPENED w;
                  let w = (case scdm_session_worker_get_environment_variable env ''XDG_SESSION_ID'' w of
                             None \<Rightarrow> w | Some i \<Rightarrow> w\<lparr>w_session_id := Some i\<rparr>);
                  (_, w) \<leftarrow> scdm_session_worker_get_username env w;
                  w \<leftarrow> audit LoginReport w;
                  Some (None, w)
                }
              }))"

section \<open>Starting a session\<close>

definition run_script :: "'h worker_env \<Rightarrow> session_env \<Rightarrow> string \<Rightarrow> 'h worker \<Rightarrow> (bool \<times> 'h worker) option" where
  "run_script env se dir w =
     (if w_is_program_session w then Some (True, w)
      else (case w_username w of
              None \<Rightarrow> None
            | Some username \<Rightarrow>
                map_option (\<lambda>ok. (ok, wemit [RanScript dir] w))
                  (scdm_run_script (se_runnable se) (se_build_filename se) (se_parse_argv se) (se_spawn se) (se_garbage se)
                     (scdm_get_script_environment (we_default_path env) (we_getpwnam env) (se_getgrgid se))
                     dir username (w_x11_display_name w) (if w_display_is_local w then None else w_hostname w)
                     (w_x11_authority_file w))))"

definition scdm_session_worker_watch_child :: "'h worker \<Rightarrow> 'h worker" where
  "scdm_session_worker_watch_child w = w\<lparr>w_child_watch := True\<rparr>"

definition scdm_session_worker_start_session ::
  "'h worker_env \<Rightarrow> session_env \<Rightarrow> 'h worker \<Rightarrow> ((worker_error \<times> error_text) option \<times> 'h worker) option" where
  "scdm_session_worker_start_session env se w =
     (if w_arguments w = [] then None
      else do {
        w \<leftarrow> (if w_display_seat_id w = Some ''seat0'' \<and> w_display_mode w = NEW_VT
             then jump_to_vt env (w_session_vt w) w else Some w);
        (ok, w) \<leftarrow> run_script env se (se_confdir se @ ''/PostLogin'') w;
        if \<not> ok then finish_step env PAM_ABORT (OPENING_SESSION, FailedScript ''PostLogin'') w
        else do {
          (ok, w) \<leftarrow> run_script env se (se_confdir se @ ''/PreSession'') w;
          if \<not> ok then finish_step env PAM_ABORT (OPENING_SESSION, FailedScript ''PreSession'') w
          else if se_fork se < 0 then finish_step env PAM_ABORT (OPENING_SESSION, ErrnoText) w
          else
            let w = wemit [ForkedSession (se_fork se)] w;
                w = (if w_session_tty_fd w > 0
                     then wemit [CloseTty (w_session_tty_fd w)] (w\<lparr>w_session_tty_fd := -1\<rparr>) else w);
                w = w\<lparr>w_child_pid := se_fork se\<rparr>;
                w = scdm_session_worker_set_state GDM_SESSION_WORKER_STATE_SESSION_STARTED w
            in Some (None, scdm_session_worker_watch_child w)
        }
      })"

text \<open>The process of the session, in the order of its system calls.\<close>

datatype child_effect =
    StdinFromTty int | StdinFromNull | LogOps "file_op list" | Setsid | TakeTty | Setuid u32 | Chdir string
  | Mkdir string | JournalStreams string | OutputTo int | OutputToNull
  | Execute "exec_errno + exec_call" "string list" | ExitFailure

definition user_log ::
  "'h worker_env \<Rightarrow> session_env \<Rightarrow> string option \<Rightarrow> 'h worker \<Rightarrow> child_effect list" where
  "user_log env se home w =
     (if nonempty home
      then let cache = (case scdm_session_worker_get_environment_variable env ''XDG_CACHE_HOME'' w of
                          None \<Rightarrow> se_build_filename se [the home, ''.cache'']
                        | Some c \<Rightarrow> if c = [] then se_build_filename se [the home, ''.cache''] else c);
               log_dir = se_build_filename se [cache, ''scdm'']
           in Mkdir log_dir #
              (if se_mkdir se log_dir
               then (case open_user_session_log se log_dir of (fd, ops) \<Rightarrow> [LogOps ops, OutputTo fd])
               else [OutputToNull])
      else [OutputToNull])"

definition session_child ::
  "'h worker_env \<Rightarrow> session_env \<Rightarrow> (exec_call \<Rightarrow> exec_errno option) \<Rightarrow> 'h worker \<Rightarrow> child_effect list" where
  "session_child env se exec w =
     (let tty = w_session_tty_fd w > 0;
          stdin_fx = (if tty then StdinFromTty (w_session_tty_fd w) else StdinFromNull);
          program_log = (if \<not> se_journald se \<and> w_is_program_session w
            then (case w_log_file w of None \<Rightarrow> [] | Some f \<Rightarrow>
              (case open_program_session_log se f of (fd, ops) \<Rightarrow> [LogOps ops, OutputTo fd])) else [])
      in stdin_fx # program_log @
         (if \<not> se_setsid se then [Setsid, ExitFailure]
          else Setsid # (if tty then [TakeTty] else []) @ Setuid (w_uid w) #
            (if \<not> se_setuid se then [ExitFailure]
             else
               let w = (if \<not> w_is_program_session w then scdm_session_worker_load_env_d env se w else w);
                   environment = (case w_pam_handle w of None \<Rightarrow> [] | Some h \<Rightarrow> pam_getenvlist (we_lib env) h);
                   home = scdm_session_worker_get_environment_variable env ''HOME'' w
               in [Chdir (case home of None \<Rightarrow> ''/'' | Some d \<Rightarrow> if se_chdir se d then d else ''/'')] @
                  (if se_journald se then [JournalStreams (hd (w_arguments w))]
                   else if w_is_program_session w then [] else user_log env se home w) @
                  (let r = scdm_session_execute exec (se_PATH se) (hd (w_arguments w)) (w_arguments w) True
                   in Execute r environment # (case r of Inl _ \<Rightarrow> [ExitFailure] | Inr _ \<Rightarrow> [])))))"

section \<open>The end of a session and of the worker\<close>

definition session_worker_child_watch ::
  "'h worker_env \<Rightarrow> session_env \<Rightarrow> int \<Rightarrow> u32 \<Rightarrow> 'h worker \<Rightarrow> 'h worker option" where
  "session_worker_child_watch env se pid status w = do {
     w \<leftarrow> scdm_session_worker_uninitialize_pam env PAM_SUCCESS w;
     let w = wemit [SessionExited (w_service w) status, HangupGroup pid] w;
     let w = w\<lparr>w_child_pid := -1, w_child_watch := False\<rparr>;
     (_, w) \<leftarrow> run_script env se (se_confdir se @ ''/PostSession'') w;
     Some w
   }"

definition scdm_session_worker_unwatch_child :: "'h worker \<Rightarrow> 'h worker" where
  "scdm_session_worker_unwatch_child w = w\<lparr>w_child_watch := False\<rparr>"

definition scdm_session_worker_finalize :: "'h worker_env \<Rightarrow> 'h worker \<Rightarrow> 'h worker option" where
  "scdm_session_worker_finalize env w =
     (let w = scdm_session_worker_unwatch_child w;
          w = (if w_child_pid w > 0 then wemit [SignalChild (w_child_pid w), WaitedChild (w_child_pid w)] w else w)
      in if w_pam_handle w \<noteq> None then scdm_session_worker_uninitialize_pam env PAM_SUCCESS w else Some w)"

end
