(* ===== verification/Worker_Requests.thy ===== *)
theory Worker_Requests
  imports Worker_Session
begin

text \<open>
  The session worker, third part: the requests of the daemon over D-Bus, the queued change of
  state, reauthentication, and the relation of all steps of the process. A request carries a number,
  and is answered by \<open>Reply\<close> with that number.
\<close>

section \<open>The change of state\<close>

text \<open>The reply that ends a step.\<close>

definition complete :: "worker_reply \<Rightarrow> ((worker_error \<times> error_text) option \<times> 'h worker) \<Rightarrow> 'h worker" where
  "complete r res = (case res of (None, w) \<Rightarrow> answer r w | (Some (e, t), w) \<Rightarrow> answer (Failed e t) w)"

definition do_setup :: "'h worker_env \<Rightarrow> 'h worker \<Rightarrow> 'h worker option" where
  "do_setup env w =
     map_option (complete Done)
       (scdm_session_worker_initialize_pam env (w_service w) (w_extensions w) (w_username w) (w_hostname w)
          (w_display_is_local w) (w_display_seat_id w) w)"

definition do_authenticate :: "'h worker_env \<Rightarrow> 'h worker \<Rightarrow> 'h worker option" where
  "do_authenticate env w = do {
     (e, w) \<leftarrow> scdm_session_worker_authenticate_user env (w_password_is_required w) w;
     (case e of
        None \<Rightarrow> map_option (answer Done)
          (if \<not> w_is_program_session w then scdm_session_worker_update_username env w else Some w)
      | Some (err, t) \<Rightarrow> Some (answer (Failed err t) w))
   }"

definition do_authorize :: "'h worker_env \<Rightarrow> 'h worker \<Rightarrow> 'h worker option" where
  "do_authorize env w =
     map_option (complete Done) (scdm_session_worker_authorize_user env (w_password_is_required w) w)"

definition do_accredit :: "'h worker_env \<Rightarrow> 'h worker \<Rightarrow> 'h worker option" where
  "do_accredit env w = map_option (complete Done) (scdm_session_worker_accredit_user env w)"

definition do_save_account_details_when_ready :: "'h worker_env \<Rightarrow> 'h worker \<Rightarrow> 'h worker option" where
  "do_save_account_details_when_ready env w =
     (if w_state w \<noteq> GDM_SESSION_WORKER_STATE_ACCREDITED then None
      else if \<not> scdm_session_settings_is_loaded (we_act env) (w_user_settings w)
      then map_option snd (load_settings env (w_username w) (w\<lparr>w_loaded_handler := True\<rparr>))
      else save_account_details_now env w)"

definition do_open_session :: "'h worker_env \<Rightarrow> session_env \<Rightarrow> 'h worker \<Rightarrow> 'h worker option" where
  "do_open_session env se w =
     map_option (\<lambda>(e, w). complete (SessionId (case w_session_id w of None \<Rightarrow> [] | Some i \<Rightarrow> i)) (e, w))
       (scdm_session_worker_open_session env se w)"

definition do_start_session :: "'h worker_env \<Rightarrow> session_env \<Rightarrow> 'h worker \<Rightarrow> 'h worker option" where
  "do_start_session env se w =
     map_option (\<lambda>(e, w). complete (ChildPid (w_child_pid w)) (e, w)) (scdm_session_worker_start_session env se w)"

text \<open>The idle function. Past the last state its name is asked for, which is an assertion that
  fails.\<close>

definition state_change_idle :: "'h worker_env \<Rightarrow> session_env \<Rightarrow> 'h worker \<Rightarrow> 'h worker option" where
  "state_change_idle env se w =
     (case next_state (w_state w) of
        None \<Rightarrow> None
      | Some new_state \<Rightarrow>
          let w = w\<lparr>w_state_change_idle := False\<rparr>
          in (case new_state of
                GDM_SESSION_WORKER_STATE_SETUP_COMPLETE \<Rightarrow> do_setup env w
              | GDM_SESSION_WORKER_STATE_AUTHENTICATED \<Rightarrow> do_authenticate env w
              | GDM_SESSION_WORKER_STATE_AUTHORIZED \<Rightarrow> do_authorize env w
              | GDM_SESSION_WORKER_STATE_ACCREDITED \<Rightarrow> do_accredit env w
              | GDM_SESSION_WORKER_STATE_ACCOUNT_DETAILS_SAVED \<Rightarrow> do_save_account_details_when_ready env w
              | GDM_SESSION_WORKER_STATE_SESSION_OPENED \<Rightarrow> do_open_session env se w
              | GDM_SESSION_WORKER_STATE_SESSION_STARTED \<Rightarrow> do_start_session env se w
              | GDM_SESSION_WORKER_STATE_NONE \<Rightarrow> None))"

text \<open>The message of the first error names the state after the present one, too.\<close>

definition validate_state_change :: "nat \<Rightarrow> worker_state \<Rightarrow> 'h worker \<Rightarrow> (bool \<times> 'h worker) option" where
  "validate_state_change invocation new_state w =
     (if w_pending_invocation w \<noteq> None
      then (case next_state (w_state w) of
              None \<Rightarrow> None
            | Some _ \<Rightarrow> Some (False, wemit [Reply invocation (Failed OUTSTANDING_REQUEST OtherText)] w))
      else if next_state (w_state w) \<noteq> Some new_state
      then Some (False, wemit [Reply invocation (Failed WRONG_STATE OtherText)] w)
      else Some (True, w))"

definition validate_and_queue_state_change :: "nat \<Rightarrow> worker_state \<Rightarrow> 'h worker \<Rightarrow> 'h worker option" where
  "validate_and_queue_state_change invocation new_state w =
     map_option (\<lambda>(ok, w). if ok then queue_state_change (w\<lparr>w_pending_invocation := Some invocation\<rparr>) else w)
       (validate_state_change invocation new_state w)"

section \<open>Requests\<close>

definition scdm_session_worker_handle_authenticate :: "nat \<Rightarrow> 'h worker \<Rightarrow> 'h worker option" where
  "scdm_session_worker_handle_authenticate i w =
     validate_and_queue_state_change i GDM_SESSION_WORKER_STATE_AUTHENTICATED w"

definition scdm_session_worker_handle_authorize :: "nat \<Rightarrow> 'h worker \<Rightarrow> 'h worker option" where
  "scdm_session_worker_handle_authorize i w =
     validate_and_queue_state_change i GDM_SESSION_WORKER_STATE_AUTHORIZED w"

definition scdm_session_worker_handle_establish_credentials :: "nat \<Rightarrow> 'h worker \<Rightarrow> 'h worker option" where
  "scdm_session_worker_handle_establish_credentials i w =
     map_option (\<lambda>w. w\<lparr>w_cred_flags := (if \<not> w_is_reauth_session w then PAM_ESTABLISH_CRED else PAM_REINITIALIZE_CRED)\<rparr>)
       (validate_and_queue_state_change i GDM_SESSION_WORKER_STATE_ACCREDITED w)"

definition scdm_session_worker_handle_open :: "nat \<Rightarrow> 'h worker \<Rightarrow> 'h worker option" where
  "scdm_session_worker_handle_open i w =
     validate_and_queue_state_change i GDM_SESSION_WORKER_STATE_ACCOUNT_DETAILS_SAVED w"

definition supported_pam_extensions :: "string list" where
  "supported_pam_extensions = [SCDM_PAM_EXTENSION_CHOICE_LIST]"

definition filter_extensions :: "string list \<Rightarrow> string list" where
  "filter_extensions extensions = filter (\<lambda>e. e \<in> set supported_pam_extensions) extensions"

text \<open>The values of a detail; a value of another type reads as a null pointer or as false.\<close>

datatype variant = VString string | VBool bool | VStrv "string list"

fun variant_string :: "variant \<Rightarrow> string option" where
  "variant_string (VString s) = Some s"
| "variant_string _ = None"

fun variant_bool :: "variant \<Rightarrow> bool" where
  "variant_bool (VBool b) = b"
| "variant_bool _ = False"

fun set_detail :: "string \<times> variant \<Rightarrow> 'h worker \<Rightarrow> 'h worker option" where
  "set_detail (key, v) w =
     (if key = ''service'' then Some (w\<lparr>w_service := variant_string v\<rparr>)
      else if key = ''extensions''
      then (case v of VStrv es \<Rightarrow> Some (w\<lparr>w_extensions := Some (filter_extensions es)\<rparr>) | _ \<Rightarrow> None)
      else if key = ''username'' then Some (w\<lparr>w_username := variant_string v\<rparr>)
      else if key = ''is-program-session'' then Some (w\<lparr>w_is_program_session := variant_bool v\<rparr>)
      else if key = ''log-file'' then Some (w\<lparr>w_log_file := variant_string v\<rparr>)
      else if key = ''x11-display-name'' then Some (w\<lparr>w_x11_display_name := variant_string v\<rparr>)
      else if key = ''x11-authority-file'' then Some (w\<lparr>w_x11_authority_file := variant_string v\<rparr>)
      else if key = ''console'' then Some (w\<lparr>w_display_device := variant_string v\<rparr>)
      else if key = ''seat-id'' then Some (w\<lparr>w_display_seat_id := variant_string v\<rparr>)
      else if key = ''hostname'' then Some (w\<lparr>w_hostname := variant_string v\<rparr>)
      else if key = ''display-is-local'' then Some (w\<lparr>w_display_is_local := variant_bool v\<rparr>)
      else if key = ''display-is-initial'' then Some (w\<lparr>w_display_is_initial := variant_bool v\<rparr>)
      else Some w)"

fun set_details :: "(string \<times> variant) list \<Rightarrow> 'h worker \<Rightarrow> 'h worker option" where
  "set_details [] w = Some w"
| "set_details (d # ds) w = Option.bind (set_detail d w) (set_details ds)"

definition connect_saved_handlers :: "'h worker \<Rightarrow> 'h worker" where
  "connect_saved_handlers w = w\<lparr>w_saved_handlers := Suc (w_saved_handlers w)\<rparr>"

text \<open>The settings of the user, and whether they have to be waited for.\<close>

definition initialize_settings :: "'h worker_env \<Rightarrow> 'h worker \<Rightarrow> (bool \<times> 'h worker) option" where
  "initialize_settings env w =
     (if \<not> w_is_program_session w
      then let w = connect_saved_handlers w
           in if w_username w \<noteq> None
              then map_option (\<lambda>(res, w). (\<not> res, w)) (load_settings env (w_username w) w)
              else Some (False, w)
      else Some (False, w))"

definition scdm_session_worker_handle_initialize ::
  "'h worker_env \<Rightarrow> nat \<Rightarrow> (string \<times> variant) list \<Rightarrow> 'h worker \<Rightarrow> 'h worker option" where
  "scdm_session_worker_handle_initialize env i details w = do {
     (ok, w) \<leftarrow> validate_state_change i GDM_SESSION_WORKER_STATE_SETUP_COMPLETE w;
     if \<not> ok then Some w
     else do {
       w \<leftarrow> set_details details w;
       let w = w\<lparr>w_pending_invocation := Some i\<rparr>;
       (wait_for_settings, w) \<leftarrow> initialize_settings env w;
       Some (if wait_for_settings then w\<lparr>w_loaded_handler := True\<rparr> else queue_state_change w)
     }
   }"

record setup_args =
  sa_service :: string
  sa_x11_display_name :: string
  sa_x11_authority_file :: string
  sa_console :: string
  sa_seat_id :: string
  sa_hostname :: string
  sa_display_is_local :: bool
  sa_display_is_initial :: bool

definition set_setup_args :: "setup_args \<Rightarrow> string option \<Rightarrow> 'h worker \<Rightarrow> 'h worker" where
  "set_setup_args a username w =
     w\<lparr>w_service := Some (sa_service a), w_x11_display_name := Some (sa_x11_display_name a),
       w_x11_authority_file := Some (sa_x11_authority_file a), w_display_device := Some (sa_console a),
       w_display_seat_id := Some (sa_seat_id a), w_hostname := Some (sa_hostname a),
       w_display_is_local := sa_display_is_local a, w_display_is_initial := sa_display_is_initial a,
       w_username := username\<rparr>"

text \<open>The older requests. Two of them go on after a refusal.\<close>

definition scdm_session_worker_handle_setup :: "nat \<Rightarrow> setup_args \<Rightarrow> 'h worker \<Rightarrow> 'h worker option" where
  "scdm_session_worker_handle_setup i a w =
     map_option (\<lambda>w. connect_saved_handlers (set_setup_args a None w))
       (validate_and_queue_state_change i GDM_SESSION_WORKER_STATE_SETUP_COMPLETE w)"

definition scdm_session_worker_handle_setup_for_user ::
  "'h worker_env \<Rightarrow> nat \<Rightarrow> setup_args \<Rightarrow> string \<Rightarrow> 'h worker \<Rightarrow> 'h worker option" where
  "scdm_session_worker_handle_setup_for_user env i a username w = do {
     (ok, w) \<leftarrow> validate_state_change i GDM_SESSION_WORKER_STATE_SETUP_COMPLETE w;
     if \<not> ok then Some w
     else do {
       let w = connect_saved_handlers (set_setup_args a (Some username) w);
       let w = w\<lparr>w_pending_invocation := Some i\<rparr>;
       (loaded, w) \<leftarrow> load_settings env (Some username) w;
       Some (if loaded then queue_state_change w else w\<lparr>w_loaded_handler := True\<rparr>)
     }
   }"

definition scdm_session_worker_handle_setup_for_program ::
  "nat \<Rightarrow> setup_args \<Rightarrow> string \<Rightarrow> string \<Rightarrow> 'h worker \<Rightarrow> 'h worker option" where
  "scdm_session_worker_handle_setup_for_program i a username log_file w =
     map_option (\<lambda>w. (set_setup_args a (Some username) w)\<lparr>w_log_file := Some log_file, w_is_program_session := True\<rparr>)
       (validate_and_queue_state_change i GDM_SESSION_WORKER_STATE_SETUP_COMPLETE w)"

text \<open>The result of the validation is not looked at. \<open>parse\<close> is
  \<open>g_shell_parse_argv\<close>.\<close>

definition scdm_session_worker_handle_start_program ::
  "(string \<Rightarrow> string list option) \<Rightarrow> nat \<Rightarrow> string \<Rightarrow> 'h worker \<Rightarrow> 'h worker option" where
  "scdm_session_worker_handle_start_program parse i program w = do {
     (_, w) \<leftarrow> validate_state_change i GDM_SESSION_WORKER_STATE_SESSION_STARTED w;
     if w_is_reauth_session w then Some (wemit [Reply i (Failed IN_REAUTH_SESSION OtherText)] w)
     else
       let w = w\<lparr>w_arguments := []\<rparr>
       in case parse program of
            None \<Rightarrow> Some (wemit [Reply i (Failed SHELL_PARSE OtherText)] w)
          | Some argv \<Rightarrow> Some (queue_state_change (w\<lparr>w_arguments := argv, w_pending_invocation := Some i\<rparr>))
   }"

definition scdm_session_worker_handle_set_environment_variable ::
  "'h worker_env \<Rightarrow> nat \<Rightarrow> string \<Rightarrow> string \<Rightarrow> 'h worker \<Rightarrow> 'h worker" where
  "scdm_session_worker_handle_set_environment_variable env i key value w =
     wemit [Reply i Done] (scdm_session_worker_set_environment_variable env key (Some value) w)"

definition scdm_session_worker_handle_set_session_name ::
  "'h worker_env \<Rightarrow> nat \<Rightarrow> string \<Rightarrow> 'h worker \<Rightarrow> 'h worker option" where
  "scdm_session_worker_handle_set_session_name env i name w =
     (case scdm_session_settings_set_session_name name (w_user_settings w) of
        (s, ns) \<Rightarrow> map_option (wemit [Reply i Done]) (settings_signals env ns (w\<lparr>w_user_settings := s\<rparr>)))"

definition scdm_session_worker_handle_set_language_name ::
  "'h worker_env \<Rightarrow> nat \<Rightarrow> string \<Rightarrow> 'h worker \<Rightarrow> 'h worker option" where
  "scdm_session_worker_handle_set_language_name env i name w =
     (case scdm_session_settings_set_language_name name (w_user_settings w) of
        (s, ns) \<Rightarrow> map_option (wemit [Reply i Done]) (settings_signals env ns (w\<lparr>w_user_settings := s\<rparr>)))"

definition scdm_session_display_mode_from_string :: "string \<Rightarrow> display_mode" where
  "scdm_session_display_mode_from_string str =
     (if str = ''reuse-vt'' then REUSE_VT else if str = ''new-vt'' then NEW_VT
      else if str = ''logind-managed'' then LOGIND_MANAGED else UnknownMode)"

definition scdm_session_display_mode_to_string :: "display_mode \<Rightarrow> string" where
  "scdm_session_display_mode_to_string mode =
     (case mode of REUSE_VT \<Rightarrow> ''reuse-vt'' | NEW_VT \<Rightarrow> ''new-vt''
      | LOGIND_MANAGED \<Rightarrow> ''logind-managed'' | UnknownMode \<Rightarrow> [])"

definition scdm_session_worker_handle_set_session_display_mode :: "nat \<Rightarrow> string \<Rightarrow> 'h worker \<Rightarrow> 'h worker" where
  "scdm_session_worker_handle_set_session_display_mode i str w =
     wemit [Reply i Done] (w\<lparr>w_display_mode := scdm_session_display_mode_from_string str\<rparr>)"

section \<open>Reauthentication\<close>

text \<open>The requests are a hash table from the caller's process to its user.\<close>

definition scdm_session_worker_handle_start_reauthentication ::
  "nat \<Rightarrow> int \<Rightarrow> int \<Rightarrow> 'h worker \<Rightarrow> 'h worker" where
  "scdm_session_worker_handle_start_reauthentication i pid uid w =
     (if w_state w \<noteq> GDM_SESSION_WORKER_STATE_SESSION_STARTED
      then wemit [Reply i (Failed WRONG_STATE OtherText)] w
      else wemit [NewReauthSession uid, Reply i Done]
             (w\<lparr>w_reauthentication_requests := AList.update pid uid (w_reauthentication_requests w)\<rparr>))"

definition on_reauthentication_client_disconnected :: "int \<Rightarrow> 'h worker \<Rightarrow> 'h worker" where
  "on_reauthentication_client_disconnected pid_of_client w =
     w\<lparr>w_reauthentication_requests := AList.delete pid_of_client (w_reauthentication_requests w)\<rparr>"

definition on_reauthentication_cancelled :: "int \<Rightarrow> 'h worker \<Rightarrow> 'h worker" where
  "on_reauthentication_cancelled pid w = wemit [ResetReauthSession pid] w"

definition on_reauthentication_verification_complete :: "int \<Rightarrow> string \<Rightarrow> 'h worker \<Rightarrow> 'h worker" where
  "on_reauthentication_verification_complete pid service_name w =
     wemit [ResetReauthSession pid, Reauthenticated service_name] w"

section \<open>The new worker, and all its steps\<close>

definition scdm_session_worker_new :: "bool \<Rightarrow> string option \<Rightarrow> 'h worker" where
  "scdm_session_worker_new is_reauth_session supported =
     \<lparr>w_state = GDM_SESSION_WORKER_STATE_NONE, w_pam_handle = None, w_child_pid = 0, w_child_watch = False,
      w_service = None, w_x11_display_name = None, w_x11_authority_file = None, w_display_device = None,
      w_display_seat_id = None, w_hostname = None, w_username = None, w_log_file = None, w_session_id = None,
      w_uid = 0, w_gid = 0, w_password_is_required = False, w_extensions = None, w_cred_flags = 0,
      w_session_vt = 0, w_session_tty_fd = 0, w_arguments = [], w_cancelled = False, w_timed_out = False,
      w_is_program_session = False, w_is_reauth_session = is_reauth_session, w_display_is_local = False,
      w_display_is_initial = False, w_state_change_idle = False, w_display_mode = REUSE_VT,
      w_reauthentication_requests = [], w_auditor = None, w_user_settings = scdm_session_settings_new,
      w_saved_handlers = 0, w_loaded_handler = False, w_pending_invocation = None, w_supported = supported,
      w_log = []\<rparr>"

definition user_loaded :: "'h worker_env \<Rightarrow> 'h worker \<Rightarrow> 'h worker option" where
  "user_loaded env w =
     (case on_user_is_loaded_changed (we_act env) (w_user_settings w) of
        (s, ns) \<Rightarrow> settings_signals env ns (w\<lparr>w_user_settings := s\<rparr>))"

text \<open>What is relied on of PAM: a handle after a success of \<open>pam_start\<close>.\<close>

definition pam_start_law :: "'h pam_lib \<Rightarrow> bool" where
  "pam_start_law lib \<longleftrightarrow> (\<forall>service user. pam_start lib service user \<noteq> (PAM_SUCCESS, None))"

inductive worker_step :: "'h worker \<Rightarrow> 'h worker \<Rightarrow> bool" where
  idle: "pam_start_law (we_lib env) \<Longrightarrow> w_state_change_idle w \<Longrightarrow> state_change_idle env se w = Some w' \<Longrightarrow> worker_step w w'"
| initialize: "scdm_session_worker_handle_initialize env i details w = Some w' \<Longrightarrow> worker_step w w'"
| setup_plain: "scdm_session_worker_handle_setup i a w = Some w' \<Longrightarrow> worker_step w w'"
| setup_for_user: "scdm_session_worker_handle_setup_for_user env i a u w = Some w' \<Longrightarrow> worker_step w w'"
| setup_for_program: "scdm_session_worker_handle_setup_for_program i a u f w = Some w' \<Longrightarrow> worker_step w w'"
| authenticate: "scdm_session_worker_handle_authenticate i w = Some w' \<Longrightarrow> worker_step w w'"
| authorize: "scdm_session_worker_handle_authorize i w = Some w' \<Longrightarrow> worker_step w w'"
| establish_credentials: "scdm_session_worker_handle_establish_credentials i w = Some w' \<Longrightarrow> worker_step w w'"
| open_session: "scdm_session_worker_handle_open i w = Some w' \<Longrightarrow> worker_step w w'"
| start_program: "scdm_session_worker_handle_start_program parse i t w = Some w' \<Longrightarrow> worker_step w w'"
| set_environment_variable: "worker_step w (scdm_session_worker_handle_set_environment_variable env i k v w)"
| set_session_name: "scdm_session_worker_handle_set_session_name env i n w = Some w' \<Longrightarrow> worker_step w w'"
| set_language_name: "scdm_session_worker_handle_set_language_name env i n w = Some w' \<Longrightarrow> worker_step w w'"
| set_display_mode: "worker_step w (scdm_session_worker_handle_set_session_display_mode i t w)"
| start_reauthentication: "worker_step w (scdm_session_worker_handle_start_reauthentication i pid uid w)"
| reauth_disconnected: "worker_step w (on_reauthentication_client_disconnected pid w)"
| reauth_cancelled: "worker_step w (on_reauthentication_cancelled pid w)"
| reauth_complete: "worker_step w (on_reauthentication_verification_complete pid s w)"
| settings_loaded: "user_loaded env w = Some w' \<Longrightarrow> worker_step w w'"
| child_exited: "w_child_watch w \<Longrightarrow> session_worker_child_watch env se pid status w = Some w' \<Longrightarrow> worker_step w w'"

inductive_cases worker_stepE: "worker_step w w'"

end
