(* ===== verification/Worker_Facts.thy ===== *)
theory Worker_Facts
  imports Worker_Requests
begin

text \<open>
  Facts about the session worker: that its state keeps step with PAM, what the conversation
  answers, what requests in the wrong state do, and how programs, logs and environment files are
  handled.
\<close>

section \<open>The protocol of a login\<close>

text \<open>The abstract worker: the milestones of one login, in the order they must come. A login ends with
  the end of PAM.\<close>

datatype stage = StAuthenticated | StAuthorized | StCredentials | StOpened | StForked

fun milestone :: "worker_effect \<Rightarrow> stage option" where
  "milestone (Pam (Authenticated f) c) = (if c = PAM_SUCCESS then Some StAuthenticated else None)"
| "milestone (Pam (AccountChecked f) c) = (if c = PAM_SUCCESS then Some StAuthorized else None)"
| "milestone (Pam (PasswordChanged f) c) = (if c = PAM_SUCCESS then Some StAuthorized else None)"
| "milestone (Pam (CredentialsSet f) c) = (if c = PAM_SUCCESS \<and> f \<noteq> PAM_DELETE_CRED then Some StCredentials else None)"
| "milestone (Pam (SessionOpened f) c) = (if c = PAM_SUCCESS then Some StOpened else None)"
| "milestone (ForkedSession pid) = Some StForked"
| "milestone _ = None"

definition advance :: "worker_effect \<Rightarrow> stage list \<Rightarrow> stage list" where
  "advance e ms = (case e of PamEnd c \<Rightarrow> [] | _ \<Rightarrow> (case milestone e of None \<Rightarrow> ms | Some m \<Rightarrow> ms @ [m]))"

definition progress :: "worker_effect list \<Rightarrow> stage list" where
  "progress fx = fold advance fx []"

text \<open>What a state stands for.\<close>

definition required :: "worker_state \<Rightarrow> stage list" where
  "required s = take (state_number s - 1 - (if s \<ge> GDM_SESSION_WORKER_STATE_ACCOUNT_DETAILS_SAVED then 1 else 0))
     [StAuthenticated, StAuthorized, StCredentials, StOpened, StForked]"

lemma required_simps [simp]:
  "required GDM_SESSION_WORKER_STATE_NONE = []"
  "required GDM_SESSION_WORKER_STATE_SETUP_COMPLETE = []"
  "required GDM_SESSION_WORKER_STATE_AUTHENTICATED = [StAuthenticated]"
  "required GDM_SESSION_WORKER_STATE_AUTHORIZED = [StAuthenticated, StAuthorized]"
  "required GDM_SESSION_WORKER_STATE_ACCREDITED = [StAuthenticated, StAuthorized, StCredentials]"
  "required GDM_SESSION_WORKER_STATE_ACCOUNT_DETAILS_SAVED = [StAuthenticated, StAuthorized, StCredentials]"
  "required GDM_SESSION_WORKER_STATE_SESSION_OPENED = [StAuthenticated, StAuthorized, StCredentials, StOpened]"
  "required GDM_SESSION_WORKER_STATE_SESSION_STARTED = [StAuthenticated, StAuthorized, StCredentials, StOpened, StForked]"
  by (simp_all add: required_def state_order)

text \<open>Who reauthenticates is logged in already: a refusal of the account or of the credentials is
  overruled.\<close>

definition waived :: "bool \<Rightarrow> stage \<Rightarrow> bool" where
  "waived reauth m \<longleftrightarrow> reauth \<and> m \<in> {StAuthorized, StCredentials}"

definition lockstep :: "'h worker \<Rightarrow> bool" where
  "lockstep w \<longleftrightarrow>
     filter (\<lambda>m. \<not> waived (w_is_reauth_session w) m) (progress (w_log w)) =
       filter (\<lambda>m. \<not> waived (w_is_reauth_session w) m) (required (w_state w)) \<and>
     (w_pam_handle w = None \<longleftrightarrow> w_state w = GDM_SESSION_WORKER_STATE_NONE) \<and>
     w_cred_flags w \<noteq> PAM_DELETE_CRED"

lemma progress_Nil [simp]: "progress [] = []"
  by (simp add: progress_def)

lemma progress_snoc: "progress (fx @ [e]) = advance e (progress fx)"
  by (simp add: progress_def)

definition quiet :: "worker_effect \<Rightarrow> bool" where
  "quiet e \<longleftrightarrow> milestone e = None \<and> (\<forall>c. e \<noteq> PamEnd c)"

lemma advance_quiet [simp]: "quiet e \<Longrightarrow> advance e ms = ms"
  by (cases e) (simp_all add: quiet_def advance_def)

lemma progress_quiet: "\<forall>e \<in> set gx. quiet e \<Longrightarrow> progress (fx @ gx) = progress fx"
  by (induction gx rule: rev_induct) (simp_all add: append_assoc [symmetric] progress_snoc del: append_assoc)

lemma quiet_simps [simp]:
  "quiet (Pam Started c)" "quiet (Pam SessionClosed c)" "quiet (Pam (CredentialsSet PAM_DELETE_CRED) c)"
  "quiet (Audit a u)" "quiet (NotifyState s)" "quiet (UsernameChanged u)" "quiet (SavedLanguageNameRead u)"
  "quiet (SavedSessionNameRead u)" "quiet (CallManager q)" "quiet CancelPendingQuery" "quiet (Reply i r)"
  "quiet (OpenTty t)" "quiet (CloseTty fd)" "quiet (ClearScreen fd)" "quiet (Ioctl fd vr)" "quiet (RanScript d)"
  "quiet (SignalChild p)" "quiet (WaitedChild p)" "quiet (HangupGroup p)" "quiet (SavedSettings cs)"
  "quiet (SessionExited u st)" "quiet (NewReauthSession p)" "quiet (ResetReauthSession p)" "quiet (Reauthenticated d)"
  by (simp_all add: quiet_def)

section \<open>What the helpers leave alone\<close>

text \<open>\<open>calm\<close>: nothing of the protocol has happened. The settings may have arrived, which moves on
  an accredited worker.\<close>

definition calm :: "'h worker \<Rightarrow> 'h worker \<Rightarrow> bool" where
  "calm w w' \<longleftrightarrow>
     progress (w_log w') = progress (w_log w) \<and> w_is_reauth_session w' = w_is_reauth_session w \<and>
     (w_state w' = w_state w \<or> w_state w = GDM_SESSION_WORKER_STATE_ACCREDITED \<and>
        w_state w' = GDM_SESSION_WORKER_STATE_ACCOUNT_DETAILS_SAVED) \<and>
     (w_pam_handle w' = None \<longleftrightarrow> w_pam_handle w = None) \<and> w_cred_flags w' = w_cred_flags w \<and>
     w_uid w' = w_uid w \<and> w_gid w' = w_gid w"

lemma calm_refl [simp]: "calm w w"
  by (simp add: calm_def)

lemma calm_trans [trans]: "calm a b \<Longrightarrow> calm b c \<Longrightarrow> calm a c"
  by (auto simp: calm_def)

lemma calm_lockstep: "calm w w' \<Longrightarrow> lockstep w \<Longrightarrow> lockstep w'"
  by (auto simp: calm_def lockstep_def)

lemma calm_reauth: "calm w w' \<Longrightarrow> w_is_reauth_session w' = w_is_reauth_session w"
  by (simp add: calm_def)

lemma calm_wemit: "\<forall>e \<in> set fx. quiet e \<Longrightarrow> calm w (wemit fx w)"
  by (simp add: calm_def wemit_def progress_quiet)

lemma calm_wemitI: "calm a w \<Longrightarrow> \<forall>e \<in> set fx. quiet e \<Longrightarrow> calm a (wemit fx w)"
  using calm_trans calm_wemit by blast

text \<open>Updates of fields the protocol does not look at.\<close>

lemma calm_update [simp]:
  "calm a (w\<lparr>w_username := u\<rparr>) = calm a w" "calm a (w\<lparr>w_auditor := x\<rparr>) = calm a w"
  "calm a (w\<lparr>w_user_settings := s\<rparr>) = calm a w" "calm a (w\<lparr>w_saved_handlers := n\<rparr>) = calm a w"
  "calm a (w\<lparr>w_loaded_handler := b\<rparr>) = calm a w" "calm a (w\<lparr>w_state_change_idle := b\<rparr>) = calm a w"
  "calm a (w\<lparr>w_pending_invocation := i\<rparr>) = calm a w" "calm a (w\<lparr>w_cancelled := b, w_timed_out := c\<rparr>) = calm a w"
  "calm a (w\<lparr>w_timed_out := b\<rparr>) = calm a w" "calm a (w\<lparr>w_session_vt := v\<rparr>) = calm a w"
  "calm a (w\<lparr>w_session_tty_fd := v\<rparr>) = calm a w" "calm a (w\<lparr>w_supported := u\<rparr>) = calm a w"
  "calm a (w\<lparr>w_password_is_required := b\<rparr>) = calm a w"
  "calm a (w\<lparr>w_session_id := u\<rparr>) = calm a w" "calm a (w\<lparr>w_child_pid := v\<rparr>) = calm a w"
  "calm a (w\<lparr>w_child_watch := b\<rparr>) = calm a w" "calm a (w\<lparr>w_child_pid := v, w_child_watch := b\<rparr>) = calm a w"
  "calm a (w\<lparr>w_arguments := l\<rparr>) = calm a w"
  "calm a (w\<lparr>w_service := u\<rparr>) = calm a w" "calm a (w\<lparr>w_extensions := e\<rparr>) = calm a w"
  "calm a (w\<lparr>w_is_program_session := b\<rparr>) = calm a w" "calm a (w\<lparr>w_log_file := u\<rparr>) = calm a w"
  "calm a (w\<lparr>w_x11_display_name := u\<rparr>) = calm a w" "calm a (w\<lparr>w_x11_authority_file := u\<rparr>) = calm a w"
  "calm a (w\<lparr>w_display_device := u\<rparr>) = calm a w" "calm a (w\<lparr>w_display_seat_id := u\<rparr>) = calm a w"
  "calm a (w\<lparr>w_hostname := u\<rparr>) = calm a w" "calm a (w\<lparr>w_display_is_local := b\<rparr>) = calm a w"
  "calm a (w\<lparr>w_display_is_initial := b\<rparr>) = calm a w" "calm a (w\<lparr>w_display_mode := m\<rparr>) = calm a w"
  "calm a (w\<lparr>w_arguments := l, w_pending_invocation := i\<rparr>) = calm a w"
  "calm a (w\<lparr>w_log_file := u, w_is_program_session := b\<rparr>) = calm a w"
  "calm a (w\<lparr>w_reauthentication_requests := rs\<rparr>) = calm a w"
  by (simp_all add: calm_def)

lemma calm_update_left [simp]:
  "calm (w\<lparr>w_saved_handlers := n\<rparr>) a = calm w a" "calm (w\<lparr>w_user_settings := s\<rparr>) a = calm w a"
  "calm (w\<lparr>w_loaded_handler := b\<rparr>) a = calm w a" "calm (w\<lparr>w_state_change_idle := b\<rparr>) a = calm w a"
  "calm (w\<lparr>w_cancelled := b, w_timed_out := c\<rparr>) a = calm w a" "calm (w\<lparr>w_pending_invocation := i\<rparr>) a = calm w a"
  "calm (w\<lparr>w_session_vt := v\<rparr>) a = calm w a" "calm (w\<lparr>w_session_tty_fd := v\<rparr>) a = calm w a"
  by (simp_all add: calm_def)

lemma calm_handle [simp]: "w_pam_handle w \<noteq> None \<Longrightarrow> calm a (w\<lparr>w_pam_handle := Some h\<rparr>) = calm a w"
  by (auto simp: calm_def)

lemma calm_set_state_saved:
  "w_state w = GDM_SESSION_WORKER_STATE_ACCREDITED \<Longrightarrow>
     calm w (scdm_session_worker_set_state GDM_SESSION_WORKER_STATE_ACCOUNT_DETAILS_SAVED w)"
  by (simp add: scdm_session_worker_set_state_def calm_def wemit_def progress_snoc)

lemma calm_queue [simp]: "calm a (queue_state_change w) = calm a w"
  by (simp add: queue_state_change_def)

lemma calm_auditor_set_username [simp]: "calm a (auditor_set_username u w) = calm a w"
  by (simp add: auditor_set_username_def split: option.split)

lemma calm_audit: "audit e w = Some w' \<Longrightarrow> calm w w'"
  by (auto simp: audit_def calm_wemit split: option.splits if_splits)

lemma calm_get_username: "scdm_session_worker_get_username env w = Some (r, w') \<Longrightarrow> calm w w'"
  by (auto simp: scdm_session_worker_get_username_def split: option.splits)

lemma calm_save_account_details: "save_account_details_now env w = Some w' \<Longrightarrow> calm w w'"
  using calm_set_state_saved [of w]
  by (auto simp: save_account_details_now_def Let_def intro!: calm_wemitI split: prod.splits if_splits)

lemma calm_is_loaded_changed: "on_settings_is_loaded_changed env w = Some w' \<Longrightarrow> calm w w'"
  using calm_save_account_details [of env "w\<lparr>w_saved_handlers := 0\<rparr>"]
  by (auto simp: on_settings_is_loaded_changed_def Let_def split: if_splits)

lemma calm_funpow: "(\<And>w. calm w (f w)) \<Longrightarrow> calm w ((f ^^ n) w)"
  by (induction n) (auto intro: calm_trans)

lemma calm_settings_signals: "settings_signals env ns w = Some w' \<Longrightarrow> calm w w'"
proof (induction ns arbitrary: w)
  case (Cons n ns)
  have f: "calm w ((on_saved_session_name_read ^^ k) w)" "calm w ((on_saved_language_name_read ^^ k) w)" for k and w :: "'a worker"
    by (rule calm_funpow, simp add: on_saved_session_name_read_def on_saved_language_name_read_def calm_wemit)+
  show ?case
  proof (cases n)
    case NotifyIsLoaded
    then obtain w1 where w1: "(if w_loaded_handler w then on_settings_is_loaded_changed env w else Some w) = Some w1"
      "settings_signals env ns w1 = Some w'"
      using Cons.prems by (auto simp: bind_eq_Some_conv)
    have "calm w w1" using w1(1) by (auto dest: calm_is_loaded_changed split: if_splits)
    then show ?thesis using Cons.IH [OF w1(2)] calm_trans by blast
  qed (use Cons f calm_trans in \<open>auto, blast+\<close>)
qed simp

lemma calm_load_settings: "load_settings env u w = Some (b, w') \<Longrightarrow> calm w w'"
  by (auto simp: load_settings_def dest!: calm_settings_signals split: prod.splits)

lemma calm_update_username:
  assumes "scdm_session_worker_update_username env w = Some w'"
  shows "calm w w'"
proof -
  obtain r w1 where r: "scdm_session_worker_get_username env w = Some (r, w1)"
    using assms by (auto simp: scdm_session_worker_update_username_def bind_eq_Some_conv)
  have "calm w1 w'"
  proof (cases r)
    case None
    then show ?thesis using assms r by (simp add: scdm_session_worker_update_username_def)
  next
    case (Some username)
    define w2 where "w2 = auditor_set_username (w_username w1) w1"
    define w3 where "w3 = wemit [UsernameChanged username] (w2\<lparr>w_username := username\<rparr>)"
    have w2: "calm w1 w2" and w3: "calm w1 w3"
      by (auto simp: w2_def w3_def intro!: calm_wemitI)
    have "w' = w2 \<or> w' = w3 \<or> (\<exists>b. load_settings env username w3 = Some (b, w'))"
      using assms r Some
      by (auto simp: scdm_session_worker_update_username_def attempt_to_load_user_settings_def Let_def w2_def w3_def
          split: if_splits)
    then show ?thesis using w2 w3 calm_load_settings calm_trans by blast
  qed
  then show ?thesis using calm_get_username [OF r] calm_trans by blast
qed

lemma calm_process_extended:
  "scdm_session_worker_process_extended_pam_message env m w = Some (b, r, w') \<Longrightarrow> calm w w'"
  by (auto simp: scdm_session_worker_process_extended_pam_message_def scdm_session_worker_process_choice_list_request_def
      scdm_session_worker_ask_list_of_choices_def call_manager_def calm_wemit split: if_splits option.splits bool.splits prod.splits)

lemma calm_ask_user: "ask_user env style m w = (r, w') \<Longrightarrow> calm w w'"
  by (auto simp: ask_user_def scdm_session_worker_ask_question_def scdm_session_worker_ask_for_secret_def
      scdm_session_worker_report_info_def scdm_session_worker_report_problem_def call_manager_def calm_wemit
      split: msg_style.splits prod.splits)

lemma calm_process_message:
  assumes "scdm_session_worker_process_pam_message env m w = Some (b, r, w')"
  shows "calm w w'"
proof -
  obtain w1 where w1: "scdm_session_worker_update_username env w = Some w1"
    using assms by (auto simp: scdm_session_worker_process_pam_message_def bind_eq_Some_conv)
  have "calm w1 w'"
  proof (cases "pm_style m = PAM_BINARY_PROMPT")
    case True
    then show ?thesis
      using assms w1 by (auto simp: scdm_session_worker_process_pam_message_def dest: calm_process_extended)
  next
    case False
    obtain a w2 where a: "ask_user env (pm_style m) (convert_to_utf8 env (pm_msg m))
        (w1\<lparr>w_cancelled := False, w_timed_out := False\<rparr>) = (a, w2)" by fastforce
    have "calm w1 w2" using calm_ask_user [OF a] by (auto simp: calm_def)
    moreover have "w' = (if w_timed_out w2 then wemit [CancelPendingQuery] (w2\<lparr>w_timed_out := False\<rparr>) else w2)"
      using assms w1 False a
      by (auto simp: scdm_session_worker_process_pam_message_def Let_def split: prod.splits option.splits)
    ultimately show ?thesis by (auto intro!: calm_wemitI)
  qed
  then show ?thesis using calm_update_username [OF w1] calm_trans by blast
qed

lemma calm_process_messages: "process_messages env ms rs w = Some (r, w') \<Longrightarrow> calm w w'"
proof (induction ms arbitrary: rs w)
  case (Cons m ms)
  then show ?case
    by (auto split: option.splits bool.splits dest!: calm_process_message intro: calm_trans)
qed simp

lemma calm_handler: "scdm_session_worker_pam_new_messages_handler env ms w = Some (r, w') \<Longrightarrow> calm w w'"
  by (auto simp: scdm_session_worker_pam_new_messages_handler_def dest: calm_process_messages
      split: option.splits if_splits)

lemma calm_run_pam: "w_pam_handle w \<noteq> None \<Longrightarrow> run_pam env t w = Some (c, w') \<Longrightarrow> calm w w'"
proof (induction t arbitrary: w)
  case (PamConv h ms k)
  then obtain r w1 where r: "scdm_session_worker_pam_new_messages_handler env ms (w\<lparr>w_pam_handle := Some h\<rparr>) = Some (r, w1)"
    "run_pam env (k r) w1 = Some (c, w')"
    by (auto split: option.splits)
  have "calm (w\<lparr>w_pam_handle := Some h\<rparr>) w1" using calm_handler [OF r(1)] .
  then have "calm w w1" "w_pam_handle w1 \<noteq> None" using PamConv.prems(1) by (auto simp: calm_def)
  then show ?case using PamConv.IH [OF _ _ r(2)] calm_trans by blast
qed auto

text \<open>A call of PAM adds its own event, and nothing else of the protocol.\<close>

lemma call_pam_calm:
  assumes "call_pam env e f flags w = Some (c, w')"
  obtains w1 where "calm w w1" and "w' = wemit [Pam e c] w1" and "w_pam_handle w \<noteq> None"
  using assms by (auto simp: call_pam_def dest!: calm_run_pam [rotated] split: option.splits)

lemma calm_set_environment_variable [simp]:
  "calm a (scdm_session_worker_set_environment_variable env k v w) = calm a w"
  by (simp add: scdm_session_worker_set_environment_variable_def Let_def calm_def split: option.split)

lemma calm_set_item: "set_item env i v w = (c, w') \<Longrightarrow> calm w w'"
  by (auto simp: set_item_def calm_def split: option.splits prod.splits)

lemma calm_snd_set_item [simp]: "calm a (snd (set_item env i v w)) = calm a w"
  by (auto simp: set_item_def calm_def split: option.splits prod.splits)

lemma calm_set_nonempty_item: "set_nonempty_item env i v w = (c, w') \<Longrightarrow> calm w w'"
  by (auto simp: set_nonempty_item_def dest: calm_set_item split: option.splits if_splits)

lemma calm_ioctl: "ioctl env fd r w = (x, w') \<Longrightarrow> calm w w'"
  by (auto simp: ioctl_def calm_wemit)

lemma calm_open_tty: "open_tty env p w = (x, w') \<Longrightarrow> calm w w'"
  by (auto simp: open_tty_def calm_wemit)

lemma calm_vt_switches: "handle_terminal_vt_switches env fd w = (x, w') \<Longrightarrow> calm w w'"
  by (auto simp: handle_terminal_vt_switches_def dest: calm_ioctl split: prod.splits)

lemma calm_fix_vt_mode: "fix_terminal_vt_mode env fd w = Some w' \<Longrightarrow> calm w w'"
  by (auto simp: fix_terminal_vt_mode_def ioctl_def handle_terminal_vt_switches_def Let_def intro!: calm_wemitI
      split: if_splits option.splits prod.splits)

lemma calm_activate_vt [simp]: "calm a w \<Longrightarrow> calm a (activate_vt env fd n w)"
  by (auto simp: activate_vt_def Let_def ioctl_def handle_terminal_vt_switches_def intro!: calm_wemitI split: option.splits)

lemma calm_jump_to_vt:
  assumes "jump_to_vt env n w = Some w'"
  shows "calm w w'"
proof -
  obtain fd w1 where o: "open_tty env ''/dev/tty0'' w = (fd, w1)" by fastforce
  let ?c = "wemit [Ioctl (w_session_tty_fd w1) KDSETMODE_GRAPHICS] (wemit [ClearScreen (w_session_tty_fd w1)] w1)"
  have o1: "calm w w1" using calm_open_tty [OF o] .
  then have c: "calm w ?c" by (auto intro!: calm_wemitI)
  have t: "w_session_tty_fd ?c = w_session_tty_fd w1" by (simp add: wemit_def)
  obtain w2 fd' where "w2 = w1 \<or> fix_terminal_vt_mode env fd ?c = Some w2"
    and w': "w' = wemit [CloseTty fd] (activate_vt env fd' n w2)"
    using assms by (auto simp: jump_to_vt_def o ioctl_def t Let_def wemit_def split: if_splits option.splits)
  then have "calm w w2" using o1 c calm_fix_vt_mode calm_trans by blast
  then show ?thesis unfolding w' by (intro calm_wemitI calm_activate_vt) simp_all
qed

lemma calm_run_script: "run_script env se d w = Some (b, w') \<Longrightarrow> calm w w'"
  by (auto simp: run_script_def calm_wemit split: if_splits option.splits)

lemma calm_set_up_for_new_vt: "set_up_for_new_vt env w = Some (b, w') \<Longrightarrow> calm w w'"
  by (auto simp: set_up_for_new_vt_def Let_def open_tty_def ioctl_def intro!: calm_wemitI
      split: if_splits option.splits prod.splits)

lemma calm_set_up_for_current_vt:
  assumes "set_up_for_current_vt env se w = (e, w')"
  shows "calm w w'"
proof -
  have x: "calm a (snd (set_xdg_vtnr_to_current_vt env a))" for a :: "'a worker"
    by (auto simp: set_xdg_vtnr_to_current_vt_def open_tty_def ioctl_def Let_def intro!: calm_wemitI split: option.splits)
  obtain c1 w1 where 1: "set_nonempty_item env PAM_TTY (get_tty_for_pam (w_x11_display_name w) (w_display_device w)) w = (c1, w1)"
    by fastforce
  obtain c2 w2 where 2: "set_nonempty_item env PAM_XDISPLAY (w_x11_display_name w1) w1 = (c2, w2)" by fastforce
  obtain c3 w3 where 3: "(case se_xauth se (w_x11_authority_file w2) of
      None \<Rightarrow> (PAM_SUCCESS, w2) | Some x \<Rightarrow> set_item env PAM_XAUTHDATA x w2) = (c3, w3)" by fastforce
  have "calm w w1" "calm w1 w2" using 1 2 by (auto dest: calm_set_nonempty_item)
  moreover have "calm w2 w3" using 3 by (auto dest: calm_set_item split: option.splits)
  moreover have "w' \<in> {w1, w2, w3, snd (set_xdg_vtnr_to_current_vt env w3)}"
    using assms by (auto simp: set_up_for_current_vt_def 1 2 3 split: if_splits)
  ultimately show ?thesis using x calm_trans by blast
qed

lemma calm_set_up_vt: "set_up_vt env se w = Some (e, w') \<Longrightarrow> calm w w'"
  by (auto simp: set_up_vt_def dest: calm_set_up_for_new_vt calm_set_up_for_current_vt split: display_mode.splits if_splits)

section \<open>The end of a login\<close>

text \<open>The worker is back at the start.\<close>

definition ended :: "'h worker \<Rightarrow> 'h worker \<Rightarrow> bool" where
  "ended w w' \<longleftrightarrow> w_state w' = GDM_SESSION_WORKER_STATE_NONE \<and> w_pam_handle w' = None \<and>
     progress (w_log w') = [] \<and> w_is_reauth_session w' = w_is_reauth_session w \<and> w_cred_flags w' = w_cred_flags w"

lemma ended_lockstep: "ended w w' \<Longrightarrow> w_cred_flags w \<noteq> PAM_DELETE_CRED \<Longrightarrow> lockstep w'"
  by (simp add: ended_def lockstep_def)

lemma calm_ended: "calm a b \<Longrightarrow> ended b c \<Longrightarrow> ended a c"
  by (simp add: ended_def calm_def)

lemma uninitialize_ended:
  assumes "scdm_session_worker_uninitialize_pam env status w = Some w'" and "w_pam_handle w \<noteq> None"
  shows "ended w w'"
proof -
  obtain r w1 where g: "scdm_session_worker_get_username env w = Some (r, w1)"
    using assms by (auto simp: scdm_session_worker_uninitialize_pam_def bind_eq_Some_conv)
  have c1: "calm w w1" using calm_get_username [OF g] .
  obtain w2 where w2: "(if w_state w1 \<ge> GDM_SESSION_WORKER_STATE_SESSION_OPENED
       then do { (_, w) \<leftarrow> call_pam env SessionClosed pam_close_session 0 w1; audit LogoutReport w }
       else audit (LoginFailureReport status) w1) = Some w2"
    using assms g by (auto simp: scdm_session_worker_uninitialize_pam_def bind_eq_Some_conv split: if_splits)
  have c2: "calm w1 w2"
  proof (cases "w_state w1 \<ge> GDM_SESSION_WORKER_STATE_SESSION_OPENED")
    case True
    then obtain c wc where "call_pam env SessionClosed pam_close_session 0 w1 = Some (c, wc)" "audit LogoutReport wc = Some w2"
      using w2 by (auto simp: bind_eq_Some_conv)
    then show ?thesis by (elim call_pam_calm) (metis calm_audit calm_trans calm_wemit quiet_simps(2) set_ConsD empty_iff list.set(1))
  next
    case False
    then show ?thesis using w2 by (simp add: calm_audit)
  qed
  obtain w3 where w3: "(if w_state w2 \<ge> GDM_SESSION_WORKER_STATE_ACCREDITED
       then map_option snd (call_pam env (CredentialsSet PAM_DELETE_CRED) pam_setcred PAM_DELETE_CRED w2)
       else Some w2) = Some w3"
    using assms g w2 by (auto simp: scdm_session_worker_uninitialize_pam_def bind_eq_Some_conv split: if_splits)
  have c3: "calm w2 w3"
    using w3 by (auto split: if_splits elim!: call_pam_calm intro!: calm_wemitI)
  let ?w4 = "scdm_session_worker_stop_auditor (wemit [PamEnd status] (w3\<lparr>w_pam_handle := None\<rparr>))"
  have "Option.bind (if we_user_display_server env \<and> w_display_seat_id ?w4 = Some ''seat0'' \<and>
        w_session_vt ?w4 \<noteq> int (we_initial_vt env)
      then jump_to_vt env (int (we_initial_vt env)) ?w4 else Some ?w4)
      (\<lambda>w. Some (scdm_session_worker_set_state GDM_SESSION_WORKER_STATE_NONE (w\<lparr>w_session_vt := 0\<rparr>))) = Some w'"
    using assms by (simp only: scdm_session_worker_uninitialize_pam_def if_False g w2 w3 Option.bind.simps prod.case Let_def)
  then obtain w5 where j: "(if we_user_display_server env \<and> w_display_seat_id ?w4 = Some ''seat0'' \<and>
        w_session_vt ?w4 \<noteq> int (we_initial_vt env)
      then jump_to_vt env (int (we_initial_vt env)) ?w4 else Some ?w4) = Some w5"
    and w': "w' = scdm_session_worker_set_state GDM_SESSION_WORKER_STATE_NONE (w5\<lparr>w_session_vt := 0\<rparr>)"
    by (auto simp only: bind_eq_Some_conv option.inject)
  have w5: "calm ?w4 w5" using j by (auto dest: calm_jump_to_vt split: if_splits)
  have "progress (w_log ?w4) = []" "w_pam_handle ?w4 = None" "w_is_reauth_session ?w4 = w_is_reauth_session w3"
    "w_cred_flags ?w4 = w_cred_flags w3"
    by (simp_all add: scdm_session_worker_stop_auditor_def wemit_def progress_snoc advance_def)
  then have "progress (w_log w5) = []" "w_pam_handle w5 = None" "w_is_reauth_session w5 = w_is_reauth_session w" "w_cred_flags w5 = w_cred_flags w"
    using w5 c1 c2 c3 by (auto simp: calm_def)
  then show ?thesis
    by (auto simp: w' ended_def scdm_session_worker_set_state_def wemit_def progress_quiet)
qed

lemma finish_step_ended:
  "finish_step env c e w = Some (r, w') \<Longrightarrow> c \<noteq> PAM_SUCCESS \<Longrightarrow> w_pam_handle w \<noteq> None \<Longrightarrow> ended w w' \<and> r = Some e"
  by (auto simp: finish_step_def dest: uninitialize_ended)

lemma finish_step_lockstep:
  "finish_step env c e w = Some (r, w') \<Longrightarrow> c \<noteq> PAM_SUCCESS \<Longrightarrow> w_pam_handle w \<noteq> None \<Longrightarrow>
     w_cred_flags w \<noteq> PAM_DELETE_CRED \<Longrightarrow> lockstep w'"
  using finish_step_ended ended_lockstep by blast

lemma lockstep_answer [simp]: "lockstep (answer r w) = lockstep w"
  by (simp add: answer_def lockstep_def wemit_def progress_quiet split: option.split)

lemma lockstep_watch: "lockstep (w\<lparr>w_child_watch := b\<rparr>) = lockstep w"
  by (simp add: lockstep_def)

lemma lockstep_complete [simp]: "lockstep (complete r res) = lockstep (snd res)"
  by (simp add: complete_def split: prod.split option.split)

section \<open>Each step keeps pace with PAM\<close>

text \<open>\<open>arrived t w\<close>: PAM has done what state \<open>t\<close> stands for; the state may lag behind.\<close>

definition arrived :: "worker_state \<Rightarrow> 'h worker \<Rightarrow> bool" where
  "arrived t w \<longleftrightarrow>
     filter (\<lambda>m. \<not> waived (w_is_reauth_session w) m) (progress (w_log w)) =
       filter (\<lambda>m. \<not> waived (w_is_reauth_session w) m) (required t) \<and>
     w_pam_handle w \<noteq> None \<and> t \<noteq> GDM_SESSION_WORKER_STATE_NONE \<and> w_cred_flags w \<noteq> PAM_DELETE_CRED"

lemma arrived_calm: "arrived t w \<Longrightarrow> calm w w' \<Longrightarrow> arrived t w'"
  by (auto simp: arrived_def calm_def)

lemma arrived_set_state: "arrived t w \<Longrightarrow> lockstep (scdm_session_worker_set_state t w)"
  by (auto simp: arrived_def lockstep_def scdm_session_worker_set_state_def wemit_def progress_quiet)

lemma lockstep_arrived:
  "lockstep w \<Longrightarrow> w_state w \<noteq> GDM_SESSION_WORKER_STATE_NONE \<Longrightarrow> arrived (w_state w) w"
  by (auto simp: arrived_def lockstep_def)

text \<open>The event of a stage: it has happened, or it is waived.\<close>

lemma arrived_event:
  assumes "arrived s w" and "milestone (Pam e PAM_SUCCESS) = Some m" and "required t = required s @ [m]"
    and "c = PAM_SUCCESS \<or> waived (w_is_reauth_session w) m" and "t \<noteq> GDM_SESSION_WORKER_STATE_NONE"
  shows "arrived t (wemit [Pam e c] w)"
proof (cases "c = PAM_SUCCESS")
  case True
  then show ?thesis using assms by (simp add: arrived_def wemit_def progress_snoc advance_def)
next
  case False
  then have "milestone (Pam e c) = None" by (cases e) simp_all
  then show ?thesis using assms False by (simp add: arrived_def wemit_def progress_snoc advance_def)
qed

lemma arrived_failed_event:
  "arrived s w \<Longrightarrow> c \<noteq> PAM_SUCCESS \<Longrightarrow> arrived s (wemit [Pam e c] w)"
  by (cases e) (simp_all add: arrived_def wemit_def progress_snoc advance_def)

lemma call_pam_arrived:
  assumes "call_pam env e f flags w = Some (c, w')" and "arrived s w"
    and "milestone (Pam e PAM_SUCCESS) = Some m" and "required t = required s @ [m]"
    and "c = PAM_SUCCESS \<or> waived (w_is_reauth_session w) m" and "t \<noteq> GDM_SESSION_WORKER_STATE_NONE"
  shows "arrived t w'"
proof -
  obtain w1 where "calm w w1" "w' = wemit [Pam e c] w1" using call_pam_calm [OF assms(1)] by metis
  moreover have "w_is_reauth_session w1 = w_is_reauth_session w" using \<open>calm w w1\<close> by (simp add: calm_def)
  moreover have "arrived s w1" using arrived_calm [OF assms(2)] \<open>calm w w1\<close> by blast
  ultimately show ?thesis using arrived_event [of s w1 e m t c] assms(3-) by simp
qed

lemma call_pam_failed:
  assumes "call_pam env e f flags w = Some (c, w')" and "arrived s w" and "c \<noteq> PAM_SUCCESS"
  shows "arrived s w'"
proof -
  obtain w1 where "calm w w1" "w' = wemit [Pam e c] w1" using call_pam_calm [OF assms(1)] by metis
  then show ?thesis using arrived_failed_event [OF arrived_calm [OF assms(2)] assms(3)] by simp
qed

lemma call_pam_handle: "call_pam env e f flags w = Some (c, w') \<Longrightarrow> w_pam_handle w' \<noteq> None \<and>
    w_is_reauth_session w' = w_is_reauth_session w \<and> w_cred_flags w' = w_cred_flags w"
  by (elim call_pam_calm) (auto simp: calm_def wemit_def)

lemma initialize_pam_lockstep:
  assumes "scdm_session_worker_initialize_pam env service extensions username hostname local seat w = Some (e, w')"
    and "lockstep w" and "w_state w = GDM_SESSION_WORKER_STATE_NONE" and "pam_start_law (we_lib env)"
  shows "lockstep w'"
proof -
  define w0 where "w0 = scdm_session_worker_start_auditor env
    (case extensions of None \<Rightarrow> w | Some es \<Rightarrow> w\<lparr>w_supported := advertise_supported_extensions es (w_supported w)\<rparr>)"
  obtain c h where s: "pam_start (we_lib env) service username = (c, h)" by fastforce
  define w1 where "w1 = wemit [Pam Started c] (w0\<lparr>w_pam_handle := h\<rparr>)"
  have w1: "progress (w_log w1) = progress (w_log w)" "w_pam_handle w1 = h" "w_state w1 = w_state w"
    "w_is_reauth_session w1 = w_is_reauth_session w" "w_cred_flags w1 = w_cred_flags w"
    by (simp_all add: w1_def w0_def wemit_def progress_quiet scdm_session_worker_start_auditor_def split: option.split)
  note init = assms(1) [unfolded scdm_session_worker_initialize_pam_def Let_def, folded w0_def, unfolded s prod.case, folded w1_def]
  show ?thesis
  proof (cases "c = PAM_SUCCESS")
    case False
    then have f: "finish_step env c (SERVICE_UNAVAILABLE, NoText) w1 = Some (e, w')"
      using init by (simp split: if_splits)
    show ?thesis
    proof (cases h)
      case None
      then have "w' = w1" using f False w1 by (auto simp: finish_step_def scdm_session_worker_uninitialize_pam_def)
      then show ?thesis using assms w1 None by (auto simp: lockstep_def)
    next
      case (Some h')
      then show ?thesis using finish_step_lockstep [OF f False] w1 assms(2) by (simp add: lockstep_def)
    qed
  next
    case True
    obtain c2 w2 where p: "pam_items env username hostname w1 = (c2, w2)" by fastforce
    have c2: "calm w1 w2"
      using p by (auto simp: pam_items_def split: if_splits option.splits prod.splits dest!: calm_set_item intro: calm_trans)
    have "h \<noteq> None" using assms(4) s True by (metis pam_start_law_def)
    then have h2: "w_pam_handle w2 \<noteq> None" "w_cred_flags w2 \<noteq> PAM_DELETE_CRED"
      using c2 w1 assms(2) by (auto simp: calm_def lockstep_def)
    show ?thesis
    proof (cases "c2 = PAM_SUCCESS")
      case False
      then have "finish_step env c2 (AUTHENTICATING, NoText) w2 = Some (e, w')"
        using init True p by (simp split: if_splits)
      then show ?thesis using finish_step_lockstep [OF _ False h2] by blast
    next
      case c2_ok: True
      have "filter (\<lambda>m. \<not> waived (w_is_reauth_session w1) m) (progress (w_log w1)) = []"
        using assms(2,3) w1 by (simp add: lockstep_def)
      then have "arrived GDM_SESSION_WORKER_STATE_SETUP_COMPLETE w2"
        using c2 h2 by (auto simp: arrived_def calm_def)
      moreover define w3 where "w3 = (if nonempty seat
        then scdm_session_worker_set_environment_variable env ''XDG_SEAT'' seat w2 else w2)"
      moreover define w4 where "w4 = (if service = Some ''scdm-launch-environment''
        then scdm_session_worker_set_environment_variable env ''XDG_SESSION_CLASS'' (Some ''greeter'') w3 else w3)"
      moreover have "calm (scdm_session_worker_set_state GDM_SESSION_WORKER_STATE_SETUP_COMPLETE w4) w'"
        using init True p c2_ok
        by (simp split: option.splits if_splits flip: w3_def)
          (auto simp: w3_def w4_def split: if_splits)
      moreover have "calm w2 w4" by (simp add: w3_def w4_def)
      ultimately show ?thesis using arrived_calm arrived_set_state calm_lockstep by blast
    qed
  qed
qed

lemma authenticate_lockstep:
  assumes "scdm_session_worker_authenticate_user env p w = Some (e, w')"
    and "lockstep w" and "w_state w = GDM_SESSION_WORKER_STATE_SETUP_COMPLETE"
  shows "lockstep w'"
proof -
  obtain c w1 where c: "call_pam env (Authenticated (auth_flags p)) pam_authenticate (auth_flags p) w = Some (c, w1)"
    using assms(1) by (auto simp: scdm_session_worker_authenticate_user_def Let_def bind_eq_Some_conv)
  note h = call_pam_handle [OF c]
  show ?thesis
  proof (cases "c = PAM_SUCCESS")
    case True
    have "arrived GDM_SESSION_WORKER_STATE_AUTHENTICATED w1"
      using call_pam_arrived [OF c lockstep_arrived [OF assms(2)], of StAuthenticated GDM_SESSION_WORKER_STATE_AUTHENTICATED]
        assms(3) True by simp
    moreover have "w' = scdm_session_worker_set_state GDM_SESSION_WORKER_STATE_AUTHENTICATED w1"
      using assms(1) c True by (simp add: scdm_session_worker_authenticate_user_def Let_def)
    ultimately show ?thesis using arrived_set_state by blast
  next
    case False
    then have "\<exists>c2 err. c2 \<noteq> PAM_SUCCESS \<and> finish_step env c2 err w1 = Some (e, w')"
      using assms(1) c by (fastforce simp: scdm_session_worker_authenticate_user_def Let_def split: if_splits)
    then show ?thesis using finish_step_lockstep h assms(2) by (metis lockstep_def)
  qed
qed

lemma arrived_reauth:
  "w_is_reauth_session w \<Longrightarrow>
     arrived GDM_SESSION_WORKER_STATE_AUTHORIZED w = arrived GDM_SESSION_WORKER_STATE_AUTHENTICATED w"
  by (simp add: arrived_def waived_def)

lemma authorize_lockstep:
  assumes "scdm_session_worker_authorize_user env p w = Some (e, w')"
    and "lockstep w" and "w_state w = GDM_SESSION_WORKER_STATE_AUTHENTICATED"
  shows "lockstep w'"
proof -
  define reauth where "reauth = w_is_reauth_session w"
  obtain c w1 where c: "call_pam env (AccountChecked (auth_flags p)) pam_acct_mgmt (auth_flags p) w = Some (c, w1)"
    using assms(1) by (auto simp: scdm_session_worker_authorize_user_def Let_def bind_eq_Some_conv)
  have r1: "w_is_reauth_session w1 = reauth" using call_pam_handle [OF c] by (simp add: reauth_def)
  have a: "arrived GDM_SESSION_WORKER_STATE_AUTHENTICATED w" using lockstep_arrived [OF assms(2)] assms(3) by simp
  have w1: "arrived (if c = PAM_SUCCESS \<or> reauth then GDM_SESSION_WORKER_STATE_AUTHORIZED
      else GDM_SESSION_WORKER_STATE_AUTHENTICATED) w1"
  proof (cases "c = PAM_SUCCESS \<or> reauth")
    case True
    then show ?thesis
      using call_pam_arrived [OF c a, of StAuthorized GDM_SESSION_WORKER_STATE_AUTHORIZED]
      by (auto simp: waived_def reauth_def)
  next
    case False
    then show ?thesis using call_pam_failed [OF c a] by simp
  qed
  obtain c2 w2 where c2: "(if c = PAM_NEW_AUTHTOK_REQD \<and> \<not> w_is_program_session w1
        then do {
          (c, w) \<leftarrow> call_pam env (PasswordChanged PAM_CHANGE_EXPIRED_AUTHTOK) pam_chauthtok PAM_CHANGE_EXPIRED_AUTHTOK w1;
          (_, w) \<leftarrow> scdm_session_worker_get_username env w;
          w \<leftarrow> audit (if c \<noteq> PAM_SUCCESS then PasswordChangeFailureReport else PasswordChangedReport) w;
          Some (c, w)
        }
        else Some (c, w1)) = Some (c2, w2)"
    and f: "(let c = (if w_is_reauth_session w2 then PAM_SUCCESS else c2)
      in if c \<noteq> PAM_SUCCESS then finish_step env c (AUTHORIZING, get_friendly_error_message c) w2
         else Some (None, scdm_session_worker_set_state GDM_SESSION_WORKER_STATE_AUTHORIZED w2)) = Some (e, w')"
    using assms(1) c
    by (simp only: scdm_session_worker_authorize_user_def Let_def Option.bind.simps prod.case)
      (auto simp only: bind_eq_Some_conv prod.case split: prod.splits)
  have w2: "arrived (if c2 = PAM_SUCCESS \<or> reauth then GDM_SESSION_WORKER_STATE_AUTHORIZED
      else GDM_SESSION_WORKER_STATE_AUTHENTICATED) w2 \<and> w_is_reauth_session w2 = reauth"
  proof (cases "c = PAM_NEW_AUTHTOK_REQD \<and> \<not> w_is_program_session w1")
    case False
    then have "c2 = c" "w2 = w1" using c2 by auto
    then show ?thesis using w1 r1 by simp
  next
    case True
    then obtain wp wq r where p: "call_pam env (PasswordChanged PAM_CHANGE_EXPIRED_AUTHTOK) pam_chauthtok
        PAM_CHANGE_EXPIRED_AUTHTOK w1 = Some (c2, wp)"
      and q: "scdm_session_worker_get_username env wp = Some (r, wq)"
        "audit (if c2 \<noteq> PAM_SUCCESS then PasswordChangeFailureReport else PasswordChangedReport) wq = Some w2"
      using c2 by (auto simp: bind_eq_Some_conv)
    have pq: "calm wp w2" using calm_get_username [OF q(1)] calm_audit [OF q(2)] calm_trans by blast
    have "arrived (if c2 = PAM_SUCCESS \<or> reauth then GDM_SESSION_WORKER_STATE_AUTHORIZED
        else GDM_SESSION_WORKER_STATE_AUTHENTICATED) wp"
    proof (cases "c2 = PAM_SUCCESS \<or> reauth")
      case ok: True
      have "arrived GDM_SESSION_WORKER_STATE_AUTHENTICATED w1"
        using w1 True r1 arrived_reauth [of w1] by (auto split: if_splits)
      then show ?thesis
        using call_pam_arrived [OF p, of GDM_SESSION_WORKER_STATE_AUTHENTICATED StAuthorized
            GDM_SESSION_WORKER_STATE_AUTHORIZED] ok r1 by (auto simp: waived_def)
    next
      case False
      then have "arrived GDM_SESSION_WORKER_STATE_AUTHENTICATED w1" using w1 True by simp
      then show ?thesis using call_pam_failed [OF p] False by simp
    qed
    then show ?thesis using arrived_calm [OF _ pq] calm_reauth [OF pq] call_pam_handle [OF p] r1 by simp
  qed
  show ?thesis
  proof (cases "c2 = PAM_SUCCESS \<or> reauth")
    case True
    then show ?thesis using f w2 arrived_set_state by (auto simp: Let_def)
  next
    case False
    then have "finish_step env c2 (AUTHORIZING, get_friendly_error_message c2) w2 = Some (e, w')"
      using f w2 by (simp add: Let_def)
    then show ?thesis using False w2 finish_step_lockstep by (metis arrived_def)
  qed
qed

lemma accredit_lockstep:
  assumes "scdm_session_worker_accredit_user env w = Some (e, w')"
    and "lockstep w" and "w_state w = GDM_SESSION_WORKER_STATE_AUTHORIZED"
  shows "lockstep w'"
proof -
  have a: "arrived GDM_SESSION_WORKER_STATE_AUTHORIZED w" using lockstep_arrived [OF assms(2)] assms(3) by simp
  then have h: "w_pam_handle w \<noteq> None" "w_cred_flags w \<noteq> PAM_DELETE_CRED" by (simp_all add: arrived_def)
  show ?thesis
  proof (cases "w_username w")
    case None
    then show ?thesis using assms(1) h by (auto simp: scdm_session_worker_accredit_user_def dest: finish_step_lockstep)
  next
    case (Some u)
    show ?thesis
    proof (cases "lookup_passwd_info env u")
      case None
      then show ?thesis using assms(1) Some by (simp add: scdm_session_worker_accredit_user_def)
    next
      case l: (Some r)
      show ?thesis
      proof (cases r)
        case None
        then show ?thesis using assms(1) Some l h by (auto simp: scdm_session_worker_accredit_user_def dest: finish_step_lockstep)
      next
        case r: (Some info)
        obtain uid gid home shell where i: "info = (uid, gid, home, shell)" by (cases info)
        define w1 where "w1 = scdm_session_worker_update_environment_from_passwd_info env home shell w"
        define w2 where "w2 = (if \<not> scdm_session_worker_environment_variable_is_set env ''PATH'' w1
          then scdm_session_worker_set_environment_variable env ''PATH'' (Some (default_path env)) w1 else w1)"
        define w3 where "w3 = w2\<lparr>w_uid := uid, w_gid := gid\<rparr>"
        have c2: "calm w w2"
          by (simp add: w2_def w1_def scdm_session_worker_update_environment_from_passwd_info_def Let_def)
        have a3: "arrived GDM_SESSION_WORKER_STATE_AUTHORIZED w3"
          using arrived_calm [OF a c2] by (simp add: arrived_def w3_def)
        have r3: "w_is_reauth_session w3 = w_is_reauth_session w" using calm_reauth [OF c2] by (simp add: w3_def)
        have f3: "w_cred_flags w3 = w_cred_flags w"
          by (simp add: w3_def w2_def w1_def scdm_session_worker_update_environment_from_passwd_info_def Let_def
              scdm_session_worker_set_environment_variable_def split: option.split)
        note step = assms(1) [unfolded scdm_session_worker_accredit_user_def Some l r i option.case prod.case Let_def,
            folded w1_def, folded w2_def, unfolded change_user_def prod.case, folded w3_def]
        show ?thesis
        proof (cases "we_setgid env \<and> we_initgroups env")
          case False
          then have "finish_step env PAM_SYSTEM_ERR (GIVING_CREDENTIALS, UnableToChangeUser) w3 = Some (e, w')"
            using step by simp
          then show ?thesis using a3 by (auto simp: arrived_def dest: finish_step_lockstep)
        next
          case True
          obtain c w4 where c: "call_pam env (CredentialsSet (w_cred_flags w3)) pam_setcred (w_cred_flags w3) w3 = Some (c, w4)"
            using step True by (auto simp: bind_eq_Some_conv)
          note h4 = call_pam_handle [OF c]
          show ?thesis
          proof (cases "c = PAM_SUCCESS \<or> w_is_reauth_session w")
            case False
            then have "finish_step env c (GIVING_CREDENTIALS, PamError c) w4 = Some (e, w')"
              using step True c h4 r3 by (simp add: Let_def split: if_splits)
            then show ?thesis using finish_step_lockstep h4 False h(2) f3 by metis
          next
            case ok: True
            have "arrived GDM_SESSION_WORKER_STATE_ACCREDITED w4"
              using call_pam_arrived [OF c a3, of StCredentials GDM_SESSION_WORKER_STATE_ACCREDITED]
                ok h(2) f3 r3 by (auto simp: waived_def)
            moreover obtain x w5 w6 where "scdm_session_worker_get_username env w4 = Some (x, w5)"
              and "audit UserAccreditedReport w5 = Some w6"
              and "w' = scdm_session_worker_set_state GDM_SESSION_WORKER_STATE_ACCREDITED w6"
              using step True c h4 ok r3 by (auto simp: Let_def bind_eq_Some_conv split: if_splits)
            ultimately show ?thesis
              using calm_get_username calm_audit arrived_calm arrived_set_state by metis
          qed
        qed
      qed
    qed
  qed
qed

text \<open>The credentials are those of the user the worker names.\<close>

lemma accredit_ids:
  assumes "scdm_session_worker_accredit_user env w = Some (None, w')"
  shows "\<exists>u uid gid home shell. w_username w = Some u \<and> lookup_passwd_info env u = Some (Some (uid, gid, home, shell)) \<and>
    w_uid w' = uid \<and> w_gid w' = gid"
proof -
  have no_error: "c \<noteq> PAM_SUCCESS \<Longrightarrow> finish_step env c e x \<noteq> Some (None, w')" for c e and x :: "'a worker"
    by (auto simp: finish_step_def)
  obtain u where u: "w_username w = Some u"
    using assms no_error by (auto simp: scdm_session_worker_accredit_user_def split: option.splits)
  obtain uid gid home shell where l: "lookup_passwd_info env u = Some (Some (uid, gid, home, shell))"
    using assms no_error u by (auto simp: scdm_session_worker_accredit_user_def split: option.splits)
  define w1 where "w1 = scdm_session_worker_update_environment_from_passwd_info env home shell w"
  define w2 where "w2 = (if \<not> scdm_session_worker_environment_variable_is_set env ''PATH'' w1
    then scdm_session_worker_set_environment_variable env ''PATH'' (Some (default_path env)) w1 else w1)"
  define w3 where "w3 = w2\<lparr>w_uid := uid, w_gid := gid\<rparr>"
  note step = assms [unfolded scdm_session_worker_accredit_user_def u l option.case prod.case Let_def,
      folded w1_def, folded w2_def, unfolded change_user_def prod.case, folded w3_def]
  obtain c w4 where c: "call_pam env (CredentialsSet (w_cred_flags w3)) pam_setcred (w_cred_flags w3) w3 = Some (c, w4)"
    using step no_error by (auto simp: bind_eq_Some_conv split: if_splits)
  obtain x w5 w6 where "scdm_session_worker_get_username env w4 = Some (x, w5)"
    and "audit UserAccreditedReport w5 = Some w6"
    and w': "w' = scdm_session_worker_set_state GDM_SESSION_WORKER_STATE_ACCREDITED w6"
    using step no_error c by (auto simp: Let_def bind_eq_Some_conv split: if_splits)
  then have "calm w4 w6" using calm_get_username calm_audit calm_trans by blast
  moreover obtain w7 where "calm w3 w7" "w4 = wemit [Pam (CredentialsSet (w_cred_flags w3)) c] w7"
    using call_pam_calm [OF c] by metis
  ultimately have "w_uid w' = uid" "w_gid w' = gid"
    by (auto simp: w' calm_def w3_def wemit_def scdm_session_worker_set_state_def)
  then show ?thesis using u l by blast
qed

lemma open_session_lockstep:
  assumes "scdm_session_worker_open_session env se w = Some (e, w')" and "lockstep w"
  shows "lockstep w'"
proof -
  have st: "w_state w = GDM_SESSION_WORKER_STATE_ACCOUNT_DETAILS_SAVED"
    using assms(1) by (simp add: scdm_session_worker_open_session_def split: if_splits)
  have a: "arrived GDM_SESSION_WORKER_STATE_ACCOUNT_DETAILS_SAVED w" using lockstep_arrived [OF assms(2)] st by simp
  obtain r w1 where v: "set_up_vt env se w = Some (r, w1)"
    using assms(1) st by (auto simp: scdm_session_worker_open_session_def split: option.splits)
  have c1: "calm w w1" using calm_set_up_vt [OF v] .
  show ?thesis
  proof (cases r)
    case (Some x)
    then have "w' = w1" using assms(1) st v by (simp add: scdm_session_worker_open_session_def)
    then show ?thesis using c1 assms(2) calm_lockstep by blast
  next
    case None
    define flags where "flags = (if w_is_program_session w1 then PAM_SILENT else 0)"
    obtain c w2 where c: "call_pam env (SessionOpened flags) pam_open_session flags w1 = Some (c, w2)"
      using assms(1) st v None
      by (auto simp: scdm_session_worker_open_session_def Let_def bind_eq_Some_conv simp flip: flags_def)
    show ?thesis
    proof (cases "c = PAM_SUCCESS")
      case False
      then have "finish_step env c (OPENING_SESSION, PamError c) w2 = Some (e, w')"
        using assms(1) st v None c
        by (auto simp: scdm_session_worker_open_session_def Let_def bind_eq_Some_conv simp flip: flags_def)
      then show ?thesis using finish_step_lockstep False call_pam_handle [OF c] arrived_calm [OF a c1] by (metis arrived_def)
    next
      case True
      have "arrived GDM_SESSION_WORKER_STATE_SESSION_OPENED w2"
        using call_pam_arrived [OF c arrived_calm [OF a c1], of StOpened GDM_SESSION_WORKER_STATE_SESSION_OPENED] True by simp
      then have l: "lockstep (scdm_session_worker_set_state GDM_SESSION_WORKER_STATE_SESSION_OPENED w2)"
        by (rule arrived_set_state)
      let ?w3 = "scdm_session_worker_set_state GDM_SESSION_WORKER_STATE_SESSION_OPENED w2"
      define w4 where "w4 = (case scdm_session_worker_get_environment_variable env ''XDG_SESSION_ID'' ?w3 of
          None \<Rightarrow> ?w3 | Some i \<Rightarrow> ?w3\<lparr>w_session_id := Some i\<rparr>)"
      have "calm ?w3 w4" by (simp add: w4_def split: option.split)
      moreover obtain x w5 where "scdm_session_worker_get_username env w4 = Some (x, w5)" "audit LoginReport w5 = Some w'"
        using assms(1) st v None c True
        by (auto simp: scdm_session_worker_open_session_def Let_def bind_eq_Some_conv simp flip: flags_def w4_def)
      ultimately show ?thesis using l calm_lockstep calm_get_username calm_audit by metis
    qed
  qed
qed

lemma start_session_lockstep:
  assumes "scdm_session_worker_start_session env se w = Some (e, w')"
    and "lockstep w" and "w_state w = GDM_SESSION_WORKER_STATE_SESSION_OPENED"
  shows "lockstep w'"
proof -
  have a: "arrived GDM_SESSION_WORKER_STATE_SESSION_OPENED w" using lockstep_arrived [OF assms(2)] assms(3) by simp
  obtain w1 where j: "(if w_display_seat_id w = Some ''seat0'' \<and> w_display_mode w = NEW_VT
      then jump_to_vt env (w_session_vt w) w else Some w) = Some w1"
    using assms(1) by (auto simp: scdm_session_worker_start_session_def bind_eq_Some_conv split: if_splits)
  have c1: "calm w w1" using j by (auto dest: calm_jump_to_vt split: if_splits)
  obtain ok w2 where r: "run_script env se (se_confdir se @ ''/PostLogin'') w1 = Some (ok, w2)"
    using assms(1) j by (auto simp: scdm_session_worker_start_session_def bind_eq_Some_conv split: if_splits)
  have c2: "calm w w2" using c1 calm_run_script [OF r] calm_trans by blast
  have handle: "calm w x \<Longrightarrow> w_pam_handle x \<noteq> None \<and> w_cred_flags x \<noteq> PAM_DELETE_CRED" for x
    using a by (auto simp: calm_def arrived_def)
  note step = assms(1) [unfolded scdm_session_worker_start_session_def j Option.bind.simps r prod.case]
  show ?thesis
  proof (cases ok)
    case False
    then show ?thesis using step handle [OF c2] by (auto dest: finish_step_lockstep split: if_splits)
  next
    case True
    obtain ok2 w3 where r2: "run_script env se (se_confdir se @ ''/PreSession'') w2 = Some (ok2, w3)"
      using step True by (auto simp: bind_eq_Some_conv split: if_splits)
    have c3: "calm w w3" using c2 calm_run_script [OF r2] calm_trans by blast
    show ?thesis
    proof (cases "ok2 \<and> \<not> se_fork se < 0")
      case False
      then show ?thesis using step True r2 handle [OF c3] by (auto dest: finish_step_lockstep split: if_splits)
    next
      case go: True
      let ?w4 = "wemit [ForkedSession (se_fork se)] w3"
      define w5 where "w5 = (if w_session_tty_fd ?w4 > 0
        then wemit [CloseTty (w_session_tty_fd ?w4)] (?w4\<lparr>w_session_tty_fd := -1\<rparr>) else ?w4)"
      have "arrived GDM_SESSION_WORKER_STATE_SESSION_STARTED ?w4"
        using arrived_calm [OF a c3] by (simp add: arrived_def wemit_def progress_snoc advance_def)
      moreover have "calm ?w4 w5" unfolding w5_def by (auto intro!: calm_wemitI)
      ultimately have "arrived GDM_SESSION_WORKER_STATE_SESSION_STARTED w5" using arrived_calm by blast
      then have "arrived GDM_SESSION_WORKER_STATE_SESSION_STARTED (w5\<lparr>w_child_pid := se_fork se\<rparr>)"
        by (simp add: arrived_def)
      moreover have "w' = (scdm_session_worker_set_state GDM_SESSION_WORKER_STATE_SESSION_STARTED
          (w5\<lparr>w_child_pid := se_fork se\<rparr>))\<lparr>w_child_watch := True\<rparr>"
        using step True r2 go
        by (auto simp: Let_def scdm_session_worker_watch_child_def simp flip: w5_def split: if_splits)
      ultimately show ?thesis using arrived_set_state by (simp add: lockstep_watch)
    qed
  qed
qed

section \<open>All steps\<close>

lemma state_change_idle_lockstep:
  assumes "state_change_idle env se w = Some w'" and "lockstep w" and "pam_start_law (we_lib env)"
  shows "lockstep w'"
proof -
  obtain t where t: "next_state (w_state w) = Some t"
    using assms(1) by (auto simp: state_change_idle_def split: option.splits)
  let ?w = "w\<lparr>w_state_change_idle := False\<rparr>"
  have l: "lockstep ?w" using assms(2) by (simp add: lockstep_def)
  show ?thesis
  proof (cases t)
    case GDM_SESSION_WORKER_STATE_NONE
    then show ?thesis using t by (cases "w_state w") simp_all
  next
    case GDM_SESSION_WORKER_STATE_SETUP_COMPLETE
    then have "w_state ?w = GDM_SESSION_WORKER_STATE_NONE" using t by (cases "w_state w") simp_all
    then show ?thesis
      using assms t l GDM_SESSION_WORKER_STATE_SETUP_COMPLETE
      by (auto simp: state_change_idle_def do_setup_def dest: initialize_pam_lockstep)
  next
    case GDM_SESSION_WORKER_STATE_AUTHENTICATED
    then have s: "w_state ?w = GDM_SESSION_WORKER_STATE_SETUP_COMPLETE" using t by (cases "w_state w") simp_all
    have d: "do_authenticate env ?w = Some w'"
      using assms(1) t GDM_SESSION_WORKER_STATE_AUTHENTICATED by (simp add: state_change_idle_def)
    then obtain e w1 where e: "scdm_session_worker_authenticate_user env (w_password_is_required ?w) ?w = Some (e, w1)"
      by (auto simp: do_authenticate_def bind_eq_Some_conv)
    have l1: "lockstep w1" using authenticate_lockstep [OF e l s] .
    show ?thesis
    proof (cases e)
      case None
      then show ?thesis
        using d e l1 by (auto simp: do_authenticate_def dest!: calm_update_username intro: calm_lockstep split: if_splits)
    next
      case (Some x)
      then show ?thesis using d e l1 by (auto simp: do_authenticate_def split: prod.splits)
    qed
  next
    case GDM_SESSION_WORKER_STATE_AUTHORIZED
    then have "w_state ?w = GDM_SESSION_WORKER_STATE_AUTHENTICATED" using t by (cases "w_state w") simp_all
    then show ?thesis
      using assms(1) t l GDM_SESSION_WORKER_STATE_AUTHORIZED
      by (auto simp: state_change_idle_def do_authorize_def dest: authorize_lockstep)
  next
    case GDM_SESSION_WORKER_STATE_ACCREDITED
    then have "w_state ?w = GDM_SESSION_WORKER_STATE_AUTHORIZED" using t by (cases "w_state w") simp_all
    then show ?thesis
      using assms(1) t l GDM_SESSION_WORKER_STATE_ACCREDITED
      by (auto simp: state_change_idle_def do_accredit_def dest: accredit_lockstep)
  next
    case GDM_SESSION_WORKER_STATE_ACCOUNT_DETAILS_SAVED
    then have "do_save_account_details_when_ready env ?w = Some w'"
      using assms(1) t by (simp add: state_change_idle_def)
    then have "calm ?w w'"
      by (auto simp: do_save_account_details_when_ready_def dest!: calm_load_settings calm_save_account_details split: if_splits)
    then show ?thesis using l calm_lockstep by blast
  next
    case GDM_SESSION_WORKER_STATE_SESSION_OPENED
    then show ?thesis
      using assms(1) t l by (auto simp: state_change_idle_def do_open_session_def dest: open_session_lockstep)
  next
    case GDM_SESSION_WORKER_STATE_SESSION_STARTED
    then have "w_state ?w = GDM_SESSION_WORKER_STATE_SESSION_OPENED" using t by (cases "w_state w") simp_all
    then show ?thesis
      using assms(1) t l GDM_SESSION_WORKER_STATE_SESSION_STARTED
      by (auto simp: state_change_idle_def do_start_session_def dest: start_session_lockstep)
  qed
qed

lemma calm_validate: "validate_state_change i s w = Some (b, w') \<Longrightarrow> calm w w'"
  by (auto simp: validate_state_change_def calm_wemit split: if_splits option.splits)

lemma calm_validate_and_queue: "validate_and_queue_state_change i s w = Some w' \<Longrightarrow> calm w w'"
  by (auto simp: validate_and_queue_state_change_def dest!: calm_validate split: if_splits)

lemma calm_set_details: "set_details ds w = Some w' \<Longrightarrow> calm w w'"
proof (induction ds arbitrary: w)
  case (Cons d ds)
  then obtain w1 where w1: "set_detail d w = Some w1" "set_details ds w1 = Some w'"
    by (auto simp: bind_eq_Some_conv)
  have "calm w w1" using w1(1) by (cases d) (auto split: if_splits variant.splits)
  then show ?case using Cons.IH [OF w1(2)] calm_trans by blast
qed simp

lemma calm_connect_saved_handlers [simp]: "calm a (connect_saved_handlers w) = calm a w"
  by (simp add: connect_saved_handlers_def)

lemma calm_set_setup_args [simp]: "calm a (set_setup_args x u w) = calm a w"
  by (simp add: set_setup_args_def calm_def)

lemma calm_connect_left [simp]: "calm (connect_saved_handlers w) a = calm w a"
  by (simp add: connect_saved_handlers_def)

lemma calm_initialize_settings: "initialize_settings env w = Some (b, w') \<Longrightarrow> calm w w'"
  by (auto simp: initialize_settings_def Let_def dest!: calm_load_settings split: if_splits)

lemma calm_initialize:
  assumes "scdm_session_worker_handle_initialize env i details w = Some w'"
  shows "calm w w'"
proof -
  obtain ok w1 where v: "validate_state_change i GDM_SESSION_WORKER_STATE_SETUP_COMPLETE w = Some (ok, w1)"
    using assms by (auto simp: scdm_session_worker_handle_initialize_def bind_eq_Some_conv)
  show ?thesis
  proof (cases ok)
    case False
    then show ?thesis using assms v calm_validate by (auto simp: scdm_session_worker_handle_initialize_def)
  next
    case True
    obtain w2 where d: "set_details details w1 = Some w2"
      using assms v True by (auto simp: scdm_session_worker_handle_initialize_def bind_eq_Some_conv)
    have "calm w w2" using calm_validate [OF v] calm_set_details [OF d] calm_trans by blast
    moreover obtain wait w3 where i: "initialize_settings env (w2\<lparr>w_pending_invocation := Some i\<rparr>) = Some (wait, w3)"
      and w': "w' = (if wait then w3\<lparr>w_loaded_handler := True\<rparr> else queue_state_change w3)"
      using assms v True d
      by (auto simp: scdm_session_worker_handle_initialize_def Let_def bind_eq_Some_conv)
    moreover have "calm w2 w3" using calm_initialize_settings [OF i] by simp
    ultimately show ?thesis unfolding w' using calm_trans by auto
  qed
qed

lemma calm_setup_for_user:
  assumes "scdm_session_worker_handle_setup_for_user env i a u w = Some w'"
  shows "calm w w'"
proof -
  obtain ok w1 where v: "validate_state_change i GDM_SESSION_WORKER_STATE_SETUP_COMPLETE w = Some (ok, w1)"
    using assms by (auto simp: scdm_session_worker_handle_setup_for_user_def bind_eq_Some_conv)
  show ?thesis
  proof (cases ok)
    case False
    then show ?thesis using assms v calm_validate by (auto simp: scdm_session_worker_handle_setup_for_user_def)
  next
    case True
    let ?w2 = "(connect_saved_handlers (set_setup_args a (Some u) w1))\<lparr>w_pending_invocation := Some i\<rparr>"
    obtain loaded w3 where l: "load_settings env (Some u) ?w2 = Some (loaded, w3)"
      and w': "w' = (if loaded then queue_state_change w3 else w3\<lparr>w_loaded_handler := True\<rparr>)"
      using assms v True by (auto simp: scdm_session_worker_handle_setup_for_user_def Let_def bind_eq_Some_conv)
    have "calm w ?w2" using calm_validate [OF v] by simp
    then have "calm w w3" using calm_load_settings [OF l] calm_trans by blast
    then show ?thesis by (simp add: w')
  qed
qed

lemma calm_start_program:
  "scdm_session_worker_handle_start_program parse i t w = Some w' \<Longrightarrow> calm w w'"
  by (auto simp: scdm_session_worker_handle_start_program_def Let_def bind_eq_Some_conv dest!: calm_validate
      intro!: calm_wemitI split: if_splits option.splits)

lemma calm_set_name:
  "scdm_session_worker_handle_set_session_name env i n w = Some w' \<Longrightarrow> calm w w'"
  "scdm_session_worker_handle_set_language_name env i n w = Some w' \<Longrightarrow> calm w w'"
  by (auto simp: scdm_session_worker_handle_set_session_name_def scdm_session_worker_handle_set_language_name_def
      dest!: calm_settings_signals intro!: calm_wemitI split: prod.splits)

lemma calm_user_loaded: "user_loaded env w = Some w' \<Longrightarrow> calm w w'"
  by (auto simp: user_loaded_def dest!: calm_settings_signals split: prod.splits)

lemma child_watch_lockstep:
  assumes "session_worker_child_watch env se pid status w = Some w'" and "lockstep w"
  shows "lockstep w'"
proof -
  obtain w1 where u: "scdm_session_worker_uninitialize_pam env PAM_SUCCESS w = Some w1"
    using assms(1) by (auto simp: session_worker_child_watch_def bind_eq_Some_conv)
  have l1: "lockstep w1"
  proof (cases "w_pam_handle w")
    case None
    then show ?thesis using u assms(2) by (simp add: scdm_session_worker_uninitialize_pam_def)
  next
    case (Some h)
    then show ?thesis using uninitialize_ended [OF u] ended_lockstep assms(2) by (auto simp: lockstep_def)
  qed
  let ?w2 = "(wemit [SessionExited (w_service w1) status, HangupGroup pid] w1)\<lparr>w_child_pid := -1, w_child_watch := False\<rparr>"
  obtain b where "run_script env se (se_confdir se @ ''/PostSession'') ?w2 = Some (b, w')"
    using assms(1) u by (auto simp: session_worker_child_watch_def Let_def bind_eq_Some_conv)
  then have "calm ?w2 w'" by (rule calm_run_script)
  moreover have "calm w1 ?w2" by (auto intro!: calm_wemitI)
  ultimately show ?thesis using l1 calm_lockstep calm_trans by blast
qed

lemma establish_lockstep:
  assumes "scdm_session_worker_handle_establish_credentials i w = Some w'" and "lockstep w"
  shows "lockstep w'"
proof -
  obtain w1 where v: "validate_and_queue_state_change i GDM_SESSION_WORKER_STATE_ACCREDITED w = Some w1"
    and "w' = w1\<lparr>w_cred_flags := (if \<not> w_is_reauth_session w1 then PAM_ESTABLISH_CRED else PAM_REINITIALIZE_CRED)\<rparr>"
    using assms(1) by (auto simp: scdm_session_worker_handle_establish_credentials_def)
  moreover have "lockstep w1" using calm_lockstep [OF calm_validate_and_queue [OF v] assms(2)] .
  ultimately show ?thesis by (auto simp: lockstep_def pam_flags)
qed

lemma worker_step_lockstep: "worker_step w w' \<Longrightarrow> lockstep w \<Longrightarrow> lockstep w'"
proof (induction rule: worker_step.induct)
  case (idle env w se w')
  then show ?case using state_change_idle_lockstep by blast
next
  case (setup_plain i a w w')
  then have "calm w w'" by (auto simp: scdm_session_worker_handle_setup_def dest: calm_validate_and_queue)
  then show ?case using setup_plain calm_lockstep by blast
next
  case (setup_for_program i a u f w w')
  then have "calm w w'" by (auto simp: scdm_session_worker_handle_setup_for_program_def dest: calm_validate_and_queue)
  then show ?case using setup_for_program calm_lockstep by blast
next
  case (reauth_disconnected w pid)
  then show ?case by (simp add: on_reauthentication_client_disconnected_def lockstep_def)
qed (auto simp: scdm_session_worker_handle_authenticate_def scdm_session_worker_handle_authorize_def
    scdm_session_worker_handle_open_def scdm_session_worker_handle_set_environment_variable_def
    scdm_session_worker_handle_set_session_display_mode_def scdm_session_worker_handle_start_reauthentication_def
    on_reauthentication_cancelled_def
    on_reauthentication_verification_complete_def
    intro: calm_lockstep calm_initialize calm_setup_for_user calm_start_program calm_set_name calm_user_loaded
      calm_validate_and_queue child_watch_lockstep establish_lockstep
    intro!: calm_lockstep [OF calm_wemitI])

lemma lockstep_new: "lockstep (scdm_session_worker_new reauth supported)"
  by (simp add: lockstep_def scdm_session_worker_new_def pam_flags)

lemma reachable_lockstep: "worker_step\<^sup>*\<^sup>* (scdm_session_worker_new reauth supported) w \<Longrightarrow> lockstep w"
  by (induction rule: rtranclp_induct) (auto simp: lockstep_new worker_step_lockstep)

end
