(* ===== verification/Worker_Props.thy ===== *)
theory Worker_Props
  imports Worker_Facts
begin

text \<open>
  The properties of the session worker, and a complete login as an example.
\<close>

section \<open>An example login\<close>

definition example_message :: pam_message where
  "example_message = \<lparr>pm_style = PAM_PROMPT_ECHO_OFF, pm_msg = ''Password: '',
     pm_ext = \<lparr>em_length = 0, em_type = 0, em_prompt_message = [], em_items = []\<rparr>\<rparr>"

text \<open>A module that asks for a password and accepts any, and a user that exists.\<close>

definition example_pam :: "unit pam_lib" where
  "example_pam = \<lparr>pam_start = (\<lambda>s u. (PAM_SUCCESS, Some ())), pam_set_item = (\<lambda>h i v. (PAM_SUCCESS, h)),
     pam_get_user = (\<lambda>h. Some (Some ''joe'')), pam_putenv = (\<lambda>h e. (PAM_SUCCESS, h)), pam_getenv = (\<lambda>h k. None),
     pam_getenvlist = (\<lambda>h. []),
     pam_authenticate = (\<lambda>h f. PamConv h [example_message] (\<lambda>r. PamReturn (fst r) h)),
     pam_acct_mgmt = (\<lambda>h f. PamReturn PAM_SUCCESS h), pam_chauthtok = (\<lambda>h f. PamReturn PAM_SUCCESS h),
     pam_setcred = (\<lambda>h f. PamReturn PAM_SUCCESS h), pam_open_session = (\<lambda>h f. PamReturn PAM_SUCCESS h),
     pam_close_session = (\<lambda>h f. PamReturn PAM_SUCCESS h)\<rparr>"

definition example_wenv :: "unit worker_env" where
  "example_wenv = \<lparr>we_lib = example_pam, we_manager = (\<lambda>l c. (True, Some ''secret'')), we_locale_to_utf8 = Some,
     we_utf8_bad = (\<lambda>s. None),
     we_act = \<lparr>act_is_loaded = (\<lambda>u. True), act_x_session = (\<lambda>u. None), act_language = (\<lambda>u. None)\<rparr>,
     we_platform_auditor = False, we_user_display_server = False, we_initial_vt = 1, we_open_tty = (\<lambda>p. 5),
     we_ioctl = (\<lambda>fd r. Some 1),
     we_getpwnam = (\<lambda>u. [(Some \<lparr>pw_name = u, pw_uid = 1000, pw_gid = 100, pw_dir = Some ''/home/joe'', pw_shell = None\<rparr>, None)]),
     we_setgid = True, we_initgroups = True, we_bindir = ''/usr/bin'', we_default_path = ''/bin''\<rparr>"

definition example_senv :: session_env where
  "example_senv = \<lparr>se_datadir = ''/usr/share'', se_confdir = ''/etc/scdm'', se_list_dir = (\<lambda>d. None), se_contents = (\<lambda>f. None),
     se_runnable = (\<lambda>f. False), se_build_filename = concat, se_parse_argv = (\<lambda>s. Some [s]),
     se_spawn = (\<lambda>a e. None), se_garbage = 0, se_getgrgid = (\<lambda>g. []), se_xauth = (\<lambda>f. None), se_fork = 4242,
     se_journald = False, se_setsid = True, se_setuid = True, se_chdir = (\<lambda>d. True), se_mkdir = (\<lambda>d. True),
     se_access_dir = (\<lambda>d. True), se_loggable = (\<lambda>f. False), se_open = (\<lambda>f. 7), se_mkstemp = 8, se_ftruncate = True,
     se_fchmod = True, se_PATH = None\<rparr>"

definition idle_step :: "unit worker \<Rightarrow> unit worker option" where
  "idle_step w = (if w_state_change_idle w then state_change_idle example_wenv example_senv w else None)"

definition example_request :: "nat \<Rightarrow> unit worker \<Rightarrow> unit worker option" where
  "example_request n w =
     (if n = 0 then scdm_session_worker_handle_initialize example_wenv 1
        [(''service'', VString ''gdm-password''), (''username'', VString ''joe''), (''display-is-local'', VBool True)] w
      else if n = 1 then scdm_session_worker_handle_authenticate 2 w
      else if n = 2 then scdm_session_worker_handle_authorize 3 w
      else if n = 3 then scdm_session_worker_handle_establish_credentials 4 w
      else if n = 4 then scdm_session_worker_handle_open 5 w
      else scdm_session_worker_handle_start_program (\<lambda>s. Some [s]) 6 ''gnome-session'' w)"

text \<open>\<open>n\<close> requests, each followed by its change of state; opening takes two changes.\<close>

fun example_login :: "nat \<Rightarrow> unit worker option" where
  "example_login 0 = Some (scdm_session_worker_new False None)"
| "example_login (Suc n) = do {
     w \<leftarrow> example_login n;
     w \<leftarrow> example_request n w;
     w \<leftarrow> idle_step w;
     (if n = 4 then idle_step w else Some w)
   }"

lemma example_login_state:
  "map_option (\<lambda>w. (w_state w, w_is_reauth_session w)) (example_login 6) =
     Some (GDM_SESSION_WORKER_STATE_SESSION_STARTED, False)"
  by code_simp

lemma idle_step_is_step: "idle_step w = Some w' \<Longrightarrow> worker_step w w'"
proof (rule worker_step.idle)
  show "pam_start_law (we_lib example_wenv)"
    by (simp add: pam_start_law_def example_wenv_def example_pam_def)
qed (simp_all add: idle_step_def split: if_splits)

lemma example_request_is_step: "example_request n w = Some w' \<Longrightarrow> worker_step w w'"
  by (auto simp: example_request_def split: if_splits
      intro: worker_step.initialize worker_step.authenticate worker_step.authorize worker_step.establish_credentials
        worker_step.open_session worker_step.start_program)

lemma example_login_reachable:
  "example_login n = Some w \<Longrightarrow> worker_step\<^sup>*\<^sup>* (scdm_session_worker_new False None) w"
proof (induction n arbitrary: w)
  case (Suc n)
  then obtain w0 w1 w2 where w: "example_login n = Some w0" "example_request n w0 = Some w1" "idle_step w1 = Some w2"
    "(if n = 4 then idle_step w2 else Some w2) = Some w"
    by (auto simp: bind_eq_Some_conv)
  then have "worker_step w0 w1" "worker_step w1 w2" "w = w2 \<or> worker_step w2 w"
    by (auto intro: example_request_is_step idle_step_is_step split: if_splits)
  then show ?case using Suc.IH [OF w(1)] by (metis rtranclp.rtrancl_into_rtrancl)
qed simp

section \<open>Authentication\<close>

text \<open>C1. The worker refines the protocol of a login. Whatever the requests, their order, the
  modules and the answers of the daemon are: in a worker that was not started for reauthentication,
  the milestones since the last end of PAM are exactly those its state stands for, in their order,
  so that a session is forked only after \<open>pam_authenticate\<close>, the check of the account (or
  the change of an expired password), \<open>pam_setcred\<close> and \<open>pam_open_session\<close>
  have succeeded; when reauthenticating, the account and the credentials are waived and nothing
  else. A handle of PAM exists exactly outside of the first state.\<close>

theorem worker_refines_login_protocol:
  assumes "worker_step\<^sup>*\<^sup>* (scdm_session_worker_new reauth supported) w"
  shows "(\<not> w_is_reauth_session w \<longrightarrow> progress (w_log w) = required (w_state w)) \<and>
    filter (\<lambda>m. m \<notin> {StAuthorized, StCredentials}) (progress (w_log w)) =
      filter (\<lambda>m. m \<notin> {StAuthorized, StCredentials}) (required (w_state w)) \<and>
    (w_pam_handle w = None \<longleftrightarrow> w_state w = GDM_SESSION_WORKER_STATE_NONE)"
proof (cases "w_is_reauth_session w")
  case True
  then show ?thesis using reachable_lockstep [OF assms] by (simp add: lockstep_def waived_def)
next
  case False
  then show ?thesis using reachable_lockstep [OF assms] by (simp add: lockstep_def waived_def)
qed

theorem worker_refines_login_protocol_witness:
  "\<exists>w. example_login 6 = Some w \<and> w_state w = GDM_SESSION_WORKER_STATE_SESSION_STARTED \<and>
     progress (w_log w) = [StAuthenticated, StAuthorized, StCredentials, StOpened, StForked]"
proof -
  obtain w where w: "example_login 6 = Some w" "w_state w = GDM_SESSION_WORKER_STATE_SESSION_STARTED"
    "\<not> w_is_reauth_session w"
    using example_login_state by auto
  then show ?thesis using worker_refines_login_protocol [OF example_login_reachable [OF w(1)]] by simp
qed

lemma process_message_reply:
  assumes "scdm_session_worker_process_pam_message env m w = Some (True, r, w')"
  shows "case r of Some (TextReply a) \<Rightarrow> length a < PAM_MAX_RESP_SIZE | _ \<Rightarrow> True"
  using assms
  by (auto simp: scdm_session_worker_process_pam_message_def scdm_session_worker_process_extended_pam_message_def
      Let_def bind_eq_Some_conv PAM_MAX_RESP_SIZE_def split: if_splits option.splits prod.splits bool.splits pam_reply.splits)

lemma process_messages_replies:
  "process_messages env ms rs w = Some (Some rs', w') \<Longrightarrow>
     \<exists>new. rs' = rs @ new \<and> length new = length ms \<and>
       (\<forall>a. Some (TextReply a) \<in> set new \<longrightarrow> length a < PAM_MAX_RESP_SIZE)"
proof (induction ms arbitrary: rs w)
  case (Cons m ms)
  then obtain r w1 where r: "scdm_session_worker_process_pam_message env m w = Some (True, r, w1)"
    and rest: "process_messages env ms (rs @ [r]) w1 = Some (Some rs', w')"
    by (auto split: option.splits bool.splits)
  obtain new where "rs' = (rs @ [r]) @ new" "length new = length ms"
    "\<forall>a. Some (TextReply a) \<in> set new \<longrightarrow> length a < PAM_MAX_RESP_SIZE"
    using Cons.IH [OF rest] by blast
  moreover have "\<forall>a. r = Some (TextReply a) \<longrightarrow> length a < PAM_MAX_RESP_SIZE"
    using process_message_reply [OF r] by auto
  ultimately show ?case by (intro exI [of _ "r # new"]) auto
qed simp

text \<open>C9. The conversation is all or nothing: a module gets one reply for each of its messages, and
  success, or no reply at all and an error; for no messages there are no replies. A reply
  in text is shorter than the limit of PAM.\<close>

theorem conversation_all_or_nothing:
  assumes "scdm_session_worker_pam_new_messages_handler env messages w = Some ((c, replies), w')"
  shows "(c = PAM_SUCCESS \<and> messages \<noteq> [] \<and> (\<exists>rs. replies = Some rs \<and> length rs = length messages \<and>
      (\<forall>a. Some (TextReply a) \<in> set rs \<longrightarrow> length a < PAM_MAX_RESP_SIZE))) \<or>
    (c = PAM_CONV_ERR \<and> messages \<noteq> [] \<and> replies = None) \<or> (c = PAM_SUCCESS \<and> messages = [] \<and> replies = None)"
  using assms process_messages_replies [of env messages "[]" w]
  by (auto simp: scdm_session_worker_pam_new_messages_handler_def split: option.splits if_splits)

definition example_worker :: "unit worker" where
  "example_worker = (scdm_session_worker_new False None)\<lparr>w_pam_handle := Some (), w_username := Some ''joe'',
     w_state := GDM_SESSION_WORKER_STATE_SETUP_COMPLETE\<rparr>"

theorem conversation_all_or_nothing_witness:
  "\<exists>rs w'. scdm_session_worker_pam_new_messages_handler example_wenv [example_message] example_worker =
     Some ((PAM_SUCCESS, Some rs), w') \<and> length rs = 1"
proof -
  have "map_option fst (scdm_session_worker_pam_new_messages_handler example_wenv [example_message] example_worker) =
      Some (PAM_SUCCESS, Some [Some (TextReply ''secret'')])"
    by code_simp
  then obtain w' where w': "scdm_session_worker_pam_new_messages_handler example_wenv [example_message] example_worker =
      Some ((PAM_SUCCESS, Some [Some (TextReply ''secret'')]), w')" by auto
  then show ?thesis using conversation_all_or_nothing [OF w'] by auto
qed

text \<open>C13. An unknown user cannot be told from a wrong password: when \<open>pam_authenticate\<close> returns
  either code, the reply and what PAM and the auditor are told at the end are those of a wrong password.\<close>

theorem unknown_user_like_wrong_password:
  assumes "call_pam env (Authenticated (auth_flags p)) pam_authenticate (auth_flags p) w = Some (c, w1)"
    and "c \<in> {PAM_USER_UNKNOWN, PAM_AUTH_ERR}"
  shows "scdm_session_worker_authenticate_user env p w =
    map_option (Pair (Some (AUTHENTICATING, PleaseTryAgain))) (scdm_session_worker_uninitialize_pam env PAM_AUTH_ERR w1)"
  using assms
  by (auto simp: scdm_session_worker_authenticate_user_def finish_step_def get_friendly_error_message_def Let_def)

definition refusing_env :: "pam_code \<Rightarrow> unit worker_env" where
  "refusing_env c = example_wenv\<lparr>we_lib := example_pam\<lparr>pam_authenticate := (\<lambda>h f. PamReturn c h)\<rparr>\<rparr>"

theorem unknown_user_like_wrong_password_witness:
  "\<exists>w1. call_pam (refusing_env PAM_USER_UNKNOWN) (Authenticated 0) pam_authenticate 0 example_worker = Some (PAM_USER_UNKNOWN, w1) \<and>
     scdm_session_worker_authenticate_user (refusing_env PAM_USER_UNKNOWN) False example_worker =
       map_option (Pair (Some (AUTHENTICATING, PleaseTryAgain)))
         (scdm_session_worker_uninitialize_pam (refusing_env PAM_USER_UNKNOWN) PAM_AUTH_ERR w1)"
proof -
  obtain w1 where w1: "call_pam (refusing_env PAM_USER_UNKNOWN) (Authenticated (auth_flags False)) pam_authenticate
      (auth_flags False) example_worker = Some (PAM_USER_UNKNOWN, w1)"
    by (simp add: call_pam_def refusing_env_def example_worker_def example_wenv_def)
  have "scdm_session_worker_authenticate_user (refusing_env PAM_USER_UNKNOWN) False example_worker =
      map_option (Pair (Some (AUTHENTICATING, PleaseTryAgain)))
        (scdm_session_worker_uninitialize_pam (refusing_env PAM_USER_UNKNOWN) PAM_AUTH_ERR w1)"
    by (rule unknown_user_like_wrong_password [OF w1]) simp
  then show ?thesis using w1 by (auto simp: auth_flags_def)
qed

section \<open>Requests in the wrong state\<close>

definition wrong_state :: "nat \<Rightarrow> 'h worker \<Rightarrow> 'h worker" where
  "wrong_state i w = wemit [Reply i (Failed WRONG_STATE OtherText)] w"

lemma refused:
  "w_pending_invocation w = None \<Longrightarrow> next_state (w_state w) \<noteq> Some s \<Longrightarrow>
     validate_state_change i s w = Some (False, wrong_state i w)"
  by (simp add: validate_state_change_def wrong_state_def)

lemma refused_queue:
  "w_pending_invocation w = None \<Longrightarrow> next_state (w_state w) \<noteq> Some s \<Longrightarrow>
     validate_and_queue_state_change i s w = Some (wrong_state i w)"
  by (simp add: validate_and_queue_state_change_def refused)

text \<open>Requests that are refused: an authorized worker answers each request but the one that is due
  with an error. \<open>Initialize\<close> and the set-up for a user change nothing else; the older set-up for
  a program goes on, however, and makes the worker one for that program and that user, so that it
  is this user whose credentials are established next, whoever was authenticated.\<close>

theorem refused_setup_changes_user:
  assumes "w_pending_invocation w = None" and "w_state w = GDM_SESSION_WORKER_STATE_AUTHORIZED"
  shows "scdm_session_worker_handle_authenticate i w = Some (wrong_state i w) \<and>
    scdm_session_worker_handle_authorize i w = Some (wrong_state i w) \<and>
    scdm_session_worker_handle_open i w = Some (wrong_state i w) \<and>
    scdm_session_worker_handle_initialize env i details w = Some (wrong_state i w) \<and>
    scdm_session_worker_handle_setup_for_user env i a u w = Some (wrong_state i w) \<and>
    (\<exists>w'. scdm_session_worker_handle_setup_for_program i a u f w = Some w' \<and>
       w_state w' = w_state w \<and> w_log w' = w_log w @ [Reply i (Failed WRONG_STATE OtherText)] \<and>
       w_username w' = Some u \<and> w_is_program_session w' \<and>
       (\<forall>w1 w2. w_username w1 = w_username w' \<and> scdm_session_worker_accredit_user env w1 = Some (None, w2) \<longrightarrow>
          (\<exists>gid home shell. lookup_passwd_info env u = Some (Some (w_uid w2, gid, home, shell)))))"
  using assms
  by (simp add: scdm_session_worker_handle_authenticate_def scdm_session_worker_handle_authorize_def
      scdm_session_worker_handle_open_def scdm_session_worker_handle_initialize_def
      scdm_session_worker_handle_setup_for_user_def scdm_session_worker_handle_setup_for_program_def
      refused refused_queue set_setup_args_def wrong_state_def wemit_def)
    (use accredit_ids in fastforce)

definition authorized_worker :: "unit worker" where
  "authorized_worker = example_worker\<lparr>w_state := GDM_SESSION_WORKER_STATE_AUTHORIZED\<rparr>"

theorem refused_setup_changes_user_witness:
  "\<exists>w'. scdm_session_worker_handle_setup_for_program 7 \<lparr>sa_service = ''s'', sa_x11_display_name = [], sa_x11_authority_file = [],
       sa_console = [], sa_seat_id = [], sa_hostname = [], sa_display_is_local = True, sa_display_is_initial = False\<rparr>
       ''root'' ''log'' authorized_worker = Some w' \<and> w_username authorized_worker = Some ''joe'' \<and> w_username w' = Some ''root''"
  using refused_setup_changes_user [of authorized_worker 7 example_wenv "[]" "\<lparr>sa_service = ''s'', sa_x11_display_name = [],
      sa_x11_authority_file = [], sa_console = [], sa_seat_id = [], sa_hostname = [], sa_display_is_local = True,
      sa_display_is_initial = False\<rparr>" "''root''" "''log''"]
  by (auto simp: authorized_worker_def example_worker_def scdm_session_worker_new_def)

text \<open>A second \<open>StartProgram\<close> kills the worker of a running session: it is answered with an
  error, but queued all the same, and the change of state past the last one is a failed assertion.\<close>

theorem second_start_program_aborts:
  assumes "w_state w = GDM_SESSION_WORKER_STATE_SESSION_STARTED" and "w_pending_invocation w = None"
    and "\<not> w_is_reauth_session w" and "parse text = Some argv"
  shows "\<exists>w'. scdm_session_worker_handle_start_program parse i text w = Some w' \<and>
    w_log w' = w_log w @ [Reply i (Failed WRONG_STATE OtherText)] \<and> w_state_change_idle w' \<and>
    (\<forall>env se. state_change_idle env se w' = None)"
  using assms
  by (simp add: scdm_session_worker_handle_start_program_def refused wrong_state_def wemit_def queue_state_change_def
      state_change_idle_def Let_def)

theorem second_start_program_aborts_witness:
  "\<exists>w w'. example_login 6 = Some w \<and> scdm_session_worker_handle_start_program (\<lambda>s. Some [s]) 8 ''xterm'' w = Some w' \<and>
     state_change_idle example_wenv example_senv w' = None"
proof -
  have "map_option w_pending_invocation (example_login 6) = Some None" by code_simp
  then obtain w where w: "example_login 6 = Some w" "w_state w = GDM_SESSION_WORKER_STATE_SESSION_STARTED"
    "w_pending_invocation w = None" "\<not> w_is_reauth_session w"
    using example_login_state by auto
  show ?thesis using second_start_program_aborts [OF w(2,3,4), of "\<lambda>s. Some [s]" "''xterm''" "[''xterm'']" 8] w(1) by auto
qed

text \<open>When the terminal of a session cannot be set up, PAM is not shut down and the state stays, so
  that the session can never be opened: every further request to open it is refused.\<close>

theorem failed_vt_blocks_session:
  assumes "set_up_vt env se w = Some (Some (e, t), w1)" and "w_state w = GDM_SESSION_WORKER_STATE_ACCOUNT_DETAILS_SAVED"
  shows "\<exists>w'. do_open_session env se w = Some w' \<and> w_state w' = GDM_SESSION_WORKER_STATE_ACCOUNT_DETAILS_SAVED \<and>
    w_pending_invocation w' = None \<and> (w_pam_handle w' = None \<longleftrightarrow> w_pam_handle w = None) \<and>
    (\<forall>i. scdm_session_worker_handle_open i w' = Some (wrong_state i w'))"
proof -
  let ?w' = "answer (Failed e t) w1"
  have d: "do_open_session env se w = Some ?w'"
    using assms by (simp add: do_open_session_def scdm_session_worker_open_session_def complete_def)
  have "w_state ?w' = w_state w1" "w_pam_handle ?w' = w_pam_handle w1" "w_pending_invocation ?w' = None"
    by (simp_all add: answer_def wemit_def split: option.split)
  moreover have "w_state w1 = w_state w" "w_pam_handle w1 = None \<longleftrightarrow> w_pam_handle w = None"
    using calm_set_up_vt [OF assms(1)] assms(2) by (auto simp: calm_def)
  ultimately show ?thesis
    using d assms(2) by (intro exI [of _ ?w']) (simp add: scdm_session_worker_handle_open_def refused_queue)
qed

definition no_tty_env :: "unit worker_env" where
  "no_tty_env = example_wenv\<lparr>we_open_tty := (\<lambda>p. -1)\<rparr>"

definition saved_worker :: "unit worker" where
  "saved_worker = example_worker\<lparr>w_state := GDM_SESSION_WORKER_STATE_ACCOUNT_DETAILS_SAVED, w_display_mode := NEW_VT\<rparr>"

theorem failed_vt_blocks_session_witness:
  "\<exists>w'. do_open_session no_tty_env example_senv saved_worker = Some w' \<and>
     scdm_session_worker_handle_open 9 w' = Some (wrong_state 9 w')"
proof -
  obtain w1 where "set_up_vt no_tty_env example_senv saved_worker = Some (Some (OPENING_SESSION, UnableToOpenVT), w1)"
    by (simp add: set_up_vt_def set_up_for_new_vt_def saved_worker_def no_tty_env_def open_tty_def wemit_def)
  from failed_vt_blocks_session [OF this] show ?thesis by (auto simp: saved_worker_def)
qed

text \<open>A login that fails before a terminal was opened for it writes to descriptor 0: the
  descriptor of the terminal starts as 0, while the switch back to the login screen takes only
  \<open>-1\<close> for none.\<close>

theorem failed_login_writes_to_stdin:
  assumes "scdm_session_worker_uninitialize_pam env status w = Some w'" and "w_pam_handle w \<noteq> None"
    and "w_state w < GDM_SESSION_WORKER_STATE_ACCREDITED"
    and "w_session_tty_fd w = w_session_tty_fd (scdm_session_worker_new reauth supported)" and "w_session_vt w = 0"
    and "we_user_display_server env" and "w_display_seat_id w = Some ''seat0''" and "we_initial_vt env \<noteq> 0"
  shows "ClearScreen 0 \<in> set (w_log w') \<and> Ioctl 0 KDSETMODE_GRAPHICS \<in> set (w_log w')"
proof -
  have s: "\<not> w_state w \<ge> GDM_SESSION_WORKER_STATE_SESSION_OPENED" "\<not> w_state w \<ge> GDM_SESSION_WORKER_STATE_ACCREDITED"
    using assms(3) by (auto simp: state_order)
  obtain r w1 where g: "scdm_session_worker_get_username env w = Some (r, w1)"
    using assms(1,2) by (auto simp: scdm_session_worker_uninitialize_pam_def bind_eq_Some_conv)
  have w1: "w_state w1 = w_state w" "w_session_tty_fd w1 = 0" "w_session_vt w1 = 0" "w_display_seat_id w1 = Some ''seat0''"
    using g assms(4,5,7)
    by (auto simp: scdm_session_worker_get_username_def auditor_set_username_def scdm_session_worker_new_def split: option.splits)
  obtain w2 where a: "audit (LoginFailureReport status) w1 = Some w2"
    using assms(1,2) g s w1(1) by (auto simp: scdm_session_worker_uninitialize_pam_def bind_eq_Some_conv)
  have w2: "w_state w2 = w_state w" "w_session_tty_fd w2 = 0" "w_session_vt w2 = 0" "w_display_seat_id w2 = Some ''seat0''"
    using a w1 by (auto simp: audit_def wemit_def split: option.splits)
  let ?w3 = "scdm_session_worker_stop_auditor (wemit [PamEnd status] (w2\<lparr>w_pam_handle := None\<rparr>))"
  obtain w4 where j: "jump_to_vt env (int (we_initial_vt env)) ?w3 = Some w4"
    and w': "w' = scdm_session_worker_set_state GDM_SESSION_WORKER_STATE_NONE (w4\<lparr>w_session_vt := 0\<rparr>)"
    using assms(1,2,6,8) g s w1 w2 a
    by (auto simp: scdm_session_worker_uninitialize_pam_def Let_def bind_eq_Some_conv scdm_session_worker_stop_auditor_def
        wemit_def split: if_splits)
  let ?o = "wemit [Ioctl 0 KDSETMODE_GRAPHICS] (wemit [ClearScreen 0] (wemit [OpenTty ''/dev/tty0''] ?w3))"
  have t: "w_session_tty_fd ?w3 = 0" using w2 by (simp add: scdm_session_worker_stop_auditor_def wemit_def)
  obtain w5 where f: "fix_terminal_vt_mode env (we_open_tty env ''/dev/tty0'') ?o = Some w5"
    and w4: "w4 = wemit [CloseTty (we_open_tty env ''/dev/tty0'')] (activate_vt env (w_session_tty_fd w5) (int (we_initial_vt env)) w5)"
    using j t by (auto simp: jump_to_vt_def open_tty_def ioctl_def Let_def wemit_def split: option.splits)
  have grows: "set (w_log x) \<subseteq> set (w_log (activate_vt env fd n x))" for x :: "'a worker" and fd n
    by (auto simp: activate_vt_def handle_terminal_vt_switches_def ioctl_def Let_def wemit_def split: option.splits)
  have "set (w_log ?o) \<subseteq> set (w_log w5)"
    using f by (auto simp: fix_terminal_vt_mode_def ioctl_def handle_terminal_vt_switches_def Let_def wemit_def
        split: if_splits option.splits prod.splits)
  then have "set (w_log ?o) \<subseteq> set (w_log w4)" using grows [of w5] by (auto simp: w4 wemit_def)
  moreover have "set (w_log w4) \<subseteq> set (w_log w')"
    by (auto simp: w' scdm_session_worker_set_state_def wemit_def)
  ultimately show ?thesis by (auto simp: wemit_def)
qed

definition seat0_env :: "unit worker_env" where
  "seat0_env = example_wenv\<lparr>we_user_display_server := True\<rparr>"

definition seat0_worker :: "unit worker" where
  "seat0_worker = example_worker\<lparr>w_display_seat_id := Some ''seat0'', w_auditor := Some \<lparr>au_reports = False, au_username = None\<rparr>\<rparr>"

theorem failed_login_writes_to_stdin_witness:
  "\<exists>w'. scdm_session_worker_uninitialize_pam seat0_env PAM_AUTH_ERR seat0_worker = Some w' \<and> ClearScreen 0 \<in> set (w_log w')"
proof -
  have "scdm_session_worker_uninitialize_pam seat0_env PAM_AUTH_ERR seat0_worker \<noteq> None" by code_simp
  then obtain w' where w': "scdm_session_worker_uninitialize_pam seat0_env PAM_AUTH_ERR seat0_worker = Some w'" by auto
  have "ClearScreen 0 \<in> set (w_log w') \<and> Ioctl 0 KDSETMODE_GRAPHICS \<in> set (w_log w')"
    by (rule failed_login_writes_to_stdin [OF w', of False None])
      (simp_all add: seat0_worker_def seat0_env_def example_worker_def example_wenv_def scdm_session_worker_new_def state_order)
  then show ?thesis using w' by blast
qed

end
