(* ===== verification/Worker_Child.thy ===== *)
theory Worker_Child
  imports Worker_Props
begin

text \<open>
  The properties of what the session worker does around the process of a session: the files that
  set its environment, the search for its program, its logs, and the order in which its process
  gives up privileges.
\<close>

section \<open>Environment files\<close>

text \<open>A file of assignments: the values quoted, a line for each.\<close>

fun render_env :: "(string \<times> string) list \<Rightarrow> string" where
  "render_env [] = []"
| "render_env ((var, val) # rest) = var @ CHR ''='' # shell_quote val @ CHR 0x0A # render_env rest"

definition assignment :: "string \<times> string \<Rightarrow> bool" where
  "assignment = (\<lambda>(var, val). var \<noteq> [] \<and> shell_name True var \<and> CHR 0x0A \<notin> set val \<and>
     (val = [] \<or> \<not> ascii_isspace (hd val)))"

lemma shell_name_chars: "shell_name b s \<Longrightarrow> c \<in> set s \<Longrightarrow> \<exists>b. scdm_shell_var_is_valid_char c b"
  by (induction b s rule: shell_name.induct) auto

lemma name_char_plain:
  "scdm_shell_var_is_valid_char c b \<Longrightarrow> \<not> ascii_isspace c \<and> c \<noteq> CHR ''#'' \<and> c \<noteq> CHR 0x0A \<and> c \<noteq> CHR ''=''"
  by (auto simp: scdm_shell_var_is_valid_char_def ascii_isspace_def ascii_isalpha_def ascii_isdigit_def)

lemma set_shell_quote: "set (shell_quote s) \<subseteq> insert (CHR 0x5C) (set s)"
  by (induction s) auto

lemma shell_quote_hd: "s = [] \<or> \<not> ascii_isspace (hd s) \<Longrightarrow> dropWhile ascii_isspace (shell_quote s) = shell_quote s"
  by (cases s) (auto simp: ascii_isspace_def)

lemma env_line_assignment:
  assumes "assignment (var, val)"
  shows "env_line (var @ CHR ''='' # shell_quote val) = Some (var, shell_quote val)"
proof -
  have v: "var \<noteq> []" "shell_name True var" and q: "val = [] \<or> \<not> ascii_isspace (hd val)"
    using assms by (auto simp: assignment_def)
  then have h: "\<not> ascii_isspace (hd var)" "hd var \<noteq> CHR ''#''"
    using name_char_plain [of "hd var" True] by (cases var; simp)+
  have e: "\<not> scdm_shell_var_is_valid_char (CHR ''='') False" using name_char_plain by blast
  have "var_span True (var @ CHR ''='' # shell_quote val) = (var, CHR ''='' # shell_quote val)"
    by (rule var_span_name) (use v e in auto)
  moreover have "dropWhile ascii_isspace (var @ r) = var @ r" for r
    using v h by (cases var) auto
  moreover have "\<not> ascii_isspace (CHR ''='')" by (simp add: ascii_isspace_def)
  ultimately show ?thesis
    using v h shell_quote_hd [OF q] by (simp add: env_line_def Let_def)
qed

lemma split_render:
  assumes "assignment (var, val)"
  shows "split_on (CHR 0x0A) (render_env ((var, val) # rest)) =
    (var @ CHR ''='' # shell_quote val) # split_on (CHR 0x0A) (render_env rest)"
proof -
  have "CHR 0x0A \<notin> set (var @ CHR ''='' # shell_quote val)"
    using assms shell_name_chars [of True var "CHR 0x0A"] name_char_plain [of "CHR 0x0A"] set_shell_quote [of val]
    by (auto simp: assignment_def)
  from split_on_append [OF this, of "render_env rest"] show ?thesis by simp
qed

text \<open>Loading an environment file undoes writing it: each assignment, its value quoted with
  backslashes, sets its variable to its value, in the order of the file and without expanding
  anything. Only blanks at the end of a value are lost, quoted or not.\<close>

theorem load_env_file_round_trip:
  assumes "list_all assignment env_vars"
  shows "load_env_file env (Some (render_env env_vars)) w =
    fold (\<lambda>(var, val). scdm_session_worker_set_environment_variable env var (Some (g_strchomp val))) env_vars w"
proof -
  have "fold (load_env_line env) (split_on (CHR 0x0A) (render_env env_vars)) w =
      fold (\<lambda>(var, val). scdm_session_worker_set_environment_variable env var (Some (g_strchomp val))) env_vars w"
    using assms
  proof (induction env_vars arbitrary: w)
    case Nil
    then show ?case by (simp add: load_env_line_def env_line_def)
  next
    case (Cons a rest)
    obtain var v where a: "a = (var, v)" by (cases a)
    have p: "assignment (var, v)" and r: "list_all assignment rest" using Cons.prems a by auto
    have "load_env_line env (var @ CHR ''='' # shell_quote v) w =
        scdm_session_worker_set_environment_variable env var (Some (g_strchomp v)) w"
      by (simp add: load_env_line_def env_line_assignment [OF p] scdm_shell_expand_def expand_loop_quote)
    then show ?case by (simp only: a split_render [OF p] fold_simps Cons.IH [OF r] prod.case o_def)
  qed
  then show ?thesis by (simp add: load_env_file_def)
qed

theorem load_env_file_round_trip_witness:
  "load_env_file example_wenv (Some (render_env [(''LANG'', ''C''), (''A'', ''x$y '')])) example_worker =
   scdm_session_worker_set_environment_variable example_wenv ''A'' (Some ''x$y'')
     (scdm_session_worker_set_environment_variable example_wenv ''LANG'' (Some ''C'') example_worker)"
  by (subst load_env_file_round_trip)
    (simp_all add: assignment_def scdm_shell_var_is_valid_char_def ascii_isalpha_def ascii_isspace_def g_strchomp_def)

section \<open>The search for the program\<close>

text \<open>What \<open>execvp\<close> promises: the first candidate that does not merely fail to be an
  executable file decides; if there is none, the error says whether one could not be accessed.\<close>

definition passes_over :: "exec_errno + exec_call \<Rightarrow> bool" where
  "passes_over r = (case r of Inl e \<Rightarrow> e \<in> {E_ACCES, E_NOENT, E_STALE, E_NOTDIR} | Inr _ \<Rightarrow> False)"

definition exec_reference ::
  "(exec_call \<Rightarrow> exec_errno option) \<Rightarrow> string list \<Rightarrow> string \<Rightarrow> string list \<Rightarrow> exec_errno + exec_call" where
  "exec_reference exec dirs file argv =
     (let results = map (\<lambda>dir. try_execute exec (path_candidate file dir) argv) dirs
      in case List.find (\<lambda>r. \<not> passes_over r) results of
           Some r \<Rightarrow> r
         | None \<Rightarrow> if Inl E_ACCES \<in> set results then Inl E_ACCES else if results = [] then Inl E_NOENT else last results)"

lemma search_loop_reference:
  "search_loop exec file argv dirs acc e =
     (let results = map (\<lambda>dir. try_execute exec (path_candidate file dir) argv) dirs
      in case List.find (\<lambda>r. \<not> passes_over r) results of
           Some r \<Rightarrow> r
         | None \<Rightarrow> if acc \<or> Inl E_ACCES \<in> set results then Inl E_ACCES else if results = [] then Inl e else last results)"
proof (induction dirs arbitrary: acc e)
  case (Cons dir dirs)
  show ?case
  proof (cases "try_execute exec (path_candidate file dir) argv")
    case (Inl f)
    then show ?thesis
      by (auto simp: Cons.IH Let_def passes_over_def split: option.split)
  next
    case (Inr c)
    then show ?thesis by (simp add: passes_over_def)
  qed
qed simp

text \<open>The program of a session is searched for as \<open>execvp\<close> does: a name with a slash
  is taken as it is, any other is tried in the directories of \<open>PATH\<close> in order, an empty
  one being the current directory, and a script without an interpreter line is given to the shell.\<close>

theorem session_execute_searches_path:
  "scdm_session_execute exec path_variable file argv True =
     (if file = [] then Inl E_NOENT
      else if CHR ''/'' \<in> set file then try_execute exec file argv
      else exec_reference exec (split_on (CHR '':'') (case path_variable of None \<Rightarrow> ''/bin:/usr/bin:.'' | Some p \<Rightarrow> p)) file argv)"
  by (simp add: scdm_session_execute_def exec_reference_def search_loop_reference Let_def)

section \<open>Logs\<close>

text \<open>Files as a map from names to contents; the operations on names.\<close>

fun apply_op :: "file_op \<Rightarrow> (string \<Rightarrow> 'c option) \<Rightarrow> string \<Rightarrow> 'c option" where
  "apply_op (Unlink p) m = m(p := None)"
| "apply_op (Rename a b) m = (case m a of None \<Rightarrow> m | Some c \<Rightarrow> m(b := Some c, a := None))"
| "apply_op _ m = m"

lemma log_copy_inj: "log_copy path i = log_copy path j \<longleftrightarrow> i = j"
  by (auto simp: log_copy_def split: if_splits dest: show_nat_inj)

lemma rotate_loop_shifts:
  "fold apply_op (rotate_loop path k) m p =
     (if p = path then None
      else if \<exists>i \<in> {1..k}. p = log_copy path i then m (log_copy path ((THE i. p = log_copy path i) - 1))
      else m p)"
proof (induction k arbitrary: m)
  case 0
  then show ?case by simp
next
  case (Suc k)
  let ?m = "apply_op (Rename (log_copy path k) (log_copy path (Suc k))) (apply_op (Unlink (log_copy path (Suc k))) m)"
  have the: "(THE i. log_copy path j = log_copy path i) = j" for j
    by (simp add: log_copy_inj)
  have m: "?m q = (if q = log_copy path (Suc k) then m (log_copy path k) else if q = log_copy path k then None else m q)" for q
    using log_copy_inj [of path k "Suc k"] by (auto split: option.split)
  have zero: "log_copy path 0 = path" by (simp add: log_copy_def)
  have "fold apply_op (rotate_loop path (Suc k)) m p = fold apply_op (rotate_loop path k) ?m p" by simp
  also have "\<dots> = (if p = path then None
      else if \<exists>i \<in> {1..k}. p = log_copy path i then ?m (log_copy path ((THE i. p = log_copy path i) - 1)) else ?m p)"
    by (rule Suc.IH)
  also have "\<dots> = (if p = path then None
      else if \<exists>i \<in> {1..Suc k}. p = log_copy path i then m (log_copy path ((THE i. p = log_copy path i) - 1)) else m p)"
  proof (cases "\<exists>i \<in> {1..Suc k}. p = log_copy path i")
    case True
    then obtain i where i: "1 \<le> i" "i \<le> Suc k" "p = log_copy path i" by auto
    then have n: "p \<noteq> path" using log_copy_inj [of path i 0] zero by auto
    show ?thesis
    proof (cases "i = Suc k")
      case True
      then have "\<not> (\<exists>j \<in> {1..k}. p = log_copy path j)" using i log_copy_inj by auto
      then show ?thesis using True i n m the by auto
    next
      case False
      then have "i \<in> {1..k}" using i by simp
      then have e: "\<exists>j \<in> {1..k}. p = log_copy path j" using i by blast
      have "?m (log_copy path (i - 1)) = m (log_copy path (i - 1))" using m log_copy_inj [of path] i False by auto
      then show ?thesis using e i n the True by auto
    qed
  next
    case False
    then have f: "\<not> (\<exists>i \<in> {1..k}. p = log_copy path i)" "p \<noteq> log_copy path (Suc k)" by auto
    have "p = path \<or> p \<noteq> log_copy path k"
      using False zero by (cases k) auto
    then show ?thesis using f False m by auto
  qed
  finally show ?case .
qed

text \<open>Rotating the logs of a program moves each copy to the next number and drops the last one:
  copy \<open>i\<close> is what copy \<open>i - 1\<close> was, the log itself is gone, and no other file is
  touched.\<close>

theorem rotate_logs_shifts:
  assumes "0 < n_copies" and "n_copies \<le> 0x80000000"
  shows "fold apply_op (rotate_logs path n_copies) m path = None \<and>
    (0 < i \<and> i < unat n_copies \<longrightarrow> fold apply_op (rotate_logs path n_copies) m (log_copy path i) = m (log_copy path (i - 1))) \<and>
    (p \<noteq> path \<and> (\<forall>i. p \<noteq> log_copy path i) \<longrightarrow> fold apply_op (rotate_logs path n_copies) m p = m p)"
proof -
  let ?k = "nat (sint (n_copies - 1))"
  have u: "unat (n_copies - 1) = unat n_copies - 1" using assms(1) by (simp add: unat_minus_one word_gt_0)
  have "unat n_copies \<le> 0x80000000" using assms(2) by (simp add: word_le_nat_alt)
  then have "uint (n_copies - 1) < 2 ^ 31" using u assms(1) by (simp add: word_gt_0 unat_gt_0 flip: uint_nat) (simp add: uint_nat)
  then have "sint (n_copies - 1) = uint (n_copies - 1)" 
    using order_trans [OF _ uint_ge_0 [of "n_copies - 1"], of "- 2147483648"]
    by (simp add: sint_uint signed_take_bit_int_eq_self_iff)
  then have k: "?k = unat n_copies - 1" using u by simp
  have the: "(THE j. log_copy path i = log_copy path j) = i" by (simp add: log_copy_inj)
  have n: "log_copy path i \<noteq> path" if "0 < i"
    using that log_copy_inj [of path i 0] by (simp add: log_copy_def)
  have "0 < i \<and> i < unat n_copies \<longrightarrow> i \<in> {1..?k}" using k by auto
  then show ?thesis
    using the n by (auto simp: rotate_logs_def rotate_loop_shifts)
qed

theorem rotate_logs_shifts_witness:
  "fold apply_op (rotate_logs ''log'' MAX_LOGS) [''log'' \<mapsto> 0, ''log.1'' \<mapsto> 1, ''log.4'' \<mapsto> (4::nat)] (log_copy ''log'' 1) = Some 0"
proof -
  have "log_copy ''log'' 0 = ''log''" by (simp add: log_copy_def)
  then show ?thesis
    using rotate_logs_shifts [of MAX_LOGS "''log''" "[''log'' \<mapsto> 0, ''log.1'' \<mapsto> 1, ''log.4'' \<mapsto> (4::nat)]" 1 "[]"]
    by (simp add: MAX_LOGS_def)
qed

section \<open>The process of the session\<close>

fun opens_log :: "child_effect \<Rightarrow> bool" where
  "opens_log (LogOps ops) = True"
| "opens_log _ = False"

lemma user_log_harmless: "fx \<in> set (user_log env se home w) \<Longrightarrow> \<nexists>r e. fx = Execute r e"
  by (auto simp: user_log_def Let_def split: if_splits prod.splits)

lemma program_log_harmless:
  "list_all (\<lambda>fx. (\<nexists>r e. fx = Execute r e) \<and> (opens_log fx \<longrightarrow> w_is_program_session w))
     (if \<not> se_journald se \<and> w_is_program_session w
      then (case w_log_file w of None \<Rightarrow> [] | Some f \<Rightarrow>
        (case open_program_session_log se f of (fd, ops) \<Rightarrow> [LogOps ops, OutputTo fd])) else [])"
  by (simp split: option.split prod.split)

text \<open>C8. A program runs only in a process that leads a session of its own and has become the user
  of the session: both calls come before it and have succeeded. Until then nothing is
  executed, and a log is opened only for a session of the daemon's own programs; the log of a
  user is opened with the rights of the user.\<close>

theorem session_child_drops_privileges:
  assumes "Execute r e \<in> set (session_child env se exec w)"
  shows "se_setsid se \<and> se_setuid se \<and>
    (\<exists>before after. session_child env se exec w = before @ Setuid (w_uid w) # after \<and> Setsid \<in> set before \<and>
       (\<forall>r e. Execute r e \<notin> set before) \<and> (\<forall>fx \<in> set before. opens_log fx \<longrightarrow> w_is_program_session w))"
proof -
  define tty where "tty \<longleftrightarrow> w_session_tty_fd w > 0"
  define stdin_fx where "stdin_fx = (if tty then StdinFromTty (w_session_tty_fd w) else StdinFromNull)"
  define program_log where "program_log = (if \<not> se_journald se \<and> w_is_program_session w
    then (case w_log_file w of None \<Rightarrow> [] | Some f \<Rightarrow>
      (case open_program_session_log se f of (fd, ops) \<Rightarrow> [LogOps ops, OutputTo fd])) else [])"
  let ?before = "stdin_fx # program_log @ Setsid # (if tty then [TakeTty] else [])"
  have p: "\<forall>fx \<in> set program_log. (\<nexists>r e. fx = Execute r e) \<and> (opens_log fx \<longrightarrow> w_is_program_session w)"
    using program_log_harmless [of w se] by (simp add: list_all_iff flip: program_log_def)
  have s: "(\<nexists>r e. stdin_fx = Execute r e) \<and> \<not> opens_log stdin_fx" by (simp add: stdin_fx_def)
  obtain last_fx where c: "session_child env se exec w = stdin_fx # program_log @
      (if \<not> se_setsid se then [Setsid, ExitFailure]
       else Setsid # (if tty then [TakeTty] else []) @ Setuid (w_uid w) # (if \<not> se_setuid se then [ExitFailure] else last_fx))"
    by (simp add: session_child_def Let_def flip: tty_def program_log_def stdin_fx_def)
  have g: "se_setsid se" "se_setuid se"
    using assms p s by (auto simp: c split: if_splits)
  then have "session_child env se exec w = ?before @ Setuid (w_uid w) # last_fx" by (simp add: c)
  moreover have "\<forall>r e. Execute r e \<notin> set ?before" "\<forall>fx \<in> set ?before. opens_log fx \<longrightarrow> w_is_program_session w"
    using p s by auto
  moreover have "Setsid \<in> set ?before" by simp
  ultimately show ?thesis using g by blast
qed

theorem session_child_drops_privileges_witness:
  "\<exists>before after. session_child example_wenv example_senv (\<lambda>c. None) (example_worker\<lparr>w_arguments := [''/bin/sh'']\<rparr>) =
     before @ Setuid 0 # after \<and> Setsid \<in> set before"
proof -
  let ?w = "example_worker\<lparr>w_arguments := [''/bin/sh'']\<rparr>"
  have "Execute (Inr (Execve ''/bin/sh'' [''/bin/sh''])) [] \<in> set (session_child example_wenv example_senv (\<lambda>c. None) ?w)"
    by code_simp
  from session_child_drops_privileges [OF this] show ?thesis
    by (auto simp: example_worker_def scdm_session_worker_new_def)
qed

end
