(* ===== verification/Worker_Job.thy ===== *)
theory Worker_Job
  imports Common_Process Common_Script
begin

text \<open>
  The process of a session worker, as the daemon starts and stops it:
  \<open>src/daemon/scdm-session-worker-job.c\<close>. Parsing the command line, the environment of
  the daemon and spawning are arguments. What is done to the process is the list of effects an
  operation returns. The status that \<open>handle_session_worker_job_death\<close> waits for is only printed,
  so that waiting is an effect with its limit in seconds.
\<close>

section \<open>State\<close>

record worker_job =
  wj_command :: string
  wj_pid :: int
  wj_for_reauth :: bool
  wj_child_watch :: bool
  wj_server_address :: "string option"
  wj_environment :: "string list option"

datatype job_signal = JobExited u32 | JobDied u32

datatype job_effect =
    SpawnJob "string list" "string list" | SignalJob int | WaitForJob int nat

record job_world =
  jw_libexecdir :: string
  jw_parse_argv :: "string \<Rightarrow> string list option"
  jw_environ :: "string list"
  jw_spawn :: "string list \<Rightarrow> string list \<Rightarrow> int option"

definition scdm_session_worker_job_new :: "job_world \<Rightarrow> worker_job" where
  "scdm_session_worker_job_new jw =
     \<lparr>wj_command = jw_libexecdir jw @ ''/scdm-session-worker'', wj_pid = -1, wj_for_reauth = False,
      wj_child_watch = False, wj_server_address = None, wj_environment = None\<rparr>"

definition scdm_session_worker_job_set_server_address :: "string option \<Rightarrow> worker_job \<Rightarrow> worker_job" where
  "scdm_session_worker_job_set_server_address address job = job\<lparr>wj_server_address := address\<rparr>"

definition scdm_session_worker_job_set_for_reauth :: "bool \<Rightarrow> worker_job \<Rightarrow> worker_job" where
  "scdm_session_worker_job_set_for_reauth for_reauth job = job\<lparr>wj_for_reauth := for_reauth\<rparr>"

definition scdm_session_worker_job_set_environment :: "string list \<Rightarrow> worker_job \<Rightarrow> worker_job" where
  "scdm_session_worker_job_set_environment environment job = job\<lparr>wj_environment := Some environment\<rparr>"

section \<open>Arguments and environment\<close>

text \<open>\<open>g_strsplit\<close> at the first equals sign, into two parts.\<close>

definition split_assignment :: "string \<Rightarrow> (string \<times> string) option" where
  "split_assignment s =
     (if CHR ''='' \<in> set s then Some (takeWhile (\<lambda>c. c \<noteq> CHR ''='') s, tl (dropWhile (\<lambda>c. c \<noteq> CHR ''='') s)) else None)"

definition copy_environment_to_hash :: "job_world \<Rightarrow> worker_job \<Rightarrow> env_hash \<Rightarrow> env_hash" where
  "copy_environment_to_hash jw job hash =
     fold (\<lambda>s hash. case split_assignment s of None \<Rightarrow> hash | Some (k, v) \<Rightarrow> AList.update k (Some v) hash)
       (case wj_environment job of Some e \<Rightarrow> e | None \<Rightarrow> jw_environ jw) hash"

definition listify_job_hash :: "string \<times> string option \<Rightarrow> string" where
  "listify_job_hash = (\<lambda>(key, v). key @ ''='' @ (case v of None \<Rightarrow> [] | Some s \<Rightarrow> s))"

definition job_hash :: "job_world \<Rightarrow> worker_job \<Rightarrow> env_hash" where
  "job_hash jw job =
     (let hash = AList.update ''GDM_SESSION_DBUS_ADDRESS'' (wj_server_address job) (copy_environment_to_hash jw job [])
      in if wj_for_reauth job then AList.update ''GDM_SESSION_FOR_REAUTH'' (Some ''1'') hash else hash)"

definition get_job_environment :: "job_world \<Rightarrow> worker_job \<Rightarrow> string list" where
  "get_job_environment jw job = map listify_job_hash (job_hash jw job)"

text \<open>The name goes behind the program, for it becomes its \<open>argv[0]\<close>.\<close>

definition get_job_arguments :: "job_world \<Rightarrow> string \<Rightarrow> worker_job \<Rightarrow> string list option" where
  "get_job_arguments jw name job =
     (case jw_parse_argv jw (wj_command job) of
        None \<Rightarrow> None
      | Some argv \<Rightarrow> Some (hd argv # name # tl argv))"

section \<open>Start and end\<close>

definition scdm_session_worker_job_spawn ::
  "job_world \<Rightarrow> string \<Rightarrow> worker_job \<Rightarrow> bool \<times> worker_job \<times> job_effect list" where
  "scdm_session_worker_job_spawn jw name job =
     (case get_job_arguments jw name job of
        None \<Rightarrow> (False, job, [])
      | Some args \<Rightarrow>
          let env = get_job_environment jw job; pid = jw_spawn jw args env;
              job = (case pid of None \<Rightarrow> job | Some p \<Rightarrow> job\<lparr>wj_pid := p\<rparr>)
          in (pid \<noteq> None, job\<lparr>wj_child_watch := True\<rparr>, [SpawnJob args env]))"

definition scdm_session_worker_job_start ::
  "job_world \<Rightarrow> string \<Rightarrow> worker_job \<Rightarrow> bool \<times> worker_job \<times> job_effect list" where
  "scdm_session_worker_job_start jw name job = scdm_session_worker_job_spawn jw name job"

definition session_worker_job_child_watch :: "u32 \<Rightarrow> worker_job \<Rightarrow> worker_job \<times> job_signal list" where
  "session_worker_job_child_watch status job =
     (job\<lparr>wj_pid := -1\<rparr>,
      if wifexited status then [JobExited (wexitstatus status)]
      else if wifsignaled status then [JobDied (wtermsig status)] else [])"

definition scdm_session_worker_job_stop :: "worker_job \<Rightarrow> job_effect list" where
  "scdm_session_worker_job_stop job = (if wj_pid job \<le> 1 then [] else [SignalJob (wj_pid job)])"

definition handle_session_worker_job_death :: "worker_job \<Rightarrow> worker_job \<times> job_effect list" where
  "handle_session_worker_job_death job = (job\<lparr>wj_pid := -1\<rparr>, [WaitForJob (wj_pid job) 5])"

definition scdm_session_worker_job_stop_now :: "worker_job \<Rightarrow> worker_job \<times> job_effect list" where
  "scdm_session_worker_job_stop_now job =
     (if wj_pid job \<le> 1 then (job, [])
      else let job = job\<lparr>wj_child_watch := False\<rparr>; fx = scdm_session_worker_job_stop job
           in case handle_session_worker_job_death job of (job, fx') \<Rightarrow> (job, fx @ fx'))"

definition scdm_session_worker_job_get_pid :: "worker_job \<Rightarrow> int" where
  "scdm_session_worker_job_get_pid job = wj_pid job"

lemmas job_defs = scdm_session_worker_job_spawn_def scdm_session_worker_job_start_def
  session_worker_job_child_watch_def scdm_session_worker_job_stop_def handle_session_worker_job_death_def
  scdm_session_worker_job_stop_now_def scdm_session_worker_job_get_pid_def

section \<open>Facts\<close>

lemma stop_now_result: "wj_pid (fst (scdm_session_worker_job_stop_now job)) \<le> 1"
  by (simp add: job_defs Let_def)

lemma distinct_job_hash: "distinct (map fst (job_hash jw job))"
proof -
  have "distinct (map fst hash) \<Longrightarrow> distinct (map fst (fold (\<lambda>s hash. case split_assignment s of None \<Rightarrow> hash
      | Some (k, v) \<Rightarrow> AList.update k (Some v) hash) l hash))" for l and hash :: env_hash
    by (induction l arbitrary: hash) (auto split: option.split intro: distinct_update)
  then show ?thesis
    by (auto simp: job_hash_def copy_environment_to_hash_def Let_def intro!: distinct_update)
qed

text \<open>The address of the daemon and the mark of a reauthentication are those of the job, whatever the
  environment says; every other variable is the last assignment of the environment.\<close>

lemma job_hash_lookup:
  "map_of (job_hash jw job) k =
     (if k = ''GDM_SESSION_FOR_REAUTH'' \<and> wj_for_reauth job then Some (Some ''1'')
      else if k = ''GDM_SESSION_DBUS_ADDRESS'' then Some (wj_server_address job)
      else map_option Some (map_of (rev (List.map_filter split_assignment
             (case wj_environment job of Some e \<Rightarrow> e | None \<Rightarrow> jw_environ jw))) k))"
proof -
  have "map_of (fold (\<lambda>s hash. case split_assignment s of None \<Rightarrow> hash
      | Some (k, v) \<Rightarrow> AList.update k (Some v) hash) l hash) k =
      (case map_of (rev (List.map_filter split_assignment l)) k of None \<Rightarrow> map_of hash k | Some v \<Rightarrow> Some (Some v))" for l and hash :: env_hash
    by (induction l arbitrary: hash) (auto simp: map_filter_simps update_conv' map_add_def split: option.split)
  then show ?thesis
    by (auto simp: job_hash_def copy_environment_to_hash_def Let_def update_conv' split: option.split)
qed

end
