(* ===== verification/Session.thy ===== *)
theory Session
  imports Worker_Requests Worker_Job
begin

text \<open>
  A session of the daemon, \<open>src/daemon/scdm-session.c\<close>, first part: its state, the session
  files, the environment and the program of a session. A session leads its workers, one for each
  conversation, over private D-Bus connections; conversations and handlers are in
  \<open>Session_Conversations\<close>.

  Conversations are shared by the table of the session, by the callbacks of calls to workers and by
  \<open>session_conversation\<close>, so they live in a heap; a pointer to a conversation that was freed is an
  address where the heap has nothing, and reading it ends the process. The file system, key
  files and the environment of the daemon are arguments. A signal of the session is an effect: its
  handlers belong to other components. \<open>None\<close> is the end of the process.
\<close>

section \<open>State\<close>

datatype verification_mode = MODE_LOGIN | MODE_CHOOSER | MODE_REAUTHENTICATE

text \<open>The calls to a worker whose callback has not run yet.\<close>

datatype pending_call =
    InitializeCall | AuthenticateCall | AuthorizeCall | EstablishCredentialsCall | OpenCall | StartProgramCall
  | StartReauthenticationCall

record conversation =
  c_service_name :: string
  c_job :: "worker_job option"
  c_worker_pid :: int
  c_starting_invocation :: "nat option"
  c_starting_username :: "string option"
  c_pending_invocation :: "nat option"
  c_manager_interface :: bool
  c_worker_proxy :: bool
  c_session_id :: "string option"
  c_is_stopping :: bool
  c_reauth_pid_of_caller :: int
  c_calls :: "pending_call list"

datatype worker_call =
    CallInitialize "(string \<times> variant) list" | CallAuthenticate | CallAuthorize | CallEstablishCredentials
  | CallOpen | CallStartProgram string | CallStartReauthentication int u32
  | CallSetEnvironmentVariable string string | CallSetSessionName string | CallSetSessionDisplayMode string

datatype session_signal =
    CONVERSATION_STARTED string | CONVERSATION_STOPPED string | SETUP_COMPLETE string | CANCELLED
  | HOSTNAME_SELECTED string | CLIENT_REJECTED int | CLIENT_CONNECTED int | CLIENT_DISCONNECTED int
  | CLIENT_READY_FOR_SESSION_TO_START string bool | DISCONNECTED | AUTHENTICATION_FAILED string int
  | VERIFICATION_COMPLETE string | SESSION_OPENED string string | SESSION_STARTED string int
  | SESSION_START_FAILED string string | SESSION_EXITED u32 | SESSION_DIED u32
  | REAUTHENTICATION_STARTED int string | REAUTHENTICATED string

datatype verifier_signal =
    VerifierServiceUnavailable string string | VerifierProblem string string | VerifierInfo string string
  | VerifierInfoQuery string string | VerifierSecretInfoQuery string string | VerificationFailed string
  | VerificationComplete string | ConversationStarted string | ConversationStopped string | VerifierReset

datatype greeter_signal =
    DefaultLanguageNameChanged "string option" | DefaultSessionNameChanged string | GreeterSessionOpened string
  | TimedLoginRequested string int

datatype client_error =
    SpawnFailed | NotSupported | AccessDenied | AlreadyRunning "string option" | QueryCancelled | FromWorker bool string
  | UnknownMethod

datatype client_reply = Returned | Answered string | TimedLoginDetails bool string int | ErrorReply client_error

datatype session_effect =
    Emit session_signal | ToVerifier verifier_signal | ToGreeter greeter_signal
  | ChoiceQuery string string "(string \<times> string) list"
  | Respond nat client_reply
  | CallWorker nat worker_call
  | JobFx nat "job_effect list"
  | UnexportManager nat | CloseWorkerConnection nat | CloseConnection nat

record session =
  s_selected_program :: "string option"
  s_selected_session :: "string option"
  s_saved_session :: "string option"
  s_saved_language :: "string option"
  s_selected_user :: "string option"
  s_user_x11_authority_file :: "string option"
  s_timed_login_username :: "string option"
  s_timed_login_delay :: int
  s_conversations :: "(string \<times> nat option) list" \<comment> \<open>a hash table; \<open>None\<close> is a null pointer in it\<close>
  s_session_conversation :: "nat option"
  s_conversation_environment :: "string list option"
  s_user_verifier :: bool
  s_user_verifier_extensions :: "string list"
  s_greeter :: bool
  s_remote_greeter :: bool
  s_chooser :: bool
  s_pending_worker_connections :: "nat list"
  s_outside_connections :: "nat list"
  s_session_pid :: int
  s_session_type :: "string option"
  s_display_name :: "string option"
  s_display_hostname :: "string option"
  s_display_device :: "string option"
  s_display_seat_id :: "string option"
  s_display_x11_authority_file :: "string option"
  s_display_is_local :: bool
  s_verification_mode :: verification_mode
  s_allowed_user :: u32
  s_fallback_session_name :: "string option"
  s_worker_server :: "string option" \<comment> \<open>the address of the server for workers\<close>
  s_environment :: "(string \<times> string) list" \<comment> \<open>a hash table\<close>
  s_is_program_session :: bool
  s_display_is_initial :: bool
  s_ignore_wayland :: bool
  s_heap :: "nat \<Rightarrow> conversation option"
  s_next :: nat
  s_log :: "session_effect list"

definition semit :: "session_effect list \<Rightarrow> session \<Rightarrow> session" where
  "semit fx s = s\<lparr>s_log := s_log s @ fx\<rparr>"

definition to_verifier :: "verifier_signal list \<Rightarrow> session \<Rightarrow> session" where
  "to_verifier sigs s = (if s_user_verifier s then semit (map ToVerifier sigs) s else s)"

definition to_greeter :: "greeter_signal list \<Rightarrow> session \<Rightarrow> session" where
  "to_greeter sigs s = (if s_greeter s then semit (map ToGreeter sigs) s else s)"

section \<open>The world\<close>

text \<open>The group \<open>Desktop Entry\<close> of a key file.\<close>

datatype key_error = KeyNotFound | OtherKeyError

record key_file =
  kf_boolean :: "string \<Rightarrow> key_error + bool"
  kf_string :: "string \<Rightarrow> string option"
  kf_string_list :: "string \<Rightarrow> string list option"
  kf_has_key :: "string \<Rightarrow> bool"

record session_world =
  sv_load_from_dirs :: "string list \<Rightarrow> string \<Rightarrow> (string \<times> key_file) option" \<comment> \<open>the full path, the file\<close>
  sv_read_dir :: "string \<Rightarrow> string list option"
  sv_system_data_dirs :: "string list"
  sv_build_filename :: "string list \<Rightarrow> string"
  sv_find_program_in_path :: "string \<Rightarrow> bool"
  sv_wayland_support :: bool
  sv_user_display_server :: bool
  sv_dmconfdir :: string
  sv_confdir :: string
  sv_datadir :: string
  sv_libexecdir :: string
  sv_lc_messages :: "string option"
  sv_environ :: "(string \<times> string) list"
  sv_disallow_tcp :: "bool option"
  sv_job :: job_world

section \<open>Session files\<close>

definition get_system_session_dirs :: "session_world \<Rightarrow> session \<Rightarrow> string list" where
  "get_system_session_dirs v s =
     (let x = map (\<lambda>d. sv_build_filename v [d, ''xsessions'']) (sv_system_data_dirs v) @
            [''/etc/X11/sessions/'', sv_dmconfdir v @ ''/Sessions/'', sv_datadir v @ ''/scdm/BuiltInSessions/'',
             sv_datadir v @ ''/xsessions/''];
          wayland = map (\<lambda>d. sv_build_filename v [d, ''wayland-sessions'']) (sv_system_data_dirs v) @
            [sv_datadir v @ ''/wayland-sessions/'']
      in if sv_wayland_support v \<and> \<not> s_ignore_wayland s
         then if sv_user_display_server v then wayland @ x else x @ wayland
         else x)"

definition load_key_file_for_file :: "session_world \<Rightarrow> session \<Rightarrow> string \<Rightarrow> (string \<times> key_file) option" where
  "load_key_file_for_file v s file = sv_load_from_dirs v (get_system_session_dirs v s) file"

definition is_prog_in_path :: "session_world \<Rightarrow> string \<Rightarrow> bool" where
  "is_prog_in_path v prog = sv_find_program_in_path v prog"

definition get_session_command_for_file :: "session_world \<Rightarrow> session \<Rightarrow> string \<Rightarrow> string option" where
  "get_session_command_for_file v s file =
     (case load_key_file_for_file v s file of
        None \<Rightarrow> None
      | Some (_, key_file) \<Rightarrow>
          if kf_boolean key_file ''Hidden'' = Inr True then None
          else if (case kf_string key_file ''TryExec'' of None \<Rightarrow> False | Some exec \<Rightarrow> \<not> is_prog_in_path v exec) then None
          else kf_string key_file ''Exec'')"

definition get_session_command_for_name :: "session_world \<Rightarrow> session \<Rightarrow> string \<Rightarrow> string option" where
  "get_session_command_for_name v s name = get_session_command_for_file v s (name @ ''.desktop'')"

definition get_default_language_name :: "session_world \<Rightarrow> session \<Rightarrow> string option" where
  "get_default_language_name v s =
     (case s_saved_language s of
        Some l \<Rightarrow> Some l
      | None \<Rightarrow> (case map_of (s_environment s) ''LANG'' of Some l \<Rightarrow> Some l | None \<Rightarrow> sv_lc_messages v))"

text \<open>The names of all session files with a command.\<close>

definition installed_sessions :: "session_world \<Rightarrow> session \<Rightarrow> string list" where
  "installed_sessions v s =
     concat (map (\<lambda>dir. case sv_read_dir v dir of
                          None \<Rightarrow> []
                        | Some names \<Rightarrow>
                            map (\<lambda>n. take (length n - length ''.desktop'') n)
                              (filter (\<lambda>n. suffix ''.desktop'' n \<and> get_session_command_for_file v s n \<noteq> None) names))
                 (get_system_session_dirs v s))"

text \<open>Without any session file the process is aborted by \<open>g_error\<close>.\<close>

definition get_fallback_session_name :: "session_world \<Rightarrow> session \<Rightarrow> (string \<times> session) option" where
  "get_fallback_session_name v s =
     (case (case s_fallback_session_name s of
              Some name \<Rightarrow> if get_session_command_for_name v s name \<noteq> None then Some name else None
            | None \<Rightarrow> None) of
        Some name \<Rightarrow> Some (name, s)
      | None \<Rightarrow>
          if get_session_command_for_name v s ''gnome'' \<noteq> None
          then Some (''gnome'', s\<lparr>s_fallback_session_name := Some ''gnome''\<rparr>)
          else (case sort (installed_sessions v s) of
                  [] \<Rightarrow> None
                | name # _ \<Rightarrow> Some (name, s\<lparr>s_fallback_session_name := Some name\<rparr>)))"

definition get_default_session_name :: "session_world \<Rightarrow> session \<Rightarrow> (string \<times> session) option" where
  "get_default_session_name v s =
     (case s_saved_session s of Some name \<Rightarrow> Some (name, s) | None \<Rightarrow> get_fallback_session_name v s)"

definition get_session_name :: "session_world \<Rightarrow> session \<Rightarrow> (string \<times> session) option" where
  "get_session_name v s =
     (case s_selected_session s of Some name \<Rightarrow> Some (name, s) | None \<Rightarrow> get_default_session_name v s)"

text \<open>Without a command the daemon exits.\<close>

definition get_session_command :: "session_world \<Rightarrow> session \<Rightarrow> (string \<times> session) option" where
  "get_session_command v s = do {
     (name, s) \<leftarrow> get_session_name v s;
     command \<leftarrow> get_session_command_for_name v s name;
     Some (command, s)
   }"

definition join_names :: "string \<Rightarrow> string list \<Rightarrow> string" where
  "join_names sep names = (case names of [] \<Rightarrow> [] | n # ns \<Rightarrow> n @ concat (map (\<lambda>m. sep @ m) ns))"

definition get_session_desktop_names :: "session_world \<Rightarrow> session \<Rightarrow> (string option \<times> session) option" where
  "get_session_desktop_names v s =
     (if s_selected_program s \<noteq> None then Some (Some ''GNOME-Greeter:GNOME'', s)
      else map_option (\<lambda>(name, s).
             (case load_key_file_for_file v s (name @ ''.desktop'') of
                None \<Rightarrow> None
              | Some (_, key_file) \<Rightarrow> map_option (join_names '':'') (kf_string_list key_file ''DesktopNames''), s))
           (get_session_name v s))"

definition get_session_filename :: "session_world \<Rightarrow> session \<Rightarrow> (string \<times> session) option" where
  "get_session_filename v s = map_option (\<lambda>(name, s). (name @ ''.desktop'', s)) (get_session_name v s)"

definition scdm_session_is_wayland_session :: "session_world \<Rightarrow> session \<Rightarrow> (bool \<times> session) option" where
  "scdm_session_is_wayland_session v s =
     map_option (\<lambda>(filename, s).
         (case load_key_file_for_file v s filename of
            None \<Rightarrow> False | Some (full_path, _) \<Rightarrow> sublist ''/wayland-sessions/'' full_path, s))
       (get_session_filename v s)"

definition set_session_type :: "string option \<Rightarrow> session \<Rightarrow> session" where
  "set_session_type session_type s = (if s_session_type s \<noteq> session_type then s\<lparr>s_session_type := session_type\<rparr> else s)"

definition update_session_type :: "session_world \<Rightarrow> session \<Rightarrow> session option" where
  "update_session_type v s =
     (if sv_wayland_support v
      then map_option (\<lambda>(is_wayland_session, s). set_session_type (if is_wayland_session then Some ''wayland'' else None) s)
             (scdm_session_is_wayland_session v s)
      else Some s)"

text \<open>A key file that is missing reads as a null pointer, for which the result is false.\<close>

definition scdm_session_session_registers :: "session_world \<Rightarrow> session \<Rightarrow> (bool \<times> session) option" where
  "scdm_session_session_registers v s =
     map_option (\<lambda>(filename, s).
         (case load_key_file_for_file v s filename of
            None \<Rightarrow> False
          | Some (_, key_file) \<Rightarrow> (case kf_boolean key_file ''X-SCDM-SessionRegisters'' of Inl _ \<Rightarrow> False | Inr b \<Rightarrow> b), s))
       (get_session_filename v s)"

definition scdm_session_bypasses_xsession :: "session_world \<Rightarrow> session \<Rightarrow> (bool \<times> session) option" where
  "scdm_session_bypasses_xsession v s = do {
     (wayland, s) \<leftarrow> (if sv_wayland_support v then scdm_session_is_wayland_session v s else Some (False, s));
     if wayland then Some (True, s)
     else do {
       (filename, s) \<leftarrow> get_session_filename v s;
       Some (case load_key_file_for_file v s filename of
               None \<Rightarrow> False
             | Some (_, key_file) \<Rightarrow>
                 kf_has_key key_file ''X-GDM-BypassXsession'' \<and>
                 (case kf_boolean key_file ''X-GDM-BypassXsession'' of Inl _ \<Rightarrow> False | Inr b \<Rightarrow> b), s)
     }
   }"

definition scdm_session_get_display_mode :: "session_world \<Rightarrow> session \<Rightarrow> display_mode" where
  "scdm_session_get_display_mode v s =
     (if s_display_seat_id s \<noteq> Some ''seat0'' then REUSE_VT
      else if sv_user_display_server v then NEW_VT
      else if sv_wayland_support v \<and> s_session_type s = Some ''wayland'' then NEW_VT
      else REUSE_VT)"

definition scdm_session_defaults_changed :: "session_world \<Rightarrow> session \<Rightarrow> session option" where
  "scdm_session_defaults_changed v s = do {
     s \<leftarrow> update_session_type v s;
     if s_greeter s
     then do {
       let s = to_greeter [DefaultLanguageNameChanged (get_default_language_name v s)] s;
       (name, s) \<leftarrow> get_default_session_name v s;
       Some (to_greeter [DefaultSessionNameChanged name] s)
     }
     else Some s
   }"

definition scdm_session_select_user :: "string option \<Rightarrow> session \<Rightarrow> session" where
  "scdm_session_select_user text s = s\<lparr>s_selected_user := text, s_saved_session := None, s_saved_language := None\<rparr>"

definition scdm_session_select_program :: "string option \<Rightarrow> session \<Rightarrow> session" where
  "scdm_session_select_program text s = s\<lparr>s_selected_program := text\<rparr>"

section \<open>The language of the system\<close>

text \<open>The lines that a newline ends; a last line without one is not looked at.\<close>

fun ended_lines :: "string \<Rightarrow> string \<Rightarrow> string list" where
  "ended_lines line [] = []"
| "ended_lines line (ch # p) = (if ch = CHR 0x0A then line # ended_lines [] p else ended_lines (line @ [ch]) p)"

text \<open>What is set in the environment of the daemon. \<open>regex_match\<close> is the regular expression, which
  gives the key and the value it found; \<open>contents\<close> is nothing when the file cannot be read or is not
  valid.\<close>

definition load_lang_config_file :: "(string \<Rightarrow> (string \<times> string) option) \<Rightarrow> string option \<Rightarrow> (string \<times> string) list" where
  "load_lang_config_file regex_match contents =
     (case contents of
        None \<Rightarrow> []
      | Some c \<Rightarrow>
          filter (\<lambda>(key, val). key \<noteq> [] \<and> val \<noteq> [])
            (List.map_filter (\<lambda>line. if line \<noteq> [] \<and> hd line = CHR ''#'' then None else regex_match line)
               (ended_lines [] c)))"

section \<open>Environment and program\<close>

text \<open>A missing value fails a precondition, and nothing is set.\<close>

definition scdm_session_set_environment_variable :: "string \<Rightarrow> string option \<Rightarrow> session \<Rightarrow> session" where
  "scdm_session_set_environment_variable key val s =
     (case val of None \<Rightarrow> s | Some x \<Rightarrow> s\<lparr>s_environment := AList.update key x (s_environment s)\<rparr>)"

definition set_up_session_language :: "session_world \<Rightarrow> session \<Rightarrow> session" where
  "set_up_session_language v s =
     fold (\<lambda>(k, x). scdm_session_set_environment_variable k (Some x))
       (filter (\<lambda>(k, x). k = ''LANG'' \<or> k = ''LANGUAGE'' \<or> prefix ''LC_'' k) (sv_environ v)) s"

definition set_up_session_environment :: "session_world \<Rightarrow> session \<Rightarrow> session option" where
  "set_up_session_environment v s = do {
     s \<leftarrow> (if s_selected_program s = None
          then map_option (\<lambda>(name, s).
                   fold (\<lambda>k. scdm_session_set_environment_variable k (Some name))
                     [''GDMSESSION'', ''DESKTOP_SESSION'', ''XDG_SESSION_DESKTOP''] s) (get_session_name v s)
          else Some s);
     (desktop_names, s) \<leftarrow> get_session_desktop_names v s;
     let s = scdm_session_set_environment_variable ''XDG_CURRENT_DESKTOP'' desktop_names s;
     let s = set_up_session_language v s;
     let locale_name = get_default_language_name v s;
     let s = (if locale_name \<noteq> None \<and> locale_name \<noteq> Some []
              then scdm_session_set_environment_variable ''SCDM_LANG'' locale_name
                     (scdm_session_set_environment_variable ''LANG'' locale_name s) else s);
     let s = (if scdm_session_get_display_mode v s = REUSE_VT
              then scdm_session_set_environment_variable ''XAUTHORITY'' (s_user_x11_authority_file s)
                     (scdm_session_set_environment_variable ''DISPLAY'' (s_display_name s) s) else s);
     Some (scdm_session_set_environment_variable ''WINDOWPATH'' (map_of (sv_environ v) ''WINDOWPATH'') s)
   }"

definition quoted :: "string \<Rightarrow> string" where
  "quoted s = [CHR 0x22] @ s @ [CHR 0x22]"

text \<open>The program for a user's session, from the choices of \<open>scdm_session_start_session\<close>.\<close>

definition session_program ::
  "session_world \<Rightarrow> bool \<Rightarrow> bool \<Rightarrow> bool \<Rightarrow> bool \<Rightarrow> bool \<Rightarrow> string \<Rightarrow> string" where
  "session_program v run_launcher is_x11 register_session run_xsession_script allow_remote_connections command =
     (if run_launcher
      then if is_x11
           then sv_libexecdir v @ ''/scdm-x-session '' @ (if register_session then ''--register-session '' else []) @
                (if run_xsession_script then ''--run-script '' else []) @ '' '' @
                (if allow_remote_connections then ''--allow-remote-connections '' else []) @ quoted command
           else sv_libexecdir v @ ''/scdm-wayland-session '' @ (if register_session then ''--register-session '' else []) @
                quoted command
      else if run_xsession_script then sv_confdir v @ ''/Xsession '' @ quoted command
      else command)"

definition greeter_program :: "session_world \<Rightarrow> bool \<Rightarrow> bool \<Rightarrow> bool \<Rightarrow> string \<Rightarrow> string" where
  "greeter_program v run_launcher is_x11 register_session program =
     (if run_launcher
      then sv_libexecdir v @ (if is_x11 then ''/scdm-x-session '' else ''/scdm-wayland-session '') @
           (if register_session then ''--register-session '' else []) @ quoted (''dbus-run-session -- '' @ program)
      else ''dbus-run-session -- '' @ program)"

end
