(* ===== verification/Session_Conversations.thy ===== *)
theory Session_Conversations
  imports Session
begin

text \<open>
  Sessions, second part: the conversations with workers. Their start, the calls to their workers and
  the callbacks of these calls, the requests of workers, and the end of conversations, of
  \<open>src/daemon/scdm-session.c\<close>. A call is outstanding (\<open>c_calls\<close>) until its callback runs; a
  conversation that is freed cancels its calls, whose callbacks then do nothing.
\<close>

section \<open>Conversations\<close>

definition set_conversation :: "nat \<Rightarrow> conversation \<Rightarrow> session \<Rightarrow> session" where
  "set_conversation c k s = s\<lparr>s_heap := (s_heap s)(c := Some k)\<rparr>"

definition find_conversation_by_name :: "session \<Rightarrow> string \<Rightarrow> nat option" where
  "find_conversation_by_name s service_name =
     (case map_of (s_conversations s) service_name of Some (Some c) \<Rightarrow> Some c | _ \<Rightarrow> None)"

text \<open>The null pointers that failed starts leave in the table are read like any other.\<close>

fun conversation_of_pid :: "session \<Rightarrow> int \<Rightarrow> (string \<times> nat option) list \<Rightarrow> nat option option" where
  "conversation_of_pid s pid [] = Some None"
| "conversation_of_pid s pid ((_, None) # rest) = None"
| "conversation_of_pid s pid ((_, Some c) # rest) =
     (case s_heap s c of
        None \<Rightarrow> None
      | Some k \<Rightarrow> if c_worker_pid k = pid then Some (Some c) else conversation_of_pid s pid rest)"

definition find_conversation_by_pid :: "session \<Rightarrow> int \<Rightarrow> nat option option" where
  "find_conversation_by_pid s pid = conversation_of_pid s pid (s_conversations s)"

text \<open>A call through a null proxy fails a precondition, and its callback never runs.\<close>

definition call_worker :: "nat \<Rightarrow> pending_call option \<Rightarrow> worker_call \<Rightarrow> session \<Rightarrow> session option" where
  "call_worker c callback m s =
     (case s_heap s c of
        None \<Rightarrow> None
      | Some k \<Rightarrow>
          if \<not> c_worker_proxy k then Some s
          else Some (semit [CallWorker c m]
            (case callback of None \<Rightarrow> s | Some p \<Rightarrow> set_conversation c (k\<lparr>c_calls := c_calls k @ [p]\<rparr>) s)))"

definition close_conversation :: "nat \<Rightarrow> session \<Rightarrow> session option" where
  "close_conversation c s =
     (case s_heap s c of
        None \<Rightarrow> None
      | Some k \<Rightarrow>
          Some (semit ((if c_manager_interface k then [UnexportManager c] else []) @
                       (if c_worker_proxy k then [CloseWorkerConnection c] else []))
                  (set_conversation c (k\<lparr>c_manager_interface := False\<rparr>) s)))"

definition stop_conversation :: "nat \<Rightarrow> session \<Rightarrow> session option" where
  "stop_conversation c s = do {
     s \<leftarrow> close_conversation c s;
     k \<leftarrow> s_heap s c;
     job \<leftarrow> c_job k;
     Some (semit [JobFx c (scdm_session_worker_job_stop job)] (set_conversation c (k\<lparr>c_is_stopping := True\<rparr>) s))
   }"

definition stop_conversation_now :: "nat \<Rightarrow> session \<Rightarrow> session option" where
  "stop_conversation_now c s = do {
     s \<leftarrow> close_conversation c s;
     k \<leftarrow> s_heap s c;
     job \<leftarrow> c_job k;
     Some (semit [JobFx c (snd (scdm_session_worker_job_stop_now job))] (set_conversation c (k\<lparr>c_job := None\<rparr>) s))
   }"

definition free_conversation :: "nat \<Rightarrow> session \<Rightarrow> session option" where
  "free_conversation c s = map_option (\<lambda>s. s\<lparr>s_heap := (s_heap s)(c := None)\<rparr>) (close_conversation c s)"

text \<open>The destructor of a value of the table; freeing the null pointer reads through it.\<close>

definition free_entry :: "nat option \<Rightarrow> session \<Rightarrow> session option" where
  "free_entry e s = (case e of None \<Rightarrow> None | Some c \<Rightarrow> free_conversation c s)"

definition scdm_session_stop_conversation :: "string \<Rightarrow> session \<Rightarrow> session option" where
  "scdm_session_stop_conversation service_name s =
     (case find_conversation_by_name s service_name of None \<Rightarrow> Some s | Some c \<Rightarrow> stop_conversation c s)"

text \<open>The job of a new conversation.\<close>

definition conversation_job :: "session_world \<Rightarrow> session \<Rightarrow> worker_job" where
  "conversation_job v s =
     (let job = scdm_session_worker_job_set_for_reauth (s_verification_mode s = MODE_REAUTHENTICATE)
            (scdm_session_worker_job_set_server_address (s_worker_server s) (scdm_session_worker_job_new (sv_job v)))
      in case s_conversation_environment s of None \<Rightarrow> job | Some e \<Rightarrow> scdm_session_worker_job_set_environment e job)"

definition start_conversation :: "session_world \<Rightarrow> string \<Rightarrow> session \<Rightarrow> nat option \<times> session" where
  "start_conversation v service_name s =
     (let c = s_next s; s = s\<lparr>s_next := Suc c\<rparr>
      in case scdm_session_worker_job_start (sv_job v) (''scdm-session-worker [pam/'' @ service_name @ '']'') (conversation_job v s) of
           (started, job, fx) \<Rightarrow>
             let s = semit [JobFx c fx] s
             in if \<not> started then (None, s)
                else (Some c, set_conversation c
                  \<lparr>c_service_name = service_name, c_job = Some job, c_worker_pid = scdm_session_worker_job_get_pid job,
                   c_starting_invocation = None, c_starting_username = None, c_pending_invocation = None,
                   c_manager_interface = False, c_worker_proxy = False, c_session_id = None, c_is_stopping = False,
                   c_reauth_pid_of_caller = 0, c_calls = []\<rparr> s))"

text \<open>The result of \<open>start_conversation\<close> goes into the table even when it is the null pointer, and
  the value it replaces is freed.\<close>

definition scdm_session_start_conversation :: "session_world \<Rightarrow> string \<Rightarrow> session \<Rightarrow> (bool \<times> session) option" where
  "scdm_session_start_conversation v service_name s =
     (let start = (\<lambda>s. case start_conversation v service_name s of
            (e, s) \<Rightarrow>
              let old = map_of (s_conversations s) service_name;
                  s = s\<lparr>s_conversations := AList.update service_name e (s_conversations s)\<rparr>
              in case old of None \<Rightarrow> Some (True, s) | Some x \<Rightarrow> map_option (Pair True) (free_entry x s))
      in case find_conversation_by_name s service_name of
           None \<Rightarrow> start s
         | Some c \<Rightarrow> do {
             k \<leftarrow> s_heap s c;
             if \<not> c_is_stopping k then Some (False, s)
             else do {
               job \<leftarrow> c_job k;
               start (semit [JobFx c (snd (scdm_session_worker_job_stop_now job))] (set_conversation c (k\<lparr>c_job := None\<rparr>) s))
             }
           })"

fun stop_each :: "nat option \<Rightarrow> bool \<Rightarrow> (string \<times> nat option) list \<Rightarrow> session \<Rightarrow> session option" where
  "stop_each keep now [] s = Some s"
| "stop_each keep now ((key, e) # rest) s =
     Option.bind
       (if e = keep then Some (if now then s\<lparr>s_conversations := AList.delete key (s_conversations s)\<rparr> else s)
        else (case e of None \<Rightarrow> None | Some c \<Rightarrow> if now then stop_conversation_now c s else stop_conversation c s))
       (stop_each keep now rest)"

fun free_each :: "(string \<times> nat option) list \<Rightarrow> session \<Rightarrow> session option" where
  "free_each [] s = Some s"
| "free_each ((_, e) # rest) s = Option.bind (free_entry e s) (free_each rest)"

definition stop_all_other_conversations :: "nat option \<Rightarrow> bool \<Rightarrow> session \<Rightarrow> session option" where
  "stop_all_other_conversations keep now s = do {
     s \<leftarrow> stop_each keep now (s_conversations s) s;
     if \<not> now then Some s
     else do {
       s \<leftarrow> free_each (s_conversations s) s;
       let s = s\<lparr>s_conversations := []\<rparr>;
       s \<leftarrow> (case keep of
              None \<Rightarrow> Some s
            | Some c \<Rightarrow> map_option (\<lambda>k. s\<lparr>s_conversations := [(c_service_name k, Some c)]\<rparr>) (s_heap s c));
       Some (if s_session_conversation s \<noteq> keep then s\<lparr>s_session_conversation := None\<rparr> else s)
     }
   }"

definition stop_all_conversations :: "session \<Rightarrow> session option" where
  "stop_all_conversations s = stop_all_other_conversations None True s"

text \<open>The worker of a conversation has ended. The table entry is taken out by name.\<close>

definition worker_ended :: "session_signal \<Rightarrow> nat \<Rightarrow> session \<Rightarrow> session option" where
  "worker_ended sig c s = do {
     k \<leftarrow> s_heap s c;
     let s = s\<lparr>s_conversations := AList.delete (c_service_name k) (s_conversations s)\<rparr>;
     let s = (if s_session_conversation s = Some c then (semit [Emit sig] s)\<lparr>s_session_conversation := None\<rparr> else s);
     let s = semit [Emit (CONVERSATION_STOPPED (c_service_name k))] s;
     let s = to_verifier [ConversationStopped (c_service_name k)] s;
     let s = (if c_is_stopping k then set_conversation c (k\<lparr>c_job := None\<rparr>) s else s);
     free_conversation c s
   }"

definition worker_exited :: "u32 \<Rightarrow> nat \<Rightarrow> session \<Rightarrow> session option" where
  "worker_exited code c s = worker_ended (SESSION_EXITED code) c s"

definition worker_died :: "u32 \<Rightarrow> nat \<Rightarrow> session \<Rightarrow> session option" where
  "worker_died signum c s = worker_ended (SESSION_DIED signum) c s"

text \<open>The child watch of a job, with the handlers of its signals.\<close>

definition job_child_watch :: "u32 \<Rightarrow> nat \<Rightarrow> session \<Rightarrow> session option" where
  "job_child_watch status c s = do {
     k \<leftarrow> s_heap s c;
     job \<leftarrow> c_job k;
     let (job, sigs) = session_worker_job_child_watch status job;
     let s = set_conversation c (k\<lparr>c_job := Some job\<rparr>) s;
     (case sigs of [] \<Rightarrow> Some s | sig # _ \<Rightarrow>
        (case sig of JobExited code \<Rightarrow> worker_exited code c s | JobDied signum \<Rightarrow> worker_died signum c s))
   }"

section \<open>The steps of a login\<close>

text \<open>The result of a call: the connection is gone or the call was cancelled, it worked, or it
  failed, for the service was not available or for another reason.\<close>

datatype 'r call_result = Gone | Worked 'r | CallFailed bool string

definition report_and_stop_conversation :: "string \<Rightarrow> bool \<Rightarrow> string \<Rightarrow> session \<Rightarrow> session option" where
  "report_and_stop_conversation service_name unavailable message s =
     scdm_session_stop_conversation service_name
       (to_verifier [if unavailable then VerifierServiceUnavailable service_name message
                     else VerifierProblem service_name message, VerificationFailed service_name] s)"

definition call_service :: "string \<Rightarrow> pending_call \<Rightarrow> worker_call \<Rightarrow> session \<Rightarrow> session option" where
  "call_service service_name p m s =
     (case find_conversation_by_name s service_name of None \<Rightarrow> Some s | Some c \<Rightarrow> call_worker c (Some p) m s)"

definition scdm_session_authenticate :: "string \<Rightarrow> session \<Rightarrow> session option" where
  "scdm_session_authenticate service_name s = call_service service_name AuthenticateCall CallAuthenticate s"

definition scdm_session_authorize :: "string \<Rightarrow> session \<Rightarrow> session option" where
  "scdm_session_authorize service_name s = call_service service_name AuthorizeCall CallAuthorize s"

definition scdm_session_accredit :: "string \<Rightarrow> session \<Rightarrow> session option" where
  "scdm_session_accredit service_name s = call_service service_name EstablishCredentialsCall CallEstablishCredentials s"

definition send_display_mode :: "session_world \<Rightarrow> nat \<Rightarrow> session \<Rightarrow> session option" where
  "send_display_mode v c s =
     call_worker c None (CallSetSessionDisplayMode (scdm_session_display_mode_to_string (scdm_session_get_display_mode v s))) s"

definition send_session_type :: "nat \<Rightarrow> session \<Rightarrow> session option" where
  "send_session_type c s =
     call_worker c None (CallSetEnvironmentVariable ''XDG_SESSION_TYPE''
       (case s_session_type s of None \<Rightarrow> ''x11'' | Some t \<Rightarrow> t)) s"

definition scdm_session_open_session :: "session_world \<Rightarrow> string \<Rightarrow> session \<Rightarrow> session option" where
  "scdm_session_open_session v service_name s =
     (case find_conversation_by_name s service_name of
        None \<Rightarrow> Some s
      | Some c \<Rightarrow> do {
          s \<leftarrow> send_display_mode v c s;
          s \<leftarrow> send_session_type c s;
          call_worker c (Some OpenCall) CallOpen s
        })"

definition on_authenticate_cb :: "nat \<Rightarrow> unit call_result \<Rightarrow> session \<Rightarrow> session option" where
  "on_authenticate_cb c res s =
     (case res of
        Gone \<Rightarrow> Some s
      | Worked _ \<Rightarrow> Option.bind (s_heap s c) (\<lambda>k. scdm_session_authorize (c_service_name k) s)
      | CallFailed unavailable message \<Rightarrow>
          Option.bind (s_heap s c) (\<lambda>k.
            report_and_stop_conversation (c_service_name k) unavailable message
              (semit [Emit (AUTHENTICATION_FAILED (c_service_name k) (c_worker_pid k))] s)))"

definition on_authorize_cb :: "nat \<Rightarrow> unit call_result \<Rightarrow> session \<Rightarrow> session option" where
  "on_authorize_cb c res s =
     (case res of
        Gone \<Rightarrow> Some s
      | Worked _ \<Rightarrow> Option.bind (s_heap s c) (\<lambda>k. scdm_session_accredit (c_service_name k) s)
      | CallFailed unavailable message \<Rightarrow>
          Option.bind (s_heap s c) (\<lambda>k. report_and_stop_conversation (c_service_name k) unavailable message s))"

text \<open>To be told of the verification, a client has to be connected.\<close>

definition announce_verification :: "string \<Rightarrow> session \<Rightarrow> session" where
  "announce_verification service_name s =
     (if s_user_verifier s
      then semit [Emit (VERIFICATION_COMPLETE service_name)] (to_verifier [VerificationComplete service_name] s) else s)"

definition on_establish_credentials_cb :: "session_world \<Rightarrow> nat \<Rightarrow> unit call_result \<Rightarrow> session \<Rightarrow> session option" where
  "on_establish_credentials_cb v c res s =
     (case res of
        Gone \<Rightarrow> Some s
      | Worked _ \<Rightarrow>
          Option.bind (s_heap s c) (\<lambda>k.
            let s = announce_verification (c_service_name k) s
            in if s_verification_mode s = MODE_REAUTHENTICATE then Some s
               else scdm_session_open_session v (c_service_name k) s)
      | CallFailed unavailable message \<Rightarrow>
          Option.bind (s_heap s c) (\<lambda>k. report_and_stop_conversation (c_service_name k) unavailable message s))"

definition on_opened :: "nat \<Rightarrow> string call_result \<Rightarrow> session \<Rightarrow> session option" where
  "on_opened c res s =
     (case res of
        Gone \<Rightarrow> Some s
      | Worked session_id \<Rightarrow>
          Option.bind (s_heap s c) (\<lambda>k.
            let name = c_service_name k;
                s = set_conversation c (k\<lparr>c_session_id := Some session_id\<rparr>) s;
                s = announce_verification name (to_greeter [GreeterSessionOpened name] s)
            in Some (semit [Emit (SESSION_OPENED name session_id)] s))
      | CallFailed unavailable message \<Rightarrow>
          Option.bind (s_heap s c) (\<lambda>k.
            map_option (semit [Emit (SESSION_START_FAILED (c_service_name k) message)])
              (report_and_stop_conversation (c_service_name k) unavailable message s)))"

definition on_start_program_cb :: "nat \<Rightarrow> int call_result \<Rightarrow> session \<Rightarrow> session option" where
  "on_start_program_cb c res s =
     (case res of
        Gone \<Rightarrow> Some s
      | Worked pid \<Rightarrow>
          Option.bind (s_heap s c) (\<lambda>k.
            Some (semit [Emit (SESSION_STARTED (c_service_name k) pid)]
                    (s\<lparr>s_session_pid := pid, s_session_conversation := Some c\<rparr>)))
      | CallFailed unavailable message \<Rightarrow>
          Option.bind (s_heap s c) (\<lambda>k.
            map_option (semit [Emit (SESSION_START_FAILED (c_service_name k) message)])
              (scdm_session_stop_conversation (c_service_name k) s)))"

definition on_reauthentication_started_cb :: "nat \<Rightarrow> string call_result \<Rightarrow> session \<Rightarrow> session option" where
  "on_reauthentication_started_cb c res s =
     (case res of
        Gone \<Rightarrow> Some s
      | _ \<Rightarrow>
          Option.bind (s_heap s c) (\<lambda>k.
            Some (set_conversation c (k\<lparr>c_reauth_pid_of_caller := 0\<rparr>)
              (case res of
                 Worked address \<Rightarrow> semit [Emit (REAUTHENTICATION_STARTED (c_reauth_pid_of_caller k) address)] s
               | _ \<Rightarrow> s))))"

definition on_initialization_complete_cb :: "nat \<Rightarrow> unit call_result \<Rightarrow> session \<Rightarrow> session option" where
  "on_initialization_complete_cb c res s =
     (case res of
        Gone \<Rightarrow> Some s
      | _ \<Rightarrow> do {
          k \<leftarrow> s_heap s c;
          let respond = (\<lambda>r s. case c_starting_invocation k of None \<Rightarrow> s | Some i \<Rightarrow> semit [Respond i r] s);
          s \<leftarrow> (case res of
                 CallFailed unavailable message \<Rightarrow>
                   report_and_stop_conversation (c_service_name k) unavailable message
                     (respond (ErrorReply (FromWorker unavailable message)) s)
               | _ \<Rightarrow>
                   scdm_session_authenticate (c_service_name k)
                     (semit [Emit (SETUP_COMPLETE (c_service_name k))] (respond Returned s)));
          k \<leftarrow> s_heap s c;
          Some (set_conversation c (k\<lparr>c_starting_invocation := None\<rparr>) s)
        })"

section \<open>Set-up\<close>

definition detail :: "string \<Rightarrow> string option \<Rightarrow> (string \<times> variant) list" where
  "detail key val = (case val of None \<Rightarrow> [] | Some x \<Rightarrow> [(key, VString x)])"

definition initialize_details :: "string \<Rightarrow> string option \<Rightarrow> string option \<Rightarrow> session \<Rightarrow> (string \<times> variant) list" where
  "initialize_details service_name username log_file s =
     [(''service'', VString service_name), (''extensions'', VStrv (s_user_verifier_extensions s))] @
     detail ''username'' username @ detail ''log-file'' log_file @
     (if s_is_program_session s then [(''is-program-session'', VBool True)] else []) @
     detail ''x11-display-name'' (s_display_name s) @ detail ''hostname'' (s_display_hostname s) @
     (if s_display_is_local s then [(''display-is-local'', VBool True)] else []) @
     (if s_display_is_initial s then [(''display-is-initial'', VBool True)] else []) @
     detail ''console'' (s_display_device s) @ detail ''seat-id'' (s_display_seat_id s) @
     detail ''x11-authority-file'' (s_display_x11_authority_file s)"

definition initialize :: "string \<Rightarrow> string option \<Rightarrow> string option \<Rightarrow> session \<Rightarrow> session option" where
  "initialize service_name username log_file s =
     call_service service_name InitializeCall (CallInitialize (initialize_details service_name username log_file s)) s"

definition scdm_session_setup :: "session_world \<Rightarrow> string \<Rightarrow> session \<Rightarrow> session option" where
  "scdm_session_setup v service_name s = do {
     s \<leftarrow> update_session_type v s;
     s \<leftarrow> initialize service_name None None s;
     scdm_session_defaults_changed v s
   }"

definition scdm_session_setup_for_user :: "session_world \<Rightarrow> string \<Rightarrow> string \<Rightarrow> session \<Rightarrow> session option" where
  "scdm_session_setup_for_user v service_name username s = do {
     s \<leftarrow> update_session_type v s;
     let s = (scdm_session_select_user (Some username) s)\<lparr>s_is_program_session := False\<rparr>;
     s \<leftarrow> initialize service_name (s_selected_user s) None s;
     scdm_session_defaults_changed v s
   }"

definition scdm_session_setup_for_program ::
  "string \<Rightarrow> string option \<Rightarrow> string option \<Rightarrow> session \<Rightarrow> session option" where
  "scdm_session_setup_for_program service_name username log_file s =
     initialize service_name username log_file (s\<lparr>s_is_program_session := True\<rparr>)"

section \<open>Start of the session\<close>

fun send_variables :: "(string \<times> string) list \<Rightarrow> nat \<Rightarrow> session \<Rightarrow> session option" where
  "send_variables [] c s = Some s"
| "send_variables ((key, x) # rest) c s =
     Option.bind (call_worker c None (CallSetEnvironmentVariable key x) s) (send_variables rest c)"

definition send_environment :: "nat \<Rightarrow> session \<Rightarrow> session option" where
  "send_environment c s = send_variables (s_environment s) c s"

definition scdm_session_send_environment :: "string \<Rightarrow> session \<Rightarrow> session option" where
  "scdm_session_send_environment service_name s =
     (case find_conversation_by_name s service_name of None \<Rightarrow> Some s | Some c \<Rightarrow> send_environment c s)"

definition scdm_session_start_session :: "session_world \<Rightarrow> string \<Rightarrow> session \<Rightarrow> session option" where
  "scdm_session_start_session v service_name s =
     (if s_session_conversation s \<noteq> None then Some s
      else case find_conversation_by_name s service_name of
        None \<Rightarrow> Some s
      | Some c \<Rightarrow> do {
          s \<leftarrow> stop_all_other_conversations (Some c) False s;
          let display_mode = scdm_session_get_display_mode v s;
          let is_x11 = (if sv_wayland_support v then s_session_type s \<noteq> Some ''wayland'' else True);
          let run_launcher = (display_mode = LOGIND_MANAGED \<or> display_mode = NEW_VT);
          (registers, s) \<leftarrow> scdm_session_session_registers v s;
          let register_session = (\<not> registers);
          (program, s) \<leftarrow>
            (case s_selected_program s of
               None \<Rightarrow> do {
                 (command, s) \<leftarrow> get_session_command v s;
                 (bypasses, s) \<leftarrow> scdm_session_bypasses_xsession v s;
                 let allow_remote_connections =
                   (if s_display_is_local s then \<not> (case sv_disallow_tcp v of None \<Rightarrow> True | Some b \<Rightarrow> b) else True);
                 Some (session_program v run_launcher is_x11 register_session (\<not> bypasses) allow_remote_connections command, s)
               }
             | Some p \<Rightarrow> Some (greeter_program v run_launcher is_x11 register_session p, s));
          s \<leftarrow> set_up_session_environment v s;
          s \<leftarrow> send_environment c s;
          call_worker c (Some StartProgramCall) (CallStartProgram program) s
        })"

definition scdm_session_start_reauthentication :: "int \<Rightarrow> u32 \<Rightarrow> session \<Rightarrow> session option" where
  "scdm_session_start_reauthentication pid_of_caller uid_of_caller s =
     (case s_session_conversation s of
        None \<Rightarrow> Some s
      | Some c \<Rightarrow> do {
          k \<leftarrow> s_heap s c;
          call_worker c (Some StartReauthenticationCall) (CallStartReauthentication pid_of_caller uid_of_caller)
            (set_conversation c (k\<lparr>c_reauth_pid_of_caller := pid_of_caller\<rparr>) s)
        })"

section \<open>Reset and end\<close>

definition do_reset :: "session \<Rightarrow> session option" where
  "do_reset s =
     map_option (\<lambda>s. s\<lparr>s_pending_worker_connections := [], s_selected_user := None, s_selected_session := None,
         s_saved_session := None, s_saved_language := None, s_user_x11_authority_file := None, s_environment := [],
         s_session_pid := -1, s_session_conversation := None\<rparr>)
       (stop_all_conversations s)"

definition scdm_session_close :: "session \<Rightarrow> session option" where
  "scdm_session_close s = map_option (\<lambda>s. s\<lparr>s_outside_connections := []\<rparr>) (do_reset s)"

definition scdm_session_reset :: "session \<Rightarrow> session option" where
  "scdm_session_reset s = do_reset (to_verifier [VerifierReset] s)"

definition scdm_session_get_session_id :: "session \<Rightarrow> string option option" where
  "scdm_session_get_session_id s =
     (case s_session_conversation s of None \<Rightarrow> Some None | Some c \<Rightarrow> map_option c_session_id (s_heap s c))"

definition scdm_session_get_conversation_session_id :: "string \<Rightarrow> session \<Rightarrow> string option option" where
  "scdm_session_get_conversation_session_id service_name s =
     (case find_conversation_by_name s service_name of None \<Rightarrow> Some None | Some c \<Rightarrow> map_option c_session_id (s_heap s c))"

definition scdm_session_is_running :: "session \<Rightarrow> bool" where
  "scdm_session_is_running s \<longleftrightarrow> s_session_pid s > 0"

end
