(* ===== verification/Session_Handlers.thy ===== *)
theory Session_Handlers
  imports Session_Conversations
begin

text \<open>
  Sessions, third part: what workers and clients ask for over D-Bus, of
  \<open>src/daemon/scdm-session.c\<close>, the operations the rest of the daemon calls, and all steps of a
  session. Invocations and connections are numbers. A handler that returns false leaves the
  method unknown to its caller.
\<close>

section \<open>Requests of workers\<close>

text \<open>The assertion that no query is pending.\<close>

definition set_pending_query :: "nat \<Rightarrow> nat \<Rightarrow> session \<Rightarrow> session option" where
  "set_pending_query c message s = do {
     k \<leftarrow> s_heap s c;
     if c_pending_invocation k \<noteq> None then None
     else Some (set_conversation c (k\<lparr>c_pending_invocation := Some message\<rparr>) s)
   }"

definition answer_pending_query :: "nat \<Rightarrow> string \<Rightarrow> session \<Rightarrow> session option" where
  "answer_pending_query c reply s = do {
     k \<leftarrow> s_heap s c;
     Some ((case c_pending_invocation k of None \<Rightarrow> \<lambda>s. s | Some i \<Rightarrow> semit [Respond i (Answered reply)])
             (set_conversation c (k\<lparr>c_pending_invocation := None\<rparr>) s))
   }"

definition cancel_pending_query :: "nat \<Rightarrow> session \<Rightarrow> session option" where
  "cancel_pending_query c s = do {
     k \<leftarrow> s_heap s c;
     (case c_pending_invocation k of
        None \<Rightarrow> Some s
      | Some i \<Rightarrow> Some (semit [Respond i (ErrorReply QueryCancelled)] (set_conversation c (k\<lparr>c_pending_invocation := None\<rparr>) s)))
   }"

definition worker_on_cancel_pending_query :: "nat \<Rightarrow> session \<Rightarrow> session option" where
  "worker_on_cancel_pending_query c s = cancel_pending_query c s"

definition choice_list_interface :: string where
  "choice_list_interface = ''io.github.scarecrow_de.DisplayManager.UserVerifier.ChoiceList''"

definition scdm_session_handle_choice_list_query ::
  "nat \<Rightarrow> string \<Rightarrow> string \<Rightarrow> (string \<times> string) list \<Rightarrow> session \<Rightarrow> session option" where
  "scdm_session_handle_choice_list_query i service_name prompt_message query s =
     (if choice_list_interface \<notin> set (s_user_verifier_extensions s)
      then Some (semit [Respond i (ErrorReply NotSupported)] s)
      else case find_conversation_by_name s service_name of
        None \<Rightarrow> Some s
      | Some c \<Rightarrow> map_option (semit [ChoiceQuery service_name prompt_message query]) (set_pending_query c i s))"

definition scdm_session_handle_info_query :: "nat \<Rightarrow> string \<Rightarrow> string \<Rightarrow> session \<Rightarrow> session option" where
  "scdm_session_handle_info_query i service_name query s =
     (if \<not> s_user_verifier s then Some (semit [Respond i (ErrorReply UnknownMethod)] s)
      else case find_conversation_by_name s service_name of
        None \<Rightarrow> Some s
      | Some c \<Rightarrow> map_option (to_verifier [VerifierInfoQuery service_name query]) (set_pending_query c i s))"

definition scdm_session_handle_secret_info_query :: "nat \<Rightarrow> string \<Rightarrow> string \<Rightarrow> session \<Rightarrow> session option" where
  "scdm_session_handle_secret_info_query i service_name query s =
     (if \<not> s_user_verifier s then Some (semit [Respond i (ErrorReply UnknownMethod)] s)
      else case find_conversation_by_name s service_name of
        None \<Rightarrow> Some s
      | Some c \<Rightarrow> map_option (to_verifier [VerifierSecretInfoQuery service_name query]) (set_pending_query c i s))"

definition scdm_session_handle_info :: "nat \<Rightarrow> string \<Rightarrow> string \<Rightarrow> session \<Rightarrow> session" where
  "scdm_session_handle_info i service_name info s = to_verifier [VerifierInfo service_name info] (semit [Respond i Returned] s)"

definition scdm_session_handle_problem :: "nat \<Rightarrow> string \<Rightarrow> string \<Rightarrow> session \<Rightarrow> session" where
  "scdm_session_handle_problem i service_name problem s =
     to_verifier [VerifierProblem service_name problem] (semit [Respond i Returned] s)"

definition worker_on_username_changed :: "session_world \<Rightarrow> string \<Rightarrow> session \<Rightarrow> session option" where
  "worker_on_username_changed v username s =
     scdm_session_defaults_changed v (scdm_session_select_user (if username \<noteq> [] then Some username else None) s)"

definition worker_on_session_exited :: "u32 \<Rightarrow> session \<Rightarrow> session" where
  "worker_on_session_exited status s =
     semit (if wifexited status then [Emit (SESSION_EXITED (wexitstatus status))]
            else if wifsignaled status then [Emit (SESSION_DIED (wtermsig status))] else [])
       (s\<lparr>s_session_conversation := None\<rparr>)"

definition worker_on_reauthenticated :: "string \<Rightarrow> session \<Rightarrow> session" where
  "worker_on_reauthenticated service_name s = semit [Emit (REAUTHENTICATED service_name)] s"

definition worker_on_saved_language_name_read :: "string \<Rightarrow> session \<Rightarrow> session" where
  "worker_on_saved_language_name_read language_name s =
     (if language_name \<noteq> []
      then to_greeter [DefaultLanguageNameChanged (Some language_name)] (s\<lparr>s_saved_language := Some language_name\<rparr>) else s)"

definition worker_on_saved_session_name_read :: "session_world \<Rightarrow> string \<Rightarrow> session \<Rightarrow> session option" where
  "worker_on_saved_session_name_read v session_name s = do {
     s \<leftarrow> (if get_session_command_for_name v s session_name = None then Some (s\<lparr>s_saved_session := None\<rparr>)
          else do {
            (name, s) \<leftarrow> get_default_session_name v s;
            Some (if session_name \<noteq> name
                  then to_greeter [DefaultSessionNameChanged session_name] (s\<lparr>s_saved_session := Some session_name\<rparr>)
                  else s)
          });
     update_session_type v s
   }"

section \<open>Connections of workers\<close>

definition allow_worker_function :: "u32 \<Rightarrow> session \<Rightarrow> bool" where
  "allow_worker_function connecting_user s \<longleftrightarrow> connecting_user = 0 \<or> connecting_user = s_allowed_user s"

definition handle_connection_from_worker :: "nat \<Rightarrow> session \<Rightarrow> session" where
  "handle_connection_from_worker connection s =
     s\<lparr>s_pending_worker_connections := connection # s_pending_worker_connections s\<rparr>"

definition on_worker_connection_closed :: "nat \<Rightarrow> session \<Rightarrow> session" where
  "on_worker_connection_closed connection s =
     s\<lparr>s_pending_worker_connections := remove1 connection (s_pending_worker_connections s)\<rparr>"

definition register_worker :: "session_world \<Rightarrow> nat \<Rightarrow> nat \<Rightarrow> int \<Rightarrow> session \<Rightarrow> session option" where
  "register_worker v i connection pid s =
     (if connection \<notin> set (s_pending_worker_connections s) then Some (semit [Respond i (ErrorReply UnknownMethod)] s)
      else do {
        let s = s\<lparr>s_pending_worker_connections := remove1 connection (s_pending_worker_connections s)\<rparr>;
        found \<leftarrow> find_conversation_by_pid s pid;
        (case found of
           None \<Rightarrow> Some (semit [Respond i (ErrorReply AccessDenied), CloseConnection connection] s)
         | Some c \<Rightarrow> do {
             k \<leftarrow> s_heap s c;
             let s = set_conversation c (k\<lparr>c_worker_proxy := True, c_manager_interface := True\<rparr>) (semit [Respond i Returned] s);
             let s = semit [Emit (CONVERSATION_STARTED (c_service_name k))] s;
             let s = to_verifier [ConversationStarted (c_service_name k)] s;
             if c_starting_invocation k = None then Some s
             else (case c_starting_username k of
                     None \<Rightarrow> scdm_session_setup v (c_service_name k) s
                   | Some username \<Rightarrow> do {
                       s \<leftarrow> scdm_session_setup_for_user v (c_service_name k) username s;
                       k \<leftarrow> s_heap s c;
                       Some (set_conversation c (k\<lparr>c_starting_username := None\<rparr>) s)
                     })
           })
      })"

section \<open>Requests of clients\<close>

definition begin_verification_conversation ::
  "session_world \<Rightarrow> nat \<Rightarrow> string \<Rightarrow> session \<Rightarrow> (nat option \<times> session) option" where
  "begin_verification_conversation v i service_name s = do {
     (started, s) \<leftarrow> scdm_session_start_conversation v service_name s;
     let c = (if started then find_conversation_by_name s service_name else None);
     Some (c, if c = None then semit [Respond i (ErrorReply SpawnFailed)] s else s)
   }"

definition begin_verification :: "session_world \<Rightarrow> nat \<Rightarrow> string \<Rightarrow> string option \<Rightarrow> session \<Rightarrow> session option" where
  "begin_verification v i service_name username s = do {
     (found, s) \<leftarrow> begin_verification_conversation v i service_name s;
     (case found of
        None \<Rightarrow> Some s
      | Some c \<Rightarrow>
          map_option (\<lambda>k. set_conversation c (k\<lparr>c_starting_invocation := Some i, c_starting_username := username\<rparr>) s) (s_heap s c))
   }"

definition scdm_session_handle_client_begin_verification ::
  "session_world \<Rightarrow> nat \<Rightarrow> string \<Rightarrow> session \<Rightarrow> session option" where
  "scdm_session_handle_client_begin_verification v i service_name s = begin_verification v i service_name None s"

definition scdm_session_handle_client_begin_verification_for_user ::
  "session_world \<Rightarrow> nat \<Rightarrow> string \<Rightarrow> string \<Rightarrow> session \<Rightarrow> session option" where
  "scdm_session_handle_client_begin_verification_for_user v i service_name username s =
     begin_verification v i service_name (Some username) s"

definition scdm_session_answer_query :: "string \<Rightarrow> string \<Rightarrow> session \<Rightarrow> session option" where
  "scdm_session_answer_query service_name text s =
     (case find_conversation_by_name s service_name of None \<Rightarrow> Some s | Some c \<Rightarrow> answer_pending_query c text s)"

definition scdm_session_handle_client_answer_query :: "nat \<Rightarrow> string \<Rightarrow> string \<Rightarrow> session \<Rightarrow> session option" where
  "scdm_session_handle_client_answer_query i service_name reply s =
     scdm_session_answer_query service_name reply (semit [Respond i Returned] s)"

definition scdm_session_handle_client_select_choice :: "nat \<Rightarrow> string \<Rightarrow> string \<Rightarrow> session \<Rightarrow> session option" where
  "scdm_session_handle_client_select_choice i service_name reply s =
     scdm_session_answer_query service_name reply (semit [Respond i Returned] s)"

definition scdm_session_cancel :: "session \<Rightarrow> session" where
  "scdm_session_cancel s = semit [Emit CANCELLED] s"

definition scdm_session_handle_client_cancel :: "nat \<Rightarrow> session \<Rightarrow> session" where
  "scdm_session_handle_client_cancel i s = scdm_session_cancel (semit [Respond i Returned] s)"

text \<open>Of all extensions only the list of choices is known.\<close>

definition scdm_session_handle_client_enable_extensions :: "nat \<Rightarrow> string list \<Rightarrow> session \<Rightarrow> session" where
  "scdm_session_handle_client_enable_extensions i extensions s =
     semit [Respond i Returned]
       (s\<lparr>s_user_verifier_extensions :=
           (if choice_list_interface \<in> set extensions then [choice_list_interface] else [])\<rparr>)"

text \<open>The requests of a greeter are refused once the session runs.\<close>

definition unless_running :: "nat \<Rightarrow> (session \<Rightarrow> session option) \<Rightarrow> session \<Rightarrow> session option" where
  "unless_running i f s =
     (if scdm_session_is_running s then Some (semit [Respond i (ErrorReply (AlreadyRunning (s_selected_user s)))] s) else f s)"

definition complete_greeter :: "nat \<Rightarrow> client_reply \<Rightarrow> session \<Rightarrow> session" where
  "complete_greeter i r s = (if s_greeter s then semit [Respond i r] s else s)"

fun tell_session_name :: "session_world \<Rightarrow> (string \<times> nat option) list \<Rightarrow> session \<Rightarrow> session option" where
  "tell_session_name v [] s = Some s"
| "tell_session_name v ((_, None) # rest) s = None"
| "tell_session_name v ((_, Some c) # rest) s = do {
     (name, s) \<leftarrow> get_session_name v s;
     s \<leftarrow> call_worker c None (CallSetSessionName name) s;
     tell_session_name v rest s
   }"

definition scdm_session_select_session :: "session_world \<Rightarrow> string \<Rightarrow> session \<Rightarrow> session option" where
  "scdm_session_select_session v text s = do {
     s \<leftarrow> update_session_type v (s\<lparr>s_selected_session := Some text\<rparr>);
     tell_session_name v (s_conversations s) s
   }"

definition scdm_session_handle_client_select_session :: "session_world \<Rightarrow> nat \<Rightarrow> string \<Rightarrow> session \<Rightarrow> session option" where
  "scdm_session_handle_client_select_session v i name s =
     unless_running i (\<lambda>s. scdm_session_select_session v name (complete_greeter i Returned s)) s"

definition scdm_session_handle_client_select_user :: "nat \<Rightarrow> string \<Rightarrow> session \<Rightarrow> session option" where
  "scdm_session_handle_client_select_user i username s =
     unless_running i (\<lambda>s. Some (scdm_session_select_user (Some username) (complete_greeter i Returned s))) s"

definition scdm_session_handle_client_start_session_when_ready :: "nat \<Rightarrow> string \<Rightarrow> bool \<Rightarrow> session \<Rightarrow> session option" where
  "scdm_session_handle_client_start_session_when_ready i service_name client_is_ready s =
     unless_running i (\<lambda>s.
       Some (semit [Emit (CLIENT_READY_FOR_SESSION_TO_START service_name client_is_ready)] (complete_greeter i Returned s))) s"

definition scdm_session_handle_get_timed_login_details :: "nat \<Rightarrow> session \<Rightarrow> session option" where
  "scdm_session_handle_get_timed_login_details i s =
     unless_running i (\<lambda>s. Some
       (let user = s_timed_login_username s;
            s = complete_greeter i (TimedLoginDetails (user \<noteq> None) (case user of None \<Rightarrow> [] | Some u \<Rightarrow> u) (s_timed_login_delay s)) s
        in case user of None \<Rightarrow> s | Some u \<Rightarrow> to_greeter [TimedLoginRequested u (s_timed_login_delay s)] s)) s"

definition scdm_session_handle_client_begin_auto_login :: "session_world \<Rightarrow> nat \<Rightarrow> string \<Rightarrow> session \<Rightarrow> session option" where
  "scdm_session_handle_client_begin_auto_login v i username s =
     unless_running i (\<lambda>s. scdm_session_setup_for_user v ''scdm-autologin'' username (complete_greeter i Returned s)) s"

definition scdm_session_handle_client_disconnect :: "nat \<Rightarrow> session \<Rightarrow> session" where
  "scdm_session_handle_client_disconnect i s = semit [Respond i Returned, Emit DISCONNECTED] s"

definition scdm_session_handle_client_select_hostname :: "nat \<Rightarrow> string \<Rightarrow> session \<Rightarrow> session" where
  "scdm_session_handle_client_select_hostname i hostname s = semit [Respond i Returned, Emit (HOSTNAME_SELECTED hostname)] s"

section \<open>Connections of clients\<close>

definition allow_user_function :: "u32 \<Rightarrow> int \<Rightarrow> session \<Rightarrow> bool \<times> session" where
  "allow_user_function client_uid pid_of_client s =
     (if client_uid = s_allowed_user s then (True, s) else (False, semit [Emit (CLIENT_REJECTED pid_of_client)] s))"

definition handle_connection_from_outside :: "nat \<Rightarrow> int \<Rightarrow> session \<Rightarrow> session" where
  "handle_connection_from_outside connection pid_of_client s =
     semit [Emit (CLIENT_CONNECTED pid_of_client)]
       (s\<lparr>s_outside_connections := connection # s_outside_connections s, s_user_verifier := True,
          s_greeter := (s_greeter s \<or> s_verification_mode s = MODE_LOGIN),
          s_chooser := (s_chooser s \<or> s_verification_mode s = MODE_CHOOSER),
          s_remote_greeter := (s_remote_greeter s \<or> \<not> s_display_is_local s)\<rparr>)"

definition on_outside_connection_closed :: "nat \<Rightarrow> int \<Rightarrow> session \<Rightarrow> session" where
  "on_outside_connection_closed connection pid_of_client s =
     semit [Emit (CLIENT_DISCONNECTED pid_of_client)]
       (s\<lparr>s_outside_connections := remove1 connection (s_outside_connections s)\<rparr>)"

definition scdm_session_client_is_connected :: "session \<Rightarrow> bool" where
  "scdm_session_client_is_connected s \<longleftrightarrow> s_outside_connections s \<noteq> []"

definition scdm_session_set_timed_login_details :: "string option \<Rightarrow> int \<Rightarrow> session \<Rightarrow> session" where
  "scdm_session_set_timed_login_details username delay s =
     s\<lparr>s_timed_login_username := username, s_timed_login_delay := delay\<rparr>"

definition scdm_session_set_ignore_wayland :: "bool \<Rightarrow> session \<Rightarrow> session" where
  "scdm_session_set_ignore_wayland ignore_wayland s = s\<lparr>s_ignore_wayland := ignore_wayland\<rparr>"

section \<open>The new session\<close>

definition scdm_session_new ::
  "verification_mode \<Rightarrow> u32 \<Rightarrow> string option \<Rightarrow> string option \<Rightarrow> string option \<Rightarrow> string option \<Rightarrow> string option \<Rightarrow>
   bool \<Rightarrow> string list option \<Rightarrow> string option \<Rightarrow> session" where
  "scdm_session_new verification_mode allowed_user display_name display_hostname display_device display_seat_id
     display_x11_authority_file display_is_local environment worker_server =
     \<lparr>s_selected_program = None, s_selected_session = None, s_saved_session = None, s_saved_language = None,
      s_selected_user = None, s_user_x11_authority_file = None, s_timed_login_username = None, s_timed_login_delay = 0,
      s_conversations = [], s_session_conversation = None, s_conversation_environment = environment,
      s_user_verifier = False, s_user_verifier_extensions = [], s_greeter = False, s_remote_greeter = False,
      s_chooser = False, s_pending_worker_connections = [], s_outside_connections = [], s_session_pid = 0,
      s_session_type = None, s_display_name = display_name, s_display_hostname = display_hostname,
      s_display_device = display_device, s_display_seat_id = display_seat_id,
      s_display_x11_authority_file = display_x11_authority_file, s_display_is_local = display_is_local,
      s_verification_mode = verification_mode, s_allowed_user = allowed_user, s_fallback_session_name = None,
      s_worker_server = worker_server, s_environment = [], s_is_program_session = False, s_display_is_initial = False,
      s_ignore_wayland = False, s_heap = (\<lambda>_. None), s_next = 0, s_log = []\<rparr>"

section \<open>Steps\<close>

text \<open>A callback takes its call off the outstanding ones. What the reply was is the label of the step.\<close>

definition take_call :: "nat \<Rightarrow> pending_call \<Rightarrow> session \<Rightarrow> session option" where
  "take_call c p s =
     (case s_heap s c of
        None \<Rightarrow> None
      | Some k \<Rightarrow> if p \<in> set (c_calls k) then Some (set_conversation c (k\<lparr>c_calls := remove1 p (c_calls k)\<rparr>) s) else None)"

datatype session_event = Reply_to nat pending_call bool | Other_event

definition worked :: "'r call_result \<Rightarrow> bool" where
  "worked r = (case r of Worked _ \<Rightarrow> True | _ \<Rightarrow> False)"

text \<open>The signals of a worker reach a conversation that has a proxy; a child watch belongs to a running
  job; the other requests come from any connection.\<close>

definition has_proxy :: "nat \<Rightarrow> session \<Rightarrow> bool" where
  "has_proxy c s = (case s_heap s c of None \<Rightarrow> False | Some k \<Rightarrow> c_worker_proxy k)"

definition has_job :: "nat \<Rightarrow> session \<Rightarrow> bool" where
  "has_job c s = (case s_heap s c of None \<Rightarrow> False
     | Some k \<Rightarrow> (case c_job k of None \<Rightarrow> False | Some j \<Rightarrow> wj_child_watch j \<and> wj_pid j > 0))"

inductive session_step :: "session_event \<Rightarrow> session \<Rightarrow> session \<Rightarrow> bool" where
  initialized: "take_call c InitializeCall s = Some s1 \<Longrightarrow> on_initialization_complete_cb c r s1 = Some s' \<Longrightarrow>
     session_step (Reply_to c InitializeCall (worked r)) s s'"
| authenticated: "take_call c AuthenticateCall s = Some s1 \<Longrightarrow> on_authenticate_cb c r s1 = Some s' \<Longrightarrow>
     session_step (Reply_to c AuthenticateCall (worked r)) s s'"
| authorized: "take_call c AuthorizeCall s = Some s1 \<Longrightarrow> on_authorize_cb c r s1 = Some s' \<Longrightarrow>
     session_step (Reply_to c AuthorizeCall (worked r)) s s'"
| accredited: "take_call c EstablishCredentialsCall s = Some s1 \<Longrightarrow> on_establish_credentials_cb v c r s1 = Some s' \<Longrightarrow>
     session_step (Reply_to c EstablishCredentialsCall (worked r)) s s'"
| opened: "take_call c OpenCall s = Some s1 \<Longrightarrow> on_opened c r' s1 = Some s' \<Longrightarrow>
     session_step (Reply_to c OpenCall (worked r')) s s'"
| started: "take_call c StartProgramCall s = Some s1 \<Longrightarrow> on_start_program_cb c q s1 = Some s' \<Longrightarrow>
     session_step (Reply_to c StartProgramCall (worked q)) s s'"
| reauthentication: "take_call c StartReauthenticationCall s = Some s1 \<Longrightarrow> on_reauthentication_started_cb c r' s1 = Some s' \<Longrightarrow>
     session_step (Reply_to c StartReauthenticationCall (worked r')) s s'"
| choice_list_query: "scdm_session_handle_choice_list_query i n t choices s = Some s' \<Longrightarrow> session_step Other_event s s'"
| info_query: "scdm_session_handle_info_query i n t s = Some s' \<Longrightarrow> session_step Other_event s s'"
| secret_info_query: "scdm_session_handle_secret_info_query i n t s = Some s' \<Longrightarrow> session_step Other_event s s'"
| info: "session_step Other_event s (scdm_session_handle_info i n t s)"
| problem: "session_step Other_event s (scdm_session_handle_problem i n t s)"
| cancel_query: "has_proxy c s \<Longrightarrow> worker_on_cancel_pending_query c s = Some s' \<Longrightarrow> session_step Other_event s s'"
| username: "has_proxy c s \<Longrightarrow> worker_on_username_changed v t s = Some s' \<Longrightarrow> session_step Other_event s s'"
| session_exited: "has_proxy c s \<Longrightarrow> session_step Other_event s (worker_on_session_exited status s)"
| reauthenticated: "has_proxy c s \<Longrightarrow> session_step Other_event s (worker_on_reauthenticated n s)"
| language_read: "has_proxy c s \<Longrightarrow> session_step Other_event s (worker_on_saved_language_name_read t s)"
| session_read: "has_proxy c s \<Longrightarrow> worker_on_saved_session_name_read v t s = Some s' \<Longrightarrow> session_step Other_event s s'"
| worker_connected: "allow_worker_function u s \<Longrightarrow> session_step Other_event s (handle_connection_from_worker conn s)"
| worker_closed: "session_step Other_event s (on_worker_connection_closed conn s)"
| hello: "register_worker v i conn pid s = Some s' \<Longrightarrow> session_step Other_event s s'"
| child_ended: "has_job c s \<Longrightarrow> job_child_watch status c s = Some s' \<Longrightarrow> session_step Other_event s s'"
| client_begin: "scdm_session_handle_client_begin_verification v i n s = Some s' \<Longrightarrow> session_step Other_event s s'"
| client_begin_user: "scdm_session_handle_client_begin_verification_for_user v i n u' s = Some s' \<Longrightarrow> session_step Other_event s s'"
| client_answer: "scdm_session_handle_client_answer_query i n t s = Some s' \<Longrightarrow> session_step Other_event s s'"
| client_choice: "scdm_session_handle_client_select_choice i n t s = Some s' \<Longrightarrow> session_step Other_event s s'"
| client_cancel: "session_step Other_event s (scdm_session_handle_client_cancel i s)"
| client_extensions: "session_step Other_event s (scdm_session_handle_client_enable_extensions i es s)"
| client_session: "scdm_session_handle_client_select_session v i n s = Some s' \<Longrightarrow> session_step Other_event s s'"
| client_user: "scdm_session_handle_client_select_user i n s = Some s' \<Longrightarrow> session_step Other_event s s'"
| client_ready: "scdm_session_handle_client_start_session_when_ready i n b s = Some s' \<Longrightarrow> session_step Other_event s s'"
| client_timed: "scdm_session_handle_get_timed_login_details i s = Some s' \<Longrightarrow> session_step Other_event s s'"
| client_autologin: "scdm_session_handle_client_begin_auto_login v i n s = Some s' \<Longrightarrow> session_step Other_event s s'"
| client_disconnect: "session_step Other_event s (scdm_session_handle_client_disconnect i s)"
| client_hostname: "session_step Other_event s (scdm_session_handle_client_select_hostname i n s)"
| client_allowed: "session_step Other_event s (snd (allow_user_function u pid s))"
| client_connected: "session_step Other_event s (handle_connection_from_outside conn pid s)"
| client_closed: "session_step Other_event s (on_outside_connection_closed conn pid s)"
| start_conversation: "scdm_session_start_conversation v n s = Some (b, s') \<Longrightarrow> session_step Other_event s s'"
| stop_conversation: "scdm_session_stop_conversation n s = Some s' \<Longrightarrow> session_step Other_event s s'"
| setup_plain: "scdm_session_setup v n s = Some s' \<Longrightarrow> session_step Other_event s s'"
| setup_user: "scdm_session_setup_for_user v n t s = Some s' \<Longrightarrow> session_step Other_event s s'"
| setup_program: "scdm_session_setup_for_program n u' l s = Some s' \<Longrightarrow> session_step Other_event s s'"
| set_variable: "session_step Other_event s (scdm_session_set_environment_variable n x s)"
| send_variables: "scdm_session_send_environment n s = Some s' \<Longrightarrow> session_step Other_event s s'"
| start_session: "scdm_session_start_session v n s = Some s' \<Longrightarrow> session_step Other_event s s'"
| reauthenticate: "scdm_session_start_reauthentication pid u s = Some s' \<Longrightarrow> session_step Other_event s s'"
| select_program: "session_step Other_event s (scdm_session_select_program x s)"
| select_user: "session_step Other_event s (scdm_session_select_user x s)"
| select_session: "scdm_session_select_session v n s = Some s' \<Longrightarrow> session_step Other_event s s'"
| timed_login: "session_step Other_event s (scdm_session_set_timed_login_details u' delay s)"
| reset_session: "scdm_session_reset s = Some s' \<Longrightarrow> session_step Other_event s s'"
| close_session: "scdm_session_close s = Some s' \<Longrightarrow> session_step Other_event s s'"

inductive_cases session_stepE: "session_step ev s s'"

text \<open>The events of a run, the last one first.\<close>

inductive session_run :: "session \<Rightarrow> session_event list \<Rightarrow> session \<Rightarrow> bool" for s0 where
  run_Nil: "session_run s0 [] s0"
| run_step: "session_run s0 evs s \<Longrightarrow> session_step ev s s' \<Longrightarrow> session_run s0 (ev # evs) s'"

end
