(* ===== verification/Session_Facts.thy ===== *)
theory Session_Facts
  imports Session_Handlers
begin

text \<open>
  The reachable sessions. Every operation either leaves the table of conversations alone, or
  changes it together with the heap, so that the two agree (\<open>table_ok\<close>). Every call to a worker
  that belongs to a login is made only after the replies it depends on (\<open>in_order\<close>): the relation
  \<open>calls_within\<close> bounds the calls an operation may add, and most operations add none of them.
\<close>

section \<open>The table and the heap\<close>

definition table_ok :: "session \<Rightarrow> bool" where
  "table_ok s \<longleftrightarrow>
     distinct (map fst (s_conversations s)) \<and>
     (\<forall>n c. (n, Some c) \<in> set (s_conversations s) \<longrightarrow> (\<exists>k. s_heap s c = Some k \<and> c_service_name k = n)) \<and>
     (\<forall>c k. s_heap s c = Some k \<longrightarrow>
        map_of (s_conversations s) (c_service_name k) = Some (Some c) \<and> c_job k \<noteq> None \<and> c < s_next s)"

lemma table_ok_map:
  "table_ok s \<Longrightarrow> s_heap s c = Some k \<Longrightarrow> map_of (s_conversations s) (c_service_name k) = Some (Some c)"
  unfolding table_ok_def by blast

lemma table_ok_find: "table_ok s \<Longrightarrow> s_heap s c = Some k \<Longrightarrow> find_conversation_by_name s (c_service_name k) = Some c"
  by (simp add: find_conversation_by_name_def table_ok_map)

definition same_table :: "session \<Rightarrow> session \<Rightarrow> bool" where
  "same_table s s' \<longleftrightarrow>
     s_conversations s' = s_conversations s \<and> s_next s' = s_next s \<and>
     (\<forall>c. map_option c_service_name (s_heap s' c) = map_option c_service_name (s_heap s c)) \<and>
     (\<forall>c k k'. s_heap s c = Some k \<longrightarrow> s_heap s' c = Some k' \<longrightarrow> c_job k \<noteq> None \<longrightarrow> c_job k' \<noteq> None)"

lemma same_table_refl [simp]: "same_table s s"
  by (simp add: same_table_def)

lemma same_table_trans: "same_table s s1 \<Longrightarrow> same_table s1 s2 \<Longrightarrow> same_table s s2"
  unfolding same_table_def by (metis map_option_eq_Some not_None_eq option.simps(8))

lemma same_table_heap:
  assumes "same_table s s'" and "s_heap s' c = Some k'"
  shows "\<exists>k. s_heap s c = Some k \<and> c_service_name k' = c_service_name k \<and> (c_job k \<noteq> None \<longrightarrow> c_job k' \<noteq> None)"
proof -
  have "map_option c_service_name (s_heap s c) = Some (c_service_name k')"
    using assms unfolding same_table_def by (metis option.simps(9))
  then obtain k where "s_heap s c = Some k" "c_service_name k = c_service_name k'" by auto
  then show ?thesis using assms unfolding same_table_def by metis
qed

lemma same_table_heap': "same_table s s' \<Longrightarrow> s_heap s c = Some k \<Longrightarrow> \<exists>k'. s_heap s' c = Some k' \<and> c_service_name k' = c_service_name k"
  unfolding same_table_def by (metis map_option_eq_Some)

lemma same_table_ok:
  assumes "same_table s s'" and "table_ok s"
  shows "table_ok s'"
proof -
  have e: "s_conversations s' = s_conversations s" "s_next s' = s_next s" using assms(1) by (auto simp: same_table_def)
  show ?thesis
    unfolding table_ok_def e
    using assms(2) same_table_heap [OF assms(1)] same_table_heap' [OF assms(1)]
    unfolding table_ok_def by metis
qed

lemma same_table_find: "same_table s s' \<Longrightarrow> find_conversation_by_name s' n = find_conversation_by_name s n"
  by (simp add: same_table_def find_conversation_by_name_def)

section \<open>The calls of a login\<close>

fun call_of :: "worker_call \<Rightarrow> pending_call option" where
  "call_of (CallInitialize d) = Some InitializeCall"
| "call_of CallAuthenticate = Some AuthenticateCall"
| "call_of CallAuthorize = Some AuthorizeCall"
| "call_of CallEstablishCredentials = Some EstablishCredentialsCall"
| "call_of CallOpen = Some OpenCall"
| "call_of (CallStartProgram t) = Some StartProgramCall"
| "call_of (CallStartReauthentication p u) = Some StartReauthenticationCall"
| "call_of _ = None"

text \<open>The replies a call depends on, the last one first.\<close>

definition login_replies :: "nat \<Rightarrow> session_event list" where
  "login_replies c = map (\<lambda>p. Reply_to c p True) [EstablishCredentialsCall, AuthorizeCall, AuthenticateCall, InitializeCall]"

fun required_replies :: "nat \<Rightarrow> pending_call \<Rightarrow> session_event list" where
  "required_replies c AuthenticateCall = drop 3 (login_replies c)"
| "required_replies c AuthorizeCall = drop 2 (login_replies c)"
| "required_replies c EstablishCredentialsCall = drop 1 (login_replies c)"
| "required_replies c OpenCall = login_replies c"
| "required_replies c _ = []"

definition made :: "nat \<Rightarrow> pending_call \<Rightarrow> session_effect list \<Rightarrow> bool" where
  "made c p fx \<longleftrightarrow> (\<exists>m. CallWorker c m \<in> set fx \<and> call_of m = Some p)"

lemma made_append [simp]: "made c p (fx @ gx) \<longleftrightarrow> made c p fx \<or> made c p gx"
  by (auto simp: made_def)

lemma made_Nil [simp]: "\<not> made c p []"
  by (simp add: made_def)

lemma made_Cons: "made c p (f # fx) \<longleftrightarrow> (\<exists>m. f = CallWorker c m \<and> call_of m = Some p) \<or> made c p fx"
  by (auto simp: made_def)

definition calls_within :: "(nat \<times> pending_call) set \<Rightarrow> session \<Rightarrow> session \<Rightarrow> bool" where
  "calls_within L s s' \<longleftrightarrow>
     (\<exists>fx. s_log s' = s_log s @ fx \<and>
        (\<forall>c p. made c p fx \<longrightarrow> (c, p) \<in> L \<or> required_replies c p = []) \<and>
        (\<forall>c k' p. s_heap s' c = Some k' \<longrightarrow> p \<in> set (c_calls k') \<longrightarrow>
           (\<exists>k. s_heap s c = Some k \<and> p \<in> set (c_calls k)) \<or> made c p fx))"

lemma calls_within_refl [simp]: "calls_within L s s"
  by (auto simp: calls_within_def)

lemma calls_within_trans: "calls_within L s s1 \<Longrightarrow> calls_within L s1 s2 \<Longrightarrow> calls_within L s s2"
  unfolding calls_within_def by (elim exE conjE) (rule exI, auto, metis+)

lemma calls_within_mono: "calls_within L s s' \<Longrightarrow> L \<subseteq> L' \<Longrightarrow> calls_within L' s s'"
  unfolding calls_within_def by blast

definition in_order :: "session_event list \<Rightarrow> session \<Rightarrow> bool" where
  "in_order evs s \<longleftrightarrow>
     (\<forall>c p. made c p (s_log s) \<longrightarrow> subseq (required_replies c p) evs) \<and>
     (\<forall>c k p. s_heap s c = Some k \<longrightarrow> p \<in> set (c_calls k) \<longrightarrow> made c p (s_log s))"

lemma calls_within_in_order:
  assumes "calls_within L s s'" and "in_order evs s" and "subseq evs evs'"
    and "\<And>c p. (c, p) \<in> L \<Longrightarrow> subseq (required_replies c p) evs'"
  shows "in_order evs' s'"
proof -
  obtain fx where l: "s_log s' = s_log s @ fx"
    and f: "\<And>c p. made c p fx \<Longrightarrow> (c, p) \<in> L \<or> required_replies c p = []"
    and h: "\<And>c k' p. s_heap s' c = Some k' \<Longrightarrow> p \<in> set (c_calls k') \<Longrightarrow>
           (\<exists>k. s_heap s c = Some k \<and> p \<in> set (c_calls k)) \<or> made c p fx"
    using assms(1) unfolding calls_within_def by blast
  have "subseq (required_replies c p) evs'" if "made c p (s_log s')" for c p
    using that f [of c p] assms(2-4) unfolding l in_order_def
    by (metis list_emb_Nil made_append subseq_order.order_trans)
  moreover have "made c p (s_log s')" if "s_heap s' c = Some k" "p \<in> set (c_calls k)" for c k p
    using h [OF that] assms(2) unfolding l in_order_def by (metis made_append)
  ultimately show ?thesis by (simp add: in_order_def)
qed

section \<open>Operations that leave the table alone\<close>

definition frame :: "session \<Rightarrow> session \<Rightarrow> bool" where
  "frame s s' \<longleftrightarrow> same_table s s' \<and> calls_within {} s s'"

lemma frame_refl [simp]: "frame s s"
  by (simp add: frame_def)

lemma frame_trans: "frame s s1 \<Longrightarrow> frame s1 s2 \<Longrightarrow> frame s s2"
  unfolding frame_def by (blast intro: same_table_trans calls_within_trans)

lemma frame_eq:
  "s_conversations s' = s_conversations s \<Longrightarrow> s_next s' = s_next s \<Longrightarrow> s_heap s' = s_heap s \<Longrightarrow> s_log s' = s_log s \<Longrightarrow> frame s s'"
  by (auto simp: frame_def same_table_def calls_within_def)

lemma frame_semit:
  assumes "\<And>c m. CallWorker c m \<in> set fx \<Longrightarrow> call_of m = None"
  shows "frame s (semit fx s)"
proof -
  have "\<not> made c p fx" for c p using assms by (auto simp: made_def)
  then show ?thesis by (auto simp: frame_def same_table_def calls_within_def semit_def)
qed

lemma frame_set:
  assumes "s_heap s c = Some k" and "c_service_name k' = c_service_name k" and "set (c_calls k') \<subseteq> set (c_calls k)"
    and "c_job k \<noteq> None \<Longrightarrow> c_job k' \<noteq> None"
  shows "frame s (set_conversation c k' s)"
  using assms by (auto simp: frame_def same_table_def calls_within_def set_conversation_def)

lemma frame_to_verifier [simp]: "frame s (to_verifier sigs s)"
  by (auto simp: to_verifier_def intro: frame_semit)

lemma frame_to_greeter [simp]: "frame s (to_greeter sigs s)"
  by (auto simp: to_greeter_def intro: frame_semit)

lemma semit_heap [simp]: "s_heap (semit fx s) = s_heap s"
  by (simp add: semit_def)

lemma frame_Emit [simp]: "frame s (semit [Emit x] s)" "frame s (semit [Respond i r] s)" "frame s (semit [JobFx c fx] s)"
  by (auto intro: frame_semit)

text \<open>The fields of the session that the two relations do not see.\<close>

lemma frame_fields [simp]:
  "frame s (s\<lparr>s_fallback_session_name := x\<rparr>)" "frame s (s\<lparr>s_session_type := x\<rparr>)" "frame s (s\<lparr>s_environment := e\<rparr>)"
  "frame s (s\<lparr>s_saved_session := x\<rparr>)" "frame s (s\<lparr>s_saved_language := x\<rparr>)" "frame s (s\<lparr>s_selected_session := x\<rparr>)"
  "frame s (s\<lparr>s_selected_program := x\<rparr>)" "frame s (s\<lparr>s_session_conversation := y\<rparr>)" "frame s (s\<lparr>s_is_program_session := b\<rparr>)"
  "frame s (s\<lparr>s_pending_worker_connections := l\<rparr>)" "frame s (s\<lparr>s_outside_connections := l\<rparr>)"
  "frame s (s\<lparr>s_session_pid := p, s_session_conversation := y\<rparr>)"
  "frame s (s\<lparr>s_timed_login_username := x, s_timed_login_delay := d\<rparr>)" "frame s (s\<lparr>s_user_verifier_extensions := es\<rparr>)"
  by (rule frame_eq; simp)+

lemma frame_select_user [simp]: "frame s (scdm_session_select_user x s)"
  by (rule frame_eq) (simp_all add: scdm_session_select_user_def)

lemma frame_set_session_type [simp]: "frame s (set_session_type t s)"
  by (simp add: set_session_type_def)

lemma frame_set_variable [simp]: "frame s (scdm_session_set_environment_variable k x s)"
  by (simp add: scdm_session_set_environment_variable_def split: option.split)

lemma frame_fold_variables: "frame s (fold (\<lambda>x. scdm_session_set_environment_variable (f x) (g x)) xs s)"
proof (induction xs arbitrary: s)
  case (Cons x xs)
  show ?case using frame_trans [OF frame_set_variable Cons.IH] by simp
qed simp

lemma frame_set_up_session_language [simp]: "frame s (set_up_session_language v s)"
  using frame_fold_variables [of s fst "\<lambda>x. Some (snd x)"]
  by (simp add: set_up_session_language_def case_prod_unfold)

lemma frame_fallback: "get_fallback_session_name v s = Some (n, s') \<Longrightarrow> frame s s'"
  by (auto simp: get_fallback_session_name_def split: option.splits if_splits list.splits)

lemma frame_default: "get_default_session_name v s = Some (n, s') \<Longrightarrow> frame s s'"
  by (auto simp: get_default_session_name_def dest: frame_fallback split: option.splits)

lemma frame_name: "get_session_name v s = Some (n, s') \<Longrightarrow> frame s s'"
  by (auto simp: get_session_name_def dest: frame_default split: option.splits)

lemma frame_filename: "get_session_filename v s = Some (n, s') \<Longrightarrow> frame s s'"
  by (auto simp: get_session_filename_def dest: frame_name)

lemma frame_command: "get_session_command v s = Some (n, s') \<Longrightarrow> frame s s'"
  by (auto simp: get_session_command_def bind_eq_Some_conv dest: frame_name)

lemma frame_desktop_names: "get_session_desktop_names v s = Some (n, s') \<Longrightarrow> frame s s'"
  by (auto simp: get_session_desktop_names_def dest: frame_name split: if_splits)

lemma frame_is_wayland: "scdm_session_is_wayland_session v s = Some (b, s') \<Longrightarrow> frame s s'"
  by (auto simp: scdm_session_is_wayland_session_def dest: frame_filename)

lemma frame_registers: "scdm_session_session_registers v s = Some (b, s') \<Longrightarrow> frame s s'"
  by (auto simp: scdm_session_session_registers_def dest: frame_filename)

lemma frame_bypasses: "scdm_session_bypasses_xsession v s = Some (b, s') \<Longrightarrow> frame s s'"
  by (auto simp: scdm_session_bypasses_xsession_def bind_eq_Some_conv dest!: frame_is_wayland frame_filename
      intro: frame_trans split: if_splits)

lemma frame_update_session_type: "update_session_type v s = Some s' \<Longrightarrow> frame s s'"
  by (auto simp: update_session_type_def dest!: frame_is_wayland intro: frame_trans split: if_splits)

lemma frame_defaults_changed: "scdm_session_defaults_changed v s = Some s' \<Longrightarrow> frame s s'"
  by (auto simp: scdm_session_defaults_changed_def bind_eq_Some_conv Let_def dest!: frame_update_session_type frame_default
      split: if_splits) (blast intro: frame_trans frame_to_greeter)

lemma frame_set_up_environment:
  assumes "set_up_session_environment v s = Some s'"
  shows "frame s s'"
proof -
  obtain s1 n s2 where s1: "(if s_selected_program s = None
          then map_option (\<lambda>(name, s). fold (\<lambda>k. scdm_session_set_environment_variable k (Some name))
                     [''GDMSESSION'', ''DESKTOP_SESSION'', ''XDG_SESSION_DESKTOP''] s) (get_session_name v s)
          else Some s) = Some s1"
    and s2: "get_session_desktop_names v s1 = Some (n, s2)"
    and s': "s' = (let s = scdm_session_set_environment_variable ''XDG_CURRENT_DESKTOP'' n s2;
         s = set_up_session_language v s;
         locale_name = get_default_language_name v s;
         s = (if locale_name \<noteq> None \<and> locale_name \<noteq> Some []
              then scdm_session_set_environment_variable ''SCDM_LANG'' locale_name
                     (scdm_session_set_environment_variable ''LANG'' locale_name s) else s);
         s = (if scdm_session_get_display_mode v s = REUSE_VT
              then scdm_session_set_environment_variable ''XAUTHORITY'' (s_user_x11_authority_file s)
                     (scdm_session_set_environment_variable ''DISPLAY'' (s_display_name s) s) else s)
       in scdm_session_set_environment_variable ''WINDOWPATH'' (map_of (sv_environ v) ''WINDOWPATH'') s)"
    using assms unfolding set_up_session_environment_def bind_eq_Some_conv by (elim exE conjE) (auto simp: Let_def)
  have b: "frame a (if P then scdm_session_set_environment_variable k x (scdm_session_set_environment_variable l y a) else a)" for a k x l y P
    by (auto intro: frame_trans frame_set_variable)
  have "frame s2 s'"
    unfolding s' Let_def
    by (rule frame_trans [OF frame_trans [OF frame_trans [OF frame_trans [OF frame_set_variable frame_set_up_session_language]
            b] b] frame_set_variable])
  have "frame s s1"
    using s1 by (auto dest!: frame_name split: if_splits) (blast intro: frame_trans frame_set_variable)
  then show ?thesis using frame_desktop_names [OF s2] \<open>frame s2 s'\<close> by (blast intro: frame_trans)
qed

section \<open>Calls, callbacks and requests\<close>

definition reach :: "(nat \<times> pending_call) set \<Rightarrow> session \<Rightarrow> session \<Rightarrow> bool" where
  "reach L s s' \<longleftrightarrow> same_table s s' \<and> calls_within L s s'"

lemma reach_frame: "frame s s' \<Longrightarrow> reach L s s'"
  unfolding reach_def frame_def by (blast intro: calls_within_mono)

lemma reach_trans: "reach L s s1 \<Longrightarrow> reach L s1 s2 \<Longrightarrow> reach L s s2"
  unfolding reach_def by (blast intro: same_table_trans calls_within_trans)

lemma call_worker_reach:
  assumes "call_worker c callback m s = Some s'" and "callback = call_of m"
  shows "reach {(c, p) | p. callback = Some p} s s'"
  using assms
  by (auto simp: call_worker_def reach_def same_table_def calls_within_def set_conversation_def semit_def made_Cons
      split: option.splits if_splits)

lemma frame_call_worker:
  assumes "call_worker c callback m s = Some s'" and "callback = call_of m"
    and "\<And>p. callback = Some p \<Longrightarrow> required_replies c p = []"
  shows "frame s s'"
  using call_worker_reach [OF assms(1,2)] assms(3) unfolding reach_def frame_def calls_within_def by blast

lemma frame_call_service:
  assumes "call_service n p m s = Some s'" and "call_of m = Some p" and "\<And>c. required_replies c p = []"
  shows "frame s s'"
  using assms by (auto simp: call_service_def dest: frame_call_worker split: option.splits)

lemma call_service_reach:
  assumes "call_service n p m s = Some s'" and "call_of m = Some p"
    and "table_ok s" and "s_heap s c = Some k" and "n = c_service_name k"
  shows "reach {(c, p)} s s'"
proof -
  have "find_conversation_by_name s n = Some c"
    using table_ok_find [OF assms(3,4)] assms(5) by simp
  then have "call_worker c (Some p) m s = Some s'" using assms(1) by (simp add: call_service_def)
  from call_worker_reach [OF this] show ?thesis using assms(2) by simp
qed

lemma frame_close:
  assumes "close_conversation c s = Some s'"
  shows "frame s s'"
proof -
  obtain k where k: "s_heap s c = Some k" using assms by (auto simp: close_conversation_def split: option.splits)
  show ?thesis
    using assms k unfolding close_conversation_def
    by simp (erule subst, rule frame_trans [OF frame_set [OF k] frame_semit], auto split: if_splits)
qed

lemma frame_stop_conversation:
  assumes "stop_conversation c s = Some s'"
  shows "frame s s'"
proof -
  obtain s1 k job where s1: "close_conversation c s = Some s1" and k: "s_heap s1 c = Some k"
    and s': "semit [JobFx c (scdm_session_worker_job_stop job)] (set_conversation c (k\<lparr>c_is_stopping := True\<rparr>) s1) = s'"
    using assms by (auto simp: stop_conversation_def bind_eq_Some_conv)
  have "frame s1 (set_conversation c (k\<lparr>c_is_stopping := True\<rparr>) s1)" by (rule frame_set [OF k]) simp_all
  then show ?thesis using frame_close [OF s1] frame_Emit(3) s' by (blast intro: frame_trans)
qed

lemma frame_session_stop_conversation: "scdm_session_stop_conversation n s = Some s' \<Longrightarrow> frame s s'"
  by (auto simp: scdm_session_stop_conversation_def dest: frame_stop_conversation split: option.splits)

lemma frame_report_and_stop: "report_and_stop_conversation n b m s = Some s' \<Longrightarrow> frame s s'"
  by (auto simp: report_and_stop_conversation_def dest!: frame_session_stop_conversation intro: frame_trans [OF frame_to_verifier])

lemma frame_send_display_mode: "send_display_mode v c s = Some s' \<Longrightarrow> frame s s'"
  by (auto simp: send_display_mode_def dest: frame_call_worker)

lemma frame_send_session_type: "send_session_type c s = Some s' \<Longrightarrow> frame s s'"
  by (auto simp: send_session_type_def dest: frame_call_worker)

lemma frame_send_variables: "send_variables es c s = Some s' \<Longrightarrow> frame s s'"
proof (induction es c s rule: send_variables.induct)
  case (2 key x rest c s)
  then obtain s1 where s1: "call_worker c None (CallSetEnvironmentVariable key x) s = Some s1" "send_variables rest c s1 = Some s'"
    by (auto simp: bind_eq_Some_conv)
  show ?case using frame_trans [OF frame_call_worker [OF s1(1)] 2(1) [OF s1]] by simp
qed simp

lemma frame_send_environment: "scdm_session_send_environment n s = Some s' \<Longrightarrow> frame s s'"
  by (auto simp: scdm_session_send_environment_def send_environment_def dest: frame_send_variables split: option.splits)

lemma frame_initialize: "initialize n u l s = Some s' \<Longrightarrow> frame s s'"
  by (auto simp: initialize_def dest: frame_call_service)

lemma frame_setup: "scdm_session_setup v n s = Some s' \<Longrightarrow> frame s s'"
  by (auto simp: scdm_session_setup_def bind_eq_Some_conv
      dest!: frame_update_session_type frame_initialize frame_defaults_changed intro: frame_trans)

lemma frame_setup_user: "scdm_session_setup_for_user v n u s = Some s' \<Longrightarrow> frame s s'"
  by (auto simp: scdm_session_setup_for_user_def bind_eq_Some_conv Let_def
      dest!: frame_update_session_type frame_initialize frame_defaults_changed)
    (rule frame_trans [OF frame_trans [OF frame_trans [OF frame_trans [OF _ frame_select_user] frame_fields(9)]]]; assumption)

lemma frame_setup_program: "scdm_session_setup_for_program n u l s = Some s' \<Longrightarrow> frame s s'"
  by (auto simp: scdm_session_setup_for_program_def dest!: frame_initialize intro: frame_trans [OF frame_fields(9)])

lemma frame_stop_each: "stop_each (Some c) False l s = Some s' \<Longrightarrow> frame s s'"
proof (induction "Some c" False l s rule: stop_each.induct)
  case (2 key e rest s)
  show ?case
  proof (cases "e = Some c")
    case True
    then show ?thesis using 2 by auto
  next
    case False
    then obtain d s1 where "stop_conversation d s = Some s1" and s1: "stop_each (Some c) False rest s1 = Some s'" and "e = Some d"
      using 2(2) by (auto simp: bind_eq_Some_conv split: option.splits)
    moreover have "frame s1 s'" by (rule 2(1) [OF _ s1]) (use calculation False in auto)
    ultimately show ?thesis by (blast intro: frame_trans frame_stop_conversation)
  qed
qed simp

lemma frame_start_session:
  assumes "scdm_session_start_session v n s = Some s'"
  shows "frame s s'"
proof (cases "s_session_conversation s \<noteq> None \<or> find_conversation_by_name s n = None")
  case True
  then show ?thesis using assms by (auto simp: scdm_session_start_session_def split: option.splits)
next
  case False
  then obtain c where c: "s_session_conversation s = None" "find_conversation_by_name s n = Some c" by auto
  obtain s1 where s1: "stop_all_other_conversations (Some c) False s = Some s1"
    using assms c by (auto simp: scdm_session_start_session_def bind_eq_Some_conv)
  obtain b s2 where s2: "scdm_session_session_registers v s1 = Some (b, s2)"
    using assms c s1 by (auto simp: scdm_session_start_session_def Let_def bind_eq_Some_conv)
  obtain p s3 where p: "(case s_selected_program s2 of
               None \<Rightarrow> do {
                 (command, s) \<leftarrow> get_session_command v s2;
                 (bypasses, s) \<leftarrow> scdm_session_bypasses_xsession v s;
                 let allow_remote_connections =
                   (if s_display_is_local s then \<not> (case sv_disallow_tcp v of None \<Rightarrow> True | Some b \<Rightarrow> b) else True);
                 Some (session_program v (scdm_session_get_display_mode v s1 = LOGIND_MANAGED \<or> scdm_session_get_display_mode v s1 = NEW_VT)
                   (if sv_wayland_support v then s_session_type s1 \<noteq> Some ''wayland'' else True) (\<not> b) (\<not> bypasses)
                   allow_remote_connections command, s)
               }
             | Some p \<Rightarrow> Some (greeter_program v (scdm_session_get_display_mode v s1 = LOGIND_MANAGED \<or> scdm_session_get_display_mode v s1 = NEW_VT)
                   (if sv_wayland_support v then s_session_type s1 \<noteq> Some ''wayland'' else True) (\<not> b) p, s2)) = Some (p, s3)"
    and r: "Option.bind (set_up_session_environment v s3) (\<lambda>s. Option.bind (send_environment c s)
              (call_worker c (Some StartProgramCall) (CallStartProgram p))) = Some s'"
    using assms c s1 s2 unfolding scdm_session_start_session_def Let_def
    by (simp add: bind_eq_Some_conv split del: option.split if_split) blast
  obtain s4 s5 where s4: "set_up_session_environment v s3 = Some s4" and s5: "send_environment c s4 = Some s5"
    and s': "call_worker c (Some StartProgramCall) (CallStartProgram p) s5 = Some s'"
    using r by (auto simp: bind_eq_Some_conv)
  have "frame s s1"
    using s1 frame_stop_each by (auto simp: stop_all_other_conversations_def bind_eq_Some_conv)
  moreover have "frame s2 s3"
    using p by (auto simp: bind_eq_Some_conv Let_def dest!: frame_command frame_bypasses intro: frame_trans split: option.splits)
  moreover have "frame s4 s5" using s5 by (simp add: send_environment_def frame_send_variables)
  moreover have "frame s5 s'" using frame_call_worker [OF s'] by simp
  ultimately show ?thesis
    using frame_registers [OF s2] frame_set_up_environment [OF s4] by (blast intro: frame_trans)
qed

section \<open>Operations that change the table\<close>

lemma table_ok_alt:
  "table_ok s \<longleftrightarrow>
     distinct (map fst (s_conversations s)) \<and>
     (\<forall>n c. map_of (s_conversations s) n = Some (Some c) \<longrightarrow> (\<exists>k. s_heap s c = Some k \<and> c_service_name k = n)) \<and>
     (\<forall>c k. s_heap s c = Some k \<longrightarrow>
        map_of (s_conversations s) (c_service_name k) = Some (Some c) \<and> c_job k \<noteq> None \<and> c < s_next s)"
  unfolding table_ok_def by (metis map_of_eq_Some_iff)

lemma table_ok_fresh: "table_ok s \<Longrightarrow> s_heap s (s_next s) = None"
  unfolding table_ok_def by (metis less_irrefl not_None_eq)

lemma table_ok_replace:
  assumes ok: "table_ok s"
    and t: "s_conversations s' = AList.update n e (s_conversations s)" and x: "s_next s' = Suc (s_next s)"
    and h: "\<And>c. s_heap s' c = (if e = Some c then Some k0
              else if map_of (s_conversations s) n = Some (Some c) then None else s_heap s c)"
    and e: "\<And>c. e = Some c \<Longrightarrow> c = s_next s" and k0: "c_service_name k0 = n" "c_job k0 \<noteq> None"
  shows "table_ok s'"
  unfolding table_ok_alt
proof (intro conjI allI impI)
  show "distinct (map fst (s_conversations s'))"
    using ok by (simp add: t table_ok_def distinct_update)
next
  fix m c assume "map_of (s_conversations s') m = Some (Some c)"
  then have m: "((map_of (s_conversations s))(n \<mapsto> e)) m = Some (Some c)" by (simp add: t update_conv')
  show "\<exists>k. s_heap s' c = Some k \<and> c_service_name k = m"
  proof (cases "m = n")
    case True
    then show ?thesis using m h [of c] k0 by simp
  next
    case False
    then have mo: "map_of (s_conversations s) m = Some (Some c)" using m by simp
    then obtain k where k: "s_heap s c = Some k" "c_service_name k = m" using ok unfolding table_ok_alt by blast
    then have "e \<noteq> Some c" using e [of c] table_ok_fresh [OF ok] by auto
    moreover have "map_of (s_conversations s) n \<noteq> Some (Some c)"
      using ok k False unfolding table_ok_alt by (metis option.inject)
    ultimately show ?thesis using h [of c] k by simp
  qed
next
  fix c k assume k: "s_heap s' c = Some k"
  have "e = Some c \<and> k = k0 \<or> e \<noteq> Some c \<and> s_heap s c = Some k \<and> map_of (s_conversations s) n \<noteq> Some (Some c)"
    using h [of c] k by (auto split: if_splits)
  then show "map_of (s_conversations s') (c_service_name k) = Some (Some c)" "c_job k \<noteq> None" "c < s_next s'"
    using e [of c] k0 ok unfolding t x update_conv' table_ok_alt by (auto simp: less_Suc_eq) (metis+)
qed

lemma table_ok_drop:
  assumes ok: "table_ok s" and k: "s_heap s c = Some k"
    and t: "s_conversations s' = AList.delete (c_service_name k) (s_conversations s)" and x: "s_next s' = s_next s"
    and h: "s_heap s' = (s_heap s)(c := None)"
  shows "table_ok s'"
  unfolding table_ok_alt
proof (intro conjI allI impI)
  show "distinct (map fst (s_conversations s'))"
    using ok by (simp add: t table_ok_def distinct_delete)
next
  fix m d assume "map_of (s_conversations s') m = Some (Some d)"
  then have m: "m \<noteq> c_service_name k" "map_of (s_conversations s) m = Some (Some d)"
    by (auto simp: t delete_conv' split: if_splits)
  then obtain j where j: "s_heap s d = Some j" "c_service_name j = m" using ok unfolding table_ok_alt by blast
  then have "d \<noteq> c" using k m(1) by auto
  then show "\<exists>j. s_heap s' d = Some j \<and> c_service_name j = m" using j by (simp add: h)
next
  fix d j assume j: "s_heap s' d = Some j"
  then have d: "d \<noteq> c" "s_heap s d = Some j" by (auto simp: h split: if_splits)
  then have "c_service_name j \<noteq> c_service_name k" using ok k unfolding table_ok_alt by (metis option.inject)
  then show "map_of (s_conversations s') (c_service_name j) = Some (Some d)" "c_job j \<noteq> None" "d < s_next s'"
    using ok d unfolding t x table_ok_alt by (auto simp: delete_conv')
qed

lemma close_result:
  assumes "close_conversation c s = Some s'"
  shows "\<exists>k fx. s_heap s c = Some k \<and> s' = semit fx (set_conversation c (k\<lparr>c_manager_interface := False\<rparr>) s) \<and>
    (\<forall>d m. CallWorker d m \<notin> set fx)"
  using assms by (auto simp: close_conversation_def split: option.splits)

lemma free_result:
  assumes "free_conversation c s = Some s'"
  shows "\<exists>k fx. s_heap s c = Some k \<and> s' = s\<lparr>s_log := s_log s @ fx, s_heap := (s_heap s)(c := None)\<rparr> \<and>
    (\<forall>d m. CallWorker d m \<notin> set fx)"
  using assms close_result [of c s] by (auto simp: free_conversation_def semit_def set_conversation_def) blast

lemma calls_within_drop:
  assumes "s_log s' = s_log s @ fx" and "\<And>d m. CallWorker d m \<notin> set fx"
    and "\<And>c k'. s_heap s' c = Some k' \<Longrightarrow> \<exists>k. s_heap s c = Some k \<and> set (c_calls k') \<subseteq> set (c_calls k) \<or> c_calls k' = []"
  shows "calls_within {} s s'"
proof -
  have "\<not> made c p fx" for c p using assms(2) by (auto simp: made_def)
  then show ?thesis using assms(1,3) unfolding calls_within_def by (intro exI [of _ fx]) force
qed

lemma start_conversation_result:
  assumes "start_conversation v n s = (e, s')"
  shows "\<exists>k0 fx. s_conversations s' = s_conversations s \<and> s_next s' = Suc (s_next s) \<and> s_log s' = s_log s @ fx \<and>
    (\<forall>d m. CallWorker d m \<notin> set fx) \<and> (e = None \<or> e = Some (s_next s)) \<and>
    s_heap s' = (case e of None \<Rightarrow> s_heap s | Some c \<Rightarrow> (s_heap s)(c := Some k0)) \<and>
    c_service_name k0 = n \<and> c_job k0 \<noteq> None \<and> c_calls k0 = []"
proof -
  let ?s = "s\<lparr>s_next := Suc (s_next s)\<rparr>"
  obtain started job' fx where j: "scdm_session_worker_job_start (sv_job v) (''scdm-session-worker [pam/'' @ n @ '']'') (conversation_job v ?s) = (started, job', fx)"
    by (cases "scdm_session_worker_job_start (sv_job v) (''scdm-session-worker [pam/'' @ n @ '']'') (conversation_job v ?s)")
  let ?k0 = "\<lparr>c_service_name = n, c_job = Some job', c_worker_pid = scdm_session_worker_job_get_pid job',
                   c_starting_invocation = None, c_starting_username = None, c_pending_invocation = None,
                   c_manager_interface = False, c_worker_proxy = False, c_session_id = None, c_is_stopping = False,
                   c_reauth_pid_of_caller = 0, c_calls = []\<rparr>"
  have "(e, s') = (let s1 = semit [JobFx (s_next s) fx] (s\<lparr>s_next := Suc (s_next s)\<rparr>)
      in if \<not> started then (None, s1) else (Some (s_next s), set_conversation (s_next s) ?k0 s1))"
    using assms unfolding start_conversation_def Let_def j by simp
  then show ?thesis
    by (intro exI [of _ ?k0] exI [of _ "[JobFx (s_next s) fx]"])
      (auto simp: Let_def semit_def set_conversation_def split: if_splits)
qed

text \<open>Starting: the value that was in the table is freed; a null pointer there is fatal.\<close>

lemma start_result:
  assumes ok: "table_ok s" and st: "scdm_session_start_conversation v n s = Some (b, s')"
  shows "table_ok s' \<and> calls_within {} s s'"
proof -
  define begin_start where "begin_start s = (case start_conversation v n s of
            (e, s) \<Rightarrow>
              let old = map_of (s_conversations s) n;
                  s = s\<lparr>s_conversations := AList.update n e (s_conversations s)\<rparr>
              in case old of None \<Rightarrow> Some (True, s) | Some x \<Rightarrow> map_option (Pair True) (free_entry x s))" for s
  have main: "table_ok s' \<and> calls_within {} s s'"
    if s0: "s_conversations s0 = s_conversations s" "s_next s0 = s_next s" "s_log s0 = s_log s @ fx0"
      "\<forall>d m. CallWorker d m \<notin> set fx0"
      and h0: "\<And>c. s_heap s0 c = (if old = Some c then Some k1 else s_heap s c)"
      and old: "case old of None \<Rightarrow> \<nexists>c. map_of (s_conversations s) n = Some (Some c)
        | Some c \<Rightarrow> map_of (s_conversations s) n = Some (Some c)"
      and r: "begin_start s0 = Some (b, s')" for s0 fx0 old k1
  proof -
    obtain e s1 where e: "start_conversation v n s0 = (e, s1)" by (cases "start_conversation v n s0")
    obtain k0 fx where c: "s_conversations s1 = s_conversations s" "s_next s1 = Suc (s_next s)" "s_log s1 = s_log s0 @ fx"
      "\<forall>d m. CallWorker d m \<notin> set fx" "e = None \<or> e = Some (s_next s)"
      "s_heap s1 = (case e of None \<Rightarrow> s_heap s0 | Some c \<Rightarrow> (s_heap s0)(c := Some k0))"
      "c_service_name k0 = n" "c_job k0 \<noteq> None" "c_calls k0 = []"
      using start_conversation_result [OF e] s0 by auto
    let ?s2 = "s1\<lparr>s_conversations := AList.update n e (s_conversations s)\<rparr>"
    obtain fx2 where s': "s_conversations s' = AList.update n e (s_conversations s)" "s_next s' = Suc (s_next s)"
      "s_log s' = s_log s1 @ fx2" "\<forall>d m. CallWorker d m \<notin> set fx2"
      "s_heap s' = (case old of None \<Rightarrow> s_heap s1 | Some c \<Rightarrow> (s_heap s1)(c := None))"
    proof (cases old)
      case None
      then have "map_of (s_conversations s) n = None"
        using r old c(1) by (cases "map_of (s_conversations s) n") (auto simp: begin_start_def e free_entry_def Let_def split: option.splits)
      then show ?thesis using r c that [of "[]"] None by (auto simp: begin_start_def e Let_def)
    next
      case (Some o')
      then have "map_option (Pair True) (free_conversation o' ?s2) = Some (b, s')"
        using r old c(1) by (simp add: begin_start_def e free_entry_def Let_def)
      then obtain f where "free_conversation o' ?s2 = Some f" "f = s'" by auto
      then show ?thesis using free_result [of o' ?s2 s'] c Some that by auto
    qed
    have neq: "s_next s \<noteq> o'" if "old = Some o'" for o'
    proof -
      have "map_of (s_conversations s) n = Some (Some o')" using that old by simp
      then obtain k where "s_heap s o' = Some k" using ok unfolding table_ok_alt by blast
      then show ?thesis using table_ok_fresh [OF ok] by auto
    qed
    have heap: "s_heap s' d = (if e = Some d then Some k0
        else if map_of (s_conversations s) n = Some (Some d) then None else s_heap s d)" for d
      using s'(5) c(5,6) h0 old neq by (auto split: option.splits if_splits)
    have "table_ok s'"
      by (rule table_ok_replace [OF ok s'(1,2) heap _ c(7,8)]) (use c(5) in auto)
    moreover have "calls_within {} s s'"
      by (rule calls_within_drop [of _ _ "fx0 @ fx @ fx2"])
        (use s' c s0 heap in \<open>auto split: if_splits\<close>)
    ultimately show ?thesis ..
  qed
  show ?thesis
  proof (cases "find_conversation_by_name s n")
    case None
    then have "begin_start s = Some (b, s')"
      using st by (simp add: scdm_session_start_conversation_def begin_start_def Let_def)
    moreover have "\<nexists>c. map_of (s_conversations s) n = Some (Some c)"
      using None by (auto simp: find_conversation_by_name_def)
    ultimately show ?thesis by (intro main [of s "[]" None]) auto
  next
    case (Some c)
    then obtain k where k: "s_heap s c = Some k"
      using st by (auto simp: scdm_session_start_conversation_def bind_eq_Some_conv)
    show ?thesis
    proof (cases "c_is_stopping k")
      case False
      then show ?thesis using st Some k ok by (auto simp: scdm_session_start_conversation_def)
    next
      case True
      then obtain job where job: "c_job k = Some job"
        and r: "begin_start (semit [JobFx c (snd (scdm_session_worker_job_stop_now job))] (set_conversation c (k\<lparr>c_job := None\<rparr>) s)) = Some (b, s')"
        using st Some k by (auto simp: scdm_session_start_conversation_def begin_start_def Let_def bind_eq_Some_conv)
      have "map_of (s_conversations s) n = Some (Some c)"
        using Some by (auto simp: find_conversation_by_name_def split: option.splits)
      then show ?thesis
        by (intro main [OF _ _ _ _ _ _ r, of "[JobFx c (snd (scdm_session_worker_job_stop_now job))]" "Some c" "k\<lparr>c_job := None\<rparr>"])
          (auto simp: semit_def set_conversation_def)
    qed
  qed
qed

lemma worker_ended_result:
  assumes ok: "table_ok s" and e: "worker_ended sig c s = Some s'"
  shows "table_ok s' \<and> calls_within {} s s'"
proof -
  obtain k where k: "s_heap s c = Some k" using e by (auto simp: worker_ended_def bind_eq_Some_conv)
  obtain s1 fx where s1: "free_conversation c s1 = Some s'" "s_conversations s1 = AList.delete (c_service_name k) (s_conversations s)"
    "s_next s1 = s_next s" "s_log s1 = s_log s @ fx" "\<forall>d m. CallWorker d m \<notin> set fx"
    "\<And>d. d \<noteq> c \<Longrightarrow> s_heap s1 d = s_heap s d"
    using e k by (auto simp: worker_ended_def bind_eq_Some_conv Let_def semit_def to_verifier_def set_conversation_def split: if_splits)
  obtain fx' where s': "s' = s1\<lparr>s_log := s_log s1 @ fx', s_heap := (s_heap s1)(c := None)\<rparr>" "\<forall>d m. CallWorker d m \<notin> set fx'"
    using free_result [OF s1(1)] by auto
  have h: "s_heap s' = (s_heap s)(c := None)" using s1(6) by (auto simp: s'(1))
  have "table_ok s'" by (rule table_ok_drop [OF ok k]) (use s1 s' h in auto)
  moreover have "calls_within {} s s'"
    by (rule calls_within_drop [of _ _ "fx @ fx'"]) (use s1 s' h in \<open>auto split: if_splits\<close>)
  ultimately show ?thesis ..
qed

lemma child_watch_result:
  assumes ok: "table_ok s" and e: "job_child_watch status c s = Some s'"
  shows "table_ok s' \<and> calls_within {} s s'"
proof -
  obtain k job where k: "s_heap s c = Some k" "c_job k = Some job" using e by (auto simp: job_child_watch_def bind_eq_Some_conv)
  let ?s = "set_conversation c (k\<lparr>c_job := Some (fst (session_worker_job_child_watch status job))\<rparr>) s"
  have f: "frame s ?s" by (rule frame_set [OF k(1)]) simp_all
  then have ok': "table_ok ?s" using ok same_table_ok by (auto simp: frame_def)
  have "s' = ?s \<or> (\<exists>sig. worker_ended sig c ?s = Some s')"
    using e k by (auto simp: job_child_watch_def bind_eq_Some_conv Let_def worker_exited_def worker_died_def
        split: prod.splits list.splits job_signal.splits)
  then show ?thesis
    using ok' f worker_ended_result [OF ok'] by (auto simp: frame_def intro: calls_within_trans)
qed

text \<open>Stopping everything at once: the null pointers are taken out, the conversations are freed.\<close>

lemma stop_each_now:
  assumes "stop_each None True l s = Some s'"
    and "\<And>n. (n, None) \<in> set l \<Longrightarrow> \<nexists>c. map_of (s_conversations s) n = Some (Some c)"
  shows "calls_within {} s s' \<and> (\<forall>c. s_heap s' c = None \<longleftrightarrow> s_heap s c = None) \<and>
    (\<forall>n c. map_of (s_conversations s) n = Some (Some c) \<longrightarrow> map_of (s_conversations s') n = Some (Some c))"
  using assms
proof (induction "None :: nat option" True l s rule: stop_each.induct)
  case (2 key e rest s)
  obtain s1 where s1: "(if e = None then Some (s\<lparr>s_conversations := AList.delete key (s_conversations s)\<rparr>)
        else (case e of None \<Rightarrow> None | Some c \<Rightarrow> stop_conversation_now c s)) = Some s1"
    and r: "stop_each None True rest s1 = Some s'"
    using 2(2) by (auto simp: bind_eq_Some_conv split: if_splits)
  have *: "calls_within {} s s1 \<and> (\<forall>c. s_heap s1 c = None \<longleftrightarrow> s_heap s c = None) \<and>
    (\<forall>n c. map_of (s_conversations s) n = Some (Some c) \<longrightarrow> map_of (s_conversations s1) n = Some (Some c)) \<and>
    (\<forall>n c. map_of (s_conversations s1) n = Some (Some c) \<longrightarrow> map_of (s_conversations s) n = Some (Some c))"
  proof (cases e)
    case None
    then have "s1 = s\<lparr>s_conversations := AList.delete key (s_conversations s)\<rparr>" using s1 by simp
    moreover have "\<nexists>c. map_of (s_conversations s) key = Some (Some c)" using 2(3) None by auto
    ultimately show ?thesis by (auto simp: delete_conv' calls_within_def split: if_splits)
  next
    case (Some c)
    then obtain s2 k job where s2: "close_conversation c s = Some s2" "s_heap s2 c = Some k"
      and s1': "s1 = semit [JobFx c (snd (scdm_session_worker_job_stop_now job))] (set_conversation c (k\<lparr>c_job := None\<rparr>) s2)"
      using s1 by (auto simp: stop_conversation_now_def bind_eq_Some_conv)
    have f: "frame s s2" by (rule frame_close [OF s2(1)])
    have x: "calls_within {} s2 s1"
      by (rule calls_within_drop [of _ _ "[JobFx c (snd (scdm_session_worker_job_stop_now job))]"])
        (use s2(2) in \<open>auto simp: s1' semit_def set_conversation_def split: if_splits\<close>)
    have n2: "s_heap s2 d = None \<longleftrightarrow> s_heap s d = None" for d
      using f unfolding frame_def same_table_def by (metis option.map_disc_iff)
    have "s_heap s1 d = None \<longleftrightarrow> s_heap s d = None" for d
      using n2 [of d] s2(2) by (cases "d = c") (auto simp: s1' semit_def set_conversation_def)
    moreover have "s_conversations s1 = s_conversations s"
      using f by (simp add: s1' frame_def same_table_def semit_def set_conversation_def)
    moreover have "calls_within {} s s1" using f x unfolding frame_def by (blast intro: calls_within_trans)
    ultimately show ?thesis by simp
  qed
  have "calls_within {} s1 s' \<and> (\<forall>c. s_heap s' c = None \<longleftrightarrow> s_heap s1 c = None) \<and>
    (\<forall>n c. map_of (s_conversations s1) n = Some (Some c) \<longrightarrow> map_of (s_conversations s') n = Some (Some c))"
  proof (rule 2(1) [OF _ r])
    show "(if e = None then Some (if True then s\<lparr>s_conversations := AList.delete key (s_conversations s)\<rparr> else s)
        else case e of None \<Rightarrow> None | Some c \<Rightarrow> if True then stop_conversation_now c s else stop_conversation c s) = Some s1"
      using s1 by (cases e) simp_all
    show "\<nexists>c. map_of (s_conversations s1) n = Some (Some c)" if "(n, None) \<in> set rest" for n
    proof -
      have "(n, None) \<in> set ((key, e) # rest)" using that by simp
      from 2(3) [OF this] show ?thesis using * by blast
    qed
  qed
  then show ?case using * by (metis calls_within_trans)
qed simp

lemma free_each_result:
  assumes "free_each l s = Some s'"
  shows "calls_within {} s s' \<and> (\<forall>c. s_heap s c = None \<longrightarrow> s_heap s' c = None) \<and> (\<forall>n c. (n, Some c) \<in> set l \<longrightarrow> s_heap s' c = None) \<and>
    s_session_conversation s' = s_session_conversation s"
  using assms
proof (induction l s rule: free_each.induct)
  case (2 n e rest s)
  obtain c s1 where c: "e = Some c" "free_conversation c s = Some s1" "free_each rest s1 = Some s'"
    using 2(2) by (auto simp: bind_eq_Some_conv free_entry_def split: option.splits)
  obtain fx where s1: "s1 = s\<lparr>s_log := s_log s @ fx, s_heap := (s_heap s)(c := None)\<rparr>" "\<forall>d m. CallWorker d m \<notin> set fx"
    using free_result [OF c(2)] by auto
  have x: "calls_within {} s s1" by (rule calls_within_drop [of _ _ fx]) (use s1 in \<open>auto split: if_splits\<close>)
  have "free_entry e s = Some s1" using c by (simp add: free_entry_def)
  from 2(1) [OF this c(3)] show ?case using x s1(1) c(1) by (auto intro: calls_within_trans)
qed simp

lemma do_reset_result:
  assumes ok: "table_ok s" and e: "do_reset s = Some s'"
  shows "s_conversations s' = [] \<and> (\<forall>c. s_heap s' c = None) \<and> s_session_conversation s' = None \<and> calls_within {} s s'"
proof -
  obtain s1 s2 where s1: "stop_each None True (s_conversations s) s = Some s1" and s2: "free_each (s_conversations s1) s1 = Some s2"
    and s': "s_conversations s' = []" "s_heap s' = s_heap s2" "s_log s' = s_log s2" "s_session_conversation s' = None"
    using e by (auto simp: do_reset_def stop_all_conversations_def stop_all_other_conversations_def bind_eq_Some_conv Let_def)
  have "\<nexists>c. map_of (s_conversations s) n = Some (Some c)" if "(n, None) \<in> set (s_conversations s)" for n
    using that ok by (auto simp: table_ok_def dest: map_of_is_SomeI)
  from stop_each_now [OF s1 this] have 1: "calls_within {} s s1" "\<And>c. s_heap s1 c = None \<longleftrightarrow> s_heap s c = None"
    "\<And>n c. map_of (s_conversations s) n = Some (Some c) \<Longrightarrow> map_of (s_conversations s1) n = Some (Some c)" by blast+
  have 2: "calls_within {} s1 s2" "\<And>c. s_heap s1 c = None \<Longrightarrow> s_heap s2 c = None"
    "\<And>n c. (n, Some c) \<in> set (s_conversations s1) \<Longrightarrow> s_heap s2 c = None"
    using free_each_result [OF s2] by blast+
  have "s_heap s2 c = None" for c
  proof (cases "s_heap s c")
    case None
    then show ?thesis using 1(2) 2(2) by simp
  next
    case (Some k)
    from map_of_SomeD [OF 1(3) [OF table_ok_map [OF ok Some]]] show ?thesis by (rule 2(3))
  qed
  moreover have "calls_within {} s s'"
    using calls_within_trans [OF 1(1) 2(1)] s' by (auto simp: calls_within_def)
  ultimately show ?thesis using s' by simp
qed

lemma reset_table: "table_ok s \<Longrightarrow> do_reset s = Some s' \<Longrightarrow> table_ok s' \<and> calls_within {} s s'"
  using do_reset_result [of s s'] by (simp add: table_ok_def)

section \<open>Handlers\<close>

lemma frame_set_pending: "set_pending_query c i s = Some s' \<Longrightarrow> frame s s'"
  by (auto simp: set_pending_query_def bind_eq_Some_conv split: if_splits intro: frame_set)

lemma frame_answer:
  assumes "answer_pending_query c t s = Some s'"
  shows "frame s s'"
proof -
  obtain k where k: "s_heap s c = Some k" using assms by (auto simp: answer_pending_query_def bind_eq_Some_conv)
  have "frame s (set_conversation c (k\<lparr>c_pending_invocation := None\<rparr>) s)" by (rule frame_set [OF k]) simp_all
  then show ?thesis
    using assms k by (auto simp: answer_pending_query_def bind_eq_Some_conv intro: frame_trans split: option.splits)
qed

lemma frame_cancel_pending:
  assumes "cancel_pending_query c s = Some s'"
  shows "frame s s'"
proof -
  obtain k where k: "s_heap s c = Some k" using assms by (auto simp: cancel_pending_query_def bind_eq_Some_conv)
  have "frame s (set_conversation c (k\<lparr>c_pending_invocation := None\<rparr>) s)" by (rule frame_set [OF k]) simp_all
  then show ?thesis
    using assms k by (auto simp: cancel_pending_query_def bind_eq_Some_conv intro: frame_trans split: option.splits)
qed

lemma frame_answer_query: "scdm_session_answer_query n t s = Some s' \<Longrightarrow> frame s s'"
  by (auto simp: scdm_session_answer_query_def dest: frame_answer split: option.splits)

lemma frame_complete [simp]: "frame s (complete_greeter i r s)"
  by (simp add: complete_greeter_def)

lemma frame_unless_running:
  "unless_running i f s = Some s' \<Longrightarrow> (\<And>s'. f s = Some s' \<Longrightarrow> frame s s') \<Longrightarrow> frame s s'"
  by (auto simp: unless_running_def split: if_splits)

lemma frame_tell: "tell_session_name v l s = Some s' \<Longrightarrow> frame s s'"
proof (induction v l s rule: tell_session_name.induct)
  case (3 v n c rest s)
  obtain name s1 s2 where s1: "get_session_name v s = Some (name, s1)"
    and s2: "call_worker c None (CallSetSessionName name) s1 = Some s2" and r: "tell_session_name v rest s2 = Some s'"
    using 3(2) by (auto simp: bind_eq_Some_conv)
  show ?case
    using frame_name [OF s1] frame_call_worker [OF s2] 3(1) [OF s1 _ s2 r] by (auto intro: frame_trans)
qed simp_all

lemma frame_select_session:
  assumes "scdm_session_select_session v t s = Some s'"
  shows "frame s s'"
proof -
  obtain s1 where s1: "update_session_type v (s\<lparr>s_selected_session := Some t\<rparr>) = Some s1"
    and s2: "tell_session_name v (s_conversations s1) s1 = Some s'"
    using assms by (auto simp: scdm_session_select_session_def bind_eq_Some_conv)
  show ?thesis
    by (rule frame_trans [OF frame_trans [OF frame_fields(6) frame_update_session_type [OF s1]] frame_tell [OF s2]])
qed

lemma frame_saved_session:
  assumes "worker_on_saved_session_name_read v t s = Some s'"
  shows "frame s s'"
proof -
  have *: "frame s (to_greeter x (b\<lparr>s_saved_session := y\<rparr>))" if "frame s b" for b x y
    using that by (blast intro: frame_trans frame_to_greeter frame_fields)
  show ?thesis
    using assms
    by (auto simp: worker_on_saved_session_name_read_def bind_eq_Some_conv split: if_splits
        dest!: frame_default frame_update_session_type intro: * frame_trans [OF frame_fields(4)] frame_trans)
qed

lemma frame_username_changed: "worker_on_username_changed v t s = Some s' \<Longrightarrow> frame s s'"
  by (auto simp: worker_on_username_changed_def dest!: frame_defaults_changed intro: frame_trans [OF frame_select_user])

lemma frame_session_exited [simp]: "frame s (worker_on_session_exited status s)"
  unfolding worker_on_session_exited_def by (rule frame_trans [OF frame_fields(8) frame_semit]) (auto split: if_splits)

lemma frame_hello:
  assumes "register_worker v i conn pid s = Some s'"
  shows "frame s s'"
proof (cases "conn \<in> set (s_pending_worker_connections s)")
  case False
  then show ?thesis using assms by (auto simp: register_worker_def)
next
  case True
  let ?s = "s\<lparr>s_pending_worker_connections := remove1 conn (s_pending_worker_connections s)\<rparr>"
  obtain found where found: "find_conversation_by_pid ?s pid = Some found"
    using assms True by (auto simp: register_worker_def Let_def bind_eq_Some_conv)
  show ?thesis
  proof (cases found)
    case None
    then have "s' = semit [Respond i (ErrorReply AccessDenied), CloseConnection conn] ?s"
      using assms True found by (simp add: register_worker_def Let_def)
    then show ?thesis by (auto intro: frame_trans [OF frame_fields(10) frame_semit])
  next
    case (Some c)
    obtain k where k: "s_heap s c = Some k"
      using assms True found Some by (auto simp: register_worker_def Let_def bind_eq_Some_conv)
    let ?s1 = "to_verifier [ConversationStarted (c_service_name k)] (semit [Emit (CONVERSATION_STARTED (c_service_name k))]
      (set_conversation c (k\<lparr>c_worker_proxy := True, c_manager_interface := True\<rparr>) (semit [Respond i Returned] ?s)))"
    have "frame s (set_conversation c (k\<lparr>c_worker_proxy := True, c_manager_interface := True\<rparr>) (semit [Respond i Returned] ?s))"
      by (rule frame_trans [OF frame_trans [OF frame_fields(10) frame_Emit(2)] frame_set]) (use k in \<open>auto simp: semit_def\<close>)
    then have f1: "frame s ?s1" by (blast intro: frame_trans frame_Emit frame_to_verifier)
    have f2: "frame s1 s'" if "scdm_session_setup_for_user v n u s1 = Some s2" "s_heap s2 c = Some k2"
      "s' = set_conversation c (k2\<lparr>c_starting_username := None\<rparr>) s2" for s1 s2 n u k2
      unfolding that(3) by (rule frame_trans [OF frame_setup_user [OF that(1)] frame_set [OF that(2)]]) simp_all
    have "frame ?s1 s'"
      using assms True found Some k f2
      by (auto simp: register_worker_def Let_def bind_eq_Some_conv dest: frame_setup split: if_splits option.splits)
    with f1 show ?thesis by (rule frame_trans)
  qed
qed

lemma begin_verification_result:
  assumes ok: "table_ok s" and b: "begin_verification v i n u s = Some s'"
  shows "table_ok s' \<and> calls_within {} s s'"
proof -
  obtain b s1 where s1: "scdm_session_start_conversation v n s = Some (b, s1)"
    using assms(2) by (auto simp: begin_verification_def begin_verification_conversation_def bind_eq_Some_conv)
  have 1: "table_ok s1" "calls_within {} s s1" using start_result [OF ok s1] by auto
  have "frame s1 s'"
    using b s1
    by (auto simp: begin_verification_def begin_verification_conversation_def bind_eq_Some_conv Let_def
        intro: frame_set split: option.splits if_splits)
  then show ?thesis using 1 by (auto simp: frame_def intro: same_table_ok calls_within_trans)
qed

lemma frame_info_query: "scdm_session_handle_info_query i n t s = Some s' \<Longrightarrow> frame s s'"
  by (auto simp: scdm_session_handle_info_query_def dest!: frame_set_pending intro: frame_trans split: if_splits option.splits)

lemma frame_secret_query: "scdm_session_handle_secret_info_query i n t s = Some s' \<Longrightarrow> frame s s'"
  by (auto simp: scdm_session_handle_secret_info_query_def dest!: frame_set_pending intro: frame_trans split: if_splits option.splits)

lemma frame_choice_query: "scdm_session_handle_choice_list_query i n t q s = Some s' \<Longrightarrow> frame s s'"
  by (auto simp: scdm_session_handle_choice_list_query_def dest!: frame_set_pending split: if_splits option.splits
      intro: frame_trans [OF _ frame_semit])

lemma frame_reauthenticate:
  assumes "scdm_session_start_reauthentication pid u s = Some s'"
  shows "frame s s'"
proof (cases "s_session_conversation s")
  case (Some c)
  obtain k where k: "s_heap s c = Some k" using assms Some by (auto simp: scdm_session_start_reauthentication_def bind_eq_Some_conv)
  have "frame s (set_conversation c (k\<lparr>c_reauth_pid_of_caller := pid\<rparr>) s)" by (rule frame_set [OF k]) simp_all
  then show ?thesis
    using assms Some k
    by (auto simp: scdm_session_start_reauthentication_def bind_eq_Some_conv dest!: frame_call_worker intro: frame_trans)
qed (use assms in \<open>simp add: scdm_session_start_reauthentication_def\<close>)

section \<open>Callbacks\<close>

lemma reach_table_ok: "reach L s s' \<Longrightarrow> table_ok s \<Longrightarrow> table_ok s'"
  unfolding reach_def by (blast intro: same_table_ok)

lemma frame_table_ok: "frame s s' \<Longrightarrow> table_ok s \<Longrightarrow> table_ok s'"
  unfolding frame_def by (blast intro: same_table_ok)

lemma frame_reach: "frame s s1 \<Longrightarrow> reach L s1 s' \<Longrightarrow> reach L s s'"
  by (blast intro: reach_trans reach_frame)

text \<open>The next call of a login, after a step that leaves the table alone.\<close>

lemma next_call:
  assumes f: "frame s s1" and e: "call_service (c_service_name k) p m s1 = Some s'" "call_of m = Some p"
    and ok: "table_ok s" and k: "s_heap s c = Some k"
  shows "reach {(c, p)} s s'"
proof -
  obtain k1 where "s_heap s1 c = Some k1" "c_service_name k1 = c_service_name k"
    using same_table_heap' [of s s1 c k] f k by (auto simp: frame_def)
  then have "reach {(c, p)} s1 s'"
    using call_service_reach [OF e frame_table_ok [OF f ok], of c k1] by simp
  then show ?thesis by (rule frame_reach [OF f])
qed

lemma authenticate_reach:
  assumes e: "on_authenticate_cb c r s = Some s'" and ok: "table_ok s"
  shows "reach (if worked r then {(c, AuthorizeCall)} else {}) s s'"
proof (cases r)
  case Gone
  then show ?thesis using e by (simp add: on_authenticate_cb_def reach_frame)
next
  case (Worked u)
  then obtain k where "s_heap s c = Some k" "call_service (c_service_name k) AuthorizeCall CallAuthorize s = Some s'"
    using e by (auto simp: on_authenticate_cb_def scdm_session_authorize_def bind_eq_Some_conv)
  then show ?thesis using next_call [OF frame_refl] ok Worked by (simp add: worked_def)
next
  case (CallFailed b m)
  then have "frame s s'"
    using e by (auto simp: on_authenticate_cb_def bind_eq_Some_conv dest!: frame_report_and_stop intro: frame_trans [OF frame_Emit(1)])
  then show ?thesis using CallFailed by (simp add: reach_frame)
qed

lemma authorize_reach:
  assumes e: "on_authorize_cb c r s = Some s'" and ok: "table_ok s"
  shows "reach (if worked r then {(c, EstablishCredentialsCall)} else {}) s s'"
proof (cases r)
  case Gone
  then show ?thesis using e by (simp add: on_authorize_cb_def reach_frame)
next
  case (Worked u)
  then obtain k where "s_heap s c = Some k" "call_service (c_service_name k) EstablishCredentialsCall CallEstablishCredentials s = Some s'"
    using e by (auto simp: on_authorize_cb_def scdm_session_accredit_def bind_eq_Some_conv)
  then show ?thesis using next_call [OF frame_refl] ok Worked by (simp add: worked_def)
next
  case (CallFailed b m)
  then have "frame s s'" using e by (auto simp: on_authorize_cb_def bind_eq_Some_conv dest!: frame_report_and_stop)
  then show ?thesis using CallFailed by (simp add: reach_frame)
qed

lemma frame_announce [simp]: "frame s (announce_verification n s)"
  unfolding announce_verification_def by (auto intro: frame_trans [OF frame_to_verifier frame_Emit(1)])

lemma open_session_reach:
  assumes f: "frame s s1" and e: "scdm_session_open_session v (c_service_name k) s1 = Some s'"
    and ok: "table_ok s" and k: "s_heap s c = Some k"
  shows "reach {(c, OpenCall)} s s'"
proof -
  have fc: "find_conversation_by_name s1 (c_service_name k) = Some c"
    using f table_ok_find [OF ok k] same_table_find [of s s1 "c_service_name k"] by (simp add: frame_def)
  obtain s2 s3 where s2: "send_display_mode v c s1 = Some s2" and s3: "send_session_type c s2 = Some s3"
    and o': "call_worker c (Some OpenCall) CallOpen s3 = Some s'"
    using e fc by (auto simp: scdm_session_open_session_def bind_eq_Some_conv)
  have "frame s s3"
    using f frame_send_display_mode [OF s2] frame_send_session_type [OF s3] by (blast intro: frame_trans)
  then show ?thesis using call_worker_reach [OF o'] by (auto intro: frame_reach)
qed

lemma establish_reach:
  assumes e: "on_establish_credentials_cb v c r s = Some s'" and ok: "table_ok s"
  shows "reach (if worked r then {(c, OpenCall)} else {}) s s'"
proof (cases r)
  case Gone
  then show ?thesis using e by (simp add: on_establish_credentials_cb_def reach_frame)
next
  case (Worked u)
  then obtain k where k: "s_heap s c = Some k"
    and r: "(if s_verification_mode (announce_verification (c_service_name k) s) = MODE_REAUTHENTICATE
        then Some (announce_verification (c_service_name k) s)
        else scdm_session_open_session v (c_service_name k) (announce_verification (c_service_name k) s)) = Some s'"
    using e by (auto simp: on_establish_credentials_cb_def bind_eq_Some_conv Let_def)
  then show ?thesis
    using open_session_reach [OF frame_announce _ ok k] Worked
    by (auto simp: worked_def intro: reach_frame split: if_splits)
next
  case (CallFailed b m)
  then have "frame s s'" using e by (auto simp: on_establish_credentials_cb_def bind_eq_Some_conv dest!: frame_report_and_stop)
  then show ?thesis using CallFailed by (simp add: reach_frame)
qed

lemma initialization_reach:
  assumes e: "on_initialization_complete_cb c r s = Some s'" and ok: "table_ok s"
  shows "reach (if worked r then {(c, AuthenticateCall)} else {}) s s'"
proof -
  have clear: "frame s1 s'" if "s_heap s1 c = Some k" "s' = set_conversation c (k\<lparr>c_starting_invocation := None\<rparr>) s1" for s1 k
    unfolding that(2) by (rule frame_set [OF that(1)]) simp_all
  have resp: "frame s (case i of None \<Rightarrow> s | Some i \<Rightarrow> semit [Respond i x] s)" for i x
    by (auto split: option.split)
  show ?thesis
  proof (cases r)
    case Gone
    then show ?thesis using e by (simp add: on_initialization_complete_cb_def reach_frame)
  next
    case (Worked u)
    then obtain k s1 k1 where k: "s_heap s c = Some k"
      and a: "call_service (c_service_name k) AuthenticateCall CallAuthenticate
          (semit [Emit (SETUP_COMPLETE (c_service_name k))]
            (case c_starting_invocation k of None \<Rightarrow> s | Some i \<Rightarrow> semit [Respond i Returned] s)) = Some s1"
      and s': "s_heap s1 c = Some k1" "s' = set_conversation c (k1\<lparr>c_starting_invocation := None\<rparr>) s1"
      using e by (auto simp: on_initialization_complete_cb_def scdm_session_authenticate_def bind_eq_Some_conv Let_def)
    have "reach {(c, AuthenticateCall)} s s1"
      by (rule next_call [OF frame_trans [OF resp frame_Emit(1)] a _ ok k]) simp
    then show ?thesis using clear [OF s'] Worked by (auto simp: worked_def intro: reach_trans reach_frame)
  next
    case (CallFailed b m)
    then obtain k s1 k1 where k: "s_heap s c = Some k"
      and a: "report_and_stop_conversation (c_service_name k) b m
            (case c_starting_invocation k of None \<Rightarrow> s | Some i \<Rightarrow> semit [Respond i (ErrorReply (FromWorker b m))] s) = Some s1"
      and s': "s_heap s1 c = Some k1" "s' = set_conversation c (k1\<lparr>c_starting_invocation := None\<rparr>) s1"
      using e by (auto simp: on_initialization_complete_cb_def bind_eq_Some_conv Let_def)
    have "frame s s'" by (rule frame_trans [OF frame_trans [OF resp frame_report_and_stop [OF a]] clear [OF s']])
    then show ?thesis using CallFailed by (simp add: reach_frame)
  qed
qed

lemma frame_opened:
  assumes "on_opened c r s = Some s'"
  shows "frame s s'"
proof (cases r)
  case (Worked i)
  then obtain k where k: "s_heap s c = Some k" using assms by (auto simp: on_opened_def bind_eq_Some_conv)
  have "frame s (set_conversation c (k\<lparr>c_session_id := Some i\<rparr>) s)" by (rule frame_set [OF k]) simp_all
  then show ?thesis
    using assms Worked k
    by (auto simp: on_opened_def bind_eq_Some_conv Let_def)
      (rule frame_trans [OF frame_trans [OF frame_trans [OF _ frame_to_greeter] frame_announce] frame_Emit(1)])
qed (use assms in \<open>auto simp: on_opened_def bind_eq_Some_conv dest!: frame_report_and_stop intro: frame_trans [OF _ frame_Emit(1)]\<close>)

lemma frame_started: "on_start_program_cb c r s = Some s' \<Longrightarrow> frame s s'"
  by (auto simp: on_start_program_cb_def bind_eq_Some_conv dest!: frame_session_stop_conversation
      intro: frame_trans [OF frame_fields(12) frame_Emit(1)] frame_trans [OF _ frame_Emit(1)] split: call_result.splits)

lemma frame_reauthentication_started:
  assumes "on_reauthentication_started_cb c r s = Some s'"
  shows "frame s s'"
proof (cases r)
  case Gone
  then show ?thesis using assms by (simp add: on_reauthentication_started_cb_def)
next
  case (Worked a)
  then obtain k where "s_heap s c = Some k"
    "s' = set_conversation c (k\<lparr>c_reauth_pid_of_caller := 0\<rparr>) (semit [Emit (REAUTHENTICATION_STARTED (c_reauth_pid_of_caller k) a)] s)"
    using assms by (auto simp: on_reauthentication_started_cb_def bind_eq_Some_conv)
  then show ?thesis by (auto intro: frame_trans [OF frame_Emit(1) frame_set])
next
  case (CallFailed b m)
  then show ?thesis
    using assms by (auto simp: on_reauthentication_started_cb_def bind_eq_Some_conv intro: frame_set)
qed

lemma take_call_frame:
  assumes "take_call c p s = Some s'"
  shows "frame s s' \<and> (\<exists>k. s_heap s c = Some k \<and> p \<in> set (c_calls k))"
  using assms by (auto simp: take_call_def split: option.splits if_splits intro!: frame_set dest: set_mp [OF set_remove1_subset])

section \<open>The invariant\<close>

lemma reply_in_order:
  assumes t: "take_call c p s = Some s1" and r: "reach L s1 s'"
    and l: "\<And>d q. (d, q) \<in> L \<Longrightarrow> required_replies d q = ev # required_replies c p \<or> required_replies d q = [ev]"
    and ok: "table_ok s" and i: "in_order evs s"
  shows "table_ok s' \<and> in_order (ev # evs) s'"
proof -
  have f: "frame s s1" and k: "\<exists>k. s_heap s c = Some k \<and> p \<in> set (c_calls k)"
    using take_call_frame [OF t] by auto
  have "subseq (required_replies c p) evs" using k i by (auto simp: in_order_def)
  then have "subseq (required_replies d q) (ev # evs)" if "(d, q) \<in> L" for d q
    using l [OF that] by auto
  moreover have "calls_within L s s'"
    using f r unfolding frame_def reach_def by (blast intro: calls_within_mono calls_within_trans)
  moreover have "subseq evs (ev # evs)" by auto
  ultimately have "in_order (ev # evs) s'" using calls_within_in_order i by blast
  then show ?thesis using reach_table_ok [OF r] frame_table_ok [OF f ok] by simp
qed

lemma other_in_order:
  assumes "table_ok s' \<and> calls_within {} s s'" and "in_order evs s"
  shows "table_ok s' \<and> in_order (ev # evs) s'"
  using assms calls_within_in_order [of "{}" s s' evs "ev # evs"] by auto

lemma frame_in_order:
  assumes "frame s s'" and "table_ok s" and "in_order evs s"
  shows "table_ok s' \<and> in_order (ev # evs) s'"
  using other_in_order [OF _ assms(3)] frame_table_ok [OF assms(1,2)] assms(1) by (simp add: frame_def)

theorem session_step_invariant:
  assumes "session_step ev s s'" and ok: "table_ok s" and i: "in_order evs s"
  shows "table_ok s' \<and> in_order (ev # evs) s'"
  using assms(1)
proof cases
  case (initialized c s1 r)
  show ?thesis
    by (rule reply_in_order [OF initialized(2) initialization_reach [OF initialized(3)]])
      (use ok i frame_table_ok take_call_frame [OF initialized(2)] in \<open>auto simp: initialized(1) login_replies_def split: if_splits\<close>)
next
  case (authenticated c s1 r)
  show ?thesis
    by (rule reply_in_order [OF authenticated(2) authenticate_reach [OF authenticated(3)]])
      (use ok i frame_table_ok take_call_frame [OF authenticated(2)] in \<open>auto simp: authenticated(1) login_replies_def numeral_eq_Suc split: if_splits\<close>)
next
  case (authorized c s1 r)
  show ?thesis
    by (rule reply_in_order [OF authorized(2) authorize_reach [OF authorized(3)]])
      (use ok i frame_table_ok take_call_frame [OF authorized(2)] in \<open>auto simp: authorized(1) login_replies_def numeral_eq_Suc split: if_splits\<close>)
next
  case (accredited c s1 v r)
  show ?thesis
    by (rule reply_in_order [OF accredited(2) establish_reach [OF accredited(3)]])
      (use ok i frame_table_ok take_call_frame [OF accredited(2)] in \<open>auto simp: accredited(1) login_replies_def numeral_eq_Suc split: if_splits\<close>)
next
  case (opened c s1 r)
  have "frame s s'" using frame_trans frame_opened [OF opened(3)] take_call_frame [OF opened(2)] by blast
  then show ?thesis using ok i by (rule frame_in_order)
next
  case (started c s1 r)
  have "frame s s'" using frame_trans frame_started [OF started(3)] take_call_frame [OF started(2)] by blast
  then show ?thesis using ok i by (rule frame_in_order)
next
  case (reauthentication c s1 r)
  have "frame s s'" using frame_trans frame_reauthentication_started [OF reauthentication(3)] take_call_frame [OF reauthentication(2)] by blast
  then show ?thesis using ok i by (rule frame_in_order)
next
  case (child_ended c status)
  then show ?thesis using other_in_order [OF child_watch_result [OF ok] i] by simp
next
  case (client_begin v i n)
  then show ?thesis
    using other_in_order [OF begin_verification_result [OF ok] assms(3)] by (simp add: scdm_session_handle_client_begin_verification_def)
next
  case (client_begin_user v i n u)
  then show ?thesis
    using other_in_order [OF begin_verification_result [OF ok] assms(3)] by (simp add: scdm_session_handle_client_begin_verification_for_user_def)
next
  case (start_conversation v n b)
  then show ?thesis using other_in_order [OF start_result [OF ok] i] by simp
next
  case reset_session
  then have r: "do_reset (to_verifier [VerifierReset] s) = Some s'" by (simp add: scdm_session_reset_def)
  have f: "frame s (to_verifier [VerifierReset] s)" by simp
  from reset_table [OF frame_table_ok [OF f ok] r] show ?thesis
    using other_in_order [OF _ i] f unfolding frame_def by (blast intro: calls_within_trans)
next
  case close_session
  then obtain s1 where s1: "do_reset s = Some s1" "s' = s1\<lparr>s_outside_connections := []\<rparr>" by (auto simp: scdm_session_close_def)
  from reset_table [OF ok s1(1)] have "table_ok s' \<and> calls_within {} s s'"
    using frame_fields(11) [of s1 "[]"] frame_table_ok unfolding s1(2) frame_def by (blast intro: calls_within_trans)
  then show ?thesis by (rule other_in_order [OF _ i])
next
  case (client_autologin v i n)
  have "frame s s'"
    using client_autologin(2) unfolding scdm_session_handle_client_begin_auto_login_def
    by (rule frame_unless_running) (blast intro: frame_trans frame_complete frame_setup_user)
  then show ?thesis using ok assms(3) by (rule frame_in_order)
next
  case (client_session v i n)
  have "frame s s'"
    using client_session(2) unfolding scdm_session_handle_client_select_session_def
    by (rule frame_unless_running) (blast intro: frame_trans frame_complete frame_select_session)
  then show ?thesis using ok assms(3) by (rule frame_in_order)
qed ((rule frame_in_order [OF _ ok i],
    (auto simp: scdm_session_handle_info_def scdm_session_handle_problem_def worker_on_cancel_pending_query_def
       worker_on_reauthenticated_def worker_on_saved_language_name_read_def handle_connection_from_worker_def
       on_worker_connection_closed_def scdm_session_handle_client_answer_query_def
       scdm_session_handle_client_select_choice_def scdm_session_handle_client_cancel_def scdm_session_cancel_def
       scdm_session_handle_client_enable_extensions_def scdm_session_handle_client_disconnect_def
       scdm_session_handle_client_select_hostname_def allow_user_function_def handle_connection_from_outside_def
       on_outside_connection_closed_def scdm_session_set_timed_login_details_def scdm_session_select_program_def
       scdm_session_handle_client_select_user_def scdm_session_handle_client_start_session_when_ready_def
       scdm_session_handle_get_timed_login_details_def unless_running_def Let_def
     intro: frame_info_query frame_secret_query frame_choice_query frame_cancel_pending frame_username_changed
       frame_saved_session frame_hello frame_session_stop_conversation frame_setup frame_setup_user
       frame_setup_program frame_send_environment frame_start_session frame_reauthenticate frame_select_session
       frame_trans [OF frame_Emit(2) frame_answer_query] frame_trans [OF frame_Emit(2) frame_Emit(1)]
       frame_trans [OF frame_Emit(2) frame_to_verifier] frame_trans [OF frame_fields(5) frame_to_greeter]
       frame_trans [OF frame_complete frame_select_user] frame_trans [OF frame_complete frame_Emit(1)]
       frame_trans [OF frame_complete frame_to_greeter] frame_trans [OF frame_fields(14) frame_Emit(2)]
       frame_trans [OF frame_eq frame_Emit(1)] frame_eq frame_semit
     split: if_splits option.splits)[1])+)

end
