(* ===== verification/Session_Props.thy ===== *)
theory Session_Props
  imports Session_Facts
begin

text \<open>
  The properties of sessions, and a login as an example.
\<close>

section \<open>An example login\<close>

definition example_key_file :: key_file where
  "example_key_file = \<lparr>kf_boolean = (\<lambda>k. Inl KeyNotFound), kf_string = (\<lambda>k. if k = ''Exec'' then Some ''gnome-session'' else None),
     kf_string_list = (\<lambda>k. None), kf_has_key = (\<lambda>k. k = ''Exec'')\<rparr>"

text \<open>One session file, \<open>gnome.desktop\<close>; every worker gets the process id 4000.\<close>

definition example_job_world :: job_world where
  "example_job_world = \<lparr>jw_libexecdir = ''/usr/libexec'', jw_parse_argv = (\<lambda>s. Some [s]), jw_environ = [''LANG=C''],
     jw_spawn = (\<lambda>a e. Some 4000)\<rparr>"

definition example_sworld :: session_world where
  "example_sworld = \<lparr>sv_load_from_dirs = (\<lambda>dirs f. if f = ''gnome.desktop'' then Some (''/usr/share/xsessions/gnome.desktop'', example_key_file) else None),
     sv_read_dir = (\<lambda>d. None), sv_system_data_dirs = [''/usr/share''], sv_build_filename = concat,
     sv_find_program_in_path = (\<lambda>p. True), sv_wayland_support = True, sv_user_display_server = True, sv_dmconfdir = ''/etc/dm'',
     sv_confdir = ''/etc/scdm'', sv_datadir = ''/usr/share'', sv_libexecdir = ''/usr/libexec'', sv_lc_messages = Some ''C'',
     sv_environ = [], sv_disallow_tcp = None, sv_job = example_job_world\<rparr>"

definition example_session :: session where
  "example_session = scdm_session_new MODE_LOGIN 120 (Some '':0'') None None (Some ''seat0'') None True None (Some ''unix:w'')"

text \<open>The greeter connects and begins a verification, the worker connects, and replies to its calls.\<close>

definition example_reply :: "pending_call \<Rightarrow> session \<Rightarrow> session option" where
  "example_reply p s =
     Option.bind (take_call 0 p s)
       (if p = InitializeCall then on_initialization_complete_cb 0 (Worked ())
        else if p = AuthenticateCall then on_authenticate_cb 0 (Worked ())
        else if p = AuthorizeCall then on_authorize_cb 0 (Worked ())
        else on_establish_credentials_cb example_sworld 0 (Worked ()))"

definition example_start :: "session option" where
  "example_start = do {
     let s = handle_connection_from_outside 1 500 example_session;
     s \<leftarrow> scdm_session_handle_client_begin_verification_for_user example_sworld 1 ''gdm-password'' ''joe'' s;
     let s = handle_connection_from_worker 7 s;
     register_worker example_sworld 2 7 4000 s
   }"

definition example_accredited :: "session option" where
  "example_accredited = do {
     s \<leftarrow> example_start;
     s \<leftarrow> example_reply InitializeCall s;
     s \<leftarrow> example_reply AuthenticateCall s;
     s \<leftarrow> example_reply AuthorizeCall s;
     example_reply EstablishCredentialsCall s
   }"

lemma example_start_run: "example_start = Some s \<Longrightarrow> session_run example_session [Other_event, Other_event, Other_event, Other_event] s"
  unfolding example_start_def Let_def bind_eq_Some_conv
  by (elim exE conjE)
    (rule run_step [OF run_step [OF run_step [OF run_step [OF run_Nil client_connected] client_begin_user] worker_connected] hello],
      auto simp: allow_worker_function_def)

lemma example_reply_run:
  assumes "session_run s0 evs s" and "example_reply p s = Some s'"
    and "p \<in> {InitializeCall, AuthenticateCall, AuthorizeCall, EstablishCredentialsCall}"
  shows "session_run s0 (Reply_to 0 p True # evs) s'"
proof (rule run_step [OF assms(1)])
  have w: "worked (Worked ())" by (simp add: worked_def)
  show "session_step (Reply_to 0 p True) s s'"
    using assms(2,3) initialized [of 0 s _ "Worked ()" s'] authenticated [of 0 s _ "Worked ()" s']
      authorized [of 0 s _ "Worked ()" s'] accredited [of 0 s _ example_sworld "Worked ()" s']
    by (auto simp: example_reply_def bind_eq_Some_conv w)
qed

lemma example_accredited_run:
  assumes "example_accredited = Some s"
  shows "session_run example_session (login_replies 0 @ [Other_event, Other_event, Other_event, Other_event]) s"
  using assms unfolding example_accredited_def bind_eq_Some_conv
  by (elim exE conjE) (auto simp: login_replies_def intro!: example_reply_run example_start_run)

section \<open>The order of a login\<close>

definition new_session :: "session \<Rightarrow> bool" where
  "new_session s \<longleftrightarrow> (\<exists>m u n h d i a l e w. s = scdm_session_new m u n h d i a l e w)"

lemma run_invariant: "session_run s0 evs s \<Longrightarrow> new_session s0 \<Longrightarrow> table_ok s \<and> in_order evs s"
proof (induction rule: session_run.induct)
  case run_Nil
  then show ?case by (auto simp: new_session_def scdm_session_new_def table_ok_def in_order_def)
next
  case (run_step evs s ev s')
  then show ?case using session_step_invariant by blast
qed

text \<open>C2. The daemon leads a worker through the login in order: whatever clients, workers and the rest of the
  daemon do, a worker is asked to open a session only after it has reported, in this order, that it was
  initialized, that the user was authenticated, that the account was authorized, and that the credentials
  were established.\<close>

theorem login_calls_in_order:
  assumes "session_run s0 evs s" and "new_session s0" and "CallWorker c CallOpen \<in> set (s_log s)"
  shows "subseq [Reply_to c EstablishCredentialsCall True, Reply_to c AuthorizeCall True, Reply_to c AuthenticateCall True,
    Reply_to c InitializeCall True] evs"
proof -
  have "made c OpenCall (s_log s)" using assms(3) by (auto simp: made_def intro: exI [of _ CallOpen])
  then have "subseq (required_replies c OpenCall) evs"
    using run_invariant [OF assms(1,2)] unfolding in_order_def by blast
  then show ?thesis by (simp add: login_replies_def)
qed

fun opens :: "nat \<Rightarrow> session_effect \<Rightarrow> bool" where
  "opens c (CallWorker d CallOpen) = (c = d)"
| "opens c _ = False"

lemma opens_iff: "opens c f \<longleftrightarrow> f = CallWorker c CallOpen"
  by (cases "(c, f)" rule: opens.cases) auto

theorem login_calls_in_order_witness:
  "\<exists>s. example_accredited = Some s \<and> CallWorker 0 CallOpen \<in> set (s_log s) \<and>
     subseq [Reply_to 0 EstablishCredentialsCall True, Reply_to 0 AuthorizeCall True, Reply_to 0 AuthenticateCall True,
       Reply_to 0 InitializeCall True] (login_replies 0 @ [Other_event, Other_event, Other_event, Other_event])"
proof -
  have "(case example_accredited of None \<Rightarrow> False | Some s \<Rightarrow> list_ex (opens 0) (s_log s))" by code_simp
  then obtain s where s: "example_accredited = Some s" "CallWorker 0 CallOpen \<in> set (s_log s)"
    by (auto simp: list_ex_iff opens_iff split: option.splits)
  have "new_session example_session" by (unfold new_session_def example_session_def) blast
  from login_calls_in_order [OF example_accredited_run [OF s(1)] this s(2)] show ?thesis using s by blast
qed

text \<open>C3. In every reachable session the table of conversations and the conversations that are alive agree: a live
  conversation is found under its service name, an entry that is no null pointer is alive, no name occurs
  twice, and each live conversation has its worker process.\<close>

theorem conversations_consistent:
  assumes "session_run s0 evs s" and "new_session s0"
  shows "distinct (map fst (s_conversations s)) \<and>
    (\<forall>n c. find_conversation_by_name s n = Some c \<longleftrightarrow> (\<exists>k. s_heap s c = Some k \<and> c_service_name k = n)) \<and>
    (\<forall>c k. s_heap s c = Some k \<longrightarrow> c_job k \<noteq> None)"
proof -
  have ok: "table_ok s" using run_invariant [OF assms] by simp
  have "\<exists>k. s_heap s c = Some k \<and> c_service_name k = n" if "find_conversation_by_name s n = Some c" for n c
    using that ok unfolding table_ok_alt by (auto simp: find_conversation_by_name_def split: option.splits)
  then show ?thesis using table_ok_find [OF ok] ok unfolding table_ok_def by blast
qed

theorem conversations_consistent_witness:
  "\<exists>s k. example_start = Some s \<and> s_heap s 0 = Some k \<and> c_service_name k = ''gdm-password'' \<and> c_job k \<noteq> None \<and>
     find_conversation_by_name s ''gdm-password'' = Some 0"
proof -
  have "map_option (\<lambda>s. map_option c_service_name (s_heap s 0)) example_start = Some (Some ''gdm-password'')" by code_simp
  then obtain s k where s: "example_start = Some s" "s_heap s 0 = Some k" "c_service_name k = ''gdm-password''" by auto
  have "new_session example_session" by (unfold new_session_def example_session_def) blast
  from conversations_consistent [OF example_start_run [OF s(1)] this] show ?thesis using s by blast
qed

section \<open>What the worker is told\<close>

lemma set_details_append: "set_details (xs @ ys) w = Option.bind (set_details xs w) (set_details ys)"
  by (induction xs arbitrary: w) (auto split: Option.bind_splits)

lemma set_details_detail: "set_details (detail key x) w = (case x of None \<Rightarrow> Some w | Some y \<Rightarrow> set_detail (key, VString y) w)"
  by (simp add: detail_def split: option.split)

text \<open>One detail, read into a worker that has nothing in its field yet.\<close>

definition string_detail :: "string \<Rightarrow> string option \<Rightarrow> 'h worker \<Rightarrow> 'h worker option" where
  "string_detail key x w = (case x of None \<Rightarrow> Some w | Some y \<Rightarrow> set_detail (key, VString y) w)"

lemma det_append: "set_details (detail key x @ ds) w = Option.bind (string_detail key x w) (set_details ds)"
  by (simp add: set_details_append set_details_detail string_detail_def)

lemma det_last: "set_details (detail key x) w = string_detail key x w"
  by (simp add: set_details_detail string_detail_def)

lemma det_flag: "set_details ((if b then [d] else []) @ ds) w = Option.bind (if b then set_detail d w else Some w) (set_details ds)"
  by simp

lemma string_details:
  "w_username w = None \<Longrightarrow> string_detail ''username'' x w = Some (w\<lparr>w_username := x\<rparr>)"
  "w_log_file w = None \<Longrightarrow> string_detail ''log-file'' x w = Some (w\<lparr>w_log_file := x\<rparr>)"
  "w_x11_display_name w = None \<Longrightarrow> string_detail ''x11-display-name'' x w = Some (w\<lparr>w_x11_display_name := x\<rparr>)"
  "w_hostname w = None \<Longrightarrow> string_detail ''hostname'' x w = Some (w\<lparr>w_hostname := x\<rparr>)"
  "w_display_device w = None \<Longrightarrow> string_detail ''console'' x w = Some (w\<lparr>w_display_device := x\<rparr>)"
  "w_display_seat_id w = None \<Longrightarrow> string_detail ''seat-id'' x w = Some (w\<lparr>w_display_seat_id := x\<rparr>)"
  "w_x11_authority_file w = None \<Longrightarrow> string_detail ''x11-authority-file'' x w = Some (w\<lparr>w_x11_authority_file := x\<rparr>)"
  by (cases w; cases x; simp add: string_detail_def)+

lemma flag_details:
  "\<not> w_is_program_session w \<Longrightarrow> (if b then set_detail (''is-program-session'', VBool True) w else Some w) = Some (w\<lparr>w_is_program_session := b\<rparr>)"
  "\<not> w_display_is_local w \<Longrightarrow> (if b then set_detail (''display-is-local'', VBool True) w else Some w) = Some (w\<lparr>w_display_is_local := b\<rparr>)"
  "\<not> w_display_is_initial w \<Longrightarrow> (if b then set_detail (''display-is-initial'', VBool True) w else Some w) = Some (w\<lparr>w_display_is_initial := b\<rparr>)"
  by (cases w; simp)+

text \<open>The details of an initialization survive the trip from the session to its worker: reading them, the
  new worker has the service, user, log file, display, seat and flags of the session, and of the extensions
  those that it supports.\<close>

theorem initialize_details_round_trip:
  "\<exists>w. set_details (initialize_details service_name username log_file s) (scdm_session_worker_new reauth supported) = Some w \<and>
     w_service w = Some service_name \<and> w_extensions w = Some (filter_extensions (s_user_verifier_extensions s)) \<and>
     w_username w = username \<and> w_log_file w = log_file \<and> w_is_program_session w = s_is_program_session s \<and>
     w_x11_display_name w = s_display_name s \<and> w_hostname w = s_display_hostname s \<and>
     w_display_is_local w = s_display_is_local s \<and> w_display_is_initial w = s_display_is_initial s \<and>
     w_display_device w = s_display_device s \<and> w_display_seat_id w = s_display_seat_id s \<and>
     w_x11_authority_file w = s_display_x11_authority_file s"
  unfolding initialize_details_def
  by (simp add: det_append det_flag det_last string_details flag_details scdm_session_worker_new_def)

text \<open>The worker sets up the terminal in the mode the daemon chose: the name that is sent of a mode is read
  back as that mode.\<close>

theorem display_mode_round_trip:
  "w_display_mode (scdm_session_worker_handle_set_session_display_mode i
     (scdm_session_display_mode_to_string (scdm_session_get_display_mode v s)) w) = scdm_session_get_display_mode v s"
  by (simp add: scdm_session_worker_handle_set_session_display_mode_def scdm_session_display_mode_to_string_def
      scdm_session_display_mode_from_string_def scdm_session_get_display_mode_def wemit_def)

section \<open>Ends of conversations\<close>

lemma close_succeeds: "s_heap s c = Some k \<Longrightarrow> \<exists>s'. close_conversation c s = Some s' \<and> frame s s' \<and> s_heap s' c = Some (k\<lparr>c_manager_interface := False\<rparr>)"
  using frame_close [of c s] by (simp add: close_conversation_def set_conversation_def)

definition jobs_of :: "(string \<times> nat option) list \<Rightarrow> session \<Rightarrow> bool" where
  "jobs_of l s \<longleftrightarrow> (\<forall>n c. (n, Some c) \<in> set l \<longrightarrow> (\<exists>k. s_heap s c = Some k \<and> c_job k \<noteq> None))"

lemma stop_now_succeeds:
  assumes "s_heap s c = Some k" and "c_job k \<noteq> None"
  shows "\<exists>s' k'. stop_conversation_now c s = Some s' \<and> s_conversations s' = s_conversations s \<and>
    s_heap s' = (s_heap s)(c := Some k')"
proof -
  obtain s1 where s1: "close_conversation c s = Some s1" "s_heap s1 c = Some (k\<lparr>c_manager_interface := False\<rparr>)"
    using close_succeeds [OF assms(1)] by auto
  have "s_heap s1 = (s_heap s)(c := Some (k\<lparr>c_manager_interface := False\<rparr>))" "s_conversations s1 = s_conversations s"
    using s1 assms(1) by (auto simp: close_conversation_def set_conversation_def semit_def)
  then show ?thesis
    using s1 assms by (auto simp: stop_conversation_now_def set_conversation_def semit_def)
qed

lemma stop_each_succeeds:
  assumes "jobs_of l s" and "distinct (map snd (filter (\<lambda>e. snd e \<noteq> None) l))"
  shows "\<exists>s'. stop_each None True l s = Some s' \<and> (\<forall>c. s_heap s' c = None \<longleftrightarrow> s_heap s c = None) \<and>
    s_conversations s' = filter (\<lambda>e. (fst e, None) \<notin> set l) (s_conversations s)"
  using assms
proof (induction l arbitrary: s)
  case (Cons a l)
  obtain n e where a: "a = (n, e)" by (cases a)
  show ?case
  proof (cases e)
    case None
    let ?s = "s\<lparr>s_conversations := AList.delete n (s_conversations s)\<rparr>"
    have "jobs_of l ?s" using Cons.prems(1) by (auto simp: jobs_of_def)
    then obtain s' where "stop_each None True l ?s = Some s'" "\<forall>c. s_heap s' c = None \<longleftrightarrow> s_heap s c = None"
      "s_conversations s' = filter (\<lambda>e. (fst e, None) \<notin> set l) (s_conversations ?s)"
      using Cons.IH [of ?s] Cons.prems(2) a None by auto
    moreover have "filter (\<lambda>e. (fst e, None) \<notin> set l) (AList.delete n (s_conversations s)) =
        filter (\<lambda>e. (fst e, None) \<notin> set (a # l)) (s_conversations s)"
      by (auto simp: a None AList.delete_eq intro: filter_cong)
    ultimately show ?thesis by (simp add: a None)
  next
    case (Some c)
    have "(n, Some c) \<in> set (a # l)" using a Some by simp
    then obtain k where k: "s_heap s c = Some k" "c_job k \<noteq> None" using Cons.prems(1) unfolding jobs_of_def by blast
    obtain s1 k' where s1: "stop_conversation_now c s = Some s1" "s_conversations s1 = s_conversations s"
      "s_heap s1 = (s_heap s)(c := Some k')"
      using stop_now_succeeds [OF k] by auto
    have "(m, Some c) \<notin> set l" for m using Cons.prems(2) a Some by (force simp: image_iff)
    then have "jobs_of l s1" using Cons.prems(1) s1(3) by (auto simp: jobs_of_def)
    moreover have "distinct (map snd (filter (\<lambda>e. snd e \<noteq> None) l))" using Cons.prems(2) by (simp split: if_splits)
    ultimately obtain s' where "stop_each None True l s1 = Some s'" "\<forall>c. s_heap s' c = None \<longleftrightarrow> s_heap s1 c = None"
      "s_conversations s' = filter (\<lambda>e. (fst e, None) \<notin> set l) (s_conversations s1)"
      using Cons.IH [of s1] by auto
    then show ?thesis using s1 k by (auto simp: a Some)
  qed
qed simp

lemma free_each_succeeds:
  assumes "\<forall>e \<in> set l. \<exists>c. snd e = Some c \<and> s_heap s c \<noteq> None" and "distinct (map snd l)"
  shows "\<exists>s'. free_each l s = Some s'"
  using assms
proof (induction l arbitrary: s)
  case (Cons a l)
  obtain n c where a: "a = (n, Some c)" "s_heap s c \<noteq> None" using Cons.prems(1) by (cases a) auto
  then obtain s1 where s1: "free_conversation c s = Some s1"
    using close_succeeds [of s c] by (auto simp: free_conversation_def)
  obtain fx where "s1 = s\<lparr>s_log := s_log s @ fx, s_heap := (s_heap s)(c := None)\<rparr>" using free_result [OF s1] by auto
  then have "\<exists>s'. free_each l s1 = Some s'"
    using Cons.prems a by (intro Cons.IH) (auto simp: image_iff, metis snd_conv)
  then show ?case using s1 by (simp add: a(1) free_entry_def)
qed simp

text \<open>C15. Resetting a reachable session never fails, whatever conversations it has, and leaves none of them: the
  table and the heap are empty, no session conversation is left, and the session no longer counts as running.\<close>

theorem reset_releases_everything:
  assumes "session_run s0 evs s" and "new_session s0"
  shows "\<exists>s'. scdm_session_reset s = Some s' \<and> s_conversations s' = [] \<and> (\<forall>c. s_heap s' c = None) \<and>
    s_session_conversation s' = None \<and> \<not> scdm_session_is_running s'"
proof -
  let ?s = "to_verifier [VerifierReset] s"
  have ok: "table_ok ?s" using run_invariant [OF assms] frame_table_ok [OF frame_to_verifier] by blast
  let ?l = "s_conversations ?s"
  have live: "\<exists>k. s_heap ?s c = Some k \<and> c_service_name k = n \<and> c_job k \<noteq> None" if "(n, Some c) \<in> set ?l" for n c
    using that ok unfolding table_ok_def by blast
  have inj: "inj_on snd (set (filter (\<lambda>e. snd e \<noteq> None) ?l))"
    using live by (auto simp: inj_on_def) (metis option.inject)
  have d: "distinct ?l" using ok by (simp add: table_ok_def distinct_map)
  have j: "jobs_of ?l ?s" unfolding jobs_of_def using live by blast
  have dj: "distinct (map snd (filter (\<lambda>e. snd e \<noteq> None) ?l))" using inj d by (simp add: distinct_map)
  obtain s1 where s1: "stop_each None True ?l ?s = Some s1" "\<And>c. s_heap s1 c = None \<longleftrightarrow> s_heap ?s c = None"
    "s_conversations s1 = filter (\<lambda>e. (fst e, None) \<notin> set ?l) ?l"
    using stop_each_succeeds [OF j dj] by blast
  have some: "\<exists>c. snd e = Some c \<and> s_heap s1 c \<noteq> None" if e: "e \<in> set (s_conversations s1)" for e
  proof (cases "snd e")
    case None
    then show ?thesis using e s1(3) by (cases e) simp
  next
    case (Some c)
    then show ?thesis using e s1(2,3) live [of "fst e" c] by (cases e) auto
  qed
  have "inj_on snd (set (s_conversations s1))"
    using inj some by (auto simp: s1(3) inj_on_def) (metis option.discI)+
  then have "distinct (map snd (s_conversations s1))" using d by (simp add: distinct_map s1(3))
  then obtain s2 where s2: "free_each (s_conversations s1) s1 = Some s2" using free_each_succeeds some by blast
  then have "do_reset ?s \<noteq> None"
    using s1(1) by (simp add: do_reset_def stop_all_conversations_def stop_all_other_conversations_def Let_def)
  then obtain s' where s': "do_reset ?s = Some s'" by blast
  moreover from this have "\<not> scdm_session_is_running s'"
    by (auto simp: do_reset_def scdm_session_is_running_def)
  ultimately have s': "do_reset ?s = Some s'" "\<not> scdm_session_is_running s'" by blast+
  then show ?thesis using do_reset_result [OF ok s'(1)] by (simp add: scdm_session_reset_def)
qed

theorem reset_releases_everything_witness:
  "\<exists>s s'. example_accredited = Some s \<and> s_heap s 0 \<noteq> None \<and> scdm_session_reset s = Some s' \<and> s_conversations s' = []"
proof -
  have "map_option (\<lambda>s. s_heap s 0 = None) example_accredited = Some False" by code_simp
  then obtain s where s: "example_accredited = Some s" "s_heap s 0 \<noteq> None" by auto
  have "new_session example_session" by (unfold new_session_def example_session_def) blast
  from reset_releases_everything [OF example_accredited_run [OF s(1)] this] show ?thesis using s by blast
qed

section \<open>Failed starts\<close>

text \<open>A world in which no worker can be started.\<close>

definition cannot_start :: "session_world \<Rightarrow> bool" where
  "cannot_start v \<longleftrightarrow> (\<forall>a e. jw_spawn (sv_job v) a e = None)"

lemma start_fails:
  assumes "cannot_start v"
  shows "\<exists>s'. start_conversation v n s = (None, s') \<and> s_conversations s' = s_conversations s"
  using assms
  by (auto simp: start_conversation_def scdm_session_worker_job_start_def scdm_session_worker_job_spawn_def cannot_start_def
      Let_def semit_def split: option.splits)

text \<open>C16. When the worker of a new conversation cannot be started, the client is told so, but the table of the
  conversations keeps a null pointer under the name of the service: the next attempt to begin the same
  conversation, even if its worker could be started, ends the daemon, and so does the next worker that
  says hello when the null pointer comes first.\<close>

theorem failed_start_is_fatal:
  assumes "cannot_start v" and "map_of (s_conversations s) n = None"
  shows "\<exists>s'. scdm_session_handle_client_begin_verification v i n s = Some s' \<and>
    Respond i (ErrorReply SpawnFailed) \<in> set (s_log s') \<and> map_of (s_conversations s') n = Some None \<and>
    (\<forall>v' j. scdm_session_handle_client_begin_verification v' j n s' = None) \<and>
    (s_conversations s = [] \<longrightarrow> (\<forall>v' j conn pid. conn \<in> set (s_pending_worker_connections s') \<longrightarrow>
       register_worker v' j conn pid s' = None))"
proof -
  obtain s1 where s1: "start_conversation v n s = (None, s1)" "s_conversations s1 = s_conversations s"
    using start_fails [OF assms(1)] by blast
  let ?s2 = "s1\<lparr>s_conversations := AList.update n None (s_conversations s)\<rparr>"
  have f: "find_conversation_by_name s n = None" using assms(2) by (simp add: find_conversation_by_name_def)
  have st: "scdm_session_start_conversation v n s = Some (True, ?s2)"
    using s1 f assms(2) by (simp add: scdm_session_start_conversation_def Let_def)
  let ?s = "semit [Respond i (ErrorReply SpawnFailed)] ?s2"
  have m: "map_of (s_conversations ?s) n = Some None" by (simp add: semit_def update_conv')
  then have f2: "find_conversation_by_name ?s2 n = None" "find_conversation_by_name ?s n = None"
    by (simp_all add: find_conversation_by_name_def semit_def)
  have b: "scdm_session_handle_client_begin_verification v i n s = Some ?s"
    by (simp add: scdm_session_handle_client_begin_verification_def begin_verification_def begin_verification_conversation_def
        st f2 Let_def)
  have "scdm_session_start_conversation v' n ?s = None" for v'
  proof -
    obtain e s3 where "start_conversation v' n ?s = (e, s3)" by (cases "start_conversation v' n ?s")
    moreover then have "map_of (s_conversations s3) n = Some None" using start_conversation_result m by fastforce
    ultimately show ?thesis by (simp add: scdm_session_start_conversation_def Let_def f2(2) free_entry_def)
  qed
  then have "scdm_session_handle_client_begin_verification v' j n ?s = None" for v' j
    by (simp add: scdm_session_handle_client_begin_verification_def begin_verification_def begin_verification_conversation_def)
  moreover have "register_worker v' j conn pid ?s = None"
    if "s_conversations s = []" "conn \<in> set (s_pending_worker_connections ?s)" for v' j conn pid
    using that by (simp add: register_worker_def Let_def find_conversation_by_pid_def semit_def)
  ultimately show ?thesis using b m by (intro exI [of _ ?s]) (simp add: semit_def)
qed

theorem failed_start_is_fatal_witness:
  "\<exists>s'. scdm_session_handle_client_begin_verification (example_sworld\<lparr>sv_job := example_job_world\<lparr>jw_spawn := (\<lambda>a e. None)\<rparr>\<rparr>) 1
       ''gdm-password'' example_session = Some s' \<and>
     scdm_session_handle_client_begin_verification example_sworld 2 ''gdm-password'' s' = None"
proof -
  have "cannot_start (example_sworld\<lparr>sv_job := example_job_world\<lparr>jw_spawn := (\<lambda>a e. None)\<rparr>\<rparr>)"
    by (simp add: cannot_start_def)
  moreover have "map_of (s_conversations example_session) ''gdm-password'' = None"
    by (simp add: example_session_def scdm_session_new_def)
  ultimately show ?thesis using failed_start_is_fatal by blast
qed

section \<open>Requests at the wrong time\<close>

text \<open>A peer of the server for workers can end the daemon without being a registered worker: its queries
  are served by the name of the service they give, and the second one that finds a query pending fails
  an assertion.\<close>

theorem second_query_aborts:
  assumes "table_ok s" and "s_heap s c = Some k" and "c_pending_invocation k = None" and "s_user_verifier s"
  shows "\<exists>s'. scdm_session_handle_info_query i (c_service_name k) q s = Some s' \<and>
    (\<forall>j q'. scdm_session_handle_info_query j (c_service_name k) q' s' = None \<and>
       scdm_session_handle_secret_info_query j (c_service_name k) q' s' = None)"
proof -
  have f: "find_conversation_by_name s (c_service_name k) = Some c" by (rule table_ok_find [OF assms(1,2)])
  let ?s = "to_verifier [VerifierInfoQuery (c_service_name k) q] (set_conversation c (k\<lparr>c_pending_invocation := Some i\<rparr>) s)"
  have "scdm_session_handle_info_query i (c_service_name k) q s = Some ?s"
    using assms f by (simp add: scdm_session_handle_info_query_def set_pending_query_def)
  moreover have "s_user_verifier ?s" "find_conversation_by_name ?s (c_service_name k) = Some c"
    "s_heap ?s c = Some (k\<lparr>c_pending_invocation := Some i\<rparr>)"
    using assms(4) f by (simp_all add: to_verifier_def set_conversation_def find_conversation_by_name_def semit_def)
  ultimately show ?thesis
    by (intro exI [of _ ?s])
      (simp add: scdm_session_handle_info_query_def scdm_session_handle_secret_info_query_def set_pending_query_def)
qed

theorem second_query_aborts_witness:
  "\<exists>s s'. example_start = Some s \<and> scdm_session_handle_info_query 8 ''gdm-password'' ''x'' s = Some s' \<and>
     scdm_session_handle_info_query 9 ''gdm-password'' ''y'' s' = None"
proof -
  have "map_option (\<lambda>s. (map_option (\<lambda>k. (c_service_name k, c_pending_invocation k)) (s_heap s 0), s_user_verifier s)) example_start =
      Some (Some (''gdm-password'', None), True)" by code_simp
  then obtain s k where s: "example_start = Some s" "s_heap s 0 = Some k" "c_service_name k = ''gdm-password''"
    "c_pending_invocation k = None" "s_user_verifier s" by auto
  have "new_session example_session" by (unfold new_session_def example_session_def) blast
  then have "table_ok s" using run_invariant [OF example_start_run [OF s(1)]] by simp
  from second_query_aborts [OF this s(2,4,5)] show ?thesis using s by metis
qed

end
