(* ===== verification/Session_Start.thy ===== *)
theory Session_Start
  imports Session_Props
begin

text \<open>
  More properties of sessions: the program and the environment a worker is told to start, session names,
  and conversations that are replaced.
\<close>

section \<open>Session names\<close>

lemma installed_has_command:
  assumes "name \<in> set (installed_sessions v s)"
  shows "get_session_command_for_name v s name \<noteq> None"
proof -
  obtain n where n: "name = take (length n - length ''.desktop'') n" "suffix ''.desktop'' n"
    "get_session_command_for_file v s n \<noteq> None"
    using assms by (auto simp: installed_sessions_def split: option.splits)
  obtain m where "n = m @ ''.desktop''" using n(2) by (auto simp: suffix_def)
  then have "name @ ''.desktop'' = n" using n(1) by simp
  then show ?thesis using n(3) by (simp add: get_session_command_for_name_def)
qed

lemma command_for_name_cong:
  "s_ignore_wayland s' = s_ignore_wayland s \<Longrightarrow> get_session_command_for_name v s' n = get_session_command_for_name v s n"
  by (simp add: get_session_command_for_name_def get_session_command_for_file_def load_key_file_for_file_def
      get_system_session_dirs_def)

text \<open>The fallback session is one that can be started: its file gives a command. It is remembered, so that asking
  again gives the same name and changes nothing; and when neither a remembered name nor GNOME can be started it is the
  first one, in alphabetical order, of the sessions that are installed.\<close>

theorem fallback_session_can_start:
  assumes "get_fallback_session_name v s = Some (name, s')"
  shows "get_session_command_for_name v s name \<noteq> None \<and> get_fallback_session_name v s' = Some (name, s') \<and>
    (s_fallback_session_name s = None \<longrightarrow> get_session_command_for_name v s ''gnome'' = None \<longrightarrow>
       name \<in> set (installed_sessions v s) \<and> (\<forall>n \<in> set (installed_sessions v s). name \<le> n))"
proof -
  have first: "sort l = n # ns \<Longrightarrow> n \<in> set l" for l ns and n :: string
    by (metis set_sort list.set_intros(1))
  have result: "s' = s\<lparr>s_fallback_session_name := Some name\<rparr>" and command: "get_session_command_for_name v s name \<noteq> None"
    using assms installed_has_command [of name v s]
    by (auto dest: first simp: get_fallback_session_name_def split: option.splits if_splits list.splits)
  have "get_session_command_for_name v s' name \<noteq> None" using command command_for_name_cong [of s' s] result by simp
  then have again: "get_fallback_session_name v s' = Some (name, s')"
    by (auto simp: get_fallback_session_name_def result)
  have "name \<in> set (installed_sessions v s) \<and> (\<forall>n \<in> set (installed_sessions v s). name \<le> n)"
    if c: "s_fallback_session_name s = None" "get_session_command_for_name v s ''gnome'' = None"
  proof -
    obtain ns where "sort (installed_sessions v s) = name # ns"
      using assms c by (auto simp: get_fallback_session_name_def split: list.splits)
    then show ?thesis by (metis set_sort sorted_sort list.set_intros(1) sorted_simps(2) set_ConsD order.refl)
  qed
  then show ?thesis using command again by blast
qed

theorem fallback_session_can_start_witness:
  "\<exists>name s'. get_fallback_session_name example_sworld example_session = Some (name, s') \<and>
     get_session_command_for_name example_sworld example_session name \<noteq> None \<and>
     get_fallback_session_name example_sworld s' = Some (name, s')"
proof -
  have "map_option fst (get_fallback_session_name example_sworld example_session) = Some ''gnome''" by code_simp
  then obtain s' where s': "get_fallback_session_name example_sworld example_session = Some (''gnome'', s')" by auto
  from fallback_session_can_start [OF s'] show ?thesis using s' by blast
qed

lemma stop_conversation_rest: "stop_conversation c s = Some s' \<Longrightarrow> \<exists>h fx. s' = s\<lparr>s_heap := h, s_log := fx\<rparr>"
  by (auto simp: stop_conversation_def close_conversation_def set_conversation_def semit_def bind_eq_Some_conv
      split: option.splits)

lemma stop_each_rest: "stop_each (Some c) False l s = Some s' \<Longrightarrow> \<exists>h fx. s' = s\<lparr>s_heap := h, s_log := fx\<rparr>"
proof (induction l arbitrary: s)
  case Nil
  then show ?case by (auto intro!: exI [of _ "s_heap s"] exI [of _ "s_log s"])
next
  case (Cons a l)
  obtain n e where a: "a = (n, e)" by (cases a)
  obtain s1 where s1: "stop_each (Some c) False l s1 = Some s'" "s1 = s \<or> (\<exists>d. stop_conversation d s = Some s1)"
    using Cons.prems by (auto simp: a bind_eq_Some_conv split: option.splits if_splits)
  obtain h fx where "s' = s1\<lparr>s_heap := h, s_log := fx\<rparr>" using Cons.IH [OF s1(1)] by blast
  then show ?case using s1(2) stop_conversation_rest by fastforce
qed

text \<open>A user can end the daemon by the choice of a session: when no session file gives a command for the chosen
  name, the daemon exits at the start of the session.\<close>

theorem unknown_session_exits:
  assumes "s_selected_session s = Some name" and "s_selected_program s = None" and "s_session_conversation s = None"
    and "find_conversation_by_name s service_name \<noteq> None" and "get_session_command_for_name v s name = None"
  shows "scdm_session_start_session v service_name s = None"
proof (cases "stop_all_other_conversations (find_conversation_by_name s service_name) False s")
  case None
  then show ?thesis using assms(3,4) by (auto simp: scdm_session_start_session_def)
next
  case (Some s1)
  then obtain c where "stop_each (Some c) False (s_conversations s) s = Some s1"
    using assms(4) by (auto simp: stop_all_other_conversations_def bind_eq_Some_conv)
  then obtain h fx where s1: "s1 = s\<lparr>s_heap := h, s_log := fx\<rparr>" using stop_each_rest by blast
  then have n: "get_session_name v s1 = Some (name, s1)" using assms(1) by (simp add: get_session_name_def)
  have "get_session_command v s1 = None"
    using n command_for_name_cong [of s1 s v name] assms(5) s1 by (simp add: get_session_command_def)
  moreover obtain b where "scdm_session_session_registers v s1 = Some (b, s1)"
    using n by (auto simp: scdm_session_session_registers_def get_session_filename_def)
  ultimately show ?thesis
    using Some assms(2-4) s1 by (auto simp: scdm_session_start_session_def Let_def split: option.split)
qed

theorem unknown_session_exits_witness:
  "\<exists>s. map_option (s_selected_session_update (\<lambda>_. Some ''nothing'')) example_start = Some s \<and>
     scdm_session_start_session example_sworld ''gdm-password'' s = None"
proof -
  let ?s = "map_option (s_selected_session_update (\<lambda>_. Some ''nothing'')) example_start"
  have "map_option (\<lambda>s. (s_selected_session s, s_selected_program s, s_session_conversation s,
      find_conversation_by_name s ''gdm-password'', get_session_command_for_name example_sworld s ''nothing'')) ?s =
      Some (Some ''nothing'', None, None, Some 0, None)" by code_simp
  then obtain s where s: "?s = Some s" "s_selected_session s = Some ''nothing''" "s_selected_program s = None"
    "s_session_conversation s = None" "find_conversation_by_name s ''gdm-password'' \<noteq> None"
    "get_session_command_for_name example_sworld s ''nothing'' = None" by auto
  from unknown_session_exits [OF s(2-6)] show ?thesis using s(1) by blast
qed
section \<open>Conversations that are replaced\<close>

text \<open>When the worker of the running session is being stopped and a new conversation with the same service is
  begun, the old conversation is freed while the session still refers to it: the next question for the id of the session,
  or request for a reauthentication, reads freed memory.\<close>

theorem replaced_conversation_dangles:
  assumes "table_ok s" and "s_heap s c = Some k" and "c_is_stopping k" and "s_session_conversation s = Some c"
  shows "\<exists>s'. scdm_session_start_conversation v (c_service_name k) s = Some (True, s') \<and>
    s_session_conversation s' = Some c \<and> scdm_session_get_session_id s' = None \<and>
    (\<forall>pid uid. scdm_session_start_reauthentication pid uid s' = None)"
proof -
  obtain job where job: "c_job k = Some job" and c: "c < s_next s" and map: "map_of (s_conversations s) (c_service_name k) = Some (Some c)"
    using assms(1,2) unfolding table_ok_def by blast
  have f: "find_conversation_by_name s (c_service_name k) = Some c" by (rule table_ok_find [OF assms(1,2)])
  let ?s = "semit [JobFx c (snd (scdm_session_worker_job_stop_now job))] (set_conversation c (k\<lparr>c_job := None\<rparr>) s)"
  obtain e s1 where s1: "start_conversation v (c_service_name k) ?s = (e, s1)"
    by (cases "start_conversation v (c_service_name k) ?s")
  have r: "s_conversations s1 = s_conversations s" "s_heap s1 c = Some (k\<lparr>c_job := None\<rparr>)" "s_session_conversation s1 = Some c"
    using s1 c assms(4)
    by (auto simp: start_conversation_def semit_def set_conversation_def Let_def split: prod.splits if_splits)
  obtain s' where s': "free_conversation c (s1\<lparr>s_conversations := AList.update (c_service_name k) e (s_conversations s)\<rparr>) = Some s'"
    using r(2) by (simp add: free_conversation_def close_conversation_def)
  then have h: "s_heap s' c = None" "s_session_conversation s' = Some c"
    using r by (auto simp: free_conversation_def close_conversation_def set_conversation_def semit_def split: option.splits)
  have "scdm_session_start_conversation v (c_service_name k) s = Some (True, s')"
    using f assms(2,3) job s1 r map s'
    by (simp add: scdm_session_start_conversation_def Let_def free_entry_def)
  then show ?thesis using h by (auto simp: scdm_session_get_session_id_def scdm_session_start_reauthentication_def)
qed

text \<open>The login goes on: the session is opened and its program started.\<close>

definition example_running :: "session option" where
  "example_running = do {
     s \<leftarrow> example_accredited;
     s \<leftarrow> Option.bind (take_call 0 OpenCall s) (on_opened 0 (Worked ''c1''));
     s \<leftarrow> scdm_session_start_session example_sworld ''gdm-password'' s;
     Option.bind (take_call 0 StartProgramCall s) (on_start_program_cb 0 (Worked 4001))
   }"

lemma example_running_reached: "example_running = Some s \<Longrightarrow> \<exists>evs. session_run example_session evs s"
  unfolding example_running_def bind_eq_Some_conv
  by (elim exE conjE, rule exI, rule run_step [OF run_step [OF run_step [OF example_accredited_run]]])
    (assumption | rule opened session_step.started session_step.start_session)+

lemma example_session_new: "new_session example_session"
  by (unfold new_session_def example_session_def) blast

theorem replaced_conversation_dangles_witness:
  "\<exists>s s'. Option.bind example_running (scdm_session_stop_conversation ''gdm-password'') = Some s \<and>
     scdm_session_start_conversation example_sworld ''gdm-password'' s = Some (True, s') \<and>
     scdm_session_get_session_id s' = None"
proof -
  let ?s = "Option.bind example_running (scdm_session_stop_conversation ''gdm-password'')"
  have "map_option (\<lambda>s. (s_session_conversation s, map_option (\<lambda>k. (c_service_name k, c_is_stopping k)) (s_heap s 0))) ?s =
      Some (Some 0, Some (''gdm-password'', True))" by code_simp
  then obtain s k where s: "?s = Some s" "s_heap s 0 = Some k" "c_is_stopping k" "s_session_conversation s = Some 0"
    "c_service_name k = ''gdm-password''" by auto
  obtain s0 where s0: "example_running = Some s0" "scdm_session_stop_conversation ''gdm-password'' s0 = Some s"
    using s(1) by (auto simp: bind_eq_Some_conv)
  obtain evs where "session_run example_session evs s0" using example_running_reached [OF s0(1)] by blast
  from run_step [OF this session_step.stop_conversation [OF s0(2)]]
  have "session_run example_session (Other_event # evs) s" .
  then have "table_ok s" using run_invariant example_session_new by blast
  from replaced_conversation_dangles [OF this s(2-4)] show ?thesis using s by metis
qed

section \<open>Requests to a session that runs\<close>

text \<open>While a session runs, everything a greeter asks for is refused and changes nothing. The end of its
  program does not end this: the session counts as running until it is reset or closed.\<close>

theorem running_session_refuses_greeter:
  assumes "scdm_session_is_running s" and "s' = s \<or> s' = worker_on_session_exited status s"
  shows "let s'' = semit [Respond i (ErrorReply (AlreadyRunning (s_selected_user s')))] s' in scdm_session_is_running s'' \<and>
    scdm_session_handle_client_select_session v i name s' = Some s'' \<and>
    scdm_session_handle_client_select_user i name s' = Some s'' \<and>
    scdm_session_handle_client_start_session_when_ready i name ready s' = Some s'' \<and>
    scdm_session_handle_get_timed_login_details i s' = Some s'' \<and>
    scdm_session_handle_client_begin_auto_login v i name s' = Some s''"
proof -
  have "scdm_session_is_running s'"
    using assms by (auto simp: scdm_session_is_running_def worker_on_session_exited_def semit_def)
  then show ?thesis
    by (simp add: scdm_session_handle_client_select_session_def scdm_session_handle_client_select_user_def
        scdm_session_handle_client_start_session_when_ready_def scdm_session_handle_get_timed_login_details_def
        scdm_session_handle_client_begin_auto_login_def unless_running_def scdm_session_is_running_def semit_def)
qed

theorem running_session_refuses_greeter_witness:
  "\<exists>s s'. example_running = Some s \<and>
     scdm_session_handle_client_select_user 5 ''ann'' (worker_on_session_exited 0 s) = Some s' \<and> s_selected_user s' = Some ''joe''"
proof -
  have "map_option (\<lambda>s. (scdm_session_is_running s, s_selected_user (worker_on_session_exited 0 s))) example_running =
      Some (True, Some ''joe'')" by code_simp
  then obtain s where s: "example_running = Some s" "scdm_session_is_running s"
    "s_selected_user (worker_on_session_exited 0 s) = Some ''joe''" by auto
  from running_session_refuses_greeter [OF s(2), of "worker_on_session_exited 0 s" 0 5 example_sworld "''ann''" False]
  show ?thesis using s by (auto simp: semit_def Let_def)
qed

section \<open>The environment\<close>

text \<open>What libpam promises of the environment of a handle: a variable that is set can be read, and the others are as before.\<close>

definition pam_environment_law :: "'h pam_lib \<Rightarrow> bool" where
  "pam_environment_law lib \<longleftrightarrow>
     (\<forall>h key x name. key \<noteq> [] \<longrightarrow> CHR ''='' \<notin> set key \<longrightarrow> CHR ''='' \<notin> set name \<longrightarrow>
        pam_getenv lib (snd (pam_putenv lib h (key @ ''='' @ x))) name = (if name = key then Some x else pam_getenv lib h name))"

text \<open>A worker takes the calls that set variables.\<close>

fun deliver :: "'h worker_env \<Rightarrow> worker_call \<Rightarrow> 'h worker \<Rightarrow> 'h worker" where
  "deliver env (CallSetEnvironmentVariable key x) w = scdm_session_worker_handle_set_environment_variable env 0 key x w"
| "deliver env _ w = w"

lemma send_variables_calls:
  assumes "s_heap s c = Some k" and "c_worker_proxy k"
  shows "\<exists>s'. send_variables vars c s = Some s' \<and>
    s_log s' = s_log s @ map (CallWorker c) (map (\<lambda>(key, x). CallSetEnvironmentVariable key x) vars)"
  using assms
proof (induction vars arbitrary: s)
  case (Cons a vars)
  obtain key x where a: "a = (key, x)" by (cases a)
  let ?s = "semit [CallWorker c (CallSetEnvironmentVariable key x)] s"
  have "s_heap ?s c = Some k" using Cons.prems(1) by simp
  then obtain s' where "send_variables vars c ?s = Some s'"
    "s_log s' = s_log ?s @ map (CallWorker c) (map (\<lambda>(key, x). CallSetEnvironmentVariable key x) vars)"
    using Cons.IH Cons.prems(2) by blast
  then show ?case using Cons.prems by (simp add: a call_worker_def semit_def)
qed simp

lemma delivered_variables:
  assumes "pam_environment_law (we_lib env)" and "w_pam_handle w \<noteq> None" and "distinct (map fst vars)"
    and "\<forall>(key, x) \<in> set vars. key \<noteq> [] \<and> CHR ''='' \<notin> set key" and "CHR ''='' \<notin> set name"
  shows "scdm_session_worker_get_environment_variable env name
      (fold (deliver env) (map (\<lambda>(key, x). CallSetEnvironmentVariable key x) vars) w) =
    (case map_of vars name of Some x \<Rightarrow> Some x | None \<Rightarrow> scdm_session_worker_get_environment_variable env name w)"
  using assms(2-4)
proof (induction vars arbitrary: w)
  case (Cons a vars)
  obtain key x where a: "a = (key, x)" by (cases a)
  let ?w = "deliver env (CallSetEnvironmentVariable key x) w"
  have key: "key \<noteq> []" "CHR ''='' \<notin> set key" using Cons.prems(3) a by auto
  have h: "w_pam_handle ?w \<noteq> None" "scdm_session_worker_get_environment_variable env name ?w =
      (if name = key then Some x else scdm_session_worker_get_environment_variable env name w)"
    using Cons.prems(1) assms(1,5) key
    by (auto simp: pam_environment_law_def scdm_session_worker_handle_set_environment_variable_def wemit_def
        scdm_session_worker_set_environment_variable_def scdm_session_worker_get_environment_variable_def split: option.splits)
  have "map_of vars key = None" using Cons.prems(2) a by (simp add: map_of_eq_None_iff)
  then show ?case using Cons.IH [OF h(1)] Cons.prems(2,3) h(2) by (auto simp: a split: option.split)
qed simp

text \<open>C14. The environment of the session arrives at its worker: when the calls that send it have been taken, each
  variable of the session has the session's value in the environment of the worker, and the others are as before.\<close>

theorem environment_reaches_worker:
  assumes "pam_environment_law (we_lib env)" and "w_pam_handle w \<noteq> None"
    and "s_heap s c = Some k" and "c_worker_proxy k" and "distinct (map fst (s_environment s))"
    and "\<forall>(key, x) \<in> set (s_environment s). key \<noteq> [] \<and> CHR ''='' \<notin> set key"
  shows "\<exists>s' calls. send_environment c s = Some s' \<and> s_log s' = s_log s @ map (CallWorker c) calls \<and>
    (\<forall>name. CHR ''='' \<notin> set name \<longrightarrow> scdm_session_worker_get_environment_variable env name (fold (deliver env) calls w) =
       (case map_of (s_environment s) name of Some x \<Rightarrow> Some x | None \<Rightarrow> scdm_session_worker_get_environment_variable env name w))"
  using send_variables_calls [OF assms(3,4), of "s_environment s"] delivered_variables [OF assms(1,2,5,6)]
  unfolding send_environment_def by blast

text \<open>A handle that is the list of its assignments, the last one first.\<close>

definition example_env_pam :: "string list pam_lib" where
  "example_env_pam = \<lparr>pam_start = (\<lambda>s u. (PAM_SUCCESS, Some [])), pam_set_item = (\<lambda>h i x. (PAM_SUCCESS, h)),
     pam_get_user = (\<lambda>h. Some None), pam_putenv = (\<lambda>h e. (PAM_SUCCESS, e # h)),
     pam_getenv = (\<lambda>h name. map_option (drop (Suc (length name))) (find (prefix (name @ ''='')) h)),
     pam_getenvlist = (\<lambda>h. h), pam_authenticate = (\<lambda>h f. PamReturn PAM_SUCCESS h), pam_acct_mgmt = (\<lambda>h f. PamReturn PAM_SUCCESS h),
     pam_chauthtok = (\<lambda>h f. PamReturn PAM_SUCCESS h), pam_setcred = (\<lambda>h f. PamReturn PAM_SUCCESS h),
     pam_open_session = (\<lambda>h f. PamReturn PAM_SUCCESS h), pam_close_session = (\<lambda>h f. PamReturn PAM_SUCCESS h)\<rparr>"

definition example_env_wenv :: "string list worker_env" where
  "example_env_wenv = \<lparr>we_lib = example_env_pam, we_manager = (\<lambda>l c. (True, None)), we_locale_to_utf8 = Some,
     we_utf8_bad = (\<lambda>s. None),
     we_act = \<lparr>act_is_loaded = (\<lambda>u. True), act_x_session = (\<lambda>u. None), act_language = (\<lambda>u. None)\<rparr>,
     we_platform_auditor = False, we_user_display_server = False, we_initial_vt = 1, we_open_tty = (\<lambda>p. 5),
     we_ioctl = (\<lambda>fd r. Some 1), we_getpwnam = (\<lambda>u. []), we_setgid = True, we_initgroups = True,
     we_bindir = ''/usr/bin'', we_default_path = ''/bin''\<rparr>"

lemma assignment_prefix:
  "CHR ''='' \<notin> set key \<Longrightarrow> CHR ''='' \<notin> set name \<Longrightarrow> prefix (name @ ''='') (key @ CHR ''='' # x) \<longleftrightarrow> name = key"
proof (induction name arbitrary: key)
  case Nil
  then show ?case by (cases key) auto
next
  case (Cons a name)
  then show ?case by (cases key) auto
qed

lemma example_env_law: "pam_environment_law (we_lib example_env_wenv)"
  by (auto simp: pam_environment_law_def example_env_wenv_def example_env_pam_def assignment_prefix)

theorem environment_reaches_worker_witness:
  "\<exists>s s' calls. map_option (s_environment_update (\<lambda>_. [(''LANG'', ''C'')])) example_start = Some s \<and> send_environment 0 s = Some s' \<and>
     scdm_session_worker_get_environment_variable example_env_wenv ''LANG''
       (fold (deliver example_env_wenv) calls ((scdm_session_worker_new False None)\<lparr>w_pam_handle := Some [''LANG=de'']\<rparr>)) = Some ''C''"
proof -
  let ?s = "map_option (s_environment_update (\<lambda>_. [(''LANG'', ''C'')])) example_start"
  have "map_option (\<lambda>s. (map_option c_worker_proxy (s_heap s 0), s_environment s)) ?s = Some (Some True, [(''LANG'', ''C'')])"
    by code_simp
  then obtain s k where s: "?s = Some s" "s_heap s 0 = Some k" "c_worker_proxy k" "s_environment s = [(''LANG'', ''C'')]" by auto
  have "distinct (map fst (s_environment s))" "\<forall>(key, x) \<in> set (s_environment s). key \<noteq> [] \<and> CHR ''='' \<notin> set key"
    by (simp_all add: s(4))
  from environment_reaches_worker [OF example_env_law _ s(2,3) this,
      of "(scdm_session_worker_new False None)\<lparr>w_pam_handle := Some [''LANG=de'']\<rparr>"]
  obtain s' calls where c: "send_environment 0 s = Some s'" and "\<forall>name. CHR ''='' \<notin> set name \<longrightarrow>
      scdm_session_worker_get_environment_variable example_env_wenv name
        (fold (deliver example_env_wenv) calls ((scdm_session_worker_new False None)\<lparr>w_pam_handle := Some [''LANG=de'']\<rparr>)) =
      (case map_of (s_environment s) name of Some x \<Rightarrow> Some x | None \<Rightarrow> scdm_session_worker_get_environment_variable example_env_wenv name
         ((scdm_session_worker_new False None)\<lparr>w_pam_handle := Some [''LANG=de'']\<rparr>))" by auto
  then have "scdm_session_worker_get_environment_variable example_env_wenv ''LANG''
      (fold (deliver example_env_wenv) calls ((scdm_session_worker_new False None)\<lparr>w_pam_handle := Some [''LANG=de'']\<rparr>)) = Some ''C''"
    by (simp add: s(4))
  then show ?thesis using s(1) c by blast
qed

section \<open>The process of a worker\<close>

text \<open>The environment of a worker's process has each variable once. The address at which the worker finds the
  daemon and the mark of a reauthentication are those of the session, whatever the environment it was given says; every
  other variable has the last value that the conversation's environment, or without one the daemon's, assigns to it.\<close>

theorem worker_environment:
  "let job = conversation_job v s; hash = job_hash (sv_job v) job
   in get_job_environment (sv_job v) job = map listify_job_hash hash \<and> distinct (map fst hash) \<and>
      map_of hash ''GDM_SESSION_DBUS_ADDRESS'' = Some (s_worker_server s) \<and>
      (s_verification_mode s = MODE_REAUTHENTICATE \<longrightarrow> map_of hash ''GDM_SESSION_FOR_REAUTH'' = Some (Some ''1'')) \<and>
      (\<forall>name. name \<noteq> ''GDM_SESSION_DBUS_ADDRESS'' \<longrightarrow> name \<noteq> ''GDM_SESSION_FOR_REAUTH'' \<longrightarrow>
         map_of hash name = map_option Some (map_of (rev (List.map_filter split_assignment
           (case s_conversation_environment s of Some e \<Rightarrow> e | None \<Rightarrow> jw_environ (sv_job v)))) name))"
  by (auto simp: Let_def get_job_environment_def distinct_job_hash job_hash_lookup conversation_job_def
      scdm_session_worker_job_new_def scdm_session_worker_job_set_server_address_def
      scdm_session_worker_job_set_for_reauth_def scdm_session_worker_job_set_environment_def split: option.split)

theorem worker_environment_witness:
  "map_of (job_hash (sv_job example_sworld) (conversation_job example_sworld example_session)) ''LANG'' = Some (Some ''C'')"
proof -
  have "map_of (rev (List.map_filter split_assignment
      (case s_conversation_environment example_session of Some e \<Rightarrow> e | None \<Rightarrow> jw_environ (sv_job example_sworld)))) ''LANG'' = Some ''C''"
    by code_simp
  then show ?thesis using worker_environment [of example_sworld example_session] by (simp add: Let_def)
qed

end
