(* ===== verification/Manager_Home.thy ===== *)
theory Manager_Home
  imports Prelude
begin

text \<open>
  The home directory of the initial set-up, which the manager gives to the user that was made there:
  \<open>chown_initial_setup_home_dir\<close> of \<open>src/daemon/scdm-manager.c\<close>. Symbolic links are
  not followed, so that a directory is a tree.
\<close>

section \<open>The home directory of the initial set-up\<close>

text \<open>A directory with whether it can be listed, its entries, and whether the listing ends without an error.\<close>

datatype file_node = PlainFile string | Folder string bool "file_node list" bool

text \<open>The owner and the group are two calls. \<open>ok\<close> tells which calls the system grants; the results are the
  calls granted, in order, and whether all went well; after a failure nothing more is changed.\<close>

datatype owner_change = SetOwner string | SetGroup string

definition chown_file :: "(owner_change \<Rightarrow> bool) \<Rightarrow> string \<Rightarrow> owner_change list \<times> bool" where
  "chown_file ok path =
     (if \<not> ok (SetOwner path) then ([], False)
      else if \<not> ok (SetGroup path) then ([SetOwner path], False)
      else ([SetOwner path, SetGroup path], True))"

fun chown_recursively :: "(owner_change \<Rightarrow> bool) \<Rightarrow> file_node \<Rightarrow> owner_change list \<times> bool"
  and chown_entries :: "(owner_change \<Rightarrow> bool) \<Rightarrow> file_node list \<Rightarrow> owner_change list \<times> bool" where
  "chown_recursively ok (PlainFile path) = chown_file ok path"
| "chown_recursively ok (Folder path listed entries all_read) =
     (case chown_file ok path of
        (done, False) \<Rightarrow> (done, False)
      | (done, True) \<Rightarrow>
          if \<not> listed then (done, False)
          else case chown_entries ok entries of (more, went_well) \<Rightarrow> (done @ more, went_well \<and> all_read))"
| "chown_entries ok [] = ([], True)"
| "chown_entries ok (e # es) =
     (case chown_recursively ok e of
        (done, False) \<Rightarrow> (done, False)
      | (done, True) \<Rightarrow> (case chown_entries ok es of (more, went_well) \<Rightarrow> (done @ more, went_well)))"

text \<open>The file \<open>gnome-initial-setup-uid\<close> names the user to whom the home directory is given; \<open>atoi\<close>
  and the databases are answers.\<close>

record setup_home =
  sh_setup_user_known :: bool
  sh_uid_contents :: "string option"
  sh_atoi :: "string \<Rightarrow> u32"
  sh_known_uid :: "u32 \<Rightarrow> bool"
  sh_chown_ok :: "owner_change \<Rightarrow> bool"
  sh_dir :: file_node

definition chown_initial_setup_home_dir :: "setup_home \<Rightarrow> owner_change list" where
  "chown_initial_setup_home_dir h =
     (if \<not> sh_setup_user_known h then []
      else case sh_uid_contents h of
        None \<Rightarrow> []
      | Some contents \<Rightarrow>
          let uid = sh_atoi h contents
          in if uid = 0 \<or> \<not> sh_known_uid h uid then [] else fst (chown_recursively (sh_chown_ok h) (sh_dir h)))"

end
