(* ===== verification/Manager.thy ===== *)
theory Manager
  imports Display Display_Store Common_Login Session_Handlers Manager_Home
begin

text \<open>
  The manager of the daemon, \<open>src/daemon/scdm-manager.c\<close>, first part: its state, whom a request
  comes from, the links between displays and sessions, and the methods it offers on the system bus. The
  reactions to displays and sessions are in \<open>Manager_Handlers\<close>.

  Displays and sessions are objects shared with the factories, so they live in heaps; a session object
  carries the data the manager attaches to it (\<open>managed_session\<close>), and \<open>m_user_session_of\<close> is the
  datum \<open>scdm-user-session\<close> of the displays. An operation on a session or a display is that of its own
  theory. The answers of libsystemd, of the bus, of the accounts service and of the settings are a record.
  \<open>None\<close> is the end of the process.
\<close>

section \<open>State\<close>

datatype session_record_kind = SESSION_RECORD_LOGIN | SESSION_RECORD_LOGOUT | SESSION_RECORD_FAILED

datatype plymouth_command = PlymouthDeactivate | PlymouthQuit | PlymouthQuitRetainSplash

datatype denial = NoDisplay | NoSession | ChooserSessionUnavailable | OnlyBeforeLogin | CallerNotGdm | NoChannel | LoginScreenOnly

datatype manager_reply = Registered | Address "string option" | AccessRefused denial

datatype factory_call = StartLocalFactory | StopLocalFactory | StartXdmcpFactory | StopXdmcpFactory | NewXdmcpFactory | FreeXdmcpFactory
  | FreeLocalFactory

datatype manager_effect =
    ManagerReply nat manager_reply
  | DropInvocation nat
  | RecordSession session_record_kind int string "string option" "string option" "string option"
  | BusCall bus_call | UnlockSession string
  | ExportDisplay string | UnexportDisplay string | DISPLAY_ADDED string | DISPLAY_REMOVED nat
  | Plymouth plymouth_command | PlymouthQuitLater nat
  | Chowned "owner_change list" | WriteSetupMarker
  | FactoryCall factory_call | FreeSession nat | UnexportManagerInterface

text \<open>A session with the data that the manager sets on it.\<close>

record managed_session =
  ms_session :: session
  ms_transient :: bool
  ms_display :: "nat option"
  ms_start_when_ready :: bool
  ms_waiting_to_start :: bool
  ms_start_operation :: bool
  ms_reset_operation :: bool
  ms_caller_pid :: int
  ms_caller_session_id :: "string option"

text \<open>What waits in the idle queue of the main loop.\<close>

datatype idle_operation = StartUserSession nat string | ResetSession nat

record manager =
  m_displays :: "nat \<Rightarrow> display option"
  m_next_display :: nat
  m_user_session_of :: "nat \<Rightarrow> nat option"
  m_sessions :: "nat \<Rightarrow> managed_session option"
  m_next_session :: nat
  m_display_store :: "nat store"
  m_xdmcp_factory :: bool
  m_automatic_login_display :: "nat option"
  m_user_sessions :: "nat list"
  m_transient_sessions :: "(int \<times> nat) list"
  m_open_reauthentication_requests :: "(int \<times> nat) list"
  m_xdmcp_enabled :: bool
  m_started :: bool
  m_show_local_greeter :: bool
  m_plymouth_is_running :: bool
  m_did_automatic_login :: bool
  m_idle :: "idle_operation list"
  m_username_lookups :: "(nat \<times> string) list"
  m_log :: "manager_effect list"

definition memit :: "manager_effect list \<Rightarrow> manager \<Rightarrow> manager" where
  "memit fx m = m\<lparr>m_log := m_log m @ fx\<rparr>"

text \<open>Settings that cannot be read are \<open>None\<close>.\<close>

record manager_settings =
  st_timed_login_enable :: "bool option"
  st_timed_login_user :: "string option option"
  st_timed_login_delay :: "int option"
  st_auto_login_enable :: "bool option"
  st_auto_login_user :: "string option option"

record manager_world =
  mw_sd :: sd_login
  mw_session_uid :: "string \<Rightarrow> errno + u32"
  mw_session_tty :: "string \<Rightarrow> errno + string"
  mw_sender_pid :: "string \<Rightarrow> int option"
  mw_sender_uid :: "string \<Rightarrow> u32 option"
  mw_bus :: "bus_call \<Rightarrow> bool"
  mw_unlock :: "string \<Rightarrow> bool"
  mw_auth :: "nat \<Rightarrow> auth_env"
  mw_session_world :: session_world
  mw_outside_address :: "nat \<Rightarrow> string option" \<comment> \<open>the address of a session's server for clients\<close>
  mw_worker_address :: "nat \<Rightarrow> string option"
  mw_launch_session :: "nat \<Rightarrow> nat option" \<comment> \<open>the session of a display's launch environment\<close>
  mw_environ :: "string list"
  mw_getpwnam :: "string \<Rightarrow> (u32 option \<times> errno option) list"
  mw_settings :: manager_settings
  mw_users_loaded :: bool
  mw_user_nonexistent :: "string \<Rightarrow> bool"
  mw_plymouth :: bool \<comment> \<open>built with plymouth, and it answers\<close>
  mw_scdm_user :: string
  mw_setup_home :: setup_home
  mw_bus_closed :: bool

section \<open>Queries to systemd\<close>

definition get_session_id_for_pid :: "manager_world \<Rightarrow> int \<Rightarrow> string option" where
  "get_session_id_for_pid w pid = (case sd_pid_get_session (mw_sd w) pid of Inl _ \<Rightarrow> None | Inr i \<Rightarrow> Some i)"

definition get_uid_for_session_id :: "manager_world \<Rightarrow> string \<Rightarrow> u32 option" where
  "get_uid_for_session_id w session_id = (case mw_session_uid w session_id of Inl _ \<Rightarrow> None | Inr u \<Rightarrow> Some u)"

text \<open>\<open>None\<close> is the error.\<close>

definition is_login_session :: "manager_world \<Rightarrow> string \<Rightarrow> bool option" where
  "is_login_session w session_id =
     (case sd_session_get_class (mw_sd w) session_id of Inl _ \<Rightarrow> None | Inr c \<Rightarrow> Some (c = ''greeter''))"

definition get_seat_id_for_session_id :: "manager_world \<Rightarrow> string \<Rightarrow> string option" where
  "get_seat_id_for_session_id w session_id =
     (case sd_session_get_seat (mw_sd w) session_id of Inl _ \<Rightarrow> None | Inr s \<Rightarrow> Some s)"

definition is_remote_session :: "manager_world \<Rightarrow> string \<Rightarrow> bool" where
  "is_remote_session w session_id =
     (case sd_session_get_seat (mw_sd w) session_id of Inl _ \<Rightarrow> True | Inr _ \<Rightarrow> False)"

definition get_tty_for_session_id :: "manager_world \<Rightarrow> string \<Rightarrow> string option" where
  "get_tty_for_session_id w session_id = (case mw_session_tty w session_id of Inl _ \<Rightarrow> None | Inr t \<Rightarrow> Some t)"

definition lookup_by_session_id :: "manager \<Rightarrow> string option \<Rightarrow> nat \<Rightarrow> bool" where
  "lookup_by_session_id m looking_for d = (case m_displays m d of None \<Rightarrow> False | Some x \<Rightarrow> d_session_id x = looking_for)"

definition find_display_by_session_id :: "manager \<Rightarrow> string option \<Rightarrow> nat option" where
  "find_display_by_session_id m looking_for =
     scdm_display_store_find (m_display_store m) (\<lambda>i. lookup_by_session_id m looking_for)"

text \<open>What is known of the sender of a request; what was not found out keeps the value the
  caller gave it. The pid and the uid are set before the sender's session is looked at.\<close>

record sender_details =
  sn_display :: "nat option"
  sn_seat_id :: "string option"
  sn_session_id :: "string option"
  sn_tty :: "string option"
  sn_pid :: int
  sn_uid :: u32
  sn_is_login_screen :: bool
  sn_is_remote :: bool

definition unknown_sender :: sender_details where
  "unknown_sender = \<lparr>sn_display = None, sn_seat_id = None, sn_session_id = None, sn_tty = None, sn_pid = 0, sn_uid = -1,
     sn_is_login_screen = False, sn_is_remote = False\<rparr>"

definition get_display_and_details_for_bus_sender ::
  "manager_world \<Rightarrow> string \<Rightarrow> bool \<Rightarrow> manager \<Rightarrow> sender_details" where
  "get_display_and_details_for_bus_sender w sender want_login_screen m =
     (let q = unknown_sender
      in case mw_sender_pid w sender of
        None \<Rightarrow> q
      | Some pid \<Rightarrow> let q = q\<lparr>sn_pid := pid\<rparr> in
       (case mw_sender_uid w sender of
        None \<Rightarrow> q
      | Some caller_uid \<Rightarrow>
       (case scdm_find_display_session (mw_sd w) pid caller_uid of
        Inl _ \<Rightarrow> q
      | Inr session_id \<Rightarrow> let q = q\<lparr>sn_session_id := Some session_id\<rparr> in
       (case (if want_login_screen then is_login_session w session_id else Some False) of
        None \<Rightarrow> q
      | Some login \<Rightarrow> let q = q\<lparr>sn_is_login_screen := login\<rparr> in
       (case get_uid_for_session_id w session_id of
        None \<Rightarrow> q
      | Some session_uid \<Rightarrow> let q = q\<lparr>sn_uid := caller_uid\<rparr> in
        if caller_uid \<noteq> session_uid then q
        else q\<lparr>sn_seat_id := get_seat_id_for_session_id w session_id, sn_is_remote := is_remote_session w session_id,
               sn_tty := get_tty_for_session_id w session_id,
               sn_display := find_display_by_session_id m (Some session_id)\<rparr>)))))"

section \<open>Sessions of the manager\<close>

definition set_session :: "nat \<Rightarrow> managed_session \<Rightarrow> manager \<Rightarrow> manager" where
  "set_session sid ms m = m\<lparr>m_sessions := (m_sessions m)(sid := Some ms)\<rparr>"

definition on_session :: "nat \<Rightarrow> (session \<Rightarrow> session option) \<Rightarrow> manager \<Rightarrow> manager option" where
  "on_session sid f m = do {
     ms \<leftarrow> m_sessions m sid;
     s \<leftarrow> f (ms_session ms);
     Some (set_session sid (ms\<lparr>ms_session := s\<rparr>) m)
   }"

definition get_display_for_user_session :: "manager \<Rightarrow> nat \<Rightarrow> nat option" where
  "get_display_for_user_session m sid = Option.bind (m_sessions m sid) ms_display"

definition get_user_session_for_display :: "manager \<Rightarrow> nat option \<Rightarrow> nat option" where
  "get_user_session_for_display m display = Option.bind display (m_user_session_of m)"

definition find_user_session_for_display :: "manager \<Rightarrow> nat \<Rightarrow> nat option" where
  "find_user_session_for_display m d = List.find (\<lambda>sid. get_display_for_user_session m sid = Some d) (m_user_sessions m)"

text \<open>For the message of the log the id of each candidate is read, though its session conversation may be gone.\<close>

fun user_session_on_seat :: "manager \<Rightarrow> string option \<Rightarrow> string option \<Rightarrow> nat option \<Rightarrow> nat list \<Rightarrow> nat option option" where
  "user_session_on_seat m username seat_id dont_count [] = Some None"
| "user_session_on_seat m username seat_id dont_count (sid # rest) = do {
     ms \<leftarrow> m_sessions m sid;
     _ \<leftarrow> scdm_session_get_session_id (ms_session ms);
     if Some sid \<noteq> dont_count \<and> scdm_session_is_running (ms_session ms) \<and>
        s_selected_user (ms_session ms) = username \<and> s_display_seat_id (ms_session ms) = seat_id
     then Some (Some sid)
     else user_session_on_seat m username seat_id dont_count rest
   }"

definition find_session_for_user_on_seat ::
  "manager \<Rightarrow> string option \<Rightarrow> string option \<Rightarrow> nat option \<Rightarrow> nat option option" where
  "find_session_for_user_on_seat m username seat_id dont_count_session =
     user_session_on_seat m username seat_id dont_count_session (m_user_sessions m)"

definition session_unlock :: "manager_world \<Rightarrow> string \<Rightarrow> manager \<Rightarrow> bool \<times> manager" where
  "session_unlock w ssid m = (mw_unlock w ssid, memit [UnlockSession ssid] m)"

text \<open>A null pointer in place of the id of the session to activate is not given to the bus library: the model ends.\<close>

definition switch_to_compatible_user_session ::
  "manager_world \<Rightarrow> nat \<Rightarrow> bool \<Rightarrow> manager \<Rightarrow> (bool \<times> manager) option" where
  "switch_to_compatible_user_session w sid fail_if_already_switched m = do {
     ms \<leftarrow> m_sessions m sid;
     let seat_id = s_display_seat_id (ms_session ms);
     existing \<leftarrow> find_session_for_user_on_seat m (s_selected_user (ms_session ms)) seat_id
                  (if fail_if_already_switched then Some sid else None);
     (case existing of
        None \<Rightarrow> Some (False, m)
      | Some e \<Rightarrow> do {
          me \<leftarrow> m_sessions m e;
          ssid \<leftarrow> Option.bind (scdm_session_get_session_id (ms_session me)) id;
          (case seat_id of
             None \<Rightarrow> Some (True, snd (session_unlock w ssid m))
           | Some seat \<Rightarrow>
               (case scdm_activate_session_by_id (mw_bus w) seat ssid of
                  (activated, calls) \<Rightarrow>
                    let m = memit (map BusCall calls) m
                    in Some (if activated then (True, snd (session_unlock w ssid m)) else (False, m))))
        })
   }"

definition add_session_record :: "nat \<Rightarrow> int \<Rightarrow> session_record_kind \<Rightarrow> manager \<Rightarrow> manager option" where
  "add_session_record sid pid record m = do {
     ms \<leftarrow> m_sessions m sid;
     let s = ms_session ms;
     (case s_selected_user s of
        None \<Rightarrow> Some m
      | Some username \<Rightarrow>
          if s_display_name s = None \<and> s_display_device s = None then Some m
          else Some (memit [RecordSession record pid username (s_display_hostname s) (s_display_name s) (s_display_device s)] m))
   }"

section \<open>Links between displays and sessions\<close>

text \<open>Setting a datum drops the one that it replaces.\<close>

definition clean_user_session :: "nat option \<Rightarrow> manager \<Rightarrow> manager" where
  "clean_user_session old m =
     (case old of
        None \<Rightarrow> m
      | Some sid \<Rightarrow> (case m_sessions m sid of None \<Rightarrow> m | Some ms \<Rightarrow> set_session sid (ms\<lparr>ms_display := None\<rparr>) m))"

definition set_user_session_of :: "nat \<Rightarrow> nat option \<Rightarrow> manager \<Rightarrow> manager" where
  "set_user_session_of d new m =
     clean_user_session (m_user_session_of m d) (m\<lparr>m_user_session_of := (m_user_session_of m)(d := new)\<rparr>)"

definition set_display_of :: "nat \<Rightarrow> nat option \<Rightarrow> manager \<Rightarrow> manager" where
  "set_display_of sid d m = (case m_sessions m sid of None \<Rightarrow> m | Some ms \<Rightarrow> set_session sid (ms\<lparr>ms_display := d\<rparr>) m)"

definition new_managed_session :: "session \<Rightarrow> bool \<Rightarrow> int \<Rightarrow> string option \<Rightarrow> managed_session" where
  "new_managed_session s transient pid session_id =
     \<lparr>ms_session = s, ms_transient = transient, ms_display = None, ms_start_when_ready = False, ms_waiting_to_start = False,
      ms_start_operation = False, ms_reset_operation = False, ms_caller_pid = pid, ms_caller_session_id = session_id\<rparr>"

text \<open>The device of a display is always unknown. Without a display all its properties read as nothing.\<close>

definition create_user_session_for_display :: "manager_world \<Rightarrow> nat option \<Rightarrow> u32 \<Rightarrow> manager \<Rightarrow> (nat \<times> manager) option" where
  "create_user_session_for_display w display allowed_user m = do {
     let sid = m_next_session m;
     x \<leftarrow> (case display of None \<Rightarrow> Some None | Some d \<Rightarrow> map_option Some (m_displays m d));
     let get = (\<lambda>f. Option.bind x f);
     let s = scdm_session_new MODE_LOGIN allowed_user (get d_x11_display_name) (get d_remote_hostname) None (get d_seat_id)
               (get scdm_display_get_x11_authority_file) (case x of None \<Rightarrow> False | Some y \<Rightarrow> d_is_local y) None
               (mw_worker_address w sid);
     let s = (if sv_wayland_support (mw_session_world w) \<and> sv_user_display_server (mw_session_world w)
              then s\<lparr>s_ignore_wayland := get d_session_type \<noteq> Some ''wayland''\<rparr> else s);
     let m = set_session sid (new_managed_session s False 0 None) (m\<lparr>m_next_session := Suc sid\<rparr>);
     Some (sid, case display of None \<Rightarrow> m | Some d \<Rightarrow> set_user_session_of d (Some sid) (set_display_of sid (Some d) m))
   }"

end
