(* ===== verification/Manager_Handlers.thy ===== *)
theory Manager_Handlers
  imports Manager
begin

text \<open>
  The manager of the daemon, second part: how it reacts to the status of displays, to the sessions of
  users and to transient sessions, and what it does for callers on the bus, of
  \<open>src/daemon/scdm-manager.c\<close>. A handler of a signal is an operation with the object that emitted it.
\<close>

section \<open>Displays\<close>

text \<open>An operation on a display, and the manager's handler for each status that it announces, while
  the display is in the store, for on its removal the handler is disconnected.\<close>

fun run_statuses :: "(display_status \<Rightarrow> manager \<Rightarrow> manager option) \<Rightarrow> display_status list \<Rightarrow> manager \<Rightarrow> manager option" where
  "run_statuses handler [] m = Some m"
| "run_statuses handler (st # sts) m = Option.bind (handler st m) (run_statuses handler sts)"

definition in_display_store :: "nat \<Rightarrow> manager \<Rightarrow> bool" where
  "in_display_store d m \<longleftrightarrow> list_ex (\<lambda>(i, d'). d' = d) (displays (m_display_store m))"

definition on_display :: "(display_status \<Rightarrow> manager \<Rightarrow> manager option) \<Rightarrow> nat \<Rightarrow> (display \<Rightarrow> display option) \<Rightarrow> manager \<Rightarrow> manager option" where
  "on_display handler d f m = do {
     x \<leftarrow> m_displays m d;
     y \<leftarrow> f x;
     let m = m\<lparr>m_displays := (m_displays m)(d := Some y)\<rparr>;
     run_statuses (\<lambda>st m. if in_display_store d m then handler st m else Some m) (announced x y) m
   }"

definition display_is_on_seat0 :: "display \<Rightarrow> bool" where
  "display_is_on_seat0 x \<longleftrightarrow> d_seat_id x = Some ''seat0''"

text \<open>The cases of a display that failed, or is unmanaged or finished.\<close>

definition display_ended :: "manager_world \<Rightarrow> nat \<Rightarrow> display_status \<Rightarrow> manager \<Rightarrow> manager option" where
  "display_ended w d status m = do {
     x \<leftarrow> m_displays m d;
     let m = (if d_is_local x \<and> m_plymouth_is_running m
              then (memit [Plymouth PlymouthQuit] m)\<lparr>m_plymouth_is_running := False\<rparr> else m);
     Some (if m_automatic_login_display m = Some d
           then m\<lparr>m_automatic_login_display := None,
                  m_did_automatic_login :=
                    \<not> (sv_wayland_support (mw_session_world w) \<and> d_session_type x \<noteq> Some ''wayland'' \<and> status = GDM_DISPLAY_FAILED)\<rparr>
           else m)
   }"

definition end_display :: "manager_world \<Rightarrow> nat \<Rightarrow> manager \<Rightarrow> manager option" where
  "end_display w d m = do {
     m \<leftarrow> on_display (display_ended w d) d (scdm_display_unmanage (mw_auth w d)) m;
     on_display (display_ended w d) d (\<lambda>x. Some (scdm_display_finish x)) m
   }"

text \<open>An operation that announces no status.\<close>

definition quietly :: "nat \<Rightarrow> (display \<Rightarrow> display) \<Rightarrow> manager \<Rightarrow> manager option" where
  "quietly d f m = map_option (\<lambda>x. m\<lparr>m_displays := (m_displays m)(d := Some (f x))\<rparr>) (m_displays m d)"

section \<open>Login settings\<close>

definition get_timed_login_details :: "manager_settings \<Rightarrow> bool \<times> string option \<times> int" where
  "get_timed_login_details st =
     (let enabled = (st_timed_login_enable st = Some True)
      in if st_timed_login_enable st = Some False then (enabled, None, 0)
         else case st_timed_login_user st of
           Some None \<Rightarrow> (enabled, None, 0)
         | Some (Some []) \<Rightarrow> (enabled, None, 0)
         | user \<Rightarrow>
             (enabled, Option.bind user id,
              case st_timed_login_delay st of None \<Rightarrow> 0 | Some delay \<Rightarrow> if delay \<le> 0 then 10 else delay))"

definition get_automatic_login_details :: "manager_settings \<Rightarrow> bool \<times> string option" where
  "get_automatic_login_details st =
     (if st_auto_login_enable st = Some True
      then case st_auto_login_user st of
             Some (Some (c # cs)) \<Rightarrow> (True, Some (c # cs))
           | _ \<Rightarrow> (False, None)
      else (False, None))"

definition get_username_for_greeter_display :: "manager_world \<Rightarrow> display \<Rightarrow> string" where
  "get_username_for_greeter_display w x = (if d_doing_initial_setup x then ''gnome-initial-setup'' else mw_scdm_user w)"

section \<open>Sessions for displays\<close>

definition set_up_automatic_login_session :: "manager_world \<Rightarrow> nat \<Rightarrow> manager \<Rightarrow> manager option" where
  "set_up_automatic_login_session w d m = do {
     (sid, m) \<leftarrow> create_user_session_for_display w (Some d) 0 m;
     on_session sid (\<lambda>s. map_option snd
       (scdm_session_start_conversation (mw_session_world w) ''scdm-autologin'' (s\<lparr>s_display_is_initial := False\<rparr>))) m
   }"

definition set_up_chooser_session :: "manager_world \<Rightarrow> nat \<Rightarrow> manager \<Rightarrow> manager option" where
  "set_up_chooser_session w d m = do {
     x \<leftarrow> m_displays m d;
     (found, _) \<leftarrow> scdm_get_pwent_for_name (mw_getpwnam w (get_username_for_greeter_display w x));
     if \<not> found then end_display w d m else quietly d scdm_display_start_greeter_session m
   }"

definition set_up_greeter_session :: "manager_world \<Rightarrow> nat \<Rightarrow> manager \<Rightarrow> manager option" where
  "set_up_greeter_session w d m = do {
     x \<leftarrow> m_displays m d;
     (_, passwd_entry) \<leftarrow> scdm_get_pwent_for_name (mw_getpwnam w (get_username_for_greeter_display w x));
     (case passwd_entry of
        None \<Rightarrow> end_display w d m
      | Some uid \<Rightarrow> do {
          (sid, m) \<leftarrow> create_user_session_for_display w (Some d) uid m;
          quietly d scdm_display_start_greeter_session m
        })
   }"

definition set_up_automatic_login_session_if_user_exists :: "manager_world \<Rightarrow> nat \<Rightarrow> string \<Rightarrow> manager \<Rightarrow> manager option" where
  "set_up_automatic_login_session_if_user_exists w d user m =
     (if mw_user_nonexistent w user then set_up_greeter_session w d m else set_up_automatic_login_session w d m)"

text \<open>The accounts service has told of a user that was asked for.\<close>

definition on_user_is_loaded_changed_manager :: "manager_world \<Rightarrow> nat \<times> string \<Rightarrow> manager \<Rightarrow> manager option" where
  "on_user_is_loaded_changed_manager w operation m =
     map_option (\<lambda>m. m\<lparr>m_username_lookups := remove1 operation (m_username_lookups m)\<rparr>)
       (set_up_automatic_login_session_if_user_exists w (fst operation) (snd operation) m)"

definition set_up_session :: "manager_world \<Rightarrow> nat \<Rightarrow> manager \<Rightarrow> manager option" where
  "set_up_session w d m = do {
     x \<leftarrow> m_displays m d;
     let seat_can_autologin = (d_seat_id x = Some ''seat0'');
     let seat_did_autologin = (m_did_automatic_login m \<or> m_automatic_login_display m \<noteq> None);
     (case (if seat_can_autologin \<and> \<not> seat_did_autologin then snd (get_automatic_login_details (mw_settings w)) else None) of
        None \<Rightarrow>
          if d_kind x = XdmcpChooserDisplay then set_up_chooser_session w d m else set_up_greeter_session w d m
      | Some user \<Rightarrow>
          if mw_users_loaded w then set_up_automatic_login_session_if_user_exists w d user m
          else Some (m\<lparr>m_username_lookups := m_username_lookups m @ [(d, user)]\<rparr>))
   }"

definition on_display_status_changed_manager :: "manager_world \<Rightarrow> nat \<Rightarrow> display_status \<Rightarrow> manager \<Rightarrow> manager option" where
  "on_display_status_changed_manager w d status m = do {
     x \<leftarrow> m_displays m d;
     if status \<in> {GDM_DISPLAY_PREPARED, GDM_DISPLAY_MANAGED}
     then if (d_x11_display_number x = -1 \<and> status = GDM_DISPLAY_PREPARED \<or>
              d_x11_display_number x \<noteq> -1 \<and> status = GDM_DISPLAY_MANAGED) \<and>
             d_session_class x = Some ''greeter''
          then set_up_session w d m else Some m
     else if status \<in> {GDM_DISPLAY_FAILED, GDM_DISPLAY_UNMANAGED, GDM_DISPLAY_FINISHED} then display_ended w d status m
     else Some m
   }"

definition set_display_status :: "manager_world \<Rightarrow> nat \<Rightarrow> display_status \<Rightarrow> manager \<Rightarrow> manager option" where
  "set_display_status w d status m =
     on_display (on_display_status_changed_manager w d) d (\<lambda>x. Some (scdm_display_set_status status x)) m"

definition on_display_added_manager :: "string \<Rightarrow> manager \<Rightarrow> manager" where
  "on_display_added_manager i m =
     (case scdm_display_store_lookup (m_display_store m) i of None \<Rightarrow> m | Some d \<Rightarrow> memit [ExportDisplay i, DISPLAY_ADDED i] m)"

definition on_display_removed_manager :: "nat \<Rightarrow> manager \<Rightarrow> manager option" where
  "on_display_removed_manager d m = map_option (\<lambda>x. memit [UnexportDisplay (d_id x), DISPLAY_REMOVED d] m) (m_displays m d)"

definition scdm_manager_get_displays :: "manager \<Rightarrow> string list" where
  "scdm_manager_get_displays m = rev (scdm_display_store_foreach (m_display_store m) (\<lambda>i d ids. i # ids) [])"

end
