(* ===== verification/Manager_Sessions.thy ===== *)
theory Manager_Sessions
  imports Manager_Handlers
begin

text \<open>
  The manager of the daemon, third part: transient sessions for reauthentication, the methods on the
  system bus, the start and the end of the sessions of users, and the start and the end of the
  manager itself, of \<open>src/daemon/scdm-manager.c\<close>; then all steps of a manager.
\<close>

section \<open>Transient sessions\<close>

text \<open>The table holds the only reference to a transient session: taken out, it is disposed of.\<close>

definition free_transient_session :: "nat \<Rightarrow> manager \<Rightarrow> manager" where
  "free_transient_session sid m = memit [FreeSession sid] (m\<lparr>m_sessions := (m_sessions m)(sid := None)\<rparr>)"

definition close_transient_session :: "nat \<Rightarrow> manager \<Rightarrow> manager option" where
  "close_transient_session sid m = do {
     m \<leftarrow> on_session sid scdm_session_close m;
     ms \<leftarrow> m_sessions m sid;
     let held = map_of (m_transient_sessions m) (ms_caller_pid ms);
     let m = m\<lparr>m_transient_sessions := AList.delete (ms_caller_pid ms) (m_transient_sessions m)\<rparr>;
     Some (case held of None \<Rightarrow> m | Some h \<Rightarrow> free_transient_session h m)
   }"

definition on_reauthentication_client_rejected :: "manager_world \<Rightarrow> nat \<Rightarrow> int \<Rightarrow> manager \<Rightarrow> manager option" where
  "on_reauthentication_client_rejected w sid pid_of_client m = do {
     ms \<leftarrow> m_sessions m sid;
     if scdm_session_client_is_connected (ms_session ms) then Some m
     else if ms_caller_pid ms \<noteq> pid_of_client \<and> ms_caller_session_id ms \<noteq> get_session_id_for_pid w pid_of_client then Some m
     else close_transient_session sid m
   }"

definition on_reauthentication_client_disconnected_manager :: "nat \<Rightarrow> manager \<Rightarrow> manager option" where
  "on_reauthentication_client_disconnected_manager sid m = close_transient_session sid m"

definition on_reauthentication_cancelled_manager :: "nat \<Rightarrow> manager \<Rightarrow> manager option" where
  "on_reauthentication_cancelled_manager sid m = close_transient_session sid m"

definition on_reauthentication_verification_complete_manager :: "manager_world \<Rightarrow> nat \<Rightarrow> manager \<Rightarrow> manager option" where
  "on_reauthentication_verification_complete_manager w sid m = do {
     ms \<leftarrow> m_sessions m sid;
     ssid \<leftarrow> ms_caller_session_id ms;
     close_transient_session sid (snd (session_unlock w ssid m))
   }"

text \<open>A second channel of the same process replaces the first.\<close>

definition open_temporary_reauthentication_channel ::
  "manager_world \<Rightarrow> string option \<Rightarrow> string \<Rightarrow> int \<Rightarrow> u32 \<Rightarrow> bool \<Rightarrow> manager \<Rightarrow> string option \<times> manager" where
  "open_temporary_reauthentication_channel w seat_id session_id pid uid is_remote m =
     (let sid = m_next_session m;
          s = scdm_session_new MODE_REAUTHENTICATE uid (Some []) None None seat_id (Some ''/dev/null'') (\<not> is_remote)
                (Some (mw_environ w)) (mw_worker_address w sid);
          old = map_of (m_transient_sessions m) pid;
          m = set_session sid (new_managed_session s True pid (Some session_id))
                (m\<lparr>m_next_session := Suc sid, m_transient_sessions := AList.update pid sid (m_transient_sessions m)\<rparr>)
      in (mw_outside_address w sid, case old of None \<Rightarrow> m | Some h \<Rightarrow> free_transient_session h m))"

section \<open>Methods on the bus\<close>

definition set_x11_display_name :: "nat \<Rightarrow> nat \<Rightarrow> string option \<Rightarrow> manager \<Rightarrow> manager option" where
  "set_x11_display_name sid d name m =
     (case name of
        None \<Rightarrow> Some m
      | Some n \<Rightarrow> Option.bind (on_session sid (\<lambda>s. Some (s\<lparr>s_display_name := Some n\<rparr>)) m)
                    (quietly d (\<lambda>x. x\<lparr>d_x11_display_name := Some n\<rparr>)))"

definition scdm_manager_handle_register_display ::
  "manager_world \<Rightarrow> nat \<Rightarrow> string \<Rightarrow> (string \<times> string) list \<Rightarrow> manager \<Rightarrow> manager option" where
  "scdm_manager_handle_register_display w i sender details m =
     (let q = get_display_and_details_for_bus_sender w sender False m
      in case sn_display q of
        None \<Rightarrow> Some (memit [ManagerReply i (AccessRefused NoDisplay)] m)
      | Some d \<Rightarrow> do {
          m \<leftarrow> (case find_user_session_for_display m d of
                 None \<Rightarrow> Some m
               | Some sid \<Rightarrow> do {
                   m \<leftarrow> set_x11_display_name sid d (map_of details ''x11-display-name'') m;
                   m \<leftarrow> (case sn_tty q of
                          None \<Rightarrow> Some m
                        | Some tty \<Rightarrow> on_session sid (\<lambda>s. Some (s\<lparr>s_display_device := Some tty\<rparr>)) m);
                   ms \<leftarrow> m_sessions m sid;
                   let pid = s_session_pid (ms_session ms);
                   if pid > 0 then add_session_record sid pid SESSION_RECORD_LOGIN m else Some m
                 });
          m \<leftarrow> set_display_status w d GDM_DISPLAY_MANAGED m;
          Some (memit [ManagerReply i Registered] m)
        })"

definition scdm_manager_handle_register_session :: "manager_world \<Rightarrow> nat \<Rightarrow> string \<Rightarrow> manager \<Rightarrow> manager option" where
  "scdm_manager_handle_register_session w i sender m =
     map_option (memit [ManagerReply i Registered])
       (case sn_display (get_display_and_details_for_bus_sender w sender False m) of
          None \<Rightarrow> Some m
        | Some d \<Rightarrow> quietly d (\<lambda>x. x\<lparr>d_session_registered := True\<rparr>) m)"

text \<open>The last part: who may have the address.\<close>

definition give_address :: "manager_world \<Rightarrow> nat \<Rightarrow> u32 \<Rightarrow> nat \<Rightarrow> managed_session \<Rightarrow> manager_reply" where
  "give_address w i uid sid ms =
     (if uid \<noteq> s_allowed_user (ms_session ms) then AccessRefused CallerNotGdm
      else case mw_outside_address w sid of None \<Rightarrow> AccessRefused NoChannel | Some a \<Rightarrow> Address (Some a))"

text \<open>A display without a session of a user is a null pointer that is read through.\<close>

definition scdm_manager_handle_open_session :: "manager_world \<Rightarrow> nat \<Rightarrow> string \<Rightarrow> manager \<Rightarrow> manager option" where
  "scdm_manager_handle_open_session w i sender m =
     (let q = get_display_and_details_for_bus_sender w sender False m;
          reply = (\<lambda>r. memit [ManagerReply i r] m)
      in case sn_display q of
        None \<Rightarrow> Some (reply (AccessRefused NoSession))
      | Some d \<Rightarrow> do {
          x \<leftarrow> m_displays m d;
          if d_kind x = XdmcpChooserDisplay
          then (case (if d_launch x = None then None else mw_launch_session w d) of
                  None \<Rightarrow> Some (reply (AccessRefused ChooserSessionUnavailable))
                | Some sid \<Rightarrow> do { ms \<leftarrow> m_sessions m sid; Some (reply (give_address w i (sn_uid q) sid ms)) })
          else do {
            sid \<leftarrow> get_user_session_for_display m (Some d);
            ms \<leftarrow> m_sessions m sid;
            _ \<leftarrow> scdm_session_get_session_id (ms_session ms);
            Some (if scdm_session_is_running (ms_session ms) then reply (AccessRefused OnlyBeforeLogin)
                  else reply (give_address w i (sn_uid q) sid ms))
          }
        })"

text \<open>An outstanding request of the same process is dropped without an answer.\<close>

definition add_open_request :: "int \<Rightarrow> nat \<Rightarrow> manager \<Rightarrow> manager" where
  "add_open_request pid i m =
     memit (case map_of (m_open_reauthentication_requests m) pid of None \<Rightarrow> [] | Some j \<Rightarrow> [DropInvocation j])
       (m\<lparr>m_open_reauthentication_requests := AList.update pid i (m_open_reauthentication_requests m)\<rparr>)"

definition scdm_manager_handle_open_reauthentication_channel ::
  "manager_world \<Rightarrow> nat \<Rightarrow> string \<Rightarrow> string \<Rightarrow> manager \<Rightarrow> manager option" where
  "scdm_manager_handle_open_reauthentication_channel w i sender username m =
     (let q = get_display_and_details_for_bus_sender w sender True m
      in case (if sn_pid q = 0 \<or> sn_uid q = -1 then None else sn_session_id q) of
        None \<Rightarrow> Some (memit [ManagerReply i (AccessRefused NoSession)] m)
      | Some session_id \<Rightarrow> do {
          session \<leftarrow> (if sn_is_login_screen q then find_session_for_user_on_seat m (Some username) (sn_seat_id q) None
                     else Some (get_user_session_for_display m (sn_display q)));
          running \<leftarrow> (case session of
                       None \<Rightarrow> Some False
                     | Some sid \<Rightarrow> map_option (\<lambda>ms. scdm_session_is_running (ms_session ms)) (m_sessions m sid));
          (case (if running then session else None) of
             Some sid \<Rightarrow>
               map_option (add_open_request (sn_pid q) i)
                 (on_session sid (scdm_session_start_reauthentication (sn_pid q) (sn_uid q)) m)
           | None \<Rightarrow>
               if sn_is_login_screen q then Some (memit [ManagerReply i (AccessRefused LoginScreenOnly)] m)
               else case open_temporary_reauthentication_channel w (sn_seat_id q) session_id (sn_pid q) (sn_uid q) (sn_is_remote q) m of
                      (address, m) \<Rightarrow> Some (memit [ManagerReply i (Address address)] m))
        })"

definition on_session_reauthentication_started :: "int \<Rightarrow> string \<Rightarrow> manager \<Rightarrow> manager" where
  "on_session_reauthentication_started pid_of_caller address m =
     (case map_of (m_open_reauthentication_requests m) pid_of_caller of
        None \<Rightarrow> m
      | Some i \<Rightarrow>
          memit [ManagerReply i (Address (Some address))]
            (m\<lparr>m_open_reauthentication_requests := AList.delete pid_of_caller (m_open_reauthentication_requests m)\<rparr>))"

section \<open>Start of a user's session\<close>

definition start_user_session :: "manager_world \<Rightarrow> nat \<Rightarrow> string \<Rightarrow> manager \<Rightarrow> manager option" where
  "start_user_session w sid service_name m = do {
     ms \<leftarrow> m_sessions m sid;
     m \<leftarrow> (case ms_display ms of
            None \<Rightarrow> Some m
          | Some d \<Rightarrow> do {
              x \<leftarrow> m_displays m d;
              if d_xcb x = None then Some m
              else do {
                username \<leftarrow> s_selected_user (ms_session ms);
                (r, y) \<leftarrow> scdm_display_add_user_authorization (mw_auth w d) username x;
                (case r of
                   Inr (Some auth_file) \<Rightarrow>
                     on_session sid (\<lambda>s. Some (s\<lparr>s_user_x11_authority_file := Some auth_file\<rparr>))
                       (m\<lparr>m_displays := (m_displays m)(d := Some y)\<rparr>)
                 | _ \<Rightarrow> None)
              }
            });
     m \<leftarrow> on_session sid (scdm_session_start_session (mw_session_world w) service_name) m;
     ms \<leftarrow> m_sessions m sid;
     Some (set_session sid (ms\<lparr>ms_start_operation := False\<rparr>) m)
   }"

definition store_display :: "nat \<Rightarrow> display \<Rightarrow> manager \<Rightarrow> manager" where
  "store_display d x m =
     on_display_added_manager (d_id x) (m\<lparr>m_display_store := scdm_display_store_add (m_display_store m) (d_id x) d\<rparr>)"

definition create_display_for_user_session :: "nat \<Rightarrow> string option \<Rightarrow> manager \<Rightarrow> manager" where
  "create_display_for_user_session sid session_id m =
     (let d = m_next_display m;
          x = (fresh_display LocalDisplay (oid_to_id d))
                \<lparr>d_session_class := Some ''user'', d_seat_id := Some ''seat0'', d_session_id := session_id\<rparr>;
          m = m\<lparr>m_next_display := Suc d, m_displays := (m_displays m)(d := Some x)\<rparr>
      in set_user_session_of d (Some sid) (set_display_of sid (Some d) (store_display d x m)))"

definition remove_from_store :: "nat \<Rightarrow> manager \<Rightarrow> manager option" where
  "remove_from_store d m =
     (let (store, _) = scdm_display_store_remove (m_display_store m) d
      in (if in_display_store d m then on_display_removed_manager d else Some) (m\<lparr>m_display_store := store\<rparr>))"

text \<open>The display of the greeter is used again: for another greeter, or for nothing after an automatic
  login; the session gets a display of its own.\<close>

definition untie_session :: "manager_world \<Rightarrow> nat \<Rightarrow> string \<Rightarrow> string option \<Rightarrow> nat option \<Rightarrow> manager \<Rightarrow> manager option" where
  "untie_session w sid service_name session_id display m = do {
     m \<leftarrow> (case display of
            None \<Rightarrow> Some m
          | Some d \<Rightarrow> do {
              x \<leftarrow> m_displays m d;
              if d_doing_initial_setup x
              then map_option (memit [WriteSetupMarker]) (set_display_status w d GDM_DISPLAY_WAITING_TO_FINISH m)
              else Some m
            });
     ms \<leftarrow> m_sessions m sid;
     let allowed_uid = s_allowed_user (ms_session ms);
     let m = (case display of None \<Rightarrow> m | Some d \<Rightarrow> set_user_session_of d None m);
     let m = set_display_of sid None m;
     (_, m) \<leftarrow> create_user_session_for_display w display allowed_uid m;
     let m = create_display_for_user_session sid session_id m;
     if service_name = ''scdm-autologin'' \<and> \<not> scdm_session_client_is_connected (ms_session ms)
     then do {
       m \<leftarrow> (case display of None \<Rightarrow> Some m | Some d \<Rightarrow> remove_from_store d m);
       Some (m\<lparr>m_automatic_login_display := get_display_for_user_session m sid\<rparr>)
     }
     else Some m
   }"

definition morph_display :: "nat option \<Rightarrow> string option \<Rightarrow> manager \<Rightarrow> manager option" where
  "morph_display display session_id m =
     (case display of
        None \<Rightarrow> Some m
      | Some d \<Rightarrow>
          quietly d (\<lambda>x. (scdm_display_stop_greeter_session x)\<lparr>d_session_class := Some ''user'', d_session_id := session_id\<rparr>) m)"

definition on_start_user_session :: "manager_world \<Rightarrow> nat \<Rightarrow> string \<Rightarrow> manager \<Rightarrow> manager option" where
  "on_start_user_session w sid service_name m = do {
     (migrated, m) \<leftarrow> switch_to_compatible_user_session w sid True m;
     if migrated
     then do {
       m \<leftarrow> on_session sid scdm_session_reset m;
       ms \<leftarrow> m_sessions m sid;
       Some (set_session sid (ms\<lparr>ms_start_operation := False\<rparr>) m)
     }
     else do {
       ms \<leftarrow> m_sessions m sid;
       let display = ms_display ms;
       x \<leftarrow> (case display of None \<Rightarrow> Some None | Some d \<Rightarrow> map_option Some (m_displays m d));
       let m = (if map_option d_doing_initial_setup x = Some True then memit [Chowned (chown_initial_setup_home_dir (mw_setup_home w))] m else m);
       session_id \<leftarrow> scdm_session_get_conversation_session_id service_name (ms_session ms);
       m \<leftarrow> (if scdm_session_get_display_mode (mw_session_world w) (ms_session ms) = REUSE_VT
            then morph_display display session_id m
            else untie_session w sid service_name session_id display m);
       start_user_session w sid service_name m
     }
   }"

text \<open>An operation is queued whether or not one waits already.\<close>

definition queue_start_user_session :: "nat \<Rightarrow> string \<Rightarrow> manager \<Rightarrow> manager option" where
  "queue_start_user_session sid service_name m =
     map_option (\<lambda>ms. set_session sid (ms\<lparr>ms_start_operation := True\<rparr>)
         (m\<lparr>m_idle := m_idle m @ [StartUserSession sid service_name]\<rparr>)) (m_sessions m sid)"

definition start_user_session_if_ready :: "nat \<Rightarrow> string \<Rightarrow> manager \<Rightarrow> manager option" where
  "start_user_session_if_ready sid service_name m = do {
     ms \<leftarrow> m_sessions m sid;
     if ms_start_when_ready ms
     then queue_start_user_session sid service_name (set_session sid (ms\<lparr>ms_waiting_to_start := False\<rparr>) m)
     else Some (set_session sid (ms\<lparr>ms_waiting_to_start := True\<rparr>) m)
   }"

section \<open>Handlers of the sessions of users\<close>

definition on_session_authentication_failed :: "nat \<Rightarrow> int \<Rightarrow> manager \<Rightarrow> manager option" where
  "on_session_authentication_failed sid conversation_pid m = add_session_record sid conversation_pid SESSION_RECORD_FAILED m"

definition on_user_session_opened :: "nat \<Rightarrow> string \<Rightarrow> manager \<Rightarrow> manager option" where
  "on_user_session_opened sid service_name m = do {
     let m = m\<lparr>m_user_sessions := m_user_sessions m @ [sid]\<rparr>;
     ms \<leftarrow> m_sessions m sid;
     let m = (if service_name = ''scdm-autologin'' \<and> \<not> scdm_session_client_is_connected (ms_session ms)
              then set_session sid (ms\<lparr>ms_start_when_ready := True\<rparr>) m else m);
     start_user_session_if_ready sid service_name m
   }"

definition on_user_session_started :: "nat \<Rightarrow> string \<Rightarrow> int \<Rightarrow> manager \<Rightarrow> manager option" where
  "on_user_session_started sid service_name pid m =
     map_option (\<lambda>m. if service_name = ''scdm-autologin'' \<and> m_plymouth_is_running m
                     then (memit [PlymouthQuitLater 20] m)\<lparr>m_plymouth_is_running := False\<rparr> else m)
       (add_session_record sid pid SESSION_RECORD_LOGIN m)"

definition remove_user_session :: "manager_world \<Rightarrow> nat \<Rightarrow> manager \<Rightarrow> manager option" where
  "remove_user_session w sid m = do {
     m \<leftarrow> (case get_display_for_user_session m sid of None \<Rightarrow> Some m | Some d \<Rightarrow> end_display w d m);
     if sid \<in> set (m_user_sessions m)
     then on_session sid scdm_session_close (m\<lparr>m_user_sessions := remove1 sid (m_user_sessions m)\<rparr>)
     else Some m
   }"

definition on_session_start_failed :: "manager_world \<Rightarrow> nat \<Rightarrow> manager \<Rightarrow> manager option" where
  "on_session_start_failed w sid m = remove_user_session w sid m"

definition on_user_session_exited :: "manager_world \<Rightarrow> nat \<Rightarrow> manager \<Rightarrow> manager option" where
  "on_user_session_exited w sid m = do {
     ms \<leftarrow> m_sessions m sid;
     let pid = s_session_pid (ms_session ms);
     m \<leftarrow> (if pid > 0 then add_session_record sid pid SESSION_RECORD_LOGOUT m else Some m);
     remove_user_session w sid m
   }"

definition on_user_session_died :: "manager_world \<Rightarrow> nat \<Rightarrow> manager \<Rightarrow> manager option" where
  "on_user_session_died w sid m = remove_user_session w sid m"

text \<open>Without a seat systemd is asked for the seat of the daemon, which has none: no login window is found.\<close>

definition on_session_reauthenticated :: "manager_world \<Rightarrow> nat \<Rightarrow> manager \<Rightarrow> manager option" where
  "on_session_reauthenticated w sid m = do {
     ms \<leftarrow> m_sessions m sid;
     let s = ms_session ms;
     m \<leftarrow> (if scdm_session_get_display_mode (mw_session_world w) s = REUSE_VT
          then case s_display_seat_id s of
                 None \<Rightarrow> Some m
               | Some seat_id \<Rightarrow>
                   (case scdm_get_login_window_session_id (mw_sd w) seat_id None of
                      (False, _) \<Rightarrow> Some m
                    | (True, session_id) \<Rightarrow>
                        (case find_display_by_session_id m session_id of
                           None \<Rightarrow> Some m
                         | Some d \<Rightarrow> Option.bind (quietly d scdm_display_stop_greeter_session m) (end_display w d)))
          else Some m);
     map_option snd (switch_to_compatible_user_session w sid False m)
   }"

definition on_session_client_ready_for_session_to_start :: "nat \<Rightarrow> string \<Rightarrow> bool \<Rightarrow> manager \<Rightarrow> manager option" where
  "on_session_client_ready_for_session_to_start sid service_name client_is_ready m = do {
     ms \<leftarrow> m_sessions m sid;
     let m = set_session sid (ms\<lparr>ms_start_when_ready := client_is_ready\<rparr>) m;
     if client_is_ready \<and> ms_waiting_to_start ms then start_user_session_if_ready sid service_name m else Some m
   }"

definition start_autologin_conversation :: "manager_world \<Rightarrow> nat \<Rightarrow> manager \<Rightarrow> manager option" where
  "start_autologin_conversation w sid m =
     on_session sid (\<lambda>s. map_option snd (scdm_session_start_conversation (mw_session_world w) ''scdm-autologin'' s)) m"

definition on_session_client_connected :: "manager_world \<Rightarrow> nat \<Rightarrow> manager \<Rightarrow> manager option" where
  "on_session_client_connected w sid m = do {
     ms \<leftarrow> m_sessions m sid;
     if scdm_session_is_running (ms_session ms) then Some m
     else case ms_display ms of
       None \<Rightarrow> Some m
     | Some d \<Rightarrow> do {
         x \<leftarrow> m_displays m d;
         if \<not> display_is_on_seat0 x then Some m
         else do {
           let m = (if m_plymouth_is_running m
                    then (memit [Plymouth PlymouthQuitRetainSplash] m)\<lparr>m_plymouth_is_running := False\<rparr> else m);
           (case get_timed_login_details (mw_settings w) of
              (enabled, username, delay) \<Rightarrow>
                if \<not> d_allow_timed_login x \<or> \<not> enabled then Some m
                else Option.bind (on_session sid (\<lambda>s. Some (scdm_session_set_timed_login_details username delay s)) m)
                       (start_autologin_conversation w sid))
         }
       }
   }"

definition on_session_conversation_started :: "manager_world \<Rightarrow> nat \<Rightarrow> string \<Rightarrow> manager \<Rightarrow> manager option" where
  "on_session_conversation_started w sid service_name m =
     (if service_name \<noteq> ''scdm-autologin'' then Some m
      else case get_display_for_user_session m sid of
        None \<Rightarrow> Some m
      | Some d \<Rightarrow> do {
          x \<leftarrow> m_displays m d;
          (case (if display_is_on_seat0 x then snd (get_automatic_login_details (mw_settings w)) else None) of
             None \<Rightarrow> Some m
           | Some username \<Rightarrow>
               on_session sid (scdm_session_setup_for_user (mw_session_world w) service_name username) m)
        })"

definition queue_session_reset :: "nat \<Rightarrow> manager \<Rightarrow> manager option" where
  "queue_session_reset sid m =
     map_option (\<lambda>ms. if ms_reset_operation ms then m
         else set_session sid (ms\<lparr>ms_reset_operation := True\<rparr>) (m\<lparr>m_idle := m_idle m @ [ResetSession sid]\<rparr>)) (m_sessions m sid)"

definition on_session_cancelled :: "nat \<Rightarrow> manager \<Rightarrow> manager option" where
  "on_session_cancelled sid m = queue_session_reset sid m"

definition on_reset_session :: "nat \<Rightarrow> manager \<Rightarrow> manager option" where
  "on_reset_session sid m = do {
     m \<leftarrow> on_session sid scdm_session_reset m;
     map_option (\<lambda>ms. set_session sid (ms\<lparr>ms_reset_operation := False\<rparr>) m) (m_sessions m sid)
   }"

end
