(* ===== verification/Manager_Steps.thy ===== *)
theory Manager_Steps
  imports Manager_Sessions
begin

text \<open>
  The manager of the daemon, last part: its start, stop and disposal, of \<open>src/daemon/scdm-manager.c\<close>, and all steps of a manager among its displays and
  sessions.
\<close>

section \<open>Start, stop and disposal\<close>

definition scdm_manager_stop :: "manager \<Rightarrow> manager" where
  "scdm_manager_stop m =
     (memit (FactoryCall StopLocalFactory # (if m_xdmcp_factory m then [FactoryCall StopXdmcpFactory] else [])) m)\<lparr>m_started := False\<rparr>"

definition scdm_manager_start :: "manager_world \<Rightarrow> manager \<Rightarrow> manager" where
  "scdm_manager_start w m =
     (let m = m\<lparr>m_plymouth_is_running := mw_plymouth w\<rparr>;
          m = (if m_plymouth_is_running m then memit [Plymouth PlymouthDeactivate] m else m);
          m = (if \<not> m_xdmcp_enabled m \<or> m_show_local_greeter m then memit [FactoryCall StartLocalFactory] m else m);
          m = (if m_xdmcp_enabled m
               then let m = (if \<not> m_show_local_greeter m \<and> m_plymouth_is_running m
                             then (memit [Plymouth PlymouthQuit] m)\<lparr>m_plymouth_is_running := False\<rparr> else m)
                    in if m_xdmcp_factory m then memit [FactoryCall StartXdmcpFactory] m else m
               else m)
      in m\<lparr>m_started := True\<rparr>)"

definition scdm_manager_set_xdmcp_enabled :: "bool \<Rightarrow> manager \<Rightarrow> manager" where
  "scdm_manager_set_xdmcp_enabled enabled m =
     (if m_xdmcp_enabled m = enabled then m
      else if enabled
      then memit (FactoryCall NewXdmcpFactory # (if m_started m then [FactoryCall StartXdmcpFactory] else []))
             (m\<lparr>m_xdmcp_enabled := True, m_xdmcp_factory := True\<rparr>)
      else memit ((if m_started m then [FactoryCall StopXdmcpFactory] else []) @ [FactoryCall FreeXdmcpFactory])
             (m\<lparr>m_xdmcp_enabled := False, m_xdmcp_factory := False\<rparr>))"

definition scdm_manager_set_show_local_greeter :: "bool \<Rightarrow> manager \<Rightarrow> manager" where
  "scdm_manager_set_show_local_greeter show_local_greeter m = m\<lparr>m_show_local_greeter := show_local_greeter\<rparr>"

text \<open>The manager is made with XDMCP enabled or not; its store is empty.\<close>

definition scdm_manager_new :: "bool \<Rightarrow> manager" where
  "scdm_manager_new xdmcp_enabled =
     \<lparr>m_displays = (\<lambda>_. None), m_next_display = 0, m_user_session_of = (\<lambda>_. None), m_sessions = (\<lambda>_. None), m_next_session = 0,
      m_display_store = scdm_display_store_new, m_xdmcp_factory = xdmcp_enabled, m_automatic_login_display = None,
      m_user_sessions = [], m_transient_sessions = [], m_open_reauthentication_requests = [],
      m_xdmcp_enabled = xdmcp_enabled, m_started = False, m_show_local_greeter = False, m_plymouth_is_running = False,
      m_did_automatic_login = False, m_idle = [], m_username_lookups = [], m_log = []\<rparr>"

text \<open>The store no longer tells the manager of removals at its disposal, but the handlers of the displays' statuses are still
  connected.\<close>

definition finish_display_manager :: "manager_world \<Rightarrow> nat \<Rightarrow> manager \<Rightarrow> manager option" where
  "finish_display_manager w d m = do {
     m \<leftarrow> quietly d scdm_display_stop_greeter_session m;
     x \<leftarrow> m_displays m d;
     m \<leftarrow> (if d_status x = GDM_DISPLAY_MANAGED
          then on_display (display_ended w d) d (scdm_display_unmanage (mw_auth w d)) m else Some m);
     on_display (display_ended w d) d (\<lambda>x. Some (scdm_display_finish x)) m
   }"

fun close_each :: "nat list \<Rightarrow> manager \<Rightarrow> manager option" where
  "close_each [] m = Some m"
| "close_each (sid # rest) m = Option.bind (on_session sid scdm_session_close m) (close_each rest)"

fun finish_each :: "manager_world \<Rightarrow> nat list \<Rightarrow> manager \<Rightarrow> manager option" where
  "finish_each w [] m = Some m"
| "finish_each w (d # rest) m = Option.bind (finish_display_manager w d m) (finish_each w rest)"

definition scdm_manager_dispose :: "manager_world \<Rightarrow> manager \<Rightarrow> manager option" where
  "scdm_manager_dispose w m = do {
     let m = memit ((if m_xdmcp_factory m then [FactoryCall FreeXdmcpFactory] else []) @ [FactoryCall FreeLocalFactory]) m;
     let m = memit (map (\<lambda>(pid, i). DropInvocation i) (m_open_reauthentication_requests m))
               (m\<lparr>m_automatic_login_display := None, m_xdmcp_factory := False, m_open_reauthentication_requests := []\<rparr>);
     let m = fold (\<lambda>(pid, sid). free_transient_session sid) (m_transient_sessions m) m;
     let m = m\<lparr>m_transient_sessions := []\<rparr>;
     m \<leftarrow> close_each (m_user_sessions m) m;
     let m = m\<lparr>m_user_sessions := []\<rparr>;
     let m = (if mw_bus_closed w then m
              else memit (map (\<lambda>(i, d). UnexportDisplay i) (displays (m_display_store m)) @ [UnexportManagerInterface]) m);
     m \<leftarrow> finish_each w (map snd (displays (m_display_store m))) m;
     Some (m\<lparr>m_display_store := scdm_display_store_clear (m_display_store m)\<rparr>)
   }"

section \<open>Steps\<close>

definition is_session_of :: "bool \<Rightarrow> nat \<Rightarrow> manager \<Rightarrow> bool" where
  "is_session_of transient sid m \<longleftrightarrow> (case m_sessions m sid of None \<Rightarrow> False | Some ms \<Rightarrow> ms_transient ms = transient)"

abbreviation user_session :: "nat \<Rightarrow> manager \<Rightarrow> bool" where
  "user_session \<equiv> is_session_of False"

abbreviation transient_session :: "nat \<Rightarrow> manager \<Rightarrow> bool" where
  "transient_session \<equiv> is_session_of True"

text \<open>The factories make displays, put them into the store, take them out, and free them; sessions and
  displays evolve on their own; what is idle is run in its turn. The statuses that a display announces
  by itself reach the manager.\<close>

definition new_display_of :: "display \<Rightarrow> manager \<Rightarrow> manager" where
  "new_display_of x m = m\<lparr>m_displays := (m_displays m)(m_next_display m := Some x), m_next_display := Suc (m_next_display m)\<rparr>"

definition free_display :: "nat \<Rightarrow> manager \<Rightarrow> manager" where
  "free_display d m = (set_user_session_of d None m)\<lparr>m_displays := (m_displays m)(d := None)\<rparr>"

inductive manager_step :: "manager \<Rightarrow> manager \<Rightarrow> bool" where
  new_display: "manager_step m (new_display_of x m)"
| stored: "m_displays m d = Some x \<Longrightarrow> manager_step m (store_display d x m)"
| unstored: "remove_from_store d m = Some m' \<Longrightarrow> manager_step m m'"
| freed: "\<not> in_display_store d m \<Longrightarrow> manager_step m (free_display d m)"
| display_moves: "(\<And>x y. f x = Some y \<Longrightarrow> display_step x y) \<Longrightarrow> on_display (on_display_status_changed_manager w d) d f m = Some m' \<Longrightarrow> manager_step m m'"
| session_moves: "(\<And>s s'. f s = Some s' \<Longrightarrow> session_step ev s s') \<Longrightarrow> on_session sid f m = Some m' \<Longrightarrow> manager_step m m'"
| user_loaded: "p \<in> set (m_username_lookups m) \<Longrightarrow> on_user_is_loaded_changed_manager w p m = Some m' \<Longrightarrow> manager_step m m'"
| register_display: "scdm_manager_handle_register_display w i sender ds m = Some m' \<Longrightarrow> manager_step m m'"
| register_session: "scdm_manager_handle_register_session w i sender m = Some m' \<Longrightarrow> manager_step m m'"
| open_session: "scdm_manager_handle_open_session w i sender m = Some m' \<Longrightarrow> manager_step m m'"
| open_channel: "scdm_manager_handle_open_reauthentication_channel w i sender username m = Some m' \<Longrightarrow> manager_step m m'"
| client_rejected: "transient_session sid m \<Longrightarrow> on_reauthentication_client_rejected w sid pid m = Some m' \<Longrightarrow> manager_step m m'"
| transient_disconnected: "transient_session sid m \<Longrightarrow> on_reauthentication_client_disconnected_manager sid m = Some m' \<Longrightarrow> manager_step m m'"
| transient_cancelled: "transient_session sid m \<Longrightarrow> on_reauthentication_cancelled_manager sid m = Some m' \<Longrightarrow> manager_step m m'"
| transient_verified: "transient_session sid m \<Longrightarrow> on_reauthentication_verification_complete_manager w sid m = Some m' \<Longrightarrow> manager_step m m'"
| reauthentication_started: "user_session sid m \<Longrightarrow> manager_step m (on_session_reauthentication_started pid a m)"
| reauthenticated_manager: "user_session sid m \<Longrightarrow> on_session_reauthenticated w sid m = Some m' \<Longrightarrow> manager_step m m'"
| authentication_failed: "user_session sid m \<Longrightarrow> on_session_authentication_failed sid pid m = Some m' \<Longrightarrow> manager_step m m'"
| session_opened: "user_session sid m \<Longrightarrow> on_user_session_opened sid n m = Some m' \<Longrightarrow> manager_step m m'"
| session_started: "user_session sid m \<Longrightarrow> on_user_session_started sid n pid m = Some m' \<Longrightarrow> manager_step m m'"
| start_failed: "user_session sid m \<Longrightarrow> on_session_start_failed w sid m = Some m' \<Longrightarrow> manager_step m m'"
| session_exited_manager: "user_session sid m \<Longrightarrow> on_user_session_exited w sid m = Some m' \<Longrightarrow> manager_step m m'"
| session_died: "user_session sid m \<Longrightarrow> on_user_session_died w sid m = Some m' \<Longrightarrow> manager_step m m'"
| client_ready_manager: "user_session sid m \<Longrightarrow> on_session_client_ready_for_session_to_start sid n b m = Some m' \<Longrightarrow> manager_step m m'"
| client_connected_manager: "user_session sid m \<Longrightarrow> on_session_client_connected w sid m = Some m' \<Longrightarrow> manager_step m m'"
| conversation_started: "user_session sid m \<Longrightarrow> on_session_conversation_started w sid n m = Some m' \<Longrightarrow> manager_step m m'"
| cancelled: "user_session sid m \<Longrightarrow> on_session_cancelled sid m = Some m' \<Longrightarrow> manager_step m m'"
| idle_start: "StartUserSession sid n \<in> set (m_idle m) \<Longrightarrow>
     on_start_user_session w sid n (m\<lparr>m_idle := remove1 (StartUserSession sid n) (m_idle m)\<rparr>) = Some m' \<Longrightarrow> manager_step m m'"
| idle_reset: "ResetSession sid \<in> set (m_idle m) \<Longrightarrow>
     on_reset_session sid (m\<lparr>m_idle := remove1 (ResetSession sid) (m_idle m)\<rparr>) = Some m' \<Longrightarrow> manager_step m m'"
| start_manager: "manager_step m (scdm_manager_start w m)"
| stop_manager: "manager_step m (scdm_manager_stop m)"
| set_xdmcp: "manager_step m (scdm_manager_set_xdmcp_enabled b m)"
| set_local_greeter: "manager_step m (scdm_manager_set_show_local_greeter b m)"

end
