(* ===== verification/Manager_Facts.thy ===== *)
theory Manager_Facts
  imports Manager_Steps
begin

text \<open>
  The reachable managers. The datum of a session that names its display and the datum of a display that
  names its session are two pointers kept by hand; \<open>links_ok\<close> says that they agree, that nothing
  points to an object that is gone, and which sessions the tables and the idle queue may name. Most operations
  leave all of this alone (\<open>keeps\<close>); the others have a lemma each.
\<close>

section \<open>The invariant\<close>

text \<open>What of a session matters for the links.\<close>

definition link_view :: "manager \<Rightarrow> nat \<Rightarrow> (bool \<times> nat option) option" where
  "link_view m sid = map_option (\<lambda>ms. (ms_transient ms, ms_display ms)) (m_sessions m sid)"

definition agree :: "(nat \<Rightarrow> nat option) \<Rightarrow> (nat \<Rightarrow> (bool \<times> nat option) option) \<Rightarrow> bool" where
  "agree user_session_of view \<longleftrightarrow> (\<forall>d sid. user_session_of d = Some sid \<longleftrightarrow> (\<exists>t. view sid = Some (t, Some d)))"

definition links_ok :: "manager \<Rightarrow> bool" where
  "links_ok m \<longleftrightarrow>
     agree (m_user_session_of m) (link_view m) \<and>
     (\<forall>d. m_user_session_of m d \<noteq> None \<longrightarrow> m_displays m d \<noteq> None) \<and>
     (\<forall>d. m_displays m d \<noteq> None \<longrightarrow> d < m_next_display m) \<and>
     (\<forall>sid. link_view m sid \<noteq> None \<longrightarrow> sid < m_next_session m) \<and>
     (\<forall>sid x. link_view m sid = Some (True, x) \<longrightarrow> x = None) \<and>
     distinct (map fst (m_transient_sessions m)) \<and> distinct (map snd (m_transient_sessions m)) \<and>
     (\<forall>pid sid. (pid, sid) \<in> set (m_transient_sessions m) \<longrightarrow> link_view m sid = Some (True, None)) \<and>
     (\<forall>sid n. StartUserSession sid n \<in> set (m_idle m) \<longrightarrow> user_session sid m) \<and>
     (\<forall>sid \<in> set (m_user_sessions m). user_session sid m)"

lemma user_session_view: "is_session_of t sid m \<longleftrightarrow> (\<exists>x. link_view m sid = Some (t, x))"
  by (auto simp: is_session_of_def link_view_def split: option.splits)

lemma display_view: "get_display_for_user_session m sid = Option.bind (link_view m sid) snd"
  by (cases "m_sessions m sid") (auto simp: get_display_for_user_session_def link_view_def)

section \<open>Operations that leave the links alone\<close>

definition keeps :: "manager \<Rightarrow> manager \<Rightarrow> bool" where
  "keeps m m' \<longleftrightarrow>
     m_user_session_of m' = m_user_session_of m \<and> link_view m' = link_view m \<and>
     (\<forall>d. m_displays m' d = None \<longleftrightarrow> m_displays m d = None) \<and>
     m_next_display m' = m_next_display m \<and> m_next_session m' = m_next_session m \<and>
     m_transient_sessions m' = m_transient_sessions m \<and>
     (\<forall>sid n. StartUserSession sid n \<in> set (m_idle m') \<longrightarrow> StartUserSession sid n \<in> set (m_idle m) \<or> user_session sid m) \<and>
     (\<forall>sid \<in> set (m_user_sessions m'). sid \<in> set (m_user_sessions m) \<or> user_session sid m)"

lemma keeps_refl [simp]: "keeps m m"
  by (simp add: keeps_def)

lemma keeps_user: "keeps m m' \<Longrightarrow> is_session_of t sid m' = is_session_of t sid m"
  by (simp add: keeps_def user_session_view)

lemma keeps_trans: "keeps m m1 \<Longrightarrow> keeps m1 m2 \<Longrightarrow> keeps m m2"
  unfolding keeps_def user_session_view by (elim conjE, intro conjI; metis)

lemma keeps_links: "keeps m m' \<Longrightarrow> links_ok m \<Longrightarrow> links_ok m'"
  unfolding keeps_def links_ok_def user_session_view by (elim conjE, intro conjI; metis)

lemma keeps_memit [simp]: "keeps m (memit fx m)"
  by (simp add: keeps_def memit_def link_view_def fun_eq_iff)

text \<open>Updates of fields that no link lives in.\<close>

lemma keeps_fields [simp]:
  "keeps m (m\<lparr>m_display_store := a\<rparr>)" "keeps m (m\<lparr>m_automatic_login_display := b\<rparr>)" "keeps m (m\<lparr>m_plymouth_is_running := c\<rparr>)"
  "keeps m (m\<lparr>m_automatic_login_display := b, m_did_automatic_login := c\<rparr>)" "keeps m (m\<lparr>m_started := c\<rparr>)"
  "keeps m (m\<lparr>m_xdmcp_enabled := c, m_xdmcp_factory := e\<rparr>)" "keeps m (m\<lparr>m_show_local_greeter := c\<rparr>)"
  "keeps m (m\<lparr>m_username_lookups := f\<rparr>)" "keeps m (m\<lparr>m_open_reauthentication_requests := g\<rparr>)"
  "keeps m (m\<lparr>m_idle := remove1 op (m_idle m)\<rparr>)" "keeps m (m\<lparr>m_user_sessions := remove1 sid (m_user_sessions m)\<rparr>)"
  "keeps m (m\<lparr>m_idle := m_idle m @ [ResetSession sid]\<rparr>)"
  by (auto simp: keeps_def link_view_def fun_eq_iff user_session_view dest: notin_set_remove1)

lemma keeps_emit_field [simp]: "keeps m ((memit fx m)\<lparr>m_plymouth_is_running := c\<rparr>)" "keeps m ((memit fx m)\<lparr>m_started := c\<rparr>)"
  by (rule keeps_trans [OF keeps_memit keeps_fields(3)], rule keeps_trans [OF keeps_memit keeps_fields(5)])

lemma keeps_display: "m_displays m d \<noteq> None \<Longrightarrow> keeps m (m\<lparr>m_displays := (m_displays m)(d := Some y)\<rparr>)"
  by (auto simp: keeps_def link_view_def fun_eq_iff)

lemma keeps_set_session:
  "m_sessions m sid = Some ms \<Longrightarrow> ms_transient ms' = ms_transient ms \<Longrightarrow> ms_display ms' = ms_display ms \<Longrightarrow> keeps m (set_session sid ms' m)"
  by (auto simp: keeps_def set_session_def link_view_def fun_eq_iff)

lemma keeps_on_session: "on_session sid f m = Some m' \<Longrightarrow> keeps m m'"
  by (auto simp: on_session_def bind_eq_Some_conv intro: keeps_set_session)

lemma keeps_quietly: "quietly d f m = Some m' \<Longrightarrow> keeps m m'"
  by (auto simp: quietly_def intro: keeps_display)

lemma keeps_record: "add_session_record sid pid r m = Some m' \<Longrightarrow> keeps m m'"
  by (auto simp: add_session_record_def bind_eq_Some_conv Let_def split: option.splits if_splits)

lemma keeps_unlock [simp]: "keeps m (snd (session_unlock w ssid m))"
  by (simp add: session_unlock_def)

lemma keeps_unlock_memit [simp]: "keeps m (snd (session_unlock w ssid (memit fx m)))"
  by (rule keeps_trans [OF keeps_memit keeps_unlock])

lemma keeps_switch:
  assumes "switch_to_compatible_user_session w sid b m = Some (r, m')"
  shows "keeps m m'"
proof -
  obtain ms existing where e: "m_sessions m sid = Some ms"
    "find_session_for_user_on_seat m (s_selected_user (ms_session ms)) (s_display_seat_id (ms_session ms)) (if b then Some sid else None) = Some existing"
    using assms by (auto simp: switch_to_compatible_user_session_def bind_eq_Some_conv Let_def)
  show ?thesis
    using assms e
    by (cases existing; cases "s_display_seat_id (ms_session ms)")
      (auto simp: switch_to_compatible_user_session_def bind_eq_Some_conv Let_def scdm_activate_session_by_id_def split: if_splits)
qed

lemma keeps_store [simp]: "keeps m (store_display d x m)"
  by (auto simp: store_display_def on_display_added_manager_def split: option.split intro: keeps_trans [OF keeps_fields(1) keeps_memit])

lemma keeps_unstore: "remove_from_store d m = Some m' \<Longrightarrow> keeps m m'"
  by (auto simp: remove_from_store_def on_display_removed_manager_def split: prod.splits if_splits
      intro: keeps_trans [OF keeps_fields(1) keeps_memit])

lemma run_statuses_invariant:
  assumes "run_statuses h sts m = Some m'" and "P m" and "\<And>st m m'. h st m = Some m' \<Longrightarrow> P m \<Longrightarrow> P m'"
  shows "P m'"
  using assms(1,2) by (induction sts arbitrary: m) (auto simp: bind_eq_Some_conv dest: assms(3))

text \<open>An operation on a display keeps what its handlers keep.\<close>

lemma on_display_invariant:
  assumes "on_display h d f m = Some m'" and "P m"
    and "\<And>m x y. m_displays m d = Some x \<Longrightarrow> P m \<Longrightarrow> P (m\<lparr>m_displays := (m_displays m)(d := Some y)\<rparr>)"
    and "\<And>st m m'. h st m = Some m' \<Longrightarrow> P m \<Longrightarrow> P m'"
  shows "P m'"
proof -
  obtain x y where d: "m_displays m d = Some x"
    and r: "run_statuses (\<lambda>st m. if in_display_store d m then h st m else Some m) (announced x y)
      (m\<lparr>m_displays := (m_displays m)(d := Some y)\<rparr>) = Some m'"
    using assms(1) by (auto simp: on_display_def bind_eq_Some_conv Let_def)
  show ?thesis
    by (rule run_statuses_invariant [where P = P, OF r assms(3) [OF d assms(2)]]) (auto split: if_splits dest: assms(4))
qed

lemma keeps_on_display:
  assumes "on_display h d f m = Some m'" and "\<And>st m m'. h st m = Some m' \<Longrightarrow> keeps m m'"
  shows "keeps m m'"
  by (rule on_display_invariant [where P = "keeps m", OF assms(1)])
    (auto intro: keeps_trans keeps_display dest: assms(2))

lemma keeps_ended: "display_ended w d st m = Some m' \<Longrightarrow> keeps m m'"
  by (auto simp: display_ended_def bind_eq_Some_conv Let_def intro: keeps_trans [OF keeps_emit_field(1) keeps_fields(4)])

lemma keeps_end: "end_display w d m = Some m' \<Longrightarrow> keeps m m'"
  by (auto simp: end_display_def bind_eq_Some_conv dest!: keeps_on_display [OF _ keeps_ended] intro: keeps_trans)

lemma keeps_chooser: "set_up_chooser_session w d m = Some m' \<Longrightarrow> keeps m m'"
  by (auto simp: set_up_chooser_session_def bind_eq_Some_conv split: if_splits prod.splits dest: keeps_end keeps_quietly)

section \<open>Operations that change links\<close>

lemma link_view_simps:
  "link_view (set_session sid ms m) = (link_view m)(sid := Some (ms_transient ms, ms_display ms))"
  "link_view (m\<lparr>m_user_session_of := u\<rparr>) = link_view m"
  "link_view (m\<lparr>m_next_session := n\<rparr>) = link_view m"
  "link_view (m\<lparr>m_transient_sessions := l\<rparr>) = link_view m"
  "link_view (m\<lparr>m_next_display := n, m_displays := h\<rparr>) = link_view m"
  "link_view (m\<lparr>m_displays := h, m_next_display := n\<rparr>) = link_view m"
  "link_view (m\<lparr>m_displays := h\<rparr>) = link_view m"
  "link_view (m\<lparr>m_sessions := (m_sessions m)(sid := None)\<rparr>) = (link_view m)(sid := None)"
  "link_view (memit fx m) = link_view m"
  by (auto simp: link_view_def set_session_def memit_def)

lemma set_session_fields [simp]:
  "m_user_session_of (set_session sid ms m) = m_user_session_of m" "m_displays (set_session sid ms m) = m_displays m"
  "m_next_display (set_session sid ms m) = m_next_display m" "m_next_session (set_session sid ms m) = m_next_session m"
  "m_transient_sessions (set_session sid ms m) = m_transient_sessions m" "m_idle (set_session sid ms m) = m_idle m"
  "m_user_sessions (set_session sid ms m) = m_user_sessions m"
  by (simp_all add: set_session_def)

lemma memit_fields [simp]:
  "m_user_session_of (memit fx m) = m_user_session_of m" "m_displays (memit fx m) = m_displays m"
  "m_next_display (memit fx m) = m_next_display m" "m_next_session (memit fx m) = m_next_session m"
  "m_transient_sessions (memit fx m) = m_transient_sessions m" "m_idle (memit fx m) = m_idle m"
  "m_user_sessions (memit fx m) = m_user_sessions m" "m_sessions (memit fx m) = m_sessions m"
  by (simp_all add: memit_def)

text \<open>Cleaning and pointing, as they act on the views.\<close>

lemma clean_view:
  "link_view (clean_user_session old m) =
     (case old of None \<Rightarrow> link_view m
      | Some o' \<Rightarrow> (case link_view m o' of None \<Rightarrow> link_view m | Some (t, _) \<Rightarrow> (link_view m)(o' := Some (t, None))))"
  by (cases old; simp; cases "m_sessions m (the old)") (auto simp: clean_user_session_def link_view_simps, auto simp: link_view_def)

lemma clean_fields [simp]:
  "m_user_session_of (clean_user_session old m) = m_user_session_of m" "m_displays (clean_user_session old m) = m_displays m"
  "m_next_display (clean_user_session old m) = m_next_display m" "m_next_session (clean_user_session old m) = m_next_session m"
  "m_transient_sessions (clean_user_session old m) = m_transient_sessions m" "m_idle (clean_user_session old m) = m_idle m"
  "m_user_sessions (clean_user_session old m) = m_user_sessions m"
  by (simp_all add: clean_user_session_def split: option.split)

lemma point_view:
  "link_view (set_display_of sid d m) = (case link_view m sid of None \<Rightarrow> link_view m | Some (t, _) \<Rightarrow> (link_view m)(sid := Some (t, d)))"
  by (cases "m_sessions m sid") (auto simp: set_display_of_def link_view_simps, auto simp: link_view_def)

lemma point_fields [simp]:
  "m_user_session_of (set_display_of sid d m) = m_user_session_of m" "m_displays (set_display_of sid d m) = m_displays m"
  "m_next_display (set_display_of sid d m) = m_next_display m" "m_next_session (set_display_of sid d m) = m_next_session m"
  "m_transient_sessions (set_display_of sid d m) = m_transient_sessions m" "m_idle (set_display_of sid d m) = m_idle m"
  "m_user_sessions (set_display_of sid d m) = m_user_sessions m"
  by (simp_all add: set_display_of_def split: option.split)

text \<open>No session is lost, and none becomes transient or the session of a user.\<close>

definition same_sessions :: "manager \<Rightarrow> manager \<Rightarrow> bool" where
  "same_sessions m m' \<longleftrightarrow> (\<forall>sid t x. link_view m sid = Some (t, x) \<longrightarrow> (\<exists>y. link_view m' sid = Some (t, y)))"

lemma agree_unique: "agree u v \<Longrightarrow> v s = Some (b, Some d) \<Longrightarrow> u d = Some s"
  by (auto simp: agree_def)

lemma agree_unlink:
  assumes "agree u v" and "u d = Some o'"
  shows "agree (u(d := None)) (v(o' := Some (b, None)))"
proof -
  have "v s = Some (t, Some d) \<Longrightarrow> s = o'" for s t using agree_unique [OF assms(1)] assms(2) by fastforce
  moreover have "\<exists>t. v o' = Some (t, Some d)" using assms by (simp add: agree_def)
  ultimately show ?thesis using assms(1) by (auto simp: agree_def)
qed

lemma agree_link:
  assumes "agree u v" and "u d = None" and "v sid = Some (b, None)"
  shows "agree (u(d := Some sid)) (v(sid := Some (b, Some d)))"
proof -
  have "v s \<noteq> Some (t, Some d)" for s t using agree_unique [OF assms(1)] assms(2) by fastforce
  moreover have "u e \<noteq> Some sid" for e using assms(1,3) by (simp add: agree_def)
  ultimately show ?thesis using assms(1) by (auto simp: agree_def)
qed

lemma links_user:
  assumes "links_ok m" and "m_user_session_of m d = Some sid"
  shows "link_view m sid = Some (False, Some d)"
proof -
  obtain t where t: "link_view m sid = Some (t, Some d)" using assms by (auto simp: links_ok_def agree_def)
  have "link_view m sid = Some (True, Some d) \<Longrightarrow> Some d = None" using assms(1) unfolding links_ok_def by blast
  then show ?thesis using t by (cases t) auto
qed

text \<open>All but the agreement.\<close>

lemma links_okI:
  assumes "links_ok m" and "agree (m_user_session_of m') (link_view m')"
    and "\<And>d. m_user_session_of m' d \<noteq> None \<Longrightarrow> m_user_session_of m d \<noteq> None \<or> m_displays m d \<noteq> None"
    and "m_displays m' = m_displays m" and "m_next_display m' = m_next_display m" and "m_next_session m' = m_next_session m"
    and "m_transient_sessions m' = m_transient_sessions m" and "m_idle m' = m_idle m" and "m_user_sessions m' = m_user_sessions m"
    and "\<And>sid. map_option fst (link_view m' sid) = map_option fst (link_view m sid)"
    and "\<And>sid x. link_view m' sid = Some (True, x) \<Longrightarrow> x = None"
  shows "links_ok m'"
proof -
  have n: "link_view m' sid = None \<longleftrightarrow> link_view m sid = None" for sid using assms(10) [of sid] by auto
  have u: "(\<exists>x. link_view m' sid = Some (b, x)) \<longleftrightarrow> (\<exists>x. link_view m sid = Some (b, x))" for sid b
    using assms(10) [of sid] by (cases "link_view m' sid"; cases "link_view m sid") auto
  have "link_view m' sid = Some (True, None)" if "link_view m sid = Some (True, None)" for sid
    using u [of sid True] that assms(11) by blast
  moreover have "m_user_session_of m d \<noteq> None \<Longrightarrow> m_displays m d \<noteq> None" for d
    using assms(1) unfolding links_ok_def by blast
  ultimately show ?thesis
    using assms(1-3,11) unfolding links_ok_def user_session_view assms(4-9) n u
    by - (elim conjE, intro conjI; blast)
qed

lemma unlink_view:
  assumes "links_ok m"
  shows "link_view (set_user_session_of d None m) =
    (case m_user_session_of m d of None \<Rightarrow> link_view m | Some o' \<Rightarrow> (link_view m)(o' := Some (False, None)))"
  using links_user [OF assms, of d]
  by (cases "m_user_session_of m d") (auto simp: set_user_session_of_def clean_view link_view_simps)

lemma set_user_session_fields [simp]:
  "m_user_session_of (set_user_session_of d x m) = (m_user_session_of m)(d := x)" "m_displays (set_user_session_of d x m) = m_displays m"
  "m_next_display (set_user_session_of d x m) = m_next_display m" "m_next_session (set_user_session_of d x m) = m_next_session m"
  "m_transient_sessions (set_user_session_of d x m) = m_transient_sessions m" "m_idle (set_user_session_of d x m) = m_idle m"
  "m_user_sessions (set_user_session_of d x m) = m_user_sessions m"
  by (simp_all add: set_user_session_of_def)

lemma unlink_ok:
  assumes "links_ok m"
  shows "links_ok (set_user_session_of d None m)"
proof (cases "m_user_session_of m d")
  case None
  then have "set_user_session_of d None m = m" by (simp add: set_user_session_of_def clean_user_session_def fun_upd_idem)
  then show ?thesis using assms by simp
next
  case (Some o')
  have v: "link_view (set_user_session_of d None m) = (link_view m)(o' := Some (False, None))"
    using Some by (simp add: unlink_view [OF assms])
  have a: "agree (m_user_session_of m) (link_view m)" and tr: "\<And>sid x. link_view m sid = Some (True, x) \<Longrightarrow> x = None"
    using assms unfolding links_ok_def by blast+
  show ?thesis
    by (rule links_okI [OF assms]) (use agree_unlink [OF a Some] links_user [OF assms Some] tr in \<open>auto simp: v split: if_splits\<close>)
qed

lemma link_ok:
  assumes "links_ok m" and "link_view m sid = Some (False, None)" and "m_displays m d \<noteq> None"
  shows "links_ok (set_user_session_of d (Some sid) (set_display_of sid (Some d) m))"
    and "link_view (set_user_session_of d (Some sid) (set_display_of sid (Some d) m)) =
      (link_view (set_user_session_of d None m))(sid := Some (False, Some d))"
proof -
  let ?m = "set_user_session_of d (Some sid) (set_display_of sid (Some d) m)"
  let ?n = "set_user_session_of d None m"
  have o: "m_user_session_of m d = Some o' \<Longrightarrow> link_view m o' = Some (False, Some d) \<and> o' \<noteq> sid" for o'
    using links_user [OF assms(1), of d o'] assms(2) by auto
  show v: "link_view ?m = (link_view ?n)(sid := Some (False, Some d))"
    using o assms(2) by (cases "m_user_session_of m d")
      (auto simp: unlink_view [OF assms(1)] set_user_session_of_def clean_view link_view_simps point_view fun_upd_twist)
  have n: "links_ok ?n" by (rule unlink_ok [OF assms(1)])
  then have a: "agree ((m_user_session_of m)(d := None)) (link_view ?n)" and tr: "\<And>s x. link_view ?n s = Some (True, x) \<Longrightarrow> x = None"
    unfolding links_ok_def by auto
  have s: "link_view ?n sid = Some (False, None)"
    using o assms(2) by (auto simp: unlink_view [OF assms(1)] split: option.split)
  show "links_ok ?m"
    by (rule links_okI [OF n])
      (use agree_link [where d = d, OF a _ s] assms(3) tr s in \<open>auto simp: v split: if_splits\<close>)
qed

lemma links_fresh:
  assumes "links_ok m"
  shows "link_view m (m_next_session m) = None" "m_displays m (m_next_display m) = None" "m_user_session_of m (m_next_display m) = None"
proof -
  show "link_view m (m_next_session m) = None" using assms unfolding links_ok_def by blast
  show d: "m_displays m (m_next_display m) = None" using assms unfolding links_ok_def by blast
  then show "m_user_session_of m (m_next_display m) = None" using assms unfolding links_ok_def by metis
qed

lemma agree_fresh: "agree u v \<Longrightarrow> v sid = None \<Longrightarrow> agree u (v(sid := Some (b, None)))"
  by (auto simp: agree_def)

lemma fresh_session_ok:
  assumes "links_ok m"
  shows "links_ok (set_session (m_next_session m) (new_managed_session s False 0 None) (m\<lparr>m_next_session := Suc (m_next_session m)\<rparr>))"
    (is "links_ok ?m")
proof -
  have v: "link_view ?m = (link_view m)(m_next_session m := Some (False, None))"
    by (simp add: link_view_simps new_managed_session_def)
  have a: "agree (m_user_session_of m) ((link_view m)(m_next_session m := Some (False, None)))"
    by (rule agree_fresh) (use assms links_fresh [OF assms] in \<open>auto simp: links_ok_def\<close>)
  have f: "m_user_session_of ?m = m_user_session_of m" "m_displays ?m = m_displays m" "m_next_display ?m = m_next_display m"
    "m_next_session ?m = Suc (m_next_session m)" "m_transient_sessions ?m = m_transient_sessions m" "m_idle ?m = m_idle m"
    "m_user_sessions ?m = m_user_sessions m" by simp_all
  have n: "link_view m (m_next_session m) = None" by (rule links_fresh(1) [OF assms])
  then have g: "link_view m s = Some y \<Longrightarrow> link_view ?m s = Some y" for s y by (auto simp: v)
  have h: "link_view ?m s = Some y \<Longrightarrow> s = m_next_session m \<and> y = (False, None) \<or> link_view m s = Some y" for s y
    by (auto simp: v split: if_splits)
  have tr: "\<forall>s x. link_view ?m s = Some (True, x) \<longrightarrow> x = None"
    using h assms unfolding links_ok_def by blast
  have lt: "\<forall>s. link_view ?m s \<noteq> None \<longrightarrow> s < Suc (m_next_session m)"
    using assms unfolding links_ok_def v by (metis fun_upd_apply less_Suc_eq)
  have us: "\<forall>sid \<in> set (m_user_sessions m). \<exists>x. link_view ?m sid = Some (False, x)"
    and idle: "\<forall>sid n. StartUserSession sid n \<in> set (m_idle m) \<longrightarrow> (\<exists>x. link_view ?m sid = Some (False, x))"
    using assms g unfolding links_ok_def user_session_view by metis+
  show ?thesis
    using assms a tr lt us idle g unfolding links_ok_def user_session_view f v [symmetric]
    by - (elim conjE, intro conjI; blast)
qed

lemma create_user_result:
  assumes "create_user_session_for_display w display a m = Some (sid, m')" and "links_ok m"
  shows "links_ok m'"
    and "\<And>s. link_view m s = Some (False, None) \<Longrightarrow> link_view m' s = Some (False, None)"
    and "m_displays m' = m_displays m" "m_next_display m' = m_next_display m" "m_user_sessions m' = m_user_sessions m"
    and "\<And>t s. is_session_of t s m \<Longrightarrow> is_session_of t s m'"
proof -
  let ?n = "m_next_session m"
  obtain s where m': "m' = (let m1 = set_session ?n (new_managed_session s False 0 None) (m\<lparr>m_next_session := Suc ?n\<rparr>)
      in case display of None \<Rightarrow> m1 | Some d \<Rightarrow> set_user_session_of d (Some ?n) (set_display_of ?n (Some d) m1))"
    and d: "\<And>d. display = Some d \<Longrightarrow> m_displays m d \<noteq> None"
    using assms(1) by (auto simp: create_user_session_for_display_def bind_eq_Some_conv Let_def split: option.splits)
  let ?m1 = "set_session ?n (new_managed_session s False 0 None) (m\<lparr>m_next_session := Suc ?n\<rparr>)"
  have ok: "links_ok ?m1" by (rule fresh_session_ok [OF assms(2)])
  have v: "link_view ?m1 = (link_view m)(?n := Some (False, None))" by (simp add: link_view_simps new_managed_session_def)
  have fresh: "link_view m ?n = None" by (rule links_fresh(1) [OF assms(2)])
  have both: "links_ok m' \<and> (\<forall>s. link_view m s = Some (False, None) \<longrightarrow> link_view m' s = Some (False, None)) \<and>
      (\<forall>t s. is_session_of t s m \<longrightarrow> is_session_of t s m')"
  proof (cases display)
    case None
    then show ?thesis using ok fresh by (auto simp: m' v user_session_view)
  next
    case (Some e)
    have e: "m_displays ?m1 e \<noteq> None" using d [OF Some] by simp
    have new: "link_view ?m1 ?n = Some (False, None)" by (simp add: v)
    have m'': "m' = set_user_session_of e (Some ?n) (set_display_of ?n (Some e) ?m1)" by (simp add: m' Some)
    have o: "m_user_session_of m e = Some o' \<Longrightarrow> link_view m o' = Some (False, Some e)" for o'
      using links_user [OF assms(2)] by blast
    show ?thesis
      using link_ok [OF ok new e] fresh o
      by (auto simp: m'' user_session_view unlink_view [OF ok] v split: option.splits)
  qed
  show "links_ok m'" "\<And>s. link_view m s = Some (False, None) \<Longrightarrow> link_view m' s = Some (False, None)"
    "\<And>t s. is_session_of t s m \<Longrightarrow> is_session_of t s m'" using both by blast+
  show "m_displays m' = m_displays m" "m_next_display m' = m_next_display m" "m_user_sessions m' = m_user_sessions m"
    by (simp_all add: m' Let_def split: option.split)
qed

section \<open>The statuses of displays\<close>

lemma links_automatic:
  "set_up_automatic_login_session w d m = Some m' \<Longrightarrow> links_ok m \<Longrightarrow> links_ok m'"
  by (auto simp: set_up_automatic_login_session_def bind_eq_Some_conv dest!: keeps_on_session
      intro: keeps_links create_user_result(1))

lemma links_greeter: "set_up_greeter_session w d m = Some m' \<Longrightarrow> links_ok m \<Longrightarrow> links_ok m'"
  by (auto simp: set_up_greeter_session_def bind_eq_Some_conv split: option.splits dest!: keeps_end keeps_quietly
      intro: keeps_links keeps_links [OF _ create_user_result(1)])

lemma links_if_user_exists: "set_up_automatic_login_session_if_user_exists w d u m = Some m' \<Longrightarrow> links_ok m \<Longrightarrow> links_ok m'"
  by (auto simp: set_up_automatic_login_session_if_user_exists_def split: if_splits dest: links_greeter links_automatic)

lemma links_set_up: "set_up_session w d m = Some m' \<Longrightarrow> links_ok m \<Longrightarrow> links_ok m'"
  by (auto simp: set_up_session_def bind_eq_Some_conv Let_def split: option.splits if_splits
      dest: links_greeter links_if_user_exists keeps_chooser keeps_links intro: keeps_links [OF keeps_fields(8)])

lemma links_status: "on_display_status_changed_manager w d st m = Some m' \<Longrightarrow> links_ok m \<Longrightarrow> links_ok m'"
  by (auto simp: on_display_status_changed_manager_def bind_eq_Some_conv split: if_splits
      dest: links_set_up keeps_ended keeps_links)

lemma links_on_display:
  assumes "on_display (on_display_status_changed_manager w d) d f m = Some m'" and "links_ok m"
  shows "links_ok m'"
  by (rule on_display_invariant [where P = links_ok, OF assms])
    (auto intro: keeps_links keeps_display dest: links_status)

lemma links_set_status: "set_display_status w d st m = Some m' \<Longrightarrow> links_ok m \<Longrightarrow> links_ok m'"
  by (auto simp: set_display_status_def dest: links_on_display)

text \<open>Nothing reacts to a display that waits to finish.\<close>

lemma announced_set_status: "announced x (scdm_display_set_status st x) = (if st = d_status x then [] else [st])"
  by (simp add: announced_def scdm_display_set_status_def emit_def)

lemma keeps_waiting: "set_display_status w d GDM_DISPLAY_WAITING_TO_FINISH m = Some m' \<Longrightarrow> keeps m m'"
  by (auto simp: set_display_status_def on_display_def bind_eq_Some_conv Let_def announced_set_status
      on_display_status_changed_manager_def split: if_splits intro: keeps_display)

section \<open>Transient sessions and start of a user's session\<close>

lemma free_transient_ok:
  assumes "links_ok m" and "map_of (m_transient_sessions m) pid = Some h"
  shows "links_ok (free_transient_session h (m\<lparr>m_transient_sessions := AList.delete pid (m_transient_sessions m)\<rparr>))"
    (is "links_ok ?m")
proof -
  let ?t = "m_transient_sessions m"
  have "(pid, h) \<in> set ?t" using assms(2) by (rule map_of_SomeD)
  then have th: "link_view m h = Some (True, None)" using assms(1) unfolding links_ok_def by blast
  have v: "link_view ?m = (link_view m)(h := None)"
    by (auto simp: free_transient_session_def link_view_def memit_def)
  have "distinct (map fst ?t)" "distinct (map snd ?t)" using assms(1) unfolding links_ok_def by blast+
  then have t: "distinct (map fst (AList.delete pid ?t))" "distinct (map snd (AList.delete pid ?t))"
    and uq: "\<And>q. (q, h) \<in> set ?t \<Longrightarrow> q = pid"
    using \<open>(pid, h) \<in> set ?t\<close>
    by (auto simp: AList.delete_eq distinct_map_filter) (metis distinct_map inj_onD fst_conv snd_conv)
  then have td: "\<And>q s. (q, s) \<in> set (AList.delete pid ?t) \<Longrightarrow> (q, s) \<in> set ?t \<and> s \<noteq> h"
    by (auto simp: AList.delete_eq)
  have f: "m_user_session_of ?m = m_user_session_of m" "m_displays ?m = m_displays m" "m_next_display ?m = m_next_display m"
    "m_next_session ?m = m_next_session m" "m_transient_sessions ?m = AList.delete pid ?t" "m_idle ?m = m_idle m"
    "m_user_sessions ?m = m_user_sessions m" by (simp_all add: free_transient_session_def)
  have a: "agree (m_user_session_of m) (link_view ?m)"
    using assms(1) th unfolding links_ok_def v by (auto simp: agree_def)
  have us: "\<forall>sid \<in> set (m_user_sessions m). \<exists>x. link_view ?m sid = Some (False, x)"
    and idle: "\<forall>sid n. StartUserSession sid n \<in> set (m_idle m) \<longrightarrow> (\<exists>x. link_view ?m sid = Some (False, x))"
    using assms(1) th unfolding links_ok_def user_session_view v by (metis fun_upd_other option.inject prod.inject)+
  have vt: "\<forall>q s. (q, s) \<in> set (AList.delete pid ?t) \<longrightarrow> link_view ?m s = Some (True, None)"
    using assms(1) td unfolding links_ok_def v by (metis fun_upd_other)
  have vo: "\<forall>s. link_view ?m s \<noteq> None \<longrightarrow> s < m_next_session m" "\<forall>s x. link_view ?m s = Some (True, x) \<longrightarrow> x = None"
    using assms(1) unfolding links_ok_def v by (metis fun_upd_apply option.distinct(1))+
  show ?thesis
    using assms(1) a us idle vt vo t unfolding links_ok_def user_session_view f
    by - (elim conjE, intro conjI; blast)
qed

lemma links_close_transient:
  assumes "close_transient_session sid m = Some m'" and "links_ok m"
  shows "links_ok m'"
proof -
  obtain m1 ms where m1: "on_session sid scdm_session_close m = Some m1" and ms: "m_sessions m1 sid = Some ms"
    and m': "m' = (case map_of (m_transient_sessions m1) (ms_caller_pid ms) of
        None \<Rightarrow> m1\<lparr>m_transient_sessions := AList.delete (ms_caller_pid ms) (m_transient_sessions m1)\<rparr>
      | Some h \<Rightarrow> free_transient_session h (m1\<lparr>m_transient_sessions := AList.delete (ms_caller_pid ms) (m_transient_sessions m1)\<rparr>))"
    using assms(1) by (auto simp: close_transient_session_def bind_eq_Some_conv Let_def split: option.splits)
  have ok: "links_ok m1" using keeps_on_session [OF m1] assms(2) by (rule keeps_links)
  show ?thesis
  proof (cases "map_of (m_transient_sessions m1) (ms_caller_pid ms)")
    case None
    then have "ms_caller_pid ms \<notin> fst ` set (m_transient_sessions m1)" by (simp add: map_of_eq_None_iff)
    then have "AList.delete (ms_caller_pid ms) (m_transient_sessions m1) = m_transient_sessions m1"
      by (force simp: AList.delete_eq filter_id_conv)
    then show ?thesis using None ok by (simp add: m')
  next
    case (Some h)
    then show ?thesis using free_transient_ok [OF ok Some] by (simp add: m')
  qed
qed

lemma distinct_snd_update:
  "distinct (map snd l) \<Longrightarrow> v \<notin> snd ` set l \<Longrightarrow> distinct (map snd (AList.update k v l))"
proof (induction l)
  case (Cons a l)
  have "snd ` set (AList.update k v l) \<subseteq> insert v (snd ` set l)"
    by (induction l) auto
  then show ?case using Cons by (cases a) auto
qed simp

lemma set_update_pairs: "distinct (map fst l) \<Longrightarrow> set (AList.update k v l) = insert (k, v) {(q, s) \<in> set l. q \<noteq> k}"
  by (induction l) force+

lemma agree_same:
  assumes "agree u v" and "\<And>s d. v' s = Some (True, Some d) \<Longrightarrow> False" and "\<And>s d. v s = Some (True, Some d) \<Longrightarrow> False"
    and "\<And>s d. v' s = Some (False, Some d) \<Longrightarrow> v s = Some (False, Some d)"
    and "\<And>s d. v s = Some (False, Some d) \<Longrightarrow> v' s = Some (False, Some d)"
  shows "agree u v'"
proof -
  have "(\<exists>t. v' s = Some (t, Some d)) \<longleftrightarrow> (\<exists>t. v s = Some (t, Some d))" for s d
    using assms(2-5) by (metis (full_types))
  then show ?thesis using assms(1) by (simp add: agree_def)
qed

lemma new_transient_ok:
  assumes "links_ok m"
  shows "links_ok (snd (open_temporary_reauthentication_channel w seat i pid uid r m))" (is "links_ok ?m")
proof -
  let ?n = "m_next_session m" and ?t = "m_transient_sessions m"
  have n: "link_view m ?n = None" by (rule links_fresh(1) [OF assms])
  have v: "link_view ?m = (case map_of ?t pid of None \<Rightarrow> (link_view m)(?n := Some (True, None))
      | Some h \<Rightarrow> (link_view m)(?n := Some (True, None), h := None))"
    by (auto simp: open_temporary_reauthentication_channel_def Let_def new_managed_session_def free_transient_session_def
        link_view_def set_session_def memit_def split: option.split)
  have f: "m_user_session_of ?m = m_user_session_of m" "m_displays ?m = m_displays m" "m_next_display ?m = m_next_display m"
    "m_next_session ?m = Suc ?n" "m_transient_sessions ?m = AList.update pid ?n ?t" "m_idle ?m = m_idle m"
    "m_user_sessions ?m = m_user_sessions m"
    by (auto simp: open_temporary_reauthentication_channel_def Let_def free_transient_session_def split: option.split)
  have d: "distinct (map fst ?t)" "distinct (map snd ?t)"
    and tv: "\<And>q s. (q, s) \<in> set ?t \<Longrightarrow> link_view m s = Some (True, None)"
    using assms unfolding links_ok_def by blast+
  have nt: "?n \<notin> snd ` set ?t" using tv n by fastforce
  have dt: "distinct (map fst (AList.update pid ?n ?t))" "distinct (map snd (AList.update pid ?n ?t))"
    using d nt by (simp_all add: distinct_update distinct_snd_update)
  have uq: "(q, h) \<in> set ?t \<Longrightarrow> map_of ?t pid = Some h \<Longrightarrow> q = pid" for q h
    using d(2) map_of_SomeD [of ?t pid h] by (metis distinct_map inj_onD fst_conv snd_conv)
  have oh: "map_of ?t pid = Some h \<Longrightarrow> link_view m h = Some (True, None) \<and> h \<noteq> ?n" for h
    using tv [OF map_of_SomeD, of pid h] n by auto
  have orig: "link_view ?m s = Some y \<Longrightarrow> s = ?n \<and> y = (True, None) \<or> link_view m s = Some y" for s y
    by (auto simp: v split: option.splits if_splits)
  have us: "link_view m s = Some (False, x) \<Longrightarrow> link_view ?m s = Some (False, x)" for s x
    using oh n by (auto simp: v split: option.splits)
  have vt: "\<forall>q s. (q, s) \<in> set (AList.update pid ?n ?t) \<longrightarrow> link_view ?m s = Some (True, None)"
    using tv uq oh by (auto simp: set_update_pairs [OF d(1)] v split: option.splits)
  have ag: "agree (m_user_session_of m) (link_view m)" and tr: "\<And>s x. link_view m s = Some (True, x) \<Longrightarrow> x = None"
    and lt: "\<And>s. link_view m s \<noteq> None \<Longrightarrow> s < ?n"
    using assms unfolding links_ok_def by blast+
  have a: "agree (m_user_session_of m) (link_view ?m)"
    by (rule agree_same [OF ag]) (use us orig tr in blast)+
  have lt': "\<forall>s. link_view ?m s \<noteq> None \<longrightarrow> s < Suc ?n"
    using orig lt by (metis less_Suc_eq not_None_eq)
  have tr': "\<forall>s x. link_view ?m s = Some (True, x) \<longrightarrow> x = None"
    using orig tr by blast
  have su: "\<forall>sid \<in> set (m_user_sessions m). \<exists>x. link_view m sid = Some (False, x)"
    and si: "\<forall>sid n. StartUserSession sid n \<in> set (m_idle m) \<longrightarrow> (\<exists>x. link_view m sid = Some (False, x))"
    using assms unfolding links_ok_def user_session_view by blast+
  have su': "\<forall>sid \<in> set (m_user_sessions m). \<exists>x. link_view ?m sid = Some (False, x)"
    and si': "\<forall>sid n. StartUserSession sid n \<in> set (m_idle m) \<longrightarrow> (\<exists>x. link_view ?m sid = Some (False, x))"
    using us su si by blast+
  show ?thesis
    using assms a vt lt' tr' dt su' si' unfolding links_ok_def user_session_view f
    by - (elim conjE, intro conjI; assumption)
qed

end
