(* ===== verification/Manager_Links.thy ===== *)
theory Manager_Links
  imports Manager_Facts
begin

text \<open>
  That the links between displays and sessions agree in every manager that steps lead to: the rest of the
  operations of \<open>Manager_Sessions\<close> and \<open>Manager_Steps\<close>, and the induction over the steps.
\<close>

section \<open>Displays that come and go\<close>

lemma new_display_ok:
  assumes "links_ok m"
  shows "links_ok (new_display_of x m)"
proof -
  have v: "link_view (new_display_of x m) = link_view m" by (simp add: new_display_of_def link_view_simps)
  have "\<forall>d. m_displays (new_display_of x m) d \<noteq> None \<longrightarrow> d < Suc (m_next_display m)"
    and "\<forall>d. m_user_session_of m d \<noteq> None \<longrightarrow> m_displays (new_display_of x m) d \<noteq> None"
    using assms unfolding links_ok_def new_display_of_def by (auto simp: less_Suc_eq)
  then show ?thesis
    using assms unfolding links_ok_def user_session_view v
    by - (elim conjE, intro conjI; simp add: new_display_of_def)
qed

lemma free_display_ok:
  assumes "links_ok m"
  shows "links_ok (free_display d m)"
proof -
  let ?n = "set_user_session_of d None m"
  have n: "links_ok ?n" by (rule unlink_ok [OF assms])
  have v: "link_view (free_display d m) = link_view ?n" by (simp add: free_display_def link_view_simps)
  have "\<forall>e. m_user_session_of ?n e \<noteq> None \<longrightarrow> m_displays (free_display d m) e \<noteq> None"
    and "\<forall>e. m_displays (free_display d m) e \<noteq> None \<longrightarrow> e < m_next_display m"
    using n unfolding links_ok_def free_display_def by (auto split: if_splits)
  then show ?thesis
    using n unfolding links_ok_def user_session_view v
    by - (elim conjE, intro conjI; simp add: free_display_def)
qed

lemma create_display_ok:
  assumes "links_ok m" and "link_view m sid = Some (False, None)"
  shows "links_ok (create_display_for_user_session sid i m)"
proof -
  let ?d = "m_next_display m"
  let ?x = "(fresh_display LocalDisplay (oid_to_id ?d))\<lparr>d_session_class := Some ''user'', d_seat_id := Some ''seat0'', d_session_id := i\<rparr>"
  let ?m = "store_display ?d ?x (new_display_of ?x m)"
  have c: "m\<lparr>m_next_display := a, m_displays := b\<rparr> = m\<lparr>m_displays := b, m_next_display := a\<rparr>" for a b
    by (rule manager.equality) simp_all
  have k: "keeps (new_display_of ?x m) ?m" by (rule keeps_store)
  have v: "link_view ?m sid = Some (False, None)"
    using k assms(2) by (simp add: keeps_def new_display_of_def link_view_simps)
  have d: "m_displays ?m ?d \<noteq> None" using k by (auto simp: keeps_def new_display_of_def)
  have "create_display_for_user_session sid i m = set_user_session_of ?d (Some sid) (set_display_of sid (Some ?d) ?m)"
    by (simp add: create_display_for_user_session_def new_display_of_def Let_def c)
  then show ?thesis using link_ok(1) [OF keeps_links [OF k new_display_ok [OF assms(1)]] v d] by simp
qed

section \<open>The start of a user's session\<close>

lemma keeps_same_view: "link_view m' = link_view m \<Longrightarrow> m_user_session_of m' = m_user_session_of m \<Longrightarrow> m_displays m' = m_displays m \<Longrightarrow>
  m_next_display m' = m_next_display m \<Longrightarrow> m_next_session m' = m_next_session m \<Longrightarrow> m_transient_sessions m' = m_transient_sessions m \<Longrightarrow>
  m_idle m' = m_idle m \<Longrightarrow> m_user_sessions m' = m_user_sessions m \<Longrightarrow> keeps m m'"
  by (simp add: keeps_def)

lemma keeps_idle_view: "link_view (m\<lparr>m_idle := l\<rparr>) = link_view m"
  by (auto simp: link_view_def fun_eq_iff)

lemma session_display: "m_sessions m sid = Some ms \<Longrightarrow> link_view m sid = Some (ms_transient ms, ms_display ms)"
  by (simp add: link_view_def)

text \<open>The session and its display part.\<close>

lemma links_untie:
  assumes "untie_session w sid n i display m = Some m'" and "links_ok m" and "link_view m sid = Some (False, display)"
  shows "links_ok m'"
proof -
  let ?m2 = "\<lambda>m1. case display of None \<Rightarrow> m1 | Some d \<Rightarrow> set_user_session_of d None m1"
  let ?m5 = "create_display_for_user_session sid i"
  obtain m1 ms s m4 where first: "(case display of None \<Rightarrow> Some m
        | Some d \<Rightarrow> Option.bind (m_displays m d) (\<lambda>x. if d_doing_initial_setup x
            then map_option (memit [WriteSetupMarker]) (set_display_status w d GDM_DISPLAY_WAITING_TO_FINISH m) else Some m)) = Some m1"
    and "m_sessions m1 sid = Some ms"
    and m4: "create_user_session_for_display w display (s_allowed_user (ms_session ms)) (set_display_of sid None (?m2 m1)) = Some (s, m4)"
    and r: "(if n = ''scdm-autologin'' \<and> \<not> scdm_session_client_is_connected (ms_session ms)
        then Option.bind (case display of None \<Rightarrow> Some (?m5 m4) | Some d \<Rightarrow> remove_from_store d (?m5 m4))
          (\<lambda>m. Some (m\<lparr>m_automatic_login_display := get_display_for_user_session m sid\<rparr>))
        else Some (?m5 m4)) = Some m'"
    using assms(1) unfolding untie_session_def Let_def bind_eq_Some_conv split_paired_Ex prod.case
    by (elim exE conjE) (rule that, assumption+)
  have m1: "keeps m m1"
    using first by (auto simp: bind_eq_Some_conv split: option.splits if_splits dest: keeps_waiting intro: keeps_trans [OF _ keeps_memit])
  have ok1: "links_ok m1" by (rule keeps_links [OF m1 assms(2)])
  have v1: "link_view m1 sid = Some (False, display)" using m1 assms(3) by (simp add: keeps_def)
  have ag: "agree (m_user_session_of m1) (link_view m1)" using ok1 by (simp add: links_ok_def)
  have ok2: "links_ok (?m2 m1)" using ok1 by (simp add: unlink_ok split: option.split)
  have v2: "link_view (?m2 m1) sid = Some (False, None)"
    using v1 agree_unique [OF ag] by (auto simp: unlink_view [OF ok1] split: option.split)
  have "keeps (?m2 m1) (set_display_of sid None (?m2 m1))"
    by (rule keeps_same_view) (use v2 in \<open>auto simp: point_view\<close>)
  then have ok3: "links_ok (set_display_of sid None (?m2 m1))" and v3: "link_view (set_display_of sid None (?m2 m1)) sid = Some (False, None)"
    using ok2 v2 by (auto intro: keeps_links simp: keeps_def)
  have "links_ok (create_display_for_user_session sid i m4)"
    by (rule create_display_ok [OF create_user_result(1,2) [OF m4 ok3]]) (rule v3)
  then show ?thesis
    using r by (auto simp: Let_def bind_eq_Some_conv split: if_splits option.splits dest: keeps_unstore
      intro: keeps_links [OF keeps_trans [OF _ keeps_fields(2)]] keeps_links [OF keeps_fields(2)])
qed

lemma keeps_update_session:
  "m_sessions m sid = Some ms \<Longrightarrow> keeps m (set_session sid (ms\<lparr>ms_start_operation := b\<rparr>) m)"
  "m_sessions m sid = Some ms \<Longrightarrow> keeps m (set_session sid (ms\<lparr>ms_start_when_ready := b\<rparr>) m)"
  "m_sessions m sid = Some ms \<Longrightarrow> keeps m (set_session sid (ms\<lparr>ms_waiting_to_start := b\<rparr>) m)"
  "m_sessions m sid = Some ms \<Longrightarrow> keeps m (set_session sid (ms\<lparr>ms_reset_operation := b\<rparr>) m)"
  by (auto intro: keeps_set_session)

lemma keeps_authorize:
  assumes "m_displays m d \<noteq> None" and "on_session sid f (m\<lparr>m_displays := (m_displays m)(d := Some y)\<rparr>) = Some m'"
  shows "keeps m m'"
  by (rule keeps_trans [OF keeps_display [OF assms(1)] keeps_on_session [OF assms(2)]])

lemma keeps_start:
  assumes "start_user_session w sid n m = Some m'"
  shows "keeps m m'"
proof -
  obtain ms m1 m2 ms2 where 1: "(case ms_display ms of None \<Rightarrow> Some m
      | Some d \<Rightarrow> Option.bind (m_displays m d) (\<lambda>x. if d_xcb x = None then Some m
          else Option.bind (s_selected_user (ms_session ms)) (\<lambda>username.
            Option.bind (scdm_display_add_user_authorization (mw_auth w d) username x) (\<lambda>(r, y).
              case r of Inr (Some auth_file) \<Rightarrow>
                on_session sid (\<lambda>s. Some (s\<lparr>s_user_x11_authority_file := Some auth_file\<rparr>)) (m\<lparr>m_displays := (m_displays m)(d := Some y)\<rparr>)
              | _ \<Rightarrow> None)))) = Some m1"
    and ms: "m_sessions m sid = Some ms"
    and 2: "on_session sid (scdm_session_start_session (mw_session_world w) n) m1 = Some m2"
    and 3: "m_sessions m2 sid = Some ms2" "set_session sid (ms2\<lparr>ms_start_operation := False\<rparr>) m2 = m'"
    using assms unfolding start_user_session_def bind_eq_Some_conv option.inject
    by (elim exE conjE) (rule that, assumption+)
  have "keeps m m1"
    using 1
    apply (auto simp: bind_eq_Some_conv split: option.split_asm if_split_asm intro: keeps_authorize)
    subgoal for d x u1 u2 u3 a by (cases a) (auto split: option.split_asm intro: keeps_authorize)
    done
  then show ?thesis using 3 by (auto intro: keeps_trans [OF keeps_trans [OF _ keeps_on_session [OF 2]] keeps_update_session(1)])
qed

lemma keeps_morph: "morph_display display i m = Some m' \<Longrightarrow> keeps m m'"
  by (auto simp: morph_display_def split: option.splits dest: keeps_quietly)

lemma links_start:
  assumes "on_start_user_session w sid n m = Some m'" and "links_ok m" and "user_session sid m"
  shows "links_ok m'"
proof -
  obtain migrated m1 where m1: "switch_to_compatible_user_session w sid True m = Some (migrated, m1)"
    and r: "(if migrated
      then Option.bind (on_session sid scdm_session_reset m1) (\<lambda>m. Option.bind (m_sessions m sid) (\<lambda>ms.
        Some (set_session sid (ms\<lparr>ms_start_operation := False\<rparr>) m)))
      else Option.bind (m_sessions m1 sid) (\<lambda>ms.
        Option.bind (case ms_display ms of None \<Rightarrow> Some None | Some d \<Rightarrow> map_option Some (m_displays m1 d)) (\<lambda>x.
        let m = (if map_option d_doing_initial_setup x = Some True then memit [Chowned (chown_initial_setup_home_dir (mw_setup_home w))] m1 else m1) in
        Option.bind (scdm_session_get_conversation_session_id n (ms_session ms)) (\<lambda>i.
        Option.bind (if scdm_session_get_display_mode (mw_session_world w) (ms_session ms) = REUSE_VT
            then morph_display (ms_display ms) i m else untie_session w sid n i (ms_display ms) m)
          (start_user_session w sid n))))) = Some m'"
    using assms(1) unfolding on_start_user_session_def Let_def bind_eq_Some_conv [of "switch_to_compatible_user_session w sid True m"]
    by auto
  have k1: "keeps m m1" by (rule keeps_switch [OF m1])
  show ?thesis
  proof (cases migrated)
    case True
    then show ?thesis
      using r k1 assms(2) by (auto simp: bind_eq_Some_conv intro: keeps_links [OF keeps_trans] keeps_trans
        dest!: keeps_on_session keeps_update_session(1))
  next
    case False
    then have "Option.bind (m_sessions m1 sid) (\<lambda>ms.
        Option.bind (case ms_display ms of None \<Rightarrow> Some None | Some d \<Rightarrow> map_option Some (m_displays m1 d)) (\<lambda>x.
        let m = (if map_option d_doing_initial_setup x = Some True then memit [Chowned (chown_initial_setup_home_dir (mw_setup_home w))] m1 else m1) in
        Option.bind (scdm_session_get_conversation_session_id n (ms_session ms)) (\<lambda>i.
        Option.bind (if scdm_session_get_display_mode (mw_session_world w) (ms_session ms) = REUSE_VT
            then morph_display (ms_display ms) i m else untie_session w sid n i (ms_display ms) m)
          (start_user_session w sid n)))) = Some m'" using r by simp
    then obtain ms m2 i m3 and x :: "display option" where ms: "m_sessions m1 sid = Some ms"
      and m2: "m2 = (if map_option d_doing_initial_setup x = Some True then memit [Chowned (chown_initial_setup_home_dir (mw_setup_home w))] m1 else m1)"
      and m3: "(if scdm_session_get_display_mode (mw_session_world w) (ms_session ms) = REUSE_VT
            then morph_display (ms_display ms) i m2 else untie_session w sid n i (ms_display ms) m2) = Some m3"
      and st: "start_user_session w sid n m3 = Some m'"
      unfolding Let_def bind_eq_Some_conv by (elim exE conjE) (rule that, assumption, rule refl, assumption+)
    have k2: "keeps m m2" using k1 by (auto simp: m2 intro: keeps_trans [OF _ keeps_memit])
    have "link_view m2 sid = Some (False, ms_display ms)"
      using assms(3) k1 k2 session_display [OF ms] by (auto simp: keeps_def user_session_view)
    then have "links_ok m3"
      using m3 keeps_links [OF k2 assms(2)] by (auto split: if_splits dest: links_untie keeps_morph intro: keeps_links)
    then show ?thesis by (rule keeps_links [OF keeps_start [OF st]])
  qed
qed

section \<open>Methods on the bus\<close>

lemma keeps_memit_after: "keeps m m1 \<Longrightarrow> keeps m (memit fx m1)"
  by (rule keeps_trans [OF _ keeps_memit])

lemma keeps_name: "set_x11_display_name sid d name m = Some m' \<Longrightarrow> keeps m m'"
  by (auto simp: set_x11_display_name_def bind_eq_Some_conv split: option.splits dest!: keeps_on_session keeps_quietly intro: keeps_trans)

lemma links_register_display:
  assumes "scdm_manager_handle_register_display w i sender ds m = Some m'" and "links_ok m"
  shows "links_ok m'"
proof (cases "sn_display (get_display_and_details_for_bus_sender w sender False m)")
  case None
  then show ?thesis using assms by (auto simp: scdm_manager_handle_register_display_def Let_def intro: keeps_links [OF keeps_memit])
next
  case (Some d)
  let ?tty = "sn_tty (get_display_and_details_for_bus_sender w sender False m)"
  obtain m1 m2 where m1: "(case find_user_session_for_display m d of None \<Rightarrow> Some m
      | Some sid \<Rightarrow> Option.bind (set_x11_display_name sid d (map_of ds ''x11-display-name'') m) (\<lambda>m.
          Option.bind (case ?tty of None \<Rightarrow> Some m | Some tty \<Rightarrow> on_session sid (\<lambda>s. Some (s\<lparr>s_display_device := Some tty\<rparr>)) m) (\<lambda>m.
          Option.bind (m_sessions m sid) (\<lambda>ms.
          if s_session_pid (ms_session ms) > 0 then add_session_record sid (s_session_pid (ms_session ms)) SESSION_RECORD_LOGIN m
          else Some m)))) = Some m1"
    and m2: "set_display_status w d GDM_DISPLAY_MANAGED m1 = Some m2" and m': "m' = memit [ManagerReply i Registered] m2"
    using assms(1) Some unfolding scdm_manager_handle_register_display_def Let_def by (auto simp: bind_eq_Some_conv)
  have "keeps m m1"
    using m1 by (auto simp: bind_eq_Some_conv split: option.split_asm if_split_asm
        dest!: keeps_name keeps_on_session keeps_record intro: keeps_trans)
  then have "links_ok m2" using assms(2) links_set_status [OF m2] by (blast intro: keeps_links)
  then show ?thesis by (simp add: m' keeps_links [OF keeps_memit])
qed

lemma keeps_register_session: "scdm_manager_handle_register_session w i sender m = Some m' \<Longrightarrow> keeps m m'"
  by (auto simp: scdm_manager_handle_register_session_def split: option.split_asm dest!: keeps_quietly intro: keeps_memit_after)

lemma keeps_open_session: "scdm_manager_handle_open_session w i sender m = Some m' \<Longrightarrow> keeps m m'"
  by (auto simp: scdm_manager_handle_open_session_def Let_def bind_eq_Some_conv split: option.split_asm if_split_asm)

lemma keeps_add_request: "keeps m m1 \<Longrightarrow> keeps m (add_open_request pid i m1)"
  unfolding add_open_request_def by (rule keeps_memit_after) (rule keeps_trans [OF _ keeps_fields(9)])

lemma links_open_channel:
  assumes "scdm_manager_handle_open_reauthentication_channel w i sender username m = Some m'" and "links_ok m"
  shows "links_ok m'"
proof -
  have t: "open_temporary_reauthentication_channel w seat si pid uid r m = (a, m1) \<Longrightarrow> links_ok (memit fx m1)" for seat si pid uid r a m1 fx
    using new_transient_ok [OF assms(2), of w seat si pid uid r] by (simp add: keeps_links [OF keeps_memit])
  show ?thesis
    using assms unfolding scdm_manager_handle_open_reauthentication_channel_def Let_def
    by (auto simp: bind_eq_Some_conv split: option.split_asm if_split_asm prod.split_asm
        dest!: keeps_on_session intro: keeps_links [OF keeps_memit] keeps_links [OF keeps_add_request] t)
qed

lemma keeps_reauthentication_started: "keeps m (on_session_reauthentication_started pid a m)"
  by (auto simp: on_session_reauthentication_started_def split: option.split intro: keeps_memit_after)

section \<open>Signals of sessions\<close>

lemma links_rejected: "on_reauthentication_client_rejected w sid pid m = Some m' \<Longrightarrow> links_ok m \<Longrightarrow> links_ok m'"
  by (auto simp: on_reauthentication_client_rejected_def bind_eq_Some_conv split: if_split_asm dest: links_close_transient)

lemma links_verified: "on_reauthentication_verification_complete_manager w sid m = Some m' \<Longrightarrow> links_ok m \<Longrightarrow> links_ok m'"
  by (auto simp: on_reauthentication_verification_complete_manager_def bind_eq_Some_conv
      intro: links_close_transient keeps_links [OF keeps_unlock])

lemma keeps_queue_start: "queue_start_user_session sid n m = Some m' \<Longrightarrow> user_session sid m \<Longrightarrow> keeps m m'"
proof -
  assume a: "queue_start_user_session sid n m = Some m'" "user_session sid m"
  then obtain ms where ms: "m_sessions m sid = Some ms"
    and m': "m' = set_session sid (ms\<lparr>ms_start_operation := True\<rparr>) (m\<lparr>m_idle := m_idle m @ [StartUserSession sid n]\<rparr>)"
    by (auto simp: queue_start_user_session_def)
  have "keeps m (m\<lparr>m_idle := m_idle m @ [StartUserSession sid n]\<rparr>)"
    using a(2) by (auto simp: keeps_def keeps_idle_view)
  then show ?thesis unfolding m' by (rule keeps_trans) (rule keeps_update_session(1), simp add: ms)
qed

lemma keeps_start_if_ready:
  assumes "start_user_session_if_ready sid n m = Some m'" and "user_session sid m"
  shows "keeps m m'"
proof -
  obtain ms where ms: "m_sessions m sid = Some ms"
    and r: "(if ms_start_when_ready ms then queue_start_user_session sid n (set_session sid (ms\<lparr>ms_waiting_to_start := False\<rparr>) m)
      else Some (set_session sid (ms\<lparr>ms_waiting_to_start := True\<rparr>) m)) = Some m'"
    using assms(1) by (auto simp: start_user_session_if_ready_def bind_eq_Some_conv)
  note k = keeps_update_session(3) [OF ms, of False]
  show ?thesis
    using r assms(2) keeps_user [OF k]
    by (auto split: if_splits intro: keeps_trans [OF k] keeps_queue_start keeps_update_session(3) [OF ms])
qed

lemma keeps_opened:
  assumes "on_user_session_opened sid n m = Some m'" and "user_session sid m"
  shows "keeps m m'"
proof -
  let ?m1 = "m\<lparr>m_user_sessions := m_user_sessions m @ [sid]\<rparr>"
  have "link_view ?m1 = link_view m" by (auto simp: link_view_def fun_eq_iff)
  then have k1: "keeps m ?m1" using assms(2) by (auto simp: keeps_def)
  let ?m2 = "\<lambda>ms. if n = ''scdm-autologin'' \<and> \<not> scdm_session_client_is_connected (ms_session ms)
      then set_session sid (ms\<lparr>ms_start_when_ready := True\<rparr>) ?m1 else ?m1"
  obtain ms where ms: "m_sessions m sid = Some ms" and r: "start_user_session_if_ready sid n (?m2 ms) = Some m'"
    using assms(1) unfolding on_user_session_opened_def Let_def by (auto simp: bind_eq_Some_conv)
  have "keeps ?m1 (?m2 ms)" using ms by (auto intro: keeps_update_session)
  then have k: "keeps m (?m2 ms)" by (rule keeps_trans [OF k1])
  show ?thesis using keeps_trans [OF k keeps_start_if_ready [OF r]] assms(2) keeps_user [OF k] by simp
qed

lemma keeps_started: "on_user_session_started sid n pid m = Some m' \<Longrightarrow> keeps m m'"
  by (auto simp: on_user_session_started_def dest!: keeps_record intro: keeps_trans [OF _ keeps_emit_field(1)])

lemma keeps_remove:
  assumes "remove_user_session w sid m = Some m'"
  shows "keeps m m'"
proof -
  obtain m1 where m1: "(case get_display_for_user_session m sid of None \<Rightarrow> Some m | Some d \<Rightarrow> end_display w d m) = Some m1"
    and r: "(if sid \<in> set (m_user_sessions m1)
      then on_session sid scdm_session_close (m1\<lparr>m_user_sessions := remove1 sid (m_user_sessions m1)\<rparr>) else Some m1) = Some m'"
    using assms unfolding remove_user_session_def by (auto simp: bind_eq_Some_conv)
  have "keeps m m1" using m1 by (auto split: option.split_asm dest: keeps_end)
  then show ?thesis
    using r by (auto split: if_split_asm dest!: keeps_on_session intro: keeps_trans keeps_trans [OF keeps_fields(11)])
qed

lemma keeps_exited: "on_user_session_exited w sid m = Some m' \<Longrightarrow> keeps m m'"
  by (auto simp: on_user_session_exited_def bind_eq_Some_conv Let_def split: if_split_asm
      dest!: keeps_record keeps_remove intro: keeps_trans)

lemma keeps_reauthenticated:
  assumes "on_session_reauthenticated w sid m = Some m'"
  shows "keeps m m'"
proof -
  obtain ms m1 b where ms: "m_sessions m sid = Some ms"
    and m1: "(if scdm_session_get_display_mode (mw_session_world w) (ms_session ms) = REUSE_VT
      then case s_display_seat_id (ms_session ms) of
             None \<Rightarrow> Some m
           | Some seat_id \<Rightarrow>
               (case scdm_get_login_window_session_id (mw_sd w) seat_id None of
                  (False, _) \<Rightarrow> Some m
                | (True, session_id) \<Rightarrow>
                    (case find_display_by_session_id m session_id of
                       None \<Rightarrow> Some m
                     | Some d \<Rightarrow> Option.bind (quietly d scdm_display_stop_greeter_session m) (end_display w d)))
      else Some m) = Some m1"
    and sw: "switch_to_compatible_user_session w sid False m1 = Some (b, m')"
    using assms unfolding on_session_reauthenticated_def Let_def
    by (auto simp: bind_eq_Some_conv [of "m_sessions m sid"] bind_eq_Some_conv [of "if _ then _ else _"])
  have "keeps m m1"
    using m1 by (auto simp: bind_eq_Some_conv split: option.split_asm if_split_asm prod.split_asm bool.split_asm
        dest!: keeps_quietly keeps_end intro: keeps_trans)
  then show ?thesis using keeps_switch [OF sw] by (rule keeps_trans)
qed

lemma keeps_client_ready:
  assumes "on_session_client_ready_for_session_to_start sid n b m = Some m'" and "user_session sid m"
  shows "keeps m m'"
proof -
  obtain ms where ms: "m_sessions m sid = Some ms"
    and r: "(if b \<and> ms_waiting_to_start ms then start_user_session_if_ready sid n (set_session sid (ms\<lparr>ms_start_when_ready := b\<rparr>) m)
      else Some (set_session sid (ms\<lparr>ms_start_when_ready := b\<rparr>) m)) = Some m'"
    using assms(1) unfolding on_session_client_ready_for_session_to_start_def Let_def by (auto simp: bind_eq_Some_conv)
  note k = keeps_update_session(2) [OF ms, of b]
  show ?thesis
  proof (cases "b \<and> ms_waiting_to_start ms")
    case True
    have "start_user_session_if_ready sid n (set_session sid (ms\<lparr>ms_start_when_ready := b\<rparr>) m) = Some m'"
      using r by (simp only: if_P [OF True])
    then show ?thesis using assms(2) keeps_user [OF k] by (blast intro: keeps_trans [OF k] keeps_start_if_ready)
  qed (use r k in auto)
qed

lemma bind_some_elim: "Option.bind x f = Some y \<Longrightarrow> (\<And>z. x = Some z \<Longrightarrow> f z = Some y \<Longrightarrow> P) \<Longrightarrow> P"
  by (cases x) auto

lemma case_some_elim: "(case x of None \<Rightarrow> a | Some z \<Rightarrow> f z) = Some y \<Longrightarrow> (a = Some y \<Longrightarrow> P) \<Longrightarrow> (\<And>z. x = Some z \<Longrightarrow> f z = Some y \<Longrightarrow> P) \<Longrightarrow> P"
  by (cases x) auto

lemma if_some_elim: "(if b then a else c) = Some y \<Longrightarrow> (b \<Longrightarrow> a = Some y \<Longrightarrow> P) \<Longrightarrow> (\<not> b \<Longrightarrow> c = Some y \<Longrightarrow> P) \<Longrightarrow> P"
  by (cases b) auto

lemma keeps_client_connected:
  assumes "on_session_client_connected w sid m = Some m'"
  shows "keeps m m'"
proof -
  obtain e u dl where t: "get_timed_login_details (mw_settings w) = (e, u, dl)" by (cases "get_timed_login_details (mw_settings w)")
  let ?m1 = "if m_plymouth_is_running m then (memit [Plymouth PlymouthQuitRetainSplash] m)\<lparr>m_plymouth_is_running := False\<rparr> else m"
  have r: "m' = m \<or> m' = ?m1 \<or> (\<exists>m2. on_session sid (\<lambda>s. Some (scdm_session_set_timed_login_details u dl s)) ?m1 = Some m2 \<and>
      on_session sid (\<lambda>s. map_option snd (scdm_session_start_conversation (mw_session_world w) ''scdm-autologin'' s)) m2 = Some m')"
    using assms unfolding on_session_client_connected_def start_autologin_conversation_def Let_def t prod.case
    by (elim bind_some_elim case_some_elim if_some_elim; simp only: option.inject; blast)
  have k: "keeps m ?m1" by simp
  from r show ?thesis
    using k by (elim disjE exE conjE) (auto simp only: dest!: keeps_on_session intro: keeps_trans keeps_refl)
qed

lemma keeps_conversation_started: "on_session_conversation_started w sid n m = Some m' \<Longrightarrow> keeps m m'"
  by (auto simp: on_session_conversation_started_def bind_eq_Some_conv split: option.split_asm if_split_asm dest: keeps_on_session)

lemma keeps_cancelled:
  assumes "on_session_cancelled sid m = Some m'"
  shows "keeps m m'"
proof -
  obtain ms where ms: "m_sessions m sid = Some ms"
    and m': "m' = (if ms_reset_operation ms then m
      else set_session sid (ms\<lparr>ms_reset_operation := True\<rparr>) (m\<lparr>m_idle := m_idle m @ [ResetSession sid]\<rparr>))"
    using assms by (auto simp: on_session_cancelled_def queue_session_reset_def)
  show ?thesis
    using ms by (auto simp: m' intro: keeps_trans [OF keeps_fields(12) keeps_update_session(4)])
qed

lemma keeps_reset: "on_reset_session sid m = Some m' \<Longrightarrow> keeps m m'"
  by (auto simp: on_reset_session_def bind_eq_Some_conv dest!: keeps_on_session intro: keeps_trans keeps_update_session)

section \<open>The manager itself\<close>

lemma keeps_manager [simp]:
  "keeps m (scdm_manager_stop m)" "keeps m (scdm_manager_set_show_local_greeter b m)"
  "keeps m (scdm_manager_set_xdmcp_enabled b m)" "keeps m (scdm_manager_start w m)"
  by (auto simp: keeps_def scdm_manager_stop_def scdm_manager_set_show_local_greeter_def scdm_manager_set_xdmcp_enabled_def
      scdm_manager_start_def Let_def memit_def link_view_def fun_eq_iff)

lemma links_user_loaded:
  assumes "on_user_is_loaded_changed_manager w p m = Some m'" and "links_ok m"
  shows "links_ok m'"
  using assms by (auto simp: on_user_is_loaded_changed_manager_def intro: keeps_links [OF keeps_fields(8)] dest: links_if_user_exists)

lemma new_manager_ok: "links_ok (scdm_manager_new b)"
  by (simp add: links_ok_def scdm_manager_new_def link_view_def agree_def)

lemmas links_steps =
  keeps_links [OF keeps_register_session] keeps_links [OF keeps_open_session] keeps_links [OF keeps_on_session]
  keeps_links [OF keeps_reauthenticated] keeps_links [OF keeps_record] keeps_links [OF keeps_opened] keeps_links [OF keeps_started]
  keeps_links [OF keeps_remove] keeps_links [OF keeps_exited] keeps_links [OF keeps_client_ready] keeps_links [OF keeps_client_connected]
  keeps_links [OF keeps_conversation_started] keeps_links [OF keeps_cancelled] keeps_links [OF keeps_unstore]
  links_user_loaded links_register_display links_open_channel links_rejected links_verified links_close_transient links_on_display

text \<open>One step.\<close>

lemma step_links: "manager_step m m' \<Longrightarrow> links_ok m \<Longrightarrow> links_ok m'"
proof (induction rule: manager_step.induct)
  case (idle_start sid n m w m')
  let ?m = "m\<lparr>m_idle := remove1 (StartUserSession sid n) (m_idle m)\<rparr>"
  have "user_session sid m" using idle_start(1,3) unfolding links_ok_def by blast
  then have "user_session sid ?m" using keeps_user [OF keeps_fields(10)] by simp
  with idle_start(2) keeps_links [OF keeps_fields(10) idle_start(3)] show ?case by (rule links_start)
next
  case (idle_reset sid m m')
  then show ?case by (blast intro: keeps_links [OF keeps_trans [OF keeps_fields(10) keeps_reset]])
next
  case (stored m d x)
  then show ?case by (blast intro: keeps_links [OF keeps_store])
next
  case (reauthentication_started sid m pid a)
  then show ?case by (blast intro: keeps_links [OF keeps_reauthentication_started])
qed ((rule new_display_ok free_display_ok keeps_manager [THEN keeps_links], assumption) |
  (simp only: on_reauthentication_client_disconnected_manager_def on_reauthentication_cancelled_manager_def
      on_session_authentication_failed_def on_session_start_failed_def on_user_session_died_def)?, (rule links_steps; assumption))+

lemma reachable_links: "manager_step\<^sup>*\<^sup>* m m' \<Longrightarrow> links_ok m \<Longrightarrow> links_ok m'"
  by (induction rule: rtranclp_induct) (auto dest: step_links)

end
