(* ===== verification/Manager_Props.thy ===== *)
theory Manager_Props
  imports Manager_Links Session_Props "HOL-Library.Sublist"
begin

text \<open>
  The properties of the manager, and a small machine as an example.
\<close>

section \<open>An example machine\<close>

text \<open>One greeter's display with its X server, the users \<open>gdm\<close> (120) and \<open>joe\<close> (1000); the process 500 is of uid
  1001 and runs in the session \<open>c2\<close> of joe, as after a change of the user.\<close>

definition example_sd :: sd_login where
  "example_sd = \<lparr>sd_pid_get_session = (\<lambda>p. if p = 500 then Inr ''c2'' else Inr ''c1''), sd_uid_get_sessions = (\<lambda>_. Inr []),
     sd_session_get_type = (\<lambda>_. Inr ''x11''), sd_session_get_state = (\<lambda>_. Inr ''active''),
     sd_session_get_class = (\<lambda>s. Inr (if s = ''c1'' then ''greeter'' else ''user'')), sd_session_get_service = (\<lambda>_. Inr ''gdm''),
     sd_session_get_seat = (\<lambda>_. Inr ''seat0''), sd_seat_can_multi_session = (\<lambda>_. Inr True), sd_seat_get_sessions = (\<lambda>_. Inr [])\<rparr>"

definition example_mworld :: manager_world where
  "example_mworld = \<lparr>mw_sd = example_sd, mw_session_uid = (\<lambda>s. Inr (if s = ''c1'' then 120 else 1000)), mw_session_tty = (\<lambda>_. Inr ''tty1''),
     mw_sender_pid = (\<lambda>s. Some (if s = '':1'' then 500 else 501)), mw_sender_uid = (\<lambda>s. Some (if s = '':1'' then 1001 else 120)),
     mw_bus = (\<lambda>_. True), mw_unlock = (\<lambda>_. True), mw_auth = (\<lambda>_. example_auth_env), mw_session_world = example_sworld,
     mw_outside_address = (\<lambda>_. Some ''unix:o''), mw_worker_address = (\<lambda>_. Some ''unix:w''), mw_launch_session = (\<lambda>_. None), mw_environ = [],
     mw_getpwnam = (\<lambda>u. [(Some 120, None)]), mw_settings = \<lparr>st_timed_login_enable = None, st_timed_login_user = None,
       st_timed_login_delay = None, st_auto_login_enable = None, st_auto_login_user = None\<rparr>, mw_users_loaded = True,
     mw_user_nonexistent = (\<lambda>_. False), mw_plymouth = False, mw_scdm_user = ''gdm'',
     mw_setup_home = \<lparr>sh_setup_user_known = False, sh_uid_contents = None, sh_atoi = (\<lambda>_. 0), sh_known_uid = (\<lambda>_. False),
       sh_chown_ok = (\<lambda>_. True), sh_dir = PlainFile ''/run''\<rparr>, mw_bus_closed = False\<rparr>"

definition example_display :: display where
  "example_display = (fresh_display LocalDisplay (oid_to_id 0))\<lparr>d_seat_id := Some ''seat0'', d_session_id := Some ''c1'', d_x11_display_number := 0,
     d_x11_display_name := Some '':0'', d_status := GDM_DISPLAY_PREPARED\<rparr>"

text \<open>The display is made, stored, and managed: it gets a session.\<close>

definition example_greeter :: "manager option" where
  "example_greeter = set_display_status example_mworld 0 GDM_DISPLAY_MANAGED
     (store_display 0 example_display (new_display_of example_display (scdm_manager_new False)))"

lemma example_greeter_run:
  assumes "example_greeter = Some m"
  shows "manager_step\<^sup>*\<^sup>* (scdm_manager_new False) m"
proof -
  let ?m1 = "new_display_of example_display (scdm_manager_new False)"
  have 1: "manager_step (scdm_manager_new False) ?m1" by (rule new_display)
  have 2: "manager_step ?m1 (store_display 0 example_display ?m1)"
    by (rule stored) (simp add: new_display_of_def scdm_manager_new_def)
  have 3: "manager_step (store_display 0 example_display ?m1) m"
    by (rule display_moves [where f = "\<lambda>x. Some (scdm_display_set_status GDM_DISPLAY_MANAGED x)" and w = example_mworld and d = 0])
      (use assms in \<open>auto simp: example_greeter_def set_display_status_def intro: display_step.set_status\<close>)
  show ?thesis using 1 2 3 by (blast intro: rtranclp.rtrancl_into_rtrancl)
qed

section \<open>Displays and sessions\<close>

text \<open>C4. A display and its session never point past each other: in every state the manager can reach, a session
  names a display exactly when the display names the session, both are alive, and the session is one of a user;
  the sessions listed as those of users are alive and of users; a session for reauthentication has no display, and
  belongs to one process.\<close>

theorem sessions_and_displays_linked:
  assumes "manager_step\<^sup>*\<^sup>* (scdm_manager_new b) m"
  shows "(get_display_for_user_session m sid = Some d \<longleftrightarrow> get_user_session_for_display m (Some d) = Some sid) \<and>
    (get_user_session_for_display m (Some d) = Some sid \<longrightarrow> m_displays m d \<noteq> None \<and> user_session sid m) \<and>
    list_all (\<lambda>s. user_session s m) (m_user_sessions m) \<and>
    list_all (\<lambda>(pid, t). transient_session t m \<and> get_display_for_user_session m t = None) (m_transient_sessions m) \<and>
    distinct (map snd (m_transient_sessions m))"
proof -
  have ok: "links_ok m" by (rule reachable_links [OF assms new_manager_ok])
  have ag: "agree (m_user_session_of m) (link_view m)"
    and u: "\<And>s. s \<in> set (m_user_sessions m) \<Longrightarrow> user_session s m"
    and d: "\<And>d. m_user_session_of m d \<noteq> None \<Longrightarrow> m_displays m d \<noteq> None"
    and t: "\<And>p s. (p, s) \<in> set (m_transient_sessions m) \<Longrightarrow> link_view m s = Some (True, None)"
    and di: "distinct (map snd (m_transient_sessions m))"
    using ok unfolding links_ok_def by blast+
  have l: "get_display_for_user_session m sid = Some d \<longleftrightarrow> get_user_session_for_display m (Some d) = Some sid"
    using ag by (auto simp: agree_def display_view get_user_session_for_display_def bind_eq_Some_conv)
  have "get_user_session_for_display m (Some d) = Some sid \<Longrightarrow> m_displays m d \<noteq> None \<and> user_session sid m"
    using d links_user [OF ok, of d sid] by (auto simp: get_user_session_for_display_def user_session_view)
  moreover have "list_all (\<lambda>(pid, t). transient_session t m \<and> get_display_for_user_session m t = None) (m_transient_sessions m)"
    using t by (auto simp: list_all_iff user_session_view display_view)
  ultimately show ?thesis using l u di by (simp add: list_all_iff)
qed

theorem sessions_and_displays_linked_witness:
  "\<exists>m. example_greeter = Some m \<and> get_user_session_for_display m (Some 0) = Some 0 \<and> get_display_for_user_session m 0 = Some 0 \<and>
    user_session 0 m"
proof -
  have "map_option (\<lambda>m. get_user_session_for_display m (Some 0)) example_greeter = Some (Some 0)" by code_simp
  then obtain m where m: "example_greeter = Some m" "get_user_session_for_display m (Some 0) = Some 0" by auto
  from sessions_and_displays_linked [OF example_greeter_run [OF m(1)], of 0 0] show ?thesis using m by blast
qed

section \<open>Requests\<close>

lemma caller_of_display:
  assumes "sn_display (get_display_and_details_for_bus_sender w sender b m) = Some d"
  shows "\<exists>i. mw_sender_uid w sender = Some (sn_uid (get_display_and_details_for_bus_sender w sender b m)) \<and>
    get_uid_for_session_id w i = mw_sender_uid w sender \<and> find_display_by_session_id m (Some i) = Some d"
  using assms by (auto simp: get_display_and_details_for_bus_sender_def unknown_sender_def Let_def split: option.splits sum.splits if_splits)

lemma address_given: "give_address w i u sid ms = Address a \<Longrightarrow> u = s_allowed_user (ms_session ms) \<and> a = mw_outside_address w sid \<and> a \<noteq> None"
  by (cases "mw_outside_address w sid"; cases "u = s_allowed_user (ms_session ms)") (auto simp: give_address_def)

text \<open>C5. OpenSession answers once, changes nothing, and gives the address of a greeter's session only to the user for
  whom the session is, who must also own the systemd session that the display is for; unless the display is
  a chooser's, the session is the one tied to the display and no program of it runs.\<close>

theorem open_session_for_allowed_user:
  assumes "scdm_manager_handle_open_session w i sender m = Some m'"
  shows "\<exists>r. m' = memit [ManagerReply i r] m \<and>
    (\<forall>a. r = Address a \<longrightarrow> (\<exists>d x sid ms ssid. m_displays m d = Some x \<and> m_sessions m sid = Some ms \<and> a = mw_outside_address w sid \<and> a \<noteq> None \<and>
      mw_sender_uid w sender = Some (s_allowed_user (ms_session ms)) \<and> get_uid_for_session_id w ssid = mw_sender_uid w sender \<and>
      find_display_by_session_id m (Some ssid) = Some d \<and>
      (d_kind x \<noteq> XdmcpChooserDisplay \<longrightarrow> m_user_session_of m d = Some sid \<and> \<not> scdm_session_is_running (ms_session ms))))"
proof (cases "sn_display (get_display_and_details_for_bus_sender w sender False m)")
  case None
  then show ?thesis using assms by (auto simp: scdm_manager_handle_open_session_def Let_def)
next
  case (Some d)
  let ?u = "sn_uid (get_display_and_details_for_bus_sender w sender False m)"
  obtain ssid where c: "mw_sender_uid w sender = Some ?u" "get_uid_for_session_id w ssid = mw_sender_uid w sender"
    "find_display_by_session_id m (Some ssid) = Some d" using caller_of_display [OF Some] by blast
  obtain x where x: "m_displays m d = Some x" using assms Some by (auto simp: scdm_manager_handle_open_session_def Let_def bind_eq_Some_conv)
  have "Option.bind (m_displays m d) (\<lambda>x. if d_kind x = XdmcpChooserDisplay
      then case (if d_launch x = None then None else mw_launch_session w d) of
          None \<Rightarrow> Some (memit [ManagerReply i (AccessRefused ChooserSessionUnavailable)] m)
        | Some sid \<Rightarrow> Option.bind (m_sessions m sid) (\<lambda>ms. Some (memit [ManagerReply i (give_address w i ?u sid ms)] m))
      else Option.bind (m_user_session_of m d) (\<lambda>sid. Option.bind (m_sessions m sid) (\<lambda>ms.
        Option.bind (scdm_session_get_session_id (ms_session ms)) (\<lambda>_.
        Some (if scdm_session_is_running (ms_session ms) then memit [ManagerReply i (AccessRefused OnlyBeforeLogin)] m
              else memit [ManagerReply i (give_address w i ?u sid ms)] m))))) = Some m'"
    using assms unfolding scdm_manager_handle_open_session_def Let_def Some get_user_session_for_display_def
    by (simp only: option.case bind.simps)
  then consider (refused) den where "m' = memit [ManagerReply i (AccessRefused den)] m"
    | (given) sid ms where "m' = memit [ManagerReply i (give_address w i ?u sid ms)] m" "m_sessions m sid = Some ms"
        "d_kind x \<noteq> XdmcpChooserDisplay \<longrightarrow> m_user_session_of m d = Some sid \<and> \<not> scdm_session_is_running (ms_session ms)"
    unfolding x bind.simps
    by (elim if_some_elim case_some_elim bind_some_elim; simp only: option.inject; (split if_split_asm)?; blast)
  then show ?thesis
  proof cases
    case refused
    then show ?thesis by auto
  next
    case given
    have "\<exists>d x sid ms ssid. m_displays m d = Some x \<and> m_sessions m sid = Some ms \<and> a = mw_outside_address w sid \<and> a \<noteq> None \<and>
      mw_sender_uid w sender = Some (s_allowed_user (ms_session ms)) \<and> get_uid_for_session_id w ssid = mw_sender_uid w sender \<and>
      find_display_by_session_id m (Some ssid) = Some d \<and>
      (d_kind x \<noteq> XdmcpChooserDisplay \<longrightarrow> m_user_session_of m d = Some sid \<and> \<not> scdm_session_is_running (ms_session ms))"
      if "give_address w i ?u sid ms = Address a" for a
      using given(2,3) c x address_given [OF that]
      by - (rule exI [of _ d], rule exI [of _ x], rule exI [of _ sid], rule exI [of _ ms], rule exI [of _ ssid], auto simp del: not_None_eq)
    then show ?thesis using given(1) by blast
  qed
qed

theorem open_session_for_allowed_user_witness:
  "\<exists>m m'. example_greeter = Some m \<and> scdm_manager_handle_open_session example_mworld 9 '':2'' m = Some m' \<and>
    m' = memit [ManagerReply 9 (Address (Some ''unix:o''))] m"
proof -
  have "Option.bind example_greeter (\<lambda>m. map_option (\<lambda>m'. drop (length (m_log m)) (m_log m')) (scdm_manager_handle_open_session example_mworld 9 '':2'' m))
      = Some [ManagerReply 9 (Address (Some ''unix:o''))]" by code_simp
  then obtain m m' where m: "example_greeter = Some m" "scdm_manager_handle_open_session example_mworld 9 '':2'' m = Some m'"
    "drop (length (m_log m)) (m_log m') = [ManagerReply 9 (Address (Some ''unix:o''))]" by (auto simp: bind_eq_Some_conv)
  from open_session_for_allowed_user [OF m(2)] show ?thesis using m by (auto simp: memit_def)
qed

lemma close_transient_runs:
  "m_sessions m sid = Some ms \<Longrightarrow> scdm_session_close (ms_session ms) = Some s' \<Longrightarrow>
    map_of (m_transient_sessions m) (ms_caller_pid ms) = Some sid \<Longrightarrow>
    \<exists>m'. close_transient_session sid m = Some m' \<and> set (m_log m) \<subseteq> set (m_log m')"
  by (auto simp: close_transient_session_def on_session_def set_session_def free_transient_session_def memit_def)

text \<open>C6. The comparison of the caller with the owner of its session does not keep a stranger out: a process that runs
  in another user's session gets a channel for reauthentication though the uids differ, for the uid is
  remembered before it is compared; and when the stranger's own password has been verified on it, the session of
  the other user is unlocked.\<close>

theorem stranger_unlocks_session:
  assumes "manager_step\<^sup>*\<^sup>* (scdm_manager_new b) m"
    and "mw_sender_pid w sender = Some pid" "pid \<noteq> 0" and "mw_sender_uid w sender = Some u" "u \<noteq> -1"
    and "sd_pid_get_session (mw_sd w) pid = Inr ssid" and "is_login_session w ssid = Some False"
    and "get_uid_for_session_id w ssid = Some owner" "owner \<noteq> u"
  shows "\<exists>m' m'' ms. scdm_manager_handle_open_reauthentication_channel w i sender user m = Some m' \<and>
    ManagerReply i (Address (mw_outside_address w (m_next_session m))) \<in> set (m_log m') \<and>
    m_sessions m' (m_next_session m) = Some ms \<and> ms_transient ms \<and> s_allowed_user (ms_session ms) = u \<and>
    on_reauthentication_verification_complete_manager w (m_next_session m) m' = Some m'' \<and> UnlockSession ssid \<in> set (m_log m'')"
proof -
  let ?q = "get_display_and_details_for_bus_sender w sender True m"
  have q: "?q = unknown_sender\<lparr>sn_session_id := Some ssid, sn_pid := pid, sn_uid := u\<rparr>"
    using assms by (simp add: get_display_and_details_for_bus_sender_def scdm_find_display_session_def unknown_sender_def)
  let ?m = "memit [ManagerReply i (Address (mw_outside_address w (m_next_session m)))]
    (snd (open_temporary_reauthentication_channel w None ssid pid u False m))"
  have m': "scdm_manager_handle_open_reauthentication_channel w i sender user m = Some ?m"
    using assms(3,5) unfolding scdm_manager_handle_open_reauthentication_channel_def Let_def q
    by (simp add: unknown_sender_def get_user_session_for_display_def open_temporary_reauthentication_channel_def Let_def)
  let ?s = "scdm_session_new MODE_REAUTHENTICATE u (Some []) None None None (Some ''/dev/null'') True (Some (mw_environ w))
    (mw_worker_address w (m_next_session m))"
  have "list_all (\<lambda>(p, s). link_view m s = Some (True, None)) (m_transient_sessions m)"
    using reachable_links [OF assms(1) new_manager_ok] by (auto simp: links_ok_def list_all_iff)
  then have "map_of (m_transient_sessions m) pid \<noteq> Some (m_next_session m)"
    using links_fresh(1) [OF reachable_links [OF assms(1) new_manager_ok]] by (auto simp: list_all_iff dest!: map_of_SomeD)
  then have ms: "m_sessions ?m (m_next_session m) = Some (new_managed_session ?s True pid (Some ssid))"
    by (auto simp: open_temporary_reauthentication_channel_def Let_def free_transient_session_def set_session_def memit_def
        split: option.split)
  have t: "map_of (m_transient_sessions ?m) pid = Some (m_next_session m)"
    by (simp add: open_temporary_reauthentication_channel_def Let_def free_transient_session_def update_conv' split: option.split)
  obtain s' where s': "scdm_session_close ?s = Some s'"
    by (simp add: scdm_session_close_def do_reset_def stop_all_conversations_def stop_all_other_conversations_def scdm_session_new_def)
  have ul: "m_sessions (snd (session_unlock w ssid ?m)) = m_sessions ?m"
    "m_transient_sessions (snd (session_unlock w ssid ?m)) = m_transient_sessions ?m"
    "m_log (snd (session_unlock w ssid ?m)) = m_log ?m @ [UnlockSession ssid]" by (simp_all add: session_unlock_def memit_def)
  have "\<exists>m''. on_reauthentication_verification_complete_manager w (m_next_session m) ?m = Some m'' \<and> UnlockSession ssid \<in> set (m_log m'')"
    using close_transient_runs [of "snd (session_unlock w ssid ?m)" "m_next_session m", unfolded ul, OF ms _ _] s' t ms
    by (auto simp: on_reauthentication_verification_complete_manager_def new_managed_session_def)
  then show ?thesis using m' ms
    by (auto simp: memit_def new_managed_session_def scdm_session_new_def)
qed

theorem stranger_unlocks_session_witness:
  "\<exists>m' m''. scdm_manager_handle_open_reauthentication_channel example_mworld 3 '':1'' ''eve'' (scdm_manager_new False) = Some m' \<and>
    get_uid_for_session_id example_mworld ''c2'' = Some 1000 \<and> mw_sender_uid example_mworld '':1'' = Some 1001 \<and>
    on_reauthentication_verification_complete_manager example_mworld 0 m' = Some m'' \<and> UnlockSession ''c2'' \<in> set (m_log m'')"
  using stranger_unlocks_session [of False "scdm_manager_new False" example_mworld "'':1''" 500 1001 "''c2''" 1000 3 "''eve''"]
  by (auto simp: example_mworld_def example_sd_def is_login_session_def get_uid_for_session_id_def scdm_manager_new_def)

section \<open>Users who return\<close>

text \<open>What the search for a running session of a user looks for.\<close>

definition runs_on_seat :: "manager \<Rightarrow> string option \<Rightarrow> string option \<Rightarrow> nat \<Rightarrow> bool" where
  "runs_on_seat m username seat_id sid \<longleftrightarrow> (case m_sessions m sid of None \<Rightarrow> False
     | Some ms \<Rightarrow> scdm_session_is_running (ms_session ms) \<and> s_selected_user (ms_session ms) = username \<and>
         s_display_seat_id (ms_session ms) = seat_id)"

lemma user_session_on_seat_result:
  assumes "user_session_on_seat m u seat dc l = Some r"
  shows "case r of None \<Rightarrow> \<forall>sid \<in> set l. Some sid = dc \<or> \<not> runs_on_seat m u seat sid
    | Some e \<Rightarrow> e \<in> set l \<and> Some e \<noteq> dc \<and> runs_on_seat m u seat e"
  using assms
proof (induction l)
  case (Cons sid l)
  then show ?case
    by (cases r; cases "m_sessions m sid") (auto simp: bind_eq_Some_conv runs_on_seat_def split: if_split_asm option.split_asm)
qed simp

text \<open>C7. A user who returns is switched to the session that runs already: when the session that was opened at a
  greeter is for a user with a running session on the same seat, and that seat can be switched, no second
  session is started and no display changes hands. Such a running session is activated and unlocked, and the new one is
  reset, so that it can serve as the greeter's again.\<close>

theorem returning_user_is_switched:
  assumes "on_start_user_session w sid n m = Some m'" and "m_sessions m sid = Some ms" and "s_display_seat_id (ms_session ms) = Some seat"
    and "e \<in> set (m_user_sessions m)" "e \<noteq> sid" and "runs_on_seat m (s_selected_user (ms_session ms)) (Some seat) e"
    and "\<And>ssid. mw_bus w (ActivateSessionOnSeat ssid seat)"
  shows "\<exists>s o' me ssid. scdm_session_reset (ms_session ms) = Some s \<and>
    m_sessions m' = (m_sessions m)(sid := Some (ms\<lparr>ms_session := s, ms_start_operation := False\<rparr>)) \<and>
    m_displays m' = m_displays m \<and> m_user_session_of m' = m_user_session_of m \<and>
    o' \<noteq> sid \<and> runs_on_seat m (s_selected_user (ms_session ms)) (Some seat) o' \<and>
    m_sessions m o' = Some me \<and> scdm_session_get_session_id (ms_session me) = Some (Some ssid) \<and>
    m_log m' = m_log m @ [BusCall (ActivateSessionOnSeat ssid seat), UnlockSession ssid]"
proof -
  obtain b m1 where sw: "switch_to_compatible_user_session w sid True m = Some (b, m1)"
    using assms(1) by (auto simp: on_start_user_session_def bind_eq_Some_conv)
  obtain r where f: "find_session_for_user_on_seat m (s_selected_user (ms_session ms)) (Some seat) (Some sid) = Some r"
    using sw assms(2,3) by (auto simp: switch_to_compatible_user_session_def bind_eq_Some_conv Let_def)
  have "r \<noteq> None"
  proof
    assume "r = None"
    then show False
      using user_session_on_seat_result [OF f [unfolded find_session_for_user_on_seat_def]] assms(4-6) by auto
  qed
  then obtain o' where r: "r = Some o'" by auto
  have o: "o' \<noteq> sid" "runs_on_seat m (s_selected_user (ms_session ms)) (Some seat) o'"
    using user_session_on_seat_result [of m _ "Some seat" "Some sid" "m_user_sessions m" r] f
    by (auto simp: find_session_for_user_on_seat_def r)
  obtain me ssid where me: "m_sessions m o' = Some me" "scdm_session_get_session_id (ms_session me) = Some (Some ssid)"
    using sw assms(2,3) f r by (auto simp: switch_to_compatible_user_session_def bind_eq_Some_conv Let_def)
  have b: "b = True" and m1: "m1 = memit [BusCall (ActivateSessionOnSeat ssid seat), UnlockSession ssid] m"
    using sw assms(2,3,7) f r me
    by (auto simp: switch_to_compatible_user_session_def bind_eq_Some_conv Let_def scdm_activate_session_by_id_def session_unlock_def memit_def)
  have "Option.bind (on_session sid scdm_session_reset m1) (\<lambda>m. Option.bind (m_sessions m sid) (\<lambda>ms.
      Some (set_session sid (ms\<lparr>ms_start_operation := False\<rparr>) m))) = Some m'"
    using assms(1) sw b by (simp add: on_start_user_session_def)
  then obtain s where s: "scdm_session_reset (ms_session ms) = Some s"
    and m': "m' = set_session sid (ms\<lparr>ms_session := s, ms_start_operation := False\<rparr>) m1"
    using assms(2) by (auto simp: bind_eq_Some_conv on_session_def m1 set_session_def memit_def)
  show ?thesis
    by (rule exI [of _ s], rule exI [of _ o'], rule exI [of _ me], rule exI [of _ ssid])
      (use s me o in \<open>simp add: m' m1 set_session_def memit_def\<close>)
qed

text \<open>A session 1 of joe runs, and joe has logged in again at the session 0.\<close>

definition example_running :: managed_session where
  "example_running = new_managed_session (example_session\<lparr>s_selected_user := Some ''joe'', s_session_pid := 4242,
     s_session_conversation := Some 0, s_heap := (\<lambda>c. map_option (\<lambda>k. k\<lparr>c_session_id := Some ''c2''\<rparr>) (s_heap (the example_start) 0))\<rparr>) False 0 None"

definition example_return :: manager where
  "example_return = (scdm_manager_new False)\<lparr>
     m_sessions := (\<lambda>i. if i = 0 then Some (new_managed_session (example_session\<lparr>s_selected_user := Some ''joe''\<rparr>) False 0 None)
       else if i = 1 then Some example_running else None), m_next_session := 2, m_user_sessions := [1, 0]\<rparr>"

theorem returning_user_is_switched_witness:
  "\<exists>m' ssid. on_start_user_session example_mworld 0 ''gdm-password'' example_return = Some m' \<and> UnlockSession ssid \<in> set (m_log m') \<and>
    m_displays m' = m_displays example_return"
proof -
  have "map_option (\<lambda>m. ()) (on_start_user_session example_mworld 0 ''gdm-password'' example_return) = Some ()" by code_simp
  then obtain m' where m': "on_start_user_session example_mworld 0 ''gdm-password'' example_return = Some m'" by auto
  have r: "runs_on_seat example_return (Some ''joe'') (Some ''seat0'') 1" by code_simp
  let ?ms = "new_managed_session (example_session\<lparr>s_selected_user := Some ''joe''\<rparr>) False 0 None"
  have ms: "m_sessions example_return 0 = Some ?ms" "s_display_seat_id (ms_session ?ms) = Some ''seat0''"
    "s_selected_user (ms_session ?ms) = Some ''joe''"
    by (simp_all add: example_return_def new_managed_session_def example_session_def scdm_session_new_def)
  have e: "1 \<in> set (m_user_sessions example_return)" "1 \<noteq> (0::nat)" by (simp_all add: example_return_def)
  have b: "\<And>i. mw_bus example_mworld (ActivateSessionOnSeat i ''seat0'')" by (simp add: example_mworld_def)
  obtain ssid where "m_log m' = m_log example_return @ [BusCall (ActivateSessionOnSeat ssid ''seat0''), UnlockSession ssid]"
    and "m_displays m' = m_displays example_return"
    using returning_user_is_switched [OF m' ms(1,2) e, unfolded ms(3), OF r b] by blast
  then have "UnlockSession ssid \<in> set (m_log m')" "m_displays m' = m_displays example_return" by simp_all
  then show ?thesis using m' by blast
qed

section \<open>Sessions that end\<close>

definition frame_of :: "manager \<Rightarrow> manager \<Rightarrow> bool" where
  "frame_of m m' \<longleftrightarrow> m_user_sessions m' = m_user_sessions m \<and> m_sessions m' = m_sessions m \<and> set (m_log m) \<subseteq> set (m_log m')"

lemma end_display_frame:
  assumes "end_display w d m = Some m'"
  shows "frame_of m m'" and "\<exists>x. m_displays m' d = Some x \<and> d_status x = GDM_DISPLAY_FINISHED"
proof -
  have ended: "display_ended w d st a = Some b \<Longrightarrow> frame_of m a \<Longrightarrow> frame_of m b"
    and same: "display_ended w d st a = Some b \<Longrightarrow> m_displays b = m_displays a" for st a b
    by (auto simp: display_ended_def bind_eq_Some_conv Let_def frame_of_def memit_def split: if_split_asm)
  obtain m1 where 1: "on_display (display_ended w d) d (scdm_display_unmanage (mw_auth w d)) m = Some m1"
    and 2: "on_display (display_ended w d) d (\<lambda>x. Some (scdm_display_finish x)) m1 = Some m'"
    using assms by (auto simp: end_display_def bind_eq_Some_conv)
  have f: "frame_of m m1"
    by (rule on_display_invariant [where P = "frame_of m", OF 1]) (auto simp: frame_of_def dest: ended [unfolded frame_of_def])
  show "frame_of m m'"
    by (rule on_display_invariant [where P = "frame_of m", OF 2]) (use f in \<open>auto simp: frame_of_def dest: ended [unfolded frame_of_def]\<close>)
  obtain x where "run_statuses (\<lambda>st a. if in_display_store d a then display_ended w d st a else Some a) (announced x (scdm_display_finish x))
      (m1\<lparr>m_displays := (m_displays m1)(d := Some (scdm_display_finish x))\<rparr>) = Some m'"
    using 2 by (auto simp: on_display_def bind_eq_Some_conv Let_def)
  then have "m_displays m' d = Some (scdm_display_finish x)"
    by (rule run_statuses_invariant) (auto split: if_split_asm dest: same)
  then show "\<exists>x. m_displays m' d = Some x \<and> d_status x = GDM_DISPLAY_FINISHED"
    by (simp add: scdm_display_finish_def scdm_display_set_status_def emit_def)
qed

definition records :: "session_record_kind \<Rightarrow> int \<Rightarrow> session \<Rightarrow> manager_effect list" where
  "records k pid s =
     (case s_selected_user s of
        None \<Rightarrow> []
      | Some u \<Rightarrow> if s_display_name s = None \<and> s_display_device s = None then []
                  else [RecordSession k pid u (s_display_hostname s) (s_display_name s) (s_display_device s)])"

lemma memit_Nil [simp]: "memit [] m = m"
  by (simp add: memit_def)

lemma record_result: "m_sessions m sid = Some ms \<Longrightarrow> add_session_record sid pid k m = Some (memit (records k pid (ms_session ms)) m)"
  by (simp add: add_session_record_def records_def Let_def split: option.split)

text \<open>When a user's session exits, its logout is recorded under the process and the user that it still has, its display is
  finished, the session is closed and taken off the list of the users' sessions once, and no other session
  changes.\<close>

theorem exited_session_is_closed:
  assumes "on_user_session_exited w sid m = Some m'" and "sid \<in> set (m_user_sessions m)"
  shows "\<exists>ms s. m_sessions m sid = Some ms \<and> scdm_session_close (ms_session ms) = Some s \<and> \<not> scdm_session_is_running s \<and>
    m_sessions m' = (m_sessions m)(sid := Some (ms\<lparr>ms_session := s\<rparr>)) \<and> m_user_sessions m' = remove1 sid (m_user_sessions m) \<and>
    (\<forall>d. get_display_for_user_session m sid = Some d \<longrightarrow> (\<exists>x. m_displays m' d = Some x \<and> d_status x = GDM_DISPLAY_FINISHED)) \<and>
    (s_session_pid (ms_session ms) > 0 \<longrightarrow>
      set (records SESSION_RECORD_LOGOUT (s_session_pid (ms_session ms)) (ms_session ms)) \<subseteq> set (m_log m'))"
proof -
  obtain ms m1 where ms: "m_sessions m sid = Some ms"
    and m1: "(if s_session_pid (ms_session ms) > 0 then add_session_record sid (s_session_pid (ms_session ms)) SESSION_RECORD_LOGOUT m
      else Some m) = Some m1"
    and r: "remove_user_session w sid m1 = Some m'"
    using assms(1) by (auto simp: on_user_session_exited_def bind_eq_Some_conv Let_def)
  let ?fx = "if s_session_pid (ms_session ms) > 0 then records SESSION_RECORD_LOGOUT (s_session_pid (ms_session ms)) (ms_session ms) else []"
  have fx: "m1 = memit ?fx m" using m1 ms by (auto simp: record_result split: if_split_asm)
  obtain m2 where m2: "(case get_display_for_user_session m1 sid of None \<Rightarrow> Some m1 | Some d \<Rightarrow> end_display w d m1) = Some m2"
    and c: "(if sid \<in> set (m_user_sessions m2)
      then on_session sid scdm_session_close (m2\<lparr>m_user_sessions := remove1 sid (m_user_sessions m2)\<rparr>) else Some m2) = Some m'"
    using r by (auto simp: remove_user_session_def bind_eq_Some_conv)
  have f: "frame_of m1 m2" using m2 end_display_frame(1) by (auto simp: frame_of_def split: option.split_asm)
  have g: "get_display_for_user_session m1 sid = get_display_for_user_session m sid" by (simp add: fx get_display_for_user_session_def)
  have d: "get_display_for_user_session m sid = Some d \<Longrightarrow> \<exists>x. m_displays m2 d = Some x \<and> d_status x = GDM_DISPLAY_FINISHED" for d
    using m2 end_display_frame(2) by (auto simp: g)
  have i: "sid \<in> set (m_user_sessions m2)" using f assms(2) by (simp add: frame_of_def fx)
  obtain s where s: "scdm_session_close (ms_session ms) = Some s"
    and m': "m' = set_session sid (ms\<lparr>ms_session := s\<rparr>) (m2\<lparr>m_user_sessions := remove1 sid (m_user_sessions m2)\<rparr>)"
    using c i f ms by (auto simp: on_session_def bind_eq_Some_conv frame_of_def fx)
  have "\<not> scdm_session_is_running s"
    using s by (auto simp: scdm_session_close_def do_reset_def scdm_session_is_running_def)
  then show ?thesis
    using ms s d f by (auto simp: m' frame_of_def fx set_session_def memit_def subset_iff)
qed

theorem exited_session_is_closed_witness:
  "\<exists>m'. on_user_session_exited example_mworld 1 example_return = Some m' \<and> m_user_sessions m' = [0]"
proof -
  have "map_option (\<lambda>m. ()) (on_user_session_exited example_mworld 1 example_return) = Some ()" by code_simp
  then obtain m' where m': "on_user_session_exited example_mworld 1 example_return = Some m'" by auto
  have i: "1 \<in> set (m_user_sessions example_return)" by (simp add: example_return_def)
  show ?thesis using exited_session_is_closed [OF m' i] m' by (auto simp: example_return_def)
qed

section \<open>Failures\<close>

text \<open>A login ends the daemon when the user cannot be given access to the display: with an X connection of the display,
  the start of the session insists on an authority file, and has none when its making fails.\<close>

theorem failed_authorization_aborts:
  assumes "m_sessions m sid = Some ms" and "ms_display ms = Some d" and "m_displays m d = Some x" and "d_xcb x \<noteq> None"
    and "s_selected_user (ms_session ms) = Some u" and "scdm_display_add_user_authorization (mw_auth w d) u x = Some (Inl err, y)"
  shows "start_user_session w sid n m = None"
  using assms by (auto simp: start_user_session_def)

text \<open>The display has been given to a user before.\<close>

definition example_taken :: display where
  "example_taken = example_display\<lparr>d_xcb := Some (0, 0), d_user_access_file := Some (scdm_display_access_file_new ''joe'')\<rparr>"

definition example_login :: managed_session where
  "example_login = (new_managed_session (example_session\<lparr>s_selected_user := Some ''joe''\<rparr>) False 0 None)\<lparr>ms_display := Some 0\<rparr>"

theorem failed_authorization_aborts_witness:
  "start_user_session example_mworld 0 ''gdm-password''
    ((scdm_manager_new False)\<lparr>m_displays := (\<lambda>d. Some example_taken), m_sessions := (\<lambda>i. Some example_login)\<rparr>) = None"
  by (rule failed_authorization_aborts [where ms = example_login and d = 0 and x = example_taken and u = "''joe''" and err = "authorization_error.AccessDenied"])
    (auto simp: example_taken_def example_login_def new_managed_session_def example_session_def scdm_session_new_def
      scdm_display_add_user_authorization_def)

section \<open>The home directory of the initial set-up\<close>

fun changes :: "file_node \<Rightarrow> owner_change list" and changes_of :: "file_node list \<Rightarrow> owner_change list" where
  "changes (PlainFile p) = [SetOwner p, SetGroup p]"
| "changes (Folder p _ es _) = SetOwner p # SetGroup p # changes_of es"
| "changes_of [] = []"
| "changes_of (e # es) = changes e @ changes_of es"

lemma chown_lists:
  "prefix (fst (chown_recursively ok t)) (changes t) \<and> (snd (chown_recursively ok t) \<longrightarrow> fst (chown_recursively ok t) = changes t) \<and>
    list_all ok (fst (chown_recursively ok t))"
  "prefix (fst (chown_entries ok es)) (changes_of es) \<and> (snd (chown_entries ok es) \<longrightarrow> fst (chown_entries ok es) = changes_of es) \<and>
    list_all ok (fst (chown_entries ok es))"
  by (induction ok t and ok es rule: chown_recursively_chown_entries.induct)
    (auto simp: chown_file_def split: prod.splits bool.splits intro: prefix_order.trans)

text \<open>The home directory of the initial set-up is handed over from the top, directories before what they hold: the changes of
  owners and groups are always the first ones of that order, all of them when it went well, and
  nothing is touched after the first failure.\<close>

theorem home_handed_over:
  "(if snd (chown_recursively ok t) then fst (chown_recursively ok t) = changes t else prefix (fst (chown_recursively ok t)) (changes t)) \<and>
    list_all ok (fst (chown_recursively ok t))"
  using chown_lists(1) [of ok t] by auto

end
