(* ===== verification/Launch_Environment.thy ===== *)
theory Launch_Environment
  imports Session_Handlers Common_Script Display
begin

text \<open>
  The programs that the daemon runs on a login display, \<open>src/daemon/scdm-launch-environment.c\<close>: the
  greeter, the initial set-up and the chooser. A launch environment has a session of its own, whose one
  conversation runs the program as its user. What libc answers is a record of arguments. The handlers of the signals
  of the session are operations; \<open>None\<close> is the end of the process. Signals sent and what is done to
  processes and directories go to a log.
\<close>

section \<open>State\<close>

datatype launch_signal = LaunchOpened | LaunchStarted | LaunchStopped | LaunchExited int | LaunchDied int | LaunchHostname string

datatype launch_effect =
    LaunchSignal launch_signal | SignalPid int | MakeDirectory "string option" | ChangeOwner "string option" u32 u32

record launch_environment =
  le_session :: "session option"
  le_command :: string
  le_pid :: int
  le_verification_mode :: verification_mode
  le_user_name :: string
  le_runtime_dir :: string
  le_session_id :: "string option"
  le_session_type :: "string option"
  le_session_mode :: "string option"
  le_x11_display_name :: "string option"
  le_x11_display_seat_id :: "string option"
  le_x11_display_device :: "string option"
  le_x11_display_hostname :: "string option"
  le_x11_authority_file :: "string option"
  le_x11_display_is_local :: bool
  le_log :: "launch_effect list"

definition lemit :: "launch_effect list \<Rightarrow> launch_environment \<Rightarrow> launch_environment" where
  "lemit fx l = l\<lparr>le_log := le_log l @ fx\<rparr>"

text \<open>\<open>lw_mkdir\<close> and \<open>lw_chown\<close> give the error, if any; the kill of a process group is not looked at.\<close>

record launch_world =
  lw_session :: session_world
  lw_worker_address :: "string option"
  lw_getenv :: "string \<Rightarrow> string option"
  lw_getpwnam :: "string \<Rightarrow> (passwd option \<times> errno option) list"
  lw_mkdir :: "string option \<Rightarrow> errno option"
  lw_chown :: "string option \<Rightarrow> u32 \<Rightarrow> u32 \<Rightarrow> errno option"
  lw_logdir :: string
  lw_version :: string
  lw_debug :: bool
  lw_scdm_user :: string
  lw_screenshot_dir :: string

section \<open>The environment of the program\<close>

definition optional_environment :: "string list" where
  "optional_environment =
     [''GI_TYPELIB_PATH'', ''LANG'', ''LANGUAGE'', ''LC_ADDRESS'', ''LC_ALL'', ''LC_COLLATE'', ''LC_CTYPE'', ''LC_IDENTIFICATION'',
      ''LC_MEASUREMENT'', ''LC_MESSAGES'', ''LC_MONETARY'', ''LC_NAME'', ''LC_NUMERIC'', ''LC_PAPER'', ''LC_TELEPHONE'', ''LC_TIME'',
      ''LD_LIBRARY_PATH'', ''PATH'', ''WINDOWPATH'', ''XCURSOR_PATH'', ''XDG_CONFIG_DIRS'']"

text \<open>The parts of the function in order: what is inherited, what the display and the mode give, the user.\<close>

fun inherited :: "(string \<Rightarrow> string option) \<Rightarrow> string list \<Rightarrow> env_hash \<Rightarrow> env_hash" where
  "inherited getenv [] h = h"
| "inherited getenv (k # ks) h = inherited getenv ks (insert_opt k (getenv k) h)"

definition mode_hash :: "string option \<Rightarrow> env_hash \<Rightarrow> env_hash" where
  "mode_hash session_mode h =
     (case session_mode of
        None \<Rightarrow> h
      | Some m \<Rightarrow>
          let h = AList.update ''GNOME_SHELL_SESSION_MODE'' (Some m) h
          in if m \<noteq> ''initial-setup''
             then AList.update ''DCONF_PROFILE'' (Some ''scdm'')
                    (AList.update ''GVFS_REMOTE_VOLUME_MONITOR_IGNORE'' (Some ''1'')
                      (AList.update ''GIO_USE_VFS'' (Some ''local'') (AList.update ''GVFS_DISABLE_FUSE'' (Some ''1'') h)))
             else h)"

definition user_hash :: "string \<Rightarrow> string \<Rightarrow> passwd option \<Rightarrow> env_hash \<Rightarrow> env_hash" where
  "user_hash user_name version pwent h =
     (let h = login_hash user_name h;
          h = AList.delete ''MAIL'' (AList.update ''SCDM_VERSION'' (Some version) h);
          h = AList.update ''SHELL'' (Some ''/bin/sh'') (AList.update ''PWD'' (Some ''/'') (AList.update ''HOME'' (Some ''/'') h))
      in case pwent of None \<Rightarrow> h | Some pw \<Rightarrow> script_user_hash pw None h)"

definition build_launch_environment :: "launch_world \<Rightarrow> bool \<Rightarrow> launch_environment \<Rightarrow> env_hash option" where
  "build_launch_environment w start_session l =
     map_option (\<lambda>(_, pwent).
       let h = inherited (lw_getenv w) optional_environment [];
           h = AList.update ''XDG_DATA_DIRS'' (Some (sv_datadir (lw_session w) @ ''/scdm/greeter'' @ '':'' @
                 join_names '':'' (sv_system_data_dirs (lw_session w)))) h;
           h = insert_opt ''XAUTHORITY'' (le_x11_authority_file l) h;
           h = mode_hash (le_session_mode l) h;
           h = user_hash (le_user_name l) (lw_version w) pwent h;
           h = (if start_session then insert_opt ''SCDM_SEAT_ID'' (le_x11_display_seat_id l) h else h)
       in AList.update ''RUNNING_UNDER_SCDM'' (Some ''true'') h)
     (scdm_get_pwent_for_name (lw_getpwnam w (le_user_name l)))"

section \<open>Signals of the session\<close>

text \<open>An operation on the session; the null pointer is refused by a precondition.\<close>

definition on_launch_session :: "(session \<Rightarrow> session option) \<Rightarrow> launch_environment \<Rightarrow> launch_environment option" where
  "on_launch_session f l =
     (case le_session l of None \<Rightarrow> Some l | Some s \<Rightarrow> map_option (\<lambda>s. l\<lparr>le_session := Some s\<rparr>) (f s))"

definition on_session_setup_complete :: "launch_world \<Rightarrow> launch_environment \<Rightarrow> launch_environment option" where
  "on_session_setup_complete w l = do {
     h \<leftarrow> build_launch_environment w True l;
     s \<leftarrow> le_session l;
     Some (l\<lparr>le_session := Some (fold (\<lambda>(k, x). scdm_session_set_environment_variable k x) h s)\<rparr>)
   }"

definition on_session_opened :: "launch_world \<Rightarrow> string \<Rightarrow> string option \<Rightarrow> launch_environment \<Rightarrow> launch_environment option" where
  "on_session_opened w service_name session_id l =
     on_launch_session (scdm_session_start_session (lw_session w) service_name)
       (lemit [LaunchSignal LaunchOpened] (l\<lparr>le_session_id := session_id\<rparr>))"

definition on_session_started :: "int \<Rightarrow> launch_environment \<Rightarrow> launch_environment" where
  "on_session_started pid l = lemit [LaunchSignal LaunchStarted] (l\<lparr>le_pid := pid\<rparr>)"

definition on_session_exited :: "int \<Rightarrow> launch_environment \<Rightarrow> launch_environment option" where
  "on_session_exited exit_code l =
     map_option (lemit [LaunchSignal (LaunchExited exit_code)])
       (on_launch_session (scdm_session_stop_conversation ''scdm-launch-environment'') l)"

definition on_session_died :: "int \<Rightarrow> launch_environment \<Rightarrow> launch_environment option" where
  "on_session_died signal_number l =
     map_option (lemit [LaunchSignal (LaunchDied signal_number)])
       (on_launch_session (scdm_session_stop_conversation ''scdm-launch-environment'') l)"

definition on_hostname_selected_launch :: "string \<Rightarrow> launch_environment \<Rightarrow> launch_environment" where
  "on_hostname_selected_launch hostname l = lemit [LaunchSignal (LaunchHostname hostname)] l"

definition on_conversation_started :: "launch_world \<Rightarrow> launch_environment \<Rightarrow> launch_environment option" where
  "on_conversation_started w l =
     (let log_file = (case le_x11_display_name l of None \<Rightarrow> ''greeter.log'' | Some n \<Rightarrow> n @ ''-greeter.log'');
          log_path = sv_build_filename (lw_session w) [lw_logdir w, log_file]
      in on_launch_session (scdm_session_setup_for_program ''scdm-launch-environment'' (Some (le_user_name l)) (Some log_path)) l)"

text \<open>The session is closed, and its reference dropped.\<close>

definition close_launch_session :: "launch_environment \<Rightarrow> launch_environment option" where
  "close_launch_session l =
     (case le_session l of None \<Rightarrow> Some l | Some s \<Rightarrow> map_option (\<lambda>_. l\<lparr>le_session := None\<rparr>) (scdm_session_close s))"

text \<open>Before the session has started there is no process, and nobody is told.\<close>

definition on_conversation_stopped :: "launch_environment \<Rightarrow> launch_environment option" where
  "on_conversation_stopped l =
     close_launch_session
       (if le_pid l > 1 then lemit [SignalPid (- le_pid l), LaunchSignal LaunchStopped] l else l)"

section \<open>Start and stop\<close>

definition EEXIST :: errno where
  "EEXIST = EOTHER 17"

definition ensure_directory_with_uid_gid ::
  "launch_world \<Rightarrow> string option \<Rightarrow> u32 \<Rightarrow> u32 \<Rightarrow> launch_environment \<Rightarrow> bool \<times> launch_environment" where
  "ensure_directory_with_uid_gid w path uid gid l =
     (case lw_mkdir w path of
        Some e \<Rightarrow> if e \<noteq> EEXIST then (False, l) else
          (if lw_chown w path uid gid \<noteq> None then (False, l) else (True, lemit [ChangeOwner path uid gid] l))
      | None \<Rightarrow> let l = lemit [MakeDirectory path] l
                in if lw_chown w path uid gid \<noteq> None then (False, l) else (True, lemit [ChangeOwner path uid gid] l))"

definition scdm_launch_environment_start :: "launch_world \<Rightarrow> launch_environment \<Rightarrow> (bool \<times> launch_environment) option" where
  "scdm_launch_environment_start w l = do {
     (found, pwent) \<leftarrow> scdm_get_pwent_for_name (lw_getpwnam w (le_user_name l));
     (case pwent of
        None \<Rightarrow> Some (False, l)
      | Some pw \<Rightarrow>
          (case ensure_directory_with_uid_gid w (Some (le_runtime_dir l)) (pw_uid pw) (pw_gid pw) l of
             (False, l) \<Rightarrow> Some (False, l)
           | (True, l) \<Rightarrow>
               (case ensure_directory_with_uid_gid w (pw_dir pw) (pw_uid pw) (pw_gid pw) l of
                  (False, l) \<Rightarrow> Some (False, l)
                | (True, l) \<Rightarrow> do {
                    let s = scdm_session_new (le_verification_mode l) (pw_uid pw) (le_x11_display_name l) (le_x11_display_hostname l)
                              (le_x11_display_device l) (le_x11_display_seat_id l) (le_x11_authority_file l)
                              (le_x11_display_is_local l) None (lw_worker_address w);
                    (_, s) \<leftarrow> scdm_session_start_conversation (lw_session w) ''scdm-launch-environment'' s;
                    let s = scdm_session_select_program (Some (le_command l)) s;
                    let s = (case le_session_type l of None \<Rightarrow> s | t \<Rightarrow> set_session_type t s);
                    Some (True, l\<lparr>le_session := Some s\<rparr>)
                  })))
   }"

definition scdm_launch_environment_stop :: "launch_environment \<Rightarrow> launch_environment option" where
  "scdm_launch_environment_stop l =
     map_option (lemit [LaunchSignal LaunchStopped])
       (close_launch_session (if le_pid l > 1 then lemit [SignalPid (- le_pid l)] l else l))"

definition scdm_launch_environment_finalize :: "launch_environment \<Rightarrow> launch_environment option" where
  "scdm_launch_environment_finalize l = scdm_launch_environment_stop l"

section \<open>The three kinds\<close>

definition new_launch_environment ::
  "verification_mode \<Rightarrow> string \<Rightarrow> string \<Rightarrow> string \<Rightarrow> string option \<Rightarrow> string option \<Rightarrow> string option \<Rightarrow> string option \<Rightarrow>
   string option \<Rightarrow> bool \<Rightarrow> launch_environment" where
  "new_launch_environment mode command user_name runtime_dir session_type session_mode display_name seat_id hostname is_local =
     \<lparr>le_session = None, le_command = command, le_pid = 0, le_verification_mode = mode, le_user_name = user_name,
      le_runtime_dir = runtime_dir, le_session_id = None, le_session_type = session_type, le_session_mode = session_mode,
      le_x11_display_name = display_name, le_x11_display_seat_id = seat_id, le_x11_display_device = None,
      le_x11_display_hostname = hostname, le_x11_authority_file = None, le_x11_display_is_local = is_local, le_log = []\<rparr>"

definition create_gnome_session_environment ::
  "launch_world \<Rightarrow> string option \<Rightarrow> string \<Rightarrow> string option \<Rightarrow> string option \<Rightarrow> string option \<Rightarrow> string \<Rightarrow> string option \<Rightarrow> bool \<Rightarrow>
   launch_environment" where
  "create_gnome_session_environment w session_id user_name display_name seat_id session_type session_mode display_hostname display_is_local =
     new_launch_environment MODE_LOGIN
       (join_names '' '' ([''scarecrow-session'', ''--autostart'', sv_datadir (lw_session w) @ ''/scdm/greeter/autostart''] @
          (if lw_debug w then [''--debug''] else []) @
          (case session_id of None \<Rightarrow> [] | Some i \<Rightarrow> ['' --session'', i])))
       user_name (lw_screenshot_dir w) session_type (Some session_mode) display_name seat_id display_hostname display_is_local"

definition scdm_create_greeter_launch_environment ::
  "launch_world \<Rightarrow> string option \<Rightarrow> string option \<Rightarrow> string option \<Rightarrow> string option \<Rightarrow> bool \<Rightarrow> launch_environment" where
  "scdm_create_greeter_launch_environment w display_name seat_id session_type display_hostname display_is_local =
     create_gnome_session_environment w None (lw_scdm_user w) display_name seat_id session_type ''scdm'' display_hostname display_is_local"

definition scdm_create_initial_setup_launch_environment ::
  "launch_world \<Rightarrow> string option \<Rightarrow> string option \<Rightarrow> string option \<Rightarrow> string option \<Rightarrow> bool \<Rightarrow> launch_environment" where
  "scdm_create_initial_setup_launch_environment w display_name seat_id session_type display_hostname display_is_local =
     create_gnome_session_environment w (Some ''gnome-initial-setup'') ''gnome-initial-setup'' display_name seat_id session_type
       ''initial-setup'' display_hostname display_is_local"

definition scdm_create_chooser_launch_environment ::
  "launch_world \<Rightarrow> string option \<Rightarrow> string option \<Rightarrow> string option \<Rightarrow> launch_environment" where
  "scdm_create_chooser_launch_environment w display_name seat_id display_hostname =
     new_launch_environment MODE_CHOOSER (sv_libexecdir (lw_session w) @ ''/scdm-simple-chooser'') (lw_scdm_user w) (lw_screenshot_dir w)
       None None display_name seat_id display_hostname False"

end
