(* ===== verification/Launch_Props.thy ===== *)
theory Launch_Props
  imports Launch_Environment Session_Start
begin

text \<open>
  The properties of launch environments.
\<close>

section \<open>The environment of the greeter\<close>

text \<open>What each variable is to be.\<close>

definition greeter_variable :: "launch_world \<Rightarrow> launch_environment \<Rightarrow> passwd option \<Rightarrow> string \<Rightarrow> string option" where
  "greeter_variable w l pwent k =
     (let locked = (le_session_mode l \<noteq> None \<and> le_session_mode l \<noteq> Some ''initial-setup'')
      in if k = ''RUNNING_UNDER_SCDM'' then Some ''true''
      else if k = ''SCDM_SEAT_ID'' then le_x11_display_seat_id l
      else if k \<in> {''HOME'', ''PWD''} then Some (case Option.bind pwent pw_dir of None \<Rightarrow> ''/'' | Some d \<Rightarrow> if d = [] then ''/'' else d)
      else if k = ''SHELL'' then (case pwent of None \<Rightarrow> Some ''/bin/sh'' | Some pw \<Rightarrow> pw_shell pw)
      else if k \<in> {''LOGNAME'', ''USER'', ''USERNAME''} then Some (le_user_name l)
      else if k = ''SCDM_VERSION'' then Some (lw_version w)
      else if k = ''GNOME_SHELL_SESSION_MODE'' then le_session_mode l
      else if k = ''DCONF_PROFILE'' then if locked then Some ''scdm'' else None
      else if k = ''GIO_USE_VFS'' then if locked then Some ''local'' else None
      else if k \<in> {''GVFS_DISABLE_FUSE'', ''GVFS_REMOTE_VOLUME_MONITOR_IGNORE''} then if locked then Some ''1'' else None
      else if k = ''XAUTHORITY'' then le_x11_authority_file l
      else if k = ''XDG_DATA_DIRS'' then Some (sv_datadir (lw_session w) @ ''/scdm/greeter:'' @ join_names '':'' (sv_system_data_dirs (lw_session w)))
      else if k \<in> set optional_environment then lw_getenv w k
      else None)"

lemma inherited_keys: "map_of (inherited g ks h) k = (if k \<in> set ks \<and> g k \<noteq> None then Some (g k) else map_of h k)"
  by (induction g ks h rule: inherited.induct) (auto simp: lookup_simps)

lemma inherited_distinct: "distinct (map fst h) \<Longrightarrow> distinct (map fst (inherited g ks h))"
  by (induction g ks h rule: inherited.induct) auto

definition locked_down :: "string option \<Rightarrow> bool" where
  "locked_down m \<longleftrightarrow> m \<noteq> None \<and> m \<noteq> Some ''initial-setup''"

lemma mode_hash_keys:
  "map_of (mode_hash m h) k =
     (if k = ''GNOME_SHELL_SESSION_MODE'' \<and> m \<noteq> None then Some m
      else if k = ''DCONF_PROFILE'' \<and> locked_down m then Some (Some ''scdm'')
      else if k = ''GIO_USE_VFS'' \<and> locked_down m then Some (Some ''local'')
      else if k \<in> {''GVFS_DISABLE_FUSE'', ''GVFS_REMOTE_VOLUME_MONITOR_IGNORE''} \<and> locked_down m then Some (Some ''1'')
      else map_of h k)"
  by (cases m) (auto simp: mode_hash_def locked_down_def Let_def lookup_simps)

lemma mode_distinct: "distinct (map fst h) \<Longrightarrow> distinct (map fst (mode_hash m h))"
  by (simp add: mode_hash_def Let_def distinct_update split: option.split)

lemma user_hash_keys:
  "map_of (user_hash u v p h) k =
     (if k = ''SHELL'' then Some (case p of None \<Rightarrow> Some ''/bin/sh'' | Some pw \<Rightarrow> pw_shell pw)
      else if k \<in> {''HOME'', ''PWD''} then Some (Some (case Option.bind p pw_dir of None \<Rightarrow> ''/'' | Some d \<Rightarrow> if d = [] then ''/'' else d))
      else if k = ''MAIL'' then None
      else if k = ''SCDM_VERSION'' then Some (Some v)
      else if k \<in> {''USERNAME'', ''USER'', ''LOGNAME''} then Some (Some u) else map_of h k)"
  by (cases p; cases "pw_dir (the p)")
    (auto simp: user_hash_def script_user_hash_keys login_hash_def Let_def lookup_simps)

lemma user_distinct: "distinct (map fst h) \<Longrightarrow> distinct (map fst (user_hash u v p h))"
  by (simp add: user_hash_def login_hash_def distinct_script_user_hash Let_def distinct_update distinct_delete split: option.split)

lemma set_variables_lookup:
  "distinct (map fst h) \<Longrightarrow> map_of (s_environment (fold (\<lambda>(k, x). scdm_session_set_environment_variable k x) h s)) k =
    (case map_of h k of Some (Some v) \<Rightarrow> Some v | _ \<Rightarrow> map_of (s_environment s) k)"
proof (induction h arbitrary: s)
  case (Cons e h)
  obtain a x where e: "e = (a, x)" by (cases e)
  have "a \<notin> fst ` set h" using Cons.prems by (simp add: e)
  then have "map_of h a = None" by (simp add: map_of_eq_None_iff)
  then show ?case
    using Cons by (cases x) (auto simp: e scdm_session_set_environment_variable_def map_of_update split: option.split)
qed simp

definition launch_hash :: "launch_world \<Rightarrow> launch_environment \<Rightarrow> passwd option \<Rightarrow> env_hash" where
  "launch_hash w l pwent =
     AList.update ''RUNNING_UNDER_SCDM'' (Some ''true'') (insert_opt ''SCDM_SEAT_ID'' (le_x11_display_seat_id l)
       (user_hash (le_user_name l) (lw_version w) pwent (mode_hash (le_session_mode l)
         (insert_opt ''XAUTHORITY'' (le_x11_authority_file l)
           (AList.update ''XDG_DATA_DIRS'' (Some (sv_datadir (lw_session w) @ ''/scdm/greeter'' @ '':'' @
               join_names '':'' (sv_system_data_dirs (lw_session w))))
             (inherited (lw_getenv w) optional_environment []))))))"

lemma launch_hash_distinct: "distinct (map fst (launch_hash w l p))"
  unfolding launch_hash_def by (intro distinct_update distinct_insert_opt user_distinct mode_distinct inherited_distinct) simp

definition special_variables :: "string list" where
  "special_variables = [''RUNNING_UNDER_SCDM'', ''SCDM_SEAT_ID'', ''HOME'', ''PWD'', ''SHELL'', ''LOGNAME'', ''USER'', ''USERNAME'', ''SCDM_VERSION'',
     ''GNOME_SHELL_SESSION_MODE'', ''DCONF_PROFILE'', ''GIO_USE_VFS'', ''GVFS_DISABLE_FUSE'', ''GVFS_REMOTE_VOLUME_MONITOR_IGNORE'',
     ''XAUTHORITY'', ''XDG_DATA_DIRS'', ''MAIL'']"

lemmas launch_keys = launch_hash_def lookup_simps user_hash_keys mode_hash_keys inherited_keys

lemma special_not_optional: "k \<in> set special_variables \<Longrightarrow> k \<notin> set optional_environment"
  by (auto simp: special_variables_def optional_environment_def)

lemma launch_hash_keys: "(case map_of (launch_hash w l p) k of Some (Some v) \<Rightarrow> Some v | _ \<Rightarrow> None) = greeter_variable w l p k"
proof (cases "k \<in> set special_variables")
  case True
  then have "k \<notin> set optional_environment" by (rule special_not_optional)
  with True show ?thesis
    unfolding special_variables_def set_simps insert_iff empty_iff simp_thms
    by (elim disjE) (simp_all add: launch_keys greeter_variable_def locked_down_def Let_def split: option.splits)
next
  case False
  then have "map_of (launch_hash w l p) k = (if k \<in> set optional_environment \<and> lw_getenv w k \<noteq> None then Some (lw_getenv w k) else None)"
    by (simp add: launch_keys special_variables_def)
  then show ?thesis using False by (simp add: greeter_variable_def special_variables_def Let_def split: option.split)
qed

text \<open>What the set-up puts into a session that has no environment yet.\<close>

lemma greeter_set_up:
  assumes "on_session_setup_complete w l = Some l'" and "le_session l = Some s" and "s_environment s = []"
    and "scdm_get_pwent_for_name (lw_getpwnam w (le_user_name l)) = Some (found, pwent)"
  shows "\<exists>s'. le_session l' = Some s' \<and> map_of (s_environment s') = greeter_variable w l pwent \<and> distinct (map fst (s_environment s'))"
proof -
  have "build_launch_environment w True l = Some (launch_hash w l pwent)"
    using assms(4) by (simp add: build_launch_environment_def launch_hash_def Let_def)
  then have "le_session l' = Some (fold (\<lambda>(k, x). scdm_session_set_environment_variable k x) (launch_hash w l pwent) s)"
    using assms(1,2) by (auto simp: on_session_setup_complete_def)
  moreover have "distinct (map fst (s_environment (fold (\<lambda>(k, x). scdm_session_set_environment_variable k x) h s)))"
    if "distinct (map fst (s_environment s))" for h s
    using that by (induction h arbitrary: s)
      (auto simp: scdm_session_set_environment_variable_def distinct_update split: option.split)
  ultimately show ?thesis
    by (auto simp: fun_eq_iff set_variables_lookup launch_hash_distinct launch_hash_keys [symmetric] assms(3) split: option.split)
qed

lemma set_up_keeps:
  assumes "on_session_setup_complete w l = Some l'" and "le_session l = Some s" and "le_session l' = Some s'"
  shows "s' = s\<lparr>s_environment := s_environment s'\<rparr>"
proof -
  have "\<exists>e. fold (\<lambda>(k, x). scdm_session_set_environment_variable k x) h s = s\<lparr>s_environment := e\<rparr>" for h s
  proof (induction h arbitrary: s)
    case Nil
    show ?case by (rule exI [of _ "s_environment s"]) simp
  next
    case (Cons a h)
    have "scdm_session_set_environment_variable (fst a) (snd a) s =
        s\<lparr>s_environment := (case snd a of None \<Rightarrow> s_environment s | Some y \<Rightarrow> AList.update (fst a) y (s_environment s))\<rparr>"
      by (simp add: scdm_session_set_environment_variable_def split: option.split)
    then obtain e where "scdm_session_set_environment_variable (fst a) (snd a) s = s\<lparr>s_environment := e\<rparr>" by blast
    then show ?case using Cons [of "s\<lparr>s_environment := e\<rparr>"] by (simp add: case_prod_beta')
  qed
  note changed = this
  obtain h where "s' = fold (\<lambda>(k, x). scdm_session_set_environment_variable k x) h s"
    using assms by (auto simp: on_session_setup_complete_def bind_eq_Some_conv)
  with changed [of h s] show ?thesis by auto
qed

section \<open>The environment of the program\<close>

definition set_opt :: "string \<Rightarrow> string option \<Rightarrow> (string \<times> string) list \<Rightarrow> (string \<times> string) list" where
  "set_opt k x e = (case x of None \<Rightarrow> e | Some y \<Rightarrow> AList.update k y e)"

lemma set_opt_lookup: "map_of (set_opt k x e) n = (if n = k \<and> x \<noteq> None then x else map_of e n)"
  by (auto simp: set_opt_def map_of_update split: option.split)

lemma set_opt_distinct: "distinct (map fst e) \<Longrightarrow> distinct (map fst (set_opt k x e))"
  by (simp add: set_opt_def distinct_update split: option.split)

lemma set_variable_opt: "scdm_session_set_environment_variable k x s = s\<lparr>s_environment := set_opt k x (s_environment s)\<rparr>"
  by (simp add: scdm_session_set_environment_variable_def set_opt_def split: option.split)

definition set_all :: "(string \<times> string) list \<Rightarrow> (string \<times> string) list \<Rightarrow> (string \<times> string) list" where
  "set_all l e = fold (\<lambda>(k, x). set_opt k (Some x)) l e"

lemma set_all_lookup:
  "distinct (map fst l) \<Longrightarrow> map_of (set_all l e) n = (case map_of l n of Some x \<Rightarrow> Some x | None \<Rightarrow> map_of e n)"
proof (induction l arbitrary: e)
  case (Cons a l)
  have "map_of l (fst a) = None" using Cons.prems by (simp add: map_of_eq_None_iff)
  then show ?case using Cons by (auto simp: set_all_def set_opt_lookup split_def split: option.split)
qed (simp add: set_all_def)

lemma set_all_distinct: "distinct (map fst e) \<Longrightarrow> distinct (map fst (set_all l e))"
  by (induction l arbitrary: e) (auto simp: set_all_def set_opt_distinct)

text \<open>The variables of the language that the daemon has.\<close>

definition language_variable :: "string \<Rightarrow> bool" where
  "language_variable k \<longleftrightarrow> k = ''LANG'' \<or> k = ''LANGUAGE'' \<or> prefix ''LC_'' k"

lemma set_up_language:
  "set_up_session_language v s = s\<lparr>s_environment := set_all (filter (\<lambda>(k, x). language_variable k) (sv_environ v)) (s_environment s)\<rparr>"
proof -
  have "fold (\<lambda>(k, x). scdm_session_set_environment_variable k (Some x)) l s = s\<lparr>s_environment := set_all l (s_environment s)\<rparr>" for l s
    by (induction l arbitrary: s) (auto simp: set_all_def set_variable_opt)
  then show ?thesis by (simp add: set_up_session_language_def language_variable_def)
qed

lemma language_lookup:
  "map_of (filter (\<lambda>(k, x). language_variable k) l) n = (if language_variable n then map_of l n else None)"
  by (induction l) auto

text \<open>The locale, and what the start of a session that runs a program adds to its environment.\<close>

definition started_locale :: "session_world \<Rightarrow> session \<Rightarrow> string option" where
  "started_locale v s =
     (case s_saved_language s of
        Some l \<Rightarrow> Some l
      | None \<Rightarrow> (case map_of (sv_environ v) ''LANG'' of
          Some l \<Rightarrow> Some l
        | None \<Rightarrow> (case map_of (s_environment s) ''LANG'' of Some l \<Rightarrow> Some l | None \<Rightarrow> sv_lc_messages v)))"

definition program_environment :: "session_world \<Rightarrow> session \<Rightarrow> (string \<times> string) list" where
  "program_environment v s =
     (let e = set_all (filter (\<lambda>(k, x). language_variable k) (sv_environ v))
            (set_opt ''XDG_CURRENT_DESKTOP'' (Some ''GNOME-Greeter:GNOME'') (s_environment s));
          l = (if started_locale v s = Some [] then None else started_locale v s);
          reuse = (scdm_session_get_display_mode v s = REUSE_VT)
      in set_opt ''WINDOWPATH'' (map_of (sv_environ v) ''WINDOWPATH'')
           (set_opt ''XAUTHORITY'' (if reuse then s_user_x11_authority_file s else None)
             (set_opt ''DISPLAY'' (if reuse then s_display_name s else None) (set_opt ''SCDM_LANG'' l (set_opt ''LANG'' l e)))))"

lemma program_environment_distinct: "distinct (map fst (s_environment s)) \<Longrightarrow> distinct (map fst (program_environment v s))"
  by (simp add: program_environment_def Let_def set_opt_distinct set_all_distinct)

lemma set_opt_None [simp]: "set_opt k None e = e"
  by (simp add: set_opt_def)

lemma set_locale:
  "(if n \<noteq> None \<and> n \<noteq> Some [] then scdm_session_set_environment_variable ''SCDM_LANG'' n
      (scdm_session_set_environment_variable ''LANG'' n s) else s) =
   s\<lparr>s_environment := set_opt ''SCDM_LANG'' (if n = Some [] then None else n)
      (set_opt ''LANG'' (if n = Some [] then None else n) (s_environment s))\<rparr>"
  by (simp add: set_variable_opt)

lemma set_x_server:
  "(if b then scdm_session_set_environment_variable ''XAUTHORITY'' a (scdm_session_set_environment_variable ''DISPLAY'' d s) else s) =
   s\<lparr>s_environment := set_opt ''XAUTHORITY'' (if b then a else None) (set_opt ''DISPLAY'' (if b then d else None) (s_environment s))\<rparr>"
  by (simp add: set_variable_opt)

lemma set_up_program_environment:
  assumes "s_selected_program s = Some p" and "distinct (map fst (sv_environ v))"
  shows "set_up_session_environment v s = Some (s\<lparr>s_environment := program_environment v s\<rparr>)"
proof -
  let ?e = "set_all (filter (\<lambda>(k, x). language_variable k) (sv_environ v))
    (set_opt ''XDG_CURRENT_DESKTOP'' (Some ''GNOME-Greeter:GNOME'') (s_environment s))"
  have d: "distinct (map fst (filter (\<lambda>(k, x). language_variable k) (sv_environ v)))" using assms(2) by (rule distinct_map_filter)
  have "language_variable ''LANG''" by (simp add: language_variable_def)
  then have "get_default_language_name v (s\<lparr>s_environment := ?e\<rparr>) = started_locale v s"
    by (simp add: get_default_language_name_def started_locale_def set_all_lookup [OF d] language_lookup set_opt_lookup
        split: option.split)
  moreover have "scdm_session_get_display_mode v (s\<lparr>s_environment := e\<rparr>) = scdm_session_get_display_mode v s" for e
    by (simp add: scdm_session_get_display_mode_def)
  moreover have "get_session_desktop_names v s = Some (Some ''GNOME-Greeter:GNOME'', s)"
    using assms(1) by (simp add: get_session_desktop_names_def)
  ultimately show ?thesis
    by (simp add: set_up_session_environment_def assms(1) set_up_language set_variable_opt [of "''XDG_CURRENT_DESKTOP''"]
        set_locale set_x_server set_variable_opt [of "''WINDOWPATH''"] program_environment_def Let_def del: not_None_eq split del: if_split cong: if_cong)
qed

text \<open>What each variable of the program is to be: the set-up's, but for the language of the daemon, the locale, the desktop and,
  on a display whose terminal is used again, its X server.\<close>

definition program_variable :: "launch_world \<Rightarrow> launch_environment \<Rightarrow> passwd option \<Rightarrow> session \<Rightarrow> string \<Rightarrow> string option" where
  "program_variable w l pwent s k =
     (let v = lw_session w;
          locale_name = (case s_saved_language s of
            Some n \<Rightarrow> Some n
          | None \<Rightarrow> (case lw_getenv w ''LANG'' of Some n \<Rightarrow> Some n | None \<Rightarrow> sv_lc_messages v));
          reuse = (scdm_session_get_display_mode v s = REUSE_VT)
      in if k = ''XAUTHORITY'' \<and> reuse \<and> s_user_x11_authority_file s \<noteq> None then s_user_x11_authority_file s
         else if k = ''DISPLAY'' \<and> reuse then s_display_name s
         else if k \<in> {''LANG'', ''SCDM_LANG''} \<and> locale_name \<noteq> None \<and> locale_name \<noteq> Some [] then locale_name
         else if prefix ''LC_'' k then lw_getenv w k
         else if k = ''XDG_CURRENT_DESKTOP'' then Some ''GNOME-Greeter:GNOME''
         else greeter_variable w l pwent k)"

lemma program_environment_lookup:
  assumes "distinct (map fst (sv_environ v))"
  shows "map_of (program_environment v s) k =
    (let l = (if started_locale v s = Some [] then None else started_locale v s);
         a = (if scdm_session_get_display_mode v s = REUSE_VT then s_user_x11_authority_file s else None);
         d = (if scdm_session_get_display_mode v s = REUSE_VT then s_display_name s else None)
     in if k = ''WINDOWPATH'' \<and> map_of (sv_environ v) ''WINDOWPATH'' \<noteq> None then map_of (sv_environ v) ''WINDOWPATH''
        else if k = ''XAUTHORITY'' \<and> a \<noteq> None then a else if k = ''DISPLAY'' \<and> d \<noteq> None then d
        else if k = ''SCDM_LANG'' \<and> l \<noteq> None then l else if k = ''LANG'' \<and> l \<noteq> None then l
        else case (if language_variable k then map_of (sv_environ v) k else None) of
          Some x \<Rightarrow> Some x
        | None \<Rightarrow> if k = ''XDG_CURRENT_DESKTOP'' \<and> Some ''GNOME-Greeter:GNOME'' \<noteq> None then Some ''GNOME-Greeter:GNOME''
                  else map_of (s_environment s) k)"
  unfolding program_environment_def Let_def set_opt_lookup set_all_lookup [OF distinct_map_filter [OF assms]] language_lookup
  by (rule refl)

lemma greeter_variable_plain:
  "k \<notin> set special_variables \<Longrightarrow> greeter_variable w l p k = (if k \<in> set optional_environment then lw_getenv w k else None)"
  by (simp add: greeter_variable_def special_variables_def Let_def)

lemma locale_not_special: "prefix ''LC_'' k \<Longrightarrow> k \<notin> set special_variables"
  by (auto simp: special_variables_def)

lemma skip_variable: "k \<noteq> a \<Longrightarrow> (if k = a \<and> b then x else y) = y"
  by simp

lemma program_environment_variables:
  assumes "map_of (s_environment s) = greeter_variable w l pwent"
    and "distinct (map fst (sv_environ (lw_session w)))" and "lw_getenv w = map_of (sv_environ (lw_session w))"
  shows "map_of (program_environment (lw_session w) s) k = program_variable w l pwent s k"
proof -
  let ?v = "lw_session w"
  have inherited: "greeter_variable w l pwent k = lw_getenv w k" if "k \<in> {''LANG'', ''LANGUAGE'', ''WINDOWPATH''}" for k
    using that by (auto simp: greeter_variable_plain special_variables_def optional_environment_def)
  have none: "greeter_variable w l pwent k = None" if "k \<in> {''DISPLAY'', ''SCDM_LANG''}" for k
    using that by (auto simp: greeter_variable_plain special_variables_def optional_environment_def)
  have LC: "greeter_variable w l pwent k = None" if "prefix ''LC_'' k" "lw_getenv w k = None"
    using that locale_not_special [OF that(1)] by (simp add: greeter_variable_plain)
  have started: "started_locale ?v s = (case s_saved_language s of
      Some n \<Rightarrow> Some n | None \<Rightarrow> (case lw_getenv w ''LANG'' of Some n \<Rightarrow> Some n | None \<Rightarrow> sv_lc_messages ?v))"
    by (simp add: started_locale_def assms(1) inherited split: option.split) (simp add: assms(3))
  note lookup = program_environment_lookup [OF assms(2), of s, folded assms(3), unfolded assms(1)]
  show ?thesis
  proof (cases "k \<in> {''WINDOWPATH'', ''XAUTHORITY'', ''DISPLAY'', ''SCDM_LANG'', ''LANG'', ''XDG_CURRENT_DESKTOP''}")
    case True
    then show ?thesis unfolding insert_iff empty_iff simp_thms
      by (elim disjE) (simp_all add: lookup program_variable_def Let_def started [symmetric] language_variable_def inherited none
          split: option.split, auto)
  next
    case False
    then have n: "k \<noteq> ''WINDOWPATH''" "k \<noteq> ''XAUTHORITY''" "k \<noteq> ''DISPLAY''" "k \<noteq> ''SCDM_LANG''" "k \<noteq> ''LANG''"
        "k \<noteq> ''XDG_CURRENT_DESKTOP''"
      by (simp_all only: insert_iff de_Morgan_disj simp_thms)
    have other: "map_of (program_environment ?v s) k = (case (if language_variable k then lw_getenv w k else None) of
        Some x \<Rightarrow> Some x | None \<Rightarrow> greeter_variable w l pwent k)"
      unfolding lookup Let_def skip_variable [OF n(1)] skip_variable [OF n(2)] skip_variable [OF n(3)]
        skip_variable [OF n(4)] skip_variable [OF n(5)] skip_variable [OF n(6)] ..
    show ?thesis unfolding other using n inherited [of "''LANGUAGE''"] LC
      by (cases "k = ''LANGUAGE''"; cases "lw_getenv w k") (simp_all add: program_variable_def Let_def language_variable_def)
  qed
qed

text \<open>The steps of the start before the environment is sent.\<close>

lemma stop_conversation_quiet:
  assumes "stop_conversation d s = Some s'"
  shows "(c \<noteq> d \<longrightarrow> s_heap s' c = s_heap s c) \<and> (\<exists>fx. s_log s' = s_log s @ fx \<and> (\<forall>c m. CallWorker c m \<notin> set fx))"
  using assms by (auto simp: stop_conversation_def close_conversation_def set_conversation_def semit_def bind_eq_Some_conv
      split: option.splits)

lemma stop_each_quiet:
  "stop_each (Some c) False l s = Some s' \<Longrightarrow>
   s_heap s' c = s_heap s c \<and> (\<exists>fx. s_log s' = s_log s @ fx \<and> (\<forall>c m. CallWorker c m \<notin> set fx))"
proof (induction l arbitrary: s)
  case (Cons a l)
  obtain n e where a: "a = (n, e)" by (cases a)
  obtain s1 where s1: "stop_each (Some c) False l s1 = Some s'" "s1 = s \<or> (\<exists>d. d \<noteq> c \<and> stop_conversation d s = Some s1)"
    using Cons.prems by (auto simp: a bind_eq_Some_conv split: option.splits if_splits)
  obtain fx where fx: "s_heap s1 c = s_heap s c" "s_log s1 = s_log s @ fx" "\<forall>c m. CallWorker c m \<notin> set fx"
    using s1(2) stop_conversation_quiet [of _ s s1 c] by fastforce
  from Cons.IH [OF s1(1)] obtain gx where gx: "s_heap s' c = s_heap s1 c" "s_log s' = s_log s1 @ gx" "\<forall>c m. CallWorker c m \<notin> set gx"
    by blast
  show ?case using fx gx by auto
qed simp

lemma registers_rest: "scdm_session_session_registers v s = Some (b, s') \<Longrightarrow> \<exists>n. s' = s\<lparr>s_fallback_session_name := n\<rparr>"
proof -
  assume "scdm_session_session_registers v s = Some (b, s')"
  then obtain m where "get_session_name v s = Some (m, s')"
    by (auto simp: scdm_session_session_registers_def get_session_filename_def)
  then have "s' = s \<or> get_fallback_session_name v s = Some (m, s')"
    by (auto simp: get_session_name_def get_default_session_name_def split: option.splits)
  moreover have "s' = s \<or> (\<exists>n. s' = s\<lparr>s_fallback_session_name := n\<rparr>)" if "get_fallback_session_name v s = Some (m, s')"
    using that by (auto simp: get_fallback_session_name_def split: option.splits if_splits list.splits)
  moreover have "s = s\<lparr>s_fallback_session_name := s_fallback_session_name s\<rparr>" by simp
  ultimately show "\<exists>n. s' = s\<lparr>s_fallback_session_name := n\<rparr>" by blast
qed

lemma send_variables_heap: "send_variables vars c s = Some s' \<Longrightarrow> s_heap s' = s_heap s"
proof (induction vars arbitrary: s)
  case (Cons a vars)
  obtain key x where a: "a = (key, x)" by (cases a)
  obtain s1 where s1: "call_worker c None (CallSetEnvironmentVariable key x) s = Some s1" "send_variables vars c s1 = Some s'"
    using Cons.prems by (auto simp: a bind_eq_Some_conv)
  have "s_heap s1 = s_heap s" using s1(1) by (auto simp: call_worker_def semit_def split: option.splits if_splits)
  then show ?case using Cons.IH [OF s1(2)] by simp
qed simp

lemma program_started:
  assumes "scdm_session_start_session v n s = Some s'" and "s_selected_program s = Some p" "s_session_conversation s = None"
    and "find_conversation_by_name s n = Some c" "s_heap s c = Some k" "c_worker_proxy k" and "distinct (map fst (sv_environ v))"
  shows "\<exists>fx program. s_log s' = s_log s @ fx @ map (CallWorker c)
      (map (\<lambda>(key, x). CallSetEnvironmentVariable key x) (program_environment v s) @ [CallStartProgram program]) \<and>
    (\<forall>c m. CallWorker c m \<notin> set fx)"
proof -
  obtain s1 b s2 program where s1: "stop_all_other_conversations (Some c) False s = Some s1"
    and s2: "scdm_session_session_registers v s1 = Some (b, s2)"
    and s': "Option.bind (set_up_session_environment v s2) (\<lambda>s. Option.bind (send_environment c s)
      (call_worker c (Some StartProgramCall) (CallStartProgram program))) = Some s'"
    and p2: "s_selected_program s2 = Some p"
  proof -
    obtain s1 where s1: "stop_all_other_conversations (Some c) False s = Some s1"
      using assms(1,3,4) by (auto simp: scdm_session_start_session_def bind_eq_Some_conv)
    then have "stop_each (Some c) False (s_conversations s) s = Some s1" by (simp add: stop_all_other_conversations_def bind_eq_Some_conv)
    then obtain h fx where s1': "s1 = s\<lparr>s_heap := h, s_log := fx\<rparr>" using stop_each_rest by blast
    obtain b s2 where s2: "scdm_session_session_registers v s1 = Some (b, s2)"
      using assms(1,3,4) s1 by (auto simp: scdm_session_start_session_def Let_def bind_eq_Some_conv)
    have "s_selected_program s2 = Some p" using registers_rest [OF s2] s1' assms(2) by auto
    then show ?thesis using that [OF s1 s2] assms(1,3,4) s1 s2 by (auto simp: scdm_session_start_session_def Let_def)
  qed
  from s1 have e: "stop_each (Some c) False (s_conversations s) s = Some s1" by (simp add: stop_all_other_conversations_def bind_eq_Some_conv)
  obtain h lg m where s2': "s2 = s\<lparr>s_heap := h, s_log := lg, s_fallback_session_name := m\<rparr>"
    using stop_each_rest [OF e] registers_rest [OF s2] by auto
  from stop_each_quiet [OF e] obtain fx where fx': "s_heap s1 c = s_heap s c" "s_log s1 = s_log s @ fx" "\<forall>c m. CallWorker c m \<notin> set fx"
    by (elim conjE exE)
  have "s_heap s2 = s_heap s1" "s_log s2 = s_log s1" using registers_rest [OF s2] by (elim exE, simp)+
  then have fx: "s_heap s2 c = Some k" "s_log s2 = s_log s @ fx" "\<forall>c m. CallWorker c m \<notin> set fx" using fx' assms(5) by simp_all
  have same: "s_saved_language s2 = s_saved_language s" "s_environment s2 = s_environment s" "s_display_seat_id s2 = s_display_seat_id s"
    "s_session_type s2 = s_session_type s" "s_display_name s2 = s_display_name s"
    "s_user_x11_authority_file s2 = s_user_x11_authority_file s"
    by (simp_all add: s2')
  have pe: "program_environment v s2 = program_environment v s"
    unfolding program_environment_def started_locale_def scdm_session_get_display_mode_def same ..
  let ?s3 = "s2\<lparr>s_environment := program_environment v s\<rparr>"
  have "s_heap ?s3 c = Some k" using fx(1) by simp
  from send_variables_calls [OF this assms(6), of "program_environment v s"] obtain s4 where
    s4: "send_environment c ?s3 = Some s4" "s_log s4 = s_log ?s3 @ map (CallWorker c) (map (\<lambda>(key, x). CallSetEnvironmentVariable key x) (program_environment v s))"
    unfolding send_environment_def by auto
  have "call_worker c (Some StartProgramCall) (CallStartProgram program) s4 = Some s'"
    using s' by (simp add: set_up_program_environment [OF p2 assms(7)] pe s4(1))
  moreover have "s_heap s4 c = Some k" using send_variables_heap [OF s4(1) [unfolded send_environment_def]] fx(1) by simp
  ultimately have "s_log s' = s_log s4 @ [CallWorker c (CallStartProgram program)]"
    using assms(6) by (auto simp: call_worker_def semit_def set_conversation_def)
  then show ?thesis using s4(2) fx(2,3) by auto
qed

text \<open>C30. The environment of the program of a login display, the greeter for example, at its start: when the set-up of its
  session, which had none, is complete and the session is then opened with the environment that the set-up left, the worker is
  told these variables, each once, and no others, and then to start the program. Each has its value by the display,
  the session mode and the user; the language is the one saved or the daemon's, the variables of a fixed list and all whose
  names begin with LC_ are passed on from the daemon, and no other variable of the daemon gets through. A greeter is locked down, an
  initial set-up is not; only where the terminal of the display is used again the program is told of the X server.\<close>

theorem greeter_environment:
  assumes "on_session_setup_complete w l = Some l'" and "le_session l = Some s" and "s_environment s = []"
    and "scdm_get_pwent_for_name (lw_getpwnam w (le_user_name l)) = Some (found, pwent)"
    and "on_session_opened w n session_id (l'\<lparr>le_session := Some s2\<rparr>) = Some l2"
    and "s_environment s2 = s_environment (the (le_session l'))" "s_selected_program s2 = Some p" "s_session_conversation s2 = None"
    and "find_conversation_by_name s2 n = Some c" "s_heap s2 c = Some k" "c_worker_proxy k"
    and "distinct (map fst (sv_environ (lw_session w)))" "lw_getenv w = map_of (sv_environ (lw_session w))"
  shows "\<exists>s3 fx vars program. le_session l2 = Some s3 \<and>
    s_log s3 = s_log s2 @ fx @ map (CallWorker c) (map (\<lambda>(key, x). CallSetEnvironmentVariable key x) vars @ [CallStartProgram program]) \<and>
    (\<forall>c m. CallWorker c m \<notin> set fx) \<and> distinct (map fst vars) \<and> map_of vars = program_variable w l pwent s2"
proof -
  obtain s1 where s1: "le_session l' = Some s1" "map_of (s_environment s1) = greeter_variable w l pwent" "distinct (map fst (s_environment s1))"
    using greeter_set_up [OF assms(1-4)] by blast
  then have e: "map_of (s_environment s2) = greeter_variable w l pwent" "distinct (map fst (s_environment s2))" using assms(6) by simp_all
  obtain s3 where s3: "scdm_session_start_session (lw_session w) n s2 = Some s3" "le_session l2 = Some s3"
    using assms(5) by (auto simp: on_session_opened_def on_launch_session_def lemit_def)
  obtain fx program where "s_log s3 = s_log s2 @ fx @ map (CallWorker c)
      (map (\<lambda>(key, x). CallSetEnvironmentVariable key x) (program_environment (lw_session w) s2) @ [CallStartProgram program])"
    "\<forall>c m. CallWorker c m \<notin> set fx"
    using program_started [OF s3(1) assms(7-12)] by blast
  then show ?thesis using s3(2) program_environment_variables [OF e(1) assms(12,13)] program_environment_distinct [OF e(2)]
    by (intro exI [of _ s3] exI [of _ fx] exI [of _ "program_environment (lw_session w) s2"] exI [of _ program]) (simp add: fun_eq_iff)
qed

definition example_lworld :: launch_world where
  "example_lworld = \<lparr>lw_session = example_sworld\<lparr>sv_environ := [(''LANG'', ''de_DE''), (''LC_TIME'', ''C''), (''SECRET'', ''x'')]\<rparr>,
     lw_worker_address = Some ''unix:w'',
     lw_getenv = map_of [(''LANG'', ''de_DE''), (''LC_TIME'', ''C''), (''SECRET'', ''x'')],
     lw_getpwnam = (\<lambda>u. [(Some \<lparr>pw_name = u, pw_uid = 120, pw_gid = 120, pw_dir = Some ''/var/lib/gdm'', pw_shell = None\<rparr>, None)]),
     lw_mkdir = (\<lambda>p. if p = Some ''/var/lib/gdm'' then Some EEXIST else Some ENOENT), lw_chown = (\<lambda>p u g. None), lw_logdir = ''/var/log'',
     lw_version = ''3'', lw_debug = False, lw_scdm_user = ''gdm'', lw_screenshot_dir = ''/run/scdm''\<rparr>"

definition example_launch :: launch_environment where
  "example_launch = scdm_create_greeter_launch_environment example_lworld (Some '':0'') (Some ''seat0'') None None True"

text \<open>A session with a worker, to run a program.\<close>

definition example_program_session :: "session option" where
  "example_program_session = map_option (scdm_session_select_program (Some ''program'')) example_start"

theorem greeter_environment_witness:
  "\<exists>s l' l2 s3 pre vars program. example_program_session = Some s \<and>
     on_session_setup_complete example_lworld (example_launch\<lparr>le_session := Some s\<rparr>) = Some l' \<and>
     on_session_opened example_lworld ''gdm-password'' None l' = Some l2 \<and> le_session l2 = Some s3 \<and>
     s_log s3 = pre @ map (CallWorker 0) (map (\<lambda>(key, x). CallSetEnvironmentVariable key x) vars @ [CallStartProgram program]) \<and>
     map_of vars ''DCONF_PROFILE'' = Some ''scdm'' \<and> map_of vars ''LC_TIME'' = Some ''C'' \<and> map_of vars ''SCDM_LANG'' = Some ''de_DE'' \<and>
     map_of vars ''SECRET'' = None \<and> map_of vars ''DISPLAY'' = None"
proof -
  have "map_option (\<lambda>s. (s_environment s, s_selected_program s, s_session_conversation s, find_conversation_by_name s ''gdm-password'',
      map_option c_worker_proxy (s_heap s 0), s_saved_language s, s_display_seat_id s)) example_program_session =
    Some ([], Some ''program'', None, Some 0, Some True, None, Some ''seat0'')" by code_simp
  then obtain s k where s: "example_program_session = Some s" "s_environment s = []" "s_selected_program s = Some ''program''"
    "s_session_conversation s = None" "find_conversation_by_name s ''gdm-password'' = Some 0" "s_heap s 0 = Some k" "c_worker_proxy k"
    "s_saved_language s = None" "s_display_seat_id s = Some ''seat0''" by auto
  have mode: "sv_user_display_server (lw_session example_lworld)" by (simp add: example_lworld_def example_sworld_def)
  let ?l = "example_launch\<lparr>le_session := Some s\<rparr>"
  let ?pw = "\<lparr>pw_name = le_user_name ?l, pw_uid = 120, pw_gid = 120, pw_dir = Some ''/var/lib/gdm'', pw_shell = None\<rparr>"
  have pw: "scdm_get_pwent_for_name (lw_getpwnam example_lworld (le_user_name ?l)) = Some (True, Some ?pw)"
    by (simp add: scdm_get_pwent_for_name_def example_lworld_def)
  have "Option.bind example_program_session (\<lambda>s. Option.bind
      (on_session_setup_complete example_lworld (example_launch\<lparr>le_session := Some s\<rparr>)) (on_session_opened example_lworld ''gdm-password'' None)) \<noteq> None"
    by code_simp
  then obtain l2 where "Option.bind (on_session_setup_complete example_lworld ?l) (on_session_opened example_lworld ''gdm-password'' None) = Some l2"
    unfolding s(1) Option.bind.simps by blast
  then obtain l' where l': "on_session_setup_complete example_lworld ?l = Some l'"
    and l2: "on_session_opened example_lworld ''gdm-password'' None l' = Some l2" unfolding bind_eq_Some_conv by blast
  have "le_session ?l = Some s" by simp
  then obtain s1 where s1: "le_session l' = Some s1" using greeter_set_up [OF l' _ s(2) pw] by blast
  have keeps: "s1 = s\<lparr>s_environment := s_environment s1\<rparr>" by (rule set_up_keeps [OF l' _ s1]) simp
  have again: "on_session_opened example_lworld ''gdm-password'' None (l'\<lparr>le_session := Some s1\<rparr>) = Some l2"
    using l2 s1 by (cases l') (simp only: launch_environment.simps launch_environment.update_convs)
  have e: "s_environment s1 = s_environment (the (le_session l'))" using s1 by simp
  have "s_selected_program s1 = Some ''program''" "s_session_conversation s1 = None"
    "find_conversation_by_name s1 ''gdm-password'' = Some 0" "s_heap s1 0 = Some k" "s_saved_language s1 = None"
    "scdm_session_get_display_mode (lw_session example_lworld) s1 \<noteq> REUSE_VT"
    using s mode by (subst keeps, simp add: find_conversation_by_name_def scdm_session_get_display_mode_def)+
  note s1' = this
  have d: "distinct (map fst (sv_environ (lw_session example_lworld)))" "lw_getenv example_lworld = map_of (sv_environ (lw_session example_lworld))"
    by (simp_all add: example_lworld_def)
  obtain s3 fx vars program where r: "le_session l2 = Some s3"
    "s_log s3 = s_log s1 @ fx @ map (CallWorker 0) (map (\<lambda>(key, x). CallSetEnvironmentVariable key x) vars @ [CallStartProgram program])"
    "map_of vars = program_variable example_lworld ?l (Some ?pw) s1"
    using greeter_environment [OF l' _ s(2) pw again e s1'(1-4) s(7) d] by auto
  have v: "program_variable example_lworld ?l (Some ?pw) s1 k = greeter_variable example_lworld ?l (Some ?pw) k"
    if "k \<in> {''DCONF_PROFILE'', ''SECRET'', ''DISPLAY''}" for k
    using that s1'(6) unfolding insert_iff empty_iff simp_thms
    by (elim disjE) (simp_all only: program_variable_def Let_def if_False simp_thms, simp_all)
  have "program_variable example_lworld ?l (Some ?pw) s1 ''LC_TIME'' = Some ''C''"
    "program_variable example_lworld ?l (Some ?pw) s1 ''SCDM_LANG'' = Some ''de_DE''"
    using s1'(5,6) by (simp_all add: program_variable_def Let_def example_lworld_def)
  moreover have "greeter_variable example_lworld ?l (Some ?pw) ''DCONF_PROFILE'' = Some ''scdm''"
    "greeter_variable example_lworld ?l (Some ?pw) ''SECRET'' = None" "greeter_variable example_lworld ?l (Some ?pw) ''DISPLAY'' = None"
    by (simp_all add: greeter_variable_def example_launch_def scdm_create_greeter_launch_environment_def
        create_gnome_session_environment_def new_launch_environment_def optional_environment_def)
  ultimately show ?thesis using s(1) l' l2 r v
    by (intro exI [of _ s] exI [of _ l'] exI [of _ l2] exI [of _ s3] exI [of _ "s_log s1 @ fx"] exI [of _ vars] exI [of _ program]) simp
qed

section \<open>Starts that fail, and stops\<close>

definition told :: "launch_environment \<Rightarrow> launch_effect list" where
  "told l = filter (\<lambda>fx. \<exists>s. fx = LaunchSignal s) (le_log l)"

lemma ensure_keeps:
  "ensure_directory_with_uid_gid w p u g l = (b, l') \<Longrightarrow> le_session l' = le_session l \<and> told l' = told l"
  by (auto simp: ensure_directory_with_uid_gid_def told_def lemit_def Let_def split: option.split_asm if_split_asm)

lemma start_failed:
  assumes "scdm_launch_environment_start w l = Some (False, l')"
  shows "le_session l' = le_session l \<and> told l' = told l"
proof -
  obtain f pwent where p: "scdm_get_pwent_for_name (lw_getpwnam w (le_user_name l)) = Some (f, pwent)"
    using assms by (auto simp: scdm_launch_environment_start_def bind_eq_Some_conv)
  show ?thesis
  proof (cases pwent)
    case None
    then show ?thesis using assms p by (simp add: scdm_launch_environment_start_def)
  next
    case (Some pw)
    obtain b1 l1 where 1: "ensure_directory_with_uid_gid w (Some (le_runtime_dir l)) (pw_uid pw) (pw_gid pw) l = (b1, l1)" by fastforce
    obtain b2 l2 where 2: "ensure_directory_with_uid_gid w (pw_dir pw) (pw_uid pw) (pw_gid pw) l1 = (b2, l2)" by fastforce
    have "l' = l1 \<or> l' = l2"
      using assms p Some 1 2 by (cases b1; cases b2) (auto simp: scdm_launch_environment_start_def bind_eq_Some_conv Let_def)
    then show ?thesis using ensure_keeps [OF 1] ensure_keeps [OF 2] by auto
  qed
qed

lemma close_launch_result: "close_launch_session l = Some l' \<Longrightarrow> l' = l\<lparr>le_session := None\<rparr>"
  by (auto simp: close_launch_session_def split: option.split_asm)

lemma stop_result:
  "scdm_launch_environment_stop l = Some l' \<Longrightarrow> le_session l' = None \<and> le_pid l' = le_pid l \<and>
    le_log l' = le_log l @ (if le_pid l > 1 then [SignalPid (- le_pid l)] else []) @ [LaunchSignal LaunchStopped]"
  by (auto simp: scdm_launch_environment_stop_def lemit_def dest!: close_launch_result split: if_splits)

lemma stop_again: "le_session l = None \<Longrightarrow> \<exists>l'. scdm_launch_environment_stop l = Some l'"
  by (simp add: scdm_launch_environment_stop_def close_launch_session_def lemit_def)

text \<open>C31. The display is not told when its greeter fails before it runs: neither a start that fails, for an unknown user or a
  directory that cannot be made, nor the end of the worker before the session has started sends a signal, though the
  launch environment is left without a session.\<close>

theorem greeter_failure_unnoticed:
  assumes "le_session l = None \<and> scdm_launch_environment_start w l = Some (False, l') \<or> le_pid l \<le> 1 \<and> on_conversation_stopped l = Some l'"
  shows "le_session l' = None \<and> told l' = told l"
  using assms start_failed [of w l l']
  by (auto simp: on_conversation_stopped_def told_def dest!: close_launch_result)

theorem greeter_failure_unnoticed_witness:
  "\<exists>l'. scdm_launch_environment_start example_lworld example_launch = Some (False, l') \<and> le_session l' = None \<and> told l' = []"
proof -
  obtain l' where l': "scdm_launch_environment_start example_lworld example_launch = Some (False, l')"
    by (simp add: scdm_launch_environment_start_def scdm_get_pwent_for_name_def example_lworld_def example_launch_def EEXIST_def
        scdm_create_greeter_launch_environment_def create_gnome_session_environment_def new_launch_environment_def
        ensure_directory_with_uid_gid_def)
  have "le_session example_launch = None" "told example_launch = []"
    by (simp_all add: example_launch_def scdm_create_greeter_launch_environment_def create_gnome_session_environment_def
        new_launch_environment_def told_def)
  then show ?thesis using greeter_failure_unnoticed [of example_launch example_lworld l'] l' by auto
qed

text \<open>Stopping always ends the session and tells the display; but the process is never forgotten, so that its group is sent
  the signal once more when the object goes away, when the number may belong to another.\<close>

theorem greeter_signalled_twice:
  assumes "scdm_launch_environment_stop l = Some l1" and "scdm_launch_environment_finalize l1 = Some l2" and "le_pid l > 1"
  shows "le_session l1 = None \<and> last (le_log l1) = LaunchSignal LaunchStopped \<and> le_pid l2 = le_pid l \<and>
    filter (\<lambda>fx. \<exists>p. fx = SignalPid p) (le_log l2) =
      filter (\<lambda>fx. \<exists>p. fx = SignalPid p) (le_log l) @ [SignalPid (- le_pid l), SignalPid (- le_pid l)]"
  using assms stop_result [of l l1] stop_result [of l1 l2] by (auto simp: scdm_launch_environment_finalize_def)

theorem greeter_signalled_twice_witness:
  "\<exists>l1 l2. scdm_launch_environment_stop (example_launch\<lparr>le_pid := 77\<rparr>) = Some l1 \<and> scdm_launch_environment_finalize l1 = Some l2 \<and>
    le_session l1 = None \<and> le_pid l2 = 77"
proof -
  let ?l = "example_launch\<lparr>le_pid := 77\<rparr>"
  have n: "le_session example_launch = None"
    by (simp add: example_launch_def scdm_create_greeter_launch_environment_def create_gnome_session_environment_def new_launch_environment_def)
  obtain l1 where l1: "scdm_launch_environment_stop ?l = Some l1" using stop_again [of ?l] n by auto
  then obtain l2 where l2: "scdm_launch_environment_finalize l1 = Some l2"
    using stop_again [of l1] stop_result by (auto simp: scdm_launch_environment_finalize_def)
  from greeter_signalled_twice [OF l1 l2] show ?thesis using l1 l2 by auto
qed

end
