(* ===== verification/Session_Record.thy ===== *)
theory Session_Record
  imports Prelude
begin

text \<open>
  The records of logins, logouts and failed attempts, \<open>src/daemon/scdm-session-record.c\<close>, as built
  where the accounting records of the system have all fields. A field of fixed length is the string in it, without the
  zeros after it; the clock is left out.
\<close>

section \<open>Records\<close>

datatype record_type = USER_PROCESS | DEAD_PROCESS

record utmp =
  ut_type :: record_type
  ut_pid :: int
  ut_user :: string
  ut_host :: string
  ut_syslen :: nat
  ut_line :: string

record utmp_sizes =
  size_user :: nat
  size_host :: nat
  size_line :: nat

definition empty_record :: "record_type \<Rightarrow> utmp" where
  "empty_record ty = \<lparr>ut_type = ty, ut_pid = 0, ut_user = [], ut_host = [], ut_syslen = 0, ut_line = []\<rparr>"

text \<open>\<open>memccpy\<close> copies up to the zero that ends the string, but no more than the field holds.\<close>

definition memccpy :: "nat \<Rightarrow> string \<Rightarrow> string" where
  "memccpy n s = take n s"

definition record_set_username :: "utmp_sizes \<Rightarrow> string \<Rightarrow> utmp \<Rightarrow> utmp" where
  "record_set_username z username u = u\<lparr>ut_user := memccpy (size_user z) username\<rparr>"

definition record_set_pid :: "int \<Rightarrow> utmp \<Rightarrow> utmp" where
  "record_set_pid pid u = (if pid \<noteq> 0 then u\<lparr>ut_pid := pid\<rparr> else u)"

definition has_prefix :: "string \<Rightarrow> string \<Rightarrow> bool" where
  "has_prefix s p \<longleftrightarrow> take (length p) s = p"

definition record_set_host :: "utmp_sizes \<Rightarrow> string option \<Rightarrow> string option \<Rightarrow> utmp \<Rightarrow> utmp" where
  "record_set_host z x11_display_name host_name u =
     (let hostname = (case (host_name, x11_display_name) of
            (Some h, Some x) \<Rightarrow> if has_prefix x '':'' then Some (h @ x) else Some x
          | _ \<Rightarrow> x11_display_name)
      in case hostname of
           None \<Rightarrow> u
         | Some h \<Rightarrow> u\<lparr>ut_host := memccpy (size_host z) h, ut_syslen := min (length h) (size_host z)\<rparr>)"

definition record_set_line :: "utmp_sizes \<Rightarrow> string option \<Rightarrow> string option \<Rightarrow> utmp \<Rightarrow> utmp" where
  "record_set_line z display_device x11_display_name u =
     (let name = (case x11_display_name of None \<Rightarrow> u | Some x \<Rightarrow> u\<lparr>ut_line := memccpy (size_line z) x\<rparr>)
      in case display_device of
           None \<Rightarrow> name
         | Some d \<Rightarrow> if has_prefix d ''/dev/'' then u\<lparr>ut_line := memccpy (size_line z) (drop (length ''/dev/'') d)\<rparr> else name)"

section \<open>Writing\<close>

datatype record_file = NewRecords | BadRecords

datatype record_effect = Updwtmpx record_file utmp | Pututxline utmp

text \<open>The fields that all three kinds have.\<close>

definition fill_record :: "utmp_sizes \<Rightarrow> int \<Rightarrow> string option \<Rightarrow> string option \<Rightarrow> string option \<Rightarrow> utmp \<Rightarrow> utmp" where
  "fill_record z session_pid host_name x11_display_name display_device u =
     (let x = (if x11_display_name = None then display_device else x11_display_name)
      in record_set_line z display_device x (record_set_host z x host_name (record_set_pid session_pid u)))"

definition scdm_session_record_login ::
  "utmp_sizes \<Rightarrow> int \<Rightarrow> string \<Rightarrow> string option \<Rightarrow> string option \<Rightarrow> string option \<Rightarrow> record_effect list" where
  "scdm_session_record_login z session_pid user_name host_name x11_display_name display_device =
     (let u = fill_record z session_pid host_name x11_display_name display_device
                (record_set_username z user_name (empty_record USER_PROCESS))
      in [Updwtmpx NewRecords u, Pututxline u])"

definition scdm_session_record_logout ::
  "utmp_sizes \<Rightarrow> int \<Rightarrow> string \<Rightarrow> string option \<Rightarrow> string option \<Rightarrow> string option \<Rightarrow> record_effect list" where
  "scdm_session_record_logout z session_pid user_name host_name x11_display_name display_device =
     (let u = fill_record z session_pid host_name x11_display_name display_device (empty_record DEAD_PROCESS)
      in [Updwtmpx NewRecords u, Pututxline u])"

definition scdm_session_record_failed ::
  "utmp_sizes \<Rightarrow> int \<Rightarrow> string \<Rightarrow> string option \<Rightarrow> string option \<Rightarrow> string option \<Rightarrow> record_effect list" where
  "scdm_session_record_failed z session_pid user_name host_name x11_display_name display_device =
     [Updwtmpx BadRecords (fill_record z session_pid host_name x11_display_name display_device
        (record_set_username z user_name (empty_record USER_PROCESS)))]"

section \<open>Lines\<close>

text \<open>The line of a record never has more characters than its field, and is never that of another device of the same name
  without the directory; a device outside of \<open>/dev\<close> is not used when the display has a name.\<close>

lemma line_of_record:
  "ut_line (fill_record z pid h x d u) =
     (case d of
        Some dev \<Rightarrow> if has_prefix dev ''/dev/'' then take (size_line z) (drop (length ''/dev/'') dev)
                    else take (size_line z) (case x of None \<Rightarrow> dev | Some n \<Rightarrow> n)
      | None \<Rightarrow> (case x of None \<Rightarrow> ut_line u | Some n \<Rightarrow> take (size_line z) n))"
  by (cases d; cases x; cases h)
    (auto simp: fill_record_def record_set_line_def record_set_host_def record_set_pid_def memccpy_def Let_def)

lemma rest_of_record:
  "ut_pid (fill_record z pid h x d u) = (if pid = 0 then ut_pid u else pid)"
  "ut_user (fill_record z pid h x d u) = ut_user u" "ut_type (fill_record z pid h x d u) = ut_type u"
  by (cases d; cases x; cases h; simp add: fill_record_def record_set_line_def record_set_host_def record_set_pid_def memccpy_def Let_def)+

lemma host_of_record: "\<exists>n. \<forall>u. ut_host (fill_record z pid h x d u) = (case n of None \<Rightarrow> ut_host u | Some n \<Rightarrow> take (size_host z) n)"
proof -
  let ?x = "if x = None then d else x"
  let ?n = "case (h, ?x) of (Some h, Some x) \<Rightarrow> if has_prefix x '':'' then Some (h @ x) else Some x | _ \<Rightarrow> ?x"
  have "ut_host (record_set_line z d' x' v) = ut_host v" for d' x' v
    by (simp add: record_set_line_def Let_def split: option.split)
  then have "ut_host (fill_record z pid h x d u) = (case ?n of None \<Rightarrow> ut_host u | Some n \<Rightarrow> take (size_host z) n)" for u
    by (simp add: fill_record_def record_set_host_def record_set_pid_def memccpy_def Let_def split: option.split)
  then show ?thesis by blast
qed

text \<open>A logout closes the login it belongs to: for the same session the two records go to the same file and have the same
  process, host and line, each cut to its field, so that the record of the login is found by its line; the logout
  alone has no user.\<close>

theorem logout_matches_login:
  "\<exists>i u. scdm_session_record_login z pid user host name device = [Updwtmpx NewRecords i, Pututxline i] \<and>
    scdm_session_record_logout z pid user host name device = [Updwtmpx NewRecords u, Pututxline u] \<and>
    ut_line u = ut_line i \<and> ut_pid u = ut_pid i \<and> ut_host u = ut_host i \<and>
    ut_type i = USER_PROCESS \<and> ut_type u = DEAD_PROCESS \<and> ut_user i = take (size_user z) user \<and> ut_user u = [] \<and>
    length (ut_line u) \<le> size_line z \<and> length (ut_host u) \<le> size_host z"
proof -
  let ?i = "fill_record z pid host name device (record_set_username z user (empty_record USER_PROCESS))"
  let ?u = "fill_record z pid host name device (empty_record DEAD_PROCESS)"
  obtain n where n: "\<And>u. ut_host (fill_record z pid host name device u) = (case n of None \<Rightarrow> ut_host u | Some n \<Rightarrow> take (size_host z) n)"
    using host_of_record by blast
  have "ut_line ?u = ut_line ?i" "ut_host ?u = ut_host ?i" "length (ut_line ?u) \<le> size_line z" "length (ut_host ?u) \<le> size_host z"
    by (simp_all add: n line_of_record record_set_username_def empty_record_def split: option.split)
  then show ?thesis
    by (simp add: scdm_session_record_login_def scdm_session_record_logout_def rest_of_record record_set_username_def memccpy_def
        empty_record_def Let_def)
qed

end
