(* ===== verification/Settings.thy ===== *)
theory Settings
  imports Prelude "HOL-Library.Monad_Syntax" "HOL-Library.AList"
begin

text \<open>
  The configuration, \<open>src/common/scdm-settings*.c\<close>: keys of the form \<open>group/key\<close> are looked up in the
  key files of a list of backends, then in the defaults of a schema, and read as strings, numbers or truth values. A
  key file of GLib is a map; which names it takes (\<open>valid\<close>), files, and the parser of markup, whose events are
  a list, are arguments. \<open>None\<close> is the end of the process or a value that was never set.
\<close>

section \<open>Values\<close>

definition scdm_settings_parse_integer_as_value :: "int \<Rightarrow> string" where
  "scdm_settings_parse_integer_as_value intval = show_int intval"

definition scdm_settings_parse_boolean_as_value :: "bool \<Rightarrow> string" where
  "scdm_settings_parse_boolean_as_value boolval = (if boolval then ''true'' else ''false'')"

definition ascii_lower :: "char \<Rightarrow> char" where
  "ascii_lower c = (if 65 \<le> (of_char c :: nat) \<and> (of_char c :: nat) \<le> 90 then char_of (of_char c + 32 :: nat) else c)"

definition same_ignoring_case :: "string \<Rightarrow> string \<Rightarrow> bool" where
  "same_ignoring_case s t \<longleftrightarrow> map ascii_lower s = map ascii_lower t"

definition scdm_settings_parse_value_as_boolean :: "string \<Rightarrow> bool option" where
  "scdm_settings_parse_value_as_boolean val =
     (if same_ignoring_case val ''true'' \<or> val = ''1'' then Some True
      else if same_ignoring_case val ''false'' \<or> val = ''0'' then Some False
      else None)"

text \<open>\<open>strtol\<close> to the base ten, where \<open>long\<close> has 64 bits: the number, the rest, whether it was out of range.
  Without digits nothing is taken.\<close>

definition c_isspace :: "char \<Rightarrow> bool" where
  "c_isspace c \<longleftrightarrow> (of_char c :: nat) \<in> {9, 10, 11, 12, 13, 32}"

definition strtol :: "string \<Rightarrow> int \<times> string \<times> bool" where
  "strtol text =
     (let s = dropWhile c_isspace text;
          negative = (s \<noteq> [] \<and> hd s = CHR ''-'');
          s = (if s \<noteq> [] \<and> hd s \<in> {CHR ''-'', CHR ''+''} then tl s else s);
          digits = takeWhile ascii_isdigit s;
          n = (if negative then - int (read_nat digits) else int (read_nat digits))
      in if digits = [] then (0, text, False)
         else if n > 2 ^ 63 - 1 then (2 ^ 63 - 1, dropWhile ascii_isdigit s, True)
         else if n < - (2 ^ 63) then (- (2 ^ 63), dropWhile ascii_isdigit s, True)
         else (n, dropWhile ascii_isdigit s, False))"

text \<open>The conversion to \<open>int\<close> keeps the low 32 bits.\<close>

definition int_of_long :: "int \<Rightarrow> int" where
  "int_of_long n = (n + 2 ^ 31) mod 2 ^ 32 - 2 ^ 31"

definition scdm_settings_parse_value_as_integer :: "string \<Rightarrow> int option" where
  "scdm_settings_parse_value_as_integer val =
     (case strtol val of (long_value, end_of_valid_int, erange) \<Rightarrow>
        if val = [] \<or> end_of_valid_int \<noteq> [] then None
        else if int_of_long long_value \<noteq> long_value \<or> erange then None
        else Some (int_of_long long_value))"

section \<open>Schemas\<close>

record settings_entry =
  se_key :: "string option"
  se_signature :: "string option"
  se_default_value :: "string option"
  se_value :: "string option"

definition scdm_settings_entry_new :: settings_entry where
  "scdm_settings_entry_new = \<lparr>se_key = None, se_signature = None, se_default_value = None, se_value = None\<rparr>"

datatype markup = StartElement string | EndElement string | MarkupText string

text \<open>The entries made so far, the current one and those in the list are references to the same objects.\<close>

record parser_info =
  pi_entries :: "settings_entry list"
  pi_list :: "nat list"
  pi_entry :: "nat option"
  pi_in_key :: bool
  pi_in_signature :: bool
  pi_in_default :: bool

definition start_element_cb :: "string \<Rightarrow> parser_info \<Rightarrow> parser_info" where
  "start_element_cb element_name info =
     (if element_name = ''schema''
      then info\<lparr>pi_entries := pi_entries info @ [scdm_settings_entry_new], pi_entry := Some (length (pi_entries info))\<rparr>
      else if element_name = ''key'' then info\<lparr>pi_in_key := True\<rparr>
      else if element_name = ''signature'' then info\<lparr>pi_in_signature := True\<rparr>
      else if element_name = ''default'' then info\<lparr>pi_in_default := True\<rparr>
      else info)"

definition add_schema_entry :: "parser_info \<Rightarrow> parser_info option" where
  "add_schema_entry info = map_option (\<lambda>i. info\<lparr>pi_list := i # pi_list info\<rparr>) (pi_entry info)"

definition end_element_cb :: "string \<Rightarrow> parser_info \<Rightarrow> parser_info option" where
  "end_element_cb element_name info =
     (if element_name = ''schema'' then add_schema_entry info
      else Some (if element_name = ''key'' then info\<lparr>pi_in_key := False\<rparr>
                 else if element_name = ''signature'' then info\<lparr>pi_in_signature := False\<rparr>
                 else if element_name = ''default'' then info\<lparr>pi_in_default := False\<rparr>
                 else info))"

definition update_entry :: "(settings_entry \<Rightarrow> settings_entry) \<Rightarrow> parser_info \<Rightarrow> parser_info option" where
  "update_entry f info = map_option (\<lambda>i. info\<lparr>pi_entries := (pi_entries info)[i := f (pi_entries info ! i)]\<rparr>) (pi_entry info)"

definition text_cb :: "string \<Rightarrow> parser_info \<Rightarrow> parser_info option" where
  "text_cb t info =
     (if pi_in_key info then update_entry (\<lambda>e. e\<lparr>se_key := Some t\<rparr>) info
      else if pi_in_signature info then update_entry (\<lambda>e. e\<lparr>se_signature := Some t\<rparr>) info
      else if pi_in_default info then update_entry (\<lambda>e. e\<lparr>se_default_value := Some t\<rparr>) info
      else Some info)"

fun parse_markup :: "markup list \<Rightarrow> parser_info \<Rightarrow> parser_info option" where
  "parse_markup [] info = Some info"
| "parse_markup (StartElement n # ms) info = parse_markup ms (start_element_cb n info)"
| "parse_markup (EndElement n # ms) info = Option.bind (end_element_cb n info) (parse_markup ms)"
| "parse_markup (MarkupText t # ms) info = Option.bind (text_cb t info) (parse_markup ms)"

text \<open>The file as events, or \<open>None\<close> when it cannot be read; the result is \<open>None\<close> when there is no list.\<close>

definition scdm_settings_parse_schemas :: "markup list option \<Rightarrow> settings_entry list option option" where
  "scdm_settings_parse_schemas file =
     (case file of
        None \<Rightarrow> Some None
      | Some ms \<Rightarrow>
          map_option (\<lambda>info. Some (map (\<lambda>i. pi_entries info ! i) (pi_list info)))
            (parse_markup ms \<lparr>pi_entries = [], pi_list = [], pi_entry = None, pi_in_key = False, pi_in_signature = False,
               pi_in_default = False\<rparr>))"

section \<open>Key files\<close>

text \<open>The string before the first occurrence of a separator and what comes after it, if there is one.\<close>

definition split2 :: "char \<Rightarrow> string \<Rightarrow> string \<times> string option" where
  "split2 c s = (takeWhile (\<lambda>d. d \<noteq> c) s, if c \<in> set s then Some (tl (dropWhile (\<lambda>d. d \<noteq> c) s)) else None)"

record key_string =
  ks_group :: string
  ks_key :: string
  ks_locale :: "string option"
  ks_value :: "string option"

definition parse_key_string :: "string \<Rightarrow> key_string option" where
  "parse_key_string keystring =
     (case split2 (CHR ''/'') keystring of
        (g, rest) \<Rightarrow>
          if g = [] \<or> rest = None \<or> rest = Some [] then None
          else case split2 (CHR ''='') (the rest) of
            (k, v) \<Rightarrow>
              let before = takeWhile (\<lambda>c. c \<noteq> CHR ''['') k; before2 = takeWhile (\<lambda>c. c \<noteq> CHR '']'') k
              in if CHR ''['' \<in> set k \<and> CHR '']'' \<in> set k \<and> length before2 > length before
                 then Some \<lparr>ks_group = g, ks_key = before,
                        ks_locale = Some (take (length before2 - length before - 1) (drop (length before + 1) k)), ks_value = v\<rparr>
                 else Some \<lparr>ks_group = g, ks_key = k, ks_locale = None, ks_value = v\<rparr>)"

type_synonym settings_file = "(string \<times> string) \<rightharpoonup> string"

record settings_desktop_backend =
  db_filename :: string
  db_key_file :: settings_file
  db_dirty :: bool
  db_save_pending :: bool
  db_saved :: "settings_file list" \<comment> \<open>what was written to the file, in order\<close>

definition scdm_settings_desktop_backend_get_value :: "settings_desktop_backend \<Rightarrow> string \<Rightarrow> string option" where
  "scdm_settings_desktop_backend_get_value backend key =
     (case parse_key_string key of None \<Rightarrow> None | Some ks \<Rightarrow> db_key_file backend (ks_group ks, ks_key ks))"

text \<open>Whether the contents can be formed and written is an answer.\<close>

definition save_settings :: "bool \<Rightarrow> settings_desktop_backend \<Rightarrow> settings_desktop_backend" where
  "save_settings written backend =
     (if \<not> db_dirty backend \<or> \<not> written then backend
      else backend\<lparr>db_saved := db_saved backend @ [db_key_file backend], db_dirty := False\<rparr>)"

definition save_settings_timer :: "bool \<Rightarrow> settings_desktop_backend \<Rightarrow> settings_desktop_backend" where
  "save_settings_timer written backend = (save_settings written backend)\<lparr>db_save_pending := False\<rparr>"

definition queue_save :: "settings_desktop_backend \<Rightarrow> settings_desktop_backend" where
  "queue_save backend =
     (if \<not> db_dirty backend then backend
      else if db_save_pending backend then backend
      else backend\<lparr>db_save_pending := True\<rparr>)"

text \<open>A name that the key file does not take changes nothing, but is not an error. The result has the old value.\<close>

definition scdm_settings_desktop_backend_set_value ::
  "(string \<Rightarrow> string \<Rightarrow> bool) \<Rightarrow> settings_desktop_backend \<Rightarrow> string \<Rightarrow> string \<Rightarrow>
   (settings_desktop_backend \<times> string option) option" where
  "scdm_settings_desktop_backend_set_value valid backend key val =
     (case parse_key_string key of
        None \<Rightarrow> None
      | Some ks \<Rightarrow>
          let old_val = db_key_file backend (ks_group ks, ks_key ks);
              f = (if valid (ks_group ks) (ks_key ks) then (db_key_file backend)((ks_group ks, ks_key ks) \<mapsto> val)
                   else db_key_file backend)
          in Some (queue_save (backend\<lparr>db_key_file := f, db_dirty := True\<rparr>), old_val))"

text \<open>\<open>None\<close> when there is no such file; a file that cannot be read counts as empty.\<close>

definition scdm_settings_desktop_backend_new :: "(string \<Rightarrow> settings_file option option) \<Rightarrow> string \<Rightarrow> settings_desktop_backend option" where
  "scdm_settings_desktop_backend_new files filename =
     (case files filename of
        None \<Rightarrow> None
      | Some loaded \<Rightarrow> Some \<lparr>db_filename = filename, db_key_file = (case loaded of None \<Rightarrow> Map.empty | Some f \<Rightarrow> f),
          db_dirty = False, db_save_pending = False, db_saved = []\<rparr>)"

definition scdm_settings_desktop_backend_finalize :: "bool \<Rightarrow> settings_desktop_backend \<Rightarrow> settings_desktop_backend" where
  "scdm_settings_desktop_backend_finalize written backend = save_settings written backend"

section \<open>The list of backends\<close>

text \<open>Reading and writing go through the backends of an abstract class, given here by its two operations. Without any
  backend the result was never set.\<close>

fun first_value :: "('b \<Rightarrow> string \<Rightarrow> string option) \<Rightarrow> 'b list \<Rightarrow> string \<Rightarrow> string option" where
  "first_value get [] key = None"
| "first_value get (b # bs) key = (case get b key of None \<Rightarrow> first_value get bs key | Some v \<Rightarrow> Some v)"

definition scdm_settings_get_value :: "('b \<Rightarrow> string \<Rightarrow> string option) \<Rightarrow> 'b list \<Rightarrow> string \<Rightarrow> string option option" where
  "scdm_settings_get_value get backends key = (if backends = [] then None else Some (first_value get backends key))"

text \<open>The backends afterwards and the old value that is signalled with the new one.\<close>

fun set_first :: "('b \<Rightarrow> string \<Rightarrow> string \<Rightarrow> ('b \<times> string option) option) \<Rightarrow> 'b list \<Rightarrow> string \<Rightarrow> string \<Rightarrow>
    ('b list \<times> string option) option" where
  "set_first put [] key val = None"
| "set_first put (b # bs) key val =
     (case put b key val of
        Some (b', old) \<Rightarrow> Some (b' # bs, old)
      | None \<Rightarrow> map_option (\<lambda>(bs', old). (b # bs', old)) (set_first put bs key val))"

definition scdm_settings_set_value ::
  "('b \<Rightarrow> string \<Rightarrow> string \<Rightarrow> ('b \<times> string option) option) \<Rightarrow> 'b list \<Rightarrow> string \<Rightarrow> string \<Rightarrow>
   ('b list \<times> string option) option option" where
  "scdm_settings_set_value put backends key val = (if backends = [] then None else Some (set_first put backends key val))"

definition scdm_settings_init ::
  "(string \<Rightarrow> settings_file option option) \<Rightarrow> string \<Rightarrow> string \<Rightarrow> settings_desktop_backend list" where
  "scdm_settings_init files custom_conf runtime_conf =
     (let backends = (case scdm_settings_desktop_backend_new files custom_conf of None \<Rightarrow> [] | Some b \<Rightarrow> [b])
      in case scdm_settings_desktop_backend_new files runtime_conf of None \<Rightarrow> backends | Some b \<Rightarrow> b # backends)"

section \<open>Typed access\<close>

record settings_direct =
  sd_schemas :: "(string \<times> settings_entry) list"
  sd_backends :: "settings_desktop_backend list"

definition get_entry_for_key :: "settings_direct \<Rightarrow> string \<Rightarrow> settings_entry option" where
  "get_entry_for_key d key = map_of (sd_schemas d) key"

definition assert_signature :: "settings_entry \<Rightarrow> string \<Rightarrow> unit option" where
  "assert_signature entry signature = (if se_signature entry = Some signature then Some () else None)"

definition hashify_list :: "settings_entry \<Rightarrow> (string \<times> settings_entry) list \<Rightarrow> (string \<times> settings_entry) list option" where
  "hashify_list entry schemas = map_option (\<lambda>k. AList.update k entry schemas) (se_key entry)"

fun hashify_all :: "settings_entry list \<Rightarrow> (string \<times> settings_entry) list \<Rightarrow> (string \<times> settings_entry) list option" where
  "hashify_all [] schemas = Some schemas"
| "hashify_all (e # es) schemas = Option.bind (hashify_list e schemas) (hashify_all es)"

definition scdm_settings_direct_init ::
  "settings_desktop_backend list \<Rightarrow> markup list option \<Rightarrow> settings_direct option option" where
  "scdm_settings_direct_init settings file = do {
     parsed \<leftarrow> scdm_settings_parse_schemas file;
     (case parsed of
        None \<Rightarrow> Some None
      | Some l \<Rightarrow> map_option (\<lambda>h. Some \<lparr>sd_schemas = h, sd_backends = settings\<rparr>) (hashify_all l []))
   }"

text \<open>The string that a typed getter reads: the value, or the default, which may be missing.\<close>

definition string_for_key :: "settings_direct \<Rightarrow> string \<Rightarrow> string \<Rightarrow> string option option" where
  "string_for_key d key signature = do {
     entry \<leftarrow> get_entry_for_key d key;
     _ \<leftarrow> assert_signature entry signature;
     res \<leftarrow> scdm_settings_get_value scdm_settings_desktop_backend_get_value (sd_backends d) key;
     Some (case res of None \<Rightarrow> se_default_value entry | Some v \<Rightarrow> Some v)
   }"

definition scdm_settings_direct_get_string :: "settings_direct \<Rightarrow> string \<Rightarrow> string option option" where
  "scdm_settings_direct_get_string d key = string_for_key d key ''s''"

text \<open>Without a default the parsers read through a null pointer.\<close>

definition scdm_settings_direct_get_int :: "settings_direct \<Rightarrow> string \<Rightarrow> int option option" where
  "scdm_settings_direct_get_int d key = do {
     s \<leftarrow> string_for_key d key ''i'';
     str \<leftarrow> s;
     Some (scdm_settings_parse_value_as_integer str)
   }"

definition scdm_settings_direct_get_boolean :: "settings_direct \<Rightarrow> string \<Rightarrow> bool option option" where
  "scdm_settings_direct_get_boolean d key = do {
     s \<leftarrow> string_for_key d key ''b'';
     str \<leftarrow> s;
     Some (scdm_settings_parse_value_as_boolean str)
   }"

text \<open>\<open>garbage\<close> is what the local variable holds before it is set. The result and what is stored, if anything.\<close>

definition scdm_settings_direct_get_uint :: "int \<Rightarrow> settings_direct \<Rightarrow> string \<Rightarrow> (bool \<times> int option) option" where
  "scdm_settings_direct_get_uint garbage d key =
     map_option (\<lambda>r.
       let intvalue = (case r of None \<Rightarrow> garbage | Some i \<Rightarrow> i)
       in if intvalue \<ge> 0 then (r \<noteq> None, Some intvalue) else (False, None))
     (scdm_settings_direct_get_int d key)"

end
