(* ===== verification/Settings_Props.thy ===== *)
theory Settings_Props
  imports Settings
begin

text \<open>
  The properties of the configuration. The locale \<open>settings_backend\<close> is the contract of the abstract class
  of backends, on which reading and writing through a list of them rests; it is interpreted on the backend for key files.
\<close>

section \<open>Values\<close>

lemma show_nat_digits: "list_all ascii_isdigit (show_nat n)"
proof (induction n rule: show_nat.induct)
  case (1 n)
  then show ?case by (subst show_nat.simps) (auto simp: ascii_isdigit_def [of "char_of _"])
qed

lemma digits_taken: "list_all ascii_isdigit s \<Longrightarrow> takeWhile ascii_isdigit s = s" "list_all ascii_isdigit s \<Longrightarrow> dropWhile ascii_isdigit s = []"
  by (induction s) auto

lemma digit_not_space: "ascii_isdigit c \<Longrightarrow> \<not> c_isspace c"
  by (auto simp: ascii_isdigit_def c_isspace_def)

lemma digit_not_sign: "ascii_isdigit c \<Longrightarrow> c \<noteq> CHR ''-'' \<and> c \<noteq> CHR ''+''"
  by (auto simp: ascii_isdigit_def)

lemma strtol_show_int:
  "strtol (show_int i) = (if i > 2 ^ 63 - 1 then (2 ^ 63 - 1, [], True) else if i < - (2 ^ 63) then (- (2 ^ 63), [], True) else (i, [], False))"
proof -
  have d: "show_nat n \<noteq> []" "ascii_isdigit (hd (show_nat n))" for n
    using show_nat_digits [of n] by (simp, cases "show_nat n", simp_all)
  have s: "dropWhile c_isspace (show_nat n) = show_nat n" for n
    using d [of n] digit_not_space by (cases "show_nat n") auto
  have sign: "hd (show_nat n) \<noteq> CHR ''-''" "hd (show_nat n) \<noteq> CHR ''+''" for n using digit_not_sign [OF d(2)] by auto
  have m: "\<not> c_isspace (CHR ''-'')" by (simp add: c_isspace_def)
  show ?thesis
  proof (cases "i < 0")
    case True
    then show ?thesis
      by (simp add: strtol_def show_int_def m digits_taken show_nat_digits read_show_nat Let_def)
  next
    case False
    then show ?thesis
      using sign [of "nat i"]
      by (simp add: strtol_def show_int_def s digits_taken show_nat_digits read_show_nat Let_def)
  qed
qed

lemma int_of_long_fits: "int_of_long n = n \<longleftrightarrow> - (2 ^ 31) \<le> n \<and> n < 2 ^ 31"
  by (auto simp: int_of_long_def)

text \<open>C38. Numbers and truth values survive being written to the configuration: reading back what was written for an
  integer gives that integer when it fits into 32 bits and is refused when it does not, beyond 64 bits too, and every truth
  value is read back.\<close>

theorem settings_values_round_trip:
  "scdm_settings_parse_value_as_integer (scdm_settings_parse_integer_as_value i) = (if - (2 ^ 31) \<le> i \<and> i < 2 ^ 31 then Some i else None) \<and>
    scdm_settings_parse_value_as_boolean (scdm_settings_parse_boolean_as_value b) = Some b"
proof
  have n: "show_int i \<noteq> []" by (simp add: show_int_def)
  show "scdm_settings_parse_value_as_integer (scdm_settings_parse_integer_as_value i) = (if - (2 ^ 31) \<le> i \<and> i < 2 ^ 31 then Some i else None)"
    using int_of_long_fits [of i]
    by (auto simp: scdm_settings_parse_value_as_integer_def scdm_settings_parse_integer_as_value_def strtol_show_int n)
  show "scdm_settings_parse_value_as_boolean (scdm_settings_parse_boolean_as_value b) = Some b"
    by (cases b) (simp_all add: scdm_settings_parse_value_as_boolean_def scdm_settings_parse_boolean_as_value_def same_ignoring_case_def ascii_lower_def)
qed

section \<open>Backends\<close>

text \<open>What a key names, and the keys a backend can store.\<close>

locale settings_backend =
  fixes get :: "'b \<Rightarrow> string \<Rightarrow> string option"
    and put :: "'b \<Rightarrow> string \<Rightarrow> string \<Rightarrow> ('b \<times> string option) option"
    and names :: "string \<Rightarrow> 'n option"
    and storable :: "'n \<Rightarrow> bool"
  assumes put_fails: "put b key v = None \<longleftrightarrow> names key = None"
    and put_get: "put b key v = Some (b', old) \<Longrightarrow> names key = Some n \<Longrightarrow> storable n \<Longrightarrow>
      get b' k = (if names k = Some n then Some v else get b k)"
    and put_old: "put b key v = Some (b', old) \<Longrightarrow> old = get b key"
begin

lemma set_first_head:
  assumes "set_first put bs key v = Some (bs', old)"
  shows "\<exists>b b' rest. bs = b # rest \<and> bs' = b' # rest \<and> put b key v = Some (b', old)"
proof (cases bs)
  case Nil
  then show ?thesis using assms by simp
next
  case (Cons b rest)
  have fails: "set_first put l key v = None" if "names key = None" for l
    using that by (induction l) (simp_all add: put_fails [THEN iffD2])
  have "names key \<noteq> None" using assms fails by fastforce
  then obtain b' o' where "put b key v = Some (b', o')" using put_fails [of b key v] by (cases "put b key v") auto
  then show ?thesis using assms Cons by auto
qed

lemma read_back:
  assumes "scdm_settings_set_value put bs key v = Some (Some (bs', old))" and "names key = Some n" and "storable n"
  shows "scdm_settings_get_value get bs' k =
    (if names k = Some n then Some (Some v) else scdm_settings_get_value get bs k)"
proof -
  obtain b b' rest where "bs = b # rest" "bs' = b' # rest" "put b key v = Some (b', old)"
    using assms(1) set_first_head [of bs key v bs' old] by (auto simp: scdm_settings_set_value_def split: if_splits)
  then show ?thesis using put_get [OF _ assms(2,3), of b v b' old] by (simp add: scdm_settings_get_value_def)
qed

end

definition key_names :: "string \<Rightarrow> (string \<times> string) option" where
  "key_names key = map_option (\<lambda>ks. (ks_group ks, ks_key ks)) (parse_key_string key)"

lemma queue_save_file [simp]: "db_key_file (queue_save b) = db_key_file b"
  by (simp add: queue_save_def)

lemma get_names: "scdm_settings_desktop_backend_get_value b key = Option.bind (key_names key) (db_key_file b)"
  by (simp add: scdm_settings_desktop_backend_get_value_def key_names_def split: option.split)

lemma bind_update: "Option.bind x (m(n \<mapsto> v)) = (if x = Some n then Some v else Option.bind x m)"
  by (cases x) auto

lemma put_names:
  "scdm_settings_desktop_backend_set_value valid b key v =
    map_option (\<lambda>n. (queue_save (b\<lparr>db_key_file := (if valid (fst n) (snd n) then (db_key_file b)(n \<mapsto> v) else db_key_file b),
      db_dirty := True\<rparr>), db_key_file b n)) (key_names key)"
  by (simp add: scdm_settings_desktop_backend_set_value_def key_names_def Let_def split: option.split)

interpretation desktop: settings_backend scdm_settings_desktop_backend_get_value "scdm_settings_desktop_backend_set_value valid"
    key_names "\<lambda>n. valid (fst n) (snd n)"
  for valid
  by unfold_locales (auto simp: get_names put_names bind_update)

text \<open>C36. A value that was set is the value that is read, whatever the backends hold: after a key was set, the key and every
  other spelling of the same group and name, with whatever locale, have the new value, and all others are as before. The
  group and the name are ones that GLib accepts for a key file.\<close>

theorem settings_read_back:
  assumes "scdm_settings_set_value (scdm_settings_desktop_backend_set_value valid) bs key v = Some (Some (bs', old))"
    and "parse_key_string key = Some ks" and "valid (ks_group ks) (ks_key ks)"
  shows "scdm_settings_get_value scdm_settings_desktop_backend_get_value bs' k =
    (if key_names k = Some (ks_group ks, ks_key ks) then Some (Some v) else scdm_settings_get_value scdm_settings_desktop_backend_get_value bs k)"
  by (rule desktop.read_back [OF assms(1)]) (use assms(2,3) in \<open>simp_all add: key_names_def\<close>)

theorem settings_read_back_witness:
  "\<exists>bs'. scdm_settings_set_value (scdm_settings_desktop_backend_set_value (\<lambda>g k. True))
      (scdm_settings_init (\<lambda>f. Some None) ''/etc/custom.conf'' ''/run/custom.conf'') ''daemon/Enable[de]'' ''true'' = Some (Some (bs', None)) \<and>
    scdm_settings_get_value scdm_settings_desktop_backend_get_value bs' ''daemon/Enable'' = Some (Some ''true'')"
proof -
  let ?bs = "scdm_settings_init (\<lambda>f. Some None) ''/etc/custom.conf'' ''/run/custom.conf''"
  have p: "parse_key_string ''daemon/Enable[de]'' = Some \<lparr>ks_group = ''daemon'', ks_key = ''Enable'', ks_locale = Some ''de'', ks_value = None\<rparr>"
    and q: "key_names ''daemon/Enable'' = Some (''daemon'', ''Enable'')" by code_simp+
  obtain bs' where bs: "scdm_settings_set_value (scdm_settings_desktop_backend_set_value (\<lambda>g k. True)) ?bs ''daemon/Enable[de]'' ''true''
      = Some (Some (bs', None))"
    by (simp add: scdm_settings_init_def scdm_settings_desktop_backend_new_def scdm_settings_set_value_def
        scdm_settings_desktop_backend_set_value_def p Let_def)
  show ?thesis using settings_read_back [OF bs p, of "''daemon/Enable''"] bs q by simp
qed

section \<open>Saving\<close>

text \<open>What can happen to a backend: a value is set, or the timer runs.\<close>

inductive backend_step :: "(string \<Rightarrow> string \<Rightarrow> bool) \<Rightarrow> settings_desktop_backend \<Rightarrow> settings_desktop_backend \<Rightarrow> bool"
  for valid where
  value_set: "scdm_settings_desktop_backend_set_value valid b key v = Some (b', old) \<Longrightarrow> backend_step valid b b'"
| timer: "db_save_pending b \<Longrightarrow> backend_step valid b (save_settings_timer True b)"

definition saved :: "settings_file \<Rightarrow> settings_desktop_backend \<Rightarrow> bool" where
  "saved f b \<longleftrightarrow> db_save_pending b = db_dirty b \<and> (\<not> db_dirty b \<longrightarrow> db_key_file b = (if db_saved b = [] then f else last (db_saved b)))"

lemma saved_step: "backend_step valid b b' \<Longrightarrow> saved f b \<Longrightarrow> saved f b'"
  by (induction rule: backend_step.induct)
    (auto simp: saved_def scdm_settings_desktop_backend_set_value_def queue_save_def save_settings_timer_def save_settings_def Let_def
      split: option.splits if_splits)

text \<open>C37. No change of the configuration is lost while its file can be written: at every time either the file holds
  what the backend holds, or a save is due. Of a file that could not be loaded what was loaded counts as its content.\<close>

theorem settings_saved:
  assumes "(backend_step valid)\<^sup>*\<^sup>* b0 b" and "scdm_settings_desktop_backend_new files name = Some b0"
  shows "if db_save_pending b then db_dirty b \<and> last (db_saved (save_settings_timer True b)) = db_key_file b
    else db_key_file b = (if db_saved b = [] then db_key_file b0 else last (db_saved b))"
proof -
  have "saved (db_key_file b0) b0"
    using assms(2) by (auto simp: saved_def scdm_settings_desktop_backend_new_def split: option.splits)
  with assms(1) have "saved (db_key_file b0) b" by (induction rule: rtranclp_induct) (auto dest: saved_step)
  then show ?thesis by (auto simp: saved_def save_settings_timer_def save_settings_def)
qed

text \<open>When the write fails the change stays unsaved and no further save is queued.\<close>

lemma failed_save_forgotten:
  "db_dirty b \<Longrightarrow> db_dirty (save_settings_timer False b) \<and> \<not> db_save_pending (save_settings_timer False b) \<and>
    db_saved (save_settings_timer False b) = db_saved b"
  by (simp add: save_settings_timer_def save_settings_def)

theorem settings_saved_witness:
  "\<exists>b0 b. scdm_settings_desktop_backend_new (\<lambda>f. Some None) ''/etc/custom.conf'' = Some b0 \<and> (backend_step (\<lambda>g k. True))\<^sup>*\<^sup>* b0 b \<and>
    db_save_pending b \<and> last (db_saved (save_settings_timer True b)) = db_key_file b"
proof -
  obtain b0 where b0: "scdm_settings_desktop_backend_new (\<lambda>f. Some None) ''/etc/custom.conf'' = Some b0" "db_save_pending b0 = False"
    by (auto simp: scdm_settings_desktop_backend_new_def)
  have n: "key_names ''daemon/Enable'' = Some (''daemon'', ''Enable'')" by code_simp
  obtain b old where b: "scdm_settings_desktop_backend_set_value (\<lambda>g k. True) b0 ''daemon/Enable'' ''true'' = Some (b, old)" "db_save_pending b"
    using b0(2) by (auto simp: put_names n queue_save_def)
  then have "(backend_step (\<lambda>g k. True))\<^sup>*\<^sup>* b0 b" by (blast intro: backend_step.value_set)
  from settings_saved [OF this b0(1)] show ?thesis using b0(1) b(2) \<open>(backend_step (\<lambda>g k. True))\<^sup>*\<^sup>* b0 b\<close> by auto
qed

section \<open>Schemas and layers\<close>

text \<open>The markup of a list of schemas with a key, a signature and a default each, with some blank text between the elements.\<close>

definition element :: "string \<Rightarrow> string \<Rightarrow> string \<Rightarrow> markup list" where
  "element ws n t = [MarkupText ws, StartElement n, MarkupText t, EndElement n]"

fun entry_markup :: "string \<Rightarrow> string \<times> string \<times> string \<Rightarrow> markup list" where
  "entry_markup ws (k, s, d) =
     [StartElement ''schema''] @ element ws ''key'' k @ element ws ''signature'' s @ element ws ''default'' d @
     [MarkupText ws, EndElement ''schema'', MarkupText ws]"

definition schema_markup :: "string \<Rightarrow> (string \<times> string \<times> string) list \<Rightarrow> markup list" where
  "schema_markup ws l = concat (map (entry_markup ws) l)"

fun entry_of :: "string \<times> string \<times> string \<Rightarrow> settings_entry" where
  "entry_of (k, s, d) = \<lparr>se_key = Some k, se_signature = Some s, se_default_value = Some d, se_value = None\<rparr>"

definition outside :: "parser_info \<Rightarrow> bool" where
  "outside info \<longleftrightarrow> \<not> pi_in_key info \<and> \<not> pi_in_signature info \<and> \<not> pi_in_default info"

lemma parse_entry:
  assumes "outside info"
  shows "parse_markup (entry_markup ws e @ ms) info = parse_markup ms
    (info\<lparr>pi_entries := pi_entries info @ [entry_of e], pi_list := length (pi_entries info) # pi_list info,
       pi_entry := Some (length (pi_entries info))\<rparr>)"
  using assms by (cases e; cases info)
    (simp add: element_def outside_def start_element_cb_def end_element_cb_def add_schema_entry_def text_cb_def update_entry_def
      scdm_settings_entry_new_def)

lemma parse_entries:
  assumes "outside info" and "pi_list info = rev [0..<length (pi_entries info)]"
  shows "\<exists>info'. parse_markup (schema_markup ws l) info = Some info' \<and> pi_entries info' = pi_entries info @ map entry_of l \<and>
    pi_list info' = rev [0..<length (pi_entries info')]"
  using assms
proof (induction l arbitrary: info)
  case (Cons e l)
  then show ?case
    using Cons.IH [of "info\<lparr>pi_entries := pi_entries info @ [entry_of e], pi_list := length (pi_entries info) # pi_list info,
       pi_entry := Some (length (pi_entries info))\<rparr>"]
    by (simp add: schema_markup_def parse_entry outside_def)
qed (simp add: schema_markup_def)

lemma parse_schemas: "scdm_settings_parse_schemas (Some (schema_markup ws l)) = Some (Some (rev (map entry_of l)))"
proof -
  let ?i = "\<lparr>pi_entries = [], pi_list = [], pi_entry = None, pi_in_key = False, pi_in_signature = False, pi_in_default = False\<rparr>"
  obtain i where "parse_markup (schema_markup ws l) ?i = Some i" "pi_entries i = map entry_of l"
    "pi_list i = rev [0..<length (pi_entries i)]" using parse_entries [of ?i ws l] by (auto simp: outside_def)
  then show ?thesis using map_nth [of "map entry_of l"] by (simp add: scdm_settings_parse_schemas_def rev_map [symmetric])
qed

lemma hashify_lookup:
  "\<exists>h. hashify_all (map entry_of l) h0 = Some h \<and> map_of h k = (case map_of (rev l) k of None \<Rightarrow> map_of h0 k | Some sd \<Rightarrow> Some (entry_of (k, sd)))"
proof (induction l arbitrary: h0)
  case (Cons e l)
  obtain a sd where e: "e = (a, sd)" by (cases e)
  show ?case
    using Cons.IH [of "AList.update a (entry_of e) h0"]
    by (cases sd) (auto simp: e hashify_list_def update_conv' map_add_def split: option.splits)
qed simp

text \<open>Where a setting comes from: with a schema and the two files, the runtime file wins over the custom file and that over
  the default of the schema; of several schemas for a key the first of the file counts; a key that
  the schema does not know, or knows with another signature, ends the program.\<close>

theorem settings_layers:
  assumes "scdm_settings_direct_init (scdm_settings_init files custom runtime) (Some (schema_markup ws l)) = Some (Some d)"
    and "files custom = Some (Some c)" and "files runtime = Some (Some r)" and "key_names key = Some n"
  shows "scdm_settings_direct_get_string d key =
    (case map_of l key of
       None \<Rightarrow> None
     | Some (sig, dflt) \<Rightarrow>
         if sig = ''s'' then Some (Some (case r n of Some v \<Rightarrow> v | None \<Rightarrow> case c n of Some v \<Rightarrow> v | None \<Rightarrow> dflt)) else None)"
proof -
  obtain h where h: "hashify_all (rev (map entry_of l)) [] = Some h"
    "map_of h key = (case map_of l key of None \<Rightarrow> None | Some sd \<Rightarrow> Some (entry_of (key, sd)))"
    using hashify_lookup [of "rev l" "[]" key] by (auto simp: rev_map split: option.splits)
  then have d: "d = \<lparr>sd_schemas = h, sd_backends = scdm_settings_init files custom runtime\<rparr>"
    using assms(1) by (simp add: scdm_settings_direct_init_def parse_schemas)
  have "scdm_settings_get_value scdm_settings_desktop_backend_get_value (sd_backends d) key =
      Some (case r n of Some v \<Rightarrow> Some v | None \<Rightarrow> c n)"
    using assms(2-4) by (auto simp: d scdm_settings_get_value_def scdm_settings_init_def scdm_settings_desktop_backend_new_def get_names
        split: option.split)
  then show ?thesis
    using h(2) by (auto simp: scdm_settings_direct_get_string_def string_for_key_def get_entry_for_key_def assert_signature_def d
        split: option.split prod.split)
qed

theorem settings_layers_witness:
  "\<exists>d. scdm_settings_direct_init (scdm_settings_init (\<lambda>f. Some (Some (if f = ''r'' then Map.empty else [(''daemon'', ''User'') \<mapsto> ''joe'']))) ''c'' ''r'')
      (Some (schema_markup '' '' [(''daemon/User'', ''s'', ''nobody'')])) = Some (Some d) \<and>
    scdm_settings_direct_get_string d ''daemon/User'' = Some (Some ''joe'')"
proof -
  let ?f = "\<lambda>f. Some (Some (if f = ''r'' then Map.empty else [(''daemon'', ''User'') \<mapsto> ''joe'']))"
  have n: "key_names ''daemon/User'' = Some (''daemon'', ''User'')" by code_simp
  obtain d where d: "scdm_settings_direct_init (scdm_settings_init ?f ''c'' ''r'')
      (Some (schema_markup '' '' [(''daemon/User'', ''s'', ''nobody'')])) = Some (Some d)"
    by (simp add: scdm_settings_direct_init_def parse_schemas hashify_list_def)
  show ?thesis using settings_layers [OF d _ _ n] d by simp
qed

end
