(* ===== verification/Server.thy ===== *)
theory Server
  imports Worker_Session Settings
begin

text \<open>
  The X server of a display, \<open>src/daemon/scdm-server.c\<close>: its command line and environment, what its
  process does before it becomes the server, and its start, its readiness, its end and its stop. The servers of
  the daemon, the list in which the thread that waits for \<open>SIGUSR1\<close> finds them and the child watches of the
  main loop are one record. \<open>None\<close> is the end of the daemon, a call that has not returned, or the use of memory
  that was never written.
\<close>

section \<open>State\<close>

record server =
  srv_command :: "string option"
  srv_pid :: int
  srv_disable_tcp :: bool
  srv_priority :: int
  srv_user_name :: "string option"
  srv_session_args :: "string option"
  srv_log_dir :: string
  srv_display_name :: "string option"
  srv_display_device :: "string option"
  srv_display_seat_id :: "string option"
  srv_auth_file :: "string option"
  srv_child_watch_id :: nat
  srv_is_initial :: bool

datatype server_effect =
    ServerReady nat | ServerExited nat u32 | ServerDied nat u32 | ServerSpawned nat "string list" "string list" int
  | ServerSignalled nat int | ServerReaped nat int | DisplayDeviceChanged nat

text \<open>\<open>sp_weak_refs\<close> has an entry for each weak reference taken on a server, \<open>sp_watches\<close> the server of each
  child watch that has not run and was not removed.\<close>

record server_process =
  sp_servers :: "nat \<Rightarrow> server option"
  sp_active :: "nat list"
  sp_weak_refs :: "nat list"
  sp_watches :: "nat \<Rightarrow> nat option"
  sp_next_source :: nat
  sp_thread_running :: bool
  sp_log :: "server_effect list"

text \<open>What the build fixes (the servers, the virtual terminal, the flags) and what libc and GLib answer:
  \<open>xw_spawn\<close> is the pid of the process, \<open>xw_run\<close> the status of a script.\<close>

record server_world =
  xw_debug :: bool
  xw_journal :: bool
  xw_local_only :: bool
  xw_prctl :: bool
  xw_x_server :: string
  xw_systemd_x_server :: string
  xw_log_dir :: string
  xw_conf_dir :: string
  xw_scdm_user :: string
  xw_default_path :: string
  xw_initial_vt :: nat
  xw_executable :: "string \<Rightarrow> bool"
  xw_runnable :: "string \<Rightarrow> bool"
  xw_exists :: "string \<Rightarrow> bool"
  xw_build_filename :: "string list \<Rightarrow> string"
  xw_parse_argv :: "string \<Rightarrow> string list option"
  xw_environ :: "string list"
  xw_getpwnam :: "string \<Rightarrow> (passwd option \<times> errno option) list"
  xw_getgrgid :: "u32 \<Rightarrow> (string option \<times> errno option) list"
  xw_spawn :: "string list \<Rightarrow> string list \<Rightarrow> int option"
  xw_run :: "string list \<Rightarrow> string list \<Rightarrow> u32 option"
  xw_garbage :: u32
  xw_kill :: "int \<Rightarrow> int \<Rightarrow> errno option"
  xw_waitpid :: "int \<Rightarrow> bool \<Rightarrow> wait_answer list"

definition semit :: "server_effect list \<Rightarrow> server_process \<Rightarrow> server_process" where
  "semit fx p = p\<lparr>sp_log := sp_log p @ fx\<rparr>"

definition put_server :: "nat \<Rightarrow> server \<Rightarrow> server_process \<Rightarrow> server_process" where
  "put_server i s p = p\<lparr>sp_servers := (sp_servers p)(i \<mapsto> s)\<rparr>"

section \<open>The command line\<close>

definition scdm_server_init_command :: "server_world \<Rightarrow> server \<Rightarrow> server" where
  "scdm_server_init_command w s =
     (if srv_command s \<noteq> None then s
      else
        let debug_options = (if xw_debug w then '' -logverbose 7 -core '' else []);
            verbosity = (if xw_journal w then (if xw_debug w then ''7 -logfile /dev/null'' else ''3 -logfile /dev/null'') else []);
            arguments = '' -background none -noreset -verbose '' @ verbosity @ debug_options
        in if \<not> xw_executable w (xw_systemd_x_server w) \<or> srv_display_seat_id s = None \<or> srv_display_seat_id s = Some ''seat0''
           then s\<lparr>srv_command := Some (xw_x_server w @ arguments)\<rparr>
           else s\<lparr>srv_command := Some (xw_systemd_x_server w @ arguments)\<rparr>)"

text \<open>\<open>vt\<close> and one or two digits.\<close>

fun is_vt_argument :: "string \<Rightarrow> bool" where
  "is_vt_argument [v, t, d] = (v = CHR ''v'' \<and> t = CHR ''t'' \<and> ascii_isdigit d)"
| "is_vt_argument [v, t, d, e] = (v = CHR ''v'' \<and> t = CHR ''t'' \<and> ascii_isdigit d \<and> ascii_isdigit e)"
| "is_vt_argument _ = False"

text \<open>The arguments after those of the command.\<close>

definition extra_arguments :: "server_world \<Rightarrow> string option \<Rightarrow> string list \<Rightarrow> server \<Rightarrow> string list" where
  "extra_arguments w vtarg argv s =
     (let gotvtarg = list_ex is_vt_argument argv;
          query_in_arglist = list_ex (\<lambda>a. a = ''-query'' \<or> a = ''-indirect'') argv
      in (case srv_auth_file s of None \<Rightarrow> [] | Some f \<Rightarrow> [''-auth'', f]) @
         (case srv_display_seat_id s of None \<Rightarrow> [] | Some i \<Rightarrow> [''-seat'', i]) @
         (if xw_local_only w
          then if \<not> srv_disable_tcp s \<and> \<not> query_in_arglist then [''-listen'', ''tcp''] else []
          else if srv_disable_tcp s \<and> \<not> query_in_arglist then [''-nolisten'', ''tcp''] else []) @
         (case vtarg of None \<Rightarrow> [] | Some v \<Rightarrow> if gotvtarg then [] else [v]))"

text \<open>The vector and its length, which counts the null pointer at its end. A display without a name is a null pointer
  in the vector. A command that cannot be parsed leaves the first cell unwritten; an empty vector keeps its null pointer
  there, and the next argument takes the place of the display.\<close>

definition scdm_server_resolve_command_line ::
  "server_world \<Rightarrow> string option \<Rightarrow> server \<Rightarrow> (nat \<times> string option list \<times> server) option" where
  "scdm_server_resolve_command_line w vtarg s = do {
     let s = scdm_server_init_command w s;
     argv \<leftarrow> Option.bind (srv_command s) (xw_parse_argv w);
     let cells = (case argv of
                    [] \<Rightarrow> [None]
                  | a # args \<Rightarrow> Some a # srv_display_name s # map Some args) @
                 map Some (extra_arguments w vtarg argv s) @ [None];
     Some (length cells, cells, s)
   }"

text \<open>\<open>argv\<close> points to the caller's variable, a block of one cell, and \<open>argv[len]\<close> is a cell of that block:
  the arguments and the null pointer are written outside of it unless \<open>len\<close> is 0.\<close>

definition server_add_xserver_args ::
  "server_world \<Rightarrow> string \<Rightarrow> nat \<Rightarrow> (string option list) list \<Rightarrow> (nat \<times> (string option list) list) option" where
  "server_add_xserver_args w session_args argc argv = do {
     args \<leftarrow> xw_parse_argv w session_args;
     if length args \<noteq> 0 \<or> argc \<ge> length argv then None else Some (argc + length args, argv[argc := []])
   }"

section \<open>The environment\<close>

text \<open>A string of the environment, split at the first equals sign; the parts of an empty string do not exist.\<close>

fun hashify_environ :: "string list \<Rightarrow> env_hash \<Rightarrow> env_hash option" where
  "hashify_environ [] h = Some h"
| "hashify_environ (l # ls) h =
     (if l = [] then None else case split2 (CHR ''='') l of (k, x) \<Rightarrow> hashify_environ ls (AList.update k x h))"

definition get_server_hash :: "server_world \<Rightarrow> server \<Rightarrow> env_hash option" where
  "get_server_hash w s = do {
     h \<leftarrow> hashify_environ (xw_environ w) [];
     let h = AList.update ''DISPLAY'' (srv_display_name s) h;
     (case srv_user_name s of
        None \<Rightarrow> Some h
      | Some u \<Rightarrow> do {
          (_, pwent) \<leftarrow> scdm_get_pwent_for_name (xw_getpwnam w u);
          pw \<leftarrow> pwent;
          let h = AList.update ''HOME''
                    (Some (case pw_dir pw of None \<Rightarrow> ''/'' | Some d \<Rightarrow> if xw_exists w d then d else ''/'')) h;
          Some (AList.delete ''MAIL'' (AList.update ''SHELL'' (pw_shell pw) h))
        })
   }"

definition get_server_environment :: "server_world \<Rightarrow> server \<Rightarrow> string list option" where
  "get_server_environment w s = map_option (map listify_hash) (get_server_hash w s)"

section \<open>The process of the server\<close>

datatype log_target = JournalOut | JournalErr | LogFile

datatype server_call =
    JournalStream string bool | CloseStream | LogOperation file_op | CreateLog string | Redirect log_target int
  | IgnoreSignal nat | UnblockSignals | SetDeathSignal nat | SetPriority int | SetProcessGroup
  | SetGid u32 | InitGroups string u32 | SetUid u32 | SetGroups "u32 list"

text \<open>Calls whose failure ends the process: \<open>Inl\<close>, with what was called.\<close>

fun must_calls :: "(server_call \<Rightarrow> bool) \<Rightarrow> server_call list \<Rightarrow> server_call list \<Rightarrow> server_call list + server_call list" where
  "must_calls fails [] done_calls = Inr done_calls"
| "must_calls fails (c # cs) done_calls =
     (if fails c then Inl (done_calls @ [c]) else must_calls fails cs (done_calls @ [c]))"

definition change_user ::
  "server_world \<Rightarrow> (server_call \<Rightarrow> bool) \<Rightarrow> server \<Rightarrow> server_call list \<Rightarrow> (server_call list + server_call list) option" where
  "change_user w fails s done_calls =
     (case srv_user_name s of
        None \<Rightarrow> Some (Inr done_calls)
      | Some u \<Rightarrow>
          map_option (\<lambda>(_, pwent).
            case pwent of
              None \<Rightarrow> Inl done_calls
            | Some pw \<Rightarrow>
                if pw_uid pw \<noteq> 0
                then must_calls fails [SetGid (pw_gid pw), InitGroups (pw_name pw) (pw_gid pw), SetUid (pw_uid pw)] done_calls
                else Inr (done_calls @ [SetGid 0, SetGroups [0]]))
          (scdm_get_pwent_for_name (xw_getpwnam w u)))"

text \<open>Whether the journal takes the output, and the calls made. \<open>None\<close>: the display has no name, and the process
  crashes.\<close>

definition scdm_server_setup_journal_fds ::
  "server_world \<Rightarrow> bool \<Rightarrow> (server_call \<Rightarrow> bool) \<Rightarrow> server \<Rightarrow> (bool \<times> server_call list) option" where
  "scdm_server_setup_journal_fds w booted fails s =
     (if xw_journal w \<and> booted
      then map_option (\<lambda>name.
        let identifier = ''scdm-Xorg-'' @ name;
            out = JournalStream identifier False; err = JournalStream identifier True
        in if fails out then (False, [out])
           else if fails err then (False, [out, err, CloseStream])
           else (True, [out, err, Redirect JournalOut 1, Redirect JournalErr 2])) (srv_display_name s)
      else Some (False, []))"

text \<open>\<open>"%s"\<close> prints the null pointer as \<open>(null)\<close>.\<close>

definition scdm_server_setup_logfile :: "server_world \<Rightarrow> (server_call \<Rightarrow> bool) \<Rightarrow> server \<Rightarrow> server_call list" where
  "scdm_server_setup_logfile w fails s =
     (let log_file = (case srv_display_name s of None \<Rightarrow> ''(null)'' | Some d \<Rightarrow> d) @ ''.log'';
          log_path = xw_build_filename w [srv_log_dir s, log_file]
      in map LogOperation (rotate_logs log_path MAX_LOGS @ [Unlink log_path]) @ [CreateLog log_path] @
         (if fails (CreateLog log_path) then [] else [Redirect LogFile 1, Redirect LogFile 2, CloseStream]))"

text \<open>\<open>SIGUSR1\<close>, \<open>SIGTTIN\<close>, \<open>SIGTTOU\<close> and \<open>SIGTERM\<close> are 10, 21, 22 and 15.\<close>

definition server_child_setup ::
  "server_world \<Rightarrow> bool \<Rightarrow> (server_call \<Rightarrow> bool) \<Rightarrow> server \<Rightarrow> (server_call list + server_call list) option" where
  "server_child_setup w booted fails s =
     (case scdm_server_setup_journal_fds w booted fails s of
        None \<Rightarrow> Some (Inl [])
      | Some (journal, calls) \<Rightarrow>
          (case must_calls fails [IgnoreSignal 10, IgnoreSignal 21, IgnoreSignal 22]
                  (if journal then calls else calls @ scdm_server_setup_logfile w fails s) of
             Inl calls \<Rightarrow> Some (Inl calls)
           | Inr calls \<Rightarrow>
               change_user w fails s
                 (calls @ [UnblockSignals] @ (if xw_prctl w then [SetDeathSignal 15] else []) @
                  (if srv_priority s \<noteq> 0 then [SetPriority (srv_priority s)] else []) @ [SetProcessGroup])))"

section \<open>Readiness\<close>

text \<open>The script of the display is run, whatever it answers, before the display is told.\<close>

definition scdm_server_ready :: "server_world \<Rightarrow> nat \<Rightarrow> server_process \<Rightarrow> server_process option" where
  "scdm_server_ready w i p = do {
     s \<leftarrow> sp_servers p i;
     _ \<leftarrow> scdm_run_script (xw_runnable w) (xw_build_filename w) (xw_parse_argv w) (xw_run w) (xw_garbage w)
            (scdm_get_script_environment (xw_default_path w) (xw_getpwnam w) (xw_getgrgid w))
            (xw_conf_dir w @ ''/Init'') (xw_scdm_user w) (srv_display_name s) None (srv_auth_file s);
     Some (semit [ServerReady i] p)
   }"

fun ready_each :: "server_world \<Rightarrow> int \<Rightarrow> nat list \<Rightarrow> server_process \<Rightarrow> server_process option" where
  "ready_each w pid [] p = Some p"
| "ready_each w pid (i # l) p = do {
     s \<leftarrow> sp_servers p i;
     p \<leftarrow> (if srv_pid s = pid then scdm_server_ready w i p else Some p);
     ready_each w pid l p
   }"

definition got_sigusr1 :: "server_world \<Rightarrow> int \<Rightarrow> server_process \<Rightarrow> server_process option" where
  "got_sigusr1 w pid p = ready_each w pid (sp_active p) p"

text \<open>The thread is made once, and the caller waits until it runs.\<close>

definition scdm_server_launch_sigusr1_thread_if_needed :: "server_process \<Rightarrow> server_process" where
  "scdm_server_launch_sigusr1_thread_if_needed p = (if sp_thread_running p then p else p\<lparr>sp_thread_running := True\<rparr>)"

section \<open>Start, end and stop\<close>

text \<open>A child watch runs once.\<close>

definition server_child_watch :: "nat \<Rightarrow> u32 \<Rightarrow> server_process \<Rightarrow> server_process option" where
  "server_child_watch source status p = do {
     i \<leftarrow> sp_watches p source;
     s \<leftarrow> sp_servers p i;
     let p = p\<lparr>sp_watches := (sp_watches p)(source := None)\<rparr>;
     let p = (if wifexited status then semit [ServerExited i (wexitstatus status)] p
              else if wifsignaled status then semit [ServerDied i (wtermsig status)] p else p);
     Some (put_server i (s\<lparr>srv_pid := -1\<rparr>) p)
   }"

definition prune_active_servers_list :: "nat \<Rightarrow> server_process \<Rightarrow> server_process" where
  "prune_active_servers_list i p = p\<lparr>sp_active := remove1 i (sp_active p)\<rparr>"

definition scdm_server_spawn :: "server_world \<Rightarrow> string option \<Rightarrow> nat \<Rightarrow> server_process \<Rightarrow> (bool \<times> server_process) option" where
  "scdm_server_spawn w vtarg i p = do {
     s \<leftarrow> sp_servers p i;
     (argc, cells, s) \<leftarrow> scdm_server_resolve_command_line w vtarg s;
     let p = put_server i s p;
     cells \<leftarrow> (case srv_session_args s of
                None \<Rightarrow> Some cells
              | Some a \<Rightarrow> map_option (hd \<circ> snd) (server_add_xserver_args w a argc [cells]));
     if hd cells = None then Some (False, p)
     else do {
       env \<leftarrow> get_server_environment w s;
       let p = p\<lparr>sp_active := sp_active p @ [i], sp_weak_refs := sp_weak_refs p @ [i]\<rparr>;
       let p = scdm_server_launch_sigusr1_thread_if_needed p;
       let argv = map the (takeWhile (\<lambda>a. a \<noteq> None) cells);
       (case xw_spawn w argv env of
          None \<Rightarrow> Some (False, p)
        | Some pid \<Rightarrow>
            let source = sp_next_source p;
                p = p\<lparr>sp_watches := (sp_watches p)(source \<mapsto> i), sp_next_source := Suc source\<rparr>
            in Some (True, semit [ServerSpawned i argv env pid]
                 (put_server i (s\<lparr>srv_pid := pid, srv_child_watch_id := source\<rparr>) p)))
     }
   }"

definition scdm_server_start :: "server_world \<Rightarrow> nat \<Rightarrow> server_process \<Rightarrow> (bool \<times> server_process) option" where
  "scdm_server_start w i p = do {
     s \<leftarrow> sp_servers p i;
     scdm_server_spawn w (if srv_is_initial s then Some (''vt'' @ show_nat (xw_initial_vt w)) else None) i p
   }"

definition server_died :: "server_world \<Rightarrow> nat \<Rightarrow> server_process \<Rightarrow> server_process option" where
  "server_died w i p = do {
     s \<leftarrow> sp_servers p i;
     _ \<leftarrow> scdm_wait_on_pid (xw_waitpid w (srv_pid s));
     let p = semit [ServerReaped i (srv_pid s)] p;
     let s = s\<lparr>srv_pid := -1\<rparr>;
     Some (if srv_display_device s \<noteq> None
           then semit [DisplayDeviceChanged i] (put_server i (s\<lparr>srv_display_device := None\<rparr>) p)
           else put_server i s p)
   }"

definition scdm_server_stop :: "server_world \<Rightarrow> nat \<Rightarrow> server_process \<Rightarrow> server_process option" where
  "scdm_server_stop w i p = do {
     s \<leftarrow> sp_servers p i;
     if srv_pid s \<le> 1 then Some p
     else do {
       let p = (if srv_child_watch_id s > 0
                then put_server i (s\<lparr>srv_child_watch_id := 0\<rparr>)
                       (p\<lparr>sp_watches := (sp_watches p)(srv_child_watch_id s := None)\<rparr>)
                else p);
       let p = semit [ServerSignalled i (srv_pid s)] p;
       if fst (scdm_signal_pid (xw_kill w) (srv_pid s) 15) < 0 then Some p else server_died w i p
     }
   }"

section \<open>The object\<close>

definition scdm_server_init :: "server_world \<Rightarrow> server" where
  "scdm_server_init w =
     \<lparr>srv_command = None, srv_pid = -1, srv_disable_tcp = True, srv_priority = 0, srv_user_name = None,
      srv_session_args = None, srv_log_dir = xw_log_dir w, srv_display_name = None, srv_display_device = None,
      srv_display_seat_id = None, srv_auth_file = None, srv_child_watch_id = 0, srv_is_initial = False\<rparr>"

definition scdm_server_get_display_device :: "server \<Rightarrow> string option" where
  "scdm_server_get_display_device s = None"

datatype server_property =
    DisplayNameProperty "string option" | DisplaySeatIdProperty "string option" | AuthFileProperty "string option"
  | UserNameProperty "string option" | DisableTcpProperty bool | IsInitialProperty bool

fun scdm_server_set_property :: "server_property \<Rightarrow> server \<Rightarrow> server" where
  "scdm_server_set_property (DisplayNameProperty x) s = s\<lparr>srv_display_name := x\<rparr>"
| "scdm_server_set_property (DisplaySeatIdProperty x) s = s\<lparr>srv_display_seat_id := x\<rparr>"
| "scdm_server_set_property (AuthFileProperty x) s = s\<lparr>srv_auth_file := x\<rparr>"
| "scdm_server_set_property (UserNameProperty x) s = s\<lparr>srv_user_name := x\<rparr>"
| "scdm_server_set_property (DisableTcpProperty b) s = s\<lparr>srv_disable_tcp := b\<rparr>"
| "scdm_server_set_property (IsInitialProperty b) s = s\<lparr>srv_is_initial := b\<rparr>"

definition scdm_server_new ::
  "server_world \<Rightarrow> string option \<Rightarrow> string option \<Rightarrow> string option \<Rightarrow> bool \<Rightarrow> nat \<Rightarrow> server_process \<Rightarrow> server_process" where
  "scdm_server_new w display_name seat_id auth_file initial i p =
     put_server i
       (fold scdm_server_set_property
          [DisplayNameProperty display_name, DisplaySeatIdProperty seat_id, AuthFileProperty auth_file, IsInitialProperty initial]
          (scdm_server_init w)) p"

text \<open>The weak references are told before the object is finalized.\<close>

definition scdm_server_finalize :: "server_world \<Rightarrow> nat \<Rightarrow> server_process \<Rightarrow> server_process option" where
  "scdm_server_finalize w i p = do {
     let p = fold (\<lambda>j p. if j = i then prune_active_servers_list i p else p) (sp_weak_refs p) p;
     p \<leftarrow> scdm_server_stop w i (p\<lparr>sp_weak_refs := removeAll i (sp_weak_refs p)\<rparr>);
     Some (p\<lparr>sp_servers := (sp_servers p)(i := None)\<rparr>)
   }"

end
