(* ===== verification/Server_Props.thy ===== *)
theory Server_Props
  imports Server
begin

text \<open>
  The properties of the X server: its command line, the process it becomes, who is told that it is ready, and how it
  is stopped.
\<close>

lemmas server_defs = put_server_def semit_def

section \<open>The command line\<close>

lemma init_command_fields [simp]:
  "srv_display_name (scdm_server_init_command w s) = srv_display_name s"
  "srv_display_seat_id (scdm_server_init_command w s) = srv_display_seat_id s"
  "srv_auth_file (scdm_server_init_command w s) = srv_auth_file s"
  "srv_user_name (scdm_server_init_command w s) = srv_user_name s"
  "srv_disable_tcp (scdm_server_init_command w s) = srv_disable_tcp s"
  "srv_session_args (scdm_server_init_command w s) = srv_session_args s"
  "srv_pid (scdm_server_init_command w s) = srv_pid s"
  "srv_child_watch_id (scdm_server_init_command w s) = srv_child_watch_id s"
  "srv_is_initial (scdm_server_init_command w s) = srv_is_initial s"
  by (simp_all add: scdm_server_init_command_def Let_def)

lemma init_command_is_set: "\<exists>c. srv_command (scdm_server_init_command w s) = Some c"
  by (auto simp: scdm_server_init_command_def Let_def)

lemma server_hash_command [simp]: "get_server_hash w (scdm_server_init_command w s) = get_server_hash w s"
  by (simp add: get_server_hash_def)

lemma present_cells: "map the (takeWhile (\<lambda>a. a \<noteq> None) (map Some xs @ [None])) = xs"
  by (induction xs) auto

lemma resolve_command_line:
  assumes "Option.bind (srv_command (scdm_server_init_command w s)) (xw_parse_argv w) = Some (program # args)"
    and "srv_display_name s = Some d"
  shows "scdm_server_resolve_command_line w vt s =
    (let extra = extra_arguments w vt (program # args) (scdm_server_init_command w s)
     in Some (length args + length extra + 3, map Some (program # d # args @ extra) @ [None], scdm_server_init_command w s))"
  using assms by (auto simp: scdm_server_resolve_command_line_def bind_eq_Some_conv Let_def)

text \<open>The command line of an X server that has been started: the program, the name of the display before any
  argument of the command, those arguments, the authority file and the seat, whether it listens to the network unless
  the command queries a host, and for the first server, unless the command names one, the virtual terminal. The vector is
  never longer than the room made for it, and the environment names the display.\<close>

theorem server_command_line:
  assumes "scdm_server_start w i p = Some (True, p')"
    and "sp_servers p i = Some s" "srv_session_args s = None" "srv_display_name s = Some d"
    and "Option.bind (srv_command (scdm_server_init_command w s)) (xw_parse_argv w) = Some (program # args)"
  shows "\<exists>extra h pid. sp_log p' = sp_log p @ [ServerSpawned i (program # d # args @ extra) (map listify_hash h) pid] \<and>
    extra =
      (case srv_auth_file s of None \<Rightarrow> [] | Some f \<Rightarrow> [''-auth'', f]) @
      (case srv_display_seat_id s of None \<Rightarrow> [] | Some seat \<Rightarrow> [''-seat'', seat]) @
      (if ''-query'' \<in> set (program # args) \<or> ''-indirect'' \<in> set (program # args) then []
       else if xw_local_only w \<and> \<not> srv_disable_tcp s then [''-listen'', ''tcp'']
       else if \<not> xw_local_only w \<and> srv_disable_tcp s then [''-nolisten'', ''tcp''] else []) @
      (if srv_is_initial s \<and> (\<forall>a \<in> set (program # args). \<not> is_vt_argument a)
       then [''vt'' @ show_nat (xw_initial_vt w)] else []) \<and>
    length (program # d # args @ extra) + 1 \<le> length (program # args) + 12 \<and>
    map_of h ''DISPLAY'' = Some (Some d)"
proof -
  define vt where "vt = (if srv_is_initial s then Some (''vt'' @ show_nat (xw_initial_vt w)) else None)"
  define extra where "extra = extra_arguments w vt (program # args) (scdm_server_init_command w s)"
  have v: "map the (takeWhile (\<lambda>a. a \<noteq> None) (map Some (program # d # args @ extra) @ [None])) = program # d # args @ extra"
    by (rule present_cells)
  have "scdm_server_spawn w vt i p = Some (True, p')" using assms(1,2) by (simp add: scdm_server_start_def vt_def)
  then obtain h pid where h: "get_server_hash w s = Some h"
    and l: "sp_log p' = sp_log p @ [ServerSpawned i (program # d # args @ extra) (map listify_hash h) pid]"
    using v by (auto simp: scdm_server_spawn_def assms(2,3) resolve_command_line [OF assms(5,4)] Let_def server_defs
        extra_def [symmetric] scdm_server_launch_sigusr1_thread_if_needed_def get_server_environment_def bind_eq_Some_conv
        split: option.splits if_splits)
  have "map_of h ''DISPLAY'' = Some (Some d)"
    using h assms(4) by (auto simp: get_server_hash_def bind_eq_Some_conv Let_def map_of_delete update_conv' split: option.splits)
  moreover have "extra =
      (case srv_auth_file s of None \<Rightarrow> [] | Some f \<Rightarrow> [''-auth'', f]) @
      (case srv_display_seat_id s of None \<Rightarrow> [] | Some seat \<Rightarrow> [''-seat'', seat]) @
      (if ''-query'' \<in> set (program # args) \<or> ''-indirect'' \<in> set (program # args) then []
       else if xw_local_only w \<and> \<not> srv_disable_tcp s then [''-listen'', ''tcp'']
       else if \<not> xw_local_only w \<and> srv_disable_tcp s then [''-nolisten'', ''tcp''] else []) @
      (if srv_is_initial s \<and> (\<forall>a \<in> set (program # args). \<not> is_vt_argument a)
       then [''vt'' @ show_nat (xw_initial_vt w)] else [])"
    by (auto simp: extra_def vt_def extra_arguments_def Let_def list_ex_iff)
  moreover have "length extra \<le> 7" by (auto simp: extra_def extra_arguments_def Let_def split: option.split)
  ultimately show ?thesis using l by (intro exI [of _ extra] exI [of _ h] exI [of _ pid]) auto
qed

definition example_server_world :: server_world where
  "example_server_world =
     \<lparr>xw_debug = False, xw_journal = True, xw_local_only = True, xw_prctl = True, xw_x_server = ''/usr/bin/X'',
      xw_systemd_x_server = ''/lib/multi-seat-x'', xw_log_dir = ''/var/log/scdm'', xw_conf_dir = ''/etc/scdm'',
      xw_scdm_user = ''scdm'', xw_default_path = ''/bin'', xw_initial_vt = 7, xw_executable = (\<lambda>_. False),
      xw_runnable = (\<lambda>_. False), xw_exists = (\<lambda>_. True), xw_build_filename = concat,
      xw_parse_argv = (\<lambda>c. Some (split_on (CHR '' '') c)), xw_environ = [''PATH=/bin''],
      xw_getpwnam = (\<lambda>u. [(Some \<lparr>pw_name = u, pw_uid = 42, pw_gid = 43, pw_dir = None, pw_shell = None\<rparr>, None)]),
      xw_getgrgid = (\<lambda>_. []), xw_spawn = (\<lambda>_ _. Some 1000), xw_run = (\<lambda>_ _. None), xw_garbage = 0,
      xw_kill = (\<lambda>_ _. None), xw_waitpid = (\<lambda>_ _. [WaitReaped 0])\<rparr>"

definition no_servers :: server_process where
  "no_servers = \<lparr>sp_servers = Map.empty, sp_active = [], sp_weak_refs = [], sp_watches = Map.empty, sp_next_source = 1,
     sp_thread_running = False, sp_log = []\<rparr>"

definition example_servers :: server_process where
  "example_servers = scdm_server_new example_server_world (Some '':0'') (Some ''seat0'') None True 0 no_servers"

lemma example_command:
  "Option.bind (srv_command (scdm_server_init_command example_server_world (the (sp_servers example_servers 0))))
     (xw_parse_argv example_server_world) =
   Some [''/usr/bin/X'', ''-background'', ''none'', ''-noreset'', ''-verbose'', ''3'', ''-logfile'', ''/dev/null'']"
  by code_simp

lemma example_start: "\<exists>p'. scdm_server_start example_server_world 0 example_servers = Some (True, p')"
proof -
  have "map_option fst (scdm_server_start example_server_world 0 example_servers) = Some True" by code_simp
  then show ?thesis by auto
qed

theorem server_command_line_witness:
  "\<exists>extra h pid. sp_log (snd (the (scdm_server_start example_server_world 0 example_servers))) =
    [ServerSpawned 0 (''/usr/bin/X'' # '':0'' #
       [''-background'', ''none'', ''-noreset'', ''-verbose'', ''3'', ''-logfile'', ''/dev/null''] @ extra) (map listify_hash h) pid] \<and>
    extra = [''-seat'', ''seat0'', ''vt7'']"
proof -
  let ?s = "the (sp_servers example_servers 0)"
  obtain p' where p: "scdm_server_start example_server_world 0 example_servers = Some (True, p')"
    using example_start by blast
  have s: "sp_servers example_servers 0 = Some ?s" "srv_session_args ?s = None" "srv_display_name ?s = Some '':0''"
    "sp_log example_servers = []" "srv_auth_file ?s = None" "srv_display_seat_id ?s = Some ''seat0''" "srv_is_initial ?s"
    "srv_disable_tcp ?s"
    by (simp_all add: example_servers_def scdm_server_new_def scdm_server_init_def put_server_def no_servers_def)
  have v: "''vt'' @ show_nat (xw_initial_vt example_server_world) = ''vt7''" "xw_local_only example_server_world"
    by code_simp+
  show ?thesis
    using server_command_line [OF p s(1,2,3) example_command] s p v by auto
qed

section \<open>The process of the server\<close>

text \<open>What the calls do to a process: its user and groups, the signals it ignores and the signal it gets when its
  parent ends, which the kernel forgets when the user or the group of a process changes. A call that fails does
  nothing.\<close>

record child_process =
  cp_uid :: u32
  cp_gid :: u32
  cp_groups :: "u32 list"
  cp_death_signal :: "nat option"
  cp_ignored :: "nat list"

fun call_effect :: "(string \<Rightarrow> u32 \<Rightarrow> u32 list) \<Rightarrow> server_call \<Rightarrow> child_process \<Rightarrow> child_process" where
  "call_effect groups (SetGid g) c =
     c\<lparr>cp_gid := g, cp_death_signal := (if g = cp_gid c then cp_death_signal c else None)\<rparr>"
| "call_effect groups (SetUid u) c =
     c\<lparr>cp_uid := u, cp_death_signal := (if u = cp_uid c then cp_death_signal c else None)\<rparr>"
| "call_effect groups (InitGroups n g) c = c\<lparr>cp_groups := groups n g\<rparr>"
| "call_effect groups (SetGroups gs) c = c\<lparr>cp_groups := gs\<rparr>"
| "call_effect groups (SetDeathSignal n) c = c\<lparr>cp_death_signal := Some n\<rparr>"
| "call_effect groups (IgnoreSignal n) c = c\<lparr>cp_ignored := n # cp_ignored c\<rparr>"
| "call_effect groups _ c = c"

definition perform_call ::
  "(server_call \<Rightarrow> bool) \<Rightarrow> (string \<Rightarrow> u32 \<Rightarrow> u32 list) \<Rightarrow> server_call \<Rightarrow> child_process \<Rightarrow> child_process" where
  "perform_call fails groups call c = (if fails call then c else call_effect groups call c)"

abbreviation perform_calls ::
  "(server_call \<Rightarrow> bool) \<Rightarrow> (string \<Rightarrow> u32 \<Rightarrow> u32 list) \<Rightarrow> server_call list \<Rightarrow> child_process \<Rightarrow> child_process" where
  "perform_calls fails groups cs c \<equiv> fold (perform_call fails groups) cs c"

definition quiet_call :: "server_call \<Rightarrow> bool" where
  "quiet_call c = (\<forall>groups p. call_effect groups c p = p)"

lemma quiet_calls: "list_all quiet_call cs \<Longrightarrow> perform_calls fails groups cs c = c"
  by (induction cs) (auto simp: quiet_call_def perform_call_def)

lemma log_calls_quiet:
  "scdm_server_setup_journal_fds w booted fails s = Some (j, cs) \<Longrightarrow> list_all quiet_call cs"
  "list_all quiet_call (scdm_server_setup_logfile w fails s)"
  by (auto simp: scdm_server_setup_journal_fds_def scdm_server_setup_logfile_def quiet_call_def Let_def list_all_iff
      split: if_splits)

lemma must_calls_done: "must_calls fails cs done_calls = Inr r \<Longrightarrow> r = done_calls @ cs \<and> list_all (\<lambda>c. \<not> fails c) cs"
  by (induction cs arbitrary: done_calls) (simp, fastforce split: if_splits)

lemma child_setup_calls:
  assumes "server_child_setup w booted fails s = Some (Inr calls)"
  obtains cs where "list_all quiet_call cs" and "list_all (\<lambda>c. \<not> fails c) (map IgnoreSignal [10, 21, 22])"
    and "change_user w fails s (cs @ map IgnoreSignal [10, 21, 22] @ [UnblockSignals] @
      (if xw_prctl w then [SetDeathSignal 15] else []) @
      (if srv_priority s \<noteq> 0 then [SetPriority (srv_priority s)] else []) @ [SetProcessGroup]) = Some (Inr calls)"
proof -
  from assms obtain journal cs r where j: "scdm_server_setup_journal_fds w booted fails s = Some (journal, cs)"
    and m: "must_calls fails [IgnoreSignal 10, IgnoreSignal 21, IgnoreSignal 22]
      (if journal then cs else cs @ scdm_server_setup_logfile w fails s) = Inr r"
    and c: "change_user w fails s (r @ [UnblockSignals] @ (if xw_prctl w then [SetDeathSignal 15] else []) @
      (if srv_priority s \<noteq> 0 then [SetPriority (srv_priority s)] else []) @ [SetProcessGroup]) = Some (Inr calls)"
    by (auto simp: server_child_setup_def simp del: must_calls.simps split: option.splits sum.splits)
  show ?thesis
    by (rule that [of "if journal then cs else cs @ scdm_server_setup_logfile w fails s"])
      (use log_calls_quiet(1) [OF j] log_calls_quiet(2) must_calls_done [OF m] c in auto)
qed

text \<open>C40. The process that becomes an X server for a user: the program runs as that user. For a user other than root a call
  that fails ends the process, so that it has the group of the user and no other groups than the user's, whatever it had
  before. For root the calls that set the groups may fail: it has no other group than root's where they succeed, and
  keeps those of the daemon where they do not. It ignores the three signals of an X server. It is to be terminated when the
  daemon ends, if that can be asked for, but becoming another user undoes it.\<close>

theorem server_child_becomes_user:
  assumes "server_child_setup w booted fails s = Some (Inr calls)"
    and "cp_uid c = 0"
  shows "let p = perform_calls fails groups calls c in {10, 21, 22} \<subseteq> set (cp_ignored p) \<and>
    (case srv_user_name s of
       None \<Rightarrow> cp_uid p = 0 \<and> cp_gid p = cp_gid c \<and> cp_groups p = cp_groups c \<and>
         (xw_prctl w \<and> \<not> fails (SetDeathSignal 15) \<longrightarrow> cp_death_signal p = Some 15)
     | Some u \<Rightarrow> \<exists>pw rest. retry_eintr (xw_getpwnam w u) = Some (Some pw, rest) \<and>
         cp_uid p = pw_uid pw \<and>
         (pw_uid pw \<noteq> 0 \<longrightarrow> cp_gid p = pw_gid pw \<and> cp_groups p = groups (pw_name pw) (pw_gid pw) \<and>
            cp_death_signal p = None \<and>
            \<not> fails (SetUid (pw_uid pw)) \<and> \<not> fails (SetGid (pw_gid pw)) \<and> \<not> fails (InitGroups (pw_name pw) (pw_gid pw))) \<and>
         (pw_uid pw = 0 \<longrightarrow> cp_gid p = (if fails (SetGid 0) then cp_gid c else 0) \<and>
            cp_groups p = (if fails (SetGroups [0]) then cp_groups c else [0])))"
proof -
  obtain cs where q: "list_all quiet_call cs" and i: "list_all (\<lambda>c. \<not> fails c) (map IgnoreSignal [10, 21, 22])"
    and u: "change_user w fails s (cs @ map IgnoreSignal [10, 21, 22] @ [UnblockSignals] @
      (if xw_prctl w then [SetDeathSignal 15] else []) @
      (if srv_priority s \<noteq> 0 then [SetPriority (srv_priority s)] else []) @ [SetProcessGroup]) = Some (Inr calls)"
    using child_setup_calls [OF assms(1)] .
  show ?thesis
  proof (cases "srv_user_name s")
    case None
    then show ?thesis using u i assms(2) by (auto simp: Let_def change_user_def quiet_calls [OF q] perform_call_def)
  next
    case (Some n)
    then show ?thesis using u i assms(2)
      by (auto simp: Let_def change_user_def scdm_get_pwent_for_name_def quiet_calls [OF q] perform_call_def
          simp del: must_calls.simps dest!: must_calls_done split: option.splits if_splits)
  qed
qed

theorem server_child_becomes_user_witness:
  "\<exists>calls. server_child_setup example_server_world True (\<lambda>_. False)
     (scdm_server_set_property (UserNameProperty (Some ''joe'')) (the (sp_servers example_servers 0))) = Some (Inr calls) \<and>
   cp_uid (perform_calls (\<lambda>_. False) (\<lambda>_ g. [g]) calls
     \<lparr>cp_uid = 0, cp_gid = 0, cp_groups = [0, 1], cp_death_signal = None, cp_ignored = []\<rparr>) = 42"
proof -
  let ?s = "scdm_server_set_property (UserNameProperty (Some ''joe'')) (the (sp_servers example_servers 0))"
  let ?c = "\<lparr>cp_uid = 0, cp_gid = 0, cp_groups = [0, 1], cp_death_signal = None, cp_ignored = []\<rparr>"
  have "case server_child_setup example_server_world True (\<lambda>_. False) ?s of Some (Inr calls) \<Rightarrow> True | _ \<Rightarrow> False"
    by code_simp
  then obtain calls where c: "server_child_setup example_server_world True (\<lambda>_. False) ?s = Some (Inr calls)"
    by (auto split: option.splits sum.splits)
  have u: "srv_user_name ?s = Some ''joe''" by simp
  from server_child_becomes_user [OF c, of ?c "\<lambda>_ g. [g]"] c show ?thesis
    unfolding u by (auto simp: Let_def example_server_world_def)
qed

section \<open>The servers of the daemon\<close>

text \<open>What happens to the servers: a server is started again only after its process has ended, and the process of a
  server is never the first of the system.\<close>

inductive server_step :: "server_process \<Rightarrow> server_process \<Rightarrow> bool" where
  ServerNew: "sp_servers p i = None \<Longrightarrow> i \<notin> set (sp_active p) \<Longrightarrow>
    server_step p (scdm_server_new w display_name seat_id auth_file initial i p)"
| ServerSet: "sp_servers p i = Some s \<Longrightarrow> server_step p (put_server i (scdm_server_set_property x s) p)"
| ServerStart: "sp_servers p i = Some s \<Longrightarrow> srv_pid s \<le> 1 \<Longrightarrow>
    (\<And>argv env pid. xw_spawn w argv env = Some pid \<Longrightarrow> 1 < pid) \<Longrightarrow>
    scdm_server_start w i p = Some (ok, p') \<Longrightarrow> server_step p p'"
| ServerDone: "server_child_watch source status p = Some p' \<Longrightarrow> server_step p p'"
| ServerUsr1: "got_sigusr1 w pid p = Some p' \<Longrightarrow> server_step p p'"
| ServerStop: "scdm_server_stop w i p = Some p' \<Longrightarrow> server_step p p'"
| ServerFinalize: "scdm_server_finalize w i p = Some p' \<Longrightarrow> server_step p p'"

inductive server_reachable :: "server_process \<Rightarrow> bool" where
  NoServers: "server_reachable no_servers"
| MoreServers: "server_reachable p \<Longrightarrow> server_step p p' \<Longrightarrow> server_reachable p'"

text \<open>A server with a process is in the list in which the signal finds it, which is that of the weak references; a child watch
  is that of its server, which has a process.\<close>

definition server_listed :: "server_process \<Rightarrow> nat \<Rightarrow> server \<Rightarrow> bool" where
  "server_listed p i s = (srv_session_args s = None \<and> (srv_pid s > 1 \<longrightarrow> i \<in> set (sp_active p)))"

definition server_inv :: "server_process \<Rightarrow> bool" where
  "server_inv p =
     ((\<forall>i s. sp_servers p i = Some s \<longrightarrow> server_listed p i s) \<and> set (sp_active p) \<subseteq> dom (sp_servers p) \<and>
      sp_active p = sp_weak_refs p \<and> 0 < sp_next_source p \<and>
      (\<forall>source i. sp_watches p source = Some i \<longrightarrow> 0 < source \<and> source < sp_next_source p \<and>
        (\<exists>s. sp_servers p i = Some s \<and> srv_child_watch_id s = source \<and> srv_pid s > 1)))"

lemma server_invI:
  assumes "\<And>i s. sp_servers p i = Some s \<Longrightarrow> server_listed p i s" "set (sp_active p) \<subseteq> dom (sp_servers p)"
    and "sp_active p = sp_weak_refs p" "0 < sp_next_source p"
    and "\<And>source i. sp_watches p source = Some i \<Longrightarrow> 0 < source \<and> source < sp_next_source p \<and>
        (\<exists>s. sp_servers p i = Some s \<and> srv_child_watch_id s = source \<and> srv_pid s > 1)"
  shows "server_inv p"
  using assms by (auto simp: server_inv_def)

lemma server_invD:
  assumes "server_inv p"
  shows "sp_servers p i = Some s \<Longrightarrow> server_listed p i s" "set (sp_active p) \<subseteq> dom (sp_servers p)"
    "sp_active p = sp_weak_refs p" "0 < sp_next_source p"
    "sp_watches p source = Some i \<Longrightarrow> 0 < source \<and> source < sp_next_source p \<and>
        (\<exists>s. sp_servers p i = Some s \<and> srv_child_watch_id s = source \<and> srv_pid s > 1)"
  using assms by (auto simp: server_inv_def)

text \<open>A change of the server that keeps its process, and one that ends it.\<close>

lemma put_server_inv:
  assumes "server_inv p" "sp_servers p i = None \<or> (\<exists>s'. sp_servers p i = Some s' \<and> srv_child_watch_id s = srv_child_watch_id s' \<and>
      srv_pid s = srv_pid s')" "server_listed p i s"
  shows "server_inv (put_server i s p)"
proof (rule server_invI)
  show "set (sp_active (put_server i s p)) \<subseteq> dom (sp_servers (put_server i s p))"
    using server_invD(2) [OF assms(1)] by (auto simp: put_server_def)
next
  fix source j assume "sp_watches (put_server i s p) source = Some j"
  then have "sp_watches p source = Some j" by (simp add: put_server_def)
  from server_invD(5) [OF assms(1) this] show
    "0 < source \<and> source < sp_next_source (put_server i s p) \<and>
      (\<exists>s'. sp_servers (put_server i s p) j = Some s' \<and> srv_child_watch_id s' = source \<and> srv_pid s' > 1)"
    using assms(2) by (auto simp: put_server_def)
qed (use server_invD [OF assms(1)] assms(3) in \<open>auto simp: put_server_def server_listed_def split: if_splits\<close>)

lemma server_inv_log [simp]: "server_inv (semit fx p) = server_inv p"
  by (simp add: server_inv_def server_listed_def semit_def)

lemma end_server_inv:
  assumes "server_inv p" "sp_servers p i = Some s'" "srv_session_args s = None" "srv_pid s > 1 \<longrightarrow> i \<in> set (sp_active p)"
  shows "server_inv (put_server i s (p\<lparr>sp_watches := (sp_watches p)(srv_child_watch_id s' := None)\<rparr>))"
proof (rule server_invI)
  let ?p = "put_server i s (p\<lparr>sp_watches := (sp_watches p)(srv_child_watch_id s' := None)\<rparr>)"
  show "set (sp_active ?p) \<subseteq> dom (sp_servers ?p)" using server_invD(2) [OF assms(1)] by (auto simp: put_server_def)
next
  let ?p = "put_server i s (p\<lparr>sp_watches := (sp_watches p)(srv_child_watch_id s' := None)\<rparr>)"
  fix source j assume "sp_watches ?p source = Some j"
  then have "sp_watches p source = Some j" "source \<noteq> srv_child_watch_id s'" by (auto simp: put_server_def split: if_splits)
  with server_invD(5) [OF assms(1) this(1)] show
    "0 < source \<and> source < sp_next_source ?p \<and>
      (\<exists>s'. sp_servers ?p j = Some s' \<and> srv_child_watch_id s' = source \<and> srv_pid s' > 1)"
    using assms(2) by (auto simp: put_server_def)
qed (use server_invD [OF assms(1)] assms(3,4) in \<open>auto simp: put_server_def server_listed_def split: if_splits\<close>)

lemma ready_each_log:
  "ready_each w pid l p = Some p' \<Longrightarrow>
   p' = semit (map ServerReady (filter (\<lambda>i. srv_pid (the (sp_servers p i)) = pid) l)) p"
proof (induction l arbitrary: p)
  case (Cons i l)
  from Cons.prems obtain s q where s: "sp_servers p i = Some s"
    and q: "(if srv_pid s = pid then scdm_server_ready w i p else Some p) = Some q" and r: "ready_each w pid l q = Some p'"
    by (auto simp: bind_eq_Some_conv)
  have "q = (if srv_pid s = pid then semit [ServerReady i] p else p)"
    using q by (auto simp: scdm_server_ready_def bind_eq_Some_conv split: if_splits)
  with Cons.IH [OF r] s show ?case by (auto simp: semit_def)
qed (simp add: semit_def)

lemma child_watch_inv:
  assumes "server_inv p" "server_child_watch source status p = Some p'"
  shows "server_inv p'"
proof -
  from assms(2) obtain i s where i: "sp_watches p source = Some i" "sp_servers p i = Some s"
    and p': "p' = put_server i (s\<lparr>srv_pid := -1\<rparr>)
      (let p = p\<lparr>sp_watches := (sp_watches p)(source := None)\<rparr>
       in if wifexited status then semit [ServerExited i (wexitstatus status)] p
          else if wifsignaled status then semit [ServerDied i (wtermsig status)] p else p)"
    by (auto simp: server_child_watch_def bind_eq_Some_conv Let_def)
  have "source = srv_child_watch_id s" using server_invD(5) [OF assms(1) i(1)] i(2) by auto
  moreover have "srv_session_args s = None" using server_invD(1) [OF assms(1) i(2)] by (simp add: server_listed_def)
  ultimately have "server_inv (put_server i (s\<lparr>srv_pid := -1\<rparr>) (p\<lparr>sp_watches := (sp_watches p)(source := None)\<rparr>))"
    using end_server_inv [OF assms(1) i(2), of "s\<lparr>srv_pid := -1\<rparr>"] by simp
  moreover have "put_server j x (semit fx q) = semit fx (put_server j x q)" for j x fx q by (simp add: server_defs)
  ultimately show ?thesis by (simp add: p' Let_def)
qed

text \<open>A stop that does something: the server and its watch afterwards.\<close>

definition unwatched :: "nat \<Rightarrow> server \<Rightarrow> server_process \<Rightarrow> server_process" where
  "unwatched i s p =
     p\<lparr>sp_watches := (if srv_child_watch_id s = 0 then sp_watches p else (sp_watches p)(srv_child_watch_id s := None))\<rparr>"

lemma server_stop_cases:
  assumes "scdm_server_stop w i p = Some p'" "sp_servers p i = Some s" "srv_pid s > 1"
  obtains (killed) "xw_kill w (srv_pid s) 15 = None"
      and "p' = semit (ServerSignalled i (srv_pid s) # ServerReaped i (srv_pid s) #
          (if srv_display_device s = None then [] else [DisplayDeviceChanged i]))
        (put_server i (s\<lparr>srv_pid := -1, srv_child_watch_id := 0, srv_display_device := None\<rparr>) (unwatched i s p))"
  | (missed) "xw_kill w (srv_pid s) 15 \<noteq> None"
      and "p' = semit [ServerSignalled i (srv_pid s)] (put_server i (s\<lparr>srv_child_watch_id := 0\<rparr>) (unwatched i s p))"
proof (cases "xw_kill w (srv_pid s) 15")
  case None
  with assms show ?thesis
    by (intro killed) (auto simp: scdm_server_stop_def scdm_signal_pid_def server_died_def server_defs Let_def bind_eq_Some_conv
      unwatched_def intro!: server_process.equality server.equality split: if_splits)
next
  case (Some e)
  with assms show ?thesis
    by (intro missed) (auto simp: scdm_server_stop_def scdm_signal_pid_def server_defs Let_def unwatched_def
      intro!: server_process.equality server.equality split: if_splits)
qed

lemma prune_each:
  "count_list a i \<le> count_list l i \<Longrightarrow>
   fold (\<lambda>j p. if j = i then prune_active_servers_list i p else p) l (p\<lparr>sp_active := a\<rparr>) = p\<lparr>sp_active := removeAll i a\<rparr>"
proof (induction l arbitrary: a)
  case Nil
  then have "i \<notin> set a" by (simp add: count_list_0_iff)
  then show ?case by simp
next
  case (Cons j l)
  have r: "removeAll i (remove1 i a) = removeAll i a" by (induction a) auto
  have "count_list (remove1 i a) i = count_list a i - 1" by (induction a) auto
  then show ?case using Cons by (auto simp: prune_active_servers_list_def r)
qed

lemma server_stop_inv:
  assumes "server_inv p" "scdm_server_stop w i p = Some p'"
  shows "server_inv p' \<and> sp_active p' = sp_active p \<and> sp_weak_refs p' = sp_weak_refs p \<and>
    (\<forall>source. sp_watches p' source \<noteq> Some i)"
proof -
  obtain s where s: "sp_servers p i = Some s" using assms(2) by (auto simp: scdm_server_stop_def bind_eq_Some_conv)
  have own: "\<And>source. sp_watches p source = Some i \<Longrightarrow> source = srv_child_watch_id s \<and> srv_pid s > 1 \<and> 0 < source"
    using server_invD(5) [OF assms(1)] s by fastforce
  have l: "srv_session_args s = None" "srv_pid s > 1 \<longrightarrow> i \<in> set (sp_active p)"
    using server_invD(1) [OF assms(1) s] by (auto simp: server_listed_def)
  have u: "unwatched i s p = p\<lparr>sp_watches := (sp_watches p)(srv_child_watch_id s := None)\<rparr>"
    using server_invD(5) [OF assms(1), of 0]
    by (cases "sp_watches p 0") (auto simp: unwatched_def fun_upd_idem intro!: server_process.equality)
  have kept: "server_inv (put_server i r (unwatched i s p))"
    if "srv_session_args r = None" "srv_pid r > 1 \<longrightarrow> srv_pid s > 1" for r
    using end_server_inv [OF assms(1) s, of r] that l by (auto simp: u)
  have rest: "sp_active (semit fx (put_server i r (unwatched i s p))) = sp_active p"
    "sp_weak_refs (semit fx (put_server i r (unwatched i s p))) = sp_weak_refs p"
    "sp_watches (semit fx (put_server i r (unwatched i s p))) source \<noteq> Some i" for fx r source
    using own by (auto simp: server_defs u)
  show ?thesis
  proof (cases "srv_pid s > 1")
    case True
    from assms(2) s this show ?thesis by (cases rule: server_stop_cases) (use kept l rest in auto)
  next
    case False
    then have "p' = p" using assms(2) s by (simp add: scdm_server_stop_def)
    then show ?thesis using assms(1) own False by auto
  qed
qed

lemma server_spawn_inv:
  assumes "server_inv p" "sp_servers p i = Some s" "srv_pid s \<le> 1"
    and "\<And>argv env pid. xw_spawn w argv env = Some pid \<Longrightarrow> 1 < pid"
    and "scdm_server_spawn w vt i p = Some (ok, p')"
  shows "server_inv p'"
proof -
  let ?s = "scdm_server_init_command w s"
  let ?p = "put_server i ?s p"
  have l: "srv_session_args s = None" using server_invD(1) [OF assms(1,2)] by (simp add: server_listed_def)
  have a: "server_inv ?p" by (rule put_server_inv) (use assms l in \<open>auto simp: server_listed_def\<close>)
  have b: "server_inv (?p\<lparr>sp_active := sp_active ?p @ [i], sp_weak_refs := sp_weak_refs ?p @ [i], sp_thread_running := True\<rparr>)"
    using a by (auto simp: server_inv_def server_listed_def put_server_def)
  have t: "scdm_server_launch_sigusr1_thread_if_needed q = q\<lparr>sp_thread_running := True\<rparr>" for q
    by (simp add: scdm_server_launch_sigusr1_thread_if_needed_def)
  have c: "server_inv (p\<lparr>sp_active := sp_active p @ [i], sp_weak_refs := sp_weak_refs p @ [i], sp_thread_running := True,
      sp_watches := (sp_watches p)(sp_next_source p \<mapsto> i), sp_next_source := Suc (sp_next_source p),
      sp_servers := (sp_servers p)(i \<mapsto> ?s\<lparr>srv_pid := pid, srv_child_watch_id := sp_next_source p\<rparr>), sp_log := fx\<rparr>)"
    (is "server_inv ?q") if "1 < pid" for pid fx
  proof (rule server_invI)
    fix source j assume "sp_watches ?q source = Some j"
    then have "(if source = sp_next_source p then Some i else sp_watches p source) = Some j" by simp
    then consider "source = sp_next_source p" "j = i" | "sp_watches p source = Some j" "source \<noteq> sp_next_source p"
      by (cases "source = sp_next_source p") simp_all
    then show "0 < source \<and> source < sp_next_source ?q \<and>
        (\<exists>s. sp_servers ?q j = Some s \<and> srv_child_watch_id s = source \<and> srv_pid s > 1)"
    proof cases
      case 1
      then show ?thesis using that server_invD(4) [OF assms(1)] by simp
    next
      case 2
      from server_invD(5) [OF assms(1) 2(1)] have "j \<noteq> i" using assms(2,3) by auto
      with server_invD(5) [OF assms(1) 2(1)] show ?thesis by (auto simp: put_server_def)
    qed
  qed (use server_invD [OF assms(1)] l in \<open>auto simp: put_server_def server_listed_def split: if_splits\<close>)
  from assms(5) obtain argc cells where r: "scdm_server_resolve_command_line w vt s = Some (argc, cells, ?s)"
    by (auto simp: scdm_server_spawn_def assms(2) scdm_server_resolve_command_line_def bind_eq_Some_conv Let_def)
  show ?thesis
  proof (cases "hd cells = None")
    case True
    then show ?thesis using assms(5) a by (simp add: scdm_server_spawn_def assms(2) r l)
  next
    case False
    then obtain env where e: "get_server_environment w ?s = Some env"
      using assms(5) by (auto simp: scdm_server_spawn_def assms(2) r l bind_eq_Some_conv Let_def)
    show ?thesis
    proof (cases "xw_spawn w (map the (takeWhile (\<lambda>a. a \<noteq> None) cells)) env")
      case None
      then show ?thesis using assms(5) b False by (simp add: scdm_server_spawn_def assms(2) r l e t Let_def)
    next
      case (Some pid)
      then show ?thesis using assms(4) [OF Some] assms(5) c [of pid] False
        by (auto simp: scdm_server_spawn_def assms(2) r l e t Let_def server_defs)
    qed
  qed
qed

text \<open>A stop does not look at the lists.\<close>

lemma stop_without_lists:
  "scdm_server_stop w i (p\<lparr>sp_active := a, sp_weak_refs := b\<rparr>) =
   map_option (\<lambda>q. q\<lparr>sp_active := a, sp_weak_refs := b\<rparr>) (scdm_server_stop w i p)"
proof (cases "sp_servers p i")
  case (Some s)
  then show ?thesis
    by (cases "scdm_wait_on_pid (xw_waitpid w (srv_pid s))")
      (auto simp: scdm_server_stop_def server_died_def server_defs Let_def)
qed (simp add: scdm_server_stop_def)

lemma server_finalize_inv:
  assumes "server_inv p" "scdm_server_finalize w i p = Some p'"
  shows "server_inv p'"
proof -
  define q where "q = p\<lparr>sp_active := removeAll i (sp_active p), sp_weak_refs := removeAll i (sp_weak_refs p)\<rparr>"
  have f: "fold (\<lambda>j p. if j = i then prune_active_servers_list i p else p) (sp_weak_refs p) (p\<lparr>sp_active := sp_active p\<rparr>) =
      p\<lparr>sp_active := removeAll i (sp_active p)\<rparr>"
    using server_invD(3) [OF assms(1)] by (intro prune_each) simp
  then have "scdm_server_stop w i q \<bind> (\<lambda>p. Some (p\<lparr>sp_servers := (sp_servers p)(i := None)\<rparr>)) = Some p'"
    using assms(2) by (simp add: scdm_server_finalize_def q_def Let_def)
  then obtain r where r: "scdm_server_stop w i p = Some r"
    and p': "p' = r\<lparr>sp_active := sp_active q, sp_weak_refs := sp_weak_refs q, sp_servers := (sp_servers r)(i := None)\<rparr>"
    unfolding q_def stop_without_lists by (auto simp: bind_eq_Some_conv)
  from server_stop_inv [OF assms(1) r] have "server_inv r" "sp_active q = removeAll i (sp_active r)"
    "sp_weak_refs q = removeAll i (sp_weak_refs r)" "\<And>source. sp_watches r source \<noteq> Some i"
    by (auto simp: q_def)
  then show ?thesis by (auto simp: p' server_inv_def server_listed_def)
qed

lemma set_property_keeps [simp]:
  "srv_pid (scdm_server_set_property x s) = srv_pid s"
  "srv_child_watch_id (scdm_server_set_property x s) = srv_child_watch_id s"
  "srv_session_args (scdm_server_set_property x s) = srv_session_args s"
  by (cases x; simp)+

lemma server_step_inv:
  assumes "server_step p p'" "server_inv p"
  shows "server_inv p'"
  using assms
proof (cases rule: server_step.cases)
  case (ServerNew i w display_name seat_id auth_file initial)
  then show ?thesis unfolding scdm_server_new_def ServerNew(1)
    by (intro put_server_inv [OF assms(2)]) (auto simp: server_listed_def scdm_server_init_def)
next
  case (ServerSet i s x)
  then show ?thesis using server_invD(1) [OF assms(2) ServerSet(2)]
    by (auto intro!: put_server_inv [OF assms(2)] simp: server_listed_def)
next
  case (ServerStart i s w ok)
  from ServerStart(4) ServerStart(1) obtain vt where "scdm_server_spawn w vt i p = Some (ok, p')"
    by (auto simp: scdm_server_start_def)
  from server_spawn_inv [OF assms(2) ServerStart(1,2) ServerStart(3) this] show ?thesis .
next
  case (ServerUsr1 w pid)
  then have "\<exists>fx. p' = semit fx p" unfolding got_sigusr1_def by (blast dest: ready_each_log)
  then show ?thesis using assms(2) by auto
qed (use assms(2) child_watch_inv server_stop_inv server_finalize_inv in blast)+

lemma server_reachable_inv: "server_reachable p \<Longrightarrow> server_inv p"
proof (induction rule: server_reachable.induct)
  case NoServers
  then show ?case by (simp add: server_inv_def no_servers_def)
qed (rule server_step_inv)

text \<open>C39. When a process signals that it is ready, the display of the server with that process is told and no other:
  each server that has a process is in the list that is searched.\<close>

theorem ready_server_is_told:
  assumes "server_reachable p" "got_sigusr1 w pid p = Some p'" "1 < pid"
  shows "\<exists>fx. sp_log p' = sp_log p @ fx \<and>
    (\<forall>e. e \<in> set fx \<longleftrightarrow> (\<exists>i s. e = ServerReady i \<and> sp_servers p i = Some s \<and> srv_pid s = pid)) \<and>
    sp_servers p' = sp_servers p"
proof -
  note inv = server_reachable_inv [OF assms(1)]
  let ?fx = "map ServerReady (filter (\<lambda>i. srv_pid (the (sp_servers p i)) = pid) (sp_active p))"
  have p': "p' = semit ?fx p" using assms(2) unfolding got_sigusr1_def by (rule ready_each_log)
  have "e \<in> set ?fx \<longleftrightarrow> (\<exists>i s. e = ServerReady i \<and> sp_servers p i = Some s \<and> srv_pid s = pid)" for e
  proof
    assume "e \<in> set ?fx"
    then show "\<exists>i s. e = ServerReady i \<and> sp_servers p i = Some s \<and> srv_pid s = pid"
      using server_invD(2) [OF inv] by fastforce
  next
    assume "\<exists>i s. e = ServerReady i \<and> sp_servers p i = Some s \<and> srv_pid s = pid"
    then obtain i s where e: "e = ServerReady i" "sp_servers p i = Some s" "srv_pid s = pid" by blast
    then have "i \<in> set (sp_active p)" using server_invD(1) [OF inv e(2)] assms(3) by (simp add: server_listed_def)
    then show "e \<in> set ?fx" using e by simp
  qed
  then show ?thesis unfolding p' by (intro exI [of _ ?fx]) (simp add: semit_def)
qed

text \<open>The example server, started.\<close>

definition started_servers :: server_process where
  "started_servers = snd (the (scdm_server_start example_server_world 0 example_servers))"

lemma started_reachable: "server_reachable started_servers"
proof -
  have "server_step no_servers example_servers"
    unfolding example_servers_def by (rule ServerNew) (simp_all add: no_servers_def)
  then have e: "server_reachable example_servers" using NoServers MoreServers by blast
  obtain p' where p': "scdm_server_start example_server_world 0 example_servers = Some (True, p')"
    using example_start by blast
  have "server_step example_servers p'"
    by (rule ServerStart [where i = 0 and w = example_server_world and ok = True and s = "the (sp_servers example_servers 0)"])
      (use p' in \<open>auto simp: example_server_world_def example_servers_def scdm_server_new_def scdm_server_init_def
         put_server_def no_servers_def\<close>)
  then show ?thesis using MoreServers [OF e] by (simp add: started_servers_def p')
qed

lemma started_pid: "map_option srv_pid (sp_servers started_servers 0) = Some 1000"
  by code_simp

theorem ready_server_is_told_witness:
  "\<exists>p' fx. got_sigusr1 example_server_world 1000 started_servers = Some p' \<and>
    sp_log p' = sp_log started_servers @ fx \<and> ServerReady 0 \<in> set fx"
proof -
  have "got_sigusr1 example_server_world 1000 started_servers \<noteq> None"
  proof -
    have "map_option sp_log (got_sigusr1 example_server_world 1000 started_servers) =
        Some (sp_log started_servers @ [ServerReady 0])" by code_simp
    then show ?thesis by auto
  qed
  then obtain p' where p': "got_sigusr1 example_server_world 1000 started_servers = Some p'" by blast
  from ready_server_is_told [OF started_reachable p'] obtain fx where "sp_log p' = sp_log started_servers @ fx"
    "\<forall>e. e \<in> set fx \<longleftrightarrow> (\<exists>i s. e = ServerReady i \<and> sp_servers started_servers i = Some s \<and> srv_pid s = 1000)"
    by auto
  then show ?thesis using p' started_pid by auto
qed

text \<open>A server that is stopped is asked to terminate, waited for and then has no process. If its process cannot be
  signalled the stop looks the same to the caller, but the process stays in the books of the daemon, and nothing is left
  that would take notice of its end.\<close>

theorem stopped_server:
  assumes "server_reachable p" "sp_servers p i = Some s" "1 < srv_pid s" "scdm_server_stop w i p = Some p'"
  shows "\<exists>s' fx. sp_servers p' i = Some s' \<and> sp_log p' = sp_log p @ ServerSignalled i (srv_pid s) # fx \<and>
    (xw_kill w (srv_pid s) 15 = None \<longrightarrow> srv_pid s' = -1 \<and> ServerReaped i (srv_pid s) \<in> set fx \<and>
       scdm_server_stop w i p' = Some p') \<and>
    (xw_kill w (srv_pid s) 15 \<noteq> None \<longrightarrow> srv_pid s' = srv_pid s \<and> fx = [] \<and>
       (\<forall>source status p''. server_child_watch source status p' = Some p'' \<longrightarrow> sp_servers p'' i = Some s'))"
  using assms(4,2,3)
proof (cases rule: server_stop_cases)
  case killed
  then show ?thesis by (auto simp: server_defs unwatched_def scdm_server_stop_def)
next
  case missed
  have n: "sp_watches p' source \<noteq> Some i" for source
    using server_stop_inv [OF server_reachable_inv [OF assms(1)] assms(4)] by blast
  have s': "sp_servers p' i = Some (s\<lparr>srv_child_watch_id := 0\<rparr>)" by (simp add: missed(2) server_defs)
  have "sp_servers p'' i = Some (s\<lparr>srv_child_watch_id := 0\<rparr>)"
    if "server_child_watch source status p' = Some p''" for source status p''
    using that n [of source] s' by (auto simp: server_child_watch_def bind_eq_Some_conv Let_def server_defs split: if_splits)
  then show ?thesis using missed s' by (auto simp: server_defs unwatched_def)
qed

theorem stopped_server_witness:
  "\<exists>s' p'. scdm_server_stop example_server_world 0 started_servers = Some p' \<and> sp_servers p' 0 = Some s' \<and> srv_pid s' = -1"
proof -
  obtain s where s: "sp_servers started_servers 0 = Some s" "srv_pid s = 1000" using started_pid by auto
  have "map_option sp_next_source (scdm_server_stop example_server_world 0 started_servers) = Some 2" by code_simp
  then obtain p' where p': "scdm_server_stop example_server_world 0 started_servers = Some p'" by auto
  have k: "xw_kill example_server_world (srv_pid s) 15 = None" by (simp add: example_server_world_def)
  from stopped_server [OF started_reachable s(1) _ p'] s(2) k p' show ?thesis by auto
qed

end
