(* ===== verification/X_Session.thy ===== *)
theory X_Session
  imports Settings Common_Script
begin

text \<open>
  The program around the X server, the message bus and the processes of a user's session,
  \<open>src/daemon/scdm-x-session.c\<close>: it starts them one after the other, tells the daemon its display, and waits in its
  main loop for the first of them to end. What the system, GLib, the bus and the daemon answer is a record of
  arguments. Processes, files and calls go to a log. \<open>None\<close> is a main loop that has not ended, or a null
  pointer where GLib takes a string.
\<close>

section \<open>State\<close>

datatype session_process = XServerProcess | BusProcess | UserSession

datatype xs_effect =
    AuthFileCreated string | AuthEntryWritten string bool string "u8 list"
  | Spawned session_process int "string list" "(string \<times> string) list"
  | Ended session_process int | TermSent session_process int | WaitedFor session_process int
  | ActivationEnvironment string string | DisplayRegistered "(string \<times> string) list" | SessionRegistered

record x_state =
  xs_x_subprocess :: "int option"
  xs_auth_file :: "string option"
  xs_display_name :: "string option"
  xs_bus_subprocess :: "int option"
  xs_bus_connection :: bool
  xs_display_manager_proxy :: bool
  xs_bus_address :: "string option"
  xs_environment :: "string list option"
  xs_session_subprocess :: "int option"
  xs_session_command :: string
  xs_session_exit_status :: int
  xs_register_session :: bool
  xs_cancelled :: bool
  xs_quit :: bool
  xs_debug_enabled :: bool
  xs_log :: "xs_effect list"

text \<open>The first line that a process writes.\<close>

datatype line_answer = LineError | NoLine | FirstLine string

text \<open>\<open>xv_auth_write\<close> tells which of the two entries is written, \<open>xv_pipe\<close> whether a pipe can be made.\<close>

record x_world =
  xv_environ :: "(string \<times> string) list"
  xv_runtime_dir :: string
  xv_build_filename :: "string list \<Rightarrow> string"
  xv_open :: "string \<Rightarrow> bool"
  xv_fdopen :: bool
  xv_hostname :: "string option"
  xv_random :: "u8 list option"
  xv_auth_write :: "bool \<Rightarrow> bool"
  xv_pipe :: "session_process \<Rightarrow> bool"
  xv_spawn :: "session_process \<Rightarrow> string list \<Rightarrow> (string \<times> string) list \<Rightarrow> int option"
  xv_line :: "session_process \<Rightarrow> line_answer"
  xv_session_bus :: bool
  xv_connect :: "string \<Rightarrow> bool"
  xv_import :: "string list option"
  xv_update :: bool
  xv_display_manager :: bool
  xv_register :: bool
  xv_parse_argv :: "string \<Rightarrow> string list option"
  xv_local_only :: bool
  xv_x_server :: string
  xv_conf_dir :: string
  xv_settings :: bool
  xv_debug :: bool

definition xemit :: "xs_effect list \<Rightarrow> x_state \<Rightarrow> x_state" where
  "xemit fx s = s\<lparr>xs_log := xs_log s @ fx\<rparr>"

section \<open>The authority file\<close>

definition create_auth_file :: "x_world \<Rightarrow> x_state \<Rightarrow> string option \<times> x_state" where
  "create_auth_file w s =
     (let auth_file = xv_build_filename w [xv_build_filename w [xv_runtime_dir w, ''scdm''], ''Xauthority'']
      in if \<not> xv_open w auth_file then (None, s)
         else if \<not> xv_fdopen w then (None, xemit [AuthFileCreated auth_file] s)
         else (Some auth_file, xemit [AuthFileCreated auth_file] s))"

text \<open>Two entries of the file with the same cookie: one for the host, the other for every host.\<close>

definition prepare_auth_file :: "x_world \<Rightarrow> x_state \<Rightarrow> string option \<times> x_state" where
  "prepare_auth_file w s =
     (case create_auth_file w s of
        (None, s) \<Rightarrow> (None, s)
      | (Some filename, s) \<Rightarrow>
          let localhost = (case xv_hostname w of None \<Rightarrow> ''localhost'' | Some h \<Rightarrow> h)
          in (case xv_random w of
                None \<Rightarrow> (None, s)
              | Some data \<Rightarrow>
                  if \<not> xv_auth_write w False then (None, s)
                  else let s = xemit [AuthEntryWritten filename False localhost data] s
                       in if \<not> xv_auth_write w True then (None, s)
                          else (Some filename, xemit [AuthEntryWritten filename True localhost data] s)))"

section \<open>The X server\<close>

datatype finished = Cancelled | ExitedWith int | KilledBy int

definition on_x_server_finished :: "finished \<Rightarrow> x_state \<Rightarrow> x_state" where
  "on_x_server_finished f s =
     (case (f, xs_x_subprocess s) of
        (Cancelled, _) \<Rightarrow> s\<lparr>xs_quit := True\<rparr>
      | (_, None) \<Rightarrow> s\<lparr>xs_quit := True\<rparr>
      | (_, Some pid) \<Rightarrow> xemit [Ended XServerProcess pid] (s\<lparr>xs_x_subprocess := None, xs_quit := True\<rparr>))"

text \<open>\<open>atoi\<close> is \<open>strtol\<close> cut to an \<open>int\<close>.\<close>

definition x_server_vt :: "x_world \<Rightarrow> string option" where
  "x_server_vt w =
     (case map_of (xv_environ w) ''XDG_VTNR'' of
        None \<Rightarrow> None
      | Some v \<Rightarrow> let vt = int_of_long (fst (strtol v)) in if vt > 0 \<and> vt < 64 then Some (''vt'' @ show_int vt) else None)"

text \<open>The vector: the file is the null pointer when it could not be prepared, and ends what the server sees.\<close>

definition x_server_cells :: "x_world \<Rightarrow> bool \<Rightarrow> bool \<Rightarrow> string option \<Rightarrow> string option list" where
  "x_server_cells w debug_enabled allow_remote_connections auth_file =
     Some (xv_x_server w) # (case x_server_vt w of None \<Rightarrow> [] | vt \<Rightarrow> [vt]) @
     [Some ''-displayfd'', Some ''3'', Some ''-auth'', auth_file] @
     map Some
       ((if xv_local_only w then if allow_remote_connections then [''-listen'', ''tcp''] else []
         else if \<not> allow_remote_connections then [''-nolisten'', ''tcp''] else []) @
        [''-background'', ''none'', ''-noreset'', ''-keeptty'', ''-novtswitch'', ''-verbose'', if debug_enabled then ''7'' else ''3''] @
        (if debug_enabled then [''-core''] else [])) @ [None]"

definition spawn_x_server :: "x_world \<Rightarrow> bool \<Rightarrow> x_state \<Rightarrow> bool \<times> x_state" where
  "spawn_x_server w allow_remote_connections s =
     (case prepare_auth_file w s of (auth_file, s) \<Rightarrow>
        if \<not> xv_pipe w XServerProcess then (False, s)
        else
          let argv = map the (takeWhile (\<lambda>a. a \<noteq> None) (x_server_cells w (xs_debug_enabled s) allow_remote_connections auth_file));
              env = AList.update ''XORG_RUN_AS_USER_OK'' ''1'' (xv_environ w)
          in (case xv_spawn w XServerProcess argv env of
                None \<Rightarrow> (False, s)
              | Some pid \<Rightarrow>
                  let s = xemit [Spawned XServerProcess pid argv env] s
                  in (case xv_line w XServerProcess of
                        FirstLine display_number \<Rightarrow>
                          (True, s\<lparr>xs_display_name := Some ('':'' @ display_number), xs_auth_file := auth_file, xs_x_subprocess := Some pid\<rparr>)
                      | _ \<Rightarrow> (False, s))))"

section \<open>The message bus\<close>

definition on_bus_finished :: "finished \<Rightarrow> x_state \<Rightarrow> x_state" where
  "on_bus_finished f s =
     (case (f, xs_bus_subprocess s) of
        (Cancelled, _) \<Rightarrow> s\<lparr>xs_quit := True\<rparr>
      | (_, None) \<Rightarrow> s\<lparr>xs_quit := True\<rparr>
      | (_, Some pid) \<Rightarrow> xemit [Ended BusProcess pid] (s\<lparr>xs_bus_subprocess := None, xs_quit := True\<rparr>))"

text \<open>GLib does not take the null pointer for a string.\<close>

definition update_bus_environment :: "x_world \<Rightarrow> x_state \<Rightarrow> (bool \<times> x_state) option" where
  "update_bus_environment w s = do {
     display_name \<leftarrow> xs_display_name s;
     auth_file \<leftarrow> xs_auth_file s;
     Some (if xv_update w then (True, xemit [ActivationEnvironment display_name auth_file] s) else (False, s))
   }"

text \<open>\<open>fd\<close> is the descriptor for the address: 4 beside an X server.\<close>

definition spawn_bus :: "x_world \<Rightarrow> string \<Rightarrow> x_state \<Rightarrow> bool \<times> x_state" where
  "spawn_bus w fd s =
     (if xv_session_bus w then (True, s\<lparr>xs_bus_connection := True\<rparr>)
      else if \<not> xv_pipe w BusProcess then (False, s)
      else
        let argv = [''dbus-daemon'', ''--print-address'', fd, ''--session'']
        in (case xv_spawn w BusProcess argv (xv_environ w) of
              None \<Rightarrow> (False, s)
            | Some pid \<Rightarrow>
                let s = xemit [Spawned BusProcess pid argv (xv_environ w)] s
                in (case xv_line w BusProcess of
                      FirstLine bus_address \<Rightarrow>
                        let s = s\<lparr>xs_bus_address := Some bus_address, xs_bus_subprocess := Some pid\<rparr>
                        in if xv_connect w bus_address then (True, s\<lparr>xs_bus_connection := True\<rparr>) else (False, s)
                    | _ \<Rightarrow> (False, s))))"

definition import_environment :: "x_world \<Rightarrow> x_state \<Rightarrow> bool \<times> x_state" where
  "import_environment w s =
     (case xv_import w of None \<Rightarrow> (False, s) | Some env \<Rightarrow> (True, s\<lparr>xs_environment := Some env\<rparr>))"

section \<open>The session\<close>

text \<open>The end by a signal leaves the exit status as it was.\<close>

definition on_session_finished :: "finished \<Rightarrow> x_state \<Rightarrow> x_state" where
  "on_session_finished f s =
     (case (f, xs_session_subprocess s) of
        (Cancelled, _) \<Rightarrow> s\<lparr>xs_quit := True\<rparr>
      | (_, None) \<Rightarrow> s\<lparr>xs_quit := True\<rparr>
      | (ExitedWith n, Some pid) \<Rightarrow>
          xemit [Ended UserSession pid] (s\<lparr>xs_session_exit_status := n, xs_session_subprocess := None, xs_quit := True\<rparr>)
      | (KilledBy n, Some pid) \<Rightarrow> xemit [Ended UserSession pid] (s\<lparr>xs_session_subprocess := None, xs_quit := True\<rparr>))"

definition launcher_setenv :: "string \<Rightarrow> string \<Rightarrow> bool \<Rightarrow> (string \<times> string) list \<Rightarrow> (string \<times> string) list" where
  "launcher_setenv k v overwrite env = (if \<not> overwrite \<and> k \<in> fst ` set env then env else AList.update k v env)"

definition session_variables :: "string list" where
  "session_variables = [''DISPLAY'', ''XAUTHORITY'', ''WAYLAND_DISPLAY'', ''WAYLAND_SOCKET'', ''GNOME_SHELL_SESSION_MODE'']"

text \<open>An entry without the sign, or without a name before it, gives no variable.\<close>

definition import_entry :: "string \<Rightarrow> (string \<times> string) list \<Rightarrow> (string \<times> string) list" where
  "import_entry entry env =
     (if entry = [] then env
      else case split2 (CHR ''='') entry of (k, None) \<Rightarrow> env
       | (k, Some v) \<Rightarrow> if k = [] then env else launcher_setenv k v False env)"

text \<open>The variables of the user's manager, less those of earlier sessions.\<close>

definition import_variables :: "x_world \<Rightarrow> string list option \<Rightarrow> (string \<times> string) list \<Rightarrow> (string \<times> string) list" where
  "import_variables w imported env =
     (case imported of
        None \<Rightarrow> env
      | Some entries \<Rightarrow>
          fold (\<lambda>k env. if map_of (xv_environ w) k = None then AList.delete k env else env) session_variables
            (fold import_entry entries env))"

definition session_environment :: "x_world \<Rightarrow> string \<Rightarrow> string \<Rightarrow> x_state \<Rightarrow> (string \<times> string) list" where
  "session_environment w display_name auth_file s =
     (let env = import_variables w (xs_environment s) (xv_environ w);
          env = launcher_setenv ''XAUTHORITY'' auth_file True (launcher_setenv ''DISPLAY'' display_name True env);
          env = (case xs_bus_address s of None \<Rightarrow> env | Some a \<Rightarrow> launcher_setenv ''DBUS_SESSION_BUS_ADDRESS'' a True env)
      in (case map_of (xv_environ w) ''XDG_VTNR'' of None \<Rightarrow> env | Some vt \<Rightarrow> launcher_setenv ''WINDOWPATH'' vt True env))"

definition spawn_session :: "x_world \<Rightarrow> bool \<Rightarrow> x_state \<Rightarrow> (bool \<times> x_state) option" where
  "spawn_session w run_script s = do {
     display_name \<leftarrow> xs_display_name s;
     auth_file \<leftarrow> xs_auth_file s;
     let env = session_environment w display_name auth_file s;
     let argv = (if run_script then Some [xv_conf_dir w @ ''/Xsession'', xs_session_command s]
                 else xv_parse_argv w (xs_session_command s));
     Some (case argv of
             None \<Rightarrow> (False, s)
           | Some argv \<Rightarrow>
               (case xv_spawn w UserSession argv env of
                  None \<Rightarrow> (False, s)
                | Some pid \<Rightarrow> (True, xemit [Spawned UserSession pid argv env] (s\<lparr>xs_session_subprocess := Some pid\<rparr>))))
   }"

section \<open>The end\<close>

definition to_process :: "(session_process \<Rightarrow> int \<Rightarrow> xs_effect) \<Rightarrow> session_process \<Rightarrow> int option \<Rightarrow> xs_effect list" where
  "to_process f p pid = (case pid of None \<Rightarrow> [] | Some n \<Rightarrow> [f p n])"

definition signal_subprocesses :: "x_state \<Rightarrow> x_state" where
  "signal_subprocesses s =
     xemit (to_process TermSent UserSession (xs_session_subprocess s) @ to_process TermSent BusProcess (xs_bus_subprocess s) @
            to_process TermSent XServerProcess (xs_x_subprocess s)) s"

definition wait_on_subprocesses :: "x_state \<Rightarrow> x_state" where
  "wait_on_subprocesses s =
     xemit (to_process WaitedFor XServerProcess (xs_x_subprocess s) @ to_process WaitedFor BusProcess (xs_bus_subprocess s) @
            to_process WaitedFor UserSession (xs_session_subprocess s)) s"

text \<open>The bus process and the address stay.\<close>

definition clear_state :: "x_state \<Rightarrow> x_state" where
  "clear_state s =
     s\<lparr>xs_bus_connection := False, xs_session_subprocess := None, xs_x_subprocess := None, xs_environment := None,
       xs_auth_file := None, xs_display_name := None, xs_register_session := False\<rparr>"

section \<open>The daemon\<close>

definition register_display :: "x_world \<Rightarrow> x_state \<Rightarrow> (bool \<times> x_state) option" where
  "register_display w s = do {
     display_name \<leftarrow> xs_display_name s;
     Some (if xv_register w
           then (True, xemit [DisplayRegistered [(''session-type'', ''x11''), (''x11-display-name'', display_name)]] s)
           else (False, s))
   }"

definition on_sigterm :: "x_state \<Rightarrow> x_state" where
  "on_sigterm s = s\<lparr>xs_cancelled := True, xs_quit := True\<rparr>"

text \<open>The source is removed; its identifier stays, but that is of no consequence. A call that was cancelled is not made.\<close>

definition register_session_timeout_cb :: "x_state \<Rightarrow> x_state" where
  "register_session_timeout_cb s = (if xs_cancelled s then s else xemit [SessionRegistered] s)"

definition connect_to_display_manager :: "x_world \<Rightarrow> x_state \<Rightarrow> bool \<times> x_state" where
  "connect_to_display_manager w s =
     (if xv_display_manager w then (True, s\<lparr>xs_display_manager_proxy := True\<rparr>) else (False, s))"

section \<open>The program\<close>

datatype loop_event = XServerDone finished | BusDone finished | SessionDone finished | SigTerm | RegisterTimeout

text \<open>A process that is not there does not end, and without the option there is no timer. A wait for a process is
  reported as cancelled from the signal on.\<close>

definition reported :: "x_state \<Rightarrow> finished \<Rightarrow> finished" where
  "reported s f = (if xs_cancelled s then Cancelled else f)"

fun handle_event :: "loop_event \<Rightarrow> x_state \<Rightarrow> x_state" where
  "handle_event (XServerDone f) s = (if xs_x_subprocess s = None then s else on_x_server_finished (reported s f) s)"
| "handle_event (BusDone f) s = (if xs_bus_subprocess s = None then s else on_bus_finished (reported s f) s)"
| "handle_event (SessionDone f) s = (if xs_session_subprocess s = None then s else on_session_finished (reported s f) s)"
| "handle_event SigTerm s = on_sigterm s"
| "handle_event RegisterTimeout s = (if xs_register_session s then register_session_timeout_cb (s\<lparr>xs_register_session := False\<rparr>) else s)"

text \<open>The main loop runs until it is told to quit. What is ready at the same time is handled in one turn of the loop, all of it,
  before the loop looks whether it is to go on. Signals and ends of processes before it runs wait for it.\<close>

fun run_main_loop :: "loop_event list list \<Rightarrow> x_state \<Rightarrow> x_state option" where
  "run_main_loop [] s = None"
| "run_main_loop (turn # turns) s =
     (let s = fold handle_event turn s in if xs_quit s then Some s else run_main_loop turns s)"

definition EX_OK :: int where "EX_OK = 0"
definition EX_USAGE :: int where "EX_USAGE = 64"
definition EX_DATAERR :: int where "EX_DATAERR = 65"
definition EX_SOFTWARE :: int where "EX_SOFTWARE = 70"

definition new_x_state :: "x_world \<Rightarrow> string \<Rightarrow> x_state" where
  "new_x_state w session_command =
     \<lparr>xs_x_subprocess = None, xs_auth_file = None, xs_display_name = None, xs_bus_subprocess = None, xs_bus_connection = False,
      xs_display_manager_proxy = False, xs_bus_address = None, xs_environment = None, xs_session_subprocess = None,
      xs_session_command = session_command, xs_session_exit_status = 0, xs_register_session = False, xs_cancelled = False,
      xs_quit = False, xs_debug_enabled = xv_debug w, xs_log = []\<rparr>"

text \<open>From \<open>out\<close> on.\<close>

definition finish_session :: "int \<Rightarrow> x_state \<Rightarrow> int \<times> x_state" where
  "finish_session exit_status s = (exit_status, clear_state (wait_on_subprocesses (signal_subprocesses s)))"

text \<open>The main loop and what follows.\<close>

definition run_session :: "bool \<Rightarrow> loop_event list list \<Rightarrow> x_state \<Rightarrow> (int \<times> x_state) option" where
  "run_session register_session events s =
     map_option (\<lambda>s. finish_session (if xs_session_subprocess s = None then xs_session_exit_status s else EX_OK) s)
       (run_main_loop events (if register_session then s\<lparr>xs_register_session := True\<rparr> else s))"

text \<open>From the import of the environment on, when the X server and the bus are there.\<close>

definition x_session_on_bus :: "x_world \<Rightarrow> bool \<Rightarrow> bool \<Rightarrow> loop_event list list \<Rightarrow> x_state \<Rightarrow> (int \<times> x_state) option" where
  "x_session_on_bus w run_script register_session events s = do {
     (ok, s) \<leftarrow> update_bus_environment w (snd (import_environment w s));
     if \<not> ok then Some (finish_session EX_SOFTWARE s)
     else (case connect_to_display_manager w s of (ok, s) \<Rightarrow>
       if \<not> ok then Some (finish_session EX_OK s)
       else do {
         (ok, s) \<leftarrow> register_display w s;
         if \<not> ok then Some (finish_session EX_SOFTWARE s)
         else do {
           (ok, s) \<leftarrow> spawn_session w run_script s;
           if \<not> ok then Some (finish_session EX_SOFTWARE s)
           else run_session register_session events s
         }
       })
   }"

definition x_session_main ::
  "x_world \<Rightarrow> string list \<Rightarrow> bool \<Rightarrow> bool \<Rightarrow> bool \<Rightarrow> loop_event list list \<Rightarrow> (int \<times> x_state) option" where
  "x_session_main w args run_script allow_remote_connections register_session events =
     (case args of
        [session_command] \<Rightarrow>
          let s = new_x_state w session_command
          in if \<not> xv_settings w then Some (finish_session EX_DATAERR s)
          else (case spawn_x_server w allow_remote_connections s of (ok, s) \<Rightarrow>
            if \<not> ok then Some (finish_session EX_SOFTWARE s)
            else (case spawn_bus w ''4'' s of (ok, s) \<Rightarrow>
              if \<not> ok then Some (finish_session EX_SOFTWARE s)
              else x_session_on_bus w run_script register_session events s))
      | _ \<Rightarrow> Some (EX_USAGE, new_x_state w []))"

end
