(* ===== verification/Wayland_Session.thy ===== *)
theory Wayland_Session
  imports X_Session
begin

text \<open>
  The same program for sessions that are their own display server, \<open>src/daemon/scdm-wayland-session.c\<close>. The functions
  that it has word for word in common with the other (the message bus, the import of the environment, the ends of processes,
  the connection to the daemon) are those of \<open>X_Session\<close>; here is what differs. The session runs before the daemon
  knows of the display.
\<close>

definition session_environment_wayland :: "x_world \<Rightarrow> x_state \<Rightarrow> (string \<times> string) list" where
  "session_environment_wayland w s =
     (let env = import_variables w (xs_environment s) (xv_environ w)
      in case xs_bus_address s of None \<Rightarrow> env | Some a \<Rightarrow> launcher_setenv ''DBUS_SESSION_BUS_ADDRESS'' a True env)"

definition spawn_session_wayland :: "x_world \<Rightarrow> x_state \<Rightarrow> bool \<times> x_state" where
  "spawn_session_wayland w s =
     (case xv_parse_argv w (xs_session_command s) of
        None \<Rightarrow> (False, s)
      | Some argv \<Rightarrow>
          let env = session_environment_wayland w s
          in (case xv_spawn w UserSession argv env of
                None \<Rightarrow> (False, s)
              | Some pid \<Rightarrow> (True, xemit [Spawned UserSession pid argv env] (s\<lparr>xs_session_subprocess := Some pid\<rparr>))))"

definition signal_subprocesses_wayland :: "x_state \<Rightarrow> x_state" where
  "signal_subprocesses_wayland s =
     xemit (to_process TermSent UserSession (xs_session_subprocess s) @ to_process TermSent BusProcess (xs_bus_subprocess s)) s"

definition wait_on_subprocesses_wayland :: "x_state \<Rightarrow> x_state" where
  "wait_on_subprocesses_wayland s =
     xemit (to_process WaitedFor BusProcess (xs_bus_subprocess s) @ to_process WaitedFor UserSession (xs_session_subprocess s)) s"

definition register_display_wayland :: "x_world \<Rightarrow> x_state \<Rightarrow> bool \<times> x_state" where
  "register_display_wayland w s =
     (if xv_register w then (True, xemit [DisplayRegistered [(''session-type'', ''wayland'')]] s) else (False, s))"

definition clear_state_wayland :: "x_state \<Rightarrow> x_state" where
  "clear_state_wayland s =
     s\<lparr>xs_bus_connection := False, xs_session_subprocess := None, xs_environment := None, xs_register_session := False\<rparr>"

definition finish_session_wayland :: "int \<Rightarrow> x_state \<Rightarrow> int \<times> x_state" where
  "finish_session_wayland exit_status s =
     (exit_status, clear_state_wayland (wait_on_subprocesses_wayland (signal_subprocesses_wayland s)))"

definition run_session_wayland :: "bool \<Rightarrow> loop_event list list \<Rightarrow> x_state \<Rightarrow> (int \<times> x_state) option" where
  "run_session_wayland register_session events s =
     map_option (\<lambda>s. finish_session_wayland (if xs_session_subprocess s = None then xs_session_exit_status s else EX_OK) s)
       (run_main_loop events (if register_session then s\<lparr>xs_register_session := True\<rparr> else s))"

definition wayland_session_main :: "x_world \<Rightarrow> string list \<Rightarrow> bool \<Rightarrow> loop_event list list \<Rightarrow> (int \<times> x_state) option" where
  "wayland_session_main w args register_session events =
     (case args of
        [session_command] \<Rightarrow>
          let s = new_x_state w session_command
          in if \<not> xv_settings w then Some (finish_session_wayland EX_DATAERR s)
          else (case spawn_bus w ''3'' s of (ok, s) \<Rightarrow>
            if \<not> ok then Some (finish_session_wayland EX_SOFTWARE s)
            else (case spawn_session_wayland w (snd (import_environment w s)) of (ok, s) \<Rightarrow>
              if \<not> ok then Some (finish_session_wayland EX_SOFTWARE s)
              else (case connect_to_display_manager w s of (ok, s) \<Rightarrow>
                if \<not> ok then Some (finish_session_wayland EX_OK s)
                else (case register_display_wayland w s of (ok, s) \<Rightarrow>
                  if \<not> ok then Some (finish_session_wayland EX_SOFTWARE s)
                  else run_session_wayland register_session events s))))
      | _ \<Rightarrow> Some (EX_USAGE, new_x_state w []))"

end
