(* ===== verification/X_Session_Props.thy ===== *)
theory X_Session_Props
  imports Wayland_Session
begin

text \<open>
  The properties of the two programs around a session: no process is left behind, the exit status, the environment of
  the session, and the authority of its X server.
\<close>

section \<open>Processes\<close>

text \<open>The process of each kind that the state knows.\<close>

fun slot :: "session_process \<Rightarrow> x_state \<Rightarrow> int option" where
  "slot XServerProcess s = xs_x_subprocess s"
| "slot BusProcess s = xs_bus_subprocess s"
| "slot UserSession s = xs_session_subprocess s"

text \<open>A process that did not write the line it is to write.\<close>

definition mute :: "x_world \<Rightarrow> session_process \<Rightarrow> bool" where
  "mute w p \<longleftrightarrow> p \<noteq> UserSession \<and> (\<forall>l. xv_line w p \<noteq> FirstLine l)"

definition tracked :: "x_world \<Rightarrow> x_state \<Rightarrow> bool" where
  "tracked w s = (\<forall>p pid argv env. Spawned p pid argv env \<in> set (xs_log s) \<longrightarrow>
     Ended p pid \<in> set (xs_log s) \<or> slot p s = Some pid \<or> mute w p)"

definition nothing_left :: "x_world \<Rightarrow> x_state \<Rightarrow> bool" where
  "nothing_left w s = (\<forall>p pid argv env. Spawned p pid argv env \<in> set (xs_log s) \<longrightarrow>
     Ended p pid \<in> set (xs_log s) \<or> TermSent p pid \<in> set (xs_log s) \<and> WaitedFor p pid \<in> set (xs_log s) \<or> mute w p)"

fun is_spawn :: "xs_effect \<Rightarrow> bool" where
  "is_spawn (Spawned p pid argv env) = True"
| "is_spawn _ = False"

lemma tracked_new: "tracked w (new_x_state w c)"
  by (simp add: tracked_def new_x_state_def)

lemma tracked_quiet:
  assumes "tracked w s" "xs_log s' = xs_log s @ fx" "\<forall>e \<in> set fx. \<not> is_spawn e" "\<And>p. slot p s' = slot p s"
  shows "tracked w s'"
  using assms by (force simp: tracked_def)

text \<open>The state that a step leaves: only these parts change.\<close>

lemma create_auth_file_log:
  "create_auth_file w s = (a, s') \<Longrightarrow> \<exists>fx. s' = xemit fx s \<and> (\<forall>e \<in> set fx. \<not> is_spawn e)"
  by (auto simp: create_auth_file_def Let_def xemit_def split: if_splits intro: exI [of _ "[]"] exI [of _ "[AuthFileCreated f]" for f])

text \<open>When the authority file is prepared, and what is written.\<close>

definition authority_file :: "x_world \<Rightarrow> string" where
  "authority_file w = xv_build_filename w [xv_build_filename w [xv_runtime_dir w, ''scdm''], ''Xauthority'']"

definition authority_host :: "x_world \<Rightarrow> string" where
  "authority_host w = (case xv_hostname w of None \<Rightarrow> ''localhost'' | Some h \<Rightarrow> h)"

definition authority_possible :: "x_world \<Rightarrow> bool" where
  "authority_possible w \<longleftrightarrow> xv_open w (authority_file w) \<and> xv_fdopen w \<and> xv_random w \<noteq> None \<and>
     xv_auth_write w False \<and> xv_auth_write w True"

lemma prepare_auth_file_written:
  assumes "authority_possible w"
  shows "prepare_auth_file w s = (Some (authority_file w), xemit [AuthFileCreated (authority_file w),
    AuthEntryWritten (authority_file w) False (authority_host w) (the (xv_random w)),
    AuthEntryWritten (authority_file w) True (authority_host w) (the (xv_random w))] s)"
  using assms by (auto simp: authority_possible_def prepare_auth_file_def create_auth_file_def authority_file_def
      authority_host_def Let_def xemit_def)

lemma prepare_auth_file_failed: "\<not> authority_possible w \<Longrightarrow> fst (prepare_auth_file w s) = None"
  by (auto simp: authority_possible_def prepare_auth_file_def create_auth_file_def authority_file_def Let_def
      split: option.split)

lemma prepare_auth_file_log:
  assumes "prepare_auth_file w s = (a, s')"
  shows "\<exists>fx. s' = xemit fx s \<and> (\<forall>e \<in> set fx. \<not> is_spawn e)"
proof -
  obtain f s1 where c: "create_auth_file w s = (f, s1)" by (cases "create_auth_file w s")
  obtain fx where fx: "s1 = xemit fx s" "\<forall>e \<in> set fx. \<not> is_spawn e" using create_auth_file_log [OF c] by blast
  have "\<exists>gx. s' = xemit gx s1 \<and> (\<forall>e \<in> set gx. \<not> is_spawn e)"
    using assms by (auto simp: prepare_auth_file_def c xemit_def Let_def split: option.splits if_splits
        intro: exI [of _ "[]"] exI [of _ "[e]" for e]) (rule exI, rule conjI, rule refl, simp)+
  then obtain gx where "s' = xemit gx s1" "\<forall>e \<in> set gx. \<not> is_spawn e" by blast
  then show ?thesis using fx by (intro exI [of _ "fx @ gx"]) (auto simp: xemit_def)
qed

lemma slot_xemit [simp]: "slot p (xemit fx s) = slot p s"
  by (cases p) (simp_all add: xemit_def)

lemma xemit_fields [simp]:
  "xs_log (xemit fx s) = xs_log s @ fx" "xs_x_subprocess (xemit fx s) = xs_x_subprocess s"
  "xs_bus_subprocess (xemit fx s) = xs_bus_subprocess s" "xs_session_subprocess (xemit fx s) = xs_session_subprocess s"
  "xs_quit (xemit fx s) = xs_quit s" "xs_cancelled (xemit fx s) = xs_cancelled s" "xs_session_exit_status (xemit fx s) = xs_session_exit_status s"
  "xs_display_name (xemit fx s) = xs_display_name s" "xs_auth_file (xemit fx s) = xs_auth_file s"
  "xs_register_session (xemit fx s) = xs_register_session s"
  by (simp_all add: xemit_def)

text \<open>A process that is started: it is known from then on, or it is mute.\<close>

lemma tracked_spawn:
  assumes "tracked w s" "slot p s = None"
    and "xs_log s' = xs_log s @ fx @ [Spawned p pid argv env]" "\<forall>e \<in> set fx. \<not> is_spawn e"
    and "slot p s' = Some pid \<or> mute w p" "\<And>q. q \<noteq> p \<Longrightarrow> slot q s' = slot q s"
  shows "tracked w s'"
  unfolding tracked_def
proof (intro allI impI)
  fix q pid' argv' env' assume q: "Spawned q pid' argv' env' \<in> set (xs_log s')"
  consider "q = p" "pid' = pid" | "Spawned q pid' argv' env' \<in> set (xs_log s)"
    using q assms(3,4) by fastforce
  then show "Ended q pid' \<in> set (xs_log s') \<or> slot q s' = Some pid' \<or> mute w q"
  proof cases
    case 2
    then have "Ended q pid' \<in> set (xs_log s) \<or> slot q s = Some pid' \<or> mute w q"
      using assms(1) unfolding tracked_def by blast
    then show ?thesis using assms(2,3,6) by (cases "q = p") auto
  qed (use assms(5) in auto)
qed

text \<open>Whether the program is to stop.\<close>

abbreviation flags :: "x_state \<Rightarrow> bool \<times> bool" where
  "flags s \<equiv> (xs_quit s, xs_cancelled s)"

text \<open>Before the session has been started.\<close>

definition no_session :: "x_world \<Rightarrow> x_state \<Rightarrow> bool" where
  "no_session w s \<longleftrightarrow> tracked w s \<and> (\<forall>pid argv env. Spawned UserSession pid argv env \<notin> set (xs_log s)) \<and>
     xs_session_subprocess s = None \<and> xs_session_exit_status s = 0 \<and> flags s = (False, False)"

lemma no_session_new: "no_session w (new_x_state w c)"
  by (simp add: no_session_def tracked_new, simp add: new_x_state_def)

text \<open>What the two helpers do: nothing, or a process is started.\<close>

lemma no_session_spawn:
  assumes "no_session w s" "slot p s = None" "p \<noteq> UserSession"
    and "xs_log s' = xs_log s @ fx @ [Spawned p pid argv env]" "\<forall>e \<in> set fx. \<not> is_spawn e"
    and "slot p s' = Some pid \<or> mute w p" "\<And>q. q \<noteq> p \<Longrightarrow> slot q s' = slot q s"
    and "xs_session_exit_status s' = xs_session_exit_status s" "flags s' = flags s"
  shows "no_session w s'"
proof -
  have "tracked w s'" using assms(1) by (intro tracked_spawn [OF _ assms(2,4-7)]) (simp_all add: no_session_def)
  moreover have "Spawned UserSession i a e \<notin> set fx" for i a e using assms(5) by auto
  ultimately show ?thesis using assms(1,3,4,8,9) assms(7) [of UserSession] by (auto simp: no_session_def)
qed

lemma spawn_x_server_cases:
  assumes "spawn_x_server w b s = (ok, s')"
  obtains (unchanged) fx where "s' = xemit fx s" "\<forall>e \<in> set fx. \<not> is_spawn e" "\<not> ok"
  | (spawned) fx a pid env r where "\<forall>e \<in> set fx. \<not> is_spawn e" "prepare_auth_file w s = (a, xemit fx s)"
      and "s' = xemit [Spawned XServerProcess pid (map the (takeWhile (\<lambda>x. x \<noteq> None) (x_server_cells w (xs_debug_enabled s) b a))) env]
        (xemit fx (if ok then s\<lparr>xs_display_name := Some r, xs_auth_file := a, xs_x_subprocess := Some pid\<rparr> else s))"
      and "\<not> ok \<Longrightarrow> mute w XServerProcess"
proof -
  obtain a s1 where p: "prepare_auth_file w s = (a, s1)" by (cases "prepare_auth_file w s")
  from prepare_auth_file_log [OF p] obtain fx where fx: "s1 = xemit fx s" "\<forall>e \<in> set fx. \<not> is_spawn e" by blast
  note fx' = fx(2) p [unfolded fx(1)]
  have d: "xs_debug_enabled s1 = xs_debug_enabled s" using fx by (simp add: xemit_def)
  let ?argv = "map the (takeWhile (\<lambda>x. x \<noteq> None) (x_server_cells w (xs_debug_enabled s) b a))"
  show ?thesis
  proof (cases "xv_pipe w XServerProcess \<and> xv_spawn w XServerProcess ?argv (AList.update ''XORG_RUN_AS_USER_OK'' ''1'' (xv_environ w)) \<noteq> None")
    case False
    then have "s' = s1" "\<not> ok" using assms by (auto simp: spawn_x_server_def p Let_def d split: if_splits)
    then show ?thesis using unchanged fx by blast
  next
    case True
    then obtain pid where q: "xv_pipe w XServerProcess"
      "xv_spawn w XServerProcess ?argv (AList.update ''XORG_RUN_AS_USER_OK'' ''1'' (xv_environ w)) = Some pid" by auto
    let ?e = "[Spawned XServerProcess pid ?argv (AList.update ''XORG_RUN_AS_USER_OK'' ''1'' (xv_environ w))]"
    have r: "(case xv_line w XServerProcess of
        FirstLine n \<Rightarrow> (True, (xemit ?e s1)\<lparr>xs_display_name := Some ('':'' @ n), xs_auth_file := a, xs_x_subprocess := Some pid\<rparr>)
      | _ \<Rightarrow> (False, xemit ?e s1)) = (ok, s')"
      using assms q by (simp add: spawn_x_server_def p Let_def d del: not_None_eq)
    show ?thesis
    proof (cases "xv_line w XServerProcess")
      case (FirstLine n)
      then show ?thesis using r
        by (intro spawned [OF fx', where r = "'':'' @ n" and pid = pid and env = "AList.update ''XORG_RUN_AS_USER_OK'' ''1'' (xv_environ w)"])
          (auto simp: fx(1) xemit_def intro!: x_state.equality)
    next
      case LineError
      then show ?thesis using r by (intro spawned [OF fx']) (auto simp: fx(1) mute_def)
    next
      case NoLine
      then show ?thesis using r by (intro spawned [OF fx']) (auto simp: fx(1) mute_def)
    qed
  qed
qed

lemma spawn_x_server_no_session:
  assumes "no_session w s" "xs_x_subprocess s = None" "spawn_x_server w b s = (ok, s')"
  shows "no_session w s' \<and> xs_bus_subprocess s' = xs_bus_subprocess s \<and> (ok \<longrightarrow> xs_x_subprocess s' \<noteq> None)"
  using assms(3)
proof (cases rule: spawn_x_server_cases)
  case (unchanged fx)
  then have "tracked w s'" using assms(1) by (intro tracked_quiet [of w s s' fx]) (simp_all add: no_session_def)
  then show ?thesis using unchanged assms(1) by (auto simp: no_session_def)
next
  case (spawned fx a pid env r)
  let ?argv = "map the (takeWhile (\<lambda>x. x \<noteq> None) (x_server_cells w (xs_debug_enabled s) b a))"
  have l: "xs_log s' = xs_log s @ fx @ [Spawned XServerProcess pid ?argv env]"
    using spawned(3) by simp
  have o: "slot q s' = slot q s" if "q \<noteq> XServerProcess" for q using spawned(3) that by (cases q) auto
  have "no_session w s'"
    by (rule no_session_spawn [OF assms(1) _ _ l spawned(1) _ o]) (use spawned(3,4) assms(2) in auto)
  then show ?thesis using spawned(3) by auto
qed

lemma spawn_bus_no_session:
  assumes "no_session w s" "xs_bus_subprocess s = None" "spawn_bus w fd s = (ok, s')"
  shows "no_session w s' \<and> xs_x_subprocess s' = xs_x_subprocess s \<and> xs_display_name s' = xs_display_name s \<and>
    xs_auth_file s' = xs_auth_file s \<and> (ok \<longrightarrow> (xs_bus_subprocess s' = None) = xv_session_bus w)"
proof (cases "\<not> xv_session_bus w \<and> xv_pipe w BusProcess \<and>
    xv_spawn w BusProcess [''dbus-daemon'', ''--print-address'', fd, ''--session''] (xv_environ w) \<noteq> None")
  case True
  let ?argv = "[''dbus-daemon'', ''--print-address'', fd, ''--session'']"
  from True obtain pid where p: "xv_spawn w BusProcess ?argv (xv_environ w) = Some pid" "\<not> xv_session_bus w" "xv_pipe w BusProcess"
    by auto
  have l: "xs_log s' = xs_log s @ [] @ [Spawned BusProcess pid ?argv (xv_environ w)]"
    and b: "xs_bus_subprocess s' = Some pid \<or> mute w BusProcess \<and> \<not> ok"
    and r: "xs_x_subprocess s' = xs_x_subprocess s" "xs_session_subprocess s' = xs_session_subprocess s"
      "xs_session_exit_status s' = xs_session_exit_status s" "flags s' = flags s" "xs_display_name s' = xs_display_name s"
      "xs_auth_file s' = xs_auth_file s"
    using assms(3) p by (cases "xv_line w BusProcess"; auto simp: spawn_bus_def Let_def mute_def split: if_splits)+
  have o: "slot q s' = slot q s" if "q \<noteq> BusProcess" for q using r that by (cases q) auto
  have "no_session w s'"
    by (rule no_session_spawn [OF assms(1) _ _ l _ _ o]) (use b r assms(2) in auto)
  then show ?thesis using b r p by auto
next
  case False
  then have "s' = s \<and> \<not> ok \<or> s' = s\<lparr>xs_bus_connection := True\<rparr> \<and> xv_session_bus w"
    using assms(3) by (auto simp: spawn_bus_def Let_def split: if_splits option.splits)
  moreover have "tracked w (s\<lparr>xs_bus_connection := True\<rparr>)"
  proof (rule tracked_quiet [where s = s and fx = "[]"])
    show "tracked w s" using assms(1) by (simp add: no_session_def)
    show "slot q (s\<lparr>xs_bus_connection := True\<rparr>) = slot q s" for q by (cases q) simp_all
  qed simp_all
  then have "no_session w (s\<lparr>xs_bus_connection := True\<rparr>)" using assms(1) by (simp add: no_session_def)
  ultimately show ?thesis using assms(1,2) by (elim disjE conjE) simp_all
qed

text \<open>The steps that start nothing.\<close>

lemma no_session_quiet:
  assumes "no_session w s" "xs_log s' = xs_log s @ fx" "\<forall>e \<in> set fx. \<not> is_spawn e" "\<And>p. slot p s' = slot p s"
    and "xs_session_exit_status s' = xs_session_exit_status s" "flags s' = flags s"
  shows "no_session w s'"
proof -
  have "tracked w s'" using assms(1) by (intro tracked_quiet [OF _ assms(2-4)]) (simp add: no_session_def)
  moreover have "xs_session_subprocess s' = xs_session_subprocess s" using assms(4) [of UserSession] by simp
  moreover have "Spawned UserSession i a e \<notin> set fx" for i a e using assms(3) by auto
  ultimately show ?thesis using assms(1,2,5,6) by (simp add: no_session_def)
qed

definition same_processes :: "x_state \<Rightarrow> x_state \<Rightarrow> bool" where
  "same_processes s s' \<longleftrightarrow> xs_x_subprocess s' = xs_x_subprocess s \<and> xs_bus_subprocess s' = xs_bus_subprocess s \<and>
     xs_session_subprocess s' = xs_session_subprocess s"

lemma same_processes_slot: "same_processes s s' \<Longrightarrow> slot p s' = slot p s"
  by (cases p) (simp_all add: same_processes_def)

lemma import_environment_no_session:
  assumes "no_session w s"
  shows "no_session w (snd (import_environment w s)) \<and> same_processes s (snd (import_environment w s))"
proof -
  have e: "same_processes s (snd (import_environment w s))" "xs_log (snd (import_environment w s)) = xs_log s @ []"
    "xs_session_exit_status (snd (import_environment w s)) = xs_session_exit_status s"
    "flags (snd (import_environment w s)) = flags s"
    by (auto simp: import_environment_def same_processes_def split: option.split)
  then show ?thesis using no_session_quiet [OF assms e(2) _ same_processes_slot e(3,4)] by simp
qed

lemma update_bus_environment_no_session:
  assumes "no_session w s" "update_bus_environment w s = Some (ok, s')"
  shows "no_session w s' \<and> same_processes s s' \<and>
    (ok \<longrightarrow> (\<exists>d a. xs_display_name s' = Some d \<and> xs_auth_file s' = Some a \<and> xs_log s' = xs_log s @ [ActivationEnvironment d a]))"
proof -
  obtain d a where d: "xs_display_name s = Some d" "xs_auth_file s = Some a"
    and s': "s' = s \<and> \<not> ok \<or> s' = xemit [ActivationEnvironment d a] s"
    using assms(2) by (auto simp: update_bus_environment_def bind_eq_Some_conv split: if_splits)
  have "no_session w (xemit [ActivationEnvironment d a] s)"
    by (rule no_session_quiet [OF assms(1), where fx = "[ActivationEnvironment d a]"]) simp_all
  then show ?thesis using s' d assms(1) by (auto simp: same_processes_def)
qed

lemma connect_no_session:
  assumes "no_session w s" "connect_to_display_manager w s = (ok, s')"
  shows "no_session w s' \<and> same_processes s s' \<and> xs_display_name s' = xs_display_name s \<and> xs_auth_file s' = xs_auth_file s \<and>
    xs_log s' = xs_log s"
proof -
  have e: "same_processes s s'" "xs_log s' = xs_log s @ []" "xs_session_exit_status s' = xs_session_exit_status s" "flags s' = flags s"
    "xs_display_name s' = xs_display_name s" "xs_auth_file s' = xs_auth_file s"
    using assms(2) by (auto simp: connect_to_display_manager_def same_processes_def split: if_splits)
  then show ?thesis using no_session_quiet [OF assms(1) e(2) _ same_processes_slot [OF e(1)] e(3,4)] by simp
qed

lemma register_display_no_session:
  assumes "no_session w s" "register_display w s = Some (ok, s')" "xs_display_name s = Some d"
  shows "no_session w s' \<and> same_processes s s' \<and> xs_display_name s' = Some d \<and> xs_auth_file s' = xs_auth_file s \<and>
    (ok \<longrightarrow> xs_log s' = xs_log s @ [DisplayRegistered [(''session-type'', ''x11''), (''x11-display-name'', d)]])"
proof -
  let ?e = "DisplayRegistered [(''session-type'', ''x11''), (''x11-display-name'', d)]"
  have s': "s' = s \<and> \<not> ok \<or> s' = xemit [?e] s"
    using assms(2,3) by (auto simp: register_display_def split: if_splits)
  have "no_session w (xemit [?e] s)" by (rule no_session_quiet [OF assms(1), where fx = "[?e]"]) simp_all
  then show ?thesis using s' assms(1,3) by (auto simp: same_processes_def)
qed

section \<open>The main loop\<close>

text \<open>The events that end the main loop.\<close>

fun ends_loop :: "x_state \<Rightarrow> loop_event \<Rightarrow> bool" where
  "ends_loop s (XServerDone f) \<longleftrightarrow> xs_x_subprocess s \<noteq> None"
| "ends_loop s (BusDone f) \<longleftrightarrow> xs_bus_subprocess s \<noteq> None"
| "ends_loop s (SessionDone f) \<longleftrightarrow> xs_session_subprocess s \<noteq> None"
| "ends_loop s SigTerm \<longleftrightarrow> True"
| "ends_loop s RegisterTimeout \<longleftrightarrow> False"

text \<open>The status of a session that ended first and not by a signal.\<close>

fun status_of :: "loop_event option \<Rightarrow> int" where
  "status_of (Some (SessionDone (ExitedWith n))) = n"
| "status_of _ = EX_OK"

lemmas finished_defs = on_x_server_finished_def on_bus_finished_def on_session_finished_def on_sigterm_def
  register_session_timeout_cb_def

lemma handle_event_tracked:
  assumes "tracked w s"
  shows "tracked w (handle_event e s)"
proof -
  have same: "tracked w s'" if "xs_log s' = xs_log s @ fx" "\<forall>e \<in> set fx. \<not> is_spawn e" "same_processes s s'" for s' fx
    using tracked_quiet [OF assms that(1,2) same_processes_slot [OF that(3)]] .
  have gone: "tracked w s'" if "xs_log s' = xs_log s @ [Ended p pid]" "slot p s = Some pid" "\<And>q. q \<noteq> p \<Longrightarrow> slot q s' = slot q s" for s' p pid
    unfolding tracked_def
  proof (intro allI impI)
    fix q pid' argv env assume "Spawned q pid' argv env \<in> set (xs_log s')"
    then have "Spawned q pid' argv env \<in> set (xs_log s)" using that(1) by simp
    then have "Ended q pid' \<in> set (xs_log s) \<or> slot q s = Some pid' \<or> mute w q" using assms unfolding tracked_def by blast
    then show "Ended q pid' \<in> set (xs_log s') \<or> slot q s' = Some pid' \<or> mute w q" using that by (cases "q = p") auto
  qed
  show ?thesis
  proof (cases e)
    case (XServerDone f)
    show ?thesis
    proof (cases "xs_x_subprocess s")
      case (Some pid)
      have "slot q (on_x_server_finished (reported s f) s) = slot q s" if "q \<noteq> XServerProcess" for q
        using that by (cases q) (simp_all add: on_x_server_finished_def split: finished.split option.split)
      then show ?thesis using Some XServerDone same [of _ "[]"] gone [of _ XServerProcess pid]
        by (cases "reported s f") (simp_all add: on_x_server_finished_def same_processes_def)
    qed (use XServerDone assms in simp)
  next
    case (BusDone f)
    show ?thesis
    proof (cases "xs_bus_subprocess s")
      case (Some pid)
      have "slot q (on_bus_finished (reported s f) s) = slot q s" if "q \<noteq> BusProcess" for q
        using that by (cases q) (simp_all add: on_bus_finished_def split: finished.split option.split)
      then show ?thesis using Some BusDone same [of _ "[]"] gone [of _ BusProcess pid]
        by (cases "reported s f") (simp_all add: on_bus_finished_def same_processes_def)
    qed (use BusDone assms in simp)
  next
    case (SessionDone f)
    show ?thesis
    proof (cases "xs_session_subprocess s")
      case (Some pid)
      have "slot q (on_session_finished (reported s f) s) = slot q s" if "q \<noteq> UserSession" for q
        using that by (cases q) (simp_all add: on_session_finished_def split: finished.split option.split)
      then show ?thesis using Some SessionDone same [of _ "[]"] gone [of _ UserSession pid]
        by (cases "reported s f") (simp_all add: on_session_finished_def same_processes_def)
    qed (use SessionDone assms in simp)
  next
    case SigTerm
    then show ?thesis using same [of _ "[]"] by (simp add: on_sigterm_def same_processes_def)
  next
    case RegisterTimeout
    then show ?thesis using same [of "xemit [SessionRegistered] (s\<lparr>xs_register_session := False\<rparr>)" "[SessionRegistered]"]
        same [of "s\<lparr>xs_register_session := False\<rparr>" "[]"] assms
      by (cases "xs_register_session s"; cases "xs_cancelled s") (simp_all add: register_session_timeout_cb_def same_processes_def)
  qed
qed

lemma ends_loop_same: "same_processes s s' \<Longrightarrow> ends_loop s' = ends_loop s"
proof
  fix e show "same_processes s s' \<Longrightarrow> ends_loop s' e = ends_loop s e" by (cases e) (simp_all add: same_processes_def)
qed

lemma handle_event_quits: "xs_quit s \<or> ends_loop s e \<Longrightarrow> xs_quit (handle_event e s)"
  by (cases e) (auto simp: finished_defs split: finished.splits option.splits)

lemma handle_event_goes_on:
  assumes "\<not> ends_loop s e"
  shows "same_processes s (handle_event e s) \<and> flags (handle_event e s) = flags s \<and>
    xs_session_exit_status (handle_event e s) = xs_session_exit_status s"
  using assms by (cases e) (auto simp: finished_defs same_processes_def)

lemma handle_event_log:
  "\<exists>fx. xs_log (handle_event e s) = xs_log s @ fx \<and> (\<forall>e \<in> set fx. \<not> is_spawn e)"
  "xs_x_subprocess s = None \<longrightarrow> xs_x_subprocess (handle_event e s) = None"
  by (cases e; auto simp: finished_defs intro: exI [of _ "[]"] split: finished.split option.split)+

text \<open>A turn of the loop.\<close>

lemma turn_quits: "xs_quit s \<Longrightarrow> xs_quit (fold handle_event turn s)"
  by (induction turn arbitrary: s) (simp_all add: handle_event_quits)

lemma turn_ends: "list_ex (ends_loop s) turn \<Longrightarrow> xs_quit (fold handle_event turn s)"
proof (induction turn arbitrary: s)
  case (Cons e turn)
  then show ?case
    by (cases "ends_loop s e") (simp_all add: handle_event_quits turn_quits ends_loop_same [of s "handle_event e s"] handle_event_goes_on)
qed simp

lemma turn_goes_on:
  assumes "\<not> list_ex (ends_loop s) turn"
  shows "same_processes s (fold handle_event turn s) \<and> flags (fold handle_event turn s) = flags s \<and>
    xs_session_exit_status (fold handle_event turn s) = xs_session_exit_status s"
  using assms
proof (induction turn arbitrary: s)
  case (Cons e turn)
  let ?s = "handle_event e s"
  have h: "same_processes s ?s \<and> flags ?s = flags s \<and> xs_session_exit_status ?s = xs_session_exit_status s"
    using Cons.prems by (intro handle_event_goes_on) simp
  then have "\<not> list_ex (ends_loop ?s) turn" using Cons.prems ends_loop_same [of s ?s] by simp
  from Cons.IH [OF this] h show ?case by (simp add: same_processes_def)
qed (simp add: same_processes_def)

lemma turn_tracked:
  assumes "tracked w s"
  shows "tracked w (fold handle_event turn s) \<and>
    (\<exists>fx. xs_log (fold handle_event turn s) = xs_log s @ fx \<and> (\<forall>e \<in> set fx. \<not> is_spawn e)) \<and>
    (xs_x_subprocess s = None \<longrightarrow> xs_x_subprocess (fold handle_event turn s) = None)"
  using assms
proof (induction turn arbitrary: s)
  case (Cons e turn)
  obtain fx where fx: "xs_log (handle_event e s) = xs_log s @ fx" "\<forall>e \<in> set fx. \<not> is_spawn e"
    using handle_event_log(1) by blast
  from Cons.IH [OF handle_event_tracked [OF Cons.prems]] obtain gx where
    gx: "xs_log (fold handle_event turn (handle_event e s)) = xs_log (handle_event e s) @ gx" "\<forall>e \<in> set gx. \<not> is_spawn e" by blast
  have "xs_log (fold handle_event (e # turn) s) = xs_log s @ (fx @ gx)" "\<forall>e \<in> set (fx @ gx). \<not> is_spawn e" using fx gx by auto
  then show ?case using Cons.IH [OF handle_event_tracked [OF Cons.prems]] handle_event_log(2) [of s e] by auto
qed simp

text \<open>What settles the status in the last turn: the end of the session, or the signal before it.\<close>

fun settles_status :: "loop_event \<Rightarrow> bool" where
  "settles_status (SessionDone f) \<longleftrightarrow> f \<noteq> Cancelled"
| "settles_status SigTerm \<longleftrightarrow> True"
| "settles_status _ \<longleftrightarrow> False"

definition status_of_turn :: "loop_event list option \<Rightarrow> int" where
  "status_of_turn turn = (case turn of None \<Rightarrow> EX_OK | Some turn \<Rightarrow> status_of (List.find settles_status turn))"

definition session_status :: "x_state \<Rightarrow> int" where
  "session_status s = (if xs_session_subprocess s = None then xs_session_exit_status s else EX_OK)"

lemma turn_without_session:
  "xs_session_subprocess s = None \<Longrightarrow>
   xs_session_subprocess (fold handle_event turn s) = None \<and> xs_session_exit_status (fold handle_event turn s) = xs_session_exit_status s"
proof (induction turn arbitrary: s)
  case (Cons e turn)
  have "xs_session_subprocess (handle_event e s) = None \<and> xs_session_exit_status (handle_event e s) = xs_session_exit_status s"
    using Cons.prems by (cases e) (auto simp: finished_defs split: finished.split option.split)
  then show ?case using Cons.IH by simp
qed simp

lemma turn_cancelled:
  "xs_cancelled s \<Longrightarrow> xs_session_subprocess (fold handle_event turn s) = xs_session_subprocess s"
proof (induction turn arbitrary: s)
  case (Cons e turn)
  have "xs_cancelled (handle_event e s) \<and> xs_session_subprocess (handle_event e s) = xs_session_subprocess s"
    using Cons.prems by (cases e) (auto simp: finished_defs reported_def split: finished.split option.split)
  then show ?case using Cons.IH by simp
qed simp

lemma turn_status:
  assumes "xs_session_subprocess s = Some pid" "xs_session_exit_status s = EX_OK" "\<not> xs_cancelled s"
  shows "session_status (fold handle_event turn s) = status_of (List.find settles_status turn)"
  using assms
proof (induction turn arbitrary: s)
  case (Cons e turn)
  show ?case
  proof (cases "settles_status e")
    case True
    then consider "e = SigTerm" | n where "e = SessionDone (ExitedWith n)" | n where "e = SessionDone (KilledBy n)"
      by (elim settles_status.elims) (auto split: finished.splits, metis finished.exhaust)
    then show ?thesis
      by cases (use Cons.prems turn_cancelled [of "on_sigterm s" turn] turn_without_session [of _ turn] in
        \<open>simp_all add: session_status_def finished_defs reported_def\<close>)
  next
    case False
    then have "xs_session_subprocess (handle_event e s) = Some pid \<and> xs_session_exit_status (handle_event e s) = EX_OK \<and>
        \<not> xs_cancelled (handle_event e s)"
      using Cons.prems by (cases e) (auto simp: finished_defs reported_def split: finished.split option.split)
    then show ?thesis using Cons.IH False by simp
  qed
qed (simp add: session_status_def)

lemma run_main_loop_result:
  assumes "run_main_loop events s = Some s'" "tracked w s" "flags s = (False, False)" "xs_session_subprocess s = Some pid"
    and "xs_session_exit_status s = EX_OK"
  shows "tracked w s' \<and> (\<exists>fx. xs_log s' = xs_log s @ fx \<and> (\<forall>e \<in> set fx. \<not> is_spawn e)) \<and>
    (xs_x_subprocess s = None \<longrightarrow> xs_x_subprocess s' = None) \<and>
    session_status s' = status_of_turn (List.find (list_ex (ends_loop s)) events)"
  using assms
proof (induction events arbitrary: s)
  case (Cons turn events)
  let ?s = "fold handle_event turn s"
  note t = turn_tracked [OF Cons.prems(2), of turn]
  show ?case
  proof (cases "list_ex (ends_loop s) turn")
    case True
    then have "s' = ?s" using Cons.prems(1) turn_ends by (simp add: Let_def)
    then show ?thesis using True t turn_status [OF Cons.prems(4,5), of turn] Cons.prems(3) by (simp add: status_of_turn_def)
  next
    case False
    note h = turn_goes_on [OF False]
    have r: "run_main_loop events ?s = Some s'" using Cons.prems(1,3) h by (simp add: Let_def)
    have i: "tracked w s' \<and> (\<exists>fx. xs_log s' = xs_log ?s @ fx \<and> (\<forall>e \<in> set fx. \<not> is_spawn e)) \<and>
      (xs_x_subprocess ?s = None \<longrightarrow> xs_x_subprocess s' = None) \<and>
      session_status s' = status_of_turn (List.find (list_ex (ends_loop ?s)) events)"
      using h Cons.prems(3-5) t by (intro Cons.IH [OF r]) (simp_all add: same_processes_def)
    from t obtain fx where fx: "xs_log ?s = xs_log s @ fx" "\<forall>e \<in> set fx. \<not> is_spawn e" by blast
    from i obtain gx where gx: "xs_log s' = xs_log ?s @ gx" "\<forall>e \<in> set gx. \<not> is_spawn e" by blast
    have "xs_log s' = xs_log s @ (fx @ gx)" "\<forall>e \<in> set (fx @ gx). \<not> is_spawn e" using fx gx by auto
    then show ?thesis using i t False h ends_loop_same [of s ?s] by (simp add: same_processes_def)
  qed
qed simp

section \<open>The common end of the two programs\<close>

text \<open>What the two programs promise of their end: the status goes through, and the processes they know of are
  terminated and waited for. \<open>own\<close> holds of the states of the program.\<close>

locale session_program =
  fixes finish :: "int \<Rightarrow> x_state \<Rightarrow> int \<times> x_state"
    and own :: "x_state \<Rightarrow> bool"
  assumes finish_status: "fst (finish n s) = n"
    and finish_processes: "own s \<Longrightarrow> tracked w s \<Longrightarrow> nothing_left w (snd (finish n s))"
    and finish_log: "\<exists>fx. xs_log (snd (finish n s)) = xs_log s @ fx \<and> (\<forall>e \<in> set fx. \<not> is_spawn e)"
    and own_processes: "own s \<Longrightarrow> (xs_x_subprocess s = None \<longrightarrow> xs_x_subprocess s' = None) \<Longrightarrow> own s'"
begin

lemma early_end:
  assumes "own s" "no_session w s" "finish n s = (st, s')"
  shows "st = n \<and> nothing_left w s' \<and> (\<forall>pid argv env. Spawned UserSession pid argv env \<notin> set (xs_log s'))"
proof -
  obtain fx where fx: "xs_log s' = xs_log s @ fx" "\<forall>e \<in> set fx. \<not> is_spawn e" using finish_log [of n s] assms(3) by auto
  then have "Spawned UserSession i a e \<notin> set fx" for i a e by auto
  then show ?thesis
    using assms finish_status [of n s] finish_processes [of s w n] fx by (auto simp: no_session_def)
qed

lemma end_of_loop:
  assumes "map_option (\<lambda>s. finish (if xs_session_subprocess s = None then xs_session_exit_status s else EX_OK) s)
      (run_main_loop events s) = Some (st, s')"
    and "own s" "tracked w s" "flags s = (False, False)" "xs_session_subprocess s = Some pid" "xs_session_exit_status s = EX_OK"
  shows "st = status_of_turn (List.find (list_ex (ends_loop s)) events) \<and> nothing_left w s' \<and>
    (\<exists>fx. xs_log s' = xs_log s @ fx \<and> (\<forall>e \<in> set fx. \<not> is_spawn e))"
proof -
  from assms(1) obtain r k where r: "run_main_loop events s = Some r" and f: "finish k r = (st, s')"
    and k: "k = (if xs_session_subprocess r = None then xs_session_exit_status r else EX_OK)" by auto
  note e = run_main_loop_result [OF r assms(3-6)]
  have "own r" using e by (intro own_processes [OF assms(2), of r]) (elim conjE)
  then have "nothing_left w s'" using finish_processes [of r w k] e f by simp
  moreover have "session_status r = k" by (simp add: k session_status_def)
  then have "st = status_of_turn (List.find (list_ex (ends_loop s)) events)" using finish_status [of k r] e f by simp
  moreover have "\<exists>fx. xs_log s' = xs_log s @ fx \<and> (\<forall>e \<in> set fx. \<not> is_spawn e)"
  proof -
    from e obtain fx where fx: "xs_log r = xs_log s @ fx" "\<forall>e \<in> set fx. \<not> is_spawn e" by blast
    from finish_log [of k r] f obtain gx where gx: "xs_log s' = xs_log r @ gx" "\<forall>e \<in> set gx. \<not> is_spawn e" by auto
    have "xs_log s' = xs_log s @ (fx @ gx)" "\<forall>e \<in> set (fx @ gx). \<not> is_spawn e" using fx gx by auto
    then show ?thesis by blast
  qed
  ultimately show ?thesis by blast
qed

end

lemma finish_x_processes: "tracked w s \<Longrightarrow> nothing_left w (snd (finish_session n s))"
  unfolding nothing_left_def tracked_def
proof (intro allI impI)
  fix p pid argv env
  assume t: "\<forall>p pid argv env. Spawned p pid argv env \<in> set (xs_log s) \<longrightarrow>
      Ended p pid \<in> set (xs_log s) \<or> slot p s = Some pid \<or> mute w p"
    and "Spawned p pid argv env \<in> set (xs_log (snd (finish_session n s)))"
  then have "Spawned p pid argv env \<in> set (xs_log s)"
    by (auto simp: finish_session_def clear_state_def wait_on_subprocesses_def signal_subprocesses_def to_process_def split: option.splits)
  with t have "Ended p pid \<in> set (xs_log s) \<or> slot p s = Some pid \<or> mute w p" by blast
  then show "Ended p pid \<in> set (xs_log (snd (finish_session n s))) \<or>
      TermSent p pid \<in> set (xs_log (snd (finish_session n s))) \<and> WaitedFor p pid \<in> set (xs_log (snd (finish_session n s))) \<or> mute w p"
    by (cases p) (auto simp: finish_session_def clear_state_def wait_on_subprocesses_def signal_subprocesses_def to_process_def)
qed

lemma finish_wayland_processes:
  assumes "tracked w s" "xs_x_subprocess s = None"
  shows "nothing_left w (snd (finish_session_wayland n s))"
proof -
  have "xs_log (snd (finish_session_wayland n s)) = xs_log (snd (finish_session n s))"
    using assms(2) by (simp add: finish_session_def clear_state_def wait_on_subprocesses_def signal_subprocesses_def
      finish_session_wayland_def clear_state_wayland_def wait_on_subprocesses_wayland_def signal_subprocesses_wayland_def to_process_def)
  then show ?thesis using finish_x_processes [OF assms(1), of n] by (simp add: nothing_left_def)
qed

interpretation x_program: session_program finish_session "\<lambda>s. True"
  by unfold_locales
    (auto simp: finish_x_processes, auto simp: finish_session_def clear_state_def wait_on_subprocesses_def
      signal_subprocesses_def to_process_def split: option.split)

interpretation wayland_program: session_program finish_session_wayland "\<lambda>s. xs_x_subprocess s = None"
  by unfold_locales
    (auto simp: finish_wayland_processes, auto simp: finish_session_wayland_def clear_state_wayland_def
      wait_on_subprocesses_wayland_def signal_subprocesses_wayland_def to_process_def split: option.split)

section \<open>The start of the session\<close>

lemma session_started:
  assumes "no_session w s" "s' = xemit [Spawned UserSession pid argv env] (s\<lparr>xs_session_subprocess := Some pid\<rparr>)"
  shows "tracked w s' \<and> xs_session_subprocess s' = Some pid \<and> xs_session_exit_status s' = EX_OK \<and> flags s' = (False, False) \<and>
    xs_x_subprocess s' = xs_x_subprocess s \<and> xs_bus_subprocess s' = xs_bus_subprocess s"
proof -
  have o: "slot q s' = slot q s" if "q \<noteq> UserSession" for q using that by (cases q) (simp_all add: assms(2))
  have "xs_log s' = xs_log s @ [] @ [Spawned UserSession pid argv env]" by (simp add: assms(2))
  moreover have "slot UserSession s = None" "tracked w s" using assms(1) by (simp_all add: no_session_def)
  ultimately have "tracked w s'" using tracked_spawn [of w s UserSession s' "[]" pid argv env] o by (simp add: assms(2))
  then show ?thesis using assms by (simp add: no_session_def EX_OK_def)
qed

lemma spawn_session_cases:
  assumes "spawn_session w run_script s = Some (ok, s')" "xs_display_name s = Some d" "xs_auth_file s = Some a"
  shows "\<not> ok \<and> s' = s \<or> ok \<and> (\<exists>pid argv. s' = xemit [Spawned UserSession pid argv (session_environment w d a s)]
    (s\<lparr>xs_session_subprocess := Some pid\<rparr>))"
  using assms by (auto simp: spawn_session_def Let_def split: option.splits)

lemma spawn_session_wayland_cases:
  assumes "spawn_session_wayland w s = (ok, s')"
  shows "\<not> ok \<and> s' = s \<or> ok \<and> (\<exists>pid argv. s' = xemit [Spawned UserSession pid argv (session_environment_wayland w s)]
    (s\<lparr>xs_session_subprocess := Some pid\<rparr>))"
  using assms by (auto simp: spawn_session_wayland_def Let_def split: option.splits)

text \<open>An X session ends before its program runs, or reaches its main loop.\<close>

definition never_ran :: "x_world \<Rightarrow> x_state \<Rightarrow> bool" where
  "never_ran w s \<longleftrightarrow> nothing_left w s \<and> (\<forall>pid argv env. Spawned UserSession pid argv env \<notin> set (xs_log s))"

lemma ended_early: "no_session w s \<Longrightarrow> finish_session n s = (st, s') \<Longrightarrow> never_ran w s'"
  unfolding never_ran_def by (rule x_program.early_end [THEN conjunct2]) simp_all

text \<open>A session that has been started, on a display that the bus and the daemon know of.\<close>

definition session_ran :: "x_world \<Rightarrow> bool \<Rightarrow> loop_event list list \<Rightarrow> x_state \<Rightarrow> int \<Rightarrow> x_state \<Rightarrow> bool" where
  "session_ran w register events q st s' \<longleftrightarrow> (\<exists>s pre d a pid argv r. run_session register events s = Some (st, s') \<and>
     no_session w r \<and> xs_x_subprocess r = xs_x_subprocess q \<and> xs_bus_subprocess r = xs_bus_subprocess q \<and>
     xs_log r = pre @ [ActivationEnvironment d a, DisplayRegistered [(''session-type'', ''x11''), (''x11-display-name'', d)]] \<and>
     s = xemit [Spawned UserSession pid argv (session_environment w d a r)] (r\<lparr>xs_session_subprocess := Some pid\<rparr>))"

lemma registered_session:
  assumes "no_session w s" "xs_display_name s = Some d" "xs_auth_file s = Some a" "xs_log s = pre @ [ActivationEnvironment d a]"
    and "register_display w s = Some (True, s1)" "spawn_session w run_script s1 = Some (ok, s2)"
    and "(if \<not> ok then Some (finish_session EX_SOFTWARE s2) else run_session register events s2) = Some (st, s')"
  shows "never_ran w s' \<or> session_ran w register events s st s'"
proof -
  have n: "no_session w s1" "same_processes s s1" "xs_display_name s1 = Some d" "xs_auth_file s1 = Some a"
    "xs_log s1 = xs_log s @ [DisplayRegistered [(''session-type'', ''x11''), (''x11-display-name'', d)]]"
    using register_display_no_session [OF assms(1,5,2)] assms(3) by simp_all
  from spawn_session_cases [OF assms(6) n(3,4)] show ?thesis
  proof (elim disjE conjE exE)
    assume "\<not> ok" "s2 = s1"
    then have "never_ran w s'" using assms(7) n(1) by (intro ended_early [of w s1 EX_SOFTWARE st]) simp_all
    then show ?thesis by blast
  next
    fix pid argv
    assume "ok" and s: "s2 = xemit [Spawned UserSession pid argv (session_environment w d a s1)] (s1\<lparr>xs_session_subprocess := Some pid\<rparr>)"
    then have "run_session register events s2 = Some (st, s')" using assms(7) by simp
    then show ?thesis using n s assms(4) unfolding session_ran_def same_processes_def
      by (intro disjI2 exI [of _ s2] exI [of _ pre] exI [of _ d] exI [of _ a] exI [of _ pid] exI [of _ argv] exI [of _ s1]) simp
  qed
qed

lemma x_session_on_bus_cases:
  assumes "no_session w s" "x_session_on_bus w run_script register events s = Some (st, s')"
  shows "never_ran w s' \<or> session_ran w register events s st s'"
proof -
  let ?s3 = "snd (import_environment w s)"
  have n3: "no_session w ?s3" "same_processes s ?s3" using import_environment_no_session [OF assms(1)] by blast+
  obtain ok4 s4 where s4: "update_bus_environment w ?s3 = Some (ok4, s4)"
    using assms(2) by (auto simp: x_session_on_bus_def bind_eq_Some_conv)
  note n4 = update_bus_environment_no_session [OF n3(1) s4]
  obtain ok5 s5 where s5: "connect_to_display_manager w s4 = (ok5, s5)" by (cases "connect_to_display_manager w s4")
  note n5 = connect_no_session [OF n4 [THEN conjunct1] s5]
  have early: "never_ran w s'" if "no_session w r" "finish_session n r = (st, s')" for n r using that by (rule ended_early)
  show ?thesis
  proof (cases "ok4 \<and> ok5")
    case False
    then have "\<exists>n r. no_session w r \<and> finish_session n r = (st, s')"
      using assms(2) s4 s5 n4 n5 by (auto simp: x_session_on_bus_def split: if_splits)
    then show ?thesis using early by blast
  next
    case True
    obtain d a where da: "xs_display_name s5 = Some d" "xs_auth_file s5 = Some a" "xs_log s5 = xs_log ?s3 @ [ActivationEnvironment d a]"
      using n4 n5 True by auto
    have n: "no_session w s5" "same_processes s s5" using n4 n5 n3 by (simp_all add: same_processes_def)
    obtain ok6 s6 where s6: "register_display w s5 = Some (ok6, s6)"
      using assms(2) True s4 s5 by (auto simp: x_session_on_bus_def bind_eq_Some_conv)
    show ?thesis
    proof (cases ok6)
      case False
      then have "finish_session EX_SOFTWARE s6 = (st, s')" using assms(2) True s4 s5 s6 by (simp add: x_session_on_bus_def)
      then show ?thesis using early [of s6] register_display_no_session [OF n(1) s6 da(1)] by blast
    next
      case True6: True
      obtain ok7 s7 where s7: "spawn_session w run_script s6 = Some (ok7, s7)"
        "(if \<not> ok7 then Some (finish_session EX_SOFTWARE s7) else run_session register events s7) = Some (st, s')"
        using assms(2) True True6 s4 s5 s6 by (auto simp: x_session_on_bus_def bind_eq_Some_conv)
      from registered_session [OF n(1) da s6 [unfolded True6 [THEN eqTrueI]] s7] n(2) show ?thesis
        by (simp add: session_ran_def same_processes_def)
    qed
  qed
qed

lemma x_session_main_cases:
  assumes "x_session_main w args run_script allow register events = Some (st, s')"
  shows "never_ran w s' \<or> (\<exists>q. xs_x_subprocess q \<noteq> None \<and> (xs_bus_subprocess q = None) = xv_session_bus w \<and>
    session_ran w register events q st s')"
proof (cases "\<exists>c. args = [c] \<and> xv_settings w")
  case False
  then show ?thesis using assms ended_early [OF no_session_new]
    by (auto simp: x_session_main_def Let_def never_ran_def nothing_left_def new_x_state_def split: list.splits)
next
  case True
  then obtain c where c: "args = [c]" "xv_settings w" by blast
  let ?s0 = "new_x_state w c"
  obtain ok1 s1 where s1: "spawn_x_server w allow ?s0 = (ok1, s1)" by (cases "spawn_x_server w allow ?s0")
  obtain ok2 s2 where s2: "spawn_bus w ''4'' s1 = (ok2, s2)" by (cases "spawn_bus w ''4'' s1")
  have b1: "no_session w s1" "xs_bus_subprocess s1 = None" "ok1 \<longrightarrow> xs_x_subprocess s1 \<noteq> None"
    using spawn_x_server_no_session [OF no_session_new _ s1] by (simp_all add: new_x_state_def)
  note n2 = spawn_bus_no_session [OF b1(1,2) s2]
  show ?thesis
  proof (cases "ok1 \<and> ok2")
    case False
    then have "\<exists>n r. no_session w r \<and> finish_session n r = (st, s')"
      using assms c s1 s2 b1(1) n2 by (auto simp: x_session_main_def Let_def split: if_splits)
    then show ?thesis using ended_early by blast
  next
    case True
    then have "x_session_on_bus w run_script register events s2 = Some (st, s')"
      using assms c s1 s2 by (simp add: x_session_main_def Let_def)
    from x_session_on_bus_cases [OF n2 [THEN conjunct1] this] show ?thesis
      using True n2 b1(3) by (intro disj_forward [OF _ _ exI [of _ s2]]) auto
  qed
qed

section \<open>The environment of the session\<close>

definition split_entry :: "string \<Rightarrow> (string \<times> string) option" where
  "split_entry e = (if e = [] then None else case split2 (CHR ''='') e of (k, v) \<Rightarrow> if k = [] then None else map_option (Pair k) v)"

lemma map_of_setenv:
  "map_of (launcher_setenv k v overwrite env) =
   (if \<not> overwrite \<and> map_of env k \<noteq> None then map_of env else (map_of env)(k \<mapsto> v))"
  by (auto simp: launcher_setenv_def update_conv' map_of_eq_None_iff)

lemma map_of_import:
  "map_of (fold import_entry es env) k =
   (case map_of env k of Some v \<Rightarrow> Some v | None \<Rightarrow> map_of (List.map_filter split_entry es) k)"
proof (induction es arbitrary: env)
  case (Cons e es)
  then show ?case
    by (cases "e = []"; cases "split2 (CHR ''='') e"; cases "snd (split2 (CHR ''='') e)")
      (auto simp: import_entry_def split_entry_def map_filter_simps map_of_setenv split: option.split)
qed (simp add: map_filter_simps split: option.split)

lemma map_of_unset:
  "map_of (fold (\<lambda>k env. if map_of own k = None then AList.delete k env else env) vs env) k =
   (if k \<in> set vs \<and> map_of own k = None then None else map_of env k)"
  by (induction vs arbitrary: env) (auto simp: delete_conv')

definition inherited_variable :: "x_world \<Rightarrow> string list option \<Rightarrow> string \<Rightarrow> string option" where
  "inherited_variable w imported k =
     (case map_of (xv_environ w) k of
        Some v \<Rightarrow> Some v
      | None \<Rightarrow> if k \<in> set session_variables then None else map_of (List.map_filter split_entry (case imported of None \<Rightarrow> [] | Some es \<Rightarrow> es)) k)"

lemma map_of_import_variables: "map_of (import_variables w imported (xv_environ w)) k = inherited_variable w imported k"
  by (cases imported) (auto simp: import_variables_def inherited_variable_def map_of_unset map_of_import map_filter_simps split: option.split)

text \<open>C35. Where a variable of a session comes from. An X session gets the display and the authority file of its own X server
  and the address of the bus that was started for it, and in WINDOWPATH the terminal that XDG_VTNR names; any other variable is that of the program itself or else, and never
  instead of it, that of the user's manager, but not if it belongs to an earlier session of the user. A Wayland session has
  no display but one it was given.\<close>

theorem session_variable_sources:
  "map_of (session_environment w display_name auth_file s) k =
     (if k = ''WINDOWPATH'' \<and> map_of (xv_environ w) ''XDG_VTNR'' \<noteq> None then map_of (xv_environ w) ''XDG_VTNR''
      else if k = ''DBUS_SESSION_BUS_ADDRESS'' \<and> xs_bus_address s \<noteq> None then xs_bus_address s
      else if k = ''XAUTHORITY'' then Some auth_file
      else if k = ''DISPLAY'' then Some display_name
      else inherited_variable w (xs_environment s) k) \<and>
   map_of (session_environment_wayland w s) k =
     (if k = ''DBUS_SESSION_BUS_ADDRESS'' \<and> xs_bus_address s \<noteq> None then xs_bus_address s
      else inherited_variable w (xs_environment s) k)"
  by (auto simp: session_environment_def session_environment_wayland_def Let_def map_of_setenv map_of_import_variables
      split: option.split)

section \<open>Properties of the programs\<close>

lemma run_session_outcome:
  assumes "session_ran w register events q st s'" "xs_x_subprocess q \<noteq> None" "(xs_bus_subprocess q = None) = xv_session_bus w"
  shows "nothing_left w s' \<and>
    st = status_of_turn (List.find (list_ex (\<lambda>e. case e of BusDone _ \<Rightarrow> \<not> xv_session_bus w | RegisterTimeout \<Rightarrow> False | _ \<Rightarrow> True)) events) \<and>
    (\<exists>pre post d a pid argv r. xs_log s' = pre @ [ActivationEnvironment d a,
        DisplayRegistered [(''session-type'', ''x11''), (''x11-display-name'', d)],
        Spawned UserSession pid argv (session_environment w d a r)] @ post \<and>
      (\<forall>p a e. Spawned UserSession p a e \<notin> set pre) \<and> (\<forall>e \<in> set post. \<not> is_spawn e))"
proof -
  from assms(1) obtain s pre d a pid argv r where run: "run_session register events s = Some (st, s')"
    and n: "no_session w r" "xs_x_subprocess r = xs_x_subprocess q" "xs_bus_subprocess r = xs_bus_subprocess q"
    and l: "xs_log r = pre @ [ActivationEnvironment d a, DisplayRegistered [(''session-type'', ''x11''), (''x11-display-name'', d)]]"
    and s: "s = xemit [Spawned UserSession pid argv (session_environment w d a r)] (r\<lparr>xs_session_subprocess := Some pid\<rparr>)"
    unfolding session_ran_def by blast
  note st = session_started [OF n(1) s]
  define s1 where "s1 = (if register then s\<lparr>xs_register_session := True\<rparr> else s)"
  have same: "same_processes s s1" "xs_log s1 = xs_log s @ []" "flags s1 = flags s" "xs_session_exit_status s1 = xs_session_exit_status s"
    by (simp_all add: s1_def same_processes_def)
  have t: "tracked w s1" using st same_processes_slot [OF same(1)] by (intro tracked_quiet [OF _ same(2)]) simp_all
  have "map_option (\<lambda>s. finish_session (if xs_session_subprocess s = None then xs_session_exit_status s else EX_OK) s)
      (run_main_loop events s1) = Some (st, s')"
    using run by (simp add: run_session_def s1_def)
  from x_program.end_of_loop [OF this TrueI t, of pid] st same
  have e: "st = status_of_turn (List.find (list_ex (ends_loop s1)) events)" "nothing_left w s'"
    and "\<exists>fx. xs_log s' = xs_log s1 @ fx \<and> (\<forall>e \<in> set fx. \<not> is_spawn e)"
    by (simp_all add: same_processes_def)
  then obtain fx where fx: "xs_log s' = xs_log s1 @ fx" "\<forall>e \<in> set fx. \<not> is_spawn e" by blast
  have "ends_loop s1 = (\<lambda>e. case e of BusDone _ \<Rightarrow> \<not> xv_session_bus w | RegisterTimeout \<Rightarrow> False | _ \<Rightarrow> True)"
  proof
    fix e show "ends_loop s1 e = (case e of BusDone _ \<Rightarrow> \<not> xv_session_bus w | RegisterTimeout \<Rightarrow> False | _ \<Rightarrow> True)"
      using st same(1) n assms(2,3) by (cases e) (simp_all add: same_processes_def)
  qed
  moreover have "\<forall>p a e. Spawned UserSession p a e \<notin> set pre" using n(1) l by (auto simp: no_session_def)
  moreover have "xs_log s' = pre @ [ActivationEnvironment d a, DisplayRegistered [(''session-type'', ''x11''), (''x11-display-name'', d)],
      Spawned UserSession pid argv (session_environment w d a r)] @ fx"
    using fx(1) same(2) l s by simp
  ultimately show ?thesis using e fx(2)
    by (intro conjI exI [of _ pre] exI [of _ fx] exI [of _ d] exI [of _ a] exI [of _ pid] exI [of _ argv] exI [of _ r]) simp_all
qed

lemma wayland_session_ran:
  assumes st: "tracked w s3" "flags s3 = (False, False)" "xs_session_subprocess s3 = Some pid" "xs_session_exit_status s3 = EX_OK"
    "xs_x_subprocess s3 = None"
    and d: "(case connect_to_display_manager w s3 of (ok, s) \<Rightarrow>
        if \<not> ok then Some (finish_session_wayland EX_OK s)
        else (case register_display_wayland w s of (ok, s) \<Rightarrow>
          if \<not> ok then Some (finish_session_wayland EX_SOFTWARE s) else run_session_wayland register events s)) = Some (st, s')"
  shows "nothing_left w s'"
proof -
  obtain ok4 s4 where s4: "connect_to_display_manager w s3 = (ok4, s4)" by (cases "connect_to_display_manager w s3")
  obtain ok5 s5 where s5: "register_display_wayland w s4 = (ok5, s5)" by (cases "register_display_wayland w s4")
  define s6 where "s6 = (if register then s5\<lparr>xs_register_session := True\<rparr> else s5)"
  have q4: "same_processes s3 s4" "xs_log s4 = xs_log s3 @ []" "flags s4 = flags s3" "xs_session_exit_status s4 = xs_session_exit_status s3"
    using s4 by (auto simp: connect_to_display_manager_def same_processes_def split: if_splits)
  have q5: "same_processes s4 s5" "\<exists>fx. xs_log s5 = xs_log s4 @ fx \<and> (\<forall>e \<in> set fx. \<not> is_spawn e)" "flags s5 = flags s4"
    "xs_session_exit_status s5 = xs_session_exit_status s4"
    using s5 by (auto simp: register_display_wayland_def same_processes_def intro: exI [of _ "[]"] split: if_splits)
  have q6: "same_processes s5 s6" "xs_log s6 = xs_log s5 @ []" "flags s6 = flags s5" "xs_session_exit_status s6 = xs_session_exit_status s5"
    by (simp_all add: s6_def same_processes_def)
  have t4: "tracked w s4" using st(1) same_processes_slot [OF q4(1)] by (intro tracked_quiet [OF _ q4(2)]) simp_all
  have t5: "tracked w s5" using q5(2) tracked_quiet [OF t4 _ _ same_processes_slot [OF q5(1)]] by blast
  have t6: "tracked w s6" using same_processes_slot [OF q6(1)] by (intro tracked_quiet [OF t5 q6(2)]) simp_all
  have x: "xs_x_subprocess s4 = None" "xs_x_subprocess s5 = None" "xs_x_subprocess s6 = None"
    using st q4 q5 q6 by (simp_all add: same_processes_def)
  consider "finish_session_wayland EX_OK s4 = (st, s')" | "finish_session_wayland EX_SOFTWARE s5 = (st, s')"
    | "run_session_wayland register events s5 = Some (st, s')"
    using d s4 s5 by (auto split: if_splits)
  then show ?thesis
  proof cases
    case 3
    then have "map_option (\<lambda>s. finish_session_wayland (if xs_session_subprocess s = None then xs_session_exit_status s else EX_OK) s)
        (run_main_loop events s6) = Some (st, s')" by (simp add: run_session_wayland_def s6_def)
    from wayland_program.end_of_loop [OF this x(3) t6, of pid] show ?thesis
      using st q4 q5 q6 by (simp add: same_processes_def)
  qed (use wayland_program.finish_processes x t4 t5 in \<open>metis snd_conv\<close>)+
qed

lemma wayland_main_nothing_left:
  assumes "wayland_session_main w args register events = Some (st, s')"
  shows "nothing_left w s'"
proof (cases "\<exists>c. args = [c] \<and> xv_settings w")
  case False
  have n: "xs_x_subprocess (new_x_state w c) = None" for c by (simp add: new_x_state_def)
  from False assms show ?thesis
    using wayland_program.early_end [OF n no_session_new]
    by (auto simp: wayland_session_main_def Let_def nothing_left_def new_x_state_def split: list.splits)
next
  case True
  then obtain c where c: "args = [c]" "xv_settings w" by blast
  let ?s0 = "new_x_state w c"
  obtain ok1 s1 where s1: "spawn_bus w ''3'' ?s0 = (ok1, s1)" by (cases "spawn_bus w ''3'' ?s0")
  have n1: "no_session w s1" "xs_x_subprocess s1 = None"
    using spawn_bus_no_session [OF no_session_new _ s1] by (simp_all add: new_x_state_def)
  let ?s2 = "snd (import_environment w s1)"
  have n2: "no_session w ?s2" "xs_x_subprocess ?s2 = None"
    using import_environment_no_session [OF n1(1)] n1(2) by (simp_all add: same_processes_def)
  obtain ok3 s3 where s3: "spawn_session_wayland w ?s2 = (ok3, s3)" by (cases "spawn_session_wayland w ?s2")
  note n3 = spawn_session_wayland_cases [OF s3]
  note d = assms [unfolded wayland_session_main_def Let_def c list.case, simplified c s1 s3 prod.case]
  have early: "nothing_left w s'" if "no_session w r" "xs_x_subprocess r = None" "finish_session_wayland n r = (st, s')" for n r
    using wayland_program.early_end [OF that(2,1,3)] by blast
  show ?thesis
  proof (cases "ok1 \<and> ok3")
    case False
    then have "\<exists>n r. no_session w r \<and> xs_x_subprocess r = None \<and> finish_session_wayland n r = (st, s')"
      using d n1 n2 n3 by (auto split: if_splits)
    then show ?thesis using early by blast
  next
    case True
    then obtain pid argv where s: "s3 = xemit [Spawned UserSession pid argv (session_environment_wayland w ?s2)]
        (?s2\<lparr>xs_session_subprocess := Some pid\<rparr>)" using n3 by blast
    note st = session_started [OF n2(1) s]
    from st n2 d True show ?thesis
      by (intro wayland_session_ran [of w s3 pid register events st s']) simp_all
  qed
qed

text \<open>C32. Neither program leaves a process behind: when it returns, every process that it started has ended, or was told to
  terminate and waited for. The exceptions are an X server that does not write its number and a bus that does not write its
  address, which are forgotten as they are.\<close>

theorem session_leaves_nothing:
  assumes "x_session_main w args run_script allow register events = Some (st, s') \<or>
    wayland_session_main w args register events = Some (st, s')"
    and "Spawned p pid argv env \<in> set (xs_log s')"
  shows "Ended p pid \<in> set (xs_log s') \<or> TermSent p pid \<in> set (xs_log s') \<and> WaitedFor p pid \<in> set (xs_log s') \<or>
    p \<noteq> UserSession \<and> (\<forall>l. xv_line w p \<noteq> FirstLine l)"
proof -
  have "nothing_left w s'"
    using assms(1) wayland_main_nothing_left x_session_main_cases run_session_outcome never_ran_def by metis
  then show ?thesis using assms(2) unfolding nothing_left_def mute_def by blast
qed

text \<open>C33. The session of an X session runs on a display that the bus and then the daemon were told of before, with that
  display and its authority file in its environment; and the program ends with the status of the session if the session
  ends in the turn of the main loop that is its last, and before a signal of that turn, but with success when the session was
  killed, or only something else ended the program.\<close>

theorem x_session_status:
  assumes "x_session_main w args run_script allow register events = Some (st, s')"
    and "Spawned UserSession pid argv env \<in> set (xs_log s')"
  shows "(\<exists>pre post d a. xs_log s' = pre @ [ActivationEnvironment d a, DisplayRegistered [(''session-type'', ''x11''),
        (''x11-display-name'', d)], Spawned UserSession pid argv env] @ post \<and>
      map_of env ''DISPLAY'' = Some d \<and> map_of env ''XAUTHORITY'' = Some a) \<and>
    st = (case List.find (list_ex (\<lambda>e. case e of BusDone _ \<Rightarrow> \<not> xv_session_bus w | RegisterTimeout \<Rightarrow> False | _ \<Rightarrow> True)) events of
            Some turn \<Rightarrow> (case List.find (\<lambda>e. case e of SessionDone f \<Rightarrow> f \<noteq> Cancelled | SigTerm \<Rightarrow> True | _ \<Rightarrow> False) turn of
              Some (SessionDone (ExitedWith n)) \<Rightarrow> n | _ \<Rightarrow> 0)
          | None \<Rightarrow> 0)"
proof -
  have "\<not> never_ran w s'" using assms(2) by (auto simp: never_ran_def)
  then have "\<exists>q. xs_x_subprocess q \<noteq> None \<and> (xs_bus_subprocess q = None) = xv_session_bus w \<and> session_ran w register events q st s'"
    using x_session_main_cases [OF assms(1)] by (elim disjE) simp_all
  then obtain q where q: "xs_x_subprocess q \<noteq> None" "(xs_bus_subprocess q = None) = xv_session_bus w"
    "session_ran w register events q st s'" by (elim exE conjE) (rule that)
  from run_session_outcome [OF q(3,1,2)] obtain pre post d a pid' argv' r where
    l: "xs_log s' = pre @ [ActivationEnvironment d a, DisplayRegistered [(''session-type'', ''x11''), (''x11-display-name'', d)],
        Spawned UserSession pid' argv' (session_environment w d a r)] @ post"
    and n: "\<forall>p a e. Spawned UserSession p a e \<notin> set pre" "\<forall>e \<in> set post. \<not> is_spawn e"
    and st: "st = status_of_turn (List.find (list_ex (\<lambda>e. case e of BusDone _ \<Rightarrow> \<not> xv_session_bus w | RegisterTimeout \<Rightarrow> False | _ \<Rightarrow> True)) events)"
    by (elim conjE exE) (rule that, assumption+)
  have "Spawned UserSession pid argv env \<notin> set post" using n(2) by auto
  then have e: "pid = pid'" "argv = argv'" "env = session_environment w d a r" using assms(2) l n(1) by auto
  have v: "map_of env ''DISPLAY'' = Some d" "map_of env ''XAUTHORITY'' = Some a"
    by (simp_all add: e(3) session_environment_def Let_def map_of_setenv split: option.split)
  have f: "settles_status = (\<lambda>e. case e of SessionDone f \<Rightarrow> f \<noteq> Cancelled | SigTerm \<Rightarrow> True | _ \<Rightarrow> False)"
  proof
    fix e show "settles_status e = (case e of SessionDone f \<Rightarrow> f \<noteq> Cancelled | SigTerm \<Rightarrow> True | _ \<Rightarrow> False)" by (cases e) simp_all
  qed
  have "status_of ev = (case ev of Some (SessionDone (ExitedWith n)) \<Rightarrow> n | _ \<Rightarrow> 0)" for ev
    by (cases ev rule: status_of.cases) (simp_all add: EX_OK_def)
  then have "status_of_turn turn = (case turn of Some turn \<Rightarrow>
      (case List.find (\<lambda>e. case e of SessionDone f \<Rightarrow> f \<noteq> Cancelled | SigTerm \<Rightarrow> True | _ \<Rightarrow> False) turn of
        Some (SessionDone (ExitedWith n)) \<Rightarrow> n | _ \<Rightarrow> 0) | None \<Rightarrow> 0)" for turn
    by (simp add: status_of_turn_def f EX_OK_def split: option.split)
  then show ?thesis using l v st unfolding e(1,2) e(3) [symmetric]
    by (intro conjI exI [of _ pre] exI [of _ post] exI [of _ d] exI [of _ a]) simp_all
qed

text \<open>An example: an X server on display 1, a bus of its own, and a session that ends with status 3.\<close>

definition example_x_world :: x_world where
  "example_x_world =
     \<lparr>xv_environ = [(''XDG_VTNR'', ''2'')], xv_runtime_dir = ''/run/user/1000/'', xv_build_filename = concat, xv_open = (\<lambda>_. True),
      xv_fdopen = True, xv_hostname = Some ''host'', xv_random = Some [1, 2, 3], xv_auth_write = (\<lambda>_. True), xv_pipe = (\<lambda>_. True),
      xv_spawn = (\<lambda>p _ _. Some (case p of XServerProcess \<Rightarrow> 10 | BusProcess \<Rightarrow> 11 | UserSession \<Rightarrow> 12)),
      xv_line = (\<lambda>_. FirstLine ''1''), xv_session_bus = False, xv_connect = (\<lambda>_. True), xv_import = Some [''LANG=C''], xv_update = True,
      xv_display_manager = True, xv_register = True, xv_parse_argv = (\<lambda>c. Some [c]), xv_local_only = False,
      xv_x_server = ''/usr/bin/X'', xv_conf_dir = ''/etc/scdm'', xv_settings = True, xv_debug = False\<rparr>"

definition example_run :: "(int \<times> x_state) option" where
  "example_run = x_session_main example_x_world [''session''] False False True [[RegisterTimeout], [XServerDone (ExitedWith 0), SessionDone (ExitedWith 3)], [SigTerm]]"

lemma example_run_log:
  "map_option (\<lambda>(st, s). (st, filter is_spawn (xs_log s))) example_run =
   Some (3, [Spawned XServerProcess 10
       [''/usr/bin/X'', ''vt2'', ''-displayfd'', ''3'', ''-auth'', ''/run/user/1000/scdmXauthority'', ''-nolisten'', ''tcp'', ''-background'', ''none'',
        ''-noreset'', ''-keeptty'', ''-novtswitch'', ''-verbose'', ''3''] [(''XDG_VTNR'', ''2''), (''XORG_RUN_AS_USER_OK'', ''1'')],
     Spawned BusProcess 11 [''dbus-daemon'', ''--print-address'', ''4'', ''--session''] [(''XDG_VTNR'', ''2'')],
     Spawned UserSession 12 [''session''] [(''XDG_VTNR'', ''2''), (''LANG'', ''C''), (''DISPLAY'', '':1''),
       (''XAUTHORITY'', ''/run/user/1000/scdmXauthority''), (''DBUS_SESSION_BUS_ADDRESS'', ''1''), (''WINDOWPATH'', ''2'')]])"
  by code_simp

lemma example_run_obtain:
  obtains st s' env where "x_session_main example_x_world [''session''] False False True
      [[RegisterTimeout], [XServerDone (ExitedWith 0), SessionDone (ExitedWith 3)], [SigTerm]] = Some (st, s')"
    and "Spawned UserSession 12 [''session''] env \<in> set (xs_log s')"
proof -
  from example_run_log obtain st s' where m: "example_run = Some (st, s')"
    and "\<exists>env. Spawned UserSession 12 [''session''] env \<in> set (filter is_spawn (xs_log s'))"
    by (auto simp del: set_filter)
  then obtain env where "Spawned UserSession 12 [''session''] env \<in> set (xs_log s')" by auto
  then show ?thesis using that m by (simp add: example_run_def)
qed

theorem session_leaves_nothing_witness:
  "\<exists>st s'. example_run = Some (st, s') \<and> (Ended UserSession 12 \<in> set (xs_log s') \<or>
     TermSent UserSession 12 \<in> set (xs_log s') \<and> WaitedFor UserSession 12 \<in> set (xs_log s'))"
proof -
  obtain st s' env where m: "x_session_main example_x_world [''session''] False False True
      [[RegisterTimeout], [XServerDone (ExitedWith 0), SessionDone (ExitedWith 3)], [SigTerm]] = Some (st, s')"
    and e: "Spawned UserSession 12 [''session''] env \<in> set (xs_log s')" by (rule example_run_obtain)
  from session_leaves_nothing [OF disjI1 [OF m] e] m show ?thesis by (auto simp: example_run_def)
qed

theorem x_session_status_witness:
  "\<exists>s'. example_run = Some (3, s')"
proof -
  obtain st s' env where m: "x_session_main example_x_world [''session''] False False True
      [[RegisterTimeout], [XServerDone (ExitedWith 0), SessionDone (ExitedWith 3)], [SigTerm]] = Some (st, s')"
    and e: "Spawned UserSession 12 [''session''] env \<in> set (xs_log s')" by (rule example_run_obtain)
  from x_session_status [OF m e] m show ?thesis by (simp add: example_run_def)
qed

section \<open>The authority of the X server\<close>

text \<open>What follows the name of the file on the command line.\<close>

definition x_server_options :: "x_world \<Rightarrow> bool \<Rightarrow> bool \<Rightarrow> string list" where
  "x_server_options w debug allow =
     (if xv_local_only w then if allow then [''-listen'', ''tcp''] else [] else if \<not> allow then [''-nolisten'', ''tcp''] else []) @
     [''-background'', ''none'', ''-noreset'', ''-keeptty'', ''-novtswitch'', ''-verbose'', if debug then ''7'' else ''3''] @
     (if debug then [''-core''] else [])"

lemma take_cells:
  "map the (takeWhile (\<lambda>x. x \<noteq> None) (map Some xs @ ys)) = xs @ map the (takeWhile (\<lambda>x. x \<noteq> None) ys)" for xs :: "string list"
  by (induction xs) simp_all

lemma x_server_argv:
  "map the (takeWhile (\<lambda>x. x \<noteq> None) (x_server_cells w debug allow a)) =
   xv_x_server w # (case x_server_vt w of None \<Rightarrow> [] | Some v \<Rightarrow> [v]) @ [''-displayfd'', ''3'', ''-auth''] @
     (case a of None \<Rightarrow> [] | Some f \<Rightarrow> f # x_server_options w debug allow)"
proof -
  have "x_server_cells w debug allow a =
    map Some (xv_x_server w # (case x_server_vt w of None \<Rightarrow> [] | Some v \<Rightarrow> [v]) @ [''-displayfd'', ''3'', ''-auth'']) @
      a # map Some (x_server_options w debug allow) @ [None]"
    by (simp add: x_server_cells_def x_server_options_def split: option.split)
  then show ?thesis by (simp only: take_cells) (simp add: take_cells del: not_None_eq split: option.split)
qed

lemma x_server_network:
  "if xv_local_only w then (''-listen'' \<in> set (x_server_options w debug allow)) = allow
   else (take 2 (x_server_options w debug allow) = [''-nolisten'', ''tcp'']) = (\<not> allow)"
  by (simp add: x_server_options_def)

lemma example_x_server:
  "let (ok, s) = spawn_x_server example_x_world False (new_x_state example_x_world ''session'')
   in ok \<and> Spawned XServerProcess 10 [''/usr/bin/X'', ''vt2'', ''-displayfd'', ''3'', ''-auth'', ''/run/user/1000/scdmXauthority'',
        ''-nolisten'', ''tcp'', ''-background'', ''none'', ''-noreset'', ''-keeptty'', ''-novtswitch'', ''-verbose'', ''3'']
       [(''XDG_VTNR'', ''2''), (''XORG_RUN_AS_USER_OK'', ''1'')] \<in> set (xs_log s)"
  by code_simp

text \<open>C34. The X server of an X session demands a cookie of its clients: before it is started a new authority file is made, the
  cookie is written to it for the host and for all hosts, and it is this file that the command line of the server names and that
  the session gets; the server does not listen to the network unless that is allowed. When the file cannot be made, or one of the
  entries cannot be written, the server is started all the same: its command line ends where the name of the file should
  be, so that what would keep it from the network is missing too, and the session gets no file.\<close>

theorem x_server_authority:
  assumes "spawn_x_server w allow s = (ok, s')" "Spawned XServerProcess pid argv env \<in> set (xs_log s')"
    and "Spawned XServerProcess pid argv env \<notin> set (xs_log s)"
  shows "let file = xv_build_filename w [xv_build_filename w [xv_runtime_dir w, ''scdm''], ''Xauthority''];
      host = (case xv_hostname w of None \<Rightarrow> ''localhost'' | Some h \<Rightarrow> h);
      start = xv_x_server w # (case x_server_vt w of None \<Rightarrow> [] | Some v \<Rightarrow> [v]) @ [''-displayfd'', ''3'', ''-auth'']
    in if xv_open w file \<and> xv_fdopen w \<and> xv_random w \<noteq> None \<and> xv_auth_write w False \<and> xv_auth_write w True
       then xs_log s' = xs_log s @ [AuthFileCreated file, AuthEntryWritten file False host (the (xv_random w)),
           AuthEntryWritten file True host (the (xv_random w)), Spawned XServerProcess pid argv env] \<and>
         (\<exists>post. argv = start @ [file] @ post \<and>
           (if xv_local_only w then (''-listen'' \<in> set post) = allow else (take 2 post = [''-nolisten'', ''tcp'']) = (\<not> allow))) \<and>
         (ok \<longrightarrow> xs_auth_file s' = Some file)
       else argv = start \<and> (ok \<longrightarrow> xs_auth_file s' = None)"
  using assms(1)
proof (cases rule: spawn_x_server_cases)
  case (unchanged fx)
  then show ?thesis using assms(2,3) by auto
next
  case (spawned fx a pid' env' r)
  let ?cells = "x_server_cells w (xs_debug_enabled s) allow a"
  let ?pre = "xv_x_server w # (case x_server_vt w of None \<Rightarrow> [] | Some v \<Rightarrow> [v]) @ [''-displayfd'', ''3'', ''-auth'']"
  have l: "xs_log s' = xs_log s @ fx @ [Spawned XServerProcess pid' (map the (takeWhile (\<lambda>x. x \<noteq> None) ?cells)) env']"
    using spawned(3) by simp
  have "Spawned XServerProcess pid argv env \<notin> set fx" using spawned(1) by auto
  then have e: "Spawned XServerProcess pid argv env = Spawned XServerProcess pid' (map the (takeWhile (\<lambda>x. x \<noteq> None) ?cells)) env'"
    using assms(2,3) l by auto
  show ?thesis
  proof (cases "authority_possible w")
    case True
    note p = prepare_auth_file_written [OF True, of s, unfolded spawned(2)]
    have a: "a = Some (authority_file w)" and fx: "fx = [AuthFileCreated (authority_file w),
        AuthEntryWritten (authority_file w) False (authority_host w) (the (xv_random w)),
        AuthEntryWritten (authority_file w) True (authority_host w) (the (xv_random w))]"
      using p by (auto simp: xemit_def dest: arg_cong [where f = xs_log])
    have argv: "argv = ?pre @ [authority_file w] @ x_server_options w (xs_debug_enabled s) allow"
      using e by (simp add: a x_server_argv del: not_None_eq)
    have "xs_log s' = xs_log s @ fx @ [Spawned XServerProcess pid argv env]" using l e by simp
    moreover have "ok \<longrightarrow> xs_auth_file s' = Some (authority_file w)" using spawned(3) a by simp
    moreover have "\<exists>post. argv = ?pre @ [authority_file w] @ post \<and>
        (if xv_local_only w then (''-listen'' \<in> set post) = allow else (take 2 post = [''-nolisten'', ''tcp'']) = (\<not> allow))"
      using argv x_server_network by blast
    ultimately show ?thesis using True
      unfolding Let_def authority_possible_def authority_file_def [symmetric] authority_host_def [symmetric] fx by simp
  next
    case False
    then have a: "a = None" using prepare_auth_file_failed [OF False, of s] spawned(2) by simp
    then have "argv = ?pre" "ok \<longrightarrow> xs_auth_file s' = None" using e spawned(3) by (simp_all add: x_server_argv del: not_None_eq)
    then show ?thesis using False unfolding Let_def authority_possible_def authority_file_def [symmetric] by simp
  qed
qed

theorem x_server_authority_witness:
  "\<exists>s' post. spawn_x_server example_x_world False (new_x_state example_x_world ''session'') = (True, s') \<and>
     xs_log s' = [AuthFileCreated ''/run/user/1000/scdmXauthority'',
       AuthEntryWritten ''/run/user/1000/scdmXauthority'' False ''host'' [1, 2, 3],
       AuthEntryWritten ''/run/user/1000/scdmXauthority'' True ''host'' [1, 2, 3],
       Spawned XServerProcess 10 ([''/usr/bin/X'', ''vt2'', ''-displayfd'', ''3'', ''-auth'', ''/run/user/1000/scdmXauthority''] @ post)
         [(''XDG_VTNR'', ''2''), (''XORG_RUN_AS_USER_OK'', ''1'')]] \<and>
     take 2 post = [''-nolisten'', ''tcp''] \<and> xs_auth_file s' = Some ''/run/user/1000/scdmXauthority''"
proof -
  let ?s = "new_x_state example_x_world ''session''" and ?env = "[(''XDG_VTNR'', ''2''), (''XORG_RUN_AS_USER_OK'', ''1'')]"
  let ?argv = "[''/usr/bin/X'', ''vt2'', ''-displayfd'', ''3'', ''-auth'', ''/run/user/1000/scdmXauthority'', ''-nolisten'', ''tcp'',
      ''-background'', ''none'', ''-noreset'', ''-keeptty'', ''-novtswitch'', ''-verbose'', ''3'']"
  obtain s' where m: "spawn_x_server example_x_world False ?s = (True, s')"
    using example_x_server by (cases "spawn_x_server example_x_world False ?s") simp
  have e: "Spawned XServerProcess 10 ?argv ?env \<in> set (xs_log s')" using example_x_server m by simp
  have n: "Spawned XServerProcess 10 ?argv ?env \<notin> set (xs_log ?s)" by (simp add: new_x_state_def)
  have v: "x_server_vt example_x_world = Some ''vt2''" by code_simp
  note x = example_x_world_def v [unfolded example_x_world_def] new_x_state_def
  from x_server_authority [OF m e n] show ?thesis
    by (intro exI [of _ s'] exI [of _ "drop 6 ?argv"] conjI m) (simp_all add: x Let_def)
qed

end
