(* ===== verification/Session_List.thy ===== *)
theory Session_List
  imports Session
begin

text \<open>
  The sessions that a greeter offers, \<open>src/libscdm/scdm-sessions.c\<close>: the session files of the directories, by their
  names without the suffix. The directories and files are those of \<open>session_world\<close>, which the daemon reads too; what a
  greeter has besides is a record of its own. The hash table is an association list; the order in which GLib walks it and the
  hash of a string are arguments. \<open>None\<close> is the end of the process, or the reading of memory that has been freed,
  after which nothing is known of it.
\<close>

section \<open>State\<close>

record session_file =
  sf_id :: string
  sf_path :: string
  sf_translated_name :: "string option"
  sf_translated_comment :: "string option"

text \<open>A key file that was loaded: the group \<open>Desktop Entry\<close>, if it has one, and its translated strings.\<close>

record desktop_file =
  df_group :: "key_file option"
  df_locale_string :: "string \<Rightarrow> string option"

record greeter_world =
  gw_world :: session_world
  gw_load :: "string \<Rightarrow> desktop_file option"
  gw_exists :: "string \<Rightarrow> bool"
  gw_wayland_display :: bool
  gw_under_scdm :: bool
  gw_order :: "(string \<times> session_file) list \<Rightarrow> (string \<times> session_file) list"
  gw_str_hash :: "string \<Rightarrow> u32"

definition g_strstrip :: "string \<Rightarrow> string" where
  "g_strstrip s = rev (dropWhile ascii_isspace (rev (dropWhile ascii_isspace s)))"

section \<open>Files\<close>

text \<open>A value that is not a truth value counts as false.\<close>

definition key_file_is_relevant :: "greeter_world \<Rightarrow> key_file \<Rightarrow> bool" where
  "key_file_is_relevant g key_file =
     (let no_display = (kf_boolean key_file ''NoDisplay'' = Inr True);
          hidden = (kf_boolean key_file ''Hidden'' = Inr True);
          tryexec_failed = (case kf_string key_file ''TryExec'' of
                              None \<Rightarrow> False
                            | Some tryexec \<Rightarrow> \<not> sv_find_program_in_path (gw_world g) (g_strstrip tryexec))
      in \<not> (no_display \<or> hidden \<or> tryexec_failed))"

definition load_session_file ::
  "greeter_world \<Rightarrow> string \<Rightarrow> string \<Rightarrow> (string \<times> session_file) list \<Rightarrow> (string \<times> session_file) list" where
  "load_session_file g i path m =
     (case gw_load g path of
        None \<Rightarrow> m
      | Some f \<Rightarrow>
          (case df_group f of
             None \<Rightarrow> m
           | Some key_file \<Rightarrow>
               if \<not> kf_has_key key_file ''Name'' then m
               else if \<not> key_file_is_relevant g key_file then m
               else AList.update i \<lparr>sf_id = i, sf_path = path, sf_translated_name = df_locale_string f ''Name'',
                      sf_translated_comment = df_locale_string f ''Comment''\<rparr> m))"

section \<open>Directories\<close>

definition is_x11 :: "greeter_world \<Rightarrow> bool" where
  "is_x11 g = (\<not> gw_wayland_display g \<and> gw_under_scdm g)"

definition without_suffix :: "string \<Rightarrow> string \<Rightarrow> string" where
  "without_suffix end s = take (length s - length end) s"

text \<open>Under X11 a session for X is left out when there is another of the same name.\<close>

definition collect_file ::
  "greeter_world \<Rightarrow> string \<Rightarrow> string \<Rightarrow> (string \<times> session_file) list \<Rightarrow> (string \<times> session_file) list" where
  "collect_file g dirname filename m =
     (if \<not> suffix ''.desktop'' filename then m
      else if is_x11 g \<and> suffix ''-xorg.desktop'' filename \<and>
              gw_exists g (sv_build_filename (gw_world g) [dirname, without_suffix ''-xorg.desktop'' filename @ ''.desktop''])
      then m
      else load_session_file g (without_suffix ''.desktop'' filename) (sv_build_filename (gw_world g) [dirname, filename]) m)"

definition collect_sessions_from_directory ::
  "greeter_world \<Rightarrow> string \<Rightarrow> (string \<times> session_file) list \<Rightarrow> (string \<times> session_file) list" where
  "collect_sessions_from_directory g dirname m =
     (case sv_read_dir (gw_world g) dirname of None \<Rightarrow> m | Some names \<Rightarrow> fold (collect_file g dirname) names m)"

definition greeter_session_dirs :: "greeter_world \<Rightarrow> string list" where
  "greeter_session_dirs g =
     (let v = gw_world g;
          xorg = map (\<lambda>d. sv_build_filename v [d, ''xsessions'']) (sv_system_data_dirs v) @
            [''/etc/X11/sessions/'', sv_dmconfdir v @ ''/Sessions/'', sv_datadir v @ ''/scdm/BuiltInSessions/'',
             sv_datadir v @ ''/xsessions/''];
          wayland = map (\<lambda>d. sv_build_filename v [d, ''wayland-sessions'']) (sv_system_data_dirs v) @
            [sv_datadir v @ ''/wayland-sessions/'']
      in if sv_wayland_support v \<and> \<not> (sv_user_display_server v \<and> is_x11 g) then xorg @ wayland else xorg)"

text \<open>The table before duplicates are removed.\<close>

definition collected_sessions :: "greeter_world \<Rightarrow> (string \<times> session_file) list" where
  "collected_sessions g = fold (collect_sessions_from_directory g) (greeter_session_dirs g) []"

text \<open>The walk through the table: the entries that stay. A missing name cannot be looked up. The set of names seen holds the
  strings of the sessions themselves: when a name is known the string of the duplicate takes the place of the other, and is freed
  when the duplicate is removed from the table, right after. A set is a list of names with the mark of those that have been
  freed. To look up a name it is compared with the strings that have its hash.\<close>

fun remove_duplicate_sessions ::
  "(string \<Rightarrow> u32) \<Rightarrow> (string \<times> bool) list \<Rightarrow> (string \<times> session_file) list \<Rightarrow> (string \<times> session_file) list option" where
  "remove_duplicate_sessions str_hash names_seen_before [] = Some []"
| "remove_duplicate_sessions str_hash names_seen_before ((i, session) # rest) =
     (case sf_translated_name session of
        None \<Rightarrow> None
      | Some name \<Rightarrow>
          if list_ex (\<lambda>(n, freed). freed \<and> str_hash n = str_hash name) names_seen_before then None
          else if (name, False) \<in> set names_seen_before
          then remove_duplicate_sessions str_hash (map (\<lambda>(n, freed). (n, freed \<or> n = name)) names_seen_before) rest
          else map_option ((#) (i, session)) (remove_duplicate_sessions str_hash ((name, False) # names_seen_before) rest))"

definition collect_sessions :: "greeter_world \<Rightarrow> (string \<times> session_file) list option" where
  "collect_sessions g = remove_duplicate_sessions (gw_str_hash g) [] (gw_order g (collected_sessions g))"

section \<open>The interface\<close>

text \<open>The table is made once; the second argument is the table, if it has been.\<close>

definition the_sessions_map :: "greeter_world \<Rightarrow> (string \<times> session_file) list option \<Rightarrow> (string \<times> session_file) list option" where
  "the_sessions_map g available = (case available of None \<Rightarrow> collect_sessions g | Some m \<Rightarrow> Some m)"

definition scdm_get_session_ids :: "greeter_world \<Rightarrow> (string \<times> session_file) list option \<Rightarrow> string list option" where
  "scdm_get_session_ids g available = map_option (map (\<lambda>(_, session). sf_id session)) (the_sessions_map g available)"

definition scdm_get_session_name_and_description ::
  "greeter_world \<Rightarrow> (string \<times> session_file) list option \<Rightarrow> string \<Rightarrow> (string option \<times> string option) option" where
  "scdm_get_session_name_and_description g available i =
     map_option (\<lambda>m. case map_of m i of
       None \<Rightarrow> (None, None)
     | Some session \<Rightarrow> (sf_translated_name session, sf_translated_comment session)) (the_sessions_map g available)"

end
