(* ===== verification/Session_List_Props.thy ===== *)
theory Session_List_Props
  imports Session_List Session_Props "HOL-Library.Multiset"
begin

text \<open>
  What a greeter offers, and what the daemon starts: the two read the same directories, but not in the same way.
\<close>

section \<open>The files of the table\<close>

text \<open>The entry that a file gives, and all files in the order in which they are read.\<close>

definition file_entry :: "greeter_world \<Rightarrow> string \<times> string \<Rightarrow> (string \<times> session_file) option" where
  "file_entry g = (\<lambda>(dir, file).
     let path = sv_build_filename (gw_world g) [dir, file]; i = without_suffix ''.desktop'' file
     in if \<not> suffix ''.desktop'' file \<or> is_x11 g \<and> suffix ''-xorg.desktop'' file \<and>
             gw_exists g (sv_build_filename (gw_world g) [dir, without_suffix ''-xorg.desktop'' file @ ''.desktop'']) then None
        else (case gw_load g path of
                None \<Rightarrow> None
              | Some f \<Rightarrow> (case df_group f of
                  None \<Rightarrow> None
                | Some k \<Rightarrow> if kf_has_key k ''Name'' \<and> key_file_is_relevant g k
                           then Some (i, \<lparr>sf_id = i, sf_path = path, sf_translated_name = df_locale_string f ''Name'',
                                  sf_translated_comment = df_locale_string f ''Comment''\<rparr>)
                           else None)))"

definition session_files :: "greeter_world \<Rightarrow> (string \<times> string) list" where
  "session_files g = concat (map (\<lambda>dir. map (Pair dir) (case sv_read_dir (gw_world g) dir of None \<Rightarrow> [] | Some names \<Rightarrow> names))
     (greeter_session_dirs g))"

definition put_entry :: "(string \<times> session_file) option \<Rightarrow> (string \<times> session_file) list \<Rightarrow> (string \<times> session_file) list" where
  "put_entry e m = (case e of None \<Rightarrow> m | Some (i, session) \<Rightarrow> AList.update i session m)"

lemma collect_file_entry: "collect_file g dir file m = put_entry (file_entry g (dir, file)) m"
  by (auto simp: collect_file_def file_entry_def load_session_file_def put_entry_def Let_def split: option.split)

lemma collect_directory_entries:
  "collect_sessions_from_directory g dir m =
   fold (\<lambda>f. put_entry (file_entry g f)) (map (Pair dir) (case sv_read_dir (gw_world g) dir of None \<Rightarrow> [] | Some names \<Rightarrow> names)) m"
  by (auto simp: collect_sessions_from_directory_def fold_map o_def collect_file_entry [abs_def] split: option.split)

lemma collected_entries: "collected_sessions g = fold (\<lambda>f. put_entry (file_entry g f)) (session_files g) []"
proof -
  have "fold (collect_sessions_from_directory g) dirs m = fold (\<lambda>f. put_entry (file_entry g f))
      (concat (map (\<lambda>dir. map (Pair dir) (case sv_read_dir (gw_world g) dir of None \<Rightarrow> [] | Some names \<Rightarrow> names)) dirs)) m" for dirs m
    by (induction dirs arbitrary: m) (simp_all add: collect_directory_entries)
  then show ?thesis by (simp add: collected_sessions_def session_files_def)
qed

lemma map_of_put_entries:
  "map_of (fold (\<lambda>f. put_entry (e f)) fs m) i =
   (case map_of (rev (List.map_filter e fs)) i of Some session \<Rightarrow> Some session | None \<Rightarrow> map_of m i)"
  by (induction fs arbitrary: m)
    (auto simp: put_entry_def map_filter_simps update_conv' map_add_def split: option.split)

lemma distinct_put_entries: "distinct (map fst m) \<Longrightarrow> distinct (map fst (fold (\<lambda>f. put_entry (e f)) fs m))"
  by (induction fs arbitrary: m) (auto simp: put_entry_def distinct_update split: option.split)

lemma file_entry_id: "file_entry g f = Some (i, session) \<Longrightarrow> sf_id session = i"
  by (auto simp: file_entry_def Let_def split: prod.splits if_splits option.splits)

text \<open>Of the files that could be a session the one that is read last gives its name and comment: later directories win.\<close>

theorem last_file_names_session:
  "map_of (collected_sessions g) i = map_of (rev (List.map_filter (file_entry g) (session_files g))) i \<and>
   distinct (map fst (collected_sessions g))"
  unfolding collected_entries by (simp add: map_of_put_entries distinct_put_entries split: option.split)

lemma collected_entry:
  assumes "(i, session) \<in> set (collected_sessions g)"
  obtains f where "f \<in> set (session_files g)" "file_entry g f = Some (i, session)"
proof -
  have "distinct (map fst (collected_sessions g))" unfolding collected_entries by (simp add: distinct_put_entries)
  then have "map_of (collected_sessions g) i = Some session" using assms by simp
  then have "map_of (rev (List.map_filter (file_entry g) (session_files g))) i = Some session"
    unfolding collected_entries by (simp add: map_of_put_entries split: option.splits)
  then have "(i, session) \<in> set (List.map_filter (file_entry g) (session_files g))" using map_of_SomeD by fastforce
  then show ?thesis using that by (auto simp: List.map_filter_def)
qed

lemma collected_entry_id: "(i, session) \<in> set (collected_sessions g) \<Longrightarrow> sf_id session = i"
  using collected_entry file_entry_id by metis

lemma collected_distinct: "distinct (map fst (collected_sessions g))"
  unfolding collected_entries by (simp add: distinct_put_entries)

section \<open>Duplicates\<close>

abbreviation name_of :: "string \<times> session_file \<Rightarrow> string option" where
  "name_of e \<equiv> sf_translated_name (snd e)"

lemma marked_names: "fst ` set (map (\<lambda>(n, freed). (n, freed \<or> n = name)) seen) = fst ` set seen"
  by force

lemma not_seen:
  "\<not> list_ex (\<lambda>(n, freed). freed \<and> h n = h name) seen \<Longrightarrow> (name, False) \<notin> set seen \<Longrightarrow> name \<notin> fst ` set seen"
  by (induction seen) auto

lemma remove_duplicates_result:
  assumes "remove_duplicate_sessions h seen l = Some r"
  shows "set r \<subseteq> set l \<and> distinct (map name_of r) \<and>
    (\<forall>e \<in> set r. name_of e \<noteq> None \<and> the (name_of e) \<notin> fst ` set seen) \<and>
    (\<forall>e \<in> set l. name_of e \<in> Some ` fst ` set seen \<union> name_of ` set r) \<and>
    (distinct (map fst l) \<longrightarrow> distinct (map fst r))"
  using assms
proof (induction h seen l arbitrary: r rule: remove_duplicate_sessions.induct)
  case (2 h seen i session rest)
  then obtain name where n: "sf_translated_name session = Some name"
    and live: "\<not> list_ex (\<lambda>(n, freed). freed \<and> h n = h name) seen" by (auto split: option.splits if_splits)
  show ?case
  proof (cases "(name, False) \<in> set seen")
    case True
    let ?seen = "map (\<lambda>(n, freed). (n, freed \<or> n = name)) seen"
    have "remove_duplicate_sessions h ?seen rest = Some r" using 2(3) n live True by simp
    note ih = 2(1) [OF n live True this, unfolded marked_names]
    have "name \<in> fst ` set seen" using True by force
    then show ?thesis using ih n by auto
  next
    case False
    note new = not_seen [OF live False]
    obtain r' where r': "remove_duplicate_sessions h ((name, False) # seen) rest = Some r'" "r = (i, session) # r'"
      using 2(3) n live False by auto
    from 2(2) [OF n live False r'(1)] show ?thesis using new n r'(2) by (auto simp: image_iff)
  qed
qed simp

text \<open>When the walk is safe: nothing freed is looked at while no hash is that of more than two names, counting those seen.\<close>

definition uses :: "(string \<Rightarrow> u32) \<Rightarrow> u32 \<Rightarrow> (string \<times> bool) list \<Rightarrow> nat" where
  "uses h x seen = sum_list (map (\<lambda>(n, freed). if h n = x then if freed then 2 else 1 else 0) seen)"

definition named :: "(string \<Rightarrow> u32) \<Rightarrow> u32 \<Rightarrow> (string \<times> session_file) list \<Rightarrow> nat" where
  "named h x l = length (filter (\<lambda>e. h (the (name_of e)) = x) l)"

lemma uses_marked:
  assumes "distinct (map fst seen)" "(name, False) \<in> set seen"
  shows "uses h x (map (\<lambda>(n, freed). (n, freed \<or> n = name)) seen) = uses h x seen + (if h name = x then 1 else 0)"
proof -
  obtain xs ys where s: "seen = xs @ (name, False) # ys" using assms(2) by (meson split_list)
  have "map (\<lambda>(n, freed). (n, freed \<or> n = name)) zs = zs" if "name \<notin> fst ` set zs" for zs
    using that by (induction zs) auto
  then show ?thesis using assms(1) by (simp add: s uses_def)
qed

lemma remove_duplicates_safe:
  assumes "\<forall>e \<in> set l. name_of e \<noteq> None" "distinct (map fst seen)" "\<And>x. uses h x seen + named h x l \<le> 2"
  shows "remove_duplicate_sessions h seen l \<noteq> None"
  using assms
proof (induction h seen l rule: remove_duplicate_sessions.induct)
  case (2 h seen i session rest)
  then obtain name where n: "sf_translated_name session = Some name" by auto
  have c: "named h x ((i, session) # rest) = named h x rest + (if h name = x then 1 else 0)" for x by (simp add: named_def n)
  have "uses h (h name) seen \<le> 1" using 2(5) [of "h name"] c by simp
  moreover have "2 \<le> uses h (h name) seen" if "(m, True) \<in> set seen" "h m = h name" for m
    using that by (auto simp: uses_def dest!: split_list)
  ultimately have live: "\<not> list_ex (\<lambda>(n, freed). freed \<and> h n = h name) seen" by (fastforce simp: list_ex_iff)
  show ?case
  proof (cases "(name, False) \<in> set seen")
    case True
    let ?seen = "map (\<lambda>(n, freed). (n, freed \<or> n = name)) seen"
    have "map fst ?seen = map fst seen" by auto
    then have d: "distinct (map fst ?seen)" using 2(4) by (simp only:)
    have "remove_duplicate_sessions h ?seen rest \<noteq> None"
      using 2(3,5) c uses_marked [OF 2(4) True] by (intro 2(1) [OF n live True _ d]) (simp_all add: add.commute add.left_commute)
    then show ?thesis using n live True by simp
  next
    case False
    note new = not_seen [OF live False]
    have "uses h x ((name, False) # seen) + named h x rest \<le> 2" for x
      using 2(5) [of x] c [of x] by (auto simp: uses_def)
    then have "remove_duplicate_sessions h ((name, False) # seen) rest \<noteq> None"
      using 2(3,4) new by (intro 2(2) [OF n live False]) simp_all
    then show ?thesis using n live False by simp
  qed
qed simp

text \<open>And when it is not: the third session of a name is compared with the name of the second.\<close>

definition times_seen :: "string \<Rightarrow> (string \<times> bool) list \<Rightarrow> nat" where
  "times_seen name seen = (if (name, True) \<in> set seen then 2 else if (name, False) \<in> set seen then 1 else 0)"

lemma marked_in:
  "(x, b) \<in> set (map (\<lambda>(n, freed). (n, freed \<or> n = m)) seen) \<longleftrightarrow> (if x = m then b \<and> x \<in> fst ` set seen else (x, b) \<in> set seen)"
  by (induction seen) auto

lemma remove_duplicates_unsafe:
  assumes "3 \<le> length (filter (\<lambda>e. name_of e = Some name) l) + times_seen name seen"
    and "1 \<le> length (filter (\<lambda>e. name_of e = Some name) l)"
  shows "remove_duplicate_sessions h seen l = None"
  using assms
proof (induction h seen l rule: remove_duplicate_sessions.induct)
  case (2 h seen i session rest)
  let ?c = "length (filter (\<lambda>e. name_of e = Some name) rest)"
  show ?case
  proof (cases "sf_translated_name session")
    case (Some m)
    let ?seen = "map (\<lambda>(n, freed). (n, freed \<or> n = m)) seen"
    show ?thesis
    proof (cases "list_ex (\<lambda>(n, freed). freed \<and> h n = h m) seen")
      case False
      then have f: "(m, True) \<notin> set seen" by (induction seen) auto
      have count: "length (filter (\<lambda>e. name_of e = Some name) ((i, session) # rest)) = ?c + (if m = name then 1 else 0)"
        by (simp add: Some)
      have marked: "times_seen name ?seen = (if m = name then 2 else times_seen name seen)" if "(m, False) \<in> set seen"
        using that unfolding times_seen_def marked_in by (auto simp: image_iff)
      have added: "times_seen name ((m, False) # seen) = (if m = name then 1 else times_seen name seen)" if "(m, False) \<notin> set seen"
        using that f by (auto simp: times_seen_def)
      have seen: "times_seen m seen = (if (m, False) \<in> set seen then 1 else 0)" using f by (simp add: times_seen_def)
      have "remove_duplicate_sessions h ?seen rest = None" if k: "(m, False) \<in> set seen"
        using 2(3,4) seen k unfolding count
        by (intro 2(1) [OF Some False k]) (auto simp: marked [OF k] split: if_splits)
      moreover have "remove_duplicate_sessions h ((m, False) # seen) rest = None" if k: "(m, False) \<notin> set seen"
        using 2(3,4) seen k unfolding count
        by (intro 2(2) [OF Some False k]) (auto simp: added [OF k] split: if_splits)
      ultimately show ?thesis using Some False by simp
    qed (simp add: Some)
  qed simp
qed simp

lemma same_mset:
  assumes "mset l' = mset l"
  shows "set l' = set l" and "length (filter P l') = length (filter P l)" and "distinct (map fst l) \<Longrightarrow> distinct (map fst l')"
proof -
  show "set l' = set l" using assms by (rule mset_eq_setD)
  show "length (filter P l') = length (filter P l)" using assms by (metis mset_filter size_mset)
  show "distinct (map fst l) \<Longrightarrow> distinct (map fst l')" using assms by (metis mset_map mset_eq_imp_distinct_iff)
qed

text \<open>C21. The list of sessions, with the table walked in whatever order. When it is returned no two sessions in it have the same id
  or the same name, each comes from a session file, and what is left out has the name of one that is offered. It is returned when
  each session has a name and no hash is that of more than two of the names. But with three sessions of one name the
  process reads memory that it has freed.\<close>

theorem session_list:
  assumes "mset (gw_order g (collected_sessions g)) = mset (collected_sessions g)"
  shows "(\<forall>ids. scdm_get_session_ids g None = Some ids \<longrightarrow>
      (\<exists>m. collect_sessions g = Some m \<and> ids = map fst m \<and> distinct ids \<and>
        distinct (map (\<lambda>e. sf_translated_name (snd e)) m) \<and> set m \<subseteq> set (collected_sessions g) \<and>
        (\<forall>e \<in> set (collected_sessions g). \<exists>e' \<in> set m. sf_translated_name (snd e') = sf_translated_name (snd e)))) \<and>
    ((\<forall>e \<in> set (collected_sessions g). sf_translated_name (snd e) \<noteq> None) \<longrightarrow>
     (\<forall>x. length (filter (\<lambda>e. gw_str_hash g (the (sf_translated_name (snd e))) = x) (collected_sessions g)) \<le> 2) \<longrightarrow>
       scdm_get_session_ids g None \<noteq> None) \<and>
    (\<forall>name. 3 \<le> length (filter (\<lambda>e. sf_translated_name (snd e) = Some name) (collected_sessions g)) \<longrightarrow>
       scdm_get_session_ids g None = None)"
proof (intro conjI allI impI)
  note s = same_mset(1) [OF assms] and d = same_mset(3) [OF assms collected_distinct]
  fix ids assume "scdm_get_session_ids g None = Some ids"
  then obtain m where m: "collect_sessions g = Some m" and ids: "ids = map (\<lambda>(_, session). sf_id session) m"
    by (auto simp: scdm_get_session_ids_def the_sessions_map_def)
  note r = remove_duplicates_result [OF m [unfolded collect_sessions_def]]
  have "fst e = sf_id (snd e)" if "e \<in> set m" for e
    using that r s collected_entry_id [of "fst e" "snd e" g] by auto
  then have "ids = map fst m" unfolding ids by (auto simp: split_def)
  moreover have "\<exists>e' \<in> set m. name_of e' = name_of e" if "e \<in> set (collected_sessions g)" for e
  proof -
    have "name_of e \<in> name_of ` set m" using r that s by simp
    then show ?thesis by (elim imageE) (metis)
  qed
  ultimately show "\<exists>m. collect_sessions g = Some m \<and> ids = map fst m \<and> distinct ids \<and> distinct (map name_of m) \<and>
      set m \<subseteq> set (collected_sessions g) \<and> (\<forall>e \<in> set (collected_sessions g). \<exists>e' \<in> set m. name_of e' = name_of e)"
    using m r d s by auto
next
  assume "\<forall>e \<in> set (collected_sessions g). name_of e \<noteq> None"
    and "\<forall>x. length (filter (\<lambda>e. gw_str_hash g (the (name_of e)) = x) (collected_sessions g)) \<le> 2"
  then have "collect_sessions g \<noteq> None" unfolding collect_sessions_def
    by (intro remove_duplicates_safe) (simp_all add: uses_def named_def same_mset(1,2) [OF assms])
  then show "scdm_get_session_ids g None \<noteq> None" by (simp add: scdm_get_session_ids_def the_sessions_map_def)
next
  fix name assume "3 \<le> length (filter (\<lambda>e. name_of e = Some name) (collected_sessions g))"
  then have "collect_sessions g = None" unfolding collect_sessions_def
    by (intro remove_duplicates_unsafe [where name = name]) (simp_all add: same_mset(2) [OF assms])
  then show "scdm_get_session_ids g None = None" by (simp add: scdm_get_session_ids_def the_sessions_map_def)
qed

section \<open>The greeter and the daemon\<close>

text \<open>The daemon reads the same files: \<open>g_key_file_load_from_dirs\<close> loads the file from the first directory that has it, and
  fails if that file cannot be loaded. A file without the group has none of its keys.\<close>

definition no_keys :: key_file where
  "no_keys = \<lparr>kf_boolean = (\<lambda>_. Inl KeyNotFound), kf_string = (\<lambda>_. None), kf_string_list = (\<lambda>_. None), kf_has_key = (\<lambda>_. False)\<rparr>"

definition first_file ::
  "(string list \<Rightarrow> string) \<Rightarrow> (string \<Rightarrow> bool) \<Rightarrow> (string \<Rightarrow> desktop_file option) \<Rightarrow> string list \<Rightarrow> string \<Rightarrow> (string \<times> key_file) option" where
  "first_file build has load dirs file =
     (case List.find (\<lambda>d. has (build [d, file])) dirs of
        None \<Rightarrow> None
      | Some d \<Rightarrow> map_option (\<lambda>f. (build [d, file], case df_group f of Some k \<Rightarrow> k | None \<Rightarrow> no_keys)) (load (build [d, file])))"






section \<open>Examples\<close>

definition example_desktop_file :: "string \<Rightarrow> string \<Rightarrow> desktop_file" where
  "example_desktop_file name command =
     \<lparr>df_group = Some \<lparr>kf_boolean = (\<lambda>k. Inl KeyNotFound), kf_string = (\<lambda>k. if k = ''Exec'' then Some command else None),
        kf_string_list = (\<lambda>k. None), kf_has_key = (\<lambda>k. k = ''Name'' \<or> k = ''Exec'')\<rparr>,
      df_locale_string = (\<lambda>k. if k = ''Name'' then Some name else None)\<rparr>"

text \<open>Names are joined with one separator.\<close>

fun example_build :: "string list \<Rightarrow> string" where
  "example_build [] = []"
| "example_build [a] = a"
| "example_build (a # l) = (if suffix ''/'' a then a else a @ ''/'') @ example_build l"

text \<open>A greeter of a machine whose directories have the files \<open>names\<close> where \<open>load\<close> has one.\<close>

definition example_greeter :: "string list \<Rightarrow> (string \<Rightarrow> desktop_file option) \<Rightarrow> greeter_world" where
  "example_greeter names load =
     \<lparr>gw_world = example_sworld\<lparr>sv_build_filename := example_build,
        sv_load_from_dirs := first_file example_build (\<lambda>path. load path \<noteq> None) load,
        sv_read_dir := (\<lambda>d. Some (filter (\<lambda>n. load (example_build [d, n]) \<noteq> None) names))\<rparr>,
      gw_load = load, gw_exists = (\<lambda>path. load path \<noteq> None), gw_wayland_display = True, gw_under_scdm = True, gw_order = rev,
      gw_str_hash = (\<lambda>s. fold (\<lambda>c h. h * 33 + of_char c) s 5381)\<rparr>"


definition two_files :: "string \<Rightarrow> desktop_file option" where
  "two_files path =
     (if path = ''/etc/X11/sessions/a.desktop'' then Some (example_desktop_file ''First'' ''first'')
      else if path = ''/etc/dm/Sessions/a.desktop'' then Some (example_desktop_file ''Second'' ''second'') else None)"

text \<open>With two files of a name the greeter shows the name of one and the daemon runs the command of the other.\<close>

lemma two_files_differ:
  "scdm_get_session_name_and_description (example_greeter [''a.desktop''] two_files) None ''a'' = Some (Some ''Second'', None)"
  "get_session_command_for_name (gw_world (example_greeter [''a.desktop''] two_files)) example_session ''a'' = Some ''first''"
  by code_simp+

text \<open>Sessions of the same name.\<close>

definition same_name :: "string \<Rightarrow> desktop_file option" where
  "same_name path = (if prefix ''/etc/X11/sessions/'' path then Some (example_desktop_file ''First'' path) else None)"

theorem session_list_witness:
  "scdm_get_session_ids (example_greeter [''a.desktop'', ''b.desktop''] same_name) None = Some [''b''] \<and>
   distinct (map fst (the (collect_sessions (example_greeter [''a.desktop'', ''b.desktop''] same_name)))) \<and>
   scdm_get_session_ids (example_greeter [''a.desktop'', ''b.desktop'', ''c.desktop''] same_name) None = None"
proof -
  let ?two = "example_greeter [''a.desktop'', ''b.desktop''] same_name"
  let ?three = "example_greeter [''a.desktop'', ''b.desktop'', ''c.desktop''] same_name"
  have o: "mset (gw_order (example_greeter names load) l) = mset l" for names load l by (simp add: example_greeter_def)
  have ids: "scdm_get_session_ids ?two None = Some [''b'']" by code_simp
  have "length (filter (\<lambda>e. sf_translated_name (snd e) = Some ''First'') (collected_sessions ?three)) = 3" by code_simp
  then have "scdm_get_session_ids ?three None = None"
    using session_list [OF o [of "[''a.desktop'', ''b.desktop'', ''c.desktop'']" same_name]] by (metis order_refl)
  moreover obtain m where "collect_sessions ?two = Some m" "distinct (map fst m)"
    using session_list [OF o [of "[''a.desktop'', ''b.desktop'']" same_name]] ids by metis
  ultimately show ?thesis using ids by simp
qed


end
