(* ===== verification/Client.thy ===== *)
theory Client
  imports Session_Handlers
begin

text \<open>
  The client library of greeters, \<open>src/libscdm/scdm-client.c\<close>: how a program opens its session with the daemon and gets
  the objects of the session, each of which it asks for once and remembers as long as somebody uses it. The object that
  the library remembers is not counted as a use of it. What the bus and the daemon answer is an argument; what they are asked
  is a log. \<open>None\<close> is the use of memory that was freed, or a null pointer.
\<close>

section \<open>State\<close>

datatype client_interface = UserVerifierI | GreeterI | RemoteGreeterI | ChooserI

type_synonym g_error = string

text \<open>An object made for an interface: its connection, and how many hold it.\<close>

record dbus_proxy =
  px_connection :: nat
  px_refs :: nat

text \<open>A request of a program. One that wants to authenticate again is not for an interface of the session.\<close>

record client_task =
  tk_interface :: "client_interface option"
  tk_result :: "(g_error + nat) option"

text \<open>What the manager is wanted for, and the operations under way, with the data of their callbacks.\<close>

datatype manager_use = ForSession client_interface nat | ForReauthentication nat string

datatype client_op =
    NewManager manager_use
  | ManagerTask manager_use "g_error + unit"
  | CallOpenSession client_interface nat
  | CallOpenReauthentication nat
  | Connecting client_interface nat string
  | ConnectingReauthentication nat string
  | ConnectionTask client_interface nat "g_error + nat"
  | NewProxy client_interface nat nat
  | CallEnableExtensions nat nat
  | NewChoiceList nat nat

datatype client_call =
    OpenSessionCall | OpenReauthenticationCall string | TimedLoginCall nat | EnableExtensionsCall nat "string list"

text \<open>\<open>gc_data\<close> are the data \<open>UserVerifierData\<close> that are not freed: a task and an object.\<close>

record client =
  gc_refs :: nat
  gc_proxy :: "client_interface \<Rightarrow> nat option"
  gc_extensions :: "(string \<times> nat option) list option"
  gc_enabled :: "string list option"
  gc_proxies :: "nat \<Rightarrow> dbus_proxy option"
  gc_connections :: nat
  gc_next :: nat
  gc_tasks :: "nat \<Rightarrow> client_task option"
  gc_data :: "nat \<Rightarrow> (nat \<times> nat) option"
  gc_pending :: "client_op list"
  gc_log :: "client_call list"

record client_env =
  ce_manager :: "g_error + unit"
  ce_open_session :: "g_error + string"
  ce_open_reauthentication :: "string \<Rightarrow> g_error + string"
  ce_connect :: "string \<Rightarrow> g_error + unit"
  ce_proxy :: "g_error + unit"
  ce_enable :: bool
  ce_choice_list :: bool

definition gemit :: "client_call list \<Rightarrow> client \<Rightarrow> client" where
  "gemit fx c = c\<lparr>gc_log := gc_log c @ fx\<rparr>"

definition pend :: "client_op \<Rightarrow> client \<Rightarrow> client" where
  "pend op c = c\<lparr>gc_pending := gc_pending c @ [op]\<rparr>"

section \<open>Objects\<close>

definition new_connection :: "client \<Rightarrow> nat \<times> client" where
  "new_connection c = (gc_connections c, c\<lparr>gc_connections := Suc (gc_connections c)\<rparr>)"

definition new_proxy :: "nat \<Rightarrow> client \<Rightarrow> nat \<times> client" where
  "new_proxy connection c =
     (gc_next c, c\<lparr>gc_next := Suc (gc_next c), gc_proxies := (gc_proxies c)(gc_next c \<mapsto> \<lparr>px_connection = connection, px_refs = 1\<rparr>)\<rparr>)"

definition proxy_ref :: "nat \<Rightarrow> client \<Rightarrow> client" where
  "proxy_ref p c = c\<lparr>gc_proxies := (gc_proxies c)(p := map_option (\<lambda>x. x\<lparr>px_refs := Suc (px_refs x)\<rparr>) (gc_proxies c p))\<rparr>"

text \<open>With the last use of an object the places that remember it are cleared.\<close>

definition proxy_unref :: "nat \<Rightarrow> client \<Rightarrow> client" where
  "proxy_unref p c =
     (case gc_proxies c p of
        None \<Rightarrow> c
      | Some x \<Rightarrow>
          if px_refs x \<le> 1
          then c\<lparr>gc_proxies := (gc_proxies c)(p := None), gc_proxy := (\<lambda>i. if gc_proxy c i = Some p then None else gc_proxy c i)\<rparr>
          else c\<lparr>gc_proxies := (gc_proxies c)(p \<mapsto> x\<lparr>px_refs := px_refs x - 1\<rparr>)\<rparr>)"

text \<open>The table of extensions owns the objects in it.\<close>

definition free_interface_skeleton :: "nat option \<Rightarrow> client \<Rightarrow> client" where
  "free_interface_skeleton p c = (case p of None \<Rightarrow> c | Some p \<Rightarrow> proxy_unref p c)"

definition table_value :: "string \<Rightarrow> (string \<times> nat option) list \<Rightarrow> nat option" where
  "table_value k t = (case map_of t k of None \<Rightarrow> None | Some v \<Rightarrow> v)"

definition extension_insert :: "string \<Rightarrow> nat option \<Rightarrow> client \<Rightarrow> client" where
  "extension_insert k v c =
     (case gc_extensions c of
        None \<Rightarrow> c
      | Some t \<Rightarrow> free_interface_skeleton (table_value k t) (c\<lparr>gc_extensions := Some (AList.update k v t)\<rparr>))"

definition extension_remove :: "string \<Rightarrow> client \<Rightarrow> client" where
  "extension_remove k c =
     (case gc_extensions c of
        None \<Rightarrow> c
      | Some t \<Rightarrow> free_interface_skeleton (table_value k t) (c\<lparr>gc_extensions := Some (AList.delete k t)\<rparr>))"

section \<open>Tasks\<close>

definition new_task :: "client_interface option \<Rightarrow> client \<Rightarrow> nat \<times> client" where
  "new_task i c =
     (gc_next c, c\<lparr>gc_next := Suc (gc_next c), gc_tasks := (gc_tasks c)(gc_next c \<mapsto> \<lparr>tk_interface = i, tk_result = None\<rparr>)\<rparr>)"

text \<open>A task that has returned does not return again.\<close>

definition task_return :: "nat \<Rightarrow> g_error + nat \<Rightarrow> client \<Rightarrow> client" where
  "task_return t r c =
     (case gc_tasks c t of
        None \<Rightarrow> c
      | Some k \<Rightarrow> if tk_result k = None then c\<lparr>gc_tasks := (gc_tasks c)(t \<mapsto> k\<lparr>tk_result := Some r\<rparr>)\<rparr> else c)"

definition scdm_client_get_open_connection :: "client \<Rightarrow> nat option" where
  "scdm_client_get_open_connection c =
     (let proxy = (if gc_proxy c UserVerifierI \<noteq> None then gc_proxy c UserVerifierI
                   else if gc_proxy c GreeterI \<noteq> None then gc_proxy c GreeterI
                   else if gc_proxy c RemoteGreeterI \<noteq> None then gc_proxy c RemoteGreeterI
                   else gc_proxy c ChooserI)
      in case proxy of None \<Rightarrow> None | Some p \<Rightarrow> map_option px_connection (gc_proxies c p))"

section \<open>Calls that wait\<close>

definition scdm_client_get_connection_sync :: "client_env \<Rightarrow> client \<Rightarrow> (g_error + nat) \<times> client" where
  "scdm_client_get_connection_sync env c =
     (case scdm_client_get_open_connection c of
        Some connection \<Rightarrow> (Inr connection, c)
      | None \<Rightarrow>
          (case ce_manager env of
             Inl e \<Rightarrow> (Inl e, c)
           | Inr _ \<Rightarrow>
               (let c = gemit [OpenSessionCall] c
                in case ce_open_session env of
                     Inl e \<Rightarrow> (Inl e, c)
                   | Inr address \<Rightarrow>
                       (case ce_connect env address of
                          Inl e \<Rightarrow> (Inl e, c)
                        | Inr _ \<Rightarrow> (let (k, c) = new_connection c in (Inr k, c))))))"

text \<open>The part that the calls for the four interfaces have in common; it also tells whether the object is a new one.\<close>

definition get_proxy_sync :: "client_interface \<Rightarrow> client_env \<Rightarrow> client \<Rightarrow> (g_error + nat) \<times> bool \<times> client" where
  "get_proxy_sync i env c =
     (case gc_proxy c i of
        Some p \<Rightarrow> (Inr p, False, proxy_ref p c)
      | None \<Rightarrow>
          (case scdm_client_get_connection_sync env c of
             (Inl e, c) \<Rightarrow> (Inl e, False, c)
           | (Inr k, c) \<Rightarrow>
               (case ce_proxy env of
                  Inl e \<Rightarrow> (Inl e, False, c)
                | Inr _ \<Rightarrow> (let (p, c) = new_proxy k c in (Inr p, True, c\<lparr>gc_proxy := (gc_proxy c)(i \<mapsto> p)\<rparr>)))))"

definition scdm_client_get_remote_greeter_sync :: "client_env \<Rightarrow> client \<Rightarrow> (g_error + nat) \<times> client" where
  "scdm_client_get_remote_greeter_sync env c = (case get_proxy_sync RemoteGreeterI env c of (r, _, c) \<Rightarrow> (r, c))"

definition scdm_client_get_chooser_sync :: "client_env \<Rightarrow> client \<Rightarrow> (g_error + nat) \<times> client" where
  "scdm_client_get_chooser_sync env c = (case get_proxy_sync ChooserI env c of (r, _, c) \<Rightarrow> (r, c))"

definition query_for_timed_login_requested_signal :: "nat \<Rightarrow> client \<Rightarrow> client" where
  "query_for_timed_login_requested_signal p c = gemit [TimedLoginCall p] c"

definition scdm_client_get_greeter_sync :: "client_env \<Rightarrow> client \<Rightarrow> (g_error + nat) \<times> client" where
  "scdm_client_get_greeter_sync env c =
     (case get_proxy_sync GreeterI env c of
        (Inr p, True, c) \<Rightarrow> (Inr p, query_for_timed_login_requested_signal p c)
      | (r, _, c) \<Rightarrow> (r, c))"

definition choice_list_sync :: "client_env \<Rightarrow> nat \<Rightarrow> string \<Rightarrow> client \<Rightarrow> client" where
  "choice_list_sync env connection extension c =
     (if extension = choice_list_interface \<and> ce_choice_list env
      then (let (q, c) = new_proxy connection c in extension_insert extension (Some q) c) else c)"

text \<open>The table of an earlier user verifier is not freed.\<close>

definition enable_extensions_sync :: "client_env \<Rightarrow> nat \<Rightarrow> client \<Rightarrow> client" where
  "enable_extensions_sync env p c =
     (case (gc_enabled c, gc_proxies c p) of
        (Some extensions, Some x) \<Rightarrow>
          (let c = gemit [EnableExtensionsCall p extensions] (c\<lparr>gc_extensions := Some []\<rparr>)
           in if ce_enable env then fold (choice_list_sync env (px_connection x)) extensions c else c)
      | _ \<Rightarrow> c)"

definition scdm_client_get_user_verifier_sync :: "client_env \<Rightarrow> client \<Rightarrow> (g_error + nat) \<times> client" where
  "scdm_client_get_user_verifier_sync env c =
     (case get_proxy_sync UserVerifierI env c of
        (Inr p, True, c) \<Rightarrow> (Inr p, enable_extensions_sync env p c)
      | (r, _, c) \<Rightarrow> (r, c))"

text \<open>To authenticate again there is a connection of its own, and nothing is remembered.\<close>

definition scdm_client_open_reauthentication_channel_sync ::
  "client_env \<Rightarrow> string \<Rightarrow> client \<Rightarrow> (g_error + nat) \<times> client" where
  "scdm_client_open_reauthentication_channel_sync env username c =
     (case ce_manager env of
        Inl e \<Rightarrow> (Inl e, c)
      | Inr _ \<Rightarrow>
          (let c = gemit [OpenReauthenticationCall username] c
           in case ce_open_reauthentication env username of
                Inl e \<Rightarrow> (Inl e, c)
              | Inr address \<Rightarrow>
                  (case ce_connect env address of
                     Inl e \<Rightarrow> (Inl e, c)
                   | Inr _ \<Rightarrow>
                       (let (k, c) = new_connection c
                        in case ce_proxy env of Inl e \<Rightarrow> (Inl e, c) | Inr _ \<Rightarrow> (let (p, c) = new_proxy k c in (Inr p, c))))))"

definition scdm_client_get_user_verifier_choice_list :: "client \<Rightarrow> nat option" where
  "scdm_client_get_user_verifier_choice_list c =
     (case gc_extensions c of None \<Rightarrow> None | Some t \<Rightarrow> table_value choice_list_interface t)"

section \<open>Calls that do not wait: the manager and the connection\<close>

definition get_manager :: "manager_use \<Rightarrow> client \<Rightarrow> client" where
  "get_manager u c = pend (NewManager u) c"

definition on_got_manager :: "manager_use \<Rightarrow> g_error + unit \<Rightarrow> client \<Rightarrow> client" where
  "on_got_manager u res c = pend (ManagerTask u res) c"

definition on_got_manager_for_opening_connection :: "client_interface \<Rightarrow> nat \<Rightarrow> g_error + unit \<Rightarrow> client \<Rightarrow> client" where
  "on_got_manager_for_opening_connection i t manager c =
     (case manager of
        Inl e \<Rightarrow> pend (ConnectionTask i t (Inl e)) c
      | Inr _ \<Rightarrow> pend (CallOpenSession i t) (gemit [OpenSessionCall] c))"

definition on_session_opened :: "client_interface \<Rightarrow> nat \<Rightarrow> g_error + string \<Rightarrow> client \<Rightarrow> client" where
  "on_session_opened i t res c =
     (case res of Inl e \<Rightarrow> pend (ConnectionTask i t (Inl e)) c | Inr address \<Rightarrow> pend (Connecting i t address) c)"

definition on_connected :: "client_interface \<Rightarrow> nat \<Rightarrow> g_error + unit \<Rightarrow> client \<Rightarrow> client" where
  "on_connected i t res c =
     (case res of
        Inl e \<Rightarrow> pend (ConnectionTask i t (Inl e)) c
      | Inr _ \<Rightarrow> (let (k, c) = new_connection c in pend (ConnectionTask i t (Inr k)) c))"

definition scdm_client_get_connection :: "client_interface \<Rightarrow> nat \<Rightarrow> client \<Rightarrow> client" where
  "scdm_client_get_connection i t c =
     (case scdm_client_get_open_connection c of
        Some k \<Rightarrow> pend (ConnectionTask i t (Inr k)) c
      | None \<Rightarrow> get_manager (ForSession i t) c)"

definition on_got_manager_for_reauthentication :: "nat \<Rightarrow> string \<Rightarrow> g_error + unit \<Rightarrow> client \<Rightarrow> client" where
  "on_got_manager_for_reauthentication t username manager c =
     (case manager of
        Inl e \<Rightarrow> task_return t (Inl e) c
      | Inr _ \<Rightarrow> pend (CallOpenReauthentication t) (gemit [OpenReauthenticationCall username] c))"

definition on_reauthentication_channel_opened :: "nat \<Rightarrow> g_error + string \<Rightarrow> client \<Rightarrow> client" where
  "on_reauthentication_channel_opened t res c =
     (case res of Inl e \<Rightarrow> task_return t (Inl e) c | Inr address \<Rightarrow> pend (ConnectingReauthentication t address) c)"

definition on_reauthentication_channel_connected :: "nat \<Rightarrow> g_error + unit \<Rightarrow> client \<Rightarrow> client" where
  "on_reauthentication_channel_connected t res c =
     (case res of
        Inl e \<Rightarrow> task_return t (Inl e) c
      | Inr _ \<Rightarrow> (let (k, c) = new_connection c in pend (NewProxy UserVerifierI t k) c))"

section \<open>Calls that do not wait: objects\<close>

definition on_connection_for_user_verifier :: "nat \<Rightarrow> g_error + nat \<Rightarrow> client \<Rightarrow> client" where
  "on_connection_for_user_verifier t connection c =
     (case connection of Inl e \<Rightarrow> task_return t (Inl e) c | Inr k \<Rightarrow> pend (NewProxy UserVerifierI t k) c)"

definition on_connection_for_greeter :: "nat \<Rightarrow> g_error + nat \<Rightarrow> client \<Rightarrow> client" where
  "on_connection_for_greeter t connection c =
     (case connection of Inl e \<Rightarrow> task_return t (Inl e) c | Inr k \<Rightarrow> pend (NewProxy GreeterI t k) c)"

definition on_connection_for_remote_greeter :: "nat \<Rightarrow> g_error + nat \<Rightarrow> client \<Rightarrow> client" where
  "on_connection_for_remote_greeter t connection c =
     (case connection of Inl e \<Rightarrow> task_return t (Inl e) c | Inr k \<Rightarrow> pend (NewProxy RemoteGreeterI t k) c)"

definition on_connection_for_chooser :: "nat \<Rightarrow> g_error + nat \<Rightarrow> client \<Rightarrow> client" where
  "on_connection_for_chooser t connection c =
     (case connection of Inl e \<Rightarrow> task_return t (Inl e) c | Inr k \<Rightarrow> pend (NewProxy ChooserI t k) c)"

definition on_greeter_proxy_created :: "nat \<Rightarrow> nat \<Rightarrow> g_error + unit \<Rightarrow> client \<Rightarrow> client" where
  "on_greeter_proxy_created t k res c =
     (case res of
        Inl e \<Rightarrow> task_return t (Inl e) c
      | Inr _ \<Rightarrow> (let (p, c) = new_proxy k c in query_for_timed_login_requested_signal p (task_return t (Inr p) c)))"

definition on_remote_greeter_proxy_created :: "nat \<Rightarrow> nat \<Rightarrow> g_error + unit \<Rightarrow> client \<Rightarrow> client" where
  "on_remote_greeter_proxy_created t k res c =
     (case res of
        Inl e \<Rightarrow> task_return t (Inl e) c
      | Inr _ \<Rightarrow> (let (p, c) = new_proxy k c in task_return t (Inr p) c))"

definition on_chooser_proxy_created :: "nat \<Rightarrow> nat \<Rightarrow> g_error + unit \<Rightarrow> client \<Rightarrow> client" where
  "on_chooser_proxy_created t k res c =
     (case res of
        Inl e \<Rightarrow> task_return t (Inl e) c
      | Inr _ \<Rightarrow> (let (p, c) = new_proxy k c in task_return t (Inr p) c))"

section \<open>The extensions of the user verifier\<close>

definition user_verifier_data_new :: "nat \<Rightarrow> nat \<Rightarrow> client \<Rightarrow> nat \<times> client" where
  "user_verifier_data_new t p c =
     (gc_next c, proxy_ref p (c\<lparr>gc_next := Suc (gc_next c), gc_data := (gc_data c)(gc_next c \<mapsto> (t, p))\<rparr>))"

definition user_verifier_data_free :: "nat \<Rightarrow> client \<Rightarrow> client option" where
  "user_verifier_data_free d c =
     (case gc_data c d of
        None \<Rightarrow> None
      | Some (t, p) \<Rightarrow> Some (proxy_unref p (c\<lparr>gc_data := (gc_data c)(d := None)\<rparr>)))"

definition complete_user_verifier_proxy_operation :: "nat \<Rightarrow> client \<Rightarrow> client option" where
  "complete_user_verifier_proxy_operation d c =
     (case gc_data c d of
        None \<Rightarrow> None
      | Some (t, p) \<Rightarrow> user_verifier_data_free d (task_return t (Inr p) (proxy_ref p c)))"

definition maybe_complete_user_verifier_proxy_operation :: "nat \<Rightarrow> client \<Rightarrow> client option" where
  "maybe_complete_user_verifier_proxy_operation d c =
     (if (case gc_extensions c of None \<Rightarrow> False | Some t \<Rightarrow> None \<in> snd ` set t) then Some c
      else complete_user_verifier_proxy_operation d c)"

definition on_user_verifier_choice_list_proxy_created :: "nat \<Rightarrow> nat \<Rightarrow> g_error + unit \<Rightarrow> client \<Rightarrow> client option" where
  "on_user_verifier_choice_list_proxy_created d k res c =
     (if gc_data c d = None then None
      else maybe_complete_user_verifier_proxy_operation d
             (case res of
                Inl e \<Rightarrow> extension_remove choice_list_interface c
              | Inr _ \<Rightarrow> (let (q, c) = new_proxy k c in extension_insert choice_list_interface (Some q) c)))"

text \<open>One name of the list: only the choice list is supported.\<close>

definition enable_extension :: "nat \<Rightarrow> nat \<Rightarrow> string \<Rightarrow> client \<Rightarrow> client" where
  "enable_extension d k extension c =
     (let c = extension_insert extension None c
      in if extension = choice_list_interface then pend (NewChoiceList d k) (extension_insert extension None c)
         else extension_remove extension c)"

definition on_user_verifier_extensions_enabled :: "nat \<Rightarrow> nat \<Rightarrow> g_error + unit \<Rightarrow> client \<Rightarrow> client option" where
  "on_user_verifier_extensions_enabled d k res c =
     (case res of
        Inl e \<Rightarrow> complete_user_verifier_proxy_operation d c
      | Inr _ \<Rightarrow>
          (case gc_enabled c of
             None \<Rightarrow> None
           | Some extensions \<Rightarrow>
               (let c = fold (enable_extension d k) extensions c
                in if gc_extensions c = Some [] then complete_user_verifier_proxy_operation d c else Some c)))"

definition on_user_verifier_proxy_created :: "nat \<Rightarrow> nat \<Rightarrow> g_error + unit \<Rightarrow> client \<Rightarrow> client" where
  "on_user_verifier_proxy_created t k res c =
     (case res of
        Inl e \<Rightarrow> task_return t (Inl e) c
      | Inr _ \<Rightarrow>
          (let (p, c) = new_proxy k c
           in case gc_enabled c of
                None \<Rightarrow> task_return t (Inr p) c
              | Some extensions \<Rightarrow>
                  (let (d, c) = user_verifier_data_new t p (c\<lparr>gc_extensions := Some []\<rparr>)
                   in proxy_unref p (pend (CallEnableExtensions d k) (gemit [EnableExtensionsCall p extensions] c)))))"

section \<open>Requests and their ends\<close>

text \<open>The part that the requests for the four interfaces have in common.\<close>

definition get_proxy_async :: "client_interface \<Rightarrow> client \<Rightarrow> nat \<times> client" where
  "get_proxy_async i c =
     (let (t, c) = new_task (Some i) c
      in (t, case gc_proxy c i of
               Some p \<Rightarrow> task_return t (Inr p) (proxy_ref p c)
             | None \<Rightarrow> scdm_client_get_connection i t c))"

definition scdm_client_get_user_verifier :: "client \<Rightarrow> nat \<times> client" where
  "scdm_client_get_user_verifier c = get_proxy_async UserVerifierI c"

definition scdm_client_get_greeter :: "client \<Rightarrow> nat \<times> client" where
  "scdm_client_get_greeter c = get_proxy_async GreeterI c"

definition scdm_client_get_remote_greeter :: "client \<Rightarrow> nat \<times> client" where
  "scdm_client_get_remote_greeter c = get_proxy_async RemoteGreeterI c"

definition scdm_client_get_chooser :: "client \<Rightarrow> nat \<times> client" where
  "scdm_client_get_chooser c = get_proxy_async ChooserI c"

definition scdm_client_open_reauthentication_channel :: "string \<Rightarrow> client \<Rightarrow> nat \<times> client" where
  "scdm_client_open_reauthentication_channel username c =
     (let (t, c) = new_task None c in (t, get_manager (ForReauthentication t username) c))"

text \<open>A task ends with the function that takes its result; a result that is not taken is dropped.\<close>

definition task_propagate :: "nat \<Rightarrow> client \<Rightarrow> ((g_error + nat) \<times> client) option" where
  "task_propagate t c =
     (case gc_tasks c t of
        None \<Rightarrow> None
      | Some k \<Rightarrow> map_option (\<lambda>r. (r, c\<lparr>gc_tasks := (gc_tasks c)(t := None)\<rparr>)) (tk_result k))"

definition get_proxy_finish :: "client_interface \<Rightarrow> nat \<Rightarrow> client \<Rightarrow> ((g_error + nat) \<times> client) option" where
  "get_proxy_finish i t c =
     map_option (\<lambda>(r, c).
       case gc_proxy c i of
         Some p \<Rightarrow> (Inr p, free_interface_skeleton (case r of Inl _ \<Rightarrow> None | Inr q \<Rightarrow> Some q) (proxy_ref p c))
       | None \<Rightarrow>
           (case r of
              Inl e \<Rightarrow> (Inl e, c)
            | Inr p \<Rightarrow> (Inr p, c\<lparr>gc_proxy := (gc_proxy c)(i \<mapsto> p)\<rparr>))) (task_propagate t c)"

definition scdm_client_get_user_verifier_finish :: "nat \<Rightarrow> client \<Rightarrow> ((g_error + nat) \<times> client) option" where
  "scdm_client_get_user_verifier_finish t c = get_proxy_finish UserVerifierI t c"

definition scdm_client_get_greeter_finish :: "nat \<Rightarrow> client \<Rightarrow> ((g_error + nat) \<times> client) option" where
  "scdm_client_get_greeter_finish t c = get_proxy_finish GreeterI t c"

definition scdm_client_get_remote_greeter_finish :: "nat \<Rightarrow> client \<Rightarrow> ((g_error + nat) \<times> client) option" where
  "scdm_client_get_remote_greeter_finish t c = get_proxy_finish RemoteGreeterI t c"

definition scdm_client_get_chooser_finish :: "nat \<Rightarrow> client \<Rightarrow> ((g_error + nat) \<times> client) option" where
  "scdm_client_get_chooser_finish t c = get_proxy_finish ChooserI t c"

definition scdm_client_open_reauthentication_channel_finish :: "nat \<Rightarrow> client \<Rightarrow> ((g_error + nat) \<times> client) option" where
  "scdm_client_open_reauthentication_channel_finish t c = task_propagate t c"

section \<open>The client\<close>

definition empty_client :: client where
  "empty_client = \<lparr>gc_refs = 1, gc_proxy = (\<lambda>_. None), gc_extensions = None, gc_enabled = None, gc_proxies = (\<lambda>_. None),
     gc_connections = 0, gc_next = 0, gc_tasks = (\<lambda>_. None), gc_data = (\<lambda>_. None), gc_pending = [], gc_log = []\<rparr>"

text \<open>There is one client in a process.\<close>

definition scdm_client_new :: "client option \<Rightarrow> client" where
  "scdm_client_new client_object =
     (case client_object of None \<Rightarrow> empty_client | Some c \<Rightarrow> c\<lparr>gc_refs := Suc (gc_refs c)\<rparr>)"

text \<open>The extensions are not freed.\<close>

definition scdm_client_finalize :: "client \<Rightarrow> client" where
  "scdm_client_finalize c = c\<lparr>gc_proxy := (\<lambda>_. None), gc_enabled := None\<rparr>"

definition scdm_client_set_enabled_extensions :: "string list option \<Rightarrow> client \<Rightarrow> client" where
  "scdm_client_set_enabled_extensions extensions c = c\<lparr>gc_enabled := extensions\<rparr>"

text \<open>An operation under way ends with the answer to it; the name of an address is in the answers to the calls that open a
  session.\<close>

fun client_callback :: "client_op \<Rightarrow> g_error + string \<Rightarrow> client \<Rightarrow> client option" where
  "client_callback (NewManager u) a c = Some (on_got_manager u (map_sum id (\<lambda>_. ()) a) c)"
| "client_callback (ManagerTask (ForSession i t) r) a c = Some (on_got_manager_for_opening_connection i t r c)"
| "client_callback (ManagerTask (ForReauthentication t username) r) a c = Some (on_got_manager_for_reauthentication t username r c)"
| "client_callback (CallOpenSession i t) a c = Some (on_session_opened i t a c)"
| "client_callback (CallOpenReauthentication t) a c = Some (on_reauthentication_channel_opened t a c)"
| "client_callback (Connecting i t address) a c = Some (on_connected i t (map_sum id (\<lambda>_. ()) a) c)"
| "client_callback (ConnectingReauthentication t address) a c =
     Some (on_reauthentication_channel_connected t (map_sum id (\<lambda>_. ()) a) c)"
| "client_callback (ConnectionTask UserVerifierI t r) a c = Some (on_connection_for_user_verifier t r c)"
| "client_callback (ConnectionTask GreeterI t r) a c = Some (on_connection_for_greeter t r c)"
| "client_callback (ConnectionTask RemoteGreeterI t r) a c = Some (on_connection_for_remote_greeter t r c)"
| "client_callback (ConnectionTask ChooserI t r) a c = Some (on_connection_for_chooser t r c)"
| "client_callback (NewProxy UserVerifierI t k) a c = Some (on_user_verifier_proxy_created t k (map_sum id (\<lambda>_. ()) a) c)"
| "client_callback (NewProxy GreeterI t k) a c = Some (on_greeter_proxy_created t k (map_sum id (\<lambda>_. ()) a) c)"
| "client_callback (NewProxy RemoteGreeterI t k) a c = Some (on_remote_greeter_proxy_created t k (map_sum id (\<lambda>_. ()) a) c)"
| "client_callback (NewProxy ChooserI t k) a c = Some (on_chooser_proxy_created t k (map_sum id (\<lambda>_. ()) a) c)"
| "client_callback (CallEnableExtensions d k) a c = on_user_verifier_extensions_enabled d k (map_sum id (\<lambda>_. ()) a) c"
| "client_callback (NewChoiceList d k) a c = on_user_verifier_choice_list_proxy_created d k (map_sum id (\<lambda>_. ()) a) c"

end
