(* ===== verification/Client_Props.thy ===== *)
theory Client_Props
  imports Client "HOL-Library.Multiset"
begin

text \<open>
  The client library: every request of a program is answered once, whatever is under way beside it; a program that waits for
  its calls has one connection. When it does not wait it may have several, and the extensions get mixed up.
\<close>

section \<open>Frame\<close>

lemma proxy_ref_frame [simp]:
  "gc_extensions (proxy_ref p c) = gc_extensions c" "gc_enabled (proxy_ref p c) = gc_enabled c"
  "gc_next (proxy_ref p c) = gc_next c" "gc_tasks (proxy_ref p c) = gc_tasks c" "gc_data (proxy_ref p c) = gc_data c"
  "gc_pending (proxy_ref p c) = gc_pending c"
  by (simp_all add: proxy_ref_def)

lemma proxy_unref_frame [simp]:
  "gc_extensions (proxy_unref p c) = gc_extensions c" "gc_enabled (proxy_unref p c) = gc_enabled c"
  "gc_next (proxy_unref p c) = gc_next c" "gc_tasks (proxy_unref p c) = gc_tasks c" "gc_data (proxy_unref p c) = gc_data c"
  "gc_pending (proxy_unref p c) = gc_pending c"
  by (simp_all add: proxy_unref_def split: option.split)

lemma free_interface_frame [simp]:
  "gc_extensions (free_interface_skeleton p c) = gc_extensions c" "gc_enabled (free_interface_skeleton p c) = gc_enabled c"
  "gc_next (free_interface_skeleton p c) = gc_next c" "gc_tasks (free_interface_skeleton p c) = gc_tasks c"
  "gc_data (free_interface_skeleton p c) = gc_data c" "gc_pending (free_interface_skeleton p c) = gc_pending c"
  by (simp_all add: free_interface_skeleton_def split: option.split)

lemma gemit_frame [simp]:
  "gc_extensions (gemit fx c) = gc_extensions c" "gc_enabled (gemit fx c) = gc_enabled c" "gc_next (gemit fx c) = gc_next c"
  "gc_tasks (gemit fx c) = gc_tasks c" "gc_data (gemit fx c) = gc_data c" "gc_pending (gemit fx c) = gc_pending c"
  "gc_proxy (gemit fx c) = gc_proxy c" "gc_proxies (gemit fx c) = gc_proxies c" "gc_log (gemit fx c) = gc_log c @ fx"
  by (simp_all add: gemit_def)

lemma pend_frame [simp]:
  "gc_extensions (pend op c) = gc_extensions c" "gc_enabled (pend op c) = gc_enabled c" "gc_next (pend op c) = gc_next c"
  "gc_tasks (pend op c) = gc_tasks c" "gc_data (pend op c) = gc_data c" "gc_pending (pend op c) = gc_pending c @ [op]"
  by (simp_all add: pend_def)

lemma extension_insert_frame [simp]:
  "gc_enabled (extension_insert k v c) = gc_enabled c" "gc_next (extension_insert k v c) = gc_next c"
  "gc_tasks (extension_insert k v c) = gc_tasks c" "gc_data (extension_insert k v c) = gc_data c"
  "gc_pending (extension_insert k v c) = gc_pending c"
  "gc_extensions (extension_insert k v c) = map_option (AList.update k v) (gc_extensions c)"
  by (simp_all add: extension_insert_def split: option.split)

lemma extension_remove_frame [simp]:
  "gc_enabled (extension_remove k c) = gc_enabled c" "gc_next (extension_remove k c) = gc_next c"
  "gc_tasks (extension_remove k c) = gc_tasks c" "gc_data (extension_remove k c) = gc_data c"
  "gc_pending (extension_remove k c) = gc_pending c"
  "gc_extensions (extension_remove k c) = map_option (AList.delete k) (gc_extensions c)"
  by (simp_all add: extension_remove_def split: option.split)

lemma task_return_frame [simp]:
  "gc_extensions (task_return t r c) = gc_extensions c" "gc_enabled (task_return t r c) = gc_enabled c"
  "gc_next (task_return t r c) = gc_next c" "gc_data (task_return t r c) = gc_data c"
  "gc_pending (task_return t r c) = gc_pending c"
  by (simp_all add: task_return_def split: option.split)

section \<open>Operations under way\<close>

text \<open>The request that an operation is for, and the data that its callback uses.\<close>

fun op_task :: "(nat \<Rightarrow> (nat \<times> nat) option) \<Rightarrow> client_op \<Rightarrow> nat" where
  "op_task data (NewManager (ForSession i t)) = t"
| "op_task data (NewManager (ForReauthentication t u)) = t"
| "op_task data (ManagerTask (ForSession i t) r) = t"
| "op_task data (ManagerTask (ForReauthentication t u) r) = t"
| "op_task data (CallOpenSession i t) = t"
| "op_task data (CallOpenReauthentication t) = t"
| "op_task data (Connecting i t a) = t"
| "op_task data (ConnectingReauthentication t a) = t"
| "op_task data (ConnectionTask i t r) = t"
| "op_task data (NewProxy i t k) = t"
| "op_task data (CallEnableExtensions d k) = (case data d of None \<Rightarrow> 0 | Some (t, _) \<Rightarrow> t)"
| "op_task data (NewChoiceList d k) = (case data d of None \<Rightarrow> 0 | Some (t, _) \<Rightarrow> t)"

fun op_data :: "client_op \<Rightarrow> nat option" where
  "op_data (CallEnableExtensions d k) = Some d"
| "op_data (NewChoiceList d k) = Some d"
| "op_data _ = None"

definition open_requests :: "client \<Rightarrow> nat set" where
  "open_requests c = {t. \<exists>k. gc_tasks c t = Some k \<and> tk_result k = None}"

text \<open>The operations \<open>L\<close> are those of the requests that have no answer, one for each.\<close>

definition ops_ok :: "client_op list \<Rightarrow> client \<Rightarrow> bool" where
  "ops_ok L c \<longleftrightarrow> distinct (map (op_task (gc_data c)) L) \<and> op_task (gc_data c) ` set L = open_requests c \<and>
     (\<forall>op \<in> set L. \<forall>d. op_data op = Some d \<longrightarrow> gc_data c d \<noteq> None) \<and>
     (\<forall>t \<ge> gc_next c. gc_tasks c t = None \<and> gc_data c t = None)"

definition enabled_list :: "string list option \<Rightarrow> string list" where
  "enabled_list e = (case e of None \<Rightarrow> [] | Some l \<Rightarrow> l)"

definition table_ok :: "string list option \<Rightarrow> client_op list \<Rightarrow> client \<Rightarrow> bool" where
  "table_ok e L c \<longleftrightarrow> gc_enabled c = e \<and>
     (\<forall>t. gc_extensions c = Some t \<longrightarrow> t = [] \<or> choice_list_interface \<in> set (enabled_list e) \<and> (\<exists>v. t = [(choice_list_interface, v)])) \<and>
     ((\<exists>op \<in> set L. op_data op \<noteq> None) \<longrightarrow> gc_extensions c \<noteq> None \<and> e \<noteq> None) \<and>
     ((\<exists>d k. NewChoiceList d k \<in> set L) \<longrightarrow> choice_list_interface \<in> set (enabled_list e))"

definition client_ok :: "string list option \<Rightarrow> client_op list \<Rightarrow> client \<Rightarrow> bool" where
  "client_ok e L c \<longleftrightarrow> ops_ok L c \<and> table_ok e L c"

text \<open>Only some of the fields matter.\<close>

lemma client_ok_cong:
  assumes "client_ok e L c" "gc_tasks c' = gc_tasks c" "gc_data c' = gc_data c" "gc_next c' \<ge> gc_next c"
    "gc_extensions c' = gc_extensions c" "gc_enabled c' = gc_enabled c"
  shows "client_ok e L c'"
  using assms by (auto simp: client_ok_def ops_ok_def table_ok_def open_requests_def)

lemma client_ok_perm:
  assumes "client_ok e L c" "mset L' = mset L"
  shows "client_ok e L' c"
proof -
  have "distinct (map (op_task (gc_data c)) L') = distinct (map (op_task (gc_data c)) L)"
    by (rule mset_eq_imp_distinct_iff) (simp add: assms(2))
  then show ?thesis using assms mset_eq_setD [OF assms(2)] by (auto simp: client_ok_def ops_ok_def table_ok_def)
qed

text \<open>An operation follows another for the same request.\<close>

lemma client_ok_replace:
  assumes "client_ok e (op # L) c" "op_task (gc_data c) op' = op_task (gc_data c) op"
    "op_data op' = None \<or> op_data op' = op_data op \<and> choice_list_interface \<in> set (enabled_list e)"
  shows "client_ok e (L @ [op']) c"
proof -
  have "client_ok e (op' # L) c" using assms by (auto simp: client_ok_def ops_ok_def table_ok_def)
  then show ?thesis by (rule client_ok_perm) simp
qed

lemma client_ok_pend:
  assumes "client_ok e (op # gc_pending c) c" "op_task (gc_data c) op' = op_task (gc_data c) op" "op_data op' = None"
  shows "client_ok e (gc_pending c @ [op']) (pend op' c)"
  using client_ok_replace [OF assms(1,2)] assms(3) by (auto intro: client_ok_cong)

text \<open>A request is answered.\<close>

lemma client_ok_return:
  assumes "client_ok e (op # L) c" "op_task (gc_data c) op = t"
  shows "client_ok e L (task_return t r c)"
proof -
  have "t \<in> open_requests c" "t \<notin> op_task (gc_data c) ` set L"
    and d: "op_task (gc_data c) ` set (op # L) = open_requests c"
    using assms by (auto simp: client_ok_def ops_ok_def)
  then obtain k where k: "gc_tasks c t = Some k" "tk_result k = None" by (auto simp: open_requests_def)
  then have "open_requests (task_return t r c) = open_requests c - {t}"
    by (auto simp: task_return_def open_requests_def)
  moreover have "op_task (gc_data c) ` set L = open_requests c - {t}"
  proof -
    have "insert t (op_task (gc_data c) ` set L) = open_requests c" using d assms(2) by simp
    then show ?thesis using \<open>t \<notin> op_task (gc_data c) ` set L\<close> by (metis Diff_insert_absorb)
  qed
  moreover have "\<forall>u \<ge> gc_next c. gc_tasks (task_return t r c) u = None"
    using assms(1) k by (auto simp: client_ok_def ops_ok_def task_return_def)
  ultimately show ?thesis using assms(1) by (auto simp: client_ok_def ops_ok_def table_ok_def)
qed

lemma client_ok_new_proxy:
  "client_ok e L c \<Longrightarrow> client_ok e L (snd (new_proxy k c))" "client_ok e L c \<Longrightarrow> client_ok e L (snd (new_connection c))"
  by (auto simp: new_proxy_def new_connection_def intro: client_ok_cong)

section \<open>What requests and callbacks keep\<close>

lemma client_ok_request:
  assumes "client_ok e (gc_pending c) c"
  shows "client_ok e (gc_pending (snd (get_proxy_async i c))) (snd (get_proxy_async i c))"
proof -
  let ?t = "gc_next c"
  define c1 where "c1 = snd (new_task (Some i) c)"
  have n: "gc_tasks c ?t = None" "?t \<notin> op_task (gc_data c) ` set (gc_pending c)"
    using assms by (auto simp: client_ok_def ops_ok_def open_requests_def)
  have "open_requests c1 = insert ?t (open_requests c)"
    using n(1) by (auto simp: c1_def new_task_def open_requests_def)
  then have ok: "client_ok e (NewManager (ForSession i ?t) # gc_pending c1) c1"
    using assms n by (auto simp: client_ok_def ops_ok_def table_ok_def c1_def new_task_def)
  show ?thesis
  proof (cases "gc_proxy c1 i")
    case None
    then have "snd (get_proxy_async i c) = scdm_client_get_connection i ?t c1"
      by (simp add: get_proxy_async_def c1_def new_task_def)
    then show ?thesis using ok
      by (auto simp: scdm_client_get_connection_def get_manager_def intro!: client_ok_pend split: option.split)
  next
    case (Some p)
    then have "snd (get_proxy_async i c) = task_return ?t (Inr p) (proxy_ref p c1)"
      by (simp add: get_proxy_async_def c1_def new_task_def)
    moreover have "client_ok e (NewManager (ForSession i ?t) # gc_pending c1) (proxy_ref p c1)"
      by (rule client_ok_cong [OF ok]) simp_all
    ultimately show ?thesis using client_ok_return by simp
  qed
qed

lemma client_ok_reauthentication:
  assumes "client_ok e (gc_pending c) c"
  shows "client_ok e (gc_pending (snd (scdm_client_open_reauthentication_channel u c)))
           (snd (scdm_client_open_reauthentication_channel u c))"
proof -
  let ?t = "gc_next c"
  define c1 where "c1 = snd (new_task None c)"
  have n: "gc_tasks c ?t = None" "?t \<notin> op_task (gc_data c) ` set (gc_pending c)"
    using assms by (auto simp: client_ok_def ops_ok_def open_requests_def)
  have "open_requests c1 = insert ?t (open_requests c)"
    using n(1) by (auto simp: c1_def new_task_def open_requests_def)
  then have ok: "client_ok e (NewManager (ForReauthentication ?t u) # gc_pending c1) c1"
    using assms n by (auto simp: client_ok_def ops_ok_def table_ok_def c1_def new_task_def)
  have "snd (scdm_client_open_reauthentication_channel u c) = get_manager (ForReauthentication ?t u) c1"
    by (simp add: scdm_client_open_reauthentication_channel_def c1_def new_task_def)
  then show ?thesis using ok by (auto simp: get_manager_def intro!: client_ok_pend)
qed

text \<open>The data of an extension request are freed when the request is answered.\<close>

lemma client_ok_complete:
  assumes "client_ok e (op # gc_pending c) c" "op_data op = Some d"
  shows "\<exists>c'. complete_user_verifier_proxy_operation d c = Some c' \<and> client_ok e (gc_pending c') c' \<and>
    gc_pending c' = gc_pending c"
proof -
  obtain t p where d: "gc_data c d = Some (t, p)" using assms by (auto simp: client_ok_def ops_ok_def)
  have t: "op_task (gc_data c) op' = t" if "op_data op' = Some d" for op' using that d by (cases op') auto
  define c1 where "c1 = task_return t (Inr p) (proxy_ref p c)"
  define c2 where "c2 = c1\<lparr>gc_data := (gc_data c1)(d := None)\<rparr>"
  have "client_ok e (op # gc_pending c) (proxy_ref p c)" by (rule client_ok_cong [OF assms(1)]) simp_all
  then have ok: "client_ok e (gc_pending c) c1"
    unfolding c1_def using t assms(2) by (intro client_ok_return) simp_all
  have other: "op_data op' \<noteq> Some d" if "op' \<in> set (gc_pending c)" for op'
  proof
    assume "op_data op' = Some d"
    then have "op_task (gc_data c) op' = op_task (gc_data c) op" using t assms(2) by simp
    then have "op_task (gc_data c) op \<in> op_task (gc_data c) ` set (gc_pending c)" using that by (metis imageI)
    then show False using assms(1) by (simp add: client_ok_def ops_ok_def)
  qed
  have same: "op_task (gc_data c2) op' = op_task (gc_data c1) op'" if "op_data op' \<noteq> Some d" for op'
    using that by (induction "gc_data c1" op' rule: op_task.induct) (simp_all add: c2_def)
  have m: "map (op_task (gc_data c2)) (gc_pending c) = map (op_task (gc_data c1)) (gc_pending c)"
    "op_task (gc_data c2) ` set (gc_pending c) = op_task (gc_data c1) ` set (gc_pending c)"
    using same other by auto
  then have "client_ok e (gc_pending c) c2"
  proof -
    have f: "gc_tasks c2 = gc_tasks c1" "gc_next c2 = gc_next c1" "gc_extensions c2 = gc_extensions c1"
      "gc_enabled c2 = gc_enabled c1" "open_requests c2 = open_requests c1"
      by (simp_all add: c2_def open_requests_def)
    have g: "gc_data c2 d' = (if d' = d then None else gc_data c1 d')" for d' by (simp add: c2_def)
    have "\<forall>op \<in> set (gc_pending c). \<forall>d'. op_data op = Some d' \<longrightarrow> gc_data c2 d' \<noteq> None"
      using ok other g by (auto simp: client_ok_def ops_ok_def)
    moreover have "\<forall>t \<ge> gc_next c2. gc_tasks c2 t = None \<and> gc_data c2 t = None"
      using ok f g by (auto simp: client_ok_def ops_ok_def)
    moreover have "distinct (map (op_task (gc_data c2)) (gc_pending c))"
      unfolding m(1) using ok by (simp add: client_ok_def ops_ok_def)
    moreover have "op_task (gc_data c2) ` set (gc_pending c) = open_requests c2"
      unfolding m(2) f using ok by (simp add: client_ok_def ops_ok_def)
    ultimately have "ops_ok (gc_pending c) c2" by (simp add: ops_ok_def)
    then show ?thesis using ok f by (simp add: client_ok_def table_ok_def)
  qed
  then have "client_ok e (gc_pending c) (proxy_unref p c2)" by (rule client_ok_cong) simp_all
  moreover have "complete_user_verifier_proxy_operation d c = Some (proxy_unref p c2)"
    using d by (simp add: complete_user_verifier_proxy_operation_def user_verifier_data_free_def c2_def c1_def)
  ultimately show ?thesis by (simp add: c2_def c1_def)
qed

text \<open>A callback takes its request further: what it starts weighs less. \<open>n\<close> is the number of choice lists asked for.\<close>

fun op_weight :: "nat \<Rightarrow> client_op \<Rightarrow> nat" where
  "op_weight n (NewManager u) = n + 7"
| "op_weight n (ManagerTask u r) = n + 6"
| "op_weight n (CallOpenSession i t) = n + 5"
| "op_weight n (CallOpenReauthentication t) = n + 5"
| "op_weight n (Connecting i t address) = n + 4"
| "op_weight n (ConnectingReauthentication t address) = n + 4"
| "op_weight n (ConnectionTask i t r) = n + 3"
| "op_weight n (NewProxy i t k) = n + 2"
| "op_weight n (CallEnableExtensions d k) = n + 1"
| "op_weight n (NewChoiceList d k) = 1"

definition client_work :: "nat \<Rightarrow> client_op list \<Rightarrow> nat" where
  "client_work n L = sum_list (map (op_weight n) L)"

definition advances :: "string list option \<Rightarrow> nat \<Rightarrow> client_op \<Rightarrow> client \<Rightarrow> client \<Rightarrow> bool" where
  "advances e n op c c' \<longleftrightarrow> client_ok e (gc_pending c') c' \<and>
     (\<exists>new. gc_pending c' = gc_pending c @ new \<and> client_work n new < op_weight n op)"

definition client_frame :: "client \<Rightarrow> client \<Rightarrow> bool" where
  "client_frame c c' \<longleftrightarrow> gc_tasks c' = gc_tasks c \<and> gc_data c' = gc_data c \<and> gc_next c' \<ge> gc_next c \<and>
     gc_extensions c' = gc_extensions c \<and> gc_enabled c' = gc_enabled c \<and> gc_pending c' = gc_pending c"

lemma client_frames [simp, intro]:
  "client_frame c c" "client_frame c (gemit fx c)" "client_frame c (snd (new_connection c))" "client_frame c (snd (new_proxy k c))"
  "client_frame c (proxy_ref p c)" "client_frame c (proxy_unref p c)" "client_frame c (free_interface_skeleton q c)"
  by (simp_all add: client_frame_def new_connection_def new_proxy_def)

lemma advances_pend:
  assumes "client_ok e (op # gc_pending c) c" "client_frame c c1" "op_task (gc_data c) op' = op_task (gc_data c) op"
    "op_data op' = None" "op_weight n op' < op_weight n op"
  shows "advances e n op c (pend op' c1)"
proof -
  have "client_ok e (op # gc_pending c1) c1"
    using assms(1,2) by (auto simp: client_frame_def intro: client_ok_cong)
  then have "client_ok e (gc_pending c1 @ [op']) (pend op' c1)"
    using assms(2,3,4) by (intro client_ok_pend) (simp_all add: client_frame_def)
  then show ?thesis using assms(2,5) by (simp add: advances_def client_frame_def client_work_def)
qed

lemma op_weight_pos [simp]: "0 < op_weight n op"
  by (cases op) simp_all

lemma advances_return:
  assumes "client_ok e (op # gc_pending c) c" "client_frame c c1" "op_task (gc_data c) op = t"
  shows "advances e n op c (task_return t r c1)"
proof -
  have "client_ok e (op # gc_pending c1) c1"
    using assms(1,2) by (auto simp: client_frame_def intro: client_ok_cong)
  then have "client_ok e (gc_pending c1) (task_return t r c1)"
    using assms(2,3) by (intro client_ok_return) (simp_all add: client_frame_def)
  then show ?thesis using assms(2) by (auto simp: advances_def client_frame_def client_work_def)
qed

lemma advances_frame:
  assumes "advances e n op c c1" "client_frame c1 c2"
  shows "advances e n op c c2"
  using assms by (auto simp: advances_def client_frame_def intro: client_ok_cong)

lemma advances_emit: "advances e n op c c1 \<Longrightarrow> advances e n op c (gemit fx c1)"
  by (erule advances_frame) (rule client_frames)

lemma op_task_manager [simp]: "op_task data (ManagerTask u r) = op_task data (NewManager u)"
  by (cases u) simp_all

lemmas callback_defs = on_got_manager_def on_got_manager_for_opening_connection_def on_got_manager_for_reauthentication_def
  on_session_opened_def on_reauthentication_channel_opened_def on_connected_def on_reauthentication_channel_connected_def
  on_connection_for_user_verifier_def on_connection_for_greeter_def on_connection_for_remote_greeter_def
  on_connection_for_chooser_def on_greeter_proxy_created_def on_remote_greeter_proxy_created_def on_chooser_proxy_created_def
  query_for_timed_login_requested_signal_def split_beta

lemma plain_callback_advances:
  assumes "client_ok e (op # gc_pending c) c" "op_data op = None" "\<nexists>t k. op = NewProxy UserVerifierI t k"
  shows "\<exists>c'. client_callback op a c = Some c' \<and> advances e n op c c'"
  using assms
  by (induction op a c rule: client_callback.induct)
    (auto simp: callback_defs Let_def intro!: advances_pend advances_return advances_emit split: sum.split)

lemma client_ok_new_data:
  assumes "client_ok e (op # L) c" "op_data op = None" "op_task (gc_data c) op = t" "e \<noteq> None" "gc_extensions c \<noteq> None"
  shows "client_ok e (CallEnableExtensions (gc_next c) k # L) (snd (user_verifier_data_new t p c))"
proof -
  let ?d = "gc_next c" and ?c = "snd (user_verifier_data_new t p c)"
  have f: "gc_data ?c = (gc_data c)(?d \<mapsto> (t, p))" "gc_tasks ?c = gc_tasks c" "gc_next ?c = Suc ?d" "gc_extensions ?c = gc_extensions c"
    "gc_enabled ?c = gc_enabled c" "open_requests ?c = open_requests c"
    by (simp_all add: user_verifier_data_new_def open_requests_def)
  have free: "gc_data c ?d = None" using assms(1) by (auto simp: client_ok_def ops_ok_def)
  have other: "op_data op' \<noteq> Some ?d" if "op' \<in> set L" for op'
    using assms(1) that free by (auto simp: client_ok_def ops_ok_def)
  have same: "op_task (gc_data ?c) op' = op_task (gc_data c) op'" if "op_data op' \<noteq> Some ?d" for op'
    using that by (induction "gc_data c" op' rule: op_task.induct) (simp_all add: f)
  have m: "map (op_task (gc_data ?c)) (CallEnableExtensions ?d k # L) = map (op_task (gc_data c)) (op # L)"
    using same other assms(3) by (simp add: f)
  have "op_task (gc_data ?c) ` set (CallEnableExtensions ?d k # L) = op_task (gc_data c) ` set (op # L)"
    using arg_cong [OF m, of set] by simp
  moreover have "distinct (map (op_task (gc_data ?c)) (CallEnableExtensions ?d k # L))"
    unfolding m using assms(1) by (simp add: client_ok_def ops_ok_def)
  ultimately have "ops_ok (CallEnableExtensions ?d k # L) ?c"
    using assms(1) unfolding ops_ok_def f by (auto simp: client_ok_def ops_ok_def)
  then show ?thesis using assms(1,4,5) f by (auto simp: client_ok_def table_ok_def)
qed

lemma user_verifier_advances:
  assumes "client_ok e (op # gc_pending c) c" "op = NewProxy UserVerifierI t k"
  shows "advances e n op c (on_user_verifier_proxy_created t k r c)"
proof (cases "r = Inr () \<and> e \<noteq> None")
  case False
  have "gc_enabled c = e" using assms(1) by (simp add: client_ok_def table_ok_def)
  then show ?thesis using False assms
    by (auto simp: on_user_verifier_proxy_created_def split_beta Let_def new_proxy_def client_frame_def
          intro!: advances_return split: sum.split option.split)
next
  case True
  then obtain l where e: "e = Some l" by auto
  define c1 where "c1 = (snd (new_proxy k c))\<lparr>gc_extensions := Some []\<rparr>"
  define c2 where "c2 = snd (user_verifier_data_new t (gc_next c) c1)"
  let ?new = "CallEnableExtensions (gc_next c1) k"
  have "client_ok e (op # gc_pending c) (snd (new_proxy k c))" by (rule client_ok_new_proxy) (rule assms(1))
  then have ok: "client_ok e (op # gc_pending c) c1" using e by (auto simp: client_ok_def ops_ok_def table_ok_def c1_def open_requests_def)
  have "op_task (gc_data c1) op = t" using assms(2) by simp
  then have "client_ok e (?new # gc_pending c) c2"
    unfolding c2_def using assms(2) e by (intro client_ok_new_data [OF ok]) (simp_all add: c1_def)
  then have "client_ok e (gc_pending c @ [?new]) c2" by (rule client_ok_perm) simp
  moreover have "gc_enabled c = e" using assms(1) by (simp add: client_ok_def table_ok_def)
  then have "on_user_verifier_proxy_created t k r c =
      proxy_unref (gc_next c) (pend ?new (gemit [EnableExtensionsCall (gc_next c) l] c2))"
    using True e by (simp add: on_user_verifier_proxy_created_def split_beta Let_def c2_def c1_def new_proxy_def user_verifier_data_new_def)
  moreover have "gc_pending c2 = gc_pending c" by (simp add: c2_def c1_def user_verifier_data_new_def new_proxy_def)
  ultimately show ?thesis using assms(2) by (auto simp: advances_def client_work_def intro: client_ok_cong)
qed

text \<open>The names of the list, of which only that of the choice list is supported.\<close>

lemma enable_extensions_all:
  assumes "gc_extensions c = Some t" "t = [] \<or> (\<exists>v. t = [(choice_list_interface, v)])"
  shows "gc_pending (fold (enable_extension d k) l c) = gc_pending c @ replicate (count_list l choice_list_interface) (NewChoiceList d k)"
    "gc_extensions (fold (enable_extension d k) l c) =
       Some (if choice_list_interface \<in> set l then [(choice_list_interface, None)] else t)"
    "gc_tasks (fold (enable_extension d k) l c) = gc_tasks c" "gc_data (fold (enable_extension d k) l c) = gc_data c"
    "gc_enabled (fold (enable_extension d k) l c) = gc_enabled c" "gc_next (fold (enable_extension d k) l c) = gc_next c"
  using assms
  by (induction l arbitrary: c t) (auto simp: enable_extension_def Let_def replicate_append_same)

lemma complete_advances:
  assumes "client_ok e (op # gc_pending c) c" "op_data op = Some d"
  shows "\<exists>c'. complete_user_verifier_proxy_operation d c = Some c' \<and> advances e n op c c'"
  using client_ok_complete [OF assms] by (auto simp: advances_def client_work_def)

lemma enabled_advances:
  assumes ok: "client_ok e (op # gc_pending c) c" and op: "op = CallEnableExtensions d k"
    and n: "n = count_list (enabled_list e) choice_list_interface" "n \<le> 1"
  shows "\<exists>c'. on_user_verifier_extensions_enabled d k r c = Some c' \<and> advances e n op c c'"
proof (cases r)
  case (Inl m)
  then show ?thesis using complete_advances [OF ok, of d] op by (simp add: on_user_verifier_extensions_enabled_def)
next
  case (Inr u)
  obtain l t where e: "e = Some l" "gc_enabled c = Some l" "gc_extensions c = Some t"
    and t: "t = [] \<or> choice_list_interface \<in> set l \<and> (\<exists>v. t = [(choice_list_interface, v)])"
    using ok op by (auto simp: client_ok_def table_ok_def enabled_list_def)
  define c1 where "c1 = fold (enable_extension d k) l c"
  note f = enable_extensions_all [OF e(3), of d k l, folded c1_def]
  have f: "gc_pending c1 = gc_pending c @ replicate n (NewChoiceList d k)"
    "gc_extensions c1 = Some (if choice_list_interface \<in> set l then [(choice_list_interface, None)] else t)"
    "gc_tasks c1 = gc_tasks c" "gc_data c1 = gc_data c" "gc_enabled c1 = gc_enabled c" "gc_next c1 = gc_next c"
    using t n(1) e(1) by (auto simp: f enabled_list_def)
  have ok1: "client_ok e (op # gc_pending c) c1"
    using ok e t unfolding client_ok_def ops_ok_def table_ok_def open_requests_def f by (auto simp: enabled_list_def)
  show ?thesis
  proof (cases "n = 0")
    case True
    then have "choice_list_interface \<notin> set l" using n(1) e(1) by (simp add: enabled_list_def count_list_0_iff)
    moreover have "\<exists>c'. complete_user_verifier_proxy_operation d c1 = Some c' \<and> advances e n op c1 c'"
      using complete_advances ok1 op f(1) True by simp
    ultimately show ?thesis
      using e Inr t f(1,2) True by (auto simp: on_user_verifier_extensions_enabled_def Let_def c1_def advances_def)
  next
    case False
    then have n1: "n = 1" using n(2) by simp
    then have l: "choice_list_interface \<in> set l" using n(1) e(1) by (metis count_list_0_iff enabled_list_def option.simps(5) zero_neq_one)
    then have "client_ok e (gc_pending c @ [NewChoiceList d k]) c1"
      using client_ok_replace [OF ok1, of "NewChoiceList d k"] op e(1) by (simp add: enabled_list_def)
    then show ?thesis using e Inr f(1,2) n1 op l
      by (simp add: on_user_verifier_extensions_enabled_def Let_def c1_def [symmetric] advances_def client_work_def)
  qed
qed

lemma choice_list_advances:
  assumes ok: "client_ok e (op # gc_pending c) c" and op: "op = NewChoiceList d k"
  shows "\<exists>c'. on_user_verifier_choice_list_proxy_created d k r c = Some c' \<and> advances e n op c c'"
proof -
  obtain t where t: "gc_extensions c = Some t" "t = [] \<or> (\<exists>v. t = [(choice_list_interface, v)])" and d: "gc_data c d \<noteq> None"
    and l: "choice_list_interface \<in> set (enabled_list e)"
    using ok op by (auto simp: client_ok_def ops_ok_def table_ok_def)
  define c1 where "c1 = (case r of Inl m \<Rightarrow> extension_remove choice_list_interface c
    | Inr _ \<Rightarrow> (let (q, c) = new_proxy k c in extension_insert choice_list_interface (Some q) c))"
  have f: "gc_pending c1 = gc_pending c" "gc_tasks c1 = gc_tasks c" "gc_data c1 = gc_data c" "gc_enabled c1 = gc_enabled c"
    "gc_next c \<le> gc_next c1"
    and t1: "gc_extensions c1 = Some [] \<or> (\<exists>q. gc_extensions c1 = Some [(choice_list_interface, Some q)])"
    using t by (auto simp: c1_def new_proxy_def split: sum.split)
  have "client_ok e (op # gc_pending c) c1"
    using ok l t1 f(5) unfolding client_ok_def ops_ok_def table_ok_def open_requests_def f by auto
  then have "\<exists>c'. complete_user_verifier_proxy_operation d c1 = Some c' \<and> advances e n op c1 c'"
    using complete_advances op f(1) by simp
  moreover have "on_user_verifier_choice_list_proxy_created d k r c = complete_user_verifier_proxy_operation d c1"
    using d t1 by (auto simp: on_user_verifier_choice_list_proxy_created_def maybe_complete_user_verifier_proxy_operation_def c1_def)
  ultimately show ?thesis using f(1) by (auto simp: advances_def)
qed

section \<open>Runs\<close>

text \<open>Anything a program may do with its client, and the callbacks in any order. A program may drop uses of objects as it
  likes. The list of extensions is given at the start.\<close>

inductive client_run :: "string list option \<Rightarrow> client \<Rightarrow> bool" for e where
  start: "client_run e (scdm_client_set_enabled_extensions e (scdm_client_new None))"
| request: "client_run e c \<Longrightarrow> client_run e (snd (get_proxy_async i c))"
| reauthenticate: "client_run e c \<Longrightarrow> client_run e (snd (scdm_client_open_reauthentication_channel u c))"
| callback: "client_run e c \<Longrightarrow> op \<in> set (gc_pending c) \<Longrightarrow>
    client_callback op a (c\<lparr>gc_pending := remove1 op (gc_pending c)\<rparr>) = Some c' \<Longrightarrow> client_run e c'"
| finish: "client_run e c \<Longrightarrow> get_proxy_finish i t c = Some (r, c') \<Longrightarrow> client_run e c'"
| finish_reauthentication: "client_run e c \<Longrightarrow> scdm_client_open_reauthentication_channel_finish t c = Some (r, c') \<Longrightarrow> client_run e c'"
| sync: "client_run e c \<Longrightarrow> get_proxy_sync i env c = (r, b, c') \<Longrightarrow> client_run e c'"
| sync_extensions: "client_run e c \<Longrightarrow> client_run e (enable_extensions_sync env p c)"
| sync_reauthentication: "client_run e c \<Longrightarrow> client_run e (snd (scdm_client_open_reauthentication_channel_sync env u c))"
| drop: "client_run e c \<Longrightarrow> client_run e (proxy_unref p c)"

lemma any_callback_advances:
  assumes "client_ok e (gc_pending c) c" "op \<in> set (gc_pending c)"
    and n: "n = count_list (enabled_list e) choice_list_interface" "n \<le> 1"
  shows "\<exists>c'. client_callback op a (c\<lparr>gc_pending := remove1 op (gc_pending c)\<rparr>) = Some c' \<and>
    advances e n op (c\<lparr>gc_pending := remove1 op (gc_pending c)\<rparr>) c'"
proof -
  let ?c = "c\<lparr>gc_pending := remove1 op (gc_pending c)\<rparr>"
  have "client_ok e (op # remove1 op (gc_pending c)) c"
    using assms(1) by (rule client_ok_perm) (simp add: assms(2))
  then have ok: "client_ok e (op # gc_pending ?c) ?c" by (auto intro: client_ok_cong)
  show ?thesis
  proof (cases "op_data op")
    case None
    then show ?thesis
      using plain_callback_advances [OF ok None] user_verifier_advances [OF ok] by (cases "\<exists>t k. op = NewProxy UserVerifierI t k") fastforce+
  next
    case (Some d)
    then consider k where "op = CallEnableExtensions d k" | k where "op = NewChoiceList d k" by (cases op) auto
    then show ?thesis
    proof cases
      case 1
      then show ?thesis using enabled_advances [OF ok 1 n] by simp
    next
      case 2
      then show ?thesis using choice_list_advances [OF ok 2] by simp
    qed
  qed
qed

lemma client_ok_drop_task:
  assumes "client_ok e L c" "gc_tasks c t = Some k" "tk_result k \<noteq> None"
  shows "client_ok e L (c\<lparr>gc_tasks := (gc_tasks c)(t := None)\<rparr>)"
proof -
  have "open_requests (c\<lparr>gc_tasks := (gc_tasks c)(t := None)\<rparr>) = open_requests c"
    using assms(2,3) by (auto simp: open_requests_def)
  then show ?thesis using assms(1) by (auto simp: client_ok_def ops_ok_def table_ok_def)
qed

lemma client_ok_propagate:
  assumes "client_ok e (gc_pending c) c" "task_propagate t c = Some (r, c')"
  shows "client_ok e (gc_pending c') c'"
  using assms client_ok_drop_task [OF assms(1)] by (auto simp: task_propagate_def split: option.splits)

lemma client_ok_finish:
  assumes "client_ok e (gc_pending c) c" "get_proxy_finish i t c = Some (r, c')"
  shows "client_ok e (gc_pending c') c'"
proof -
  obtain r1 c1 where c1: "task_propagate t c = Some (r1, c1)" using assms(2) by (auto simp: get_proxy_finish_def)
  then have ok: "client_ok e (gc_pending c1) c1" by (rule client_ok_propagate [OF assms(1)])
  have "c' = c1 \<or> (\<exists>p. c' = c1\<lparr>gc_proxy := (gc_proxy c1)(i \<mapsto> p)\<rparr>) \<or> (\<exists>q p. c' = free_interface_skeleton q (proxy_ref p c1))"
    using assms(2) c1 by (cases "gc_proxy c1 i"; cases r1) (auto simp: get_proxy_finish_def)
  then show ?thesis using ok by (auto intro: client_ok_cong)
qed

lemma connection_sync_frame: "scdm_client_get_connection_sync env c = (r, c') \<Longrightarrow> client_frame c c'"
  by (auto simp: scdm_client_get_connection_sync_def client_frame_def new_connection_def Let_def split: option.splits sum.splits)

lemma proxy_sync_frame:
  assumes "get_proxy_sync i env c = (r, b, c')"
  shows "client_frame c c'"
proof -
  obtain r1 c1 where c1: "scdm_client_get_connection_sync env c = (r1, c1)" by fastforce
  show ?thesis using assms connection_sync_frame [OF c1] c1
    by (auto simp: get_proxy_sync_def client_frame_def new_proxy_def Let_def split: option.splits sum.splits)
qed

lemma client_ok_choice_list:
  assumes "client_ok e L c" "x \<in> set (enabled_list e)"
  shows "client_ok e L (choice_list_sync env k x c)"
  using assms unfolding client_ok_def ops_ok_def table_ok_def open_requests_def
  by (auto simp: choice_list_sync_def new_proxy_def Let_def)

lemma client_ok_choice_lists:
  "client_ok e L c \<Longrightarrow> set l \<subseteq> set (enabled_list e) \<Longrightarrow> client_ok e L (fold (choice_list_sync env k) l c)"
  by (induction l arbitrary: c) (auto intro: client_ok_choice_list)

lemma choice_lists_pending: "gc_pending (fold (choice_list_sync env k) l c) = gc_pending c"
  by (induction l arbitrary: c) (auto simp: choice_list_sync_def new_proxy_def Let_def)

lemma client_ok_extensions_sync:
  assumes "client_ok e (gc_pending c) c"
  shows "client_ok e (gc_pending (enable_extensions_sync env p c)) (enable_extensions_sync env p c)"
proof (cases "gc_enabled c = None \<or> gc_proxies c p = None")
  case True
  then show ?thesis using assms by (auto simp: enable_extensions_sync_def split: option.split)
next
  case False
  then obtain l x where l: "gc_enabled c = Some l" "gc_proxies c p = Some x" by auto
  have e: "e = Some l" using assms l by (simp add: client_ok_def table_ok_def)
  have "client_ok e (gc_pending c) (gemit [EnableExtensionsCall p l] (c\<lparr>gc_extensions := Some []\<rparr>))"
    using assms e by (auto simp: client_ok_def ops_ok_def table_ok_def open_requests_def)
  then show ?thesis using l e client_ok_choice_lists
    by (simp add: enable_extensions_sync_def Let_def choice_lists_pending enabled_list_def)
qed

lemma reauthentication_sync_frame: "client_frame c (snd (scdm_client_open_reauthentication_channel_sync env u c))"
  by (auto simp: scdm_client_open_reauthentication_channel_sync_def client_frame_def new_connection_def new_proxy_def Let_def
      split: sum.split)

lemma client_ok_frame: "client_ok e (gc_pending c) c \<Longrightarrow> client_frame c c' \<Longrightarrow> client_ok e (gc_pending c') c'"
  by (auto simp: client_frame_def intro: client_ok_cong)

lemma client_run_ok:
  assumes "client_run e c" "count_list (enabled_list e) choice_list_interface \<le> 1"
  shows "client_ok e (gc_pending c) c"
  using assms(1)
proof induction
  case start
  then show ?case by (simp add: client_ok_def ops_ok_def table_ok_def open_requests_def scdm_client_set_enabled_extensions_def
      scdm_client_new_def empty_client_def)
next
  case (request c i)
  then show ?case by (intro client_ok_request)
next
  case (reauthenticate c u)
  then show ?case by (intro client_ok_reauthentication)
next
  case (callback c op a c')
  then show ?case using any_callback_advances [OF callback.IH callback.hyps(2) refl assms(2), of a] by (simp add: advances_def)
next
  case (finish c i t r c')
  then show ?case using client_ok_finish by blast
next
  case (finish_reauthentication c t r c')
  then show ?case using client_ok_propagate by (simp add: scdm_client_open_reauthentication_channel_finish_def)
next
  case (sync c i env r b c')
  then show ?case using client_ok_frame proxy_sync_frame by blast
next
  case (sync_extensions c env p)
  then show ?case by (intro client_ok_extensions_sync)
next
  case (sync_reauthentication c env u)
  then show ?case using client_ok_frame reauthentication_sync_frame by blast
next
  case (drop c p)
  show ?case by (rule client_ok_frame [OF drop.IH]) (rule client_frames)
qed

text \<open>C10. Whatever a program asks for, while other requests of it are under way: with each answer that comes in, the
  callback runs to its end and less is left to do, each request that has no answer has one operation under way, and when
  nothing is under way every request has its answer. This is so when the choice list is not named twice among the
  extensions.\<close>

theorem requests_answered:
  assumes "client_run e c" "n = count_list (enabled_list e) choice_list_interface" "n \<le> 1"
  shows "(\<forall>op \<in> set (gc_pending c). \<forall>a. \<exists>c' new. client_callback op a (c\<lparr>gc_pending := remove1 op (gc_pending c)\<rparr>) = Some c' \<and>
      gc_pending c' = remove1 op (gc_pending c) @ new \<and> client_work n (gc_pending c') < client_work n (gc_pending c)) \<and>
    distinct (map (op_task (gc_data c)) (gc_pending c)) \<and>
    set (map (op_task (gc_data c)) (gc_pending c)) = {t. \<exists>k. gc_tasks c t = Some k \<and> tk_result k = None}"
proof -
  have ok: "client_ok e (gc_pending c) c" using client_run_ok assms by simp
  have "\<exists>c' new. client_callback op a (c\<lparr>gc_pending := remove1 op (gc_pending c)\<rparr>) = Some c' \<and>
      gc_pending c' = remove1 op (gc_pending c) @ new \<and> client_work n (gc_pending c') < client_work n (gc_pending c)"
    if op: "op \<in> set (gc_pending c)" for op a
  proof -
    obtain c' new where c': "client_callback op a (c\<lparr>gc_pending := remove1 op (gc_pending c)\<rparr>) = Some c'"
      "gc_pending c' = remove1 op (gc_pending c) @ new" "client_work n new < op_weight n op"
      using any_callback_advances [OF ok op assms(2,3), of a] by (auto simp: advances_def)
    have "client_work n (gc_pending c) = op_weight n op + client_work n (remove1 op (gc_pending c))"
      using sum_list_map_remove1 [OF op] by (simp add: client_work_def)
    then show ?thesis using c' by (auto simp: client_work_def)
  qed
  then show ?thesis using ok by (auto simp: client_ok_def ops_ok_def open_requests_def)
qed

section \<open>Examples\<close>

definition answered :: "g_error + string \<Rightarrow> client \<Rightarrow> client option" where
  "answered a c = (case gc_pending c of [] \<Rightarrow> None | op # rest \<Rightarrow> client_callback op a (c\<lparr>gc_pending := rest\<rparr>))"

fun answered_all :: "(g_error + string) list \<Rightarrow> client \<Rightarrow> client option" where
  "answered_all [] c = Some c"
| "answered_all (a # l) c = (case answered a c of None \<Rightarrow> None | Some c \<Rightarrow> answered_all l c)"

lemma run_answered: "client_run e c \<Longrightarrow> answered a c = Some c' \<Longrightarrow> client_run e c'"
  by (cases "gc_pending c") (auto simp: answered_def intro: callback)

lemma run_answered_all: "client_run e c \<Longrightarrow> answered_all l c = Some c' \<Longrightarrow> client_run e c'"
  by (induction l arbitrary: c) (auto split: option.splits dest: run_answered)

definition client_of :: "string list \<Rightarrow> client" where
  "client_of e = scdm_client_set_enabled_extensions (Some e) (scdm_client_new None)"

definition asked_verifier :: "string list \<Rightarrow> client" where
  "asked_verifier e = snd (scdm_client_get_user_verifier (client_of e))"

lemma asked_verifier_run: "client_run (Some e) (asked_verifier e)"
  unfolding asked_verifier_def client_of_def scdm_client_get_user_verifier_def by (intro request start)

text \<open>The manager, the session, its address, the connection, the object, the extensions and the choice list.\<close>

lemma verifier_takes_eight_answers:
  "map_option (\<lambda>c. (gc_pending c, map_option tk_result (gc_tasks c 0), scdm_client_get_user_verifier_choice_list c))
     (answered_all (replicate 8 (Inr ''unix:a'')) (asked_verifier [choice_list_interface])) = Some ([], Some (Some (Inr 1)), Some 3)"
  by code_simp

theorem requests_answered_witness:
  "\<exists>c'. client_callback (NewManager (ForSession UserVerifierI 0)) (Inr ''unix:a'')
       (asked_verifier [choice_list_interface]\<lparr>gc_pending := []\<rparr>) = Some c' \<and>
     client_work 1 (gc_pending c') < client_work 1 (gc_pending (asked_verifier [choice_list_interface]))"
proof -
  have p: "gc_pending (asked_verifier [choice_list_interface]) = [NewManager (ForSession UserVerifierI 0)]" by code_simp
  show ?thesis
    using requests_answered [OF asked_verifier_run, of 1 "[choice_list_interface]", THEN conjunct1, rule_format,
        of "NewManager (ForSession UserVerifierI 0)" "Inr ''unix:a''"] p
    by (simp add: enabled_list_def)
qed

text \<open>When the choice list is named twice, the second answer finds the data of the request freed.\<close>

lemma extension_named_twice:
  "Option.is_none (answered_all (replicate 9 (Inr ''unix:a'')) (asked_verifier [choice_list_interface, choice_list_interface]))"
  "\<not> Option.is_none (answered_all (replicate 8 (Inr ''unix:a'')) (asked_verifier [choice_list_interface, choice_list_interface]))"
  by code_simp+

text \<open>Two requests at a time open the session twice, and their objects have connections of their own.\<close>

lemma two_requests_two_connections:
  "map_option (\<lambda>c. (gc_pending c, filter (\<lambda>x. x = OpenSessionCall) (gc_log c), map (map_option px_connection \<circ> gc_proxies c) [2, 3]))
     (answered_all (replicate 12 (Inr ''unix:a'')) (snd (scdm_client_get_chooser (snd (scdm_client_get_greeter (client_of []))))))
   = Some ([], [OpenSessionCall, OpenSessionCall], [Some 0, Some 1])"
  by code_simp

text \<open>A request to authenticate again replaces the extensions of the session: the choice list that is handed out then is on
  another connection than the user verifier.\<close>

definition reauthenticated :: "client option" where
  "reauthenticated =
     (case answered_all (replicate 8 (Inr ''unix:a'')) (asked_verifier [choice_list_interface]) of
        None \<Rightarrow> None
      | Some c \<Rightarrow>
          (case scdm_client_get_user_verifier_finish 0 c of
             None \<Rightarrow> None
           | Some (_, c) \<Rightarrow>
               answered_all (replicate 7 (Inr ''unix:b'')) (snd (scdm_client_open_reauthentication_channel ''u'' c))))"

lemma choice_list_of_other_channel:
  "map_option (\<lambda>c. (gc_pending c, map (\<lambda>p. case p of None \<Rightarrow> None | Some p \<Rightarrow> map_option px_connection (gc_proxies c p))
     [gc_proxy c UserVerifierI, scdm_client_get_user_verifier_choice_list c])) reauthenticated = Some ([], [Some 0, Some 1])"
  by code_simp

section \<open>One connection\<close>

text \<open>A program that waits for its calls, and drops uses of objects in between.\<close>

inductive waiting_run :: "client \<Rightarrow> bool" where
  start: "waiting_run (scdm_client_new None)"
| extensions: "waiting_run c \<Longrightarrow> waiting_run (scdm_client_set_enabled_extensions e c)"
| user_verifier: "waiting_run c \<Longrightarrow> waiting_run (snd (scdm_client_get_user_verifier_sync env c))"
| greeter: "waiting_run c \<Longrightarrow> waiting_run (snd (scdm_client_get_greeter_sync env c))"
| remote_greeter: "waiting_run c \<Longrightarrow> waiting_run (snd (scdm_client_get_remote_greeter_sync env c))"
| chooser: "waiting_run c \<Longrightarrow> waiting_run (snd (scdm_client_get_chooser_sync env c))"
| reauthentication: "waiting_run c \<Longrightarrow> waiting_run (snd (scdm_client_open_reauthentication_channel_sync env u c))"
| drop: "waiting_run c \<Longrightarrow> waiting_run (proxy_unref p c)"

definition on_connection :: "nat \<Rightarrow> client \<Rightarrow> bool" where
  "on_connection k c \<longleftrightarrow> (\<forall>i p. gc_proxy c i = Some p \<longrightarrow> (\<exists>x. gc_proxies c p = Some x \<and> px_connection x = k))"

definition one_connection :: "client \<Rightarrow> bool" where
  "one_connection c \<longleftrightarrow> (\<exists>k. on_connection k c) \<and> (\<forall>p \<ge> gc_next c. gc_proxies c p = None)"

lemma on_connection_unref: "on_connection k c \<Longrightarrow> on_connection k (proxy_unref p c)"
  by (auto simp: on_connection_def proxy_unref_def split: option.split) (metis option.inject)+

lemma fresh_unref: "\<forall>p \<ge> gc_next c. gc_proxies c p = None \<Longrightarrow> \<forall>p \<ge> gc_next c. gc_proxies (proxy_unref q c) p = None"
  by (auto simp: proxy_unref_def split: option.split)

lemma one_connection_unref: "one_connection c \<Longrightarrow> one_connection (proxy_unref p c)"
  using fresh_unref [of c p] by (auto simp: one_connection_def intro: on_connection_unref)

lemma one_connection_frame:
  "one_connection c \<Longrightarrow> gc_proxy c' = gc_proxy c \<Longrightarrow> gc_proxies c' = gc_proxies c \<Longrightarrow> gc_next c' = gc_next c \<Longrightarrow> one_connection c'"
  by (simp add: one_connection_def on_connection_def)

text \<open>Objects may be added and their uses counted.\<close>

lemma one_connection_like:
  assumes "one_connection c" "gc_proxy c' = gc_proxy c" "gc_next c' \<ge> gc_next c"
    "\<And>p. p < gc_next c \<Longrightarrow> map_option px_connection (gc_proxies c' p) = map_option px_connection (gc_proxies c p)"
    "\<And>p. p \<ge> gc_next c' \<Longrightarrow> gc_proxies c' p = None"
  shows "one_connection c'"
proof -
  obtain k where k: "on_connection k c" using assms(1) by (auto simp: one_connection_def)
  have "\<exists>x. gc_proxies c' p = Some x \<and> px_connection x = k" if ip: "gc_proxy c i = Some p" for i p
  proof -
    obtain x where x: "gc_proxies c p = Some x" "px_connection x = k" using k [unfolded on_connection_def, rule_format, OF ip] by blast
    then have "p < gc_next c" using assms(1) by (metis linorder_not_le one_connection_def option.distinct(1))
    then have "map_option px_connection (gc_proxies c' p) = Some k" using x assms(4) by simp
    then show ?thesis by auto
  qed
  then have "on_connection k c'" using assms(2) by (simp add: on_connection_def)
  then show ?thesis using assms(5) by (auto simp: one_connection_def)
qed

lemma one_connection_new_proxy: "one_connection c \<Longrightarrow> one_connection (snd (new_proxy k c))"
  by (auto simp: one_connection_def on_connection_def new_proxy_def) (metis le_refl option.distinct(1))

lemma one_connection_insert: "one_connection c \<Longrightarrow> one_connection (extension_insert x v c)"
  by (auto simp: extension_insert_def free_interface_skeleton_def split: option.split
      intro!: one_connection_unref intro: one_connection_frame)

lemma one_connection_extensions: "one_connection c \<Longrightarrow> one_connection (enable_extensions_sync env p c)"
proof -
  have l: "one_connection c \<Longrightarrow> one_connection (fold (choice_list_sync env k) l c)" for l k c
    by (induction l arbitrary: c)
      (auto simp: choice_list_sync_def split_beta Let_def intro!: one_connection_insert one_connection_new_proxy)
  show "one_connection c \<Longrightarrow> ?thesis"
    by (auto simp: enable_extensions_sync_def Let_def gemit_def split: option.split intro!: l intro: one_connection_frame)
qed

lemma open_connection_on:
  assumes "on_connection k c"
  shows "scdm_client_get_open_connection c = (if \<exists>i. gc_proxy c i \<noteq> None then Some k else None)"
proof -
  have all: "(\<exists>i. gc_proxy c i \<noteq> None) \<longleftrightarrow> gc_proxy c UserVerifierI \<noteq> None \<or> gc_proxy c GreeterI \<noteq> None \<or>
      gc_proxy c RemoteGreeterI \<noteq> None \<or> gc_proxy c ChooserI \<noteq> None"
    by (metis client_interface.exhaust)
  show ?thesis unfolding all using assms
    by (auto simp: scdm_client_get_open_connection_def on_connection_def Let_def split: option.split)
qed

lemma proxy_sync_remembered:
  assumes "gc_proxy c i = Some p"
  shows "get_proxy_sync i env c = (Inr p, False, proxy_ref p c)"
  using assms by (simp add: get_proxy_sync_def)

lemma one_connection_ref: "one_connection c \<Longrightarrow> one_connection (proxy_ref p c)"
  by (rule one_connection_like) (auto simp: proxy_ref_def one_connection_def option.map_comp o_def)

lemma one_connection_sync:
  assumes "one_connection c" "get_proxy_sync i env c = (r, b, c')"
  shows "one_connection c'"
proof (cases "gc_proxy c i")
  case (Some p)
  then have "c' = proxy_ref p c" using assms(2) by (simp add: proxy_sync_remembered)
  then show ?thesis using one_connection_ref [OF assms(1)] by simp
next
  case None
  obtain k where k: "on_connection k c" using assms(1) by (auto simp: one_connection_def)
  obtain r1 c1 where c1: "scdm_client_get_connection_sync env c = (r1, c1)" by fastforce
  have f: "gc_proxy c1 = gc_proxy c" "gc_proxies c1 = gc_proxies c" "gc_next c1 = gc_next c"
    and r1: "\<forall>k'. r1 = Inr k' \<longrightarrow> on_connection k' c"
    using c1 open_connection_on [OF k] k
    by (auto simp: scdm_client_get_connection_sync_def new_connection_def on_connection_def Let_def
        split: option.splits sum.splits if_splits)
  have fresh: "gc_proxies c (gc_next c) = None" using assms(1) by (simp add: one_connection_def)
  show ?thesis
  proof (cases "\<exists>k'. r1 = Inr k' \<and> ce_proxy env = Inr ()")
    case False
    then have "c' = c1" using assms(2) None c1 by (auto simp: get_proxy_sync_def split: sum.splits)
    then show ?thesis using one_connection_frame [OF assms(1)] f by simp
  next
    case True
    then obtain k' where k': "r1 = Inr k'" "on_connection k' c" "ce_proxy env = Inr ()" using r1 by auto
    then have c': "gc_proxy c' = (gc_proxy c)(i \<mapsto> gc_next c)" "gc_next c' = Suc (gc_next c)"
      "gc_proxies c' = (gc_proxies c)(gc_next c \<mapsto> \<lparr>px_connection = k', px_refs = 1\<rparr>)"
      using assms(2) None c1 f by (auto simp: get_proxy_sync_def new_proxy_def Let_def)
    have "on_connection k' c'" using k'(2) fresh unfolding on_connection_def c' by (auto split: if_splits)
    then show ?thesis using assms(1) unfolding one_connection_def c' by (auto simp: c'(2,3))
  qed
qed

text \<open>What the calls do besides: a new user verifier gets its extensions, a new greeter is asked for its timed login.\<close>

lemma waiting_call_one_connection:
  assumes "one_connection c"
  shows "one_connection (snd (scdm_client_get_user_verifier_sync env c))" "one_connection (snd (scdm_client_get_greeter_sync env c))"
    "one_connection (snd (scdm_client_get_remote_greeter_sync env c))" "one_connection (snd (scdm_client_get_chooser_sync env c))"
proof -
  have s: "one_connection (snd (snd (get_proxy_sync i env c)))" for i
    using one_connection_sync [OF assms, of i env] by (metis prod.exhaust_sel)
  show "one_connection (snd (scdm_client_get_user_verifier_sync env c))"
    using s [of UserVerifierI] by (auto simp: scdm_client_get_user_verifier_sync_def split: prod.split sum.split bool.split intro: one_connection_extensions)
  show "one_connection (snd (scdm_client_get_greeter_sync env c))"
    using s [of GreeterI] by (auto simp: scdm_client_get_greeter_sync_def query_for_timed_login_requested_signal_def
        split: prod.split sum.split bool.split intro: one_connection_frame)
  show "one_connection (snd (scdm_client_get_remote_greeter_sync env c))" "one_connection (snd (scdm_client_get_chooser_sync env c))"
    using s [of RemoteGreeterI] s [of ChooserI]
    by (auto simp: scdm_client_get_remote_greeter_sync_def scdm_client_get_chooser_sync_def split: prod.split)
qed

lemma waiting_run_one_connection: "waiting_run c \<Longrightarrow> one_connection c"
proof (induction rule: waiting_run.induct)
  case start
  then show ?case by (simp add: one_connection_def on_connection_def scdm_client_new_def empty_client_def)
next
  case (extensions c e)
  then show ?case by (auto simp: scdm_client_set_enabled_extensions_def intro: one_connection_frame)
next
  case (reauthentication c env u)
  let ?c = "snd (scdm_client_open_reauthentication_channel_sync env u c)"
  have fresh: "gc_proxies c p = None" if "p \<ge> gc_next c" for p using reauthentication.IH that by (simp add: one_connection_def)
  show ?case
  proof (rule one_connection_like [OF reauthentication.IH])
    show "gc_proxy ?c = gc_proxy c" "gc_next ?c \<ge> gc_next c"
      by (simp_all add: scdm_client_open_reauthentication_channel_sync_def Let_def new_connection_def new_proxy_def split: sum.split)
    show "map_option px_connection (gc_proxies ?c p) = map_option px_connection (gc_proxies c p)" if "p < gc_next c" for p
      using that by (simp add: scdm_client_open_reauthentication_channel_sync_def Let_def new_connection_def new_proxy_def split: sum.split)
    show "gc_proxies ?c p = None" if "p \<ge> gc_next ?c" for p
      using that fresh by (auto simp: scdm_client_open_reauthentication_channel_sync_def Let_def new_connection_def new_proxy_def
          split: sum.splits if_splits)
  qed
qed (auto intro: waiting_call_one_connection one_connection_unref)

text \<open>With an object in use no session is opened.\<close>

lemma proxy_sync_log:
  assumes "one_connection c" "gc_proxy c j \<noteq> None" "get_proxy_sync i env c = (r, b, c')"
  shows "gc_log c' = gc_log c"
proof -
  obtain k where "scdm_client_get_open_connection c = Some k"
    using assms(1,2) open_connection_on by (force simp: one_connection_def)
  then show ?thesis using assms(3)
    by (auto simp: get_proxy_sync_def scdm_client_get_connection_sync_def new_proxy_def proxy_ref_def Let_def
        split: option.splits sum.splits)
qed

lemma choice_lists_log: "gc_log (fold (choice_list_sync env k) l c) = gc_log c"
  by (induction l arbitrary: c)
    (auto simp: choice_list_sync_def new_proxy_def extension_insert_def free_interface_skeleton_def proxy_unref_def Let_def split: option.split)

lemma extensions_sync_log: "\<exists>new. gc_log (enable_extensions_sync env p c) = gc_log c @ new \<and> OpenSessionCall \<notin> set new"
  by (auto simp: enable_extensions_sync_def Let_def choice_lists_log split: option.split)

fun waiting_call :: "client_interface \<Rightarrow> client_env \<Rightarrow> client \<Rightarrow> (g_error + nat) \<times> client" where
  "waiting_call UserVerifierI = scdm_client_get_user_verifier_sync"
| "waiting_call GreeterI = scdm_client_get_greeter_sync"
| "waiting_call RemoteGreeterI = scdm_client_get_remote_greeter_sync"
| "waiting_call ChooserI = scdm_client_get_chooser_sync"

lemmas waiting_call_defs = scdm_client_get_user_verifier_sync_def scdm_client_get_greeter_sync_def
  scdm_client_get_remote_greeter_sync_def scdm_client_get_chooser_sync_def query_for_timed_login_requested_signal_def

lemma waiting_call_log:
  assumes "one_connection c" "gc_proxy c j \<noteq> None"
  shows "\<exists>new. gc_log (snd (waiting_call i env c)) = gc_log c @ new \<and> OpenSessionCall \<notin> set new"
proof -
  obtain r b c' where s: "get_proxy_sync i env c = (r, b, c')" using prod_cases3 by blast
  have l: "gc_log c' = gc_log c" by (rule proxy_sync_log [OF assms s])
  show ?thesis
  proof (cases i)
    case UserVerifierI
    then show ?thesis using s l extensions_sync_log [of env "projr r" c']
      by (cases r; cases b) (auto simp: waiting_call_defs)
  qed (use s l in \<open>cases r; cases b; auto simp: waiting_call_defs\<close>)+
qed

lemma waiting_call_remembered: "gc_proxy c i = Some p \<Longrightarrow> waiting_call i env c = (Inr p, proxy_ref p c)"
  by (cases i) (simp_all add: waiting_call_defs proxy_sync_remembered)

text \<open>C17. A program that waits for its calls: all objects that are in use have one connection; while there is one, the daemon is not
  asked for a session again; and asking again for an object in use gives that object.\<close>

theorem waiting_program_one_connection:
  assumes "waiting_run c"
  shows "\<exists>k. \<forall>i p. gc_proxy c i = Some p \<longrightarrow> map_option px_connection (gc_proxies c p) = Some k \<and>
    waiting_call i env c = (Inr p, proxy_ref p c) \<and>
    (\<forall>j. \<exists>new. gc_log (snd (waiting_call j env c)) = gc_log c @ new \<and> OpenSessionCall \<notin> set new)"
proof -
  have one: "one_connection c" by (rule waiting_run_one_connection) (rule assms)
  obtain k where k: "on_connection k c" using one by (auto simp: one_connection_def)
  have "map_option px_connection (gc_proxies c p) = Some k" if "gc_proxy c i = Some p" for i p
    using k that by (auto simp: on_connection_def)
  then show ?thesis using waiting_call_log [OF one] waiting_call_remembered by (intro exI [of _ k]) simp
qed

text \<open>The calls succeed.\<close>

definition example_client_env :: client_env where
  "example_client_env = \<lparr>ce_manager = Inr (), ce_open_session = Inr ''unix:a'', ce_open_reauthentication = (\<lambda>_. Inr ''unix:b''),
     ce_connect = (\<lambda>_. Inr ()), ce_proxy = Inr (), ce_enable = True, ce_choice_list = True\<rparr>"

definition greeter_in_use :: client where
  "greeter_in_use = snd (scdm_client_get_greeter_sync example_client_env (scdm_client_new None))"

theorem waiting_program_one_connection_witness:
  "gc_proxy greeter_in_use GreeterI = Some 0 \<and>
   waiting_call GreeterI example_client_env greeter_in_use = (Inr 0, proxy_ref 0 greeter_in_use)"
proof -
  have p: "gc_proxy greeter_in_use GreeterI = Some 0" by code_simp
  have "waiting_run greeter_in_use" unfolding greeter_in_use_def by (intro waiting_run.greeter waiting_run.start)
  from waiting_program_one_connection [OF this, of example_client_env] p
  have "waiting_call GreeterI example_client_env greeter_in_use = (Inr 0, proxy_ref 0 greeter_in_use)" by blast
  then show ?thesis using p by simp
qed

end
