(* ===== verification/Host_Chooser.thy ===== *)
theory Host_Chooser
  imports Client Xdmcp_Handlers
begin

text \<open>
  The host chooser of X terminals, \<open>src/chooser\<close>: the list of hosts and the packets that fill it
  (\<open>scdm-host-chooser-widget.c\<close>, \<open>scdm-chooser-host.c\<close>), the dialog around it (\<open>scdm-host-chooser-dialog.c\<close>), the
  session that tells the daemon the host (\<open>scdm-chooser-session.c\<close>), and the two programs. GTK, the kernel, the resolver
  and libXdmcp are arguments; the list that GTK shows is the list of its rows in the order in which they were added.
\<close>

section \<open>State\<close>

record chooser_host =
  ch_address :: address
  ch_description :: "string option"
  ch_kind :: int
  ch_willing :: bool

text \<open>One interface of \<open>SIOCGIFCONF\<close>: its name, the flags \<open>IFF_UP\<close> and \<open>IFF_BROADCAST\<close>, and the answer to
  \<open>SIOCGIFBRDADDR\<close>.\<close>

record if_entry =
  ife_name :: string
  ife_flags :: "(bool \<times> bool) option"
  ife_broadaddr :: "address option"

record chooser_env =
  che_ipv6 :: bool
  che_socket6 :: int
  che_socket4 :: int
  che_hostname :: "address \<Rightarrow> string option"
  che_nameinfo :: "address \<Rightarrow> (string \<times> string) option"
  che_ifconf :: "if_entry list option" \<comment> \<open>\<open>None\<close>: no socket, or the request fails\<close>
  che_getaddrinfo :: "string \<Rightarrow> (address \<times> nat) list option" \<comment> \<open>with the port of XDMCP\<close>
  che_escape :: "string \<Rightarrow> string" \<comment> \<open>\<open>g_markup_escape_text\<close>\<close>

text \<open>A packet without its receiver.\<close>

type_synonym prepared_packet = "address \<Rightarrow> packet"

text \<open>The hosts are numbered in the order in which they become known; rows have a label and a host.\<close>

record host_chooser_widget =
  hcw_kind_mask :: int
  hcw_hosts :: "string list option"
  hcw_broadcast_buf :: prepared_packet
  hcw_query_buf :: prepared_packet
  hcw_have_ipv6 :: bool
  hcw_socket_fd :: int
  hcw_io_watch :: bool
  hcw_ping_try :: bool
  hcw_ping_tries :: int
  hcw_broadcast_addresses :: "address list"
  hcw_query_addresses :: "address list"
  hcw_chooser_hosts :: "(nat \<times> chooser_host) list"
  hcw_current_host :: "nat option"
  hcw_rows :: "(string \<times> nat) list"
  hcw_selected :: "nat option"
  hcw_log :: "packet list"

definition PING_TRIES :: int where "PING_TRIES = 3"

definition GDM_CHOOSER_HOST_KIND_XDMCP :: int where "GDM_CHOOSER_HOST_KIND_XDMCP = 1"

definition empty_packet :: prepared_packet where
  "empty_packet a = \<lparr>pk_to = a, pk_opcode = 0, pk_version = 0, pk_length = 0, pk_fields = []\<rparr>"

definition scdm_host_chooser_widget_init :: "int \<Rightarrow> host_chooser_widget" where
  "scdm_host_chooser_widget_init kind_mask =
     \<lparr>hcw_kind_mask = kind_mask, hcw_hosts = None, hcw_broadcast_buf = empty_packet, hcw_query_buf = empty_packet,
      hcw_have_ipv6 = False, hcw_socket_fd = 0, hcw_io_watch = False, hcw_ping_try = False, hcw_ping_tries = 0,
      hcw_broadcast_addresses = [], hcw_query_addresses = [], hcw_chooser_hosts = [], hcw_current_host = None, hcw_rows = [],
      hcw_selected = None, hcw_log = []\<rparr>"

section \<open>Hosts\<close>

definition chooser_host_add :: "chooser_host \<Rightarrow> host_chooser_widget \<Rightarrow> nat \<times> host_chooser_widget" where
  "chooser_host_add host widget =
     (let i = length (hcw_chooser_hosts widget)
      in (i, widget\<lparr>hcw_chooser_hosts := (i, host) # hcw_chooser_hosts widget\<rparr>))"

definition chooser_hostname :: "chooser_env \<Rightarrow> address \<Rightarrow> string" where
  "chooser_hostname env address =
     (case scdm_address_get_hostname (che_hostname env) address of
        (True, hostname) \<Rightarrow> hostname
      | (False, _) \<Rightarrow> fst (snd (scdm_address_get_numeric_info (che_nameinfo env) address)))"

definition address_hostnames_equal :: "chooser_env \<Rightarrow> address \<Rightarrow> address \<Rightarrow> bool" where
  "address_hostnames_equal env address other_address =
     (if scdm_address_equal (che_ipv6 env) address other_address then True
      else chooser_hostname env address = chooser_hostname env other_address)"

definition find_known_host :: "chooser_env \<Rightarrow> address \<Rightarrow> host_chooser_widget \<Rightarrow> (nat \<times> chooser_host) option" where
  "find_known_host env address widget =
     List.find (\<lambda>(i, host). address_hostnames_equal env address (ch_address host)) (hcw_chooser_hosts widget)"

text \<open>The selection has changed; \<open>row\<close> is the row that is selected.\<close>

definition on_host_selected :: "host_chooser_widget \<Rightarrow> host_chooser_widget" where
  "on_host_selected widget =
     widget\<lparr>hcw_current_host := (case hcw_selected widget of None \<Rightarrow> None | Some row \<Rightarrow> Some (snd (hcw_rows widget ! row)))\<rparr>"

definition select_row :: "nat option \<Rightarrow> host_chooser_widget \<Rightarrow> host_chooser_widget" where
  "select_row row widget = on_host_selected (widget\<lparr>hcw_selected := row\<rparr>)"

text \<open>A missing description is printed as the C library prints a null pointer.\<close>

definition browser_add_host :: "chooser_env \<Rightarrow> nat \<Rightarrow> chooser_host \<Rightarrow> host_chooser_widget \<Rightarrow> host_chooser_widget" where
  "browser_add_host env i host widget =
     (if \<not> ch_willing host then widget
      else let desc = (case ch_description host of None \<Rightarrow> ''(null)'' | Some s \<Rightarrow> che_escape env s);
               label = ''<b>'' @ che_escape env (chooser_hostname env (ch_address host)) @ ''</b>'' @ [CHR 0x0A] @ desc;
               widget = widget\<lparr>hcw_rows := hcw_rows widget @ [(label, i)]\<rparr>
           in if hcw_selected widget = None then select_row (Some (length (hcw_rows widget) - 1)) widget else widget)"

section \<open>Packets received\<close>

text \<open>The text of an array: at most 256 bytes, up to the first zero. An array without bytes is a null pointer.\<close>

definition status_text :: "u8 list \<Rightarrow> string option" where
  "status_text stat = (if stat = [] then None else Some (map (\<lambda>b. char_of (unat b)) (takeWhile (\<lambda>b. b \<noteq> 0) (take 256 stat))))"

definition set_willing :: "nat \<Rightarrow> host_chooser_widget \<Rightarrow> host_chooser_widget" where
  "set_willing i widget =
     widget\<lparr>hcw_chooser_hosts := map (\<lambda>(j, h). (j, if j = i then h\<lparr>ch_willing := True\<rparr> else h)) (hcw_chooser_hosts widget)\<rparr>"

text \<open>The state of a known host is changed after it would have been shown, so that it is not.\<close>

definition host_answered :: "chooser_env \<Rightarrow> address \<Rightarrow> bool \<Rightarrow> string option \<Rightarrow> host_chooser_widget \<Rightarrow> host_chooser_widget" where
  "host_answered env address willing status widget =
     (case find_known_host env address widget of
        None \<Rightarrow>
          (let host = \<lparr>ch_address = address, ch_description = status, ch_kind = GDM_CHOOSER_HOST_KIND_XDMCP, ch_willing = willing\<rparr>;
               (i, widget) = chooser_host_add host widget
           in browser_add_host env i host widget)
      | Some (i, chooser_host) \<Rightarrow>
          if willing \<and> \<not> ch_willing chooser_host then set_willing i (browser_add_host env i chooser_host widget) else widget)"

text \<open>A packet: its header, and what the three reads of a \<open>WILLING\<close> packet give.\<close>

definition decode_packet_chooser ::
  "chooser_env \<Rightarrow> bool \<Rightarrow> (incoming \<times> u8 list option \<times> u8 list option \<times> u8 list option) option \<Rightarrow>
   host_chooser_widget \<Rightarrow> host_chooser_widget" where
  "decode_packet_chooser env readable p widget =
     (if \<not> readable then widget
      else (case p of
              None \<Rightarrow> widget
            | Some (i, auth, host, stat) \<Rightarrow>
                if in_version i \<noteq> XDM_PROTOCOL_VERSION \<and> in_version i \<noteq> GDM_XDMCP_PROTOCOL_VERSION then widget
                else (case scdm_address_new_from_sockaddr (in_from i) (in_size i) of
                        None \<Rightarrow> widget
                      | Some address \<Rightarrow>
                          if in_opcode i = WILLING
                          then (case (auth, host, stat) of
                                  (Some _, Some _, Some stat) \<Rightarrow> host_answered env address True (status_text stat) widget
                                | _ \<Rightarrow> widget)
                          else if in_opcode i = UNWILLING then host_answered env address False None widget
                          else widget)))"

section \<open>Packets sent\<close>

definition do_ping :: "bool \<Rightarrow> host_chooser_widget \<Rightarrow> host_chooser_widget" where
  "do_ping full widget =
     widget\<lparr>hcw_log := hcw_log widget @ map (hcw_broadcast_buf widget) (hcw_broadcast_addresses widget) @
       (if full then map (hcw_query_buf widget) (hcw_query_addresses widget) else [])\<rparr>"

text \<open>The timer; the result tells whether it goes on.\<close>

definition ping_try :: "host_chooser_widget \<Rightarrow> bool \<times> host_chooser_widget" where
  "ping_try widget =
     (let widget = do_ping False widget;
          widget = widget\<lparr>hcw_ping_tries := hcw_ping_tries widget - 1\<rparr>
      in if hcw_ping_tries widget \<le> 0 then (False, widget\<lparr>hcw_ping_try := False\<rparr>) else (True, widget))"

definition xdmcp_discover :: "host_chooser_widget \<Rightarrow> host_chooser_widget" where
  "xdmcp_discover widget = (do_ping True widget)\<lparr>hcw_ping_tries := PING_TRIES - 1, hcw_ping_try := True\<rparr>"

text \<open>The interfaces that are up and can broadcast; the kernel fills in at most 64.\<close>

definition broadcast_address :: "if_entry \<Rightarrow> address list" where
  "broadcast_address ifr =
     (if ife_name ifr = [] then []
      else (case (case ife_flags ifr of None \<Rightarrow> (False, False) | Some flags \<Rightarrow> flags) of
              (up, broadcast) \<Rightarrow>
                if \<not> up \<or> \<not> broadcast then []
                else (case ife_broadaddr ifr of
                        None \<Rightarrow> []
                      | Some sin \<Rightarrow>
                          (case scdm_address_new_from_sockaddr (sin\<lparr>sin_port := of_int XDM_UDP_PORT\<rparr>) 16 of
                             None \<Rightarrow> []
                           | Some address \<Rightarrow> [address]))))"

definition find_broadcast_addresses :: "chooser_env \<Rightarrow> host_chooser_widget \<Rightarrow> host_chooser_widget" where
  "find_broadcast_addresses env widget =
     (case che_ifconf env of
        None \<Rightarrow> widget
      | Some ifs \<Rightarrow>
          widget\<lparr>hcw_broadcast_addresses := hcw_broadcast_addresses widget @ concat (map broadcast_address (take 64 ifs))\<rparr>)"

definition add_host :: "chooser_env \<Rightarrow> string \<Rightarrow> host_chooser_widget \<Rightarrow> host_chooser_widget" where
  "add_host env name widget =
     (if name = ''BROADCAST'' then find_broadcast_addresses env widget
      else if name = ''MULTICAST'' then widget
      else (case che_getaddrinfo env name of
              None \<Rightarrow> widget
            | Some result \<Rightarrow>
                widget\<lparr>hcw_query_addresses := hcw_query_addresses widget @
                  List.map_filter (\<lambda>(a, len). scdm_address_new_from_sockaddr a len) result\<rparr>))"

definition add_hosts :: "chooser_env \<Rightarrow> host_chooser_widget \<Rightarrow> host_chooser_widget" where
  "add_hosts env widget =
     (let widget = (case hcw_hosts widget of None \<Rightarrow> widget | Some names \<Rightarrow> fold (add_host env) names widget)
      in if hcw_broadcast_addresses widget = [] \<and> hcw_query_addresses widget = []
         then find_broadcast_addresses env widget else widget)"

definition query_packet :: "u16 \<Rightarrow> prepared_packet" where
  "query_packet opcode a =
     \<lparr>pk_to = a, pk_opcode = opcode, pk_version = XDM_PROTOCOL_VERSION, pk_length = 1, pk_fields = [ARRAYofARRAY8 []]\<rparr>"

definition xdmcp_init :: "chooser_env \<Rightarrow> host_chooser_widget \<Rightarrow> host_chooser_widget" where
  "xdmcp_init env widget =
     (let fd = (if che_ipv6 env then che_socket6 env else -1);
          widget = widget\<lparr>hcw_socket_fd := fd, hcw_have_ipv6 := hcw_have_ipv6 widget \<or> fd \<noteq> -1\<rparr>;
          widget = (if hcw_have_ipv6 widget then widget else widget\<lparr>hcw_socket_fd := che_socket4 env\<rparr>);
          widget = widget\<lparr>hcw_broadcast_buf := query_packet BROADCAST_QUERY, hcw_query_buf := query_packet QUERY\<rparr>
      in (add_hosts env widget)\<lparr>hcw_io_watch := True\<rparr>)"

section \<open>The widget\<close>

definition scdm_host_chooser_widget_refresh :: "host_chooser_widget \<Rightarrow> host_chooser_widget" where
  "scdm_host_chooser_widget_refresh widget = xdmcp_discover widget"

definition scdm_host_chooser_widget_get_host :: "host_chooser_widget \<Rightarrow> chooser_host option" where
  "scdm_host_chooser_widget_get_host widget =
     (case hcw_current_host widget of None \<Rightarrow> None | Some i \<Rightarrow> map_of (hcw_chooser_hosts widget) i)"

definition scdm_host_chooser_widget_constructor :: "chooser_env \<Rightarrow> int \<Rightarrow> host_chooser_widget" where
  "scdm_host_chooser_widget_constructor env kind_mask = xdmcp_discover (xdmcp_init env (scdm_host_chooser_widget_init kind_mask))"

text \<open>The watch of the socket and the timer stay.\<close>

definition scdm_host_chooser_widget_dispose :: "host_chooser_widget \<Rightarrow> host_chooser_widget" where
  "scdm_host_chooser_widget_dispose widget =
     widget\<lparr>hcw_broadcast_addresses := [], hcw_query_addresses := [], hcw_chooser_hosts := [], hcw_current_host := None\<rparr>"

section \<open>The dialog\<close>

datatype dialog_response = RESPONSE_APPLY | RESPONSE_OK | RESPONSE_CANCEL | RESPONSE_OTHER

definition scdm_host_chooser_dialog_get_host :: "host_chooser_widget \<Rightarrow> chooser_host option" where
  "scdm_host_chooser_dialog_get_host dialog = scdm_host_chooser_widget_get_host dialog"

definition scdm_host_chooser_dialog_constructor :: "chooser_env \<Rightarrow> int \<Rightarrow> host_chooser_widget" where
  "scdm_host_chooser_dialog_constructor env kind_mask = scdm_host_chooser_widget_constructor env kind_mask"

text \<open>The dialog's own handler comes first; the result tells whether the others are called.\<close>

definition on_response :: "dialog_response \<Rightarrow> host_chooser_widget \<Rightarrow> bool \<times> host_chooser_widget" where
  "on_response response_id dialog =
     (if response_id = RESPONSE_APPLY then (False, scdm_host_chooser_widget_refresh dialog) else (True, dialog))"

section \<open>The session of the chooser\<close>

datatype chooser_effect = SpawnCommand string | SelectHostnameCall nat string | DisconnectCall nat

record chooser_session =
  cs_client :: client
  cs_remote_greeter :: "nat option"
  cs_chooser :: "nat option"
  cs_dialog :: "host_chooser_widget option"
  cs_log :: "chooser_effect list"

definition cemit :: "chooser_effect list \<Rightarrow> chooser_session \<Rightarrow> chooser_session" where
  "cemit fx s = s\<lparr>cs_log := cs_log s @ fx\<rparr>"

text \<open>\<open>spawn\<close> tells whether a command can be started.\<close>

definition launch_compiz :: "(string \<Rightarrow> bool) \<Rightarrow> chooser_session \<Rightarrow> bool \<times> chooser_session" where
  "launch_compiz spawn s =
     (if \<not> spawn ''gtk-window-decorator --replace'' then (False, s)
      else let s = cemit [SpawnCommand ''gtk-window-decorator --replace''] s
           in if \<not> spawn ''compiz --replace'' then (False, s) else (True, cemit [SpawnCommand ''compiz --replace''] s))"

definition launch_metacity :: "(string \<Rightarrow> bool) \<Rightarrow> chooser_session \<Rightarrow> bool \<times> chooser_session" where
  "launch_metacity spawn s =
     (if \<not> spawn ''metacity --replace'' then (False, s) else (True, cemit [SpawnCommand ''metacity --replace''] s))"

definition start_window_manager :: "(string \<Rightarrow> bool) \<Rightarrow> chooser_session \<Rightarrow> chooser_session" where
  "start_window_manager spawn s = (case launch_metacity spawn s of (True, s) \<Rightarrow> s | (False, s) \<Rightarrow> snd (launch_compiz spawn s))"

definition start_settings_daemon :: "string \<Rightarrow> (string \<Rightarrow> bool) \<Rightarrow> chooser_session \<Rightarrow> bool \<times> chooser_session" where
  "start_settings_daemon settings_daemon_dir spawn s =
     (let command = settings_daemon_dir @ ''/scarecrow-settings-daemon''
      in if \<not> spawn command then (False, s) else (True, cemit [SpawnCommand command] s))"

text \<open>The host name of a host that has none is the empty string, not a null pointer. \<open>None\<close> is the failed assertion, or an
  object that is missing.\<close>

definition on_dialog_response :: "chooser_env \<Rightarrow> dialog_response \<Rightarrow> chooser_session \<Rightarrow> chooser_session option" where
  "on_dialog_response env response_id s =
     (case (cs_dialog s, cs_chooser s, cs_remote_greeter s) of
        (Some dialog, Some chooser, Some remote_greeter) \<Rightarrow>
          (case (if response_id = RESPONSE_OK then scdm_host_chooser_dialog_get_host dialog else None) of
             None \<Rightarrow> Some (cemit [DisconnectCall remote_greeter] s)
           | Some host \<Rightarrow>
               if ch_kind host \<noteq> GDM_CHOOSER_HOST_KIND_XDMCP then None
               else let hostname = snd (scdm_address_get_hostname (che_hostname env) (ch_address host))
                    in Some (cemit [SelectHostnameCall chooser hostname, DisconnectCall remote_greeter] s))
      | _ \<Rightarrow> None)"

text \<open>A response of the dialog, with both handlers.\<close>

definition dialog_responds :: "chooser_env \<Rightarrow> dialog_response \<Rightarrow> chooser_session \<Rightarrow> chooser_session option" where
  "dialog_responds env response_id s =
     (case cs_dialog s of
        None \<Rightarrow> None
      | Some dialog \<Rightarrow>
          (case on_response response_id dialog of
             (goes_on, dialog) \<Rightarrow>
               let s = s\<lparr>cs_dialog := Some dialog\<rparr> in if goes_on then on_dialog_response env response_id s else Some s))"

definition scdm_chooser_session_start ::
  "chooser_env \<Rightarrow> client_env \<Rightarrow> string \<Rightarrow> (string \<Rightarrow> bool) \<Rightarrow> chooser_session \<Rightarrow> bool \<times> chooser_session" where
  "scdm_chooser_session_start env cenv settings_daemon_dir spawn s =
     (case scdm_client_get_remote_greeter_sync cenv (cs_client s) of
        (Inl e, c) \<Rightarrow> (False, s\<lparr>cs_client := c\<rparr>)
      | (Inr g, c) \<Rightarrow>
          (let s = s\<lparr>cs_client := c, cs_remote_greeter := Some g\<rparr>
           in case scdm_client_get_chooser_sync cenv c of
                (Inl e, c) \<Rightarrow> (False, s\<lparr>cs_client := c\<rparr>)
              | (Inr p, c) \<Rightarrow>
                  (let s = s\<lparr>cs_client := c, cs_chooser := Some p\<rparr>;
                       s = start_window_manager spawn (snd (start_settings_daemon settings_daemon_dir spawn s))
                   in (True, s\<lparr>cs_dialog := Some (scdm_host_chooser_dialog_constructor env GDM_CHOOSER_HOST_KIND_XDMCP)\<rparr>))))"

definition scdm_chooser_session_init :: "client option \<Rightarrow> chooser_session" where
  "scdm_chooser_session_init client_object =
     \<lparr>cs_client = scdm_client_new client_object, cs_remote_greeter = None, cs_chooser = None, cs_dialog = None, cs_log = []\<rparr>"

text \<open>The session gives up its uses of the objects.\<close>

definition scdm_chooser_session_finalize :: "chooser_session \<Rightarrow> chooser_session" where
  "scdm_chooser_session_finalize s =
     s\<lparr>cs_client := free_interface_skeleton (cs_remote_greeter s) (free_interface_skeleton (cs_chooser s) (cs_client s)),
       cs_chooser := None, cs_remote_greeter := None\<rparr>"

section \<open>The programs\<close>

text \<open>\<open>g_strsplit\<close> at colons.\<close>

fun split_colons :: "string \<Rightarrow> string list" where
  "split_colons [] = [[]]"
| "split_colons (c # s) = (if c = CHR '':'' then [] # split_colons s
     else (case split_colons s of [] \<Rightarrow> [[c]] | w # ws \<Rightarrow> (c # w) # ws))"

definition strsplit_colons :: "string \<Rightarrow> string list" where
  "strsplit_colons s = (if s = [] then [] else split_colons s)"

text \<open>The new value of \<open>GTK_MODULES\<close>.\<close>

definition at_set_gtk_modules :: "string option \<Rightarrow> string" where
  "at_set_gtk_modules old =
     (let modules_list = (case old of None \<Rightarrow> [] | Some s \<Rightarrow> rev (strsplit_colons s));
          found_gail = (''gail'' \<in> set modules_list);
          found_atk_bridge = (''atk-bridge'' \<in> set modules_list);
          modules_list = (if \<not> found_gail then ''gail'' # modules_list else modules_list);
          modules_list = (if \<not> found_atk_bridge then ''atk-bridge'' # modules_list else modules_list)
      in join_names '':'' (rev modules_list))"

text \<open>The other program prints the name.\<close>

definition host_chooser_output :: "chooser_env \<Rightarrow> dialog_response \<Rightarrow> host_chooser_widget \<Rightarrow> string option" where
  "host_chooser_output env response_id chooser =
     (if response_id = RESPONSE_OK
      then map_option (\<lambda>host. ''hostname: '' @ snd (scdm_address_get_hostname (che_hostname env) (ch_address host)) @ [CHR 0x0A])
             (scdm_host_chooser_dialog_get_host chooser)
      else None)"

end
