(* ===== verification/Host_Chooser_Props.thy ===== *)
theory Host_Chooser_Props
  imports Host_Chooser Xdmcp_Facts
begin

text \<open>
  The host chooser: what its list shows, what it never shows, and how it works together with the factories that answer it and
  with the daemon that is told the host.
\<close>

section \<open>The list\<close>

text \<open>What may happen to a widget while its program runs; the user selects rows.\<close>

inductive chooser_step :: "chooser_env \<Rightarrow> host_chooser_widget \<Rightarrow> host_chooser_widget \<Rightarrow> bool" for env where
  packet: "chooser_step env w (decode_packet_chooser env readable p w)"
| ping: "hcw_ping_try w \<Longrightarrow> chooser_step env w (snd (ping_try w))"
| refresh: "chooser_step env w (scdm_host_chooser_widget_refresh w)"
| select: "row < length (hcw_rows w) \<Longrightarrow> chooser_step env w (select_row (Some row) w)"

inductive chooser_run :: "chooser_env \<Rightarrow> host_chooser_widget \<Rightarrow> bool" for env where
  start: "chooser_run env (scdm_host_chooser_widget_constructor env kind_mask)"
| step: "chooser_run env w \<Longrightarrow> chooser_step env w w' \<Longrightarrow> chooser_run env w'"

text \<open>Hosts are numbered downwards in the list; no two are the same host. Rows are for willing hosts, each at most once.\<close>

definition hosts_ok :: "chooser_env \<Rightarrow> (nat \<times> chooser_host) list \<Rightarrow> bool" where
  "hosts_ok env hosts \<longleftrightarrow> map fst hosts = rev [0..<length hosts] \<and>
     (\<forall>i h j g. (i, h) \<in> set hosts \<longrightarrow> (j, g) \<in> set hosts \<longrightarrow> i < j \<longrightarrow> \<not> address_hostnames_equal env (ch_address g) (ch_address h))"

definition rows_ok :: "(nat \<times> chooser_host) list \<Rightarrow> (string \<times> nat) list \<Rightarrow> bool" where
  "rows_ok hosts rows \<longleftrightarrow> distinct (map snd rows) \<and> (\<forall>i \<in> snd ` set rows. \<exists>h. (i, h) \<in> set hosts \<and> ch_willing h)"

definition selection_ok :: "host_chooser_widget \<Rightarrow> bool" where
  "selection_ok w \<longleftrightarrow> (if hcw_rows w = [] then hcw_selected w = None \<and> hcw_current_host w = None
     else \<exists>r < length (hcw_rows w). hcw_selected w = Some r \<and> hcw_current_host w = Some (snd (hcw_rows w ! r)))"

definition list_ok :: "chooser_env \<Rightarrow> host_chooser_widget \<Rightarrow> bool" where
  "list_ok env w \<longleftrightarrow> hosts_ok env (hcw_chooser_hosts w) \<and> rows_ok (hcw_chooser_hosts w) (hcw_rows w) \<and> selection_ok w"

lemma list_ok_cong:
  "list_ok env w \<Longrightarrow> hcw_chooser_hosts w' = hcw_chooser_hosts w \<Longrightarrow> hcw_rows w' = hcw_rows w \<Longrightarrow> hcw_selected w' = hcw_selected w \<Longrightarrow>
   hcw_current_host w' = hcw_current_host w \<Longrightarrow> list_ok env w'"
  by (simp add: list_ok_def selection_ok_def)

lemma host_number:
  assumes "hosts_ok env hosts" "(i, h) \<in> set hosts"
  shows "i < length hosts"
proof -
  have "i \<in> set (map fst hosts)" using assms(2) by force
  moreover have "map fst hosts = rev [0..<length hosts]" using assms(1) by (simp add: hosts_ok_def)
  ultimately have "i \<in> set (rev [0..<length hosts])" by argo
  then show ?thesis by simp
qed

lemma list_ok_select: "list_ok env w \<Longrightarrow> row < length (hcw_rows w) \<Longrightarrow> list_ok env (select_row (Some row) w)"
  by (auto simp: list_ok_def selection_ok_def select_row_def on_host_selected_def)

text \<open>A new row.\<close>

definition row_label :: "chooser_env \<Rightarrow> chooser_host \<Rightarrow> string" where
  "row_label env h = ''<b>'' @ che_escape env (chooser_hostname env (ch_address h)) @ ''</b>'' @ [CHR 0x0A] @
     (case ch_description h of None \<Rightarrow> ''(null)'' | Some s \<Rightarrow> che_escape env s)"

lemma browser_add_host_willing:
  "ch_willing h \<Longrightarrow> browser_add_host env i h w =
     (let w' = w\<lparr>hcw_rows := hcw_rows w @ [(row_label env h, i)]\<rparr>
      in if hcw_selected w = None then select_row (Some (length (hcw_rows w))) w' else w')"
  by (simp add: browser_add_host_def row_label_def Let_def)

lemma list_ok_add_row:
  assumes "list_ok env w" "(i, h) \<in> set (hcw_chooser_hosts w)" "i \<notin> snd ` set (hcw_rows w)"
  shows "list_ok env (browser_add_host env i h w)"
proof (cases "ch_willing h")
  case False
  then show ?thesis using assms by (simp add: browser_add_host_def)
next
  case True
  let ?w = "w\<lparr>hcw_rows := hcw_rows w @ [(row_label env h, i)]\<rparr>"
  have r: "rows_ok (hcw_chooser_hosts w) (hcw_rows w @ [(row_label env h, i)])"
    using assms True by (auto simp: list_ok_def rows_ok_def)
  have "selection_ok (if hcw_selected w = None then select_row (Some (length (hcw_rows w))) ?w else ?w)"
    using assms(1) by (auto simp: list_ok_def selection_ok_def select_row_def on_host_selected_def nth_append split: if_splits)
  then show ?thesis using assms(1) r unfolding browser_add_host_willing [OF True] Let_def
    by (simp add: list_ok_def select_row_def on_host_selected_def)
qed

lemma list_ok_add_host:
  assumes "list_ok env w" "find_known_host env (ch_address h) w = None"
  shows "list_ok env (snd (chooser_host_add h w))"
proof -
  let ?hosts = "hcw_chooser_hosts w"
  have ok: "hosts_ok env ?hosts" using assms(1) by (simp add: list_ok_def)
  have new: "\<not> address_hostnames_equal env (ch_address h) (ch_address g)" if "(j, g) \<in> set ?hosts" for j g
    using assms(2) that by (auto simp: find_known_host_def find_None_iff)
  have "\<not> address_hostnames_equal env (ch_address g2) (ch_address g1)"
    if "(i, g1) \<in> set ((length ?hosts, h) # ?hosts)" "(j, g2) \<in> set ((length ?hosts, h) # ?hosts)" "i < j" for i g1 j g2
  proof (cases "j = length ?hosts")
    case True
    then have "(j, g2) \<notin> set ?hosts" using host_number [OF ok] by blast
    then have "g2 = h" using that(2) by simp
    moreover have "(i, g1) \<in> set ?hosts" using that(1,3) True by auto
    ultimately show ?thesis using new by blast
  next
    case False
    then have j: "(j, g2) \<in> set ?hosts" using that(2) by auto
    then have "(i, g1) \<in> set ?hosts" using that(1,3) host_number [OF ok j] by auto
    then show ?thesis using ok j that(3) unfolding hosts_ok_def by blast
  qed
  then have "hosts_ok env ((length ?hosts, h) # ?hosts)" using ok unfolding hosts_ok_def by simp
  moreover have "rows_ok ((length ?hosts, h) # ?hosts) (hcw_rows w)"
    using assms(1) by (auto simp: list_ok_def rows_ok_def)
  ultimately show ?thesis using assms(1) by (simp add: list_ok_def chooser_host_add_def Let_def selection_ok_def)
qed

lemma mapped_pairs: "(j, h) \<in> set (map (\<lambda>(j, g). (j, f j g)) l) \<longleftrightarrow> (\<exists>g. (j, g) \<in> set l \<and> h = f j g)"
  by (induction l) auto

lemma set_willing_hosts:
  "(j, h) \<in> set (hcw_chooser_hosts (set_willing i w)) \<longleftrightarrow>
   (\<exists>g. (j, g) \<in> set (hcw_chooser_hosts w) \<and> h = (if j = i then g\<lparr>ch_willing := True\<rparr> else g))"
  by (simp add: set_willing_def mapped_pairs [where f = "\<lambda>j h. if j = i then h\<lparr>ch_willing := True\<rparr> else h"] del: set_map)

lemma list_ok_set_willing:
  assumes "list_ok env w"
  shows "list_ok env (set_willing i w)"
proof -
  have f: "map fst (hcw_chooser_hosts (set_willing i w)) = map fst (hcw_chooser_hosts w)"
    "length (hcw_chooser_hosts (set_willing i w)) = length (hcw_chooser_hosts w)"
    by (auto simp: set_willing_def)
  have "\<not> address_hostnames_equal env (ch_address g) (ch_address h)"
    if kh: "(k, h) \<in> set (hcw_chooser_hosts (set_willing i w))" and jg: "(j, g) \<in> set (hcw_chooser_hosts (set_willing i w))" and "k < j"
    for k h j g
  proof -
    obtain h' g' where "(k, h') \<in> set (hcw_chooser_hosts w)" "ch_address h' = ch_address h"
      "(j, g') \<in> set (hcw_chooser_hosts w)" "ch_address g' = ch_address g"
      using kh jg unfolding set_willing_hosts by fastforce
    then show ?thesis using assms \<open>k < j\<close> unfolding list_ok_def hosts_ok_def by metis
  qed
  moreover have "map fst (hcw_chooser_hosts (set_willing i w)) = rev [0..<length (hcw_chooser_hosts (set_willing i w))]"
    unfolding f using assms by (simp add: list_ok_def hosts_ok_def)
  ultimately have "hosts_ok env (hcw_chooser_hosts (set_willing i w))" unfolding hosts_ok_def by (intro conjI allI impI)
  moreover have "\<exists>h. (j, h) \<in> set (hcw_chooser_hosts (set_willing i w)) \<and> ch_willing h" if jr: "j \<in> snd ` set (hcw_rows w)" for j
  proof -
    obtain h where h: "(j, h) \<in> set (hcw_chooser_hosts w)" "ch_willing h"
      using assms jr unfolding list_ok_def rows_ok_def by blast
    let ?h = "if j = i then h\<lparr>ch_willing := True\<rparr> else h"
    have "(j, ?h) \<in> set (hcw_chooser_hosts (set_willing i w))" unfolding set_willing_hosts using h(1) by (intro exI [of _ h]) simp
    moreover have "ch_willing ?h" using h(2) by simp
    ultimately show ?thesis by (intro exI conjI)
  qed
  then have "rows_ok (hcw_chooser_hosts (set_willing i w)) (hcw_rows (set_willing i w))"
    using assms unfolding list_ok_def rows_ok_def by (simp add: set_willing_def)
  moreover have "selection_ok (set_willing i w)" using assms by (simp add: list_ok_def selection_ok_def set_willing_def)
  ultimately show ?thesis by (simp add: list_ok_def)
qed

lemma list_ok_answered:
  assumes "list_ok env w"
  shows "list_ok env (host_answered env a willing status w)"
proof (cases "find_known_host env a w")
  case None
  let ?h = "\<lparr>ch_address = a, ch_description = status, ch_kind = GDM_CHOOSER_HOST_KIND_XDMCP, ch_willing = willing\<rparr>"
  let ?w = "snd (chooser_host_add ?h w)" and ?i = "length (hcw_chooser_hosts w)"
  have "list_ok env ?w" using list_ok_add_host [OF assms, of ?h] None by simp
  moreover have "(?i, ?h) \<in> set (hcw_chooser_hosts ?w)" by (simp add: chooser_host_add_def Let_def)
  moreover have "?i \<notin> snd ` set (hcw_rows ?w)"
    using assms host_number unfolding list_ok_def rows_ok_def by (fastforce simp: chooser_host_add_def Let_def)
  ultimately have "list_ok env (browser_add_host env ?i ?h ?w)" by (rule list_ok_add_row)
  then show ?thesis using None by (simp add: host_answered_def chooser_host_add_def Let_def)
next
  case (Some p)
  obtain i h where p: "p = (i, h)" by (cases p)
  show ?thesis
  proof (cases "willing \<and> \<not> ch_willing h")
    case True
    then have "host_answered env a willing status w = set_willing i w"
      using Some p by (simp add: host_answered_def browser_add_host_def)
    then show ?thesis using list_ok_set_willing [OF assms] by simp
  next
    case False
    then show ?thesis using assms Some p by (auto simp: host_answered_def)
  qed
qed

lemma list_ok_decode: "list_ok env w \<Longrightarrow> list_ok env (decode_packet_chooser env readable p w)"
  by (auto simp: decode_packet_chooser_def intro: list_ok_answered split: option.split)

lemma ping_frame:
  "hcw_chooser_hosts (do_ping full w) = hcw_chooser_hosts w" "hcw_rows (do_ping full w) = hcw_rows w"
  "hcw_selected (do_ping full w) = hcw_selected w" "hcw_current_host (do_ping full w) = hcw_current_host w"
  by (simp_all add: do_ping_def)

lemma list_ok_ping: "list_ok env w \<Longrightarrow> list_ok env (snd (ping_try w))"
  by (erule list_ok_cong) (simp_all add: ping_try_def ping_frame Let_def)

lemma list_ok_discover: "list_ok env w \<Longrightarrow> list_ok env (xdmcp_discover w)"
  by (erule list_ok_cong) (simp_all add: xdmcp_discover_def ping_frame)

lemma list_ok_step: "chooser_step env w w' \<Longrightarrow> list_ok env w \<Longrightarrow> list_ok env w'"
  by (induction rule: chooser_step.induct)
    (auto simp: scdm_host_chooser_widget_refresh_def intro: list_ok_decode list_ok_ping list_ok_discover list_ok_select)

text \<open>Finding addresses leaves the list alone.\<close>

lemma find_broadcast_frame:
  "hcw_chooser_hosts (find_broadcast_addresses env w) = hcw_chooser_hosts w" "hcw_rows (find_broadcast_addresses env w) = hcw_rows w"
  "hcw_selected (find_broadcast_addresses env w) = hcw_selected w"
  "hcw_current_host (find_broadcast_addresses env w) = hcw_current_host w"
  "hcw_hosts (find_broadcast_addresses env w) = hcw_hosts w"
  "hcw_broadcast_buf (find_broadcast_addresses env w) = hcw_broadcast_buf w"
  by (simp_all add: find_broadcast_addresses_def split: option.split)

text \<open>No list of hosts is ever given, so that hosts are looked for by broadcast.\<close>

lemma add_hosts_broadcast:
  "hcw_hosts w = None \<Longrightarrow> hcw_broadcast_addresses w = [] \<Longrightarrow> hcw_query_addresses w = [] \<Longrightarrow> add_hosts env w = find_broadcast_addresses env w"
  by (simp add: add_hosts_def)

lemma constructed:
  fixes env k
  defines "w \<equiv> scdm_host_chooser_widget_constructor env k"
  shows "hcw_chooser_hosts w = []" "hcw_rows w = []" "hcw_selected w = None" "hcw_current_host w = None"
    "hcw_broadcast_buf w = query_packet BROADCAST_QUERY"
  by (simp_all add: w_def scdm_host_chooser_widget_constructor_def xdmcp_init_def xdmcp_discover_def ping_frame Let_def
      scdm_host_chooser_widget_init_def add_hosts_broadcast find_broadcast_frame do_ping_def)

lemma chooser_run_ok: "chooser_run env w \<Longrightarrow> list_ok env w"
proof (induction rule: chooser_run.induct)
  case (start k)
  then show ?case by (simp add: list_ok_def hosts_ok_def rows_ok_def selection_ok_def constructed)
next
  case (step w w')
  show ?case by (rule list_ok_step [OF step.hyps(2) step.IH])
qed

lemma buffer_frame:
  "hcw_broadcast_buf (browser_add_host env i h w) = hcw_broadcast_buf w" "hcw_broadcast_buf (select_row r w) = hcw_broadcast_buf w"
  by (simp_all add: browser_add_host_def select_row_def on_host_selected_def Let_def)

lemma answered_buffer: "hcw_broadcast_buf (host_answered env a willing status w) = hcw_broadcast_buf w"
  by (simp add: host_answered_def chooser_host_add_def set_willing_def buffer_frame Let_def split: option.split prod.split)

lemma decode_buffer: "hcw_broadcast_buf (decode_packet_chooser env readable p w) = hcw_broadcast_buf w"
  by (simp add: decode_packet_chooser_def answered_buffer split: option.split prod.split)

lemma chooser_run_buffer: "chooser_run env w \<Longrightarrow> hcw_broadcast_buf w = query_packet BROADCAST_QUERY"
proof (induction rule: chooser_run.induct)
  case (start k)
  then show ?case by (simp add: constructed)
next
  case (step w w')
  have "hcw_broadcast_buf w' = hcw_broadcast_buf w" using step.hyps(2)
    by (induction rule: chooser_step.induct)
      (simp_all add: scdm_host_chooser_widget_refresh_def xdmcp_discover_def ping_try_def do_ping_def Let_def buffer_frame decode_buffer)
  then show ?case using step.IH by simp
qed

text \<open>C20. The list of the chooser: whatever packets come in, each row is for a host that is willing, no host has two rows, no two
  of the known hosts have equal addresses or names, and as soon as there is a row one is selected, whose host is the one
  that the dialog gives.\<close>

theorem chooser_list:
  assumes "chooser_run env w"
  shows "distinct (map snd (hcw_rows w)) \<and> (\<forall>(label, i) \<in> set (hcw_rows w). \<exists>h. map_of (hcw_chooser_hosts w) i = Some h \<and> ch_willing h) \<and>
    (\<forall>i j g h. map_of (hcw_chooser_hosts w) i = Some g \<longrightarrow> map_of (hcw_chooser_hosts w) j = Some h \<longrightarrow> i < j \<longrightarrow>
       \<not> address_hostnames_equal env (ch_address h) (ch_address g)) \<and>
    (case scdm_host_chooser_widget_get_host w of
       None \<Rightarrow> hcw_rows w = []
     | Some h \<Rightarrow> \<exists>r < length (hcw_rows w). hcw_selected w = Some r \<and> map_of (hcw_chooser_hosts w) (snd (hcw_rows w ! r)) = Some h)"
proof -
  have ok: "hosts_ok env (hcw_chooser_hosts w)" "rows_ok (hcw_chooser_hosts w) (hcw_rows w)" "selection_ok w"
    using chooser_run_ok [OF assms] by (simp_all add: list_ok_def)
  have "distinct (map fst (hcw_chooser_hosts w))" using ok(1) unfolding hosts_ok_def by (metis distinct_rev distinct_upt)
  then have m: "(i, h) \<in> set (hcw_chooser_hosts w) \<longleftrightarrow> map_of (hcw_chooser_hosts w) i = Some h" for i h by simp
  have rows: "\<exists>h. map_of (hcw_chooser_hosts w) i = Some h \<and> ch_willing h" if "(label, i) \<in> set (hcw_rows w)" for label i
  proof -
    have "i \<in> snd ` set (hcw_rows w)" using that by force
    then show ?thesis using ok(2) unfolding rows_ok_def m by blast
  qed
  have "case scdm_host_chooser_widget_get_host w of None \<Rightarrow> hcw_rows w = []
     | Some h \<Rightarrow> \<exists>r < length (hcw_rows w). hcw_selected w = Some r \<and> map_of (hcw_chooser_hosts w) (snd (hcw_rows w ! r)) = Some h"
  proof (cases "hcw_rows w = []")
    case True
    then show ?thesis using ok(3) by (simp add: selection_ok_def scdm_host_chooser_widget_get_host_def)
  next
    case False
    then obtain r where r: "r < length (hcw_rows w)" "hcw_selected w = Some r" "hcw_current_host w = Some (snd (hcw_rows w ! r))"
      using ok(3) by (auto simp: selection_ok_def)
    then obtain h where "map_of (hcw_chooser_hosts w) (snd (hcw_rows w ! r)) = Some h" using rows nth_mem by (metis prod.collapse)
    then show ?thesis using r by (simp add: scdm_host_chooser_widget_get_host_def)
  qed
  then show ?thesis using ok(1,2) rows unfolding hosts_ok_def rows_ok_def m by blast
qed

section \<open>Hosts that were unwilling\<close>

text \<open>A host that is known and not shown.\<close>

definition not_shown :: "nat \<Rightarrow> host_chooser_widget \<Rightarrow> bool" where
  "not_shown i w \<longleftrightarrow> i < length (hcw_chooser_hosts w) \<and> i \<notin> snd ` set (hcw_rows w)"

lemma not_shown_answered:
  assumes "list_ok env w" "not_shown i w"
  shows "not_shown i (host_answered env a willing status w)"
proof (cases "find_known_host env a w")
  case None
  then show ?thesis using assms(2)
    by (auto simp: host_answered_def chooser_host_add_def browser_add_host_def not_shown_def select_row_def on_host_selected_def Let_def
        split: if_splits)
next
  case (Some p)
  then show ?thesis using assms(2)
    by (auto simp: host_answered_def browser_add_host_def not_shown_def set_willing_def split: prod.split)
qed

lemma not_shown_step: "chooser_step env w w' \<Longrightarrow> list_ok env w \<Longrightarrow> not_shown i w \<Longrightarrow> not_shown i w'"
proof (induction rule: chooser_step.induct)
  case (packet w readable p)
  then show ?case by (auto simp: decode_packet_chooser_def intro: not_shown_answered split: option.split)
next
  case (ping w)
  then show ?case by (simp add: not_shown_def ping_try_def ping_frame Let_def)
next
  case (refresh w)
  then show ?case by (simp add: not_shown_def scdm_host_chooser_widget_refresh_def xdmcp_discover_def ping_frame)
next
  case (select row w)
  then show ?case by (simp add: not_shown_def select_row_def on_host_selected_def)
qed

lemma not_shown_steps:
  assumes "(chooser_step env)\<^sup>*\<^sup>* w w'" "list_ok env w" "not_shown i w"
  shows "not_shown i w' \<and> list_ok env w'"
  using assms
proof (induction rule: rtranclp_induct)
  case (step v v')
  then show ?case using not_shown_step list_ok_step by blast
qed simp

definition unwilling_from :: "address \<Rightarrow> incoming" where
  "unwilling_from a = \<lparr>in_from = a, in_size = 28, in_version = XDM_PROTOCOL_VERSION, in_opcode = UNWILLING, in_length = 0\<rparr>"

text \<open>C19. A host whose first answer is \<open>UNWILLING\<close> is never offered: it is known from then on, and whatever answers come later, also
  those of the host itself that it is willing after all, no row is for it.\<close>

theorem unwilling_host_never_offered:
  assumes "chooser_run env w" "find_known_host env a w = None"
    and "(chooser_step env)\<^sup>*\<^sup>* (decode_packet_chooser env True (Some (unwilling_from a, reads)) w) w'"
  shows "length (hcw_chooser_hosts w) < length (hcw_chooser_hosts w') \<and> length (hcw_chooser_hosts w) \<notin> snd ` set (hcw_rows w')"
proof -
  let ?w = "decode_packet_chooser env True (Some (unwilling_from a, reads)) w"
  have ok: "list_ok env w" by (rule chooser_run_ok) (rule assms(1))
  have d: "?w = host_answered env a False None w"
    by (cases reads) (simp add: decode_packet_chooser_def unwilling_from_def scdm_address_new_from_sockaddr_def WILLING_def UNWILLING_def)
  have "length (hcw_chooser_hosts w) \<notin> snd ` set (hcw_rows w)"
    using ok host_number unfolding list_ok_def rows_ok_def by fastforce
  then have "not_shown (length (hcw_chooser_hosts w)) ?w"
    using assms(2) by (simp add: d host_answered_def chooser_host_add_def browser_add_host_def not_shown_def Let_def)
  then show ?thesis using not_shown_steps [OF assms(3) list_ok_decode [OF ok]] by (simp add: not_shown_def)
qed

section \<open>The chooser and a factory\<close>

text \<open>A packet that arrives, and what is read from it.\<close>

definition delivered :: "address \<Rightarrow> nat \<Rightarrow> packet \<Rightarrow> incoming" where
  "delivered sender sz p = \<lparr>in_from = sender, in_size = sz, in_version = pk_version p, in_opcode = pk_opcode p, in_length = pk_length p\<rparr>"

definition names_read :: "packet \<Rightarrow> u8 list list option" where
  "names_read p = (case pk_fields p of [ARRAYofARRAY8 l] \<Rightarrow> Some l | _ \<Rightarrow> None)"

definition willing_read :: "packet \<Rightarrow> u8 list option \<times> u8 list option \<times> u8 list option" where
  "willing_read p = (case pk_fields p of [ARRAY8 a, ARRAY8 b, ARRAY8 c] \<Rightarrow> (Some a, Some b, Some c) | _ \<Rightarrow> (None, None, None))"

lemma unat_of_char: "unat (of_char c :: u8) = of_char c"
proof -
  have "unat (of_nat (of_char c) :: u8) = of_char c mod 256" by (subst unat_of_nat) simp
  then show ?thesis unfolding of_nat_of_char by simp
qed

lemma status_text_array8:
  assumes "s \<noteq> []" "length s < 65536" "\<forall>c \<in> set s. of_char c \<noteq> (0::nat)"
  shows "status_text (array8 s) = Some (take 256 s)"
proof -
  have l: "unat (of_nat (length s) :: u16) = length s" using assms(2) by (simp add: unat_of_nat)
  have z: "(of_char c :: u8) \<noteq> 0" if "c \<in> set s" for c
    using assms(3) that by (metis unat_of_char unat_0)
  then have "takeWhile (\<lambda>b. b \<noteq> 0) (map of_char (take 256 s)) = (map of_char (take 256 s) :: u8 list)"
    unfolding takeWhile_eq_all_conv using z by (auto dest: in_set_takeD)
  moreover have "char_of (unat (of_char c :: u8)) = c" for c by (simp add: unat_of_char)
  ultimately show ?thesis using assms(1) by (simp add: status_text_def array8_def l take_map map_idI del: takeWhile_eq_all_conv)
qed

text \<open>What a factory answers to a query that it accepts.\<close>

definition status_lines :: "xfactory \<Rightarrow> string set" where
  "status_lines F = (let s = (case last_status F of None \<Rightarrow> ''(null)'' | Some s \<Rightarrow> s) in {s, s @ '' (Server is busy)''})"

lemma willing_packet:
  fixes F env a
  defines "F' \<equiv> scdm_xdmcp_send_willing env a F"
  shows "\<exists>p status. xlog F' \<noteq> [] \<and> last (xlog F') = Send p \<and> pk_to p = a \<and> pk_opcode p = WILLING \<and> pk_version p = XDM_PROTOCOL_VERSION \<and>
    willing_read p = (Some [], Some (array8 (servhost F')), Some (array8 status)) \<and>
    status \<in> status_lines F'"
proof -
  define F1 where "F1 = refresh_status env F"
  obtain l F2 where l: "is_local env a F1 = (l, F2)" by fastforce
  then have f: "last_status F2 = last_status F1" "servhost F2 = servhost F1" by (auto simp: is_local_def split: prod.splits)
  define s where "s = (case last_status F1 of None \<Rightarrow> ''(null)'' | Some s \<Rightarrow> s)"
  define t where "t = (if \<not> l \<and> of_nat (scdm_xdmcp_num_displays_from_host env F2 a) \<ge> max_displays_per_host F2
    then s @ '' (Server is busy)'' else s)"
  have F': "F' = send_packet a WILLING XDM_PROTOCOL_VERSION (6 + len8 [] + (len8 (array8 (servhost F2)) + len8 (array8 t)))
      [ARRAY8 [], ARRAY8 (array8 (servhost F2)), ARRAY8 (array8 t)] F2"
    unfolding F'_def by (simp add: scdm_xdmcp_send_willing_def l F1_def [symmetric] s_def [symmetric] t_def Let_def)
  show ?thesis unfolding F' by (auto simp: send_packet_def xemit_def willing_read_def status_lines_def f s_def [symmetric] t_def)
qed

text \<open>C11. The chooser and a factory that lets its terminal in: the factory answers the query that the chooser broadcasts, and the
  chooser, when it gets the answer and does not know the host yet, offers the host of the factory, with the status that the
  factory sent as its description. (A host that the chooser knows already from an answer that it is unwilling is never
  offered.)\<close>

theorem willing_host_offered:
  assumes "chooser_run ce w" "find_known_host ce h w = None"
    and "scdm_xdmcp_host_allow fe a" "16 \<le> sz" "sz \<le> 128" "16 \<le> sz'" "sz' \<le> 128"
    and "rd_authlist r = names_read (hcw_broadcast_buf w b)"
    and "decode_packet fe True (Some (delivered a sz (hcw_broadcast_buf w b), r)) F = Some F'"
  shows "\<exists>p status. last (xlog F') = Send p \<and> pk_to p = a \<and>
    status \<in> status_lines F' \<and>
    (let w' = decode_packet_chooser ce True (Some (delivered h sz' p, willing_read p)) w;
         host = \<lparr>ch_address = h, ch_description = status_text (array8 status), ch_kind = GDM_CHOOSER_HOST_KIND_XDMCP, ch_willing = True\<rparr>
     in \<exists>i. map_of (hcw_chooser_hosts w') i = Some host \<and> hcw_rows w' = hcw_rows w @ [(row_label ce host, i)])"
proof -
  have q: "hcw_broadcast_buf w b = query_packet BROADCAST_QUERY b" using chooser_run_buffer [OF assms(1)] by simp
  have "scdm_address_new_from_sockaddr a sz = Some a" using assms(4,5) by (simp add: scdm_address_new_from_sockaddr_def)
  then have F': "F' = scdm_xdmcp_send_willing fe a (snd (is_local fe a F))"
    using assms(3,8,9) unfolding q
    by (simp add: decode_packet_def delivered_def query_packet_def names_read_def dispatch_def scdm_xdmcp_handle_broadcast_query_def
        handle_direct_query_def authlist_len_def)
  obtain p status where p: "last (xlog F') = Send p" "pk_to p = a" "pk_opcode p = WILLING" "pk_version p = XDM_PROTOCOL_VERSION"
      "willing_read p = (Some [], Some (array8 (servhost F')), Some (array8 status))"
    and status: "status \<in> status_lines F'"
    using willing_packet [of fe a "snd (is_local fe a F)"] unfolding F' by auto
  let ?host = "\<lparr>ch_address = h, ch_description = status_text (array8 status), ch_kind = GDM_CHOOSER_HOST_KIND_XDMCP, ch_willing = True\<rparr>"
  have "decode_packet_chooser ce True (Some (delivered h sz' p, willing_read p)) w = host_answered ce h True (status_text (array8 status)) w"
    using p(3,4,5) assms(6,7) by (simp add: decode_packet_chooser_def delivered_def scdm_address_new_from_sockaddr_def)
  also have "\<dots> = browser_add_host ce (length (hcw_chooser_hosts w)) ?host (snd (chooser_host_add ?host w))"
    using assms(2) by (simp add: host_answered_def chooser_host_add_def Let_def)
  finally have w': "decode_packet_chooser ce True (Some (delivered h sz' p, willing_read p)) w = \<dots>" .
  have "map_of (hcw_chooser_hosts (decode_packet_chooser ce True (Some (delivered h sz' p, willing_read p)) w)) (length (hcw_chooser_hosts w)) = Some ?host"
    "hcw_rows (decode_packet_chooser ce True (Some (delivered h sz' p, willing_read p)) w) = hcw_rows w @ [(row_label ce ?host, length (hcw_chooser_hosts w))]"
    unfolding w' by (simp_all add: browser_add_host_willing chooser_host_add_def select_row_def on_host_selected_def Let_def)
  then show ?thesis using p(1,2) status by (intro exI [of _ p] exI [of _ status]) (auto simp: Let_def)
qed

section \<open>Looking for hosts\<close>

text \<open>A search broadcasts three times and then stops.\<close>

lemma search_ends:
  fixes w
  defines "b \<equiv> map (hcw_broadcast_buf w) (hcw_broadcast_addresses w)"
    and "w1 \<equiv> xdmcp_discover w"
  shows "hcw_ping_try w1" "hcw_ping_tries w1 = 2" "fst (ping_try w1)" "\<not> fst (ping_try (snd (ping_try w1)))"
    "\<not> hcw_ping_try (snd (ping_try (snd (ping_try w1))))"
    "hcw_log (snd (ping_try (snd (ping_try w1)))) = hcw_log w @ b @ map (hcw_query_buf w) (hcw_query_addresses w) @ b @ b"
  by (simp_all add: w1_def b_def xdmcp_discover_def ping_try_def do_ping_def PING_TRIES_def Let_def)

text \<open>The watch of the socket and the timer outlive the widget.\<close>

lemma dispose_leaves_sources:
  "hcw_io_watch (scdm_host_chooser_widget_dispose w) = hcw_io_watch w" "hcw_ping_try (scdm_host_chooser_widget_dispose w) = hcw_ping_try w"
  by (simp_all add: scdm_host_chooser_widget_dispose_def)

section \<open>The session of the chooser\<close>

text \<open>The two objects of a session are on one connection, for which the daemon is asked once.\<close>

lemma session_start_connection:
  assumes "scdm_chooser_session_start env cenv dir spawn (scdm_chooser_session_init None) = (True, s)"
  shows "gc_log (cs_client s) = [OpenSessionCall] \<and> cs_remote_greeter s = Some 0 \<and> cs_chooser s = Some 1 \<and>
    map_option px_connection (gc_proxies (cs_client s) 0) = Some 0 \<and> map_option px_connection (gc_proxies (cs_client s) 1) = Some 0"
proof -
  have wm: "cs_client (start_window_manager spawn x) = cs_client x \<and> cs_remote_greeter (start_window_manager spawn x) = cs_remote_greeter x \<and>
      cs_chooser (start_window_manager spawn x) = cs_chooser x" for x
    by (simp add: start_window_manager_def launch_metacity_def launch_compiz_def cemit_def Let_def)
  have sd: "cs_client (snd (start_settings_daemon dir spawn x)) = cs_client x \<and> cs_remote_greeter (snd (start_settings_daemon dir spawn x)) = cs_remote_greeter x \<and>
      cs_chooser (snd (start_settings_daemon dir spawn x)) = cs_chooser x" for x
    by (simp add: start_settings_daemon_def cemit_def Let_def)
  show ?thesis using assms
    by (auto simp: scdm_chooser_session_start_def scdm_chooser_session_init_def scdm_client_new_def empty_client_def
        scdm_client_get_remote_greeter_sync_def scdm_client_get_chooser_sync_def get_proxy_sync_def scdm_client_get_connection_sync_def
        scdm_client_get_open_connection_def new_connection_def new_proxy_def Let_def gemit_def wm sd
        split: sum.splits)
qed

text \<open>What a selection comes to: the daemon resolves the name that it is told.\<close>

definition chosen_address :: "xdmcp_env \<Rightarrow> string \<Rightarrow> u16 \<Rightarrow> address option" where
  "chosen_address env hostname family =
     (case xe_getaddrinfo env hostname XDM_UDP_PORT family of
        None \<Rightarrow> None
      | Some [] \<Rightarrow> None
      | Some ((a, sz) # _) \<Rightarrow> scdm_address_new_from_sockaddr a sz)"

lemma decode_cases:
  "decode_packet_chooser env readable p w = w \<or> (\<exists>a b st. decode_packet_chooser env readable p w = host_answered env a b st w)"
  unfolding decode_packet_chooser_def by (auto split: option.split)

lemma hosts_frame:
  "hcw_chooser_hosts (browser_add_host env i h w) = hcw_chooser_hosts w" "hcw_chooser_hosts (select_row r w) = hcw_chooser_hosts w"
  by (simp_all add: browser_add_host_def select_row_def on_host_selected_def Let_def)

lemma all_xdmcp:
  assumes "chooser_run env w"
  shows "\<forall>h \<in> snd ` set (hcw_chooser_hosts w). ch_kind h = GDM_CHOOSER_HOST_KIND_XDMCP"
  using assms
proof (induction rule: chooser_run.induct)
  case (start k)
  then show ?case by (simp add: constructed)
next
  case (step w w')
  have answered: "\<forall>h \<in> snd ` set (hcw_chooser_hosts (host_answered env a b st w)). ch_kind h = GDM_CHOOSER_HOST_KIND_XDMCP" for a b st
    using step.IH by (auto simp: host_answered_def chooser_host_add_def hosts_frame set_willing_hosts Let_def split: option.split)
      (metis image_eqI snd_conv)+
  show ?case using step.hyps(2)
  proof cases
    case (packet readable p)
    then show ?thesis using decode_cases [of env readable p w] step.IH answered by metis
  next
    case ping
    then show ?thesis using step.IH by (simp add: ping_try_def ping_frame Let_def)
  next
    case refresh
    then show ?thesis using step.IH by (simp add: scdm_host_chooser_widget_refresh_def xdmcp_discover_def ping_frame)
  next
    case (select row)
    then show ?thesis using step.IH by (simp add: hosts_frame)
  qed
qed

text \<open>C18. The chooser and the daemon: when the user connects, the name of the selected host goes to the daemon and the chooser
  asks to be disconnected. The factory then keeps, for the terminal, the first address of that name. A host that has no
  name is told by the empty name, not by its address, so that what the terminal gets is the first address of the empty
  name.\<close>

theorem selected_host_reaches_factory:
  assumes "chooser_run ce w" "cs_dialog s = Some w" "cs_chooser s = Some c" "cs_remote_greeter s = Some g"
    and "scdm_host_chooser_widget_get_host w = Some h" "xheap F oid = Some x"
    and "indirect_client_lookup fe (xd_remote_address x) F = (Some ic, F1)"
  shows "\<exists>s' F' name. dialog_responds ce RESPONSE_OK s = Some s' \<and>
    cs_log s' = cs_log s @ [SelectHostnameCall c name, DisconnectCall g] \<and>
    name = (case che_hostname ce (ch_address h) of Some n \<Rightarrow> n | None \<Rightarrow> []) \<and>
    on_hostname_selected fe oid name F = Some F' \<and>
    (\<forall>client \<in> set (indirect_clients F'). ic_ptr client = ic_ptr ic \<longrightarrow>
       ic_chosen_address client = chosen_address fe name (ss_family (xd_remote_address x)))"
proof -
  have "ch_kind h = GDM_CHOOSER_HOST_KIND_XDMCP"
    using all_xdmcp [OF assms(1)] assms(5)
    by (auto simp: scdm_host_chooser_widget_get_host_def split: option.splits dest!: map_of_SomeD)
  then show ?thesis using assms(2-7)
    by (auto simp: dialog_responds_def on_response_def on_dialog_response_def scdm_host_chooser_dialog_get_host_def cemit_def
        scdm_address_get_hostname_def on_hostname_selected_def chosen_address_def scdm_address_get_family_type_def Let_def
        split: option.split)
qed

section \<open>The modules of the programs\<close>

text \<open>The modules that are set are kept in their order; the two for accessibility follow when they are missing.\<close>

lemma gtk_modules:
  "at_set_gtk_modules old =
     (let modules = (case old of None \<Rightarrow> [] | Some s \<Rightarrow> strsplit_colons s)
      in join_names '':'' (modules @ filter (\<lambda>m. m \<notin> set modules) [''gail'', ''atk-bridge'']))"
  by (auto simp: at_set_gtk_modules_def Let_def split: option.split)

section \<open>Examples\<close>

definition example_interface :: if_entry where
  "example_interface = \<lparr>ife_name = ''eth0'', ife_flags = Some (True, True), ife_broadaddr = Some (inet 0 0x0a0000ff)\<rparr>"

definition example_cenv :: chooser_env where
  "example_cenv = \<lparr>che_ipv6 = True, che_socket6 = 5, che_socket4 = 6,
     che_hostname = (\<lambda>a. if a = example_host then Some ''host'' else None), che_nameinfo = (\<lambda>_. None),
     che_ifconf = Some [example_interface], che_getaddrinfo = (\<lambda>_. None), che_escape = id\<rparr>"

definition example_widget :: host_chooser_widget where
  "example_widget = scdm_host_chooser_widget_constructor example_cenv 1"

lemma example_widget_run: "chooser_run example_cenv example_widget"
  unfolding example_widget_def by (rule start)

lemma example_unknown: "find_known_host example_cenv a example_widget = None"
  by (simp add: find_known_host_def example_widget_def constructed)

definition willing_from :: "address \<Rightarrow> incoming" where
  "willing_from a = \<lparr>in_from = a, in_size = 16, in_version = XDM_PROTOCOL_VERSION, in_opcode = WILLING, in_length = 7\<rparr>"

definition found_widget :: host_chooser_widget where
  "found_widget = decode_packet_chooser example_cenv True (Some (willing_from example_host, Some [], Some [], Some [104])) example_widget"

lemma found_widget_run: "chooser_run example_cenv found_widget"
  unfolding found_widget_def by (rule chooser_run.step [OF example_widget_run packet])

definition found_host :: chooser_host where
  "found_host = \<lparr>ch_address = example_host, ch_description = Some ''h'', ch_kind = 1, ch_willing = True\<rparr>"

lemma char_of_104: "char_of (104 :: nat) = CHR ''h''"
  by code_simp

lemma example_widget_fields:
  "hcw_chooser_hosts example_widget = []" "hcw_rows example_widget = []" "hcw_selected example_widget = None"
  "hcw_broadcast_buf example_widget = query_packet BROADCAST_QUERY"
  by (simp_all add: example_widget_def constructed)

lemma found_label: "row_label example_cenv found_host = ''<b>host</b>'' @ [CHR 0x0A] @ ''h''"
  by (simp add: row_label_def example_cenv_def found_host_def chooser_hostname_def scdm_address_get_hostname_def)

lemma found_widget_host:
  "scdm_host_chooser_widget_get_host found_widget = Some found_host" "hcw_rows found_widget = [(''<b>host</b>'' @ [CHR 0x0A] @ ''h'', 0)]"
proof -
  have "found_widget = host_answered example_cenv example_host True (Some ''h'') example_widget"
    by (simp add: found_widget_def decode_packet_chooser_def willing_from_def scdm_address_new_from_sockaddr_def WILLING_def
        status_text_def char_of_104)
  also have "\<dots> = browser_add_host example_cenv 0 found_host (snd (chooser_host_add found_host example_widget))"
    by (simp add: host_answered_def example_unknown chooser_host_add_def example_widget_fields found_host_def
        GDM_CHOOSER_HOST_KIND_XDMCP_def Let_def)
  finally have e: "found_widget = \<dots>" .
  have "ch_willing found_host" by (simp add: found_host_def)
  then show "scdm_host_chooser_widget_get_host found_widget = Some found_host"
    "hcw_rows found_widget = [(''<b>host</b>'' @ [CHR 0x0A] @ ''h'', 0)]"
    unfolding e by (simp_all add: browser_add_host_willing found_label chooser_host_add_def example_widget_fields select_row_def
        on_host_selected_def scdm_host_chooser_widget_get_host_def Let_def)
qed

theorem chooser_list_witness:
  "scdm_host_chooser_widget_get_host found_widget = Some found_host \<and>
   (\<exists>r < 1. hcw_selected found_widget = Some r \<and> map_of (hcw_chooser_hosts found_widget) (snd (hcw_rows found_widget ! r)) = Some found_host)"
  using chooser_list [OF found_widget_run] found_widget_host by simp

text \<open>A host that was unwilling and now is willing.\<close>

definition late_widget :: host_chooser_widget where
  "late_widget = decode_packet_chooser example_cenv True (Some (willing_from example_host, Some [], Some [], Some [104]))
     (decode_packet_chooser example_cenv True (Some (unwilling_from example_host, None, None, None)) example_widget)"

theorem unwilling_host_never_offered_witness: "0 < length (hcw_chooser_hosts late_widget) \<and> 0 \<notin> snd ` set (hcw_rows late_widget)"
proof -
  have "(chooser_step example_cenv)\<^sup>*\<^sup>*
      (decode_packet_chooser example_cenv True (Some (unwilling_from example_host, None, None, None)) example_widget) late_widget"
    unfolding late_widget_def by (rule r_into_rtranclp) (rule packet)
  from unwilling_host_never_offered [OF example_widget_run example_unknown this]
  show ?thesis by (simp add: example_widget_fields)
qed

theorem willing_host_offered_witness:
  "\<exists>F' p status i. decode_packet example_xenv True (Some (delivered example_host 16 (hcw_broadcast_buf example_widget example_host), no_reads))
       example_factory = Some F' \<and> last (xlog F') = Send p \<and>
     hcw_rows (decode_packet_chooser example_cenv True (Some (delivered example_host 16 p, willing_read p)) example_widget) =
       [(row_label example_cenv \<lparr>ch_address = example_host, ch_description = status_text (array8 status),
          ch_kind = GDM_CHOOSER_HOST_KIND_XDMCP, ch_willing = True\<rparr>, i)]"
proof -
  note b = example_widget_fields(4)
  have a: "scdm_xdmcp_host_allow example_xenv example_host" by (simp add: scdm_xdmcp_host_allow_def xexample_simps inet_def)
  have r: "rd_authlist no_reads = names_read (hcw_broadcast_buf example_widget example_host)"
    by (simp add: b no_reads_def names_read_def query_packet_def)
  obtain F' where F': "decode_packet example_xenv True
      (Some (delivered example_host 16 (hcw_broadcast_buf example_widget example_host), no_reads)) example_factory = Some F'"
    by (simp add: decode_packet_def b delivered_def query_packet_def dispatch_def scdm_address_new_from_sockaddr_def)
  show ?thesis
    using willing_host_offered [OF example_widget_run example_unknown a _ _ _ _ r F', of 16 example_host] F'
    by (auto simp: Let_def example_widget_fields)
qed

text \<open>A terminal whose client is known.\<close>

definition indirect_factory :: xfactory where
  "indirect_factory = waiting_xfactory\<lparr>indirect_clients := [\<lparr>ic_ptr = 0, ic_dsp_address = example_host, ic_chosen_address = None, ic_acctime = 0\<rparr>]\<rparr>"

definition found_session :: chooser_session where
  "found_session = (scdm_chooser_session_init None)\<lparr>cs_dialog := Some found_widget, cs_chooser := Some 1, cs_remote_greeter := Some 0\<rparr>"

theorem selected_host_reaches_factory_witness:
  "\<exists>s' F'. dialog_responds example_cenv RESPONSE_OK found_session = Some s' \<and>
     cs_log s' = [SelectHostnameCall 1 ''host'', DisconnectCall 0] \<and> on_hostname_selected example_xenv 0 ''host'' indirect_factory = Some F'"
proof -
  obtain x where x: "xheap indirect_factory 0 = Some x" "xd_remote_address x = example_host"
    by (simp add: indirect_factory_def waiting_xfactory_def)
  have "indirect_client_lookup example_xenv (xd_remote_address x) indirect_factory =
      (Some \<lparr>ic_ptr = 0, ic_dsp_address = example_host, ic_chosen_address = None, ic_acctime = 0\<rparr>, indirect_factory)"
    using x(2) by (simp add: indirect_client_lookup_def indirect_factory_def example_host_def)
  from selected_host_reaches_factory [OF found_widget_run, of found_session 1 0 found_host, OF _ _ _ found_widget_host(1) x(1) this]
  show ?thesis by (auto simp: found_session_def found_host_def example_cenv_def scdm_chooser_session_init_def)
qed

end
