(* ===== verification/Spec2Isabelle.thy ===== *)
theory Spec2Isabelle
  imports Prelude Common_Process Common_Shell Common_Script Common_Login Display_Store Access_File
    Display Display_Facts Local_Factory Factory_Facts Address Xdmcp Xdmcp_Handlers Xdmcp_Facts
    Session_Settings Pam_Extensions Worker Worker_Session Worker_Requests Worker_Facts Worker_Props Worker_Child
    Worker_Job Session Session_Conversations Session_Handlers Session_Facts Session_Props Session_Start
    Manager_Home Manager Manager_Handlers Manager_Sessions Manager_Steps Manager_Facts Manager_Links Manager_Props
    Launch_Environment Launch_Props Session_Record Settings Settings_Props Server Server_Props
    X_Session Wayland_Session X_Session_Props Session_List Session_List_Props
    Client Client_Props Host_Chooser Host_Chooser_Props
begin

text \<open>
  Verification library of scdm, a display manager derived from GDM.

  \<^bold>\<open>The program.\<close> The daemon (\<open>src/daemon\<close>) keeps a store of displays
  (\<open>scdm-display-store.c\<close>). Two factories put displays into it and take them out: the
  local one (\<open>scdm-local-display-factory.c\<close>) makes one login display for each seat that
  systemd-logind knows, and the XDMCP one (\<open>scdm-xdmcp-display-factory.c\<close>) makes one for
  each X terminal that asks for it over UDP. A display (\<open>scdm-display.c\<close> and its four
  subclasses) prepares its X authority files (\<open>scdm-display-access-file.c\<close>), connects
  to its X server and runs a greeter. Each change of a display's status is a signal, and the
  factory that made the display reacts to it at once: it purges the store, retries, or counts
  failures. For each attempt to log in the daemon starts a session worker
  (\<open>scdm-session-worker.c\<close>), a process that obeys its requests: it holds the PAM
  conversation, from the set-up to the credentials, opens the session, forks the process of the
  user and waits for its end. A session of the daemon (\<open>scdm-session.c\<close>) leads its workers, one for
  each conversation, and serves the greeter; its workers are processes of \<open>scdm-session-worker-job.c\<close>.
  The manager (\<open>scdm-manager.c\<close>) ties them together: it gives each login display a session, starts the
  session of a user who has logged in, on the greeter's display or on one of its own, and answers the greeters on the
  system bus. A greeter is the one program of a session of its own, its launch environment
  (\<open>scdm-launch-environment.c\<close>); the X server of a display is a process of the daemon (\<open>scdm-server.c\<close>).
  \<open>src/common\<close> holds what all programs share, among it the settings (\<open>scdm-settings*.c\<close>).

  \<^bold>\<open>Theories.\<close>
  \<^item> \<open>Prelude\<close>: C types, errno values, wait statuses, GLib character tests, list lemmas.
  \<^item> \<open>Common_Process\<close>, \<open>Common_Shell\<close>, \<open>Common_Script\<close>,
    \<open>Common_Login\<close>: \<open>src/common/scdm-common.c\<close>. Waiting for children with
    bounded tries, reading random bytes, shell-like expansion, the environment and the result of
    scripts, the systemd-logind queries and the switch to a login session. A system call in a loop
    is the list of its answers, which the loop consumes.
  \<^item> \<open>Display_Store\<close>: \<open>scdm-display-store.c\<close>. The locale
    \<open>display_registry\<close> is the contract the factories rely on; \<open>store\<close> interprets
    it on the model of the code.
  \<^item> \<open>Access_File\<close>: \<open>scdm-display-access-file.c\<close>. Xau, the file system and the
    password file are arguments; what is done to files is a list of effects.
  \<^item> \<open>Display\<close>: \<open>scdm-display.c\<close>, \<open>scdm-local-display.c\<close>,
    \<open>scdm-legacy-display.c\<close>, \<open>scdm-xdmcp-display.c\<close> and
    \<open>scdm-xdmcp-chooser-display.c\<close>. A display is the record \<open>display\<close>, with the
    fields of \<open>ScdmDisplayPrivate\<close> its operations use; virtual methods are case
    distinctions on \<open>d_kind\<close>. \<open>display_step\<close> is any operation on a display.
    \<open>Display_Facts\<close>: which statuses each operation announces.
  \<^item> \<open>Local_Factory\<close>: \<open>scdm-local-display-factory.c\<close> and
    \<open>scdm-display-factory.c\<close>: X display numbers, \<open>create_display\<close>,
    \<open>on_display_status_changed\<close>, seats, virtual terminals, transient displays.
    \<open>Factory_Facts\<close>: its properties. The locale \<open>creation_invariant\<close> says what
    an invariant of the pieces of creation must satisfy to hold after creation and retries; it is
    interpreted on the invariants of the model.
  \<^item> \<open>Address\<close>: \<open>src/common/scdm-address.c\<close>.
  \<^item> \<open>Xdmcp\<close>: the state of \<open>scdm-xdmcp-display-factory.c\<close>, the packets it
    sends, and its lists. \<open>Xdmcp_Handlers\<close>: the handlers of received packets,
    of the chooser, of lost clients, and \<open>decode_packet\<close>. \<open>Xdmcp_Facts\<close>: the
    reachable states (\<open>xdmcp_step\<close>) and the properties.
  \<^item> \<open>Session_Settings\<close>: \<open>scdm-session-settings.c\<close>, the saved session
    and language of a user. \<open>Pam_Extensions\<close>: the macros of
    \<open>src/pam-extensions/scdm-pam-extensions.h\<close>.
  \<^item> \<open>Worker\<close>, \<open>Worker_Session\<close>, \<open>Worker_Requests\<close>:
    \<open>scdm-session-worker.c\<close>. The record \<open>worker\<close> is
    \<open>ScdmSessionWorkerPrivate\<close>; \<open>Worker\<close> has PAM, the conversation, the terminals
    and the steps up to the credentials, \<open>Worker_Session\<close> the files, logs and processes of
    a session, \<open>Worker_Requests\<close> the requests of the daemon and the changes of state they
    queue; \<open>worker_step\<close> is any of them. libpam is the record \<open>pam_lib\<close> over
    handles of any type. A module that talks to the user is a tree of messages and continuations
    (\<open>pam_run\<close>), which the worker's conversation function runs through.
    \<open>Worker_Facts\<close>: the reachable workers. \<open>Worker_Props\<close> and
    \<open>Worker_Child\<close>: the properties.
  \<^item> \<open>Worker_Job\<close>: \<open>scdm-session-worker-job.c\<close>, the process of a worker.
    \<open>Session\<close>, \<open>Session_Conversations\<close>, \<open>Session_Handlers\<close>:
    \<open>scdm-session.c\<close>. The record \<open>session\<close> is \<open>_ScdmSession\<close>, with its
    conversations in a heap; \<open>Session\<close> has the session files, the environment and the program,
    \<open>Session_Conversations\<close> the workers, the calls to them and the callbacks,
    \<open>Session_Handlers\<close> the requests of workers and clients; \<open>session_step\<close> is any of
    them, \<open>session_run\<close> a run with its events. \<open>Session_Facts\<close>: what every step keeps.
    \<open>Session_Props\<close> and \<open>Session_Start\<close>: the properties, with a login as an example.
  \<^item> \<open>Manager_Home\<close>, \<open>Manager\<close>, \<open>Manager_Handlers\<close>, \<open>Manager_Sessions\<close>,
    \<open>Manager_Steps\<close>: \<open>scdm-manager.c\<close>. The record \<open>manager\<close> is \<open>ScdmManagerPrivate\<close>
    with the heaps of displays and sessions; the data that the code attaches to objects by name are fields of
    \<open>managed_session\<close> and the map \<open>m_user_session_of\<close>. \<open>Manager\<close> has the callers of requests and the
    links of displays and sessions, \<open>Manager_Handlers\<close> the reactions to displays, \<open>Manager_Sessions\<close> those to
    sessions, the methods on the bus and the start of users' sessions, \<open>Manager_Steps\<close> start, stop and
    disposal, and \<open>manager_step\<close>, any step of a manager among its displays and sessions.
    \<open>Manager_Facts\<close> and \<open>Manager_Links\<close>: what every step keeps. \<open>Manager_Props\<close>: the properties.
    A handler of a display's status runs when the operation on the display is done, once for each status it announced;
    the signals of sessions are steps of their own.
  \<^item> \<open>Launch_Environment\<close> and \<open>Launch_Props\<close>: \<open>scdm-launch-environment.c\<close>, with the model of
    \<open>scdm-session.c\<close> below it. \<open>Session_Record\<close>: \<open>scdm-session-record.c\<close>.
    \<open>Server\<close> and \<open>Server_Props\<close>: \<open>scdm-server.c\<close>; \<open>server_process\<close> has the servers of the daemon,
    the list in which the thread that waits for \<open>SIGUSR1\<close> finds them, and the child watches, and \<open>server_step\<close>
    is what happens to them; what a new process does before it becomes the server is a list of calls.
  \<^item> \<open>X_Session\<close> and \<open>Wayland_Session\<close>: \<open>scdm-x-session.c\<close> and \<open>scdm-wayland-session.c\<close>, the
    programs that the worker runs around the session of a user. \<open>X_Session_Props\<close>: their properties; the locale
    \<open>session_program\<close> says what the end of such a program promises, and is interpreted on both.
  \<^item> \<open>Session_List\<close>: \<open>src/libscdm/scdm-sessions.c\<close>, the sessions that a greeter offers, read from the same
    \<open>session_world\<close> as the daemon's. \<open>Session_List_Props\<close>: its properties, over both programs.
  \<^item> \<open>Client\<close>: \<open>src/libscdm/scdm-client.c\<close>, the library of greeters. A request is a task; what it waits for is in the
    list \<open>gc_pending\<close>, and \<open>client_callback\<close> takes an answer to the callback of an operation. \<open>Client_Props\<close>: its
    properties.
  \<^item> \<open>Host_Chooser\<close>: \<open>src/chooser\<close>, with \<open>Client\<close> below it. \<open>Host_Chooser_Props\<close>: its properties, and how it works
    together with the XDMCP factory.
  \<^item> \<open>Settings\<close> and \<open>Settings_Props\<close>: \<open>scdm-settings.c\<close> and the files beside it. The locale
    \<open>settings_backend\<close> is the contract of a backend, interpreted on the key file backend.

  \<^bold>\<open>Conventions.\<close> Functions keep their names; a leading underscore is dropped, and a
  suffix tells apart the static functions of two files that share a name. Objects shared between
  structures (displays) live in a heap from numbers to records. Calls to X, D-Bus, systemd, the
  resolver, libXdmcp and the clock are arguments, collected in records of answers
  (\<open>local_env\<close>, \<open>xdmcp_env\<close>, \<open>fs_answers\<close>). Outside effects are
  appended to a log. Integers have the width of the code where they can wrap (\<open>u16\<close>,
  \<open>u32\<close>, \<open>u64\<close>). The end of the process (failed assertion, null pointer, exit) is
  \<open>None\<close>, or \<open>Exits\<close> where fuel is used.

  \<^bold>\<open>Fuel.\<close> Creating a local display announces statuses, whose handler may create
  another display. \<open>create_display\<close> and \<open>on_display_status_changed\<close> therefore
  take fuel. Each retry raises \<open>num_failures\<close>, and five failures stop the retries, so a bound
  that depends on nothing but that constant is enough; \<open>create_display_bounded\<close> shows it
  (21 levels), and that the process ends or a result is returned.

  \<^bold>\<open>What the lemmas show.\<close> Local factory: creation ends; each seat has at most one display
  that is to log in; the retry of a seat without multiple sessions finds the failed display and gives up;
  display numbers are fresh and the smallest. XDMCP: every packet sent, two excepted, has the
  length its header says; a host refused by the access control changes nothing; an accepted
  request can be managed; the lists and counters that are bounded, and those that are not.
  Displays: a status is announced only when it changes, and what unmanaging, self-destruction and
  disconnection do. Session worker: whatever the daemon requests and whatever the modules answer, the
  calls of PAM follow the protocol of a login (\<open>worker_refines_login_protocol\<close>: set-up,
  authentication, account check, credentials, session, each after the success of the one before);
  a conversation answers every message or none; an unknown user looks like a wrong password; the
  program of a session runs with the rights of its user only; environment files, advertised
  extensions and settings survive their round trips; and what happens to requests that come at the
  wrong time. Sessions: whatever clients and workers do, a worker is asked for the next step of a login only after it
  has reported the one before (\<open>login_calls_in_order\<close>, the counterpart of the worker's protocol); the table of
  conversations and the conversations alive agree; details and environment arrive at the worker, over the models of both
  programs; and how starts that fail, names that are unknown, and conversations that are replaced end the daemon.
  Manager: a display and its session always point to each other (\<open>sessions_and_displays_linked\<close>); who gets the address of a
  greeter's session, and how a stranger can unlock a session; a user who returns is switched to the session that runs;
  what the exit of a session does; failures that end the daemon.
  Launch environment: the variables that the worker is told for the greeter, and the program that follows them, are what
  \<open>program_variable\<close> says of each name, from the set-up through the start of the session; which of its failures the
  display never hears of. X server: its command line, what its process gives up before it runs and what it may keep, that exactly the display
  of the process that is ready is told, and what a stop leaves behind. Session programs: no process is
  left behind, the exit status, where each variable comes from, and the authority that the X server demands. Their main loop
  handles what is ready together in one turn, a list of events. Records: a logout closes its login. Settings: what is
  set is read back, is saved, and survives printing and parsing.
  Session list: no id or name twice, when the list is not returned at all, and when the daemon finds a command for what is
  offered.
  Client library: each request is answered, a program that waits has one connection. Chooser: what its list shows, that a
  factory that answers is offered, that the selected host is the one the factory keeps, and which hosts are never offered.
  Store: references are balanced. Authority files, addresses and
  the helpers of \<open>scdm-common.c\<close>: functional behaviour on every branch, errors included.

  \<^bold>\<open>Not modelled.\<close> GObject property plumbing, D-Bus skeletons, logging, main loops,
  the start of the daemon, the audit records, \<open>pam_scdm.c\<close>, the switch of users in \<open>src/libscdm\<close> and the small programs in
  \<open>src/utils\<close>, except for what they share with \<open>scdm-common.c\<close>. In the chooser: the accessibility registry, and widgets
  but for the list. In the session worker: the inner session of a reauthentication,
  the D-Bus connection, SELinux, and the builds for Solaris and with \<open>LOGINCAP\<close>. In sessions: the
  set-up of the D-Bus servers. In the manager: the registration of its bus object. Values of type
  \<open>double\<close> in the settings.
\<close>

end
